(* ===== verification/Prelude.thy ===== *)
theory Prelude
  imports Main "HOL-Library.AList"
begin

text \<open>
  Shared vocabulary of the development: Go strings as byte lists with the \<open>strings\<close> functions
  the runtime uses (TrimSpace, ToLower, HasPrefix, Contains, Join, Itoa), slices that
  distinguish \<open>nil\<close> from the empty slice, instants with their zero value, the first-failing-check
  chains of the \<open>Validate\<close> methods, first-match lookup and replacement on lists (the access
  pattern of every store), and the interface of a keyed store as a locale.
\<close>

named_theorems validate_defs \<open>definitions of the Validate methods\<close>
named_theorems store_defs \<open>definitions of the list stores\<close>

section \<open>Errors, slices and instants\<close>

text \<open>A Go \<open>error\<close> made by \<open>errors.New\<close> is its message; the \<open>nil\<close> error is \<open>None\<close>.\<close>

type_synonym error = string
type_synonym 'a slice = "'a list option"
type_synonym time = int
type_synonym clock = "nat \<Rightarrow> time"

text \<open>
  An operation that reads the wall clock takes a \<open>clock\<close>: its \<open>k\<close>-th call site reads
  \<open>ts k\<close>. Nothing is assumed about the readings, so two sites may read equal, later or earlier
  instants.
\<close>

definition IsZero :: "time \<Rightarrow> bool" where
  "IsZero t \<longleftrightarrow> t = 0"

definition elems :: "'a slice \<Rightarrow> 'a list" where
  "elems xs = (case xs of None \<Rightarrow> [] | Some ys \<Rightarrow> ys)"

lemma elems_simps [simp]: "elems None = []" "elems (Some xs) = xs"
  by (simp_all add: elems_def)

text \<open>A chain of \<open>if cond { return errors.New(msg) }\<close> statements.\<close>

fun first_error :: "(bool \<times> error) list \<Rightarrow> error option" where
  "first_error [] = None"
| "first_error ((b, m) # r) = (if b then Some m else first_error r)"

lemma first_error_None_iff: "first_error cs = None \<longleftrightarrow> list_all (\<lambda>c. \<not> fst c) cs"
  by (induction cs rule: first_error.induct) auto

lemma first_error_append:
  "first_error (xs @ ys) = (case first_error xs of None \<Rightarrow> first_error ys | Some m \<Rightarrow> Some m)"
  by (induction xs) auto

section \<open>Strings\<close>

text \<open>The UTF-8 encodings of the runes \<open>unicode.IsSpace\<close> accepts.\<close>

definition space_runes :: "string list" where
  "space_runes =
     [[CHR 0x20], [CHR 0x09], [CHR 0x0A], [CHR 0x0B], [CHR 0x0C], [CHR 0x0D],
      [CHR 0xC2, CHR 0x85], [CHR 0xC2, CHR 0xA0], [CHR 0xE1, CHR 0x9A, CHR 0x80],
      [CHR 0xE2, CHR 0x80, CHR 0x80], [CHR 0xE2, CHR 0x80, CHR 0x81],
      [CHR 0xE2, CHR 0x80, CHR 0x82], [CHR 0xE2, CHR 0x80, CHR 0x83],
      [CHR 0xE2, CHR 0x80, CHR 0x84], [CHR 0xE2, CHR 0x80, CHR 0x85],
      [CHR 0xE2, CHR 0x80, CHR 0x86], [CHR 0xE2, CHR 0x80, CHR 0x87],
      [CHR 0xE2, CHR 0x80, CHR 0x88], [CHR 0xE2, CHR 0x80, CHR 0x89],
      [CHR 0xE2, CHR 0x80, CHR 0x8A], [CHR 0xE2, CHR 0x80, CHR 0xA8],
      [CHR 0xE2, CHR 0x80, CHR 0xA9], [CHR 0xE2, CHR 0x80, CHR 0xAF],
      [CHR 0xE2, CHR 0x81, CHR 0x9F], [CHR 0xE3, CHR 0x80, CHR 0x80]]"

definition starts_with :: "string \<Rightarrow> string \<Rightarrow> bool" where
  "starts_with s w \<longleftrightarrow> take (length w) s = w"

function trim_by :: "string list \<Rightarrow> string \<Rightarrow> string" where
  "trim_by ws s =
     (case find (\<lambda>w. w \<noteq> [] \<and> starts_with s w) ws of
        None \<Rightarrow> s
      | Some w \<Rightarrow> trim_by ws (drop (length w) s))"
  by pat_completeness auto
termination
proof (relation "measure (\<lambda>(ws, s). length s)", simp)
  fix ws :: "string list" and s w
  assume "find (\<lambda>w. w \<noteq> [] \<and> starts_with s w) ws = Some w"
  then have "w \<noteq> []" "take (length w) s = w"
    by (auto simp: find_Some_iff starts_with_def)
  then show "((ws, drop (length w) s), ws, s) \<in> measure (\<lambda>(ws, s). length s)"
    by (cases s) auto
qed

declare trim_by.simps [simp del]

definition TrimSpace :: "string \<Rightarrow> string" where
  "TrimSpace s = rev (trim_by (map rev space_runes) (rev (trim_by space_runes s)))"

definition blank :: "string \<Rightarrow> bool" where
  "blank s \<longleftrightarrow> TrimSpace s = []"

text \<open>
  \<open>strings.ToLower\<close>: ASCII letters, and the two runes outside ASCII whose lower case is ASCII
  (U+0130 and U+212A). The case of other letters outside ASCII is kept. A comparison with an ASCII
  literal has the same outcome for every valid UTF-8 text; the search of observations, which folds
  both of its texts, is exact for texts whose letters outside ASCII have no case (Hangul, for example).
\<close>

definition lower_char :: "char \<Rightarrow> char" where
  "lower_char c =
     (let n = (of_char c :: nat) in if 65 \<le> n \<and> n \<le> 90 then char_of (n + 32) else c)"

fun ToLower :: "string \<Rightarrow> string" where
  "ToLower [] = []"
| "ToLower (c # s) =
     (if starts_with (c # s) [CHR 0xC4, CHR 0xB0] then CHR ''i'' # ToLower (drop 1 s)
      else if starts_with (c # s) [CHR 0xE2, CHR 0x84, CHR 0xAA] then CHR ''k'' # ToLower (drop 2 s)
      else lower_char c # ToLower s)"

fun contains_sub :: "string \<Rightarrow> string \<Rightarrow> bool" where
  "contains_sub [] w = (w = [])"
| "contains_sub (c # s) w = (starts_with (c # s) w \<or> contains_sub s w)"

fun join_with :: "string \<Rightarrow> string list \<Rightarrow> string" where
  "join_with sep [] = []"
| "join_with sep [x] = x"
| "join_with sep (x # y # xs) = x @ sep @ join_with sep (y # xs)"

text \<open>\<open>strings.Split\<close> with a one-byte separator.\<close>

fun split_on :: "char \<Rightarrow> string \<Rightarrow> string list" where
  "split_on c [] = [[]]"
| "split_on c (d # s) =
     (if d = c then [] # split_on c s
      else case split_on c s of [] \<Rightarrow> [[d]] | p # ps \<Rightarrow> (d # p) # ps)"

fun itoa_nat :: "nat \<Rightarrow> string" where
  "itoa_nat n = (if n < 10 then [char_of (48 + n)] else itoa_nat (n div 10) @ [char_of (48 + n mod 10)])"

declare itoa_nat.simps [simp del]

definition Itoa :: "int \<Rightarrow> string" where
  "Itoa i = (if i < 0 then ''-'' @ itoa_nat (nat (- i)) else itoa_nat (nat i))"

text \<open>UTF-8 encoding of a literal given by its code points (below U+10000).\<close>

definition utf8_rune :: "nat \<Rightarrow> string" where
  "utf8_rune n =
     (if n < 0x80 then [char_of n]
      else if n < 0x800 then [char_of (0xC0 + n div 64), char_of (0x80 + n mod 64)]
      else [char_of (0xE0 + n div 4096), char_of (0x80 + n div 64 mod 64), char_of (0x80 + n mod 64)])"

definition runes :: "nat list \<Rightarrow> string" where
  "runes ns = concat (map utf8_rune ns)"

subsection \<open>Trimming\<close>

lemma trim_by_unfold:
  "trim_by ws s =
     (case find (\<lambda>w. w \<noteq> [] \<and> starts_with s w) ws of
        None \<Rightarrow> s
      | Some w \<Rightarrow> trim_by ws (drop (length w) s))"
  by (rule trim_by.simps)

lemma trim_by_Nil [simp]: "trim_by ws [] = []"
proof -
  have "find (\<lambda>w. w \<noteq> [] \<and> starts_with [] w) ws = None"
    by (auto simp: find_None_iff starts_with_def)
  then show ?thesis by (subst trim_by_unfold) simp
qed

lemma trim_by_suffix: "\<exists>p. s = p @ trim_by ws s"
proof (induction ws s rule: trim_by.induct)
  case (1 ws s)
  show ?case
  proof (cases "find (\<lambda>w. w \<noteq> [] \<and> starts_with s w) ws")
    case None
    then show ?thesis by (subst trim_by_unfold) simp
  next
    case (Some w)
    with 1 obtain p where "drop (length w) s = p @ trim_by ws (drop (length w) s)" by blast
    then have "s = (take (length w) s @ p) @ trim_by ws (drop (length w) s)"
      by (metis append_take_drop_id append_assoc)
    moreover from Some have "trim_by ws s = trim_by ws (drop (length w) s)"
      by (subst trim_by_unfold) simp
    ultimately show ?thesis by metis
  qed
qed

text \<open>Nothing to trim is left: no rune of the list is a prefix of the result.\<close>

lemma trim_by_stop: "find (\<lambda>w. w \<noteq> [] \<and> starts_with (trim_by ws s) w) ws = None"
proof (induction ws s rule: trim_by.induct)
  case (1 ws s)
  show ?case
  proof (cases "find (\<lambda>w. w \<noteq> [] \<and> starts_with s w) ws")
    case None
    moreover from None have "trim_by ws s = s" by (subst trim_by_unfold) simp
    ultimately show ?thesis by simp
  next
    case (Some w)
    moreover from Some have "trim_by ws s = trim_by ws (drop (length w) s)"
      by (subst trim_by_unfold) simp
    ultimately show ?thesis using 1 by simp
  qed
qed

lemma trim_by_fixpoint: "find (\<lambda>w. w \<noteq> [] \<and> starts_with s w) ws = None \<Longrightarrow> trim_by ws s = s"
  by (subst trim_by_unfold) simp

lemma trim_by_idem [simp]: "trim_by ws (trim_by ws s) = trim_by ws s"
  by (rule trim_by_fixpoint) (rule trim_by_stop)

lemma starts_with_prefix: "starts_with p w \<Longrightarrow> starts_with (p @ q) w"
proof -
  assume "starts_with p w"
  then have "take (length w) p = w" by (simp add: starts_with_def)
  then have "length w \<le> length p" by (metis length_take min.cobounded1)
  with \<open>take (length w) p = w\<close> show ?thesis by (simp add: starts_with_def)
qed

lemma trim_by_prefix_fixpoint: "trim_by ws (p @ q) = p @ q \<Longrightarrow> trim_by ws p = p"
proof (rule trim_by_fixpoint)
  assume "trim_by ws (p @ q) = p @ q"
  with trim_by_stop [of "ws" "p @ q"]
  have "\<not> (\<exists>w \<in> set ws. w \<noteq> [] \<and> starts_with (p @ q) w)"
    by (simp add: find_None_iff)
  then show "find (\<lambda>w. w \<noteq> [] \<and> starts_with p w) ws = None"
    by (auto simp: find_None_iff intro: starts_with_prefix)
qed

lemma TrimSpace_Nil [simp]: "TrimSpace [] = []"
  by (simp add: TrimSpace_def)

lemma blank_Nil [simp]: "blank []"
  by (simp add: blank_def)

lemma TrimSpace_idem [simp]: "TrimSpace (TrimSpace s) = TrimSpace s"
proof -
  define l where "l = trim_by space_runes s"
  define r where "r = trim_by (map rev space_runes) (rev l)"
  obtain p where p: "rev l = p @ r" using trim_by_suffix r_def by blast
  then have l: "l = rev r @ rev p" by (metis rev_append rev_rev_ident)
  have "trim_by space_runes l = l" by (simp add: l_def)
  then have "trim_by space_runes (rev r) = rev r" unfolding l by (rule trim_by_prefix_fixpoint)
  moreover have "trim_by (map rev space_runes) r = r" by (simp add: r_def)
  moreover have "TrimSpace s = rev r" by (simp add: TrimSpace_def l_def r_def)
  ultimately show ?thesis by (simp add: TrimSpace_def)
qed

lemma blank_TrimSpace [simp]: "blank (TrimSpace s) = blank s"
  by (simp add: blank_def)

lemma set_trim_by: "set s - \<Union> (set ` set ws) \<subseteq> set (trim_by ws s)"
proof (induction ws s rule: trim_by.induct)
  case (1 ws s)
  show ?case
  proof (cases "find (\<lambda>w. w \<noteq> [] \<and> starts_with s w) ws")
    case None
    then show ?thesis by (subst trim_by_unfold) auto
  next
    case (Some w)
    then have w: "w \<in> set ws" "take (length w) s = w"
      by (auto simp: find_Some_iff starts_with_def)
    then have "set s = set w \<union> set (drop (length w) s)"
      by (metis append_take_drop_id set_append)
    moreover from Some have "trim_by ws s = trim_by ws (drop (length w) s)"
      by (subst trim_by_unfold) simp
    ultimately show ?thesis using 1 [OF Some] w(1) by auto
  qed
qed

text \<open>A byte that occurs in no white-space rune survives trimming, so the string is not blank.\<close>

definition ink :: "char \<Rightarrow> bool" where
  "ink c \<longleftrightarrow> c \<notin> \<Union> (set ` set space_runes)"

lemma not_blank_ink: "c \<in> set s \<Longrightarrow> ink c \<Longrightarrow> \<not> blank s"
proof
  assume c: "c \<in> set s" "ink c" and b: "blank s"
  have u: "\<Union> (set ` set (map rev space_runes)) = \<Union> (set ` set space_runes)" by auto
  have "c \<in> set (trim_by space_runes s)"
    using set_trim_by [of s space_runes] c by (auto simp: ink_def)
  then have "c \<in> set (rev (trim_by space_runes s)) - \<Union> (set ` set (map rev space_runes))"
    using c(2) unfolding u by (simp add: ink_def)
  then have "c \<in> set (trim_by (map rev space_runes) (rev (trim_by space_runes s)))"
    using set_trim_by by blast
  then have "c \<in> set (TrimSpace s)" by (simp add: TrimSpace_def)
  with b show False by (simp add: blank_def)
qed

lemma trim_by_ink:
  "\<forall>c \<in> set s. \<forall>w \<in> set ws. c \<notin> set w \<Longrightarrow> trim_by ws s = s"
proof (rule trim_by_fixpoint)
  assume ink: "\<forall>c \<in> set s. \<forall>w \<in> set ws. c \<notin> set w"
  have "\<not> starts_with s w" if "w \<in> set ws" "w \<noteq> []" for w
  proof
    assume sw: "starts_with s w"
    then have "set w \<subseteq> set s" unfolding starts_with_def by (metis set_take_subset)
    then have "hd w \<in> set s" using that(2) by auto
    then show False using ink that by (metis hd_in_set)
  qed
  then show "find (\<lambda>w. w \<noteq> [] \<and> starts_with s w) ws = None"
    by (auto simp: find_None_iff)
qed

lemma TrimSpace_ink: "\<forall>c \<in> set s. ink c \<Longrightarrow> TrimSpace s = s"
  by (simp add: TrimSpace_def trim_by_ink ink_def)

lemma ink_colon [simp]: "ink (CHR '':'')"
  by (simp add: ink_def space_runes_def)

text \<open>
  A string whose last white-space rune is cut off stays whole when it is put behind a byte that no
  white-space rune contains.
\<close>

lemma trim_by_append_ink:
  assumes "trim_by ws a = a" "\<forall>w \<in> set ws. c \<notin> set w"
  shows "trim_by ws (a @ c # b) = a @ c # b"
proof (rule trim_by_fixpoint)
  have "\<not> starts_with (a @ c # b) w" if w: "w \<in> set ws" "w \<noteq> []" for w
  proof
    assume sw: "starts_with (a @ c # b) w"
    show False
    proof (cases "length w \<le> length a")
      case True
      then have "starts_with a w" using sw by (simp add: starts_with_def)
      then show False using trim_by_stop [of ws a] assms(1) w by (auto simp: find_None_iff)
    next
      case False
      then have "c \<in> set (take (length w) (a @ c # b))" by (simp add: take_Cons')
      then have "c \<in> set w" using sw unfolding starts_with_def by metis
      then show False using assms(2) w(1) by blast
    qed
  qed
  then show "find (\<lambda>w. w \<noteq> [] \<and> starts_with (a @ c # b) w) ws = None" by (auto simp: find_None_iff)
qed

definition trimmed_right :: "string \<Rightarrow> bool" where
  "trimmed_right s \<longleftrightarrow> trim_by (map rev space_runes) (rev s) = rev s"

lemma trimmed_right_TrimSpace: "TrimSpace s = s \<Longrightarrow> trimmed_right s"
  unfolding trimmed_right_def TrimSpace_def by (metis rev_rev_ident trim_by_idem)

lemma trimmed_right_ink: "trimmed_right t \<Longrightarrow> ink c \<Longrightarrow> trimmed_right (a @ c # t)"
  using trim_by_append_ink [of "map rev space_runes" "rev t" c "rev a"] by (simp add: trimmed_right_def ink_def)

lemma TrimSpace_ink_cons:
  assumes "ink c" "trimmed_right (c # s)"
  shows "TrimSpace (c # s) = c # s"
proof -
  have "trim_by space_runes ([] @ c # s) = [] @ c # s"
    by (rule trim_by_append_ink) (use assms(1) in \<open>auto simp: ink_def\<close>)
  then show ?thesis using assms(2) by (simp add: TrimSpace_def trimmed_right_def)
qed

lemma trimmed_right_join:
  "\<forall>x \<in> set xs. trimmed_right x \<Longrightarrow> ink c \<Longrightarrow> trimmed_right (join_with [c] xs)"
  by (induction "[c]" xs rule: join_with.induct) (auto simp: trimmed_right_ink, simp add: trimmed_right_def)

text \<open>Trimming never removes a byte that is part of no space rune.\<close>

lemma trim_by_keeps: "\<forall>w \<in> set ws. c \<notin> set w \<Longrightarrow> c \<in> set s \<Longrightarrow> c \<in> set (trim_by ws s)"
proof (induction ws s rule: trim_by.induct)
  case (1 ws s)
  show ?case
  proof (cases "find (\<lambda>w. w \<noteq> [] \<and> starts_with s w) ws")
    case None
    then show ?thesis using 1 by (simp add: trim_by_fixpoint)
  next
    case (Some w)
    then have "w \<in> set ws" "take (length w) s = w" by (auto simp: find_Some_iff starts_with_def)
    then have "c \<in> set (drop (length w) s)" using 1 by (metis Un_iff append_take_drop_id set_append)
    then show ?thesis using 1 Some by (subst trim_by_unfold) simp
  qed
qed

lemma ink_stays: "ink c \<Longrightarrow> c \<in> set s \<Longrightarrow> c \<in> set (TrimSpace s)"
  using trim_by_keeps [of space_runes c s] trim_by_keeps [of "map rev space_runes" c "rev (trim_by space_runes s)"]
  by (simp add: TrimSpace_def ink_def)

text \<open>A line feed is part of no longer space rune, so a trimmed text after a line feed stays trimmed.\<close>

lemma trimmed_right_line:
  assumes "trimmed_right t" "t \<noteq> []"
  shows "trimmed_right (a @ CHR 0x0A # t)"
proof -
  let ?ws = "map rev space_runes"
  have runes: "list_all (\<lambda>w. CHR 0x0A \<in> set w \<longrightarrow> length w = 1) ?ws" by code_simp
  have "find (\<lambda>w. w \<noteq> [] \<and> starts_with (rev t) w) ?ws = None"
    using assms(1) trim_by_stop [of ?ws "rev t"] by (simp add: trimmed_right_def)
  then have none: "\<not> starts_with (rev t) w" if "w \<in> set ?ws" "w \<noteq> []" for w using that by (auto simp: find_None_iff)
  have "\<not> starts_with (rev t @ CHR 0x0A # rev a) w" if w: "w \<in> set ?ws" "w \<noteq> []" for w
  proof
    assume s: "starts_with (rev t @ CHR 0x0A # rev a) w"
    have "length (rev t) < length w" using s none [OF w] by (cases "length w \<le> length t") (auto simp: starts_with_def)
    then obtain k where k: "length w - length t = Suc k" "w = rev t @ take (length w - length t) (CHR 0x0A # rev a)"
      using s by (cases "length w - length t") (auto simp: starts_with_def)
    then have "w = rev t @ CHR 0x0A # take k (rev a)" by simp
    then have "CHR 0x0A \<in> set w \<and> length w \<noteq> 1" using assms(2) by (cases t) auto
    then show False using runes w(1) by (auto simp: list_all_iff)
  qed
  then have "find (\<lambda>w. w \<noteq> [] \<and> starts_with (rev t @ CHR 0x0A # rev a) w) ?ws = None" by (auto simp: find_None_iff)
  then show ?thesis by (simp add: trimmed_right_def trim_by_fixpoint)
qed

subsection \<open>Splitting and joining\<close>

lemma split_on_plain: "c \<notin> set s \<Longrightarrow> split_on c s = [s]"
  by (induction s) auto

lemma split_on_append: "c \<notin> set a \<Longrightarrow> split_on c (a @ c # b) = a # split_on c b"
  by (induction a) auto

lemma split_on_join: "xs \<noteq> [] \<Longrightarrow> \<forall>x \<in> set xs. c \<notin> set x \<Longrightarrow> split_on c (join_with [c] xs) = xs"
  by (induction "[c]" xs rule: join_with.induct) (auto simp: split_on_plain split_on_append)

lemma split_on_nonempty [simp]: "split_on c s \<noteq> []"
  by (induction s) (auto split: list.split)

lemma join_split_on: "join_with [c] (split_on c s) = s"
proof (induction s)
  case (Cons d s)
  obtain p ps where "split_on c s = p # ps" by (cases "split_on c s") auto
  with Cons show ?case by (cases ps) auto
qed simp

lemma split_on_free: "x \<in> set (split_on c s) \<Longrightarrow> c \<notin> set x"
  by (induction s arbitrary: x) (auto split: if_splits list.splits)

subsection \<open>Decimal numbers\<close>

lemma itoa_nat_digits: "\<forall>c \<in> set (itoa_nat n). 48 \<le> (of_char c :: nat) \<and> (of_char c :: nat) \<le> 57"
proof (induction n rule: itoa_nat.induct)
  case (1 n)
  show ?case
  proof (cases "n < 10")
    case True
    then show ?thesis by (subst itoa_nat.simps) simp
  next
    case False
    then have "set (itoa_nat n) = insert (char_of (48 + n mod 10)) (set (itoa_nat (n div 10)))"
      by (subst itoa_nat.simps) auto
    then show ?thesis using 1 False by auto
  qed
qed

lemma digit_value: "d < 10 \<Longrightarrow> (of_char (char_of (48 + d :: nat)) :: int) = 48 + int d"
proof -
  assume "d < 10"
  then have "(of_char (char_of (48 + d :: nat)) :: nat) = 48 + d" by simp
  then show ?thesis by (metis of_nat_add of_nat_numeral of_nat_of_char)
qed

lemma itoa_nat_value: "foldl (\<lambda>a c. 10 * a + ((of_char c :: int) - 48)) 0 (itoa_nat n) = int n"
proof (induction n rule: itoa_nat.induct)
  case (1 n)
  show ?case
  proof (cases "n < 10")
    case True
    then show ?thesis by (subst itoa_nat.simps) (simp add: digit_value)
  next
    case False
    then have "itoa_nat n = itoa_nat (n div 10) @ [char_of (48 + n mod 10)]" by (subst itoa_nat.simps) simp
    then show ?thesis using 1 False digit_value [of "n mod 10"] by (simp add: zdiv_int zmod_int)
  qed
qed

lemma itoa_nat_nonempty [simp]: "itoa_nat n \<noteq> []"
  by (subst itoa_nat.simps) simp

subsection \<open>Lower case\<close>

text \<open>\<open>lower_ok\<close> holds of the strings \<open>ToLower\<close> leaves alone; it is closed under infixes.\<close>

lemma TrimSpace_infix: "\<exists>a b. s = a @ TrimSpace s @ b"
proof -
  obtain p where p: "s = p @ trim_by space_runes s" using trim_by_suffix by blast
  obtain q where "rev (trim_by space_runes s) =
      q @ trim_by (map rev space_runes) (rev (trim_by space_runes s))"
    using trim_by_suffix by blast
  then have "trim_by space_runes s = TrimSpace s @ rev q"
    unfolding TrimSpace_def by (metis rev_append rev_rev_ident)
  with p show ?thesis by metis
qed

fun lower_ok :: "string \<Rightarrow> bool" where
  "lower_ok [] = True"
| "lower_ok (c # s) =
     (\<not> starts_with (c # s) [CHR 0xC4, CHR 0xB0] \<and> \<not> starts_with (c # s) [CHR 0xE2, CHR 0x84, CHR 0xAA] \<and>
      lower_char c = c \<and> lower_ok s)"

lemma ToLower_lower_ok: "lower_ok s \<Longrightarrow> ToLower s = s"
  by (induction s) auto

lemma lower_ok_suffix: "lower_ok (a @ b) \<Longrightarrow> lower_ok b"
  by (induction a) auto

lemma lower_ok_prefix: "lower_ok (a @ b) \<Longrightarrow> lower_ok a"
proof (induction a)
  case (Cons c a)
  then have "\<not> starts_with ((c # a) @ b) w" if "w \<in> {[CHR 0xC4, CHR 0xB0], [CHR 0xE2, CHR 0x84, CHR 0xAA]}" for w
    using that by auto
  then have "\<not> starts_with (c # a) w" if "w \<in> {[CHR 0xC4, CHR 0xB0], [CHR 0xE2, CHR 0x84, CHR 0xAA]}" for w
    using that starts_with_prefix by blast
  with Cons show ?case by simp
qed simp

lemma lower_char_of_char: "(of_char (lower_char c) :: nat) =
   (if 65 \<le> (of_char c :: nat) \<and> (of_char c :: nat) \<le> 90 then of_char c + 32 else of_char c)"
  by (auto simp: lower_char_def Let_def)

lemma lower_char_idem [simp]: "lower_char (lower_char c) = lower_char c"
  using lower_char_of_char [of c] by (auto simp: lower_char_def [of "lower_char c"] Let_def)

lemma char_eq_of_char: "c = d \<longleftrightarrow> (of_char c :: nat) = of_char d"
proof
  assume "(of_char c :: nat) = of_char d"
  then have "char_of (of_char c :: nat) = (char_of (of_char d :: nat) :: char)" by simp
  then show "c = d" by simp
qed simp

lemma lower_char_high: "128 \<le> (of_char d :: nat) \<Longrightarrow> lower_char c = d \<longleftrightarrow> c = d"
  unfolding char_eq_of_char lower_char_of_char by (auto split: if_splits)

lemma starts_with_Cons: "starts_with s (c # w) \<longleftrightarrow> (\<exists>t. s = c # t \<and> starts_with t w)"
  by (cases s) (auto simp: starts_with_def)

lemma starts_with_Nil [simp]: "starts_with s []"
  by (simp add: starts_with_def)

lemma hd_ToLower: "128 \<le> (of_char d :: nat) \<Longrightarrow> ToLower s = d # t \<Longrightarrow>
   \<exists>s'. s = d # s' \<and> ToLower s' = t"
proof (cases s)
  case (Cons c r)
  assume "128 \<le> (of_char d :: nat)" "ToLower s = d # t"
  moreover from this(1) have "d \<noteq> CHR ''i''" "d \<noteq> CHR ''k''" by auto
  ultimately show ?thesis using Cons lower_char_high [of d c] by (auto split: if_splits)
qed simp

lemma ToLower_no_special:
  "list_all (\<lambda>d. 128 \<le> (of_char d :: nat)) w \<Longrightarrow> starts_with (ToLower s) w \<Longrightarrow> starts_with s w"
proof (induction w arbitrary: s)
  case (Cons d w)
  then obtain t where "ToLower s = d # t" "starts_with t w" by (auto simp: starts_with_Cons)
  moreover from Cons.prems(1) have "128 \<le> (of_char d :: nat)" by simp
  ultimately obtain s' where s': "s = d # s'" "ToLower s' = t" using hd_ToLower by blast
  from Cons.prems(1) have "list_all (\<lambda>d. 128 \<le> (of_char d :: nat)) w" by simp
  from Cons.IH [OF this] s' \<open>starts_with t w\<close> show ?case by (simp add: starts_with_Cons)
qed simp

lemma lower_ok_ToLower: "lower_ok (ToLower s)"
proof (induction s rule: ToLower.induct)
  case 1
  then show ?case by simp
next
  case (2 c s)
  have n1: "\<not> starts_with (ToLower (c # s)) [CHR 0xC4, CHR 0xB0]" 
  proof
    assume "starts_with (ToLower (c # s)) [CHR 0xC4, CHR 0xB0]"
    then have "starts_with (c # s) [CHR 0xC4, CHR 0xB0]"
      by (rule ToLower_no_special [rotated]) simp
    then have "ToLower (c # s) = CHR ''i'' # ToLower (drop 1 s)" by simp
    with \<open>starts_with (ToLower (c # s)) [CHR 0xC4, CHR 0xB0]\<close> show False by (simp add: starts_with_Cons)
  qed
  have n2: "\<not> starts_with (ToLower (c # s)) [CHR 0xE2, CHR 0x84, CHR 0xAA]" 
  proof
    assume a: "starts_with (ToLower (c # s)) [CHR 0xE2, CHR 0x84, CHR 0xAA]"
    then have "starts_with (c # s) [CHR 0xE2, CHR 0x84, CHR 0xAA]"
      by (rule ToLower_no_special [rotated]) simp
    then have "ToLower (c # s) = CHR ''k'' # ToLower (drop 2 s)" by (simp add: starts_with_Cons)
    with a show False by (simp add: starts_with_Cons)
  qed
  show ?case
  proof (cases "starts_with (c # s) [CHR 0xC4, CHR 0xB0]")
    case True
    with 2(1) n1 n2 show ?thesis by (simp add: lower_char_def Let_def)
  next
    case False
    note f1 = this
    show ?thesis
    proof (cases "starts_with (c # s) [CHR 0xE2, CHR 0x84, CHR 0xAA]")
      case True
      with 2(2) f1 n1 n2 show ?thesis by (simp add: lower_char_def Let_def)
    next
      case False
      with 2(3) f1 n1 n2 show ?thesis by simp
    qed
  qed
qed

lemma ToLower_TrimSpace_ToLower [simp]: "ToLower (TrimSpace (ToLower s)) = TrimSpace (ToLower s)"
proof -
  obtain a b where "ToLower s = a @ TrimSpace (ToLower s) @ b" using TrimSpace_infix by blast
  with lower_ok_ToLower [of s] have "lower_ok (TrimSpace (ToLower s))"
    by (metis lower_ok_prefix lower_ok_suffix)
  then show ?thesis by (rule ToLower_lower_ok)
qed
section \<open>First-match access on lists\<close>

text \<open>
  Every store is a slice searched from the front: \<open>get\<close> returns the first element with the key,
  an update overwrites the first one.
\<close>

definition lookup :: "('a \<Rightarrow> string) \<Rightarrow> string \<Rightarrow> 'a list \<Rightarrow> 'a option" where
  "lookup key k xs = find (\<lambda>x. key x = k) xs"

fun replace_first :: "('a \<Rightarrow> bool) \<Rightarrow> 'a \<Rightarrow> 'a list \<Rightarrow> 'a list" where
  "replace_first P y [] = []"
| "replace_first P y (x # xs) = (if P x then y # xs else x # replace_first P y xs)"

lemma lookup_simps [simp]:
  "lookup key k [] = None"
  "lookup key k (x # xs) = (if key x = k then Some x else lookup key k xs)"
  by (simp_all add: lookup_def)

lemma lookup_append:
  "lookup key k (xs @ ys) = (case lookup key k xs of None \<Rightarrow> lookup key k ys | Some x \<Rightarrow> Some x)"
  by (induction xs) auto

lemma lookup_SomeD: "lookup key k xs = Some x \<Longrightarrow> x \<in> set xs \<and> key x = k"
  by (induction xs) (auto split: if_splits)

lemma lookup_None_iff: "lookup key k xs = None \<longleftrightarrow> k \<notin> key ` set xs"
  by (induction xs) auto

lemma lookup_replace_first:
  assumes "key y = k"
  shows "lookup key k' (replace_first (\<lambda>x. key x = k) y xs) =
           (if k' = k \<and> lookup key k xs \<noteq> None then Some y else lookup key k' xs)"
  using assms by (induction xs) auto

lemma map_replace_first:
  assumes "key y = k"
  shows "map key (replace_first (\<lambda>x. key x = k) y xs) = map key xs"
  using assms by (induction xs) auto

lemma set_replace_first: "set (replace_first P y xs) \<subseteq> insert y (set xs)"
  by (induction xs) auto

lemma length_replace_first [simp]: "length (replace_first P y xs) = length xs"
  by (induction xs) auto

lemma replace_first_id: "\<forall>x \<in> set xs. \<not> P x \<Longrightarrow> replace_first P y xs = xs"
  by (induction xs) auto

definition appendUniqueString :: "string list \<Rightarrow> string \<Rightarrow> string list" where
  "appendUniqueString items value = (if value \<in> set items then items else items @ [value])"

lemma set_appendUniqueString [simp]: "set (appendUniqueString xs v) = insert v (set xs)"
  by (auto simp: appendUniqueString_def)

lemma distinct_appendUniqueString: "distinct xs \<Longrightarrow> distinct (appendUniqueString xs v)"
  by (simp add: appendUniqueString_def)

lemma appendUniqueString_idem [simp]:
  "appendUniqueString (appendUniqueString xs v) v = appendUniqueString xs v"
  by (simp add: appendUniqueString_def)

definition normalizeRef :: "string option \<Rightarrow> string option" where
  "normalizeRef ref =
     (case ref of None \<Rightarrow> None | Some v \<Rightarrow> if blank v then None else Some (TrimSpace v))"

lemma normalizeRef_idem [simp]: "normalizeRef (normalizeRef r) = normalizeRef r"
  by (cases r) (auto simp: normalizeRef_def)

lemma normalizeRef_nonblank: "normalizeRef r = Some v \<Longrightarrow> \<not> blank v"
  by (cases r) (auto simp: normalizeRef_def split: if_splits)

text \<open>\<open>v != nil && strings.TrimSpace(*v) == ""\<close>, the check on optional references.\<close>

definition opt_blank :: "string option \<Rightarrow> bool" where
  "opt_blank r = (case r of None \<Rightarrow> False | Some v \<Rightarrow> blank v)"

text \<open>\<open>t == nil || t.IsZero()\<close>.\<close>

definition opt_zero :: "time option \<Rightarrow> bool" where
  "opt_zero t = (case t of None \<Rightarrow> True | Some v \<Rightarrow> IsZero v)"

lemma opt_simps [simp]:
  "opt_blank None = False" "opt_blank (Some v) = blank v"
  "opt_zero None = True" "opt_zero (Some t) = IsZero t"
  by (simp_all add: opt_blank_def opt_zero_def)

lemma opt_blank_normalizeRef [simp]: "opt_blank (normalizeRef r) = False"
  by (cases r) (auto simp: normalizeRef_def)

end
