(* ===== verification/Json_Value.thy ===== *)
theory Json_Value
  imports Prelude
begin

text \<open>
  The values a \<open>map[string]any\<close> carries (payloads, results, event data, release metrics) and the
  validator of json_value.go. A map is an association list; the order of its entries stands for
  the iteration order of one run, which decides only which of several errors is reported.
\<close>

datatype json =
    JNull
  | JBool bool
  | JString string
  | JInt int
  | JFloat int int        \<comment> \<open>a finite float: mantissa and binary exponent\<close>
  | JNonFinite            \<comment> \<open>NaN or an infinity\<close>
  | JArray "json list"
  | JObject "(string \<times> json) list"
  | JUnsupported string   \<comment> \<open>a Go value with no JSON form (channel, function), with its type\<close>

type_synonym jobject = "(string \<times> json) list"

fun validateJSONValue :: "json \<Rightarrow> string \<Rightarrow> error option"
  and validateJSONItems :: "json list \<Rightarrow> string \<Rightarrow> nat \<Rightarrow> error option"
  and validateJSONEntries :: "(string \<times> json) list \<Rightarrow> string \<Rightarrow> error option"
where
  "validateJSONValue JNull path = None"
| "validateJSONValue (JBool b) path = None"
| "validateJSONValue (JString s) path = None"
| "validateJSONValue (JInt i) path = None"
| "validateJSONValue (JFloat m e) path = None"
| "validateJSONValue JNonFinite path =
     Some ((if path = [] then ''value'' else path) @ '' contains non-finite number'')"
| "validateJSONValue (JArray vs) path =
     validateJSONItems vs (if path = [] then ''value'' else path) 0"
| "validateJSONValue (JObject kvs) path =
     validateJSONEntries kvs (if path = [] then ''value'' else path)"
| "validateJSONValue (JUnsupported ty) path =
     Some ((if path = [] then ''value'' else path) @ '' contains unsupported JSON value '' @ ty)"
| "validateJSONItems [] path i = None"
| "validateJSONItems (v # vs) path i =
     (case validateJSONValue v (path @ ''['' @ itoa_nat i @ '']'') of
        Some err \<Rightarrow> Some err
      | None \<Rightarrow> validateJSONItems vs path (Suc i))"
| "validateJSONEntries [] path = None"
| "validateJSONEntries ((k, v) # kvs) path =
     (if blank k then Some (path @ '' contains empty object key'')
      else case validateJSONValue v (path @ ''.'' @ k) of
             Some err \<Rightarrow> Some err
           | None \<Rightarrow> validateJSONEntries kvs path)"

definition validateJSONObject :: "jobject \<Rightarrow> string \<Rightarrow> error option" where
  "validateJSONObject value field = validateJSONValue (JObject value) field"

text \<open>What the validator accepts, independently of the path it reports.\<close>

fun json_ok :: "json \<Rightarrow> bool" where
  "json_ok JNonFinite = False"
| "json_ok (JUnsupported ty) = False"
| "json_ok (JArray vs) = list_all json_ok vs"
| "json_ok (JObject kvs) = list_all (\<lambda>kv. \<not> blank (fst kv) \<and> json_ok (snd kv)) kvs"
| "json_ok _ = True"

lemma validateJSON_ok:
  "validateJSONValue v p = None \<longleftrightarrow> json_ok v"
  "validateJSONItems vs p i = None \<longleftrightarrow> list_all json_ok vs"
  "validateJSONEntries kvs p = None \<longleftrightarrow> list_all (\<lambda>kv. \<not> blank (fst kv) \<and> json_ok (snd kv)) kvs"
  by (induction v p and vs p i and kvs p
      rule: validateJSONValue_validateJSONItems_validateJSONEntries.induct)
     (auto split: option.splits)

lemma validateJSONObject_ok:
  "validateJSONObject kvs p = None \<longleftrightarrow>
     list_all (\<lambda>kv. \<not> blank (fst kv) \<and> json_ok (snd kv)) kvs"
  by (simp add: validateJSONObject_def validateJSON_ok)

text \<open>
  \<open>cloneJSONObject\<close> marshals and unmarshals; on data the validator accepts, the copy is the value
  up to the number types, which the model does not distinguish; a non-finite number or an
  unsupported value makes the marshalling fail, and the clone is \<open>nil\<close>.
\<close>

fun json_marshals :: "json \<Rightarrow> bool" where
  "json_marshals JNonFinite = False"
| "json_marshals (JUnsupported ty) = False"
| "json_marshals (JArray vs) = list_all json_marshals vs"
| "json_marshals (JObject kvs) = list_all (\<lambda>kv. json_marshals (snd kv)) kvs"
| "json_marshals _ = True"

definition cloneJSONObject :: "jobject option \<Rightarrow> jobject option" where
  "cloneJSONObject value =
     (case value of None \<Rightarrow> None
      | Some kvs \<Rightarrow> if json_marshals (JObject kvs) then Some kvs else None)"

lemma json_ok_marshals: "json_ok v \<Longrightarrow> json_marshals v"
  by (induction v rule: json_ok.induct) (auto simp: list_all_iff)

lemma cloneJSONObject_valid:
  "validateJSONObject kvs p = None \<Longrightarrow> cloneJSONObject (Some kvs) = Some kvs"
  using json_ok_marshals [of "JObject kvs"]
  by (simp add: validateJSONObject_ok cloneJSONObject_def)

lemma list_all_update:
  "list_all (\<lambda>kv. P (fst kv) (snd kv)) kvs \<Longrightarrow> P k v \<Longrightarrow>
   list_all (\<lambda>kv. P (fst kv) (snd kv)) (AList.update k v kvs)"
  by (induction kvs) auto

end
