(* ===== verification/Workflow_Types.thy ===== *)
theory Workflow_Types
  imports Json_Value
begin

text \<open>
  The structs of types.go, types_workflow.go and the CompanyState of types_founder.go as
  records, with their status vocabularies and \<open>Validate\<close> methods. A field keeps the Go name
  behind a prefix naming its struct. A pointer is an \<open>option\<close>; a slice or map whose \<open>nil\<close> the
  code tests is a \<open>slice\<close> (or an optional map), any other slice is a list.
\<close>

section \<open>Stages, surfaces and status vocabularies\<close>

definition validStage :: "string \<Rightarrow> bool" where
  "validStage stage \<longleftrightarrow>
     stage \<in> {''discover'', ''compose'', ''experience'', ''verify'', ''release''}"

definition validSurface :: "string \<Rightarrow> bool" where
  "validSurface surface \<longleftrightarrow> surface \<in> {''cockpit'', ''telegram'', ''api''}"

definition validBranchStatus :: "string \<Rightarrow> bool" where
  "validBranchStatus status \<longleftrightarrow> status \<in> {''active'', ''merged'', ''archived''}"

definition validPreflightStatus :: "string \<Rightarrow> bool" where
  "validPreflightStatus status \<longleftrightarrow> status \<in> {''ready'', ''degraded-lite'', ''needs_clarification''}"

definition validPreflightDecision :: "string \<Rightarrow> bool" where
  "validPreflightDecision decision \<longleftrightarrow> decision \<in> {''go'', ''hold''}"

definition validPolicyScale :: "string \<Rightarrow> bool" where
  "validPolicyScale v \<longleftrightarrow> v \<in> {''low'', ''medium'', ''high''}"

definition validTokenClass :: "string \<Rightarrow> bool" where
  "validTokenClass v \<longleftrightarrow> v \<in> {''tiny'', ''small'', ''medium'', ''large''}"

definition canonicalPolicyMode :: "string \<Rightarrow> string" where
  "canonicalPolicyMode v = (if v = ''dual'' then ''single'' else v)"

definition validPolicyMode :: "string \<Rightarrow> bool" where
  "validPolicyMode v \<longleftrightarrow> canonicalPolicyMode v \<in> {''local'', ''single'', ''blocked''}"

definition validGatewayStatus :: "string \<Rightarrow> bool" where
  "validGatewayStatus v \<longleftrightarrow> v \<in> {''recorded'', ''sent'', ''failed''}"

definition validExecuteStatus :: "string \<Rightarrow> bool" where
  "validExecuteStatus v \<longleftrightarrow> v \<in> {''recorded'', ''succeeded'', ''failed''}"

definition validVerificationStatus :: "string \<Rightarrow> bool" where
  "validVerificationStatus status \<longleftrightarrow> status \<in> {''passed'', ''failed''}"

definition validRollbackStatus :: "string \<Rightarrow> bool" where
  "validRollbackStatus status \<longleftrightarrow> status \<in> {''recorded'', ''succeeded'', ''failed''}"

definition validFlowStatus :: "string \<Rightarrow> bool" where
  "validFlowStatus status \<longleftrightarrow>
     status \<in> {''active'', ''waiting'', ''released'', ''rolled_back'', ''blocked''}"

definition validApprovalStatus :: "string \<Rightarrow> bool" where
  "validApprovalStatus status \<longleftrightarrow> status \<in> {''pending'', ''approved'', ''rejected''}"

definition validDeployStatus :: "string \<Rightarrow> bool" where
  "validDeployStatus status \<longleftrightarrow> status \<in> {''succeeded'', ''failed''}"

definition IsAbs :: "string \<Rightarrow> bool" where
  "IsAbs path \<longleftrightarrow> starts_with path ''/''"

lemmas status_defs = validStage_def validSurface_def validBranchStatus_def validPreflightStatus_def
  validPreflightDecision_def validPolicyScale_def validTokenClass_def validPolicyMode_def
  validGatewayStatus_def validExecuteStatus_def validVerificationStatus_def
  validRollbackStatus_def validFlowStatus_def validApprovalStatus_def validDeployStatus_def

section \<open>Records\<close>

record SystemMemory =
  sm_CurrentFocus :: string
  sm_CurrentGoal :: "string option"
  sm_NextSteps :: "string slice"
  sm_OpenRisks :: "string slice"
  sm_HandoffNote :: "string option"
  sm_LastOperator :: "string option"
  sm_UpdatedAt :: time

record EventEnvelope =
  ev_EventID :: string
  ev_Kind :: string
  ev_Actor :: string
  ev_Surface :: string
  ev_WorkItemID :: string
  ev_Stage :: string
  ev_Timestamp :: time
  ev_Data :: "jobject option"

record CompanyState =
  cs_ShellMode :: string
  cs_ApprovalsPending :: int
  cs_WorkItemsActive :: int
  cs_LastReleaseAt :: "time option"
  cs_MemoryHealth :: string
  cs_DeployHealth :: string
  cs_PrimarySurface :: string
  cs_ActiveSurfaces :: "string list"

record WorkItem =
  wi_ID :: string
  wi_BranchID :: "string option"
  wi_Title :: string
  wi_Intent :: string
  wi_Stage :: string
  wi_Surface :: string
  wi_Pack :: string
  wi_Priority :: string
  wi_Risk :: string
  wi_RequiresApproval :: bool
  wi_Payload :: "jobject option"
  wi_CorrelationID :: string
  wi_CreatedAt :: time

record Branch =
  br_BranchID :: string
  br_ParentBranchID :: "string option"
  br_RootBranchID :: string
  br_Title :: string
  br_Intent :: string
  br_Summary :: string
  br_Stage :: string
  br_Surface :: string
  br_Status :: string
  br_BasisRef :: "string option"
  br_MergeTargetBranchID :: "string option"
  br_MergedAt :: "time option"
  br_Notes :: "string slice"
  br_CreatedAt :: time
  br_UpdatedAt :: time

record ApprovalItem =
  ap_ApprovalID :: string
  ap_WorkItemID :: string
  ap_Stage :: string
  ap_Summary :: string
  ap_Risks :: "string list"
  ap_RollbackPlan :: string
  ap_DecisionSurface :: string
  ap_Status :: string
  ap_RequestedAt :: time
  ap_ResolvedAt :: "time option"

record ReleasePacket =
  rp_ReleaseID :: string
  rp_WorkItemID :: string
  rp_Target :: string
  rp_Channel :: string
  rp_Artifacts :: "string slice"
  rp_Metrics :: "jobject option"
  rp_RollbackPlan :: string
  rp_ApprovalRefs :: "string slice"
  rp_ReleasedAt :: "time option"

record DeployRun =
  dr_DeployID :: string
  dr_ReleaseID :: string
  dr_Target :: string
  dr_Status :: string
  dr_Notes :: "string slice"
  dr_StartedAt :: time
  dr_FinishedAt :: "time option"

record RollbackRun =
  rr_RollbackID :: string
  rr_ReleaseID :: string
  rr_DeployID :: "string option"
  rr_Target :: string
  rr_Status :: string
  rr_Notes :: "string slice"
  rr_StartedAt :: time
  rr_FinishedAt :: "time option"

record FlowRun =
  fr_FlowID :: string
  fr_WorkItemID :: string
  fr_ApprovalID :: "string option"
  fr_PolicyDecisionID :: "string option"
  fr_ExecuteID :: "string option"
  fr_VerificationID :: "string option"
  fr_ReleaseID :: "string option"
  fr_DeployID :: "string option"
  fr_RollbackID :: "string option"
  fr_Status :: string
  fr_Notes :: "string slice"
  fr_CreatedAt :: time
  fr_UpdatedAt :: time

record DeployTarget =
  dt_TargetID :: string
  dt_Command :: "string list"
  dt_Workdir :: "string option"

record PreflightRecord =
  pf_RecordID :: string
  pf_Task :: string
  pf_Mode :: string
  pf_Status :: string
  pf_Decision :: string
  pf_ModelsUsed :: "string slice"
  pf_Steps :: "string slice"
  pf_Risks :: "string slice"
  pf_Checks :: "string slice"
  pf_GeneratedAt :: time

record PolicyDecision =
  pd_DecisionID :: string
  pd_Intent :: string
  pd_Scope :: string
  pd_Risk :: string
  pd_Novelty :: string
  pd_TokenClass :: string
  pd_RequiresApproval :: bool
  pd_Mode :: string
  pd_Decision :: string
  pd_Reasons :: "string slice"
  pd_CreatedAt :: time

record GatewayCall =
  gc_CallID :: string
  gc_DecisionID :: string
  gc_Provider :: string
  gc_Model :: string
  gc_RequestKind :: string
  gc_Status :: string
  gc_AttemptCount :: int
  gc_LastHTTPStatus :: "int option"
  gc_LastError :: "string option"
  gc_ResponsePreview :: "string option"
  gc_DispatchedAt :: "time option"
  gc_TokenBudget :: int
  gc_Notes :: "string slice"
  gc_CreatedAt :: time

record ExecuteRun =
  er_ExecuteID :: string
  er_WorkItemID :: string
  er_PolicyDecisionID :: string
  er_Mode :: string
  er_Status :: string
  er_Notes :: "string slice"
  er_StartedAt :: time
  er_FinishedAt :: "time option"

record VerificationRecord =
  vr_RecordID :: string
  vr_Scope :: string
  vr_Command :: "string list"
  vr_Status :: string
  vr_Notes :: "string slice"
  vr_StartedAt :: time
  vr_FinishedAt :: "time option"

section \<open>Validate methods\<close>

definition SystemMemory_Validate :: "SystemMemory \<Rightarrow> error option" where
  [validate_defs]: "SystemMemory_Validate m = first_error
    [(blank (sm_CurrentFocus m), ''system memory current_focus is required''),
     (sm_NextSteps m = None, ''system memory next_steps is required''),
     (sm_OpenRisks m = None, ''system memory open_risks is required''),
     (IsZero (sm_UpdatedAt m), ''system memory updated_at is required'')]"

text \<open>
  The trailing \<open>validateJSONObject\<close> of a validator runs once the checks before it have passed.
\<close>

definition then_json :: "error option \<Rightarrow> jobject option \<Rightarrow> string \<Rightarrow> error option" where
  "then_json prev value field =
     (case prev of Some err \<Rightarrow> Some err
      | None \<Rightarrow> (case value of None \<Rightarrow> None | Some kvs \<Rightarrow> validateJSONObject kvs field))"

lemma then_json_None_iff:
  "then_json prev value field = None \<longleftrightarrow>
     prev = None \<and> (\<forall>kvs. value = Some kvs \<longrightarrow> validateJSONObject kvs field = None)"
  by (auto simp: then_json_def split: option.splits)

definition EventEnvelope_Validate :: "EventEnvelope \<Rightarrow> error option" where
  [validate_defs]: "EventEnvelope_Validate e = then_json (first_error
    [(blank (ev_EventID e), ''event_id is required''),
     (blank (ev_Kind e), ''event kind is required''),
     (blank (ev_Actor e), ''event actor is required''),
     (\<not> validSurface (ev_Surface e), ''event surface is invalid''),
     (blank (ev_WorkItemID e), ''event work_item_id is required''),
     (\<not> validStage (ev_Stage e), ''event stage is invalid''),
     (IsZero (ev_Timestamp e), ''event timestamp is required''),
     (ev_Data e = None, ''event data is required'')])
    (ev_Data e) ''event data''"

definition WorkItem_Validate :: "WorkItem \<Rightarrow> error option" where
  [validate_defs]: "WorkItem_Validate w = then_json (first_error
    [(blank (wi_ID w), ''work item id is required''),
     (opt_blank (wi_BranchID w), ''work item branch_id must not be empty''),
     (blank (wi_Title w), ''work item title is required''),
     (blank (wi_Intent w), ''work item intent is required''),
     (\<not> validStage (wi_Stage w), ''work item stage is invalid''),
     (\<not> validSurface (wi_Surface w), ''work item surface is invalid''),
     (IsZero (wi_CreatedAt w), ''work item created_at is required''),
     (wi_Payload w = None, ''work item payload is required'')])
    (wi_Payload w) ''work item payload''"

definition Branch_Validate :: "Branch \<Rightarrow> error option" where
  [validate_defs]: "Branch_Validate b = first_error
    [(blank (br_BranchID b), ''branch branch_id is required''),
     (opt_blank (br_ParentBranchID b), ''branch parent_branch_id must not be empty''),
     (blank (br_RootBranchID b), ''branch root_branch_id is required''),
     (blank (br_Title b), ''branch title is required''),
     (blank (br_Intent b), ''branch intent is required''),
     (blank (br_Summary b), ''branch summary is required''),
     (\<not> validStage (br_Stage b), ''branch stage is invalid''),
     (\<not> validSurface (br_Surface b), ''branch surface is invalid''),
     (\<not> validBranchStatus (br_Status b), ''branch status is invalid''),
     (opt_blank (br_BasisRef b), ''branch basis_ref must not be empty''),
     (opt_blank (br_MergeTargetBranchID b), ''branch merge_target_branch_id must not be empty''),
     (br_Status b = ''merged'' \<and>
        (br_MergeTargetBranchID b = None \<or> opt_blank (br_MergeTargetBranchID b)),
      ''branch merge_target_branch_id is required for merged branch''),
     (br_Status b = ''merged'' \<and> opt_zero (br_MergedAt b),
      ''branch merged_at is required for merged branch''),
     (br_Notes b = None, ''branch notes are required''),
     (IsZero (br_CreatedAt b), ''branch created_at is required''),
     (IsZero (br_UpdatedAt b), ''branch updated_at is required'')]"

definition ApprovalItem_Validate :: "ApprovalItem \<Rightarrow> error option" where
  [validate_defs]: "ApprovalItem_Validate a = first_error
    [(blank (ap_ApprovalID a), ''approval_id is required''),
     (blank (ap_WorkItemID a), ''work_item_id is required''),
     (\<not> validStage (ap_Stage a), ''approval stage is invalid''),
     (\<not> validSurface (ap_DecisionSurface a), ''decision_surface is invalid''),
     (blank (ap_Summary a), ''approval summary is required''),
     (\<not> validApprovalStatus (ap_Status a), ''approval status is invalid''),
     (IsZero (ap_RequestedAt a), ''requested_at is required''),
     ((ap_Status a = ''approved'' \<or> ap_Status a = ''rejected'') \<and> opt_zero (ap_ResolvedAt a),
      ''resolved_at is required for resolved approval'')]"

definition ReleasePacket_Validate :: "ReleasePacket \<Rightarrow> error option" where
  [validate_defs]: "ReleasePacket_Validate r =
    (case then_json (first_error
       [(blank (rp_ReleaseID r), ''release_id is required''),
        (blank (rp_WorkItemID r), ''work_item_id is required''),
        (blank (rp_Target r), ''release target is required''),
        (blank (rp_Channel r), ''release channel is required''),
        (rp_Artifacts r = None, ''release artifacts are required''),
        (rp_Metrics r = None, ''release metrics are required'')])
       (rp_Metrics r) ''release metrics'' of
       Some err \<Rightarrow> Some err
     | None \<Rightarrow> first_error
       [(rp_ApprovalRefs r = None, ''release approval_refs are required''),
        (opt_zero (rp_ReleasedAt r), ''released_at is required'')])"

definition DeployRun_Validate :: "DeployRun \<Rightarrow> error option" where
  [validate_defs]: "DeployRun_Validate d = first_error
    [(blank (dr_DeployID d), ''deploy_id is required''),
     (blank (dr_ReleaseID d), ''release_id is required''),
     (blank (dr_Target d), ''deploy target is required''),
     (\<not> validDeployStatus (dr_Status d), ''deploy status is invalid''),
     (dr_Notes d = None, ''deploy notes are required''),
     (IsZero (dr_StartedAt d), ''deploy started_at is required''),
     ((dr_Status d = ''succeeded'' \<or> dr_Status d = ''failed'') \<and> opt_zero (dr_FinishedAt d),
      ''deploy finished_at is required for completed deploy'')]"

definition DeployTarget_Validate :: "DeployTarget \<Rightarrow> error option" where
  [validate_defs]: "DeployTarget_Validate d = first_error
    [(blank (dt_TargetID d), ''target_id is required''),
     (dt_Command d = [], ''deploy target command is required''),
     (list_ex blank (dt_Command d), ''deploy target command parts must not be empty''),
     (\<not> IsAbs (TrimSpace (hd (dt_Command d))),
      ''deploy target command must start with an absolute binary path''),
     (case dt_Workdir d of None \<Rightarrow> False | Some w \<Rightarrow> \<not> blank w \<and> \<not> IsAbs (TrimSpace w),
      ''deploy target workdir must be an absolute path'')]"

definition FlowRun_Validate :: "FlowRun \<Rightarrow> error option" where
  [validate_defs]: "FlowRun_Validate f = first_error
    [(blank (fr_FlowID f), ''flow_id is required''),
     (blank (fr_WorkItemID f), ''flow work_item_id is required''),
     (\<not> validFlowStatus (fr_Status f), ''flow status is invalid''),
     (fr_Notes f = None, ''flow notes are required''),
     (IsZero (fr_CreatedAt f), ''flow created_at is required''),
     (IsZero (fr_UpdatedAt f), ''flow updated_at is required'')]"

definition RollbackRun_Validate :: "RollbackRun \<Rightarrow> error option" where
  [validate_defs]: "RollbackRun_Validate r = first_error
    [(blank (rr_RollbackID r), ''rollback_id is required''),
     (blank (rr_ReleaseID r), ''release_id is required''),
     (blank (rr_Target r), ''rollback target is required''),
     (\<not> validRollbackStatus (rr_Status r), ''rollback status is invalid''),
     (rr_Notes r = None, ''rollback notes are required''),
     (IsZero (rr_StartedAt r), ''rollback started_at is required''),
     ((rr_Status r = ''succeeded'' \<or> rr_Status r = ''failed'') \<and> opt_zero (rr_FinishedAt r),
      ''rollback finished_at is required for completed rollback'')]"

definition PreflightRecord_Validate :: "PreflightRecord \<Rightarrow> error option" where
  [validate_defs]: "PreflightRecord_Validate p = first_error
    [(blank (pf_RecordID p), ''record_id is required''),
     (blank (pf_Task p), ''preflight task is required''),
     (blank (pf_Mode p), ''preflight mode is required''),
     (\<not> validPreflightStatus (pf_Status p), ''preflight status is invalid''),
     (\<not> validPreflightDecision (pf_Decision p), ''preflight decision is invalid''),
     (pf_ModelsUsed p = None, ''preflight models_used is required''),
     (pf_Steps p = None, ''preflight steps are required''),
     (pf_Risks p = None, ''preflight risks are required''),
     (pf_Checks p = None, ''preflight checks are required''),
     (IsZero (pf_GeneratedAt p), ''preflight generated_at is required'')]"

definition PolicyDecision_Validate :: "PolicyDecision \<Rightarrow> error option" where
  [validate_defs]: "PolicyDecision_Validate p = first_error
    [(blank (pd_DecisionID p), ''policy decision_id is required''),
     (blank (pd_Intent p), ''policy intent is required''),
     (blank (pd_Scope p), ''policy scope is required''),
     (\<not> validPolicyScale (pd_Risk p), ''policy risk is invalid''),
     (\<not> validPolicyScale (pd_Novelty p), ''policy novelty is invalid''),
     (\<not> validTokenClass (pd_TokenClass p), ''policy token_class is invalid''),
     (\<not> validPolicyMode (pd_Mode p), ''policy mode is invalid''),
     (\<not> validPreflightDecision (pd_Decision p), ''policy decision is invalid''),
     (pd_Reasons p = None, ''policy reasons are required''),
     (IsZero (pd_CreatedAt p), ''policy created_at is required'')]"

definition GatewayCall_Validate :: "GatewayCall \<Rightarrow> error option" where
  [validate_defs]: "GatewayCall_Validate g = first_error
    [(blank (gc_CallID g), ''gateway call_id is required''),
     (blank (gc_DecisionID g), ''gateway decision_id is required''),
     (blank (gc_Provider g), ''gateway provider is required''),
     (blank (gc_Model g), ''gateway model is required''),
     (blank (gc_RequestKind g), ''gateway request_kind is required''),
     (\<not> validGatewayStatus (gc_Status g), ''gateway status is invalid''),
     (gc_AttemptCount g < 0, ''gateway attempt_count must not be negative''),
     (gc_TokenBudget g < 0, ''gateway token_budget must not be negative''),
     (gc_Notes g = None, ''gateway notes are required''),
     (IsZero (gc_CreatedAt g), ''gateway created_at is required'')]"

definition ExecuteRun_Validate :: "ExecuteRun \<Rightarrow> error option" where
  [validate_defs]: "ExecuteRun_Validate e = first_error
    [(blank (er_ExecuteID e), ''execute_id is required''),
     (blank (er_WorkItemID e), ''execute work_item_id is required''),
     (blank (er_PolicyDecisionID e), ''execute policy_decision_id is required''),
     (\<not> validPolicyMode (er_Mode e), ''execute mode is invalid''),
     (\<not> validExecuteStatus (er_Status e), ''execute status is invalid''),
     (er_Notes e = None, ''execute notes are required''),
     (IsZero (er_StartedAt e), ''execute started_at is required''),
     ((er_Status e = ''succeeded'' \<or> er_Status e = ''failed'') \<and> opt_zero (er_FinishedAt e),
      ''execute finished_at is required for completed execute'')]"

definition VerificationRecord_Validate :: "VerificationRecord \<Rightarrow> error option" where
  [validate_defs]: "VerificationRecord_Validate v = first_error
    [(blank (vr_RecordID v), ''verification record_id is required''),
     (blank (vr_Scope v), ''verification scope is required''),
     (vr_Command v = [], ''verification command is required''),
     (list_ex blank (vr_Command v), ''verification command parts must not be empty''),
     (\<not> IsAbs (TrimSpace (hd (vr_Command v))), ''verification executable must be an absolute path''),
     (\<not> validVerificationStatus (vr_Status v), ''verification status is invalid''),
     (vr_Notes v = None, ''verification notes are required''),
     (IsZero (vr_StartedAt v), ''verification started_at is required''),
     ((vr_Status v = ''passed'' \<or> vr_Status v = ''failed'') \<and> opt_zero (vr_FinishedAt v),
      ''verification finished_at is required for completed verification'')]"

end
