(* ===== verification/Event_Store.thy ===== *)
theory Event_Store
  imports Workflow_Types
begin

text \<open>
  event.go: the bounded in-memory event window. Events beyond the retention limit move to a
  pending-archive list that the persistence layer appends to the archive file. The interface
  of an archived log is a locale; its client lemma says that no sequence of appends and flushes
  loses, duplicates or reorders an event.
\<close>

section \<open>An archived log\<close>

datatype 'e log_op = Append 'e | Flush

fun run_log ::
  "('s \<Rightarrow> 'e \<Rightarrow> error + 's) \<Rightarrow> ('s \<Rightarrow> 'e list) \<Rightarrow> ('s \<Rightarrow> 's) \<Rightarrow> 'e log_op list \<Rightarrow>
   'e list \<times> 's \<Rightarrow> 'e list \<times> 's" where
  "run_log app pend flush [] (arch, s) = (arch, s)"
| "run_log app pend flush (Append e # ops) (arch, s) =
     (case app s e of Inl err \<Rightarrow> run_log app pend flush ops (arch, s)
      | Inr s' \<Rightarrow> run_log app pend flush ops (arch, s'))"
| "run_log app pend flush (Flush # ops) (arch, s) =
     run_log app pend flush ops (arch @ pend s, flush s)"

locale archived_log =
  fixes app :: "'s \<Rightarrow> 'e \<Rightarrow> error + 's"
    and accepts :: "'e \<Rightarrow> bool"
    and pend :: "'s \<Rightarrow> 'e list"
    and recent :: "'s \<Rightarrow> 'e list"
    and flush :: "'s \<Rightarrow> 's"
  assumes app_accepts: "(\<exists>s'. app s e = Inr s') \<longleftrightarrow> accepts e"
    and app_history: "app s e = Inr s' \<Longrightarrow> pend s' @ recent s' = (pend s @ recent s) @ [e]"
    and flush_pend: "pend (flush s) = []"
    and flush_recent: "recent (flush s) = recent s"
begin

fun appended :: "'e log_op list \<Rightarrow> 'e list" where
  "appended [] = []"
| "appended (Append e # ops) = (if accepts e then e # appended ops else appended ops)"
| "appended (Flush # ops) = appended ops"

lemma run_history:
  "run_log app pend flush ops (arch, s) = (arch', s') \<Longrightarrow>
   arch' @ pend s' @ recent s' = arch @ pend s @ recent s @ appended ops"
proof (induction ops arbitrary: arch s rule: appended.induct)
  case 1
  then show ?case by simp
next
  case (2 e ops)
  show ?case
  proof (cases "app s e")
    case (Inl err)
    then have "\<not> accepts e" using app_accepts [of s e] by simp
    with Inl 2 show ?thesis by simp
  next
    case (Inr t)
    then have a: "accepts e" and h: "pend t @ recent t = (pend s @ recent s) @ [e]"
      using app_accepts [of s e] app_history by auto
    from Inr "2.prems" have r: "run_log app pend flush ops (arch, t) = (arch', s')" by simp
    from "2.IH"(1) [OF a r] h a show ?thesis by simp
  qed
next
  case (3 ops)
  from "3.prems" have "run_log app pend flush ops (arch @ pend s, flush s) = (arch', s')" by simp
  from "3.IH" [OF this] show ?case by (simp add: flush_pend flush_recent)
qed

end

section \<open>The event store\<close>

record eventStore =
  es_items :: "EventEnvelope list"
  es_pendingArchive :: "EventEnvelope list"
  es_archivedCount :: int
  es_limit :: int

definition defaultEventRetentionLimit :: int where
  "defaultEventRetentionLimit = 256"

text \<open>\<open>strconv.Atoi\<close>: an optional sign, at least one digit, no other byte, in the range of int64.\<close>

definition Atoi :: "string \<Rightarrow> int option" where
  "Atoi s =
     (let neg = starts_with s ''-'';
          ds = (if neg \<or> starts_with s ''+'' then drop 1 s else s);
          n = foldl (\<lambda>a c. 10 * a + (of_char c - 48)) 0 ds;
          v = (if neg then - n else n)
      in if ds \<noteq> [] \<and> list_all (\<lambda>c. 48 \<le> (of_char c :: int) \<and> (of_char c :: int) \<le> 57) ds
            \<and> - (2 ^ 63) \<le> v \<and> v < 2 ^ 63
         then Some v else None)"

definition eventRetentionLimitFromEnv :: "string \<Rightarrow> int" where
  "eventRetentionLimitFromEnv env =
     (let raw = TrimSpace env in
      if raw = [] then defaultEventRetentionLimit
      else case Atoi raw of
             None \<Rightarrow> defaultEventRetentionLimit
           | Some v \<Rightarrow> if v < 0 then defaultEventRetentionLimit else v)"

definition splitRetainedEvents ::
  "EventEnvelope list \<Rightarrow> int \<Rightarrow> EventEnvelope list \<times> EventEnvelope list" where
  "splitRetainedEvents evidence limit =
     (if limit \<le> 0 \<or> int (length evidence) \<le> limit then (evidence, [])
      else let split = length evidence - nat limit in (drop split evidence, take split evidence))"

fun dedupeEvents_from :: "string list \<Rightarrow> EventEnvelope list \<Rightarrow> EventEnvelope list" where
  "dedupeEvents_from seen [] = []"
| "dedupeEvents_from seen (item # rest) =
     (let key = TrimSpace (ev_EventID item) in
      if key = [] then item # dedupeEvents_from seen rest
      else if key \<in> set seen then dedupeEvents_from seen rest
      else item # dedupeEvents_from (key # seen) rest)"

definition dedupeEvents :: "EventEnvelope list \<Rightarrow> EventEnvelope list" where
  "dedupeEvents evidence = dedupeEvents_from [] evidence"

definition newEventStoreWithArchiveCount ::
  "string \<Rightarrow> EventEnvelope list \<Rightarrow> int \<Rightarrow> eventStore" where
  "newEventStoreWithArchiveCount env items archivedCount =
     (let limit = eventRetentionLimitFromEnv env;
          retained = fst (splitRetainedEvents (dedupeEvents items) limit)
      in \<lparr>es_items = retained, es_pendingArchive = [],
          es_archivedCount = (if archivedCount < 0 then 0 else archivedCount), es_limit = limit\<rparr>)"

definition newEventStoreFromEvidence :: "string \<Rightarrow> EventEnvelope list \<Rightarrow> eventStore" where
  "newEventStoreFromEvidence env evidence =
     (let limit = eventRetentionLimitFromEnv env;
          (retained, archived) = splitRetainedEvents (dedupeEvents evidence) limit
      in \<lparr>es_items = retained, es_pendingArchive = archived, es_archivedCount = 0,
          es_limit = limit\<rparr>)"

text \<open>A saved \<open>eventStoreState\<close> has the fields of the store itself.\<close>

definition newEventStoreFromState :: "string \<Rightarrow> eventStore \<Rightarrow> eventStore" where
  "newEventStoreFromState env st =
     st\<lparr>es_limit := (if es_limit st \<le> 0 then eventRetentionLimitFromEnv env else es_limit st)\<rparr>"

definition eventStore_append :: "eventStore \<Rightarrow> EventEnvelope \<Rightarrow> error + eventStore" where
  "eventStore_append s item =
     (case EventEnvelope_Validate item of
        Some err \<Rightarrow> Inl err
      | None \<Rightarrow>
          (let items = es_items s @ [item] in
           if es_limit s > 0 \<and> int (length items) > es_limit s
           then let overflow = length items - nat (es_limit s) in
                Inr (s\<lparr>es_pendingArchive := es_pendingArchive s @ take overflow items,
                       es_items := drop overflow items\<rparr>)
           else Inr (s\<lparr>es_items := items\<rparr>)))"

definition eventStore_list :: "eventStore \<Rightarrow> EventEnvelope list" where
  "eventStore_list s = es_pendingArchive s @ es_items s"

definition markArchivePersisted :: "eventStore \<Rightarrow> eventStore" where
  "markArchivePersisted s =
     s\<lparr>es_archivedCount := es_archivedCount s + int (length (es_pendingArchive s)),
       es_pendingArchive := []\<rparr>"

definition eventStore_count :: "eventStore \<Rightarrow> int" where
  "eventStore_count s =
     es_archivedCount s + int (length (es_pendingArchive s)) + int (length (es_items s))"

text \<open>
  \<open>newEvent\<close> reads the clock twice, for the identifier and for the timestamp; \<open>fmt\<close> is
  \<open>time.Format\<close> with the runtime's layout.
\<close>

definition newEvent ::
  "(time \<Rightarrow> string) \<Rightarrow> clock \<Rightarrow> string \<Rightarrow> string \<Rightarrow> string \<Rightarrow> string \<Rightarrow> string \<Rightarrow> jobject \<Rightarrow> EventEnvelope"
where
  "newEvent fmt ts kind actor surface workItemID stage data =
     \<lparr>ev_EventID = workItemID @ '':'' @ kind @ '':'' @ fmt (ts 0), ev_Kind = kind, ev_Actor = actor,
      ev_Surface = surface, ev_WorkItemID = workItemID, ev_Stage = stage, ev_Timestamp = ts 1,
      ev_Data = Some data\<rparr>"

section \<open>Lemmas\<close>

lemma eventStore_append_Inr_iff:
  "(\<exists>s'. eventStore_append s e = Inr s') \<longleftrightarrow> EventEnvelope_Validate e = None"
  by (auto simp: eventStore_append_def Let_def split: option.splits)

lemma eventStore_append_history:
  "eventStore_append s e = Inr s' \<Longrightarrow> eventStore_list s' = eventStore_list s @ [e]"
  by (auto simp: eventStore_append_def eventStore_list_def Let_def
      simp del: take_append drop_append split: option.splits if_splits)

lemma eventStore_append_limit:
  "eventStore_append s e = Inr s' \<Longrightarrow> es_limit s' = es_limit s"
  by (auto simp: eventStore_append_def Let_def split: option.splits if_splits)

lemma eventStore_append_archived:
  "eventStore_append s e = Inr s' \<Longrightarrow> es_archivedCount s' = es_archivedCount s"
  by (auto simp: eventStore_append_def Let_def split: option.splits if_splits)

interpretation elog: archived_log eventStore_append "\<lambda>e. EventEnvelope_Validate e = None"
  es_pendingArchive es_items markArchivePersisted
proof
  fix s e s'
  show "(\<exists>s'. eventStore_append s e = Inr s') = (EventEnvelope_Validate e = None)"
    by (rule eventStore_append_Inr_iff)
  show "es_pendingArchive (markArchivePersisted s) = []"
    and "es_items (markArchivePersisted s) = es_items s"
    by (simp_all add: markArchivePersisted_def)
  assume "eventStore_append s e = Inr s'"
  then show "es_pendingArchive s' @ es_items s' = (es_pendingArchive s @ es_items s) @ [e]"
    using eventStore_append_history by (simp add: eventStore_list_def)
qed

text \<open>The retained window never exceeds a positive limit.\<close>

definition window_ok :: "eventStore \<Rightarrow> bool" where
  "window_ok s \<longleftrightarrow> (es_limit s > 0 \<longrightarrow> int (length (es_items s)) \<le> es_limit s)"

lemma window_ok_append: "eventStore_append s e = Inr s' \<Longrightarrow> window_ok s \<Longrightarrow> window_ok s'"
  by (auto simp: eventStore_append_def window_ok_def Let_def split: option.splits if_splits)

lemma window_ok_mark: "window_ok (markArchivePersisted s) = window_ok s"
  by (simp add: window_ok_def markArchivePersisted_def)

lemma splitRetainedEvents_join:
  "splitRetainedEvents xs n = (recent, archive) \<Longrightarrow> archive @ recent = xs"
  by (auto simp: splitRetainedEvents_def Let_def split: if_splits)

lemma splitRetainedEvents_window:
  "splitRetainedEvents xs n = (recent, archive) \<Longrightarrow> 0 < n \<Longrightarrow> int (length recent) \<le> n"
  by (auto simp: splitRetainedEvents_def Let_def split: if_splits)

lemma window_ok_new: "window_ok (newEventStoreWithArchiveCount env items n)"
  by (simp add: window_ok_def newEventStoreWithArchiveCount_def Let_def
      splitRetainedEvents_window [OF prod.collapse [symmetric]])

lemma eventStore_count_append:
  "eventStore_append s e = Inr s' \<Longrightarrow> eventStore_count s' = eventStore_count s + 1"
proof -
  assume a: "eventStore_append s e = Inr s'"
  from eventStore_append_history [OF a]
  have "length (eventStore_list s') = Suc (length (eventStore_list s))" by simp
  with eventStore_append_archived [OF a] show ?thesis
    by (simp add: eventStore_count_def eventStore_list_def)
qed

lemma eventStore_count_mark: "eventStore_count (markArchivePersisted s) = eventStore_count s"
  by (simp add: eventStore_count_def markArchivePersisted_def)

lemma newEvent_id_nonblank: "\<not> blank (ev_EventID (newEvent fmt ts k a sf w st d))"
  by (rule not_blank_ink [of "CHR '':''"]) (simp_all add: newEvent_def)

lemma newEvent_valid:
  assumes "\<not> blank k" "\<not> blank a" "validSurface sf" "\<not> blank w" "validStage st" "\<not> IsZero (ts 1)"
    and "validateJSONObject d ''event data'' = None"
  shows "EventEnvelope_Validate (newEvent fmt ts k a sf w st d) = None"
  using assms newEvent_id_nonblank [of fmt ts k a sf w st d]
  by (simp add: EventEnvelope_Validate_def then_json_def newEvent_def)

text \<open>De-duplication keeps at most one event per non-blank identifier, and drops nothing else.\<close>

lemma dedupeEvents_from_ids:
  "distinct (filter (\<lambda>k. k \<noteq> []) (map (\<lambda>e. TrimSpace (ev_EventID e)) (dedupeEvents_from seen xs))) \<and>
   (\<forall>e \<in> set (dedupeEvents_from seen xs). TrimSpace (ev_EventID e) \<notin> set seen - {[]})"
  by (induction xs arbitrary: seen) (auto simp: Let_def)

lemma dedupeEvents_from_cover:
  "e \<in> set xs \<Longrightarrow> TrimSpace (ev_EventID e) \<notin> set seen \<Longrightarrow>
   \<exists>d \<in> set (dedupeEvents_from seen xs). TrimSpace (ev_EventID d) = TrimSpace (ev_EventID e)"
proof (induction xs arbitrary: seen)
  case Nil
  then show ?case by simp
next
  case (Cons x xs)
  show ?case
  proof (cases "TrimSpace (ev_EventID x) = TrimSpace (ev_EventID e)")
    case True
    with Cons.prems show ?thesis by (auto simp: Let_def)
  next
    case False
    with Cons.prems have "e \<in> set xs" by auto
    with False Cons.prems(2) Cons.IH [of seen] Cons.IH [of "TrimSpace (ev_EventID x) # seen"]
    show ?thesis by (auto simp: Let_def)
  qed
qed

end
