(* ===== verification/Job_Types.thy ===== *)
theory Job_Types
  imports Workflow_Types
begin

text \<open>
  The structs of types_jobs.go that the proposal and agent-job components keep: proposals,
  agent jobs and chain rules, with their status vocabularies and \<open>Validate\<close> methods.
\<close>

record ProposalItem =
  pi_ProposalID :: string
  pi_BranchID :: "string option"
  pi_Title :: string
  pi_Intent :: string
  pi_Summary :: string
  pi_Surface :: string
  pi_Priority :: string
  pi_Risk :: string
  pi_Status :: string
  pi_Notes :: "string slice"
  pi_PromotedWorkItemID :: "string option"
  pi_CreatedAt :: time
  pi_UpdatedAt :: time

record AgentJob =
  aj_JobID :: string
  aj_BranchID :: "string option"
  aj_Kind :: string
  aj_Role :: string
  aj_Summary :: string
  aj_Status :: string
  aj_Source :: string
  aj_Surface :: string
  aj_Stage :: string
  aj_Ref :: "string option"
  aj_Payload :: "jobject option"
  aj_Result :: "jobject option"
  aj_Notes :: "string slice"
  aj_CreatedAt :: time
  aj_UpdatedAt :: time

record ChainRule =
  cr_RuleID :: string
  cr_OnStatus :: string
  cr_NextKind :: string
  cr_NextRole :: string
  cr_NextStage :: string
  cr_Surface :: string
  cr_Summary :: string
  cr_AutoDispatch :: bool
  cr_NotifyTelegram :: bool
  cr_Payload :: "jobject option"
  cr_Notes :: "string list"

definition validProposalStatus :: "string \<Rightarrow> bool" where
  "validProposalStatus status \<longleftrightarrow> status \<in> {''proposed'', ''promoted'', ''deferred''}"

definition validAgentJobStatus :: "string \<Rightarrow> bool" where
  "validAgentJobStatus status \<longleftrightarrow>
     status \<in> {''queued'', ''running'', ''succeeded'', ''failed'', ''canceled''}"

definition validAgentJobTerminalStatus :: "string \<Rightarrow> bool" where
  "validAgentJobTerminalStatus status \<longleftrightarrow> status \<in> {''succeeded'', ''failed'', ''canceled''}"

definition ProposalItem_Validate :: "ProposalItem \<Rightarrow> error option" where
  [validate_defs]: "ProposalItem_Validate p = first_error
    [(blank (pi_ProposalID p), ''proposal item proposal_id is required''),
     (opt_blank (pi_BranchID p), ''proposal item branch_id must not be empty''),
     (blank (pi_Title p), ''proposal item title is required''),
     (blank (pi_Intent p), ''proposal item intent is required''),
     (blank (pi_Summary p), ''proposal item summary is required''),
     (\<not> validSurface (pi_Surface p), ''proposal item surface is invalid''),
     (\<not> validProposalStatus (pi_Status p), ''proposal item status is invalid''),
     (pi_Notes p = None, ''proposal item notes is required''),
     (IsZero (pi_CreatedAt p), ''proposal item created_at is required''),
     (IsZero (pi_UpdatedAt p), ''proposal item updated_at is required'')]"

definition AgentJob_Validate :: "AgentJob \<Rightarrow> error option" where
  [validate_defs]: "AgentJob_Validate j =
    (case then_json (then_json (first_error
       [(blank (aj_JobID j), ''agent job job_id is required''),
        (opt_blank (aj_BranchID j), ''agent job branch_id must not be empty''),
        (blank (aj_Kind j), ''agent job kind is required''),
        (blank (aj_Role j), ''agent job role is required''),
        (blank (aj_Summary j), ''agent job summary is required''),
        (\<not> validAgentJobStatus (aj_Status j), ''agent job status is invalid''),
        (blank (aj_Source j), ''agent job source is required''),
        (\<not> validSurface (aj_Surface j), ''agent job surface is invalid''),
        (\<not> validStage (aj_Stage j), ''agent job stage is invalid''),
        (opt_blank (aj_Ref j), ''agent job ref must not be empty'')])
       (aj_Payload j) ''agent job payload'') (aj_Result j) ''agent job result'' of
       Some err \<Rightarrow> Some err
     | None \<Rightarrow> first_error
       [(aj_Notes j = None, ''agent job notes are required''),
        (IsZero (aj_CreatedAt j), ''agent job created_at is required''),
        (IsZero (aj_UpdatedAt j), ''agent job updated_at is required'')])"

definition ChainRule_Validate :: "ChainRule \<Rightarrow> error option" where
  [validate_defs]: "ChainRule_Validate c = then_json (first_error
    [(blank (cr_RuleID c), ''chain rule rule_id is required''),
     (\<not> validAgentJobTerminalStatus (cr_OnStatus c), ''chain rule on_status is invalid''),
     (blank (cr_NextKind c), ''chain rule next_kind is required''),
     (blank (cr_NextRole c), ''chain rule next_role is required''),
     (cr_NextStage c \<noteq> [] \<and> \<not> validStage (cr_NextStage c), ''chain rule next_stage is invalid''),
     (cr_Surface c \<noteq> [] \<and> \<not> validSurface (cr_Surface c), ''chain rule surface is invalid''),
     (blank (cr_Summary c), ''chain rule summary is required'')])
    (cr_Payload c) ''chain rule payload''"

fun ChainRules_check :: "ChainRule list \<Rightarrow> error option" where
  "ChainRules_check [] = None"
| "ChainRules_check (r # rs) =
     (case ChainRule_Validate r of Some err \<Rightarrow> Some err | None \<Rightarrow> ChainRules_check rs)"

definition ChainRules_Validate :: "ChainRule list \<Rightarrow> error option" where
  "ChainRules_Validate rules =
     (if rules = [] then Some ''chain rules are required'' else ChainRules_check rules)"

end
