(* ===== verification/Stores.thy ===== *)
theory Stores
  imports Job_Types
begin

text \<open>
  The slice-backed stores of work.go, flow.go, approval.go, release.go, deploy.go, preflight.go,
  policy.go, policy_mode.go, gateway.go, execute.go, verify.go, proposal.go, agent_job.go,
  branch.go, memory.go and state.go. A store is the list it holds; an operation takes it and
  returns the new one or the error. The contract the service relies on, a validated append and
  a first-match lookup, is the locale \<open>append_store\<close> with its extensions \<open>keyed_store\<close> and
  \<open>unique_store\<close>, interpreted for every store.
\<close>

section \<open>The store contract\<close>

locale append_store =
  fixes key :: "'a \<Rightarrow> string"
    and valid :: "'a \<Rightarrow> error option"
    and create :: "'a list \<Rightarrow> 'a \<Rightarrow> error + 'a list"
  assumes create_appends:
    "create xs x = Inr ys \<Longrightarrow> \<exists>y. ys = xs @ [y] \<and> valid y = None \<and> key y = key x"
begin

lemma create_all_valid:
  "create xs x = Inr ys \<Longrightarrow> \<forall>y \<in> set xs. valid y = None \<Longrightarrow> \<forall>y \<in> set ys. valid y = None"
  using create_appends by fastforce

lemma create_length: "create xs x = Inr ys \<Longrightarrow> length ys = Suc (length xs)"
  using create_appends by fastforce

lemma create_lookup_old:
  "create xs x = Inr ys \<Longrightarrow> lookup key k xs = Some y \<Longrightarrow> lookup key k ys = Some y"
  using create_appends by (fastforce simp: lookup_append)

lemma create_lookup_new:
  assumes "create xs x = Inr ys" and "lookup key (key x) xs = None"
  shows "\<exists>y. lookup key (key x) ys = Some y \<and> valid y = None"
  using create_appends [OF assms(1)] assms(2) by (auto simp: lookup_append)

end

locale keyed_store = append_store +
  fixes get :: "'a list \<Rightarrow> string \<Rightarrow> 'a option"
    and norm :: "string \<Rightarrow> string"
  assumes get_lookup: "get xs k = lookup key (norm k) xs"
begin

lemma get_valid: "get xs k = Some x \<Longrightarrow> \<forall>y \<in> set xs. valid y = None \<Longrightarrow> valid x = None"
  by (auto simp: get_lookup dest: lookup_SomeD)

lemma get_stable: "create xs x = Inr ys \<Longrightarrow> get xs k = Some y \<Longrightarrow> get ys k = Some y"
  by (simp add: get_lookup create_lookup_old)

lemma get_created:
  assumes "create xs x = Inr ys" "norm (key x) = key x" "get xs (key x) = None"
  shows "\<exists>y. get ys (key x) = Some y \<and> key y = key x \<and> valid y = None"
  using create_lookup_new [OF assms(1)] assms(2,3) by (auto simp: get_lookup dest: lookup_SomeD)

end

locale unique_store = keyed_store +
  assumes create_fresh: "create xs x = Inr ys \<Longrightarrow> lookup key (key x) xs = None"
begin

lemma create_distinct: "create xs x = Inr ys \<Longrightarrow> distinct (map key xs) \<Longrightarrow> distinct (map key ys)"
proof -
  assume c: "create xs x = Inr ys" and d: "distinct (map key xs)"
  obtain y where y: "ys = xs @ [y]" "key y = key x" using create_appends [OF c] by blast
  have "key x \<notin> key ` set xs" using create_fresh [OF c] by (simp add: lookup_None_iff)
  with y d show ?thesis by simp
qed

end

text \<open>The common body \<open>if err := item.Validate(); err != nil { return err }; append\<close>.\<close>

definition append_valid :: "('a \<Rightarrow> error option) \<Rightarrow> 'a list \<Rightarrow> 'a \<Rightarrow> error + 'a list" where
  "append_valid valid items item =
     (case valid item of Some err \<Rightarrow> Inl err | None \<Rightarrow> Inr (items @ [item]))"

lemma append_valid_Inr [simp]:
  "append_valid valid items item = Inr ys \<longleftrightarrow> valid item = None \<and> ys = items @ [item]"
  by (auto simp: append_valid_def split: option.splits)

lemma append_valid_Inl [simp]:
  "append_valid valid items item = Inl err \<longleftrightarrow> valid item = Some err"
  by (auto simp: append_valid_def split: option.splits)

section \<open>Work items, flows, approvals\<close>

definition workStore_create :: "WorkItem list \<Rightarrow> WorkItem \<Rightarrow> error + WorkItem list" where
  [store_defs]: "workStore_create items item = append_valid WorkItem_Validate items item"

definition workStore_get :: "WorkItem list \<Rightarrow> string \<Rightarrow> WorkItem option" where
  [store_defs]: "workStore_get items workID = lookup wi_ID workID items"

definition flowStore_create :: "FlowRun list \<Rightarrow> FlowRun \<Rightarrow> error + FlowRun list" where
  [store_defs]: "flowStore_create items item = append_valid FlowRun_Validate items item"

definition flowStore_get :: "FlowRun list \<Rightarrow> string \<Rightarrow> FlowRun option" where
  [store_defs]: "flowStore_get items flowID = lookup fr_FlowID flowID items"

definition flowStore_update :: "FlowRun list \<Rightarrow> FlowRun \<Rightarrow> error + FlowRun list" where
  "flowStore_update items item =
     (case FlowRun_Validate item of
        Some err \<Rightarrow> Inl err
      | None \<Rightarrow>
          if lookup fr_FlowID (fr_FlowID item) items = None then Inr (items @ [item])
          else Inr (replace_first (\<lambda>x. fr_FlowID x = fr_FlowID item) item items))"

definition approvalStore_create :: "ApprovalItem list \<Rightarrow> ApprovalItem \<Rightarrow> error + ApprovalItem list" where
  [store_defs]: "approvalStore_create items item = append_valid ApprovalItem_Validate items item"

definition approvalStore_get :: "ApprovalItem list \<Rightarrow> string \<Rightarrow> ApprovalItem option" where
  [store_defs]: "approvalStore_get items approvalID = lookup ap_ApprovalID approvalID items"

definition approvalStore_count :: "ApprovalItem list \<Rightarrow> int" where
  "approvalStore_count items = int (length (filter (\<lambda>a. ap_Status a = ''pending'') items))"

definition approvalStore_resolve ::
  "ApprovalItem list \<Rightarrow> string \<Rightarrow> string \<Rightarrow> time \<Rightarrow> error + (ApprovalItem \<times> ApprovalItem list)" where
  "approvalStore_resolve items approvalID status resolvedAt =
     (case lookup ap_ApprovalID approvalID items of
        None \<Rightarrow> Inl ''approval_id not found''
      | Some item0 \<Rightarrow>
          (let item = item0\<lparr>ap_Status := status, ap_ResolvedAt := Some resolvedAt\<rparr> in
           case ApprovalItem_Validate item of
             Some err \<Rightarrow> Inl err
           | None \<Rightarrow> Inr (item, replace_first (\<lambda>x. ap_ApprovalID x = approvalID) item items)))"

section \<open>Releases, deploys, rollbacks, targets\<close>

definition releaseStore_create :: "ReleasePacket list \<Rightarrow> ReleasePacket \<Rightarrow> error + ReleasePacket list" where
  [store_defs]: "releaseStore_create items item = append_valid ReleasePacket_Validate items item"

definition releaseStore_get :: "ReleasePacket list \<Rightarrow> string \<Rightarrow> ReleasePacket option" where
  [store_defs]: "releaseStore_get items releaseID = lookup rp_ReleaseID releaseID items"

definition deployStore_create :: "DeployRun list \<Rightarrow> DeployRun \<Rightarrow> error + DeployRun list" where
  [store_defs]: "deployStore_create items item = append_valid DeployRun_Validate items item"

definition deployStore_get :: "DeployRun list \<Rightarrow> string \<Rightarrow> DeployRun option" where
  [store_defs]: "deployStore_get items deployID = lookup dr_DeployID deployID items"

definition rollbackStore_create :: "RollbackRun list \<Rightarrow> RollbackRun \<Rightarrow> error + RollbackRun list" where
  [store_defs]: "rollbackStore_create items item = append_valid RollbackRun_Validate items item"

definition targetStore_put :: "DeployTarget list \<Rightarrow> DeployTarget \<Rightarrow> error + DeployTarget list" where
  "targetStore_put items item =
     (case DeployTarget_Validate item of
        Some err \<Rightarrow> Inl err
      | None \<Rightarrow>
          if lookup dt_TargetID (dt_TargetID item) items = None then Inr (items @ [item])
          else Inr (replace_first (\<lambda>x. dt_TargetID x = dt_TargetID item) item items))"

definition targetStore_get :: "DeployTarget list \<Rightarrow> string \<Rightarrow> DeployTarget option" where
  [store_defs]: "targetStore_get items targetID = lookup dt_TargetID targetID items"

section \<open>Preflights, policies, gateway calls, executes, verifications\<close>

definition preflightStore_create ::
  "PreflightRecord list \<Rightarrow> PreflightRecord \<Rightarrow> error + PreflightRecord list" where
  [store_defs]: "preflightStore_create items item = append_valid PreflightRecord_Validate items item"

definition normalizePolicyDecision :: "PolicyDecision \<Rightarrow> PolicyDecision" where
  "normalizePolicyDecision item =
     (let item' = item\<lparr>pd_Mode := canonicalPolicyMode (pd_Mode item)\<rparr> in
      if pd_Mode item = ''dual''
      then item'\<lparr>pd_Reasons := Some (appendUniqueString (elems (pd_Reasons item'))
             ''legacy dual mode normalized to single review lane'')\<rparr>
      else item')"

definition newPolicyStore :: "PolicyDecision list \<Rightarrow> PolicyDecision list" where
  "newPolicyStore items = map normalizePolicyDecision items"

definition policyStore_create :: "PolicyDecision list \<Rightarrow> PolicyDecision \<Rightarrow> error + PolicyDecision list" where
  [store_defs]: "policyStore_create items item =
     append_valid PolicyDecision_Validate items (normalizePolicyDecision item)"

definition policyStore_get :: "PolicyDecision list \<Rightarrow> string \<Rightarrow> PolicyDecision option" where
  [store_defs]: "policyStore_get items decisionID = lookup pd_DecisionID decisionID items"

definition gatewayStore_create :: "GatewayCall list \<Rightarrow> GatewayCall \<Rightarrow> error + GatewayCall list" where
  [store_defs]: "gatewayStore_create items item = append_valid GatewayCall_Validate items item"

definition gatewayStore_get :: "GatewayCall list \<Rightarrow> string \<Rightarrow> GatewayCall option" where
  [store_defs]: "gatewayStore_get items callID = lookup gc_CallID callID items"

definition normalizeExecuteRun :: "ExecuteRun \<Rightarrow> ExecuteRun" where
  "normalizeExecuteRun item = item\<lparr>er_Mode := canonicalPolicyMode (er_Mode item)\<rparr>"

definition newExecuteStore :: "ExecuteRun list \<Rightarrow> ExecuteRun list" where
  "newExecuteStore items = map normalizeExecuteRun items"

definition executeStore_create :: "ExecuteRun list \<Rightarrow> ExecuteRun \<Rightarrow> error + ExecuteRun list" where
  [store_defs]: "executeStore_create items item =
     append_valid ExecuteRun_Validate items (normalizeExecuteRun item)"

definition verificationStore_create ::
  "VerificationRecord list \<Rightarrow> VerificationRecord \<Rightarrow> error + VerificationRecord list" where
  [store_defs]: "verificationStore_create items item =
     append_valid VerificationRecord_Validate items item"

section \<open>Proposals and agent jobs\<close>

definition proposalStore_create :: "ProposalItem list \<Rightarrow> ProposalItem \<Rightarrow> error + ProposalItem list" where
  [store_defs]: "proposalStore_create items item = append_valid ProposalItem_Validate items item"

definition proposalStore_get :: "ProposalItem list \<Rightarrow> string \<Rightarrow> ProposalItem option" where
  [store_defs]: "proposalStore_get items proposalID = lookup pi_ProposalID proposalID items"

definition proposalStore_promote ::
  "ProposalItem list \<Rightarrow> string \<Rightarrow> string \<Rightarrow> time \<Rightarrow> error + (ProposalItem \<times> ProposalItem list)" where
  "proposalStore_promote items proposalID workItemID updatedAt =
     (case lookup pi_ProposalID proposalID items of
        None \<Rightarrow> Inl ''proposal_id not found''
      | Some item0 \<Rightarrow>
          if pi_Status item0 = ''promoted'' then Inl ''proposal already promoted''
          else (let item = item0\<lparr>pi_Status := ''promoted'',
                                 pi_PromotedWorkItemID := Some workItemID,
                                 pi_UpdatedAt := updatedAt\<rparr> in
                case ProposalItem_Validate item of
                  Some err \<Rightarrow> Inl err
                | None \<Rightarrow> Inr (item, replace_first (\<lambda>x. pi_ProposalID x = proposalID) item items)))"

definition agentJobStore_create :: "AgentJob list \<Rightarrow> AgentJob \<Rightarrow> error + AgentJob list" where
  [store_defs]: "agentJobStore_create items item =
     (case AgentJob_Validate item of
        Some err \<Rightarrow> Inl err
      | None \<Rightarrow>
          if lookup aj_JobID (aj_JobID item) items = None then Inr (items @ [item])
          else Inl ''job_id already exists'')"

definition agentJobStore_get :: "AgentJob list \<Rightarrow> string \<Rightarrow> AgentJob option" where
  [store_defs]: "agentJobStore_get items jobID = lookup aj_JobID jobID items"

definition agentJobStore_update ::
  "AgentJob list \<Rightarrow> string \<Rightarrow> string \<Rightarrow> string slice \<Rightarrow> jobject option \<Rightarrow> time \<Rightarrow>
   error + (AgentJob \<times> AgentJob list)" where
  "agentJobStore_update items jobID status notes result updatedAt =
     (case lookup aj_JobID jobID items of
        None \<Rightarrow> Inl ''job_id not found''
      | Some item0 \<Rightarrow>
          (let item = item0\<lparr>aj_Status := status, aj_Notes := Some (elems notes),
                            aj_Result := (if result = None then aj_Result item0
                                          else cloneJSONObject result),
                            aj_UpdatedAt := updatedAt\<rparr> in
           case AgentJob_Validate item of
             Some err \<Rightarrow> Inl err
           | None \<Rightarrow> Inr (item, replace_first (\<lambda>x. aj_JobID x = jobID) item items)))"

section \<open>Branches\<close>

text \<open>\<open>normalizeBranch\<close> reads the clock for a missing creation time.\<close>

definition normalizeBranch :: "time \<Rightarrow> Branch \<Rightarrow> Branch" where
  "normalizeBranch now item =
     (let created = (if IsZero (br_CreatedAt item) then now else br_CreatedAt item) in
      item\<lparr>br_RootBranchID := (if br_RootBranchID item = [] then br_BranchID item else br_RootBranchID item),
           br_Summary := (if br_Summary item = [] then br_Title item else br_Summary item),
           br_Stage := (if br_Stage item = [] then ''compose'' else br_Stage item),
           br_Surface := (if br_Surface item = [] then ''api'' else br_Surface item),
           br_Status := (if br_Status item = [] then ''active'' else br_Status item),
           br_Notes := Some (elems (br_Notes item)),
           br_CreatedAt := created,
           br_UpdatedAt := (if IsZero (br_UpdatedAt item) then created else br_UpdatedAt item),
           br_ParentBranchID := normalizeRef (br_ParentBranchID item),
           br_BasisRef := normalizeRef (br_BasisRef item),
           br_MergeTargetBranchID := normalizeRef (br_MergeTargetBranchID item)\<rparr>)"

definition newBranchStore :: "time \<Rightarrow> Branch list \<Rightarrow> Branch list" where
  "newBranchStore now items = map (normalizeBranch now) items"

definition branchStore_get :: "Branch list \<Rightarrow> string \<Rightarrow> Branch option" where
  [store_defs]: "branchStore_get items branchID = lookup br_BranchID (TrimSpace branchID) items"

definition branchStore_create :: "time \<Rightarrow> Branch list \<Rightarrow> Branch \<Rightarrow> error + Branch list" where
  [store_defs]: "branchStore_create now items item0 =
     (let item = normalizeBranch now item0 in
      case Branch_Validate item of
        Some err \<Rightarrow> Inl err
      | None \<Rightarrow>
          if lookup br_BranchID (br_BranchID item) items = None then Inr (items @ [item])
          else Inl ''branch_id already exists'')"

definition branchStore_update :: "time \<Rightarrow> Branch list \<Rightarrow> Branch \<Rightarrow> error + Branch list" where
  "branchStore_update now items item0 =
     (let item = normalizeBranch now item0 in
      case Branch_Validate item of
        Some err \<Rightarrow> Inl err
      | None \<Rightarrow>
          if lookup br_BranchID (br_BranchID item) items = None then Inl ''branch_id not found''
          else Inr (replace_first (\<lambda>x. br_BranchID x = br_BranchID item) item items))"

text \<open>
  The scan of \<open>merge\<close>: the index of the last branch with the source id, and of the last one
  with the target id among the branches that are not the source (the two cases of one
  \<open>switch\<close>).
\<close>

fun merge_scan :: "string \<Rightarrow> string \<Rightarrow> Branch list \<Rightarrow> nat \<Rightarrow> nat option \<times> nat option \<Rightarrow> nat option \<times> nat option"
where
  "merge_scan src tgt [] i acc = acc"
| "merge_scan src tgt (b # bs) i (si, ti) =
     merge_scan src tgt bs (Suc i)
       (if br_BranchID b = src then (Some i, ti)
        else if br_BranchID b = tgt then (si, Some i) else (si, ti))"

definition branchStore_merge ::
  "Branch list \<Rightarrow> string \<Rightarrow> string \<Rightarrow> string list \<Rightarrow> time \<Rightarrow> error + (Branch \<times> Branch list)" where
  "branchStore_merge items branchID0 targetBranchID0 notes now =
     (let branchID = TrimSpace branchID0; targetBranchID = TrimSpace targetBranchID0 in
      case merge_scan branchID targetBranchID items 0 (None, None) of
        (None, _) \<Rightarrow> Inl ''branch_id not found''
      | (Some si, None) \<Rightarrow> Inl ''merge target branch_id not found''
      | (Some si, Some ti) \<Rightarrow>
          if branchID = targetBranchID then Inl ''branch merge target must differ from branch_id''
          else if br_Status (items ! si) \<noteq> ''active'' then Inl ''branch must be active before merge''
          else (let item = (items ! si)\<lparr>br_Status := ''merged'',
                              br_MergeTargetBranchID := Some targetBranchID,
                              br_MergedAt := Some now, br_UpdatedAt := now,
                              br_Notes := Some notes\<rparr> in
                case Branch_Validate item of
                  Some err \<Rightarrow> Inl err
                | None \<Rightarrow> Inr (item, items[si := item])))"

section \<open>System memory and company state\<close>

definition memoryStore_replace :: "SystemMemory \<Rightarrow> SystemMemory \<Rightarrow> error + SystemMemory" where
  "memoryStore_replace old memory =
     (case SystemMemory_Validate memory of Some err \<Rightarrow> Inl err | None \<Rightarrow> Inr memory)"

definition defaultSystemMemory :: "time \<Rightarrow> SystemMemory" where
  "defaultSystemMemory now =
     \<lparr>sm_CurrentFocus = ''bootstrap runtime'', sm_CurrentGoal = None, sm_NextSteps = Some [],
      sm_OpenRisks = Some [], sm_HandoffNote = None, sm_LastOperator = None, sm_UpdatedAt = now\<rparr>"

definition defaultCompanyState :: CompanyState where
  "defaultCompanyState =
     \<lparr>cs_ShellMode = ''founder'', cs_ApprovalsPending = 0, cs_WorkItemsActive = 0,
      cs_LastReleaseAt = None, cs_MemoryHealth = ''ready'', cs_DeployHealth = ''ready'',
      cs_PrimarySurface = ''cockpit'', cs_ActiveSurfaces = [''cockpit'', ''telegram'', ''api'']\<rparr>"

definition updateWorkItemsActive :: "CompanyState \<Rightarrow> int \<Rightarrow> CompanyState" where
  "updateWorkItemsActive st n = st\<lparr>cs_WorkItemsActive := n\<rparr>"

definition updateApprovalsPending :: "CompanyState \<Rightarrow> int \<Rightarrow> CompanyState" where
  "updateApprovalsPending st n = st\<lparr>cs_ApprovalsPending := n\<rparr>"

definition updateLastReleaseAt :: "CompanyState \<Rightarrow> time option \<Rightarrow> CompanyState" where
  "updateLastReleaseAt st t = st\<lparr>cs_LastReleaseAt := t\<rparr>"

definition updateDeployHealth :: "CompanyState \<Rightarrow> string \<Rightarrow> CompanyState" where
  "updateDeployHealth st status =
     st\<lparr>cs_DeployHealth := (if status = ''failed'' then ''degraded'' else ''ready'')\<rparr>"

lemmas state_update_defs = updateWorkItemsActive_def updateApprovalsPending_def
  updateLastReleaseAt_def updateDeployHealth_def

section \<open>Every store meets the contract\<close>

lemma normalizePolicyDecision_id [simp]:
  "pd_DecisionID (normalizePolicyDecision p) = pd_DecisionID p"
  by (simp add: normalizePolicyDecision_def Let_def)

lemma normalizeExecuteRun_id [simp]: "er_ExecuteID (normalizeExecuteRun e) = er_ExecuteID e"
  by (simp add: normalizeExecuteRun_def)

lemma normalizeBranch_id [simp]: "br_BranchID (normalizeBranch now b) = br_BranchID b"
  by (simp add: normalizeBranch_def Let_def)

interpretation work_store: keyed_store wi_ID WorkItem_Validate workStore_create workStore_get id
  by unfold_locales (auto simp: store_defs)

interpretation flow_store: keyed_store fr_FlowID FlowRun_Validate flowStore_create flowStore_get id
  by unfold_locales (auto simp: store_defs)

interpretation approval_store: keyed_store ap_ApprovalID ApprovalItem_Validate approvalStore_create
  approvalStore_get id
  by unfold_locales (auto simp: store_defs)

interpretation release_store: keyed_store rp_ReleaseID ReleasePacket_Validate releaseStore_create
  releaseStore_get id
  by unfold_locales (auto simp: store_defs)

interpretation deploy_store: keyed_store dr_DeployID DeployRun_Validate deployStore_create
  deployStore_get id
  by unfold_locales (auto simp: store_defs)

interpretation rollback_store: append_store rr_RollbackID RollbackRun_Validate rollbackStore_create
  by unfold_locales (auto simp: store_defs)

interpretation preflight_store: append_store pf_RecordID PreflightRecord_Validate
  preflightStore_create
  by unfold_locales (auto simp: store_defs)

interpretation policy_store: keyed_store pd_DecisionID PolicyDecision_Validate policyStore_create
  policyStore_get id
  by unfold_locales (auto simp: store_defs)

interpretation gateway_store: keyed_store gc_CallID GatewayCall_Validate gatewayStore_create
  gatewayStore_get id
  by unfold_locales (auto simp: store_defs)

interpretation execute_store: append_store er_ExecuteID ExecuteRun_Validate executeStore_create
  by unfold_locales (auto simp: store_defs)

interpretation verification_store: append_store vr_RecordID VerificationRecord_Validate
  verificationStore_create
  by unfold_locales (auto simp: store_defs)

interpretation proposal_store: keyed_store pi_ProposalID ProposalItem_Validate proposalStore_create
  proposalStore_get id
  by unfold_locales (auto simp: store_defs)

interpretation job_store: unique_store aj_JobID AgentJob_Validate agentJobStore_create
  agentJobStore_get id
  by unfold_locales (auto simp: store_defs split: option.splits if_splits)

interpretation branch_store: unique_store br_BranchID Branch_Validate "branchStore_create now"
  branchStore_get TrimSpace for now
  by unfold_locales (auto simp: store_defs Let_def split: option.splits if_splits)

end
