(* ===== verification/Policy.thy ===== *)
theory Policy
  imports Stores
begin

text \<open>
  The routing policy (\<open>policy.go\<close>), what an execution run records of a decision (\<open>execute.go\<close>), and
  the notes, statuses and command normalisation of deploy and verification adapters
  (\<open>deploy.go\<close>, \<open>verify.go\<close>). A command's outcome is its output and its error message, if any.
\<close>

definition decidePolicy :: "string \<Rightarrow> string \<Rightarrow> string \<Rightarrow> string \<Rightarrow> bool \<Rightarrow> string \<times> string \<times> string list" where
  "decidePolicy intent risk novelty tokenClass requiresApproval =
     (if tokenClass = ''tiny'' \<and> (risk = ''high'' \<or> novelty = ''high'')
      then (''blocked'', ''hold'', [''token_class too small for high-risk or high-novelty work''])
      else if risk = ''high'' \<or> novelty = ''high''
      then (''single'', ''go'',
            [''high-risk or high-novelty work stays in the strongest single review lane''] @
            (if requiresApproval
             then [''approval-sensitive work remains daemon-mediated instead of direct local execution'']
             else []))
      else if requiresApproval \<or> risk = ''medium'' \<or> novelty = ''medium'' \<or> tokenClass = ''medium'' \<or> tokenClass = ''large''
      then (''single'', ''go'', [''moderate ambiguity or approval sensitivity routes to single mode''])
      else (''local'', ''go'',
            [''low-risk work stays local''] @
            (if intent \<noteq> '''' then [''intent is specific enough for deterministic local handling''] else [])))"

definition executeStatusFromDecision :: "PolicyDecision \<Rightarrow> string" where
  "executeStatusFromDecision decision =
     (if pd_Mode decision = ''local'' then ''succeeded''
      else if pd_Mode decision = ''single'' then ''recorded''
      else ''failed'')"

definition buildExecuteNotes :: "PolicyDecision \<Rightarrow> string list \<Rightarrow> string list" where
  "buildExecuteNotes decision base =
     (let notes = base @
            [if pd_Mode decision = ''local'' then ''local execution completed inside the kernel''
             else if pd_Mode decision = ''single'' then ''execution recorded for later provider-backed handling''
             else if pd_Mode decision = ''blocked'' then ''execution blocked by policy''
             else ''execution failed due to unsupported policy mode''];
          notes = (if pd_Decision decision = ''hold'' then notes @ [''policy decision is hold''] else notes)
      in if notes = [] then [''execution recorded''] else notes)"

definition trimNote :: "string \<Rightarrow> string" where
  "trimNote note = (let note = TrimSpace note in if length note \<le> 240 then note else take 240 note)"

definition statusFromError :: "error option \<Rightarrow> string" where
  "statusFromError err = (if err \<noteq> None then ''failed'' else ''succeeded'')"

definition adapter_notes :: "string list \<Rightarrow> string \<Rightarrow> error option \<Rightarrow> string list" where
  "adapter_notes base output err =
     base @ (if output \<noteq> '''' then [trimNote (''output: '' @ output)] else []) @
     (case err of None \<Rightarrow> [] | Some m \<Rightarrow> [trimNote (''error: '' @ m)])"

definition buildDeployNotes :: "string list \<Rightarrow> string \<Rightarrow> error option \<Rightarrow> string list" where
  "buildDeployNotes base output err =
     (let notes = adapter_notes base output err in if notes = [] then [''adapter executed''] else notes)"

definition buildVerificationNotes :: "string list \<Rightarrow> string \<Rightarrow> error option \<Rightarrow> string list" where
  "buildVerificationNotes base output err =
     (let notes = adapter_notes base output err in if notes = [] then [''verification executed''] else notes)"

definition verificationStatusFromError :: "error option \<Rightarrow> string" where
  "verificationStatusFromError err = (if err \<noteq> None then ''failed'' else ''passed'')"

section \<open>Command paths\<close>

text \<open>\<open>filepath.Clean\<close> of an absolute path, component by component.\<close>

fun path_parts :: "string \<Rightarrow> string list" where
  "path_parts [] = [[]]"
| "path_parts (c # s) =
     (if c = CHR ''/'' then [] # path_parts s
      else case path_parts s of [] \<Rightarrow> [[c]] | p # ps \<Rightarrow> (c # p) # ps)"

fun clean_parts :: "string list \<Rightarrow> string list \<Rightarrow> string list" where
  "clean_parts acc [] = rev acc"
| "clean_parts acc (p # ps) =
     (if p = '''' \<or> p = ''.'' then clean_parts acc ps
      else if p = ''..'' then clean_parts (drop 1 acc) ps
      else clean_parts (p # acc) ps)"

definition clean_abs :: "string \<Rightarrow> string" where
  "clean_abs path = ''/'' @ join_with ''/'' (clean_parts [] (path_parts path))"

definition normalizeVerificationCommand :: "string list \<Rightarrow> error + string list" where
  "normalizeVerificationCommand command =
     (case command of
        [] \<Rightarrow> Inl ''verification command is required''
      | c # rest \<Rightarrow>
          let executable = TrimSpace c in
          if executable = '''' then Inl ''verification executable is required''
          else if \<not> IsAbs executable then Inl ''verification executable must be an absolute path''
          else Inr (clean_abs executable # rest))"

section \<open>Decisions\<close>

lemma decidePolicy_valid:
  assumes "decidePolicy intent risk novelty tc appr = (mode, decision, reasons)"
  shows "validPolicyMode mode" "validPreflightDecision decision" "reasons \<noteq> []"
  using assms by (auto simp: decidePolicy_def status_defs canonicalPolicyMode_def split: if_splits)

lemma decidePolicy_local_iff:
  "fst (decidePolicy intent risk novelty tc appr) = ''local'' \<longleftrightarrow>
     \<not> appr \<and> risk \<noteq> ''high'' \<and> risk \<noteq> ''medium'' \<and> novelty \<noteq> ''high'' \<and> novelty \<noteq> ''medium'' \<and>
     tc \<noteq> ''medium'' \<and> tc \<noteq> ''large''"
  by (auto simp: decidePolicy_def)

lemma trimNote_length: "length (trimNote note) \<le> 240"
  by (simp add: trimNote_def Let_def)

lemma buildDeployNotes_nonempty [simp]: "buildDeployNotes base output err \<noteq> []"
  by (simp add: buildDeployNotes_def Let_def)

lemma buildVerificationNotes_nonempty [simp]: "buildVerificationNotes base output err \<noteq> []"
  by (simp add: buildVerificationNotes_def Let_def)

text \<open>A cleaned path has no empty, dot or dot-dot component left, and cleaning is idempotent on parts.\<close>

definition plain_part :: "string \<Rightarrow> bool" where
  "plain_part p \<longleftrightarrow> p \<noteq> '''' \<and> p \<noteq> ''.'' \<and> p \<noteq> ''..''"

lemma clean_parts_step:
  "clean_parts acc (p # ps) =
     (if plain_part p then clean_parts (p # acc) ps
      else if p = ''..'' then clean_parts (drop 1 acc) ps else clean_parts acc ps)"
  by (simp add: plain_part_def)

declare clean_parts.simps(2) [simp del] clean_parts_step [simp]

lemma clean_parts_normal: "list_all plain_part acc \<Longrightarrow> list_all plain_part (clean_parts acc ps)"
proof (induction ps arbitrary: acc)
  case (Cons p ps)
  have "list_all plain_part (drop 1 acc)" using Cons.prems by (cases acc) simp_all
  then show ?case using Cons by simp
qed (simp add: list_all_rev)

lemma clean_parts_fix: "list_all plain_part ps \<Longrightarrow> clean_parts acc ps = rev acc @ ps"
  by (induction ps arbitrary: acc) simp_all

lemma path_parts_no_slash: "p \<in> set (path_parts s) \<Longrightarrow> CHR ''/'' \<notin> set p"
  by (induction s arbitrary: p) (auto split: if_splits list.splits)

lemma path_parts_append_slash:
  "CHR ''/'' \<notin> set p \<Longrightarrow> path_parts (p @ CHR ''/'' # s) = p # path_parts s"
  by (induction p) auto

lemma path_parts_plain: "CHR ''/'' \<notin> set p \<Longrightarrow> path_parts p = [p]"
  by (induction p) auto

lemma path_parts_join:
  "ps \<noteq> [] \<Longrightarrow> \<forall>p \<in> set ps. CHR ''/'' \<notin> set p \<Longrightarrow> path_parts (join_with ''/'' ps) = ps"
  by (induction "''/''" ps rule: join_with.induct) (auto simp: path_parts_plain path_parts_append_slash)

lemma clean_parts_subset: "set (clean_parts acc ps) \<subseteq> set acc \<union> set ps"
proof (induction ps arbitrary: acc)
  case (Cons p ps)
  show ?case
    using Cons.IH [of "p # acc"] Cons.IH [of acc] Cons.IH [of "drop 1 acc"] set_drop_subset [of 1 acc]
    by auto
qed simp

lemma clean_abs_idem: "clean_abs (clean_abs s) = clean_abs s"
proof -
  let ?ps = "clean_parts [] (path_parts s)"
  have n: "list_all plain_part ?ps" by (rule clean_parts_normal) simp
  have sl: "\<forall>p \<in> set ?ps. CHR ''/'' \<notin> set p"
    using clean_parts_subset [of "[]" "path_parts s"] path_parts_no_slash by fastforce
  show ?thesis
  proof (cases "?ps = []")
    case True then show ?thesis by (simp add: clean_abs_def plain_part_def)
  next
    case False
    have "clean_parts [] (path_parts (''/'' @ join_with ''/'' ?ps)) = ?ps"
      using path_parts_join [OF False sl] clean_parts_fix [OF n, of "[]"] by (simp add: plain_part_def)
    then show ?thesis by (simp add: clean_abs_def)
  qed
qed

end
