(* ===== verification/Review_Room.thy ===== *)
theory Review_Room
  imports Stores "HOL-Library.List_Lexorder" "HOL-Library.Char_ord"
begin

text \<open>
  The review room: types_review.go, review_room.go, review_room_item.go, review_room_auto.go,
  review_room_contradiction.go, review_room_audit.go, review_room_integrity.go and
  review_room_gateway.go. A room holds three sections of agenda items. Adding an item is refused
  when its text is anywhere in the room; a transition moves or removes the item with a given
  text. The parameter \<open>wr\<close> of the contradiction search is \<open>unicode.IsLetter(r) || unicode.IsDigit(r)\<close>
  on code points. One clock reading stands for the readings of one normalisation call; an item
  that has its creation time ignores it.
\<close>

section \<open>Records\<close>

record ReviewRoomRationale =
  ra_Trigger :: string
  ra_Reason :: string
  ra_Rule :: string

record ReviewRoomResolution =
  rs_Action :: string
  rs_Reason :: string
  rs_Rule :: string
  rs_Evidence :: "string list"
  rs_ResolvedAt :: time

record ReviewRoomItem =
  ri_Text :: string
  ri_Kind :: string
  ri_Severity :: string
  ri_Source :: string
  ri_Ref :: "string option"
  ri_Why :: string
  ri_WhyUnresolved :: "string option"
  ri_Contradiction :: "string option"
  ri_Contradictions :: "string list"
  ri_PatternRefs :: "string list"
  ri_Rationale :: "ReviewRoomRationale option"
  ri_Resolution :: "ReviewRoomResolution option"
  ri_Evidence :: "string list"
  ri_CreatedAt :: time
  ri_UpdatedAt :: time

text \<open>\<open>normalizeReviewRoom\<close> replaces nil sections by empty ones before any use, so they are lists.\<close>

record ReviewRoom =
  rm_Source :: string
  rm_Accepted :: "ReviewRoomItem list"
  rm_Open :: "ReviewRoomItem list"
  rm_Deferred :: "ReviewRoomItem list"
  rm_Issues :: "string list"
  rm_UpdatedAt :: "time option"

record ReviewRoomSummary =
  rv_Source :: string
  rv_AcceptedCount :: int
  rv_OpenCount :: int
  rv_DeferredCount :: int
  rv_TopAccepted :: "ReviewRoomItem list"
  rv_TopOpen :: "ReviewRoomItem list"
  rv_TopDeferred :: "ReviewRoomItem list"
  rv_Issues :: "string list"
  rv_UpdatedAt :: "time option"

section \<open>Sections, actions and normalisation\<close>

definition reviewRoomRuntimeFile :: string where
  "reviewRoomRuntimeFile = ''review_room.json''"

definition ErrInvalidReviewRoomSection :: error where
  "ErrInvalidReviewRoomSection = ''review room section is invalid''"

definition ErrMissingReviewRoomItem :: error where
  "ErrMissingReviewRoomItem = ''review room item is required''"

definition ErrDuplicateReviewRoomItem :: error where
  "ErrDuplicateReviewRoomItem = ''review room item already exists in section''"

definition ErrInvalidReviewRoomAction :: error where
  "ErrInvalidReviewRoomAction = ''review room action is invalid''"

definition ErrReviewRoomItemNotFound :: error where
  "ErrReviewRoomItemNotFound = ''review room item not found''"

definition normalizeReviewSection :: "string \<Rightarrow> string" where
  "normalizeReviewSection section0 =
     (let section1 = TrimSpace (ToLower section0) in
      if section1 \<in> {''accepted'', ''open'', ''deferred''} then section1 else [])"

definition normalizeReviewAction :: "string \<Rightarrow> string" where
  "normalizeReviewAction action0 =
     (let action = TrimSpace (ToLower action0) in
      if action \<in> {''accept'', ''defer'', ''resolve''} then action else [])"

text \<open>Trimmed, non-blank, without repetitions, in the order of first occurrence.\<close>

fun evidence_from :: "string list \<Rightarrow> string list \<Rightarrow> string list" where
  "evidence_from seen [] = []"
| "evidence_from seen (item # rest) =
     (let v = TrimSpace item in
      if v = [] \<or> v \<in> set seen then evidence_from seen rest
      else v # evidence_from (v # seen) rest)"

definition normalizeReviewRoomEvidence :: "string list \<Rightarrow> string list" where
  "normalizeReviewRoomEvidence items = evidence_from [] items"

definition normalizeReviewRoomRationale ::
  "ReviewRoomRationale option \<Rightarrow> ReviewRoomRationale option" where
  "normalizeReviewRoomRationale rationale =
     (case rationale of None \<Rightarrow> None
      | Some r \<Rightarrow>
          (let out = \<lparr>ra_Trigger = TrimSpace (ra_Trigger r), ra_Reason = TrimSpace (ra_Reason r),
                      ra_Rule = TrimSpace (ra_Rule r)\<rparr> in
           if ra_Trigger out = [] \<and> ra_Reason out = [] \<and> ra_Rule out = [] then None else Some out))"

definition normalizeReviewRoomResolution ::
  "ReviewRoomResolution option \<Rightarrow> ReviewRoomResolution option" where
  "normalizeReviewRoomResolution resolution =
     (case resolution of None \<Rightarrow> None
      | Some r \<Rightarrow>
          (let action = normalizeReviewAction (rs_Action r);
               out = \<lparr>rs_Action = (if action = [] then TrimSpace (ToLower (rs_Action r)) else action),
                      rs_Reason = TrimSpace (rs_Reason r), rs_Rule = TrimSpace (rs_Rule r),
                      rs_Evidence = normalizeReviewRoomEvidence (rs_Evidence r),
                      rs_ResolvedAt = rs_ResolvedAt r\<rparr> in
           if rs_Action out = [] \<and> rs_Reason out = [] \<and> rs_Rule out = [] \<and> rs_Evidence out = []
           then None else Some out))"

definition normalizeReviewRoomItem :: "time \<Rightarrow> ReviewRoomItem \<Rightarrow> ReviewRoomItem" where
  "normalizeReviewRoomItem now item =
     (let contradiction = normalizeRef (ri_Contradiction item);
          cs0 = normalizeReviewRoomEvidence (ri_Contradictions item);
          cs = (if cs0 = [] then (case contradiction of None \<Rightarrow> [] | Some c \<Rightarrow> [TrimSpace c]) else cs0);
          kind = TrimSpace (ri_Kind item);
          severity = TrimSpace (ri_Severity item);
          source = TrimSpace (ri_Source item);
          created = (if IsZero (ri_CreatedAt item) then now else ri_CreatedAt item)
      in \<lparr>ri_Text = TrimSpace (ri_Text item),
          ri_Kind = (if kind = [] then ''agenda'' else kind),
          ri_Severity = (if severity = [] then ''medium'' else severity),
          ri_Source = (if source = [] then ''manual'' else source),
          ri_Ref = normalizeRef (ri_Ref item),
          ri_Why = TrimSpace (ri_Why item),
          ri_WhyUnresolved = normalizeRef (ri_WhyUnresolved item),
          ri_Contradiction =
            (if contradiction = None \<and> length cs = 1 then normalizeRef (Some (hd cs)) else contradiction),
          ri_Contradictions = cs,
          ri_PatternRefs = normalizeReviewRoomEvidence (ri_PatternRefs item),
          ri_Rationale = normalizeReviewRoomRationale (ri_Rationale item),
          ri_Resolution = normalizeReviewRoomResolution (ri_Resolution item),
          ri_Evidence = normalizeReviewRoomEvidence (ri_Evidence item),
          ri_CreatedAt = created,
          ri_UpdatedAt = (if IsZero (ri_UpdatedAt item) then created else ri_UpdatedAt item)\<rparr>)"

definition normalizeReviewRoomItems :: "time \<Rightarrow> ReviewRoomItem list \<Rightarrow> ReviewRoomItem list" where
  "normalizeReviewRoomItems now items = map (normalizeReviewRoomItem now) items"

definition normalizeReviewRoom :: "time \<Rightarrow> ReviewRoom \<Rightarrow> ReviewRoom" where
  "normalizeReviewRoom now room =
     room\<lparr>rm_Source := (if blank (rm_Source room) then reviewRoomRuntimeFile else rm_Source room),
          rm_Accepted := normalizeReviewRoomItems now (rm_Accepted room),
          rm_Open := normalizeReviewRoomItems now (rm_Open room),
          rm_Deferred := normalizeReviewRoomItems now (rm_Deferred room)\<rparr>"

definition copyReviewRoom :: "time \<Rightarrow> ReviewRoom \<Rightarrow> ReviewRoom" where
  "copyReviewRoom now room0 =
     (let room = normalizeReviewRoom now room0 in
      room\<lparr>rm_Accepted := normalizeReviewRoomItems now (rm_Accepted room),
           rm_Open := normalizeReviewRoomItems now (rm_Open room),
           rm_Deferred := normalizeReviewRoomItems now (rm_Deferred room)\<rparr>)"

definition newReviewRoomStore :: "time \<Rightarrow> ReviewRoom \<Rightarrow> ReviewRoom" where
  "newReviewRoomStore now room = normalizeReviewRoom now room"

definition defaultReviewRoom :: "string \<Rightarrow> ReviewRoom" where
  "defaultReviewRoom source =
     \<lparr>rm_Source = source, rm_Accepted = [], rm_Open = [], rm_Deferred = [], rm_Issues = [],
      rm_UpdatedAt = None\<rparr>"

section \<open>Validation\<close>

definition ReviewRoomRationale_Validate :: "ReviewRoomRationale \<Rightarrow> error option" where
  [validate_defs]: "ReviewRoomRationale_Validate r = first_error
    [(blank (ra_Trigger r), ''review room rationale trigger is required''),
     (blank (ra_Reason r), ''review room rationale reason is required''),
     (blank (ra_Rule r), ''review room rationale rule is required'')]"

definition ReviewRoomResolution_Validate :: "ReviewRoomResolution \<Rightarrow> error option" where
  [validate_defs]: "ReviewRoomResolution_Validate r = first_error
    [(normalizeReviewAction (rs_Action r) = [], ''review room resolution action is invalid''),
     (blank (rs_Reason r), ''review room resolution reason is required''),
     (blank (rs_Rule r), ''review room resolution rule is required''),
     (IsZero (rs_ResolvedAt r), ''review room resolution resolved_at is required''),
     (list_ex blank (rs_Evidence r), ''review room resolution evidence must not contain empty items'')]"

definition or_else :: "error option \<Rightarrow> error option \<Rightarrow> error option" where
  "or_else a b = (case a of Some err \<Rightarrow> Some err | None \<Rightarrow> b)"

lemma or_else_None [simp]: "or_else a b = None \<longleftrightarrow> a = None \<and> b = None"
  by (auto simp: or_else_def split: option.splits)

definition ReviewRoomItem_Validate :: "ReviewRoomItem \<Rightarrow> error option" where
  [validate_defs]: "ReviewRoomItem_Validate r =
    or_else (first_error
      [(blank (ri_Text r), ''review room item text is required''),
       (blank (ri_Kind r), ''review room item kind is required''),
       (blank (ri_Severity r), ''review room item severity is required''),
       (blank (ri_Source r), ''review room item source is required''),
       (opt_blank (ri_Ref r), ''review room item ref must not be empty''),
       (opt_blank (ri_WhyUnresolved r), ''review room item why_unresolved must not be empty''),
       (opt_blank (ri_Contradiction r), ''review room item contradiction must not be empty''),
       (list_ex blank (ri_Contradictions r),
        ''review room item contradictions must not contain empty items''),
       (list_ex blank (ri_PatternRefs r),
        ''review room item pattern_refs must not contain empty items'')])
    (or_else (case ri_Rationale r of None \<Rightarrow> None | Some x \<Rightarrow> ReviewRoomRationale_Validate x)
    (or_else (case ri_Resolution r of None \<Rightarrow> None | Some x \<Rightarrow> ReviewRoomResolution_Validate x)
    (first_error
      [(list_ex blank (ri_Evidence r), ''review room item evidence must not contain empty items''),
       (IsZero (ri_CreatedAt r), ''review room item created_at is required''),
       (IsZero (ri_UpdatedAt r), ''review room item updated_at is required'')])))"

section \<open>Keywords and contradictions\<close>

text \<open>Decoding of one rune as \<open>utf8.DecodeRuneInString\<close>: the code point and its width.\<close>

definition decode_rune :: "string \<Rightarrow> nat \<times> nat" where
  "decode_rune s =
     (let b = (\<lambda>i. (of_char (s ! i) :: nat)); n = length s;
          cont = (\<lambda>i. 0x80 \<le> b i \<and> b i \<le> 0xBF); b0 = b 0 in
      if b0 < 0x80 then (b0, 1)
      else if 0xC2 \<le> b0 \<and> b0 \<le> 0xDF \<and> n \<ge> 2 \<and> cont 1
        then ((b0 - 0xC0) * 64 + (b 1 - 0x80), 2)
      else if 0xE0 \<le> b0 \<and> b0 \<le> 0xEF \<and> n \<ge> 3 \<and> cont 1 \<and> cont 2 \<and>
              (b0 = 0xE0 \<longrightarrow> 0xA0 \<le> b 1) \<and> (b0 = 0xED \<longrightarrow> b 1 \<le> 0x9F)
        then ((b0 - 0xE0) * 4096 + (b 1 - 0x80) * 64 + (b 2 - 0x80), 3)
      else if 0xF0 \<le> b0 \<and> b0 \<le> 0xF4 \<and> n \<ge> 4 \<and> cont 1 \<and> cont 2 \<and> cont 3 \<and>
              (b0 = 0xF0 \<longrightarrow> 0x90 \<le> b 1) \<and> (b0 = 0xF4 \<longrightarrow> b 1 \<le> 0x8F)
        then ((b0 - 0xF0) * 262144 + (b 1 - 0x80) * 4096 + (b 2 - 0x80) * 64 + (b 3 - 0x80), 4)
      else (0xFFFD, 1))"

lemma decode_rune_width: "0 < snd (decode_rune s)"
  by (simp add: decode_rune_def Let_def)

function split_runes :: "string \<Rightarrow> (nat \<times> string) list" where
  "split_runes s =
     (if s = [] then []
      else let (r, w) = decode_rune s in (r, take w s) # split_runes (drop w s))"
  by pat_completeness auto
termination
proof (relation "measure length", simp)
  fix s :: string and x r w
  assume "s \<noteq> []" "x = decode_rune s" "(r, w) = x"
  then have "0 < w" using decode_rune_width by (metis snd_conv)
  with \<open>s \<noteq> []\<close> show "(drop w s, s) \<in> measure length" by simp
qed

declare split_runes.simps [simp del]

text \<open>\<open>strings.FieldsFunc\<close> with the complement of \<open>wr\<close> as separator.\<close>

fun fields_of :: "(nat \<Rightarrow> bool) \<Rightarrow> (nat \<times> string) list \<Rightarrow> string \<Rightarrow> string list" where
  "fields_of wr [] cur = (if cur = [] then [] else [cur])"
| "fields_of wr ((r, bs) # rest) cur =
     (if wr r then fields_of wr rest (cur @ bs)
      else if cur = [] then fields_of wr rest [] else cur # fields_of wr rest [])"

definition reviewRoomConflictStopwords :: "string list" where
  "reviewRoomConflictStopwords =
     [''a'', ''an'', ''and'', ''are'', ''before'', ''for'', ''from'', ''into'', ''item'', ''its'', ''later'',
      ''manual'', ''not'', ''open'', ''operator'', ''review'', ''room'', ''still'', ''that'', ''the'', ''this'',
      ''with'', ''without'']"

definition utf8Len :: "string \<Rightarrow> nat" where
  "utf8Len s = length (split_runes s)"

fun keyword_filter :: "string list \<Rightarrow> string list \<Rightarrow> string list" where
  "keyword_filter seen [] = []"
| "keyword_filter seen (item0 # rest) =
     (let item = TrimSpace item0 in
      if item = [] \<or> item \<in> set reviewRoomConflictStopwords \<or> utf8Len item < 2 \<or> item \<in> set seen
      then keyword_filter seen rest
      else item # keyword_filter (item # seen) rest)"

definition reviewRoomKeywordSet :: "(nat \<Rightarrow> bool) \<Rightarrow> string \<Rightarrow> string list" where
  "reviewRoomKeywordSet wr text0 =
     (let text = TrimSpace (ToLower text0) in
      if text = [] then [] else sort (keyword_filter [] (fields_of wr (split_runes text) [])))"

definition reviewRoomConflictKeywords :: "(nat \<Rightarrow> bool) \<Rightarrow> ReviewRoomItem \<Rightarrow> string list" where
  "reviewRoomConflictKeywords wr item =
     reviewRoomKeywordSet wr (join_with '' '' (normalizeReviewRoomEvidence
       ([ri_Text item, ri_Why item] @
        (case ri_WhyUnresolved item of None \<Rightarrow> [] | Some w \<Rightarrow> [TrimSpace w]) @
        (case ri_Resolution item of None \<Rightarrow> [] | Some r \<Rightarrow> [TrimSpace (rs_Reason r)]))))"

definition intersectStrings :: "string list \<Rightarrow> string list \<Rightarrow> string list" where
  "intersectStrings left right =
     (let rightSet = filter (\<lambda>x. x \<noteq> []) (map TrimSpace right) in
      filter (\<lambda>x. x \<noteq> [] \<and> x \<in> set rightSet) (map TrimSpace left))"

definition reviewRoomDecisionContradictions ::
  "(nat \<Rightarrow> bool) \<Rightarrow> time \<Rightarrow> ReviewRoomItem list \<Rightarrow> ReviewRoomItem \<Rightarrow> string list" where
  "reviewRoomDecisionContradictions wr now decisions item0 =
     (let agendaKeywords = reviewRoomConflictKeywords wr (normalizeReviewRoomItem now item0) in
      if agendaKeywords = [] then []
      else normalizeReviewRoomEvidence (map ri_Text (filter
             (\<lambda>d. \<not> blank (ri_Text d) \<and>
                  intersectStrings agendaKeywords (reviewRoomConflictKeywords wr d) \<noteq> [])
             (map (normalizeReviewRoomItem now) decisions))))"

definition annotateReviewRoomContradictions ::
  "(nat \<Rightarrow> bool) \<Rightarrow> time \<Rightarrow> ReviewRoom \<Rightarrow> string \<Rightarrow> ReviewRoomItem \<Rightarrow> ReviewRoomItem" where
  "annotateReviewRoomContradictions wr now room section0 item0 =
     (let item = normalizeReviewRoomItem now item0 in
      if normalizeReviewSection section0 \<noteq> ''open'' then item
      else let ms = reviewRoomDecisionContradictions wr now (rm_Accepted room) item in
        if ms = [] then item
        else let cs = normalizeReviewRoomEvidence (ri_Contradictions item @ ms);
                 c = (if ri_Contradiction item = None \<and> length cs = 1
                      then normalizeRef (Some (hd cs)) else ri_Contradiction item)
             in normalizeReviewRoomItem now
                  (item\<lparr>ri_Contradictions := cs, ri_Contradiction := c\<rparr>))"

section \<open>Adding items\<close>

definition reviewRoomHasItem :: "ReviewRoom \<Rightarrow> string \<Rightarrow> bool" where
  "reviewRoomHasItem room item0 =
     (let item = TrimSpace item0 in
      if item = [] then False
      else list_ex (\<lambda>e. ri_Text e = item) (rm_Accepted room) \<or>
           list_ex (\<lambda>e. ri_Text e = item) (rm_Open room) \<or>
           list_ex (\<lambda>e. ri_Text e = item) (rm_Deferred room))"

definition reviewRoomSection :: "ReviewRoom \<Rightarrow> string \<Rightarrow> ReviewRoomItem list option" where
  "reviewRoomSection room sec =
     (if sec = ''accepted'' then Some (rm_Accepted room)
      else if sec = ''open'' then Some (rm_Open room)
      else if sec = ''deferred'' then Some (rm_Deferred room) else None)"

definition section_append :: "ReviewRoom \<Rightarrow> string \<Rightarrow> ReviewRoomItem \<Rightarrow> ReviewRoom" where
  "section_append room sec item =
     (if sec = ''accepted'' then room\<lparr>rm_Accepted := rm_Accepted room @ [item]\<rparr>
      else if sec = ''open'' then room\<lparr>rm_Open := rm_Open room @ [item]\<rparr>
      else if sec = ''deferred'' then room\<lparr>rm_Deferred := rm_Deferred room @ [item]\<rparr> else room)"

definition ensureReviewRoomItem ::
  "(nat \<Rightarrow> bool) \<Rightarrow> time \<Rightarrow> ReviewRoom \<Rightarrow> string \<Rightarrow> ReviewRoomItem \<Rightarrow> error + (ReviewRoom \<times> bool)" where
  "ensureReviewRoomItem wr now room0 section0 item0 =
     (let sec = normalizeReviewSection section0 in
      if sec = [] then Inl ErrInvalidReviewRoomSection
      else let item = normalizeReviewRoomItem now item0 in
        if ri_Text item = [] then Inl ErrMissingReviewRoomItem
        else let room = copyReviewRoom now room0 in
          if reviewRoomHasItem room (ri_Text item) then Inr (room, False)
          else let item' = annotateReviewRoomContradictions wr now room sec item in
            Inr (normalizeReviewRoom now ((section_append room sec item')\<lparr>rm_UpdatedAt := Some now\<rparr>), True))"

definition reviewRoomStore_add ::
  "(nat \<Rightarrow> bool) \<Rightarrow> time \<Rightarrow> ReviewRoom \<Rightarrow> string \<Rightarrow> ReviewRoomItem \<Rightarrow> error + (ReviewRoom \<times> ReviewRoom)" where
  "reviewRoomStore_add wr now store section0 item0 =
     (let sec = normalizeReviewSection section0 in
      if sec = [] then Inl ErrInvalidReviewRoomSection
      else let item = normalizeReviewRoomItem now item0 in
        if ri_Text item = [] then Inl ErrMissingReviewRoomItem
        else let room = copyReviewRoom now store in
          if list_ex (\<lambda>e. ri_Text e = ri_Text item) (elems (reviewRoomSection room sec))
          then Inl ErrDuplicateReviewRoomItem
          else case ensureReviewRoomItem wr now room sec item of
                 Inl err \<Rightarrow> Inl err
               | Inr (updated, added) \<Rightarrow>
                   if \<not> added then Inl ErrDuplicateReviewRoomItem
                   else Inr (copyReviewRoom now updated, updated))"

section \<open>Transitions\<close>

text \<open>\<open>removeReviewRoomItem\<close>: the list without its first item with the text, and that item.\<close>

fun removeReviewRoomItem ::
  "ReviewRoomItem list \<Rightarrow> string \<Rightarrow> ReviewRoomItem list \<times> ReviewRoomItem option" where
  "removeReviewRoomItem [] target = ([], None)"
| "removeReviewRoomItem (x # xs) target =
     (if ri_Text x = target then (xs, Some x)
      else let (ys, r) = removeReviewRoomItem xs target in (x # ys, r))"

definition default_resolution_reason :: "string \<Rightarrow> string" where
  "default_resolution_reason action =
     (if action = ''accept'' then ''operator accepted the agenda item into the active decision set''
      else if action = ''defer'' then ''operator deferred the agenda item for later review''
      else if action = ''resolve'' then ''operator resolved the agenda item and closed the loop'' else [])"

definition default_resolution_rule :: "string \<Rightarrow> string" where
  "default_resolution_rule action =
     (if action = ''accept'' then ''review_room.transition.accept''
      else if action = ''defer'' then ''review_room.transition.defer''
      else if action = ''resolve'' then ''review_room.transition.resolve'' else [])"

definition defaultReviewRoomResolution ::
  "string \<Rightarrow> ReviewRoomResolution option \<Rightarrow> time \<Rightarrow> ReviewRoomResolution option" where
  "defaultReviewRoomResolution action0 resolution resolvedAt =
     (let action = normalizeReviewAction action0 in
      if action = [] then normalizeReviewRoomResolution resolution
      else let base = \<lparr>rs_Action = action, rs_Reason = default_resolution_reason action,
                       rs_Rule = default_resolution_rule action, rs_Evidence = [],
                       rs_ResolvedAt = resolvedAt\<rparr>;
               merged = (case normalizeReviewRoomResolution resolution of
                 None \<Rightarrow> base
               | Some v \<Rightarrow>
                   \<lparr>rs_Action = (if rs_Action v \<noteq> [] then rs_Action v else rs_Action base),
                    rs_Reason = (if rs_Reason v \<noteq> [] then rs_Reason v else rs_Reason base),
                    rs_Rule = (if rs_Rule v \<noteq> [] then rs_Rule v else rs_Rule base),
                    rs_Evidence = (if rs_Evidence v \<noteq> [] then rs_Evidence v else rs_Evidence base),
                    rs_ResolvedAt = (if IsZero (rs_ResolvedAt v) then rs_ResolvedAt base
                                     else rs_ResolvedAt v)\<rparr>)
           in normalizeReviewRoomResolution (Some merged))"

definition stampDeferredWhyUnresolved :: "time \<Rightarrow> ReviewRoomItem \<Rightarrow> ReviewRoomItem" where
  "stampDeferredWhyUnresolved now item0 =
     (let item = normalizeReviewRoomItem now item0 in
      if ri_WhyUnresolved item \<noteq> None then item
      else normalizeReviewRoomItem now
             (case ri_Resolution item of None \<Rightarrow> item
              | Some r \<Rightarrow> item\<lparr>ri_WhyUnresolved := normalizeRef (Some (rs_Reason r))\<rparr>))"

text \<open>The three attempts of a transition: accepted, then open, then deferred.\<close>

definition remove_from_room :: "ReviewRoom \<Rightarrow> string \<Rightarrow> ReviewRoom \<times> ReviewRoomItem option" where
  "remove_from_room room item =
     (case removeReviewRoomItem (rm_Accepted room) item of
        (acc, Some r) \<Rightarrow> (room\<lparr>rm_Accepted := acc\<rparr>, Some r)
      | (_, None) \<Rightarrow>
          (case removeReviewRoomItem (rm_Open room) item of
             (opn, Some r) \<Rightarrow> (room\<lparr>rm_Open := opn\<rparr>, Some r)
           | (_, None) \<Rightarrow>
               (case removeReviewRoomItem (rm_Deferred room) item of
                  (dfr, Some r) \<Rightarrow> (room\<lparr>rm_Deferred := dfr\<rparr>, Some r)
                | (_, None) \<Rightarrow> (room, None))))"

text \<open>
  The result holds the new room, the item that moved, and whether anything changed. When no item
  has the text, the room that is returned has already lost its issues; callers drop it.
\<close>

definition transitionReviewRoomItem ::
  "time \<Rightarrow> ReviewRoom \<Rightarrow> string \<Rightarrow> string \<Rightarrow> ReviewRoomResolution option \<Rightarrow>
   error + (ReviewRoom \<times> ReviewRoomItem option \<times> bool)" where
  "transitionReviewRoomItem now room0 action0 item0 resolution =
     (let action = normalizeReviewAction action0 in
      if action = [] then Inl ErrInvalidReviewRoomAction
      else let item = TrimSpace item0 in
        if item = [] then Inl ErrMissingReviewRoomItem
        else let (room1, found) = remove_from_room ((copyReviewRoom now room0)\<lparr>rm_Issues := []\<rparr>) item
          in case found of
               None \<Rightarrow> Inr (room1, None, False)
             | Some rem0 \<Rightarrow>
                 (let rem1 = rem0\<lparr>ri_UpdatedAt := now,
                                  ri_Resolution := defaultReviewRoomResolution action resolution now\<rparr>;
                      rem2 = (if action = ''defer'' then stampDeferredWhyUnresolved now rem1 else rem1);
                      room2 = (if action = ''accept'' then room1\<lparr>rm_Accepted := rm_Accepted room1 @ [rem2]\<rparr>
                               else if action = ''defer'' then room1\<lparr>rm_Deferred := rm_Deferred room1 @ [rem2]\<rparr>
                               else room1)
                  in Inr (normalizeReviewRoom now (room2\<lparr>rm_UpdatedAt := Some now\<rparr>), Some rem2, True)))"

definition transitionStructured ::
  "time \<Rightarrow> ReviewRoom \<Rightarrow> string \<Rightarrow> string \<Rightarrow> ReviewRoomResolution option \<Rightarrow>
   error + (ReviewRoom \<times> ReviewRoomItem option \<times> ReviewRoom)" where
  "transitionStructured now store action0 item0 resolution =
     (let action = normalizeReviewAction action0 in
      if action = [] then Inl ErrInvalidReviewRoomAction
      else let item = TrimSpace item0 in
        if item = [] then Inl ErrMissingReviewRoomItem
        else case transitionReviewRoomItem now store action item resolution of
               Inl err \<Rightarrow> Inl err
             | Inr (updated, transitioned, changed) \<Rightarrow>
                 if \<not> changed then Inl ErrReviewRoomItemNotFound
                 else Inr (copyReviewRoom now updated, transitioned, updated))"

section \<open>Automatic resolution\<close>

definition refString :: "string option \<Rightarrow> string" where
  "refString v = (case v of None \<Rightarrow> [] | Some s \<Rightarrow> TrimSpace s)"

definition findOpenReviewRoomItem :: "ReviewRoom \<Rightarrow> string \<Rightarrow> string option \<Rightarrow> string option" where
  "findOpenReviewRoomItem room source ref =
     (let targetRef = TrimSpace (refString ref) in
      map_option ri_Text (find (\<lambda>item. TrimSpace (ri_Source item) = TrimSpace source \<and>
          (targetRef = [] \<or> TrimSpace (refString (ri_Ref item)) = targetRef)) (rm_Open room)))"

definition autoResolveReviewRoomItemLocked ::
  "time \<Rightarrow> ReviewRoom \<Rightarrow> string \<Rightarrow> string option \<Rightarrow> ReviewRoomResolution option \<Rightarrow>
   error + (ReviewRoom \<times> ReviewRoomItem option \<times> bool)" where
  "autoResolveReviewRoomItemLocked now store source ref resolution =
     (let room = copyReviewRoom now store in
      case findOpenReviewRoomItem room source ref of
        None \<Rightarrow> Inr (room, None, False)
      | Some target \<Rightarrow> transitionReviewRoomItem now room ''resolve'' target resolution)"

definition reviewRoomItemHasEvidence :: "ReviewRoomItem \<Rightarrow> string \<Rightarrow> bool" where
  "reviewRoomItemHasEvidence item evidence0 =
     (let evidence = TrimSpace evidence0 in
      evidence \<noteq> [] \<and> list_ex (\<lambda>v. TrimSpace v = evidence) (ri_Evidence item))"

definition findOpenReviewRoomItemByEvidence :: "ReviewRoom \<Rightarrow> string \<Rightarrow> string \<Rightarrow> string option" where
  "findOpenReviewRoomItemByEvidence room source evidence0 =
     (let evidence = TrimSpace evidence0 in
      if evidence = [] then None
      else map_option ri_Text (find (\<lambda>item. TrimSpace (ri_Source item) = TrimSpace source \<and>
             reviewRoomItemHasEvidence item evidence) (rm_Open room)))"

definition room_size :: "ReviewRoom \<Rightarrow> nat" where
  "room_size room = length (rm_Accepted room) + length (rm_Open room) + length (rm_Deferred room)"

lemma length_normalizeReviewRoomItems [simp]:
  "length (normalizeReviewRoomItems now xs) = length xs"
  by (simp add: normalizeReviewRoomItems_def)

lemma room_size_normalize [simp]: "room_size (normalizeReviewRoom now r) = room_size r"
  by (simp add: room_size_def normalizeReviewRoom_def)

lemma room_size_copy [simp]: "room_size (copyReviewRoom now r) = room_size r"
  by (simp add: room_size_def copyReviewRoom_def normalizeReviewRoom_def Let_def)

lemma removeReviewRoomItem_None:
  "removeReviewRoomItem xs t = (ys, None) \<Longrightarrow> ys = xs \<and> t \<notin> ri_Text ` set xs"
  by (induction xs arbitrary: ys) (auto simp: Let_def split: if_splits prod.splits)

lemma removeReviewRoomItem_Some:
  "removeReviewRoomItem xs t = (ys, Some r) \<Longrightarrow>
   \<exists>a b. xs = a @ r # b \<and> ys = a @ b \<and> ri_Text r = t \<and> t \<notin> ri_Text ` set a"
proof (induction xs arbitrary: ys)
  case Nil
  then show ?case by simp
next
  case (Cons x xs)
  show ?case
  proof (cases "ri_Text x = t")
    case True
    with Cons.prems have "x # xs = [] @ r # xs \<and> ys = [] @ xs \<and> ri_Text r = t" by simp
    then show ?thesis by (metis empty_iff image_empty list.set(1))
  next
    case False
    with Cons.prems obtain zs where z: "removeReviewRoomItem xs t = (zs, Some r)" "ys = x # zs"
      by (auto simp: Let_def split: prod.splits)
    from Cons.IH [OF z(1)] obtain a b
      where "xs = a @ r # b" "zs = a @ b" "ri_Text r = t" "t \<notin> ri_Text ` set a" by blast
    with False z(2) have "x # xs = (x # a) @ r # b \<and> ys = (x # a) @ b \<and> ri_Text r = t \<and>
      t \<notin> ri_Text ` set (x # a)" by simp
    then show ?thesis by blast
  qed
qed

lemma remove_from_room_size:
  "remove_from_room room t = (room', Some r) \<Longrightarrow> Suc (room_size room') = room_size room"
  by (auto simp: remove_from_room_def room_size_def split: prod.splits option.splits
      dest!: removeReviewRoomItem_Some)

lemma resolve_is_action [simp]: "normalizeReviewAction ''resolve'' = ''resolve''"
  by code_simp

lemma transition_resolve_size:
  assumes "transitionReviewRoomItem now room ''resolve'' target res = Inr (room', removed, True)"
  shows "Suc (room_size room') = room_size room"
proof -
  let ?c = "(copyReviewRoom now room)\<lparr>rm_Issues := []\<rparr>"
  obtain room1 r where "remove_from_room ?c (TrimSpace target) = (room1, Some r)"
    and "room' = normalizeReviewRoom now (room1\<lparr>rm_UpdatedAt := Some now\<rparr>)"
    using assms by (auto simp: transitionReviewRoomItem_def Let_def
        split: if_splits prod.splits option.splits)
  moreover have "room_size ?c = room_size room"
    using room_size_copy [of now room] by (simp add: room_size_def)
  moreover have "room_size (room1\<lparr>rm_UpdatedAt := Some now\<rparr>) = room_size room1"
    by (simp add: room_size_def)
  ultimately show ?thesis by (metis remove_from_room_size room_size_normalize)
qed

text \<open>The \<open>for\<close> loop of \<open>autoResolveReviewRoomItemsByEvidenceLocked\<close>; each turn removes one item.\<close>

function resolve_by_evidence_loop ::
  "time \<Rightarrow> ReviewRoom \<Rightarrow> string \<Rightarrow> string \<Rightarrow> ReviewRoomResolution option \<Rightarrow> nat \<Rightarrow>
   error + (ReviewRoom \<times> nat)" where
  "resolve_by_evidence_loop now room source evidence resolution resolved =
     (case findOpenReviewRoomItemByEvidence room source evidence of
        None \<Rightarrow> Inr (room, resolved)
      | Some target \<Rightarrow>
          (case transitionReviewRoomItem now room ''resolve'' target resolution of
             Inl err \<Rightarrow> Inl err
           | Inr (room', removed, changed) \<Rightarrow>
               if \<not> changed \<or> removed = None then Inr (room', resolved)
               else resolve_by_evidence_loop now room' source evidence resolution (Suc resolved)))"
  by pat_completeness auto
termination
  by (relation "measure (\<lambda>(now, room, source, evidence, resolution, resolved). room_size room)")
     (auto dest!: transition_resolve_size)

declare resolve_by_evidence_loop.simps [simp del]

definition autoResolveReviewRoomItemsByEvidenceLocked ::
  "time \<Rightarrow> ReviewRoom \<Rightarrow> string \<Rightarrow> string \<Rightarrow> ReviewRoomResolution option \<Rightarrow>
   error + (ReviewRoom \<times> nat)" where
  "autoResolveReviewRoomItemsByEvidenceLocked now store source evidence0 resolution =
     (let room = copyReviewRoom now store; evidence = TrimSpace evidence0 in
      if evidence = [] then Inr (room, 0)
      else resolve_by_evidence_loop now room source evidence resolution 0)"

section \<open>Item constructors and suggestions\<close>

definition newStructuredReviewRoomItem ::
  "time \<Rightarrow> string \<Rightarrow> string \<Rightarrow> string \<Rightarrow> string \<Rightarrow> string option \<Rightarrow> ReviewRoomRationale option \<Rightarrow>
   string list \<Rightarrow> ReviewRoomItem" where
  "newStructuredReviewRoomItem now text kind severity source ref rationale evidence =
     normalizeReviewRoomItem now
       \<lparr>ri_Text = text, ri_Kind = kind, ri_Severity = severity, ri_Source = source, ri_Ref = ref,
        ri_Why = [], ri_WhyUnresolved = None, ri_Contradiction = None, ri_Contradictions = [],
        ri_PatternRefs = [], ri_Rationale = rationale, ri_Resolution = None, ri_Evidence = evidence,
        ri_CreatedAt = 0, ri_UpdatedAt = 0\<rparr>"

definition newManualReviewRoomItem ::
  "time \<Rightarrow> string \<Rightarrow> string \<Rightarrow> string \<Rightarrow> string \<Rightarrow> string option \<Rightarrow> ReviewRoomItem" where
  "newManualReviewRoomItem now text kind severity source ref =
     newStructuredReviewRoomItem now text kind severity source ref None []"

definition newSignalReviewRoomItem ::
  "time \<Rightarrow> string \<Rightarrow> string \<Rightarrow> string option \<Rightarrow> string \<Rightarrow> string \<Rightarrow> string list \<Rightarrow> ReviewRoomItem" where
  "newSignalReviewRoomItem now text trigger ref reason rule evidence =
     newStructuredReviewRoomItem now text ''runtime_signal''
       (if contains_sub trigger ''verification'' then ''medium'' else ''high'') trigger ref
       (Some \<lparr>ra_Trigger = trigger, ra_Reason = reason, ra_Rule = rule\<rparr>) evidence"

definition reviewRoomSuggestionForExecute :: "time \<Rightarrow> ExecuteRun \<Rightarrow> ReviewRoomItem option" where
  "reviewRoomSuggestionForExecute now item =
     (let evidence = [''execute:'' @ er_ExecuteID item, ''work:'' @ er_WorkItemID item,
                      ''policy:'' @ er_PolicyDecisionID item] in
      if er_Status item \<noteq> ''failed'' then None
      else if canonicalPolicyMode (er_Mode item) = ''blocked'' \<or> er_Mode item = ''blocked''
      then Some (newSignalReviewRoomItem now
        (runes [0xC2E4, 0xD589] @ '' `'' @ er_ExecuteID item @ ''`'' @ runes [0xC774] @ '' '' @
           runes [0xC791, 0xC5C5] @ '' `'' @ er_WorkItemID item @ ''`'' @ runes [0xC5D0, 0xC11C] @ '' '' @
           runes [0xC815, 0xCC45] @ '' `'' @ er_PolicyDecisionID item @ ''` '' @ runes [0xB54C, 0xBB38,
           0xC5D0] @ '' '' @ runes [0xB9C9, 0xD614, 0xC5B4] @ ''. '' @ runes [0xC7AC, 0xC2DC, 0xB3C4] @
           '' '' @ runes [0xC804, 0xC5D0] @ '' founder '' @ runes [0xAC80, 0xD1A0, 0xB098] @ '' '' @
           runes [0xBC94, 0xC704] @ '' '' @ runes [0xCD95, 0xC18C, 0xAC00] @ '' '' @ runes [0xD544, 0xC694,
           0xD574] @ ''.'')
        ''execute.blocked'' (Some (er_ExecuteID item))
        ''blocked execute requires founder review or scope reduction before retry''
        ''review_room.auto.execute_blocked'' evidence)
      else Some (newSignalReviewRoomItem now
        (runes [0xC2E4, 0xD589] @ '' `'' @ er_ExecuteID item @ ''`'' @ runes [0xC774] @ '' '' @
           runes [0xC791, 0xC5C5] @ '' `'' @ er_WorkItemID item @ ''`'' @ runes [0xC5D0, 0xC11C] @ '' '' @
           runes [0xC2E4, 0xD328, 0xD588, 0xC5B4] @ ''. '' @ runes [0xACC4, 0xC18D] @ '' '' @
           runes [0xAC00, 0xAE30] @ '' '' @ runes [0xC804, 0xC5D0] @ '' '' @ runes [0xC2E4, 0xD589] @
           '' '' @ runes [0xBA54, 0xBAA8, 0xB97C] @ '' '' @ runes [0xBA3C, 0xC800] @ '' '' @ runes [0xD655,
           0xC778, 0xD574, 0xC57C] @ '' '' @ runes [0xD574] @ ''.'')
        ''execute.failed'' (Some (er_ExecuteID item))
        ''failed execute requires note inspection before another attempt''
        ''review_room.auto.execute_failed'' evidence))"

definition reviewRoomSuggestionForVerification :: "time \<Rightarrow> VerificationRecord \<Rightarrow> ReviewRoomItem option" where
  "reviewRoomSuggestionForVerification now item =
     (if vr_Status item \<noteq> ''failed'' then None
      else Some (newSignalReviewRoomItem now
        (runes [0xAC80, 0xC99D] @ '' `'' @ vr_RecordID item @ ''`'' @ runes [0xC774] @ '' '' @
           runes [0xBC94, 0xC704] @ '' `'' @ vr_Scope item @ ''`'' @ runes [0xC5D0, 0xC11C] @ '' '' @
           runes [0xC2E4, 0xD328, 0xD588, 0xC5B4] @ ''. '' @ runes [0xB9B4, 0xB9AC, 0xC2A4] @ '' '' @
           runes [0xC804, 0xC5D0] @ '' '' @ runes [0xBA85, 0xB839] @ '' '' @ runes [0xC99D, 0xAC70,
           0xB97C] @ '' '' @ runes [0xBA3C, 0xC800] @ '' '' @ runes [0xD655, 0xC778, 0xD574, 0xC57C] @
           '' '' @ runes [0xD574] @ ''.'')
        ''verification.failed'' (Some (vr_RecordID item))
        ''failed verification requires command evidence review before release''
        ''review_room.auto.verification_failed''
        [''verification:'' @ vr_RecordID item, ''scope:'' @ vr_Scope item]))"

definition reviewRoomSuggestionForDeploy :: "time \<Rightarrow> DeployRun \<Rightarrow> ReviewRoomItem option" where
  "reviewRoomSuggestionForDeploy now item =
     (if dr_Status item \<noteq> ''failed'' then None
      else Some (newSignalReviewRoomItem now
        (runes [0xBC30, 0xD3EC] @ '' `'' @ dr_DeployID item @ ''`'' @ runes [0xC774] @ '' '' @
           runes [0xB9B4, 0xB9AC, 0xC2A4] @ '' `'' @ dr_ReleaseID item @ ''`'' @ runes [0xC758] @ '' '' @
           runes [0xB300, 0xC0C1] @ '' `'' @ dr_Target item @ ''`'' @ runes [0xC5D0, 0xC11C] @ '' '' @
           runes [0xC2E4, 0xD328, 0xD588, 0xC5B4] @ ''. '' @ runes [0xB864, 0xBC31] @ '' '' @
           runes [0xC900, 0xBE44] @ '' '' @ runes [0xC0C1, 0xD0DC, 0xB97C] @ '' '' @ runes [0xBA3C,
           0xC800] @ '' '' @ runes [0xAC80, 0xD1A0, 0xD574, 0xC57C] @ '' '' @ runes [0xD574] @ ''.'')
        ''deploy.failed'' (Some (dr_DeployID item))
        ''failed deploy requires rollback readiness review''
        ''review_room.auto.deploy_failed''
        [''deploy:'' @ dr_DeployID item, ''release:'' @ dr_ReleaseID item, ''target:'' @ dr_Target item]))"

definition reviewRoomSuggestionForRollback :: "time \<Rightarrow> RollbackRun \<Rightarrow> ReviewRoomItem option" where
  "reviewRoomSuggestionForRollback now item =
     (if rr_Status item \<noteq> ''failed'' then None
      else Some (newSignalReviewRoomItem now
        (runes [0xB864, 0xBC31] @ '' `'' @ rr_RollbackID item @ ''`'' @ runes [0xC774] @ '' '' @
           runes [0xB9B4, 0xB9AC, 0xC2A4] @ '' `'' @ rr_ReleaseID item @ ''`'' @ runes [0xC758] @ '' '' @
           runes [0xB300, 0xC0C1] @ '' `'' @ rr_Target item @ ''`'' @ runes [0xC5D0, 0xC11C] @ '' '' @
           runes [0xC2E4, 0xD328, 0xD588, 0xC5B4] @ ''. '' @ runes [0xC218, 0xB3D9] @ '' '' @
           runes [0xBCF5, 0xAD6C] @ '' '' @ runes [0xAC80, 0xD1A0, 0xAC00] @ '' '' @ runes [0xD544, 0xC694,
           0xD574] @ ''.'')
        ''rollback.failed'' (Some (rr_RollbackID item))
        ''failed rollback requires manual recovery review''
        ''review_room.auto.rollback_failed''
        [''rollback:'' @ rr_RollbackID item, ''release:'' @ rr_ReleaseID item, ''target:'' @ rr_Target item]))"

definition reviewRoomSuggestionForApproval :: "time \<Rightarrow> ApprovalItem \<Rightarrow> ReviewRoomItem option" where
  "reviewRoomSuggestionForApproval now item =
     (if ap_Status item \<noteq> ''rejected'' then None
      else Some (newSignalReviewRoomItem now
        (runes [0xC2B9, 0xC778] @ '' `'' @ ap_ApprovalID item @ ''`'' @ runes [0xC774] @ '' '' @
           runes [0xC791, 0xC5C5] @ '' `'' @ ap_WorkItemID item @ ''`'' @ runes [0xC5D0, 0xC11C] @ '' '' @
           runes [0xAC70, 0xC808, 0xB410, 0xC5B4] @ ''. '' @ runes [0xACC4, 0xC18D] @ '' '' @
           runes [0xC9C4, 0xD589, 0xD558, 0xAE30] @ '' '' @ runes [0xC804, 0xC5D0] @ '' founder '' @
           runes [0xAC80, 0xD1A0, 0xB098] @ '' '' @ runes [0xC81C, 0xC548] @ '' '' @ runes [0xC7AC, 0xC815,
           0xB9AC, 0xAC00] @ '' '' @ runes [0xD544, 0xC694, 0xD574] @ ''.'')
        ''approval.rejected'' (Some (ap_ApprovalID item))
        ''rejected approval requires founder review before execution continues''
        ''review_room.auto.approval_rejected''
        [''approval:'' @ ap_ApprovalID item, ''work:'' @ ap_WorkItemID item]))"

definition reviewRoomSuggestionForAgentJob :: "time \<Rightarrow> AgentJob \<Rightarrow> ReviewRoomItem option" where
  "reviewRoomSuggestionForAgentJob now item =
     (if aj_Status item \<noteq> ''failed'' then None
      else Some (newSignalReviewRoomItem now
        (runes [0xC5D0, 0xC774, 0xC804, 0xD2B8] @ '' '' @ runes [0xC791, 0xC5C5] @ '' `'' @ aj_JobID item @
           ''`'' @ runes [0xC774] @ '' '' @ runes [0xC5ED, 0xD560] @ '' `'' @ aj_Role item @ ''`'' @
           runes [0xC5D0, 0xC11C] @ '' '' @ runes [0xC2E4, 0xD328, 0xD588, 0xC5B4] @ ''. '' @
           runes [0xB808, 0xC778, 0xC744] @ '' '' @ runes [0xC774, 0xC5B4, 0xAC00, 0xAE30] @ '' '' @
           runes [0xC804, 0xC5D0] @ '' founder '' @ runes [0xAC80, 0xD1A0, 0xB098] @ '' '' @ runes [0xC7AC,
           0xC2DC, 0xB3C4] @ '' '' @ runes [0xC815, 0xCC45] @ '' '' @ runes [0xC815, 0xB9AC, 0xAC00] @
           '' '' @ runes [0xD544, 0xC694, 0xD574] @ ''.'')
        ''agent_job.failed'' (Some (aj_JobID item))
        ''failed agent job requires founder review or retry policy before execution continues''
        ''review_room.auto.agent_job_failed''
        ([''job:'' @ aj_JobID item, ''role:'' @ aj_Role item, ''kind:'' @ aj_Kind item] @
          (case normalizeRef (aj_Ref item) of None \<Rightarrow> [] | Some r \<Rightarrow> [''ref:'' @ r]))))"

definition reviewRoomSuggestionForGatewayCall :: "time \<Rightarrow> GatewayCall \<Rightarrow> ReviewRoomItem option" where
  "reviewRoomSuggestionForGatewayCall now item =
     (if gc_Status item \<noteq> ''failed'' then None
      else Some (newSignalReviewRoomItem now
        (runes [0xAC8C, 0xC774, 0xD2B8, 0xC6E8, 0xC774] @ '' '' @ runes [0xD638, 0xCD9C] @ '' `'' @
           gc_CallID item @ ''`'' @ runes [0xC774] @ '' '' @ runes [0xACF5, 0xAE09, 0xC790] @ '' `'' @
           gc_Provider item @ ''`'' @ runes [0xC5D0, 0xC11C] @ '' '' @ runes [0xC2E4, 0xD328, 0xD588,
           0xC5B4] @ ''. '' @ runes [0xC774] @ '' '' @ runes [0xB808, 0xC778, 0xC744] @ '' '' @
           runes [0xC790, 0xB3D9, 0xD654, 0xAC00] @ '' '' @ runes [0xBBFF, 0xACE0] @ '' '' @ runes [0xC774,
           0xC5B4, 0xAC00, 0xAE30] @ '' '' @ runes [0xC804, 0xC5D0] @ '' founder '' @ runes [0xAC80,
           0xD1A0, 0xAC00] @ '' '' @ runes [0xD544, 0xC694, 0xD574] @ ''.'')
        ''gateway.failed'' (Some (gc_CallID item))
        ''failed provider dispatch requires review before agent automation depends on the provider lane''
        ''review_room.auto.gateway_failed''
        ([''gateway:'' @ gc_CallID item, ''provider:'' @ gc_Provider item] @
          (case gc_LastError item of None \<Rightarrow> [] | Some e \<Rightarrow> if e = [] then [] else [''error:'' @ e]) @
          (case gc_LastHTTPStatus item of None \<Rightarrow> [] | Some n \<Rightarrow> [''http_status:'' @ Itoa n]))))"

section \<open>Summaries\<close>

definition topReviewItems :: "ReviewRoomItem list \<Rightarrow> nat \<Rightarrow> ReviewRoomItem list" where
  "topReviewItems items limit = (if length items \<le> limit then items else take limit items)"

definition SummarizeReviewRoom :: "time \<Rightarrow> ReviewRoom \<Rightarrow> ReviewRoomSummary" where
  "SummarizeReviewRoom now room0 =
     (let room = normalizeReviewRoom now room0 in
      \<lparr>rv_Source = rm_Source room, rv_AcceptedCount = int (length (rm_Accepted room)),
       rv_OpenCount = int (length (rm_Open room)), rv_DeferredCount = int (length (rm_Deferred room)),
       rv_TopAccepted = topReviewItems (rm_Accepted room) 3, rv_TopOpen = topReviewItems (rm_Open room) 3,
       rv_TopDeferred = topReviewItems (rm_Deferred room) 3, rv_Issues = rm_Issues room,
       rv_UpdatedAt = rm_UpdatedAt room\<rparr>)"

section \<open>Managed audit items\<close>

text \<open>
  \<open>syncAuditReviewRoom\<close> replaces the items of the managed audit sources by the current audit
  findings. The audits read the work tree, so their items are the argument \<open>audit\<close>;
  \<open>enabled\<close> is \<open>auditPromotionEnabled\<close> (LAYER_OS_REPO_ROOT is set).
\<close>

definition isManagedAuditSource :: "string \<Rightarrow> bool" where
  "isManagedAuditSource source = starts_with (TrimSpace (ToLower source)) ''audit.''"

definition filterManagedAuditItems :: "ReviewRoomItem list \<Rightarrow> ReviewRoomItem list" where
  "filterManagedAuditItems items = filter (\<lambda>i. \<not> isManagedAuditSource (ri_Source i)) items"

fun reviewRoomItemsEqual :: "ReviewRoomItem list \<Rightarrow> ReviewRoomItem list \<Rightarrow> bool" where
  "reviewRoomItemsEqual [] [] = True"
| "reviewRoomItemsEqual (l # ls) (r # rs) =
     (ri_Text l = ri_Text r \<and> ri_Kind l = ri_Kind r \<and> ri_Severity l = ri_Severity r \<and>
      ri_Source l = ri_Source r \<and> refString (ri_Ref l) = refString (ri_Ref r) \<and>
      reviewRoomItemsEqual ls rs)"
| "reviewRoomItemsEqual _ _ = False"

definition reviewRoomsEqual :: "time \<Rightarrow> ReviewRoom \<Rightarrow> ReviewRoom \<Rightarrow> bool" where
  "reviewRoomsEqual now left0 right0 =
     (let left = normalizeReviewRoom now left0; right = normalizeReviewRoom now right0 in
      reviewRoomItemsEqual (rm_Accepted left) (rm_Accepted right) \<and>
      reviewRoomItemsEqual (rm_Open left) (rm_Open right) \<and>
      reviewRoomItemsEqual (rm_Deferred left) (rm_Deferred right) \<and>
      rm_Issues left = rm_Issues right \<and>
      TrimSpace (rm_Source left) = TrimSpace (rm_Source right))"

fun ensure_all :: "(nat \<Rightarrow> bool) \<Rightarrow> time \<Rightarrow> ReviewRoom \<Rightarrow> ReviewRoomItem list \<Rightarrow> ReviewRoom" where
  "ensure_all wr now room [] = room"
| "ensure_all wr now room (item # items) =
     (case ensureReviewRoomItem wr now room ''open'' item of
        Inl err \<Rightarrow> ensure_all wr now room items
      | Inr (updated, _) \<Rightarrow> ensure_all wr now updated items)"

definition syncAuditReviewRoom ::
  "(nat \<Rightarrow> bool) \<Rightarrow> time \<Rightarrow> bool \<Rightarrow> ReviewRoomItem list \<Rightarrow> ReviewRoom \<Rightarrow> ReviewRoom \<times> bool" where
  "syncAuditReviewRoom wr now enabled audit room =
     (if \<not> enabled then (copyReviewRoom now room, False)
      else let current = copyReviewRoom now room;
               synced0 = (copyReviewRoom now room)\<lparr>
                 rm_Accepted := filterManagedAuditItems (rm_Accepted current),
                 rm_Open := filterManagedAuditItems (rm_Open current),
                 rm_Deferred := filterManagedAuditItems (rm_Deferred current)\<rparr>;
               synced = normalizeReviewRoom now (ensure_all wr now synced0 audit)
           in if \<not> reviewRoomsEqual now current synced
              then (synced\<lparr>rm_UpdatedAt := Some now\<rparr>, True) else (synced, False))"

section \<open>Integrity seal\<close>

record reviewRoomSeal =
  sl_Hash :: string
  sl_AcceptedCount :: int
  sl_OpenCount :: int
  sl_DeferredCount :: int
  sl_GeneratedAt :: time

record ReviewRoomIntegrityAudit =
  ia_Sealed :: bool
  ia_ExpectedHash :: string
  ia_ActualHash :: string
  ia_Issues :: "string list"

text \<open>\<open>hash\<close> is the hex SHA-256 of the JSON form of a room.\<close>

definition computeReviewRoomSeal :: "(ReviewRoom \<Rightarrow> string) \<Rightarrow> time \<Rightarrow> ReviewRoom \<Rightarrow> reviewRoomSeal" where
  "computeReviewRoomSeal hash now room0 =
     (let room = normalizeReviewRoom now room0 in
      \<lparr>sl_Hash = hash room, sl_AcceptedCount = int (length (rm_Accepted room)),
       sl_OpenCount = int (length (rm_Open room)),
       sl_DeferredCount = int (length (rm_Deferred room)), sl_GeneratedAt = now\<rparr>)"

definition verifyReviewRoomSeal ::
  "(ReviewRoom \<Rightarrow> string) \<Rightarrow> time \<Rightarrow> ReviewRoom \<Rightarrow> reviewRoomSeal \<Rightarrow> ReviewRoomIntegrityAudit" where
  "verifyReviewRoomSeal hash now room seal =
     (let expected = computeReviewRoomSeal hash now room; sealed = \<not> blank (sl_Hash seal) in
      \<lparr>ia_Sealed = sealed, ia_ExpectedHash = sl_Hash expected, ia_ActualHash = TrimSpace (sl_Hash seal),
       ia_Issues =
         (if \<not> sealed then [''review room seal missing: direct file drift cannot be verified'']
          else (if TrimSpace (sl_Hash seal) \<noteq> sl_Hash expected
                then [''review room integrity drift: runtime file no longer matches daemon seal''] else []) @
               (if sl_AcceptedCount seal \<noteq> sl_AcceptedCount expected \<or>
                   sl_OpenCount seal \<noteq> sl_OpenCount expected \<or>
                   sl_DeferredCount seal \<noteq> sl_DeferredCount expected
                then [''review room integrity drift: section counts no longer match daemon seal''] else []))\<rparr>)"

definition integrity_item :: "time \<Rightarrow> ReviewRoomIntegrityAudit \<Rightarrow> ReviewRoomItem" where
  "integrity_item now audit = newStructuredReviewRoomItem now
     (runes [0xB9AC, 0xBDF0, 0xB8F8] @ '' '' @ runes [0xBB34, 0xACB0, 0xC131] @ '' '' @ runes [0xB4DC,
        0xB9AC, 0xD504, 0xD2B8, 0xAC00] @ '' '' @ runes [0xAC10, 0xC9C0, 0xB410, 0xC5B4] @ ''. '' @
        runes [0xC9C1, 0xC811] @ '' '' @ runes [0xD30C, 0xC77C, 0xC744] @ '' '' @ runes [0xB36E, 0xC5B4,
        0xC37C, 0xAC70, 0xB098] @ '' '' @ runes [0xC624, 0xB798, 0xB41C] @ '' '' @ runes [0xC0C1, 0xD0DC,
        0xAC00] @ '' daemon '' @ runes [0xC804, 0xD658, 0xC744] @ '' '' @ runes [0xC6B0, 0xD68C, 0xD588,
        0xC744] @ '' '' @ runes [0xAC00, 0xB2A5, 0xC131, 0xC774] @ '' '' @ runes [0xCEE4] @ ''.'')
     ''review_room_integrity'' ''high'' ''system.review_room_integrity'' None
     (Some \<lparr>ra_Trigger = ''review_room.integrity'',
            ra_Reason = ''review room file diverged from daemon-issued seal and may have been rewritten outside the canonical transition path'',
            ra_Rule = ''review_room.integrity.guardrail''\<rparr>)
     [''seal_expected:'' @ ia_ExpectedHash audit, ''seal_actual:'' @ ia_ActualHash audit,
      ''path:'' @ reviewRoomRuntimeFile]"

definition applyReviewRoomIntegrityGuardrail ::
  "(nat \<Rightarrow> bool) \<Rightarrow> time \<Rightarrow> ReviewRoom \<Rightarrow> ReviewRoomIntegrityAudit \<Rightarrow> ReviewRoom" where
  "applyReviewRoomIntegrityGuardrail wr now room audit =
     (if ia_Issues audit = [] then normalizeReviewRoom now room
      else let room1 = copyReviewRoom now room;
               room2 = room1\<lparr>rm_Issues := foldl appendUniqueString (rm_Issues room1) (ia_Issues audit)\<rparr>
           in normalizeReviewRoom now
                (case ensureReviewRoomItem wr now room2 ''open'' (integrity_item now audit) of
                   Inl err \<Rightarrow> room2 | Inr (updated, _) \<Rightarrow> updated))"

end
