(* ===== verification/Text_Mask.thy ===== *)
theory Text_Mask
  imports Review_Room
begin

text \<open>
  Text limits and the redaction of notes (\<open>limitText\<close> of \<open>knowledge.go\<close>, \<open>maskConversationText\<close> of
  \<open>conversation.go\<close>). The patterns are those of the source, in a small regular-expression language with
  the semantics of Go's \<open>regexp\<close>: a match starts as far left as possible and, among the matches there,
  is the one a backtracking search finds first. A text is the list of its runes, each with the bytes
  it was decoded from, so that what is not matched is kept byte by byte.
\<close>

type_synonym tok = "nat \<times> string"

section \<open>Regular expressions\<close>

datatype re =
    Eps
  | Cls "nat \<Rightarrow> bool"
  | RunOf "nat \<Rightarrow> bool"
  | WordB
  | Cat re re
  | Alt re re

definition word_rune :: "nat \<Rightarrow> bool" where
  "word_rune r \<longleftrightarrow> 48 \<le> r \<and> r \<le> 57 \<or> 65 \<le> r \<and> r \<le> 90 \<or> r = 95 \<or> 97 \<le> r \<and> r \<le> 122"

definition word_at :: "tok list \<Rightarrow> nat \<Rightarrow> bool" where
  "word_at ts i \<longleftrightarrow> i < length ts \<and> word_rune (fst (ts ! i))"

definition word_before :: "tok list \<Rightarrow> nat \<Rightarrow> bool" where
  "word_before ts i \<longleftrightarrow> 0 < i \<and> word_at ts (i - 1)"

text \<open>The ends of the matches that start at a position, in the order of preference.\<close>

fun re_ends :: "tok list \<Rightarrow> re \<Rightarrow> nat \<Rightarrow> nat list" where
  "re_ends ts Eps i = [i]"
| "re_ends ts (Cls p) i = (if i < length ts \<and> p (fst (ts ! i)) then [Suc i] else [])"
| "re_ends ts (RunOf p) i = rev [i ..< Suc (i + length (takeWhile (\<lambda>t. p (fst t)) (drop i ts)))]"
| "re_ends ts WordB i = (if word_at ts i \<noteq> word_before ts i then [i] else [])"
| "re_ends ts (Cat r s) i = concat (map (re_ends ts s) (re_ends ts r i))"
| "re_ends ts (Alt r s) i = re_ends ts r i @ re_ends ts s i"

fun re_seq :: "re list \<Rightarrow> re" where
  "re_seq [] = Eps"
| "re_seq [r] = r"
| "re_seq (r # rs) = Cat r (re_seq rs)"

definition re_opt :: "re \<Rightarrow> re" where "re_opt r = Alt r Eps"
definition plus_of :: "(nat \<Rightarrow> bool) \<Rightarrow> re" where "plus_of p = Cat (Cls p) (RunOf p)"
definition at_least :: "nat \<Rightarrow> (nat \<Rightarrow> bool) \<Rightarrow> re" where "at_least n p = re_seq (replicate n (Cls p) @ [RunOf p])"

definition token_bytes :: "tok list \<Rightarrow> string" where
  "token_bytes ts = concat (map snd ts)"

definition slice_bytes :: "tok list \<Rightarrow> nat \<Rightarrow> nat \<Rightarrow> string" where
  "slice_bytes ts i j = token_bytes (take (j - i) (drop i ts))"

text \<open>\<open>ReplaceAllStringFunc\<close>: every match from the left, none overlapping the previous one.\<close>

function replace_from :: "tok list \<Rightarrow> re \<Rightarrow> (string \<Rightarrow> string) \<Rightarrow> nat \<Rightarrow> string" where
  "replace_from ts r f i =
     (if length ts \<le> i then []
      else case re_ends ts r i of
             [] \<Rightarrow> snd (ts ! i) @ replace_from ts r f (Suc i)
           | j # _ \<Rightarrow> if j \<le> i then snd (ts ! i) @ replace_from ts r f (Suc i)
                      else f (slice_bytes ts i j) @ replace_from ts r f j)"
  by pat_completeness auto
termination
  by (relation "measure (\<lambda>(ts, r, f, i). length ts - i)") auto

declare replace_from.simps [simp del]

definition ReplaceAllStringFunc :: "re \<Rightarrow> (string \<Rightarrow> string) \<Rightarrow> string \<Rightarrow> string" where
  "ReplaceAllStringFunc r f s = replace_from (split_runes s) r f 0"

section \<open>The patterns\<close>

definition rune_of :: "char \<Rightarrow> nat" where "rune_of c = of_char c"

definition is_digit :: "nat \<Rightarrow> bool" where "is_digit r \<longleftrightarrow> 48 \<le> r \<and> r \<le> 57"

text \<open>Letters under \<open>(?i)\<close>: both cases, and the two other runes that fold to an ASCII letter.\<close>

definition folded_letter :: "nat \<Rightarrow> bool" where
  "folded_letter r \<longleftrightarrow> 65 \<le> r \<and> r \<le> 90 \<or> 97 \<le> r \<and> r \<le> 122 \<or> r = 0x17F \<or> r = 0x212A"

definition folds_to :: "char \<Rightarrow> nat \<Rightarrow> bool" where
  "folds_to c r \<longleftrightarrow> r = rune_of c \<or> r + 32 = rune_of c \<or> c = CHR ''s'' \<and> r = 0x17F \<or> c = CHR ''k'' \<and> r = 0x212A"

definition one_of :: "string \<Rightarrow> nat \<Rightarrow> bool" where "one_of cs r \<longleftrightarrow> r \<in> rune_of ` set cs"

definition word_i :: "string \<Rightarrow> re" where "word_i w = re_seq (map (\<lambda>c. Cls (folds_to c)) w)"

definition space_class :: "nat \<Rightarrow> bool" where "space_class r \<longleftrightarrow> r \<in> {9, 10, 12, 13, 32}"

definition conversationEmailPattern :: re where
  "conversationEmailPattern =
     re_seq [WordB, plus_of (\<lambda>r. folded_letter r \<or> is_digit r \<or> one_of ''._%+-'' r), Cls (one_of ''@''),
          plus_of (\<lambda>r. folded_letter r \<or> is_digit r \<or> one_of ''.-'' r), Cls (one_of ''.''), at_least 2 folded_letter, WordB]"

definition conversationPhonePattern :: re where
  "conversationPhonePattern =
     re_seq [re_opt (Cls (one_of ''+'')), Cls is_digit, at_least 7 (\<lambda>r. is_digit r \<or> one_of ''-() '' r), Cls is_digit]"

definition conversationResidentPattern :: re where
  "conversationResidentPattern =
     re_seq ([WordB] @ replicate 6 (Cls is_digit) @ [re_opt (Cls (one_of ''-''))] @ replicate 7 (Cls is_digit) @ [WordB])"

definition conversationSecretPattern :: re where
  "conversationSecretPattern =
     re_seq [WordB,
          Alt (word_i ''bearer'') (Alt (word_i ''token'') (Alt (word_i ''secret'') (Alt (word_i ''password'')
            (Alt (word_i ''passwd'') (re_seq [word_i ''api'', re_opt (Cls (one_of ''_-'')), word_i ''key'']))))),
          WordB, RunOf space_class, Cls (one_of '':=''), RunOf space_class,
          plus_of (\<lambda>r. \<not> space_class r \<and> \<not> one_of '',;'' r)]"

section \<open>Limits and masks\<close>

definition rune_encoding :: "tok \<Rightarrow> string" where
  "rune_encoding t = (if fst t = 0xFFFD then [CHR 0xEF, CHR 0xBF, CHR 0xBD] else snd t)"

definition limitText :: "string \<Rightarrow> nat \<Rightarrow> string" where
  "limitText text mx =
     (let text = TrimSpace text; ts = split_runes text
      in if mx = 0 \<or> length ts \<le> mx then text
         else TrimSpace (concat (map rune_encoding (take (mx - 1) ts))) @ runes [0x2026])"

definition split_once :: "char \<Rightarrow> string \<Rightarrow> (string \<times> string) option" where
  "split_once c s =
     (let pre = takeWhile (\<lambda>d. d \<noteq> c) s in if length pre < length s then Some (pre, drop (Suc (length pre)) s) else None)"

definition mask_secret :: "string \<Rightarrow> string" where
  "mask_secret raw =
     (case split_once (CHR '':'') raw of
        Some (k, _) \<Rightarrow> TrimSpace k @ '': [redacted-secret]''
      | None \<Rightarrow>
          (case split_once (CHR ''='') raw of
             Some (k, _) \<Rightarrow> TrimSpace k @ ''=[redacted-secret]''
           | None \<Rightarrow> ''[redacted-secret]''))"

definition maskConversationText :: "string \<Rightarrow> string" where
  "maskConversationText text0 =
     (let text = TrimSpace text0 in
      if text = '''' then '''' else
      let masked = ReplaceAllStringFunc conversationEmailPattern (\<lambda>_. ''[redacted-email]'') text;
          masked = ReplaceAllStringFunc conversationResidentPattern (\<lambda>_. ''[redacted-sensitive-id]'') masked;
          masked = ReplaceAllStringFunc conversationPhonePattern (\<lambda>_. ''[redacted-phone]'') masked;
          masked = ReplaceAllStringFunc conversationSecretPattern mask_secret masked
      in limitText masked 500)"

section \<open>Properties\<close>

lemma ends_bounded: "j \<in> set (re_ends ts r i) \<Longrightarrow> i \<le> length ts \<Longrightarrow> i \<le> j \<and> j \<le> length ts"
proof (induction ts r i arbitrary: j rule: re_ends.induct)
  case (3 ts p i)
  have "length (takeWhile (\<lambda>t. p (fst t)) (drop i ts)) \<le> length ts - i"
    using length_takeWhile_le [of "\<lambda>t. p (fst t)" "drop i ts"] by simp
  with 3 show ?case by auto
next
  case (5 ts r s i)
  then obtain k where "k \<in> set (re_ends ts r i)" "j \<in> set (re_ends ts s k)" by auto
  with 5 show ?case by fastforce
next
  case (6 ts r s i)
  then show ?case by auto
qed (auto split: if_splits)

lemma token_bytes_split: "token_bytes (split_runes s) = s"
proof (induction s rule: split_runes.induct)
  case (1 s)
  show ?case
  proof (cases "s = []")
    case False
    obtain r w where d: "decode_rune s = (r, w)" by fastforce
    have "split_runes s = (r, take w s) # split_runes (drop w s)"
      using False d by (subst split_runes.simps) simp
    moreover have "token_bytes (split_runes (drop w s)) = drop w s" using 1 False d by simp
    ultimately show ?thesis by (simp add: token_bytes_def)
  qed (simp add: split_runes.simps token_bytes_def)
qed

text \<open>A text without a match is left as it is.\<close>

lemma replace_none:
  assumes "\<And>k. i \<le> k \<Longrightarrow> k < length ts \<Longrightarrow> re_ends ts r k = []"
  shows "replace_from ts r f i = token_bytes (drop i ts)"
  using assms
proof (induction ts r f i rule: replace_from.induct)
  case (1 ts r f i)
  show ?case
  proof (cases "length ts \<le> i")
    case False
    then have e: "re_ends ts r i = []" using 1(4) by simp
    have "replace_from ts r f (Suc i) = token_bytes (drop (Suc i) ts)"
      using 1(1) [OF False e] 1(4) by simp
    moreover have "drop i ts = ts ! i # drop (Suc i) ts" using False by (simp add: Cons_nth_drop_Suc)
    ultimately show ?thesis using False e by (subst replace_from.simps) (simp add: token_bytes_def)
  qed (subst replace_from.simps, simp add: token_bytes_def)
qed

end
