(* ===== verification/Review_Room_Props.thy ===== *)
theory Review_Room_Props
  imports Review_Room
begin

text \<open>
  What the review room keeps: normalisation is idempotent, no two items of a room have the same
  text, and every operation preserves both. The resolution loop by evidence is a filter of the
  open section.
\<close>

section \<open>Normalisation is idempotent\<close>

lemma evidence_from_sound:
  "v \<in> set (evidence_from seen xs) \<Longrightarrow> (\<exists>x. v = TrimSpace x) \<and> v \<noteq> [] \<and> v \<notin> set seen"
proof (induction xs arbitrary: seen)
  case (Cons x xs)
  show ?case
  proof (cases "TrimSpace x = [] \<or> TrimSpace x \<in> set seen")
    case True
    with Cons show ?thesis by (simp add: Let_def)
  next
    case False
    with Cons.prems consider "v = TrimSpace x" | "v \<in> set (evidence_from (TrimSpace x # seen) xs)"
      by (auto simp: Let_def)
    then show ?thesis using Cons.IH [of "TrimSpace x # seen"] False by cases auto
  qed
qed simp

lemma evidence_from_distinct: "distinct (evidence_from seen xs)"
proof (induction xs arbitrary: seen)
  case (Cons x xs)
  have "TrimSpace x \<notin> set (evidence_from (TrimSpace x # seen) xs)"
    using evidence_from_sound [of "TrimSpace x" "TrimSpace x # seen" xs] by auto
  with Cons show ?case by (simp add: Let_def)
qed simp

lemma evidence_from_props:
  "\<forall>v \<in> set (evidence_from seen xs). TrimSpace v = v \<and> v \<noteq> [] \<and> v \<notin> set seen"
  "distinct (evidence_from seen xs)"
  using evidence_from_sound evidence_from_distinct by (metis TrimSpace_idem)+

lemma evidence_from_fixpoint:
  "\<forall>v \<in> set xs. TrimSpace v = v \<and> v \<noteq> [] \<and> v \<notin> set seen \<Longrightarrow> distinct xs \<Longrightarrow>
   evidence_from seen xs = xs"
proof (induction xs arbitrary: seen)
  case (Cons x xs)
  then have "\<forall>v \<in> set xs. TrimSpace v = v \<and> v \<noteq> [] \<and> v \<notin> set (x # seen)" by auto
  with Cons.IH [of "x # seen"] Cons.prems show ?case by (simp add: Let_def)
qed simp

lemma normalizeReviewRoomEvidence_idem [simp]:
  "normalizeReviewRoomEvidence (normalizeReviewRoomEvidence xs) = normalizeReviewRoomEvidence xs"
  unfolding normalizeReviewRoomEvidence_def
  using evidence_from_props [of "[]" xs] by (intro evidence_from_fixpoint) auto

lemma normalizeReviewRoomEvidence_nonblank:
  "v \<in> set (normalizeReviewRoomEvidence xs) \<Longrightarrow> TrimSpace v = v \<and> v \<noteq> []"
  unfolding normalizeReviewRoomEvidence_def using evidence_from_props(1) by blast

lemma normalizeReviewRoomEvidence_Nil [simp]: "normalizeReviewRoomEvidence [] = []"
  by (simp add: normalizeReviewRoomEvidence_def)

lemma normalizeReviewRoomEvidence_single:
  "TrimSpace v = v \<Longrightarrow> v \<noteq> [] \<Longrightarrow> normalizeReviewRoomEvidence [v] = [v]"
  by (simp add: normalizeReviewRoomEvidence_def)

lemma normalizeReviewRoomRationale_idem [simp]:
  "normalizeReviewRoomRationale (normalizeReviewRoomRationale r) = normalizeReviewRoomRationale r"
  by (cases r) (auto simp: normalizeReviewRoomRationale_def Let_def)

lemma normalizeReviewAction_trim:
  "normalizeReviewAction (TrimSpace (ToLower a)) = normalizeReviewAction a"
  by (simp add: normalizeReviewAction_def Let_def)

lemma normalizeReviewAction_cases:
  "normalizeReviewAction a \<in> {[], ''accept'', ''defer'', ''resolve''}"
  by (auto simp: normalizeReviewAction_def Let_def)

lemma normalizeReviewAction_eq: "normalizeReviewAction a \<noteq> [] \<Longrightarrow>
   normalizeReviewAction a = TrimSpace (ToLower a)"
  by (auto simp: normalizeReviewAction_def Let_def split: if_splits)

lemma normalizeReviewAction_idem [simp]:
  "normalizeReviewAction (normalizeReviewAction a) = normalizeReviewAction a"
proof (cases "normalizeReviewAction a = []")
  case True
  then show ?thesis by (simp add: normalizeReviewAction_def Let_def)
next
  case False
  then show ?thesis by (metis normalizeReviewAction_eq normalizeReviewAction_trim)
qed

lemma normalizeReviewRoomResolution_idem [simp]:
  "normalizeReviewRoomResolution (normalizeReviewRoomResolution r) = normalizeReviewRoomResolution r"
proof (cases r)
  case (Some x)
  define a where "a = (if normalizeReviewAction (rs_Action x) = []
    then TrimSpace (ToLower (rs_Action x)) else normalizeReviewAction (rs_Action x))"
  have "a = TrimSpace (ToLower (rs_Action x))"
    by (simp add: a_def normalizeReviewAction_eq)
  then have a': "(if normalizeReviewAction a = [] then TrimSpace (ToLower a) else normalizeReviewAction a) = a"
    by (auto simp: normalizeReviewAction_trim normalizeReviewAction_eq)
  show ?thesis
    using a' by (auto simp: Some normalizeReviewRoomResolution_def Let_def a_def [symmetric])
qed (simp add: normalizeReviewRoomResolution_def)

text \<open>The fixed points of item normalisation, field by field.\<close>

definition item_ok :: "ReviewRoomItem \<Rightarrow> bool" where
  "item_ok i \<longleftrightarrow>
     TrimSpace (ri_Text i) = ri_Text i \<and>
     (TrimSpace (ri_Kind i) = ri_Kind i \<and> ri_Kind i \<noteq> []) \<and>
     (TrimSpace (ri_Severity i) = ri_Severity i \<and> ri_Severity i \<noteq> []) \<and>
     (TrimSpace (ri_Source i) = ri_Source i \<and> ri_Source i \<noteq> []) \<and>
     normalizeRef (ri_Ref i) = ri_Ref i \<and> TrimSpace (ri_Why i) = ri_Why i \<and>
     normalizeRef (ri_WhyUnresolved i) = ri_WhyUnresolved i \<and>
     normalizeRef (ri_Contradiction i) = ri_Contradiction i \<and>
     normalizeReviewRoomEvidence (ri_Contradictions i) = ri_Contradictions i \<and>
     (ri_Contradictions i = [] \<longrightarrow> ri_Contradiction i = None) \<and>
     (ri_Contradiction i = None \<longrightarrow> length (ri_Contradictions i) \<noteq> 1) \<and>
     normalizeReviewRoomEvidence (ri_PatternRefs i) = ri_PatternRefs i \<and>
     normalizeReviewRoomRationale (ri_Rationale i) = ri_Rationale i \<and>
     normalizeReviewRoomResolution (ri_Resolution i) = ri_Resolution i \<and>
     normalizeReviewRoomEvidence (ri_Evidence i) = ri_Evidence i \<and>
     \<not> IsZero (ri_CreatedAt i) \<and> \<not> IsZero (ri_UpdatedAt i)"

lemma item_ok_fixpoint: "item_ok i \<Longrightarrow> normalizeReviewRoomItem now i = i"
  by (auto simp: item_ok_def normalizeReviewRoomItem_def Let_def)

lemma normalizeRef_Some_trim: "normalizeRef r = Some v \<Longrightarrow> TrimSpace v = v \<and> v \<noteq> []"
  by (auto simp: normalizeRef_def blank_def split: option.splits if_splits)

lemma contradiction_fields:
  fixes item :: ReviewRoomItem and now :: time
  defines "n \<equiv> normalizeReviewRoomItem now item"
  shows "normalizeRef (ri_Contradiction n) = ri_Contradiction n"
    and "normalizeReviewRoomEvidence (ri_Contradictions n) = ri_Contradictions n"
    and "ri_Contradictions n = [] \<Longrightarrow> ri_Contradiction n = None"
    and "ri_Contradiction n = None \<Longrightarrow> length (ri_Contradictions n) \<noteq> 1"
proof -
  define c where "c = normalizeRef (ri_Contradiction item)"
  define cs0 where "cs0 = normalizeReviewRoomEvidence (ri_Contradictions item)"
  define cs where "cs = (if cs0 = [] then (case c of None \<Rightarrow> [] | Some c \<Rightarrow> [TrimSpace c]) else cs0)"
  have n: "ri_Contradictions n = cs"
    "ri_Contradiction n = (if c = None \<and> length cs = 1 then normalizeRef (Some (hd cs)) else c)"
    by (simp_all add: n_def normalizeReviewRoomItem_def Let_def c_def cs_def cs0_def)
  have c_trim: "TrimSpace v = v \<and> v \<noteq> []" if "c = Some v" for v
    using that by (simp add: c_def normalizeRef_Some_trim)
  have cs_id: "normalizeReviewRoomEvidence cs = cs"
    using c_trim by (auto simp: cs_def cs0_def normalizeReviewRoomEvidence_single split: option.splits)
  have hd_id: "normalizeRef (Some (hd cs)) = Some (hd cs)" if "length cs = 1"
  proof -
    from that have "hd cs \<in> set cs" by (cases cs) auto
    with cs_id have "TrimSpace (hd cs) = hd cs \<and> hd cs \<noteq> []"
      by (metis normalizeReviewRoomEvidence_nonblank)
    then show ?thesis by (simp add: normalizeRef_def blank_def)
  qed
  show "normalizeRef (ri_Contradiction n) = ri_Contradiction n" by (simp add: n c_def)
  show "normalizeReviewRoomEvidence (ri_Contradictions n) = ri_Contradictions n"
    by (simp add: n cs_id)
  show "ri_Contradictions n = [] \<Longrightarrow> ri_Contradiction n = None"
    by (auto simp: n cs_def split: if_splits option.splits)
  show "ri_Contradiction n = None \<Longrightarrow> length (ri_Contradictions n) \<noteq> 1"
    using hd_id by (auto simp: n split: if_splits)
qed

lemma default_words_trimmed:
  "TrimSpace ''agenda'' = ''agenda''" "TrimSpace ''medium'' = ''medium''" "TrimSpace ''manual'' = ''manual''"
  by code_simp+

lemma plain_fields:
  "ri_Text (normalizeReviewRoomItem now i) = TrimSpace (ri_Text i)"
  "ri_Kind (normalizeReviewRoomItem now i) =
     (if TrimSpace (ri_Kind i) = [] then ''agenda'' else TrimSpace (ri_Kind i))"
  "ri_Severity (normalizeReviewRoomItem now i) =
     (if TrimSpace (ri_Severity i) = [] then ''medium'' else TrimSpace (ri_Severity i))"
  "ri_Source (normalizeReviewRoomItem now i) =
     (if TrimSpace (ri_Source i) = [] then ''manual'' else TrimSpace (ri_Source i))"
  "ri_Ref (normalizeReviewRoomItem now i) = normalizeRef (ri_Ref i)"
  "ri_Why (normalizeReviewRoomItem now i) = TrimSpace (ri_Why i)"
  "ri_WhyUnresolved (normalizeReviewRoomItem now i) = normalizeRef (ri_WhyUnresolved i)"
  "ri_PatternRefs (normalizeReviewRoomItem now i) = normalizeReviewRoomEvidence (ri_PatternRefs i)"
  "ri_Rationale (normalizeReviewRoomItem now i) = normalizeReviewRoomRationale (ri_Rationale i)"
  "ri_Resolution (normalizeReviewRoomItem now i) = normalizeReviewRoomResolution (ri_Resolution i)"
  "ri_Evidence (normalizeReviewRoomItem now i) = normalizeReviewRoomEvidence (ri_Evidence i)"
  "ri_CreatedAt (normalizeReviewRoomItem now i) =
     (if IsZero (ri_CreatedAt i) then now else ri_CreatedAt i)"
  "ri_UpdatedAt (normalizeReviewRoomItem now i) =
     (if IsZero (ri_UpdatedAt i) then if IsZero (ri_CreatedAt i) then now else ri_CreatedAt i
      else ri_UpdatedAt i)"
  by (simp_all only: normalizeReviewRoomItem_def Let_def ReviewRoomItem.simps)

lemma item_ok_normalize:
  assumes "\<not> IsZero now"
  shows "item_ok (normalizeReviewRoomItem now item)"
  unfolding item_ok_def
  using assms contradiction_fields [of now item]
  by (intro conjI impI) (simp_all add: plain_fields default_words_trimmed)

lemma normalizeReviewRoomItem_idem:
  assumes "\<not> IsZero now"
  shows "normalizeReviewRoomItem now' (normalizeReviewRoomItem now item) = normalizeReviewRoomItem now item"
  using item_ok_normalize [OF assms] by (rule item_ok_fixpoint)

lemmas ri_Text_normalize [simp] = plain_fields(1)

section \<open>The room invariant\<close>

definition item_normal :: "ReviewRoomItem \<Rightarrow> bool" where
  "item_normal i \<longleftrightarrow> (\<forall>now. normalizeReviewRoomItem now i = i)"

definition room_items :: "ReviewRoom \<Rightarrow> ReviewRoomItem list" where
  "room_items r = rm_Accepted r @ rm_Open r @ rm_Deferred r"

definition room_normal :: "ReviewRoom \<Rightarrow> bool" where
  "room_normal r \<longleftrightarrow> \<not> blank (rm_Source r) \<and> list_all item_normal (room_items r)"

definition room_inv :: "ReviewRoom \<Rightarrow> bool" where
  "room_inv r \<longleftrightarrow> room_normal r \<and> distinct (map ri_Text (room_items r)) \<and>
     list_all (\<lambda>i. ri_Text i \<noteq> []) (room_items r)"

lemma item_normal_normalize: "\<not> IsZero now \<Longrightarrow> item_normal (normalizeReviewRoomItem now i)"
  by (simp add: item_normal_def normalizeReviewRoomItem_idem)

lemma item_normal_text: "item_normal i \<Longrightarrow> TrimSpace (ri_Text i) = ri_Text i"
  by (metis item_normal_def ri_Text_normalize)

lemma item_normal_source: "item_normal i \<Longrightarrow> TrimSpace (ri_Source i) = ri_Source i"
proof -
  assume "item_normal i"
  then have "ri_Source (normalizeReviewRoomItem 0 i) = ri_Source i" by (simp add: item_normal_def)
  then show ?thesis
    by (metis TrimSpace_idem default_words_trimmed(3) plain_fields(4))
qed

lemma normalizeReviewRoomItems_normal:
  "list_all item_normal xs \<Longrightarrow> normalizeReviewRoomItems now xs = xs"
  by (induction xs) (auto simp: normalizeReviewRoomItems_def item_normal_def)

lemma normalizeReviewRoom_normal: "room_normal r \<Longrightarrow> normalizeReviewRoom now r = r"
  by (simp add: room_normal_def room_items_def normalizeReviewRoom_def normalizeReviewRoomItems_normal)

lemma copyReviewRoom_normal: "room_normal r \<Longrightarrow> copyReviewRoom now r = r"
  by (simp add: copyReviewRoom_def normalizeReviewRoom_normal Let_def)
     (simp add: room_normal_def room_items_def normalizeReviewRoomItems_normal)

lemma newReviewRoomStore_normal: "room_normal r \<Longrightarrow> newReviewRoomStore now r = r"
  by (simp add: newReviewRoomStore_def normalizeReviewRoom_normal)

lemma room_inv_normal: "room_inv r \<Longrightarrow> room_normal r"
  by (simp add: room_inv_def)

lemma room_inv_default: "\<not> blank source \<Longrightarrow> room_inv (defaultReviewRoom source)"
  by (simp add: room_inv_def room_normal_def room_items_def defaultReviewRoom_def)

lemma annotate_text [simp]:
  "ri_Text (annotateReviewRoomContradictions wr now room sec i) = TrimSpace (ri_Text i)"
  by (simp add: annotateReviewRoomContradictions_def Let_def)

lemma annotate_normal:
  "\<not> IsZero now \<Longrightarrow> item_normal (annotateReviewRoomContradictions wr now room sec i)"
  by (simp add: annotateReviewRoomContradictions_def Let_def item_normal_normalize)

lemma section_cases:
  "normalizeReviewSection s \<noteq> [] \<Longrightarrow> normalizeReviewSection s \<in> {''accepted'', ''open'', ''deferred''}"
  by (auto simp: normalizeReviewSection_def Let_def split: if_splits)

lemma set_room_items_append:
  "sec \<in> {''accepted'', ''open'', ''deferred''} \<Longrightarrow>
   set (room_items (section_append r sec i)) = insert i (set (room_items r))"
  by (auto simp: section_append_def room_items_def)

lemma distinct_room_items_append:
  "sec \<in> {''accepted'', ''open'', ''deferred''} \<Longrightarrow> distinct (map ri_Text (room_items r)) \<Longrightarrow>
   ri_Text i \<notin> ri_Text ` set (room_items r) \<Longrightarrow>
   distinct (map ri_Text (room_items (section_append r sec i)))"
  by (auto simp: section_append_def room_items_def)

lemma section_append_source [simp]: "rm_Source (section_append r sec i) = rm_Source r"
  by (simp add: section_append_def)

lemma room_inv_section_append:
  assumes "room_inv r" "sec \<in> {''accepted'', ''open'', ''deferred''}" "item_normal i"
    "ri_Text i \<noteq> []" "ri_Text i \<notin> ri_Text ` set (room_items r)"
  shows "room_inv (section_append r sec i)"
  using assms distinct_room_items_append [of sec r i]
  by (auto simp: room_inv_def room_normal_def list_all_iff set_room_items_append)

lemma room_inv_updatedAt [simp]: "room_inv (r\<lparr>rm_UpdatedAt := t\<rparr>) = room_inv r"
  by (simp add: room_inv_def room_normal_def room_items_def)

lemma room_inv_issues [simp]: "room_inv (r\<lparr>rm_Issues := is\<rparr>) = room_inv r"
  by (simp add: room_inv_def room_normal_def room_items_def)

lemma reviewRoomHasItem_iff:
  "TrimSpace t = t \<Longrightarrow> t \<noteq> [] \<Longrightarrow> reviewRoomHasItem r t \<longleftrightarrow> t \<in> ri_Text ` set (room_items r)"
  by (auto simp: reviewRoomHasItem_def Let_def list_ex_iff room_items_def)

section \<open>Adding\<close>

text \<open>What a successful \<open>ensureReviewRoomItem\<close> returns on a room that satisfies the invariant.\<close>

lemma ensureReviewRoomItem_spec:
  assumes inv: "room_inv r" and now: "\<not> IsZero now"
    and e: "ensureReviewRoomItem wr now r s i = Inr (r', added)"
  shows "if added
         then TrimSpace (ri_Text i) \<notin> ri_Text ` set (room_items r) \<and>
              (\<exists>i'. item_normal i' \<and> ri_Text i' = TrimSpace (ri_Text i) \<and>
                 r' = (section_append r (normalizeReviewSection s) i')\<lparr>rm_UpdatedAt := Some now\<rparr>)
         else TrimSpace (ri_Text i) \<in> ri_Text ` set (room_items r) \<and> r' = r"
    and "room_inv r'"
proof -
  let ?sec = "normalizeReviewSection s" and ?i = "normalizeReviewRoomItem now i"
  let ?a = "annotateReviewRoomContradictions wr now r ?sec ?i"
  have c: "copyReviewRoom now r = r" using inv by (simp add: copyReviewRoom_normal room_inv_normal)
  from e have s: "?sec \<in> {''accepted'', ''open'', ''deferred''}" and t: "TrimSpace (ri_Text i) \<noteq> []"
    using section_cases [of s] by (auto simp: ensureReviewRoomItem_def Let_def split: if_splits)
  have h: "reviewRoomHasItem r (TrimSpace (ri_Text i)) \<longleftrightarrow> TrimSpace (ri_Text i) \<in> ri_Text ` set (room_items r)"
    using t by (intro reviewRoomHasItem_iff) auto
  have "(if added
         then TrimSpace (ri_Text i) \<notin> ri_Text ` set (room_items r) \<and>
              (\<exists>i'. item_normal i' \<and> ri_Text i' = TrimSpace (ri_Text i) \<and>
                 r' = (section_append r (normalizeReviewSection s) i')\<lparr>rm_UpdatedAt := Some now\<rparr>)
         else TrimSpace (ri_Text i) \<in> ri_Text ` set (room_items r) \<and> r' = r) \<and> room_inv r'"
  proof (cases "TrimSpace (ri_Text i) \<in> ri_Text ` set (room_items r)")
    case True
    with e s t h c inv show ?thesis by (auto simp: ensureReviewRoomItem_def Let_def split: if_splits)
  next
    case False
    have n: "item_normal ?a" "ri_Text ?a = TrimSpace (ri_Text i)"
      using annotate_normal [OF now] by simp_all
    have i2: "room_inv ((section_append r ?sec ?a)\<lparr>rm_UpdatedAt := Some now\<rparr>)"
      using room_inv_section_append [OF inv s n(1)] n(2) t False by simp
    have "added" "r' = normalizeReviewRoom now ((section_append r ?sec ?a)\<lparr>rm_UpdatedAt := Some now\<rparr>)"
      using e s t h c False by (auto simp: ensureReviewRoomItem_def Let_def split: if_splits)
    then have "added" "r' = (section_append r ?sec ?a)\<lparr>rm_UpdatedAt := Some now\<rparr>"
      using normalizeReviewRoom_normal [OF room_inv_normal [OF i2]] by simp_all
    with n i2 False show ?thesis by auto
  qed
  then show "if added
         then TrimSpace (ri_Text i) \<notin> ri_Text ` set (room_items r) \<and>
              (\<exists>i'. item_normal i' \<and> ri_Text i' = TrimSpace (ri_Text i) \<and>
                 r' = (section_append r (normalizeReviewSection s) i')\<lparr>rm_UpdatedAt := Some now\<rparr>)
         else TrimSpace (ri_Text i) \<in> ri_Text ` set (room_items r) \<and> r' = r"
    and "room_inv r'" by blast+
qed

section \<open>Transitions\<close>

text \<open>The room without the items of one text; under the invariant there is at most one.\<close>

definition without :: "string \<Rightarrow> ReviewRoom \<Rightarrow> ReviewRoom" where
  "without t r = r\<lparr>rm_Accepted := filter (\<lambda>i. ri_Text i \<noteq> t) (rm_Accepted r),
                  rm_Open := filter (\<lambda>i. ri_Text i \<noteq> t) (rm_Open r),
                  rm_Deferred := filter (\<lambda>i. ri_Text i \<noteq> t) (rm_Deferred r)\<rparr>"

lemma filter_text_absent: "t \<notin> ri_Text ` set xs \<Longrightarrow> filter (\<lambda>i. ri_Text i \<noteq> t) xs = xs"
  by (induction xs) auto

lemma removeReviewRoomItem_filter:
  "distinct (map ri_Text xs) \<Longrightarrow>
   removeReviewRoomItem xs t = (filter (\<lambda>i. ri_Text i \<noteq> t) xs, find (\<lambda>i. ri_Text i = t) xs)"
  by (induction xs) (auto simp: Let_def filter_text_absent)

lemma room_items_without: "room_items (without t r) = filter (\<lambda>i. ri_Text i \<noteq> t) (room_items r)"
  by (simp add: room_items_def without_def)

lemma room_inv_without: "room_inv r \<Longrightarrow> room_inv (without t r)"
  by (auto simp: room_inv_def room_normal_def room_items_without list_all_iff distinct_map_filter)
     (simp add: without_def)

lemma find_text_None_iff: "find (\<lambda>i. ri_Text i = t) xs = None \<longleftrightarrow> t \<notin> ri_Text ` set xs"
  by (auto simp: find_None_iff)

lemma find_append: "find P (xs @ ys) = (case find P xs of None \<Rightarrow> find P ys | Some x \<Rightarrow> Some x)"
  by (induction xs) auto

lemma remove_from_room_eq:
  assumes "distinct (map ri_Text (room_items r))"
  shows "remove_from_room r t = (without t r, find (\<lambda>i. ri_Text i = t) (room_items r))"
proof -
  let ?f = "filter (\<lambda>i. ri_Text i \<noteq> t)" and ?g = "find (\<lambda>i. ri_Text i = t)"
  have d: "distinct (map ri_Text (rm_Accepted r))" "distinct (map ri_Text (rm_Open r))"
    "distinct (map ri_Text (rm_Deferred r))"
    using assms by (auto simp: room_items_def)
  have disj: "ri_Text ` set (rm_Accepted r) \<inter> ri_Text ` set (rm_Open r) = {}"
    "ri_Text ` set (rm_Accepted r) \<inter> ri_Text ` set (rm_Deferred r) = {}"
    "ri_Text ` set (rm_Open r) \<inter> ri_Text ` set (rm_Deferred r) = {}"
    using assms by (auto simp: room_items_def)
  have acc: "?f (rm_Accepted r) = rm_Accepted r" if "?g (rm_Accepted r) = None"
    using that by (simp add: find_text_None_iff filter_text_absent)
  have opn: "?f (rm_Open r) = rm_Open r" if "?g (rm_Open r) = None"
    using that by (simp add: find_text_None_iff filter_text_absent)
  have dfr: "?f (rm_Deferred r) = rm_Deferred r" if "?g (rm_Deferred r) = None"
    using that by (simp add: find_text_None_iff filter_text_absent)
  have excl: "?g (rm_Accepted r) \<noteq> None \<Longrightarrow> ?g (rm_Open r) = None \<and> ?g (rm_Deferred r) = None"
    "?g (rm_Open r) \<noteq> None \<Longrightarrow> ?g (rm_Deferred r) = None"
    using disj by (auto simp only: find_text_None_iff)
  show ?thesis
    using acc opn dfr excl
    by (cases "?g (rm_Accepted r)"; cases "?g (rm_Open r)"; cases "?g (rm_Deferred r)")
       (simp_all add: remove_from_room_def removeReviewRoomItem_filter [OF d(1)]
          removeReviewRoomItem_filter [OF d(2)] removeReviewRoomItem_filter [OF d(3)]
          without_def room_items_def find_append)
qed

lemma stampDeferred_text [simp]:
  "ri_Text (stampDeferredWhyUnresolved now i) = TrimSpace (ri_Text i)"
  by (simp add: stampDeferredWhyUnresolved_def Let_def split: option.splits)

lemma stampDeferred_normal:
  "\<not> IsZero now \<Longrightarrow> item_normal (stampDeferredWhyUnresolved now i)"
  by (simp add: stampDeferredWhyUnresolved_def Let_def item_normal_normalize)

lemma normalizeReviewRoomItems_snoc:
  "list_all item_normal xs \<Longrightarrow>
   normalizeReviewRoomItems now (xs @ [i]) = xs @ [normalizeReviewRoomItem now i]"
  using normalizeReviewRoomItems_normal [of xs now] by (simp add: normalizeReviewRoomItems_def)

lemma normalize_section_append:
  "room_normal r \<Longrightarrow> sec \<in> {''accepted'', ''open'', ''deferred''} \<Longrightarrow>
   normalizeReviewRoom now (section_append r sec i) = section_append r sec (normalizeReviewRoomItem now i)"
proof -
  assume n: "room_normal r" and s: "sec \<in> {''accepted'', ''open'', ''deferred''}"
  have l: "list_all item_normal (rm_Accepted r)" "list_all item_normal (rm_Open r)"
    "list_all item_normal (rm_Deferred r)" "\<not> blank (rm_Source r)"
    using n by (simp_all add: room_normal_def room_items_def)
  from s consider "sec = ''accepted''" | "sec = ''open''" | "sec = ''deferred''" by auto
  then show ?thesis
    by cases (simp_all add: section_append_def normalizeReviewRoom_def l
        normalizeReviewRoomItems_snoc normalizeReviewRoomItems_normal)
qed

lemma room_normal_frame [simp]:
  "room_normal (r\<lparr>rm_UpdatedAt := u\<rparr>) = room_normal r"
  "room_normal (r\<lparr>rm_Issues := is\<rparr>) = room_normal r"
  by (simp_all add: room_normal_def room_items_def)

text \<open>Where a transition puts the item: \<open>accept\<close> and \<open>defer\<close> name a section, \<open>resolve\<close> none.\<close>

definition action_section :: "string \<Rightarrow> string option" where
  "action_section a = (if a = ''accept'' then Some ''accepted'' else if a = ''defer'' then Some ''deferred'' else None)"

definition transition_base :: "time \<Rightarrow> string \<Rightarrow> ReviewRoom \<Rightarrow> ReviewRoom" where
  "transition_base now t r = (without t r)\<lparr>rm_Issues := [], rm_UpdatedAt := Some now\<rparr>"

lemma room_inv_transition_base: "room_inv r \<Longrightarrow> room_inv (transition_base now t r)"
  by (simp add: transition_base_def room_inv_without)

lemma room_items_transition_base:
  "room_items (transition_base now t r) = filter (\<lambda>i. ri_Text i \<noteq> t) (room_items r)"
  by (simp add: transition_base_def room_items_def without_def)

lemma transition_spec:
  assumes inv: "room_inv r" and now: "\<not> IsZero now"
    and a: "normalizeReviewAction action \<noteq> []" and t: "TrimSpace item \<noteq> []"
  shows "case find (\<lambda>i. ri_Text i = TrimSpace item) (room_items r) of
      None \<Rightarrow> transitionReviewRoomItem now r action item res = Inr (r\<lparr>rm_Issues := []\<rparr>, None, False)
    | Some x \<Rightarrow> \<exists>m y. item_normal y \<and> ri_Text y = TrimSpace item \<and> ri_Text m = TrimSpace item \<and>
        transitionReviewRoomItem now r action item res =
          Inr (case action_section (normalizeReviewAction action) of
                 None \<Rightarrow> transition_base now (TrimSpace item) r
               | Some sec \<Rightarrow> section_append (transition_base now (TrimSpace item) r) sec y, Some m, True)"
proof -
  let ?t = "TrimSpace item" and ?a = "normalizeReviewAction action"
  let ?c = "r\<lparr>rm_Issues := []\<rparr>"
  have c: "(copyReviewRoom now r)\<lparr>rm_Issues := []\<rparr> = ?c"
    using inv by (simp add: copyReviewRoom_normal room_inv_normal)
  have d: "distinct (map ri_Text (room_items ?c))" and ri: "room_items ?c = room_items r"
    using inv by (simp_all add: room_inv_def room_items_def)
  have rem: "remove_from_room ?c ?t = (without ?t ?c, find (\<lambda>i. ri_Text i = ?t) (room_items r))"
    using remove_from_room_eq [OF d, of ?t] ri by simp
  have w: "(without ?t ?c)\<lparr>rm_UpdatedAt := Some now\<rparr> = transition_base now ?t r"
    by (simp add: transition_base_def without_def)
  have base: "room_normal (transition_base now ?t r)"
    using inv by (intro room_inv_normal room_inv_transition_base)
  show ?thesis
  proof (cases "find (\<lambda>i. ri_Text i = ?t) (room_items r)")
    case None
    then have "?t \<notin> ri_Text ` set (rm_Accepted r)" "?t \<notin> ri_Text ` set (rm_Open r)"
      "?t \<notin> ri_Text ` set (rm_Deferred r)"
      by (auto simp: find_text_None_iff room_items_def)
    then have "without ?t ?c = ?c" by (simp add: without_def filter_text_absent)
    with None rem c a t show ?thesis by (simp add: transitionReviewRoomItem_def Let_def)
  next
    case (Some x)
    then have x: "ri_Text x = ?t" by (auto simp: find_Some_iff)
    define m where "m = (let rem1 = x\<lparr>ri_UpdatedAt := now,
        ri_Resolution := defaultReviewRoomResolution ?a res now\<rparr> in
        if ?a = ''defer'' then stampDeferredWhyUnresolved now rem1 else rem1)"
    define y where "y = normalizeReviewRoomItem now m"
    have m_text: "ri_Text m = ?t" by (simp add: m_def Let_def x)
    have y: "item_normal y" "ri_Text y = ?t"
      using item_normal_normalize [OF now] m_text by (simp_all add: y_def)
    have put: "normalizeReviewRoom now ((section_append (without ?t ?c) sec m)\<lparr>rm_UpdatedAt := Some now\<rparr>) =
        section_append (transition_base now ?t r) sec y" if "sec \<in> {''accepted'', ''deferred''}" for sec
    proof -
      have "(section_append (without ?t ?c) sec m)\<lparr>rm_UpdatedAt := Some now\<rparr> =
          section_append (transition_base now ?t r) sec m"
        using that by (auto simp: section_append_def w [symmetric])
      with normalize_section_append [OF base, of sec now m] that show ?thesis by (auto simp: y_def)
    qed
    have none: "normalizeReviewRoom now ((without ?t ?c)\<lparr>rm_UpdatedAt := Some now\<rparr>) = transition_base now ?t r"
      using normalizeReviewRoom_normal [OF base] w by simp
    have "transitionReviewRoomItem now r action item res =
          Inr (case action_section ?a of None \<Rightarrow> transition_base now ?t r
               | Some sec \<Rightarrow> section_append (transition_base now ?t r) sec y, Some m, True)"
    proof -
      have eq: "transitionReviewRoomItem now r action item res =
        Inr (normalizeReviewRoom now ((if ?a = ''accept'' then section_append (without ?t ?c) ''accepted'' m
               else if ?a = ''defer'' then section_append (without ?t ?c) ''deferred'' m
               else without ?t ?c)\<lparr>rm_UpdatedAt := Some now\<rparr>), Some m, True)"
        using a t rem c Some
        by (simp add: transitionReviewRoomItem_def Let_def section_append_def m_def)
      show ?thesis
        unfolding eq using put [of "''accepted''"] put [of "''deferred''"] none
        by (simp add: action_section_def)
    qed
    with Some y m_text show ?thesis by auto
  qed
qed

lemma action_section_valid: "action_section a = Some sec \<Longrightarrow> sec \<in> {''accepted'', ''open'', ''deferred''}"
  by (auto simp: action_section_def split: if_splits)

lemma room_inv_transition:
  assumes inv: "room_inv r" and now: "\<not> IsZero now"
    and tr: "transitionReviewRoomItem now r action item res = Inr (r', m, ch)"
  shows "room_inv r'"
proof -
  let ?t = "TrimSpace item"
  have a: "normalizeReviewAction action \<noteq> []" and t: "?t \<noteq> []"
    using tr by (auto simp: transitionReviewRoomItem_def Let_def split: if_splits)
  have base: "room_inv (transition_base now ?t r)" using inv by (rule room_inv_transition_base)
  show ?thesis
  proof (cases "find (\<lambda>i. ri_Text i = ?t) (room_items r)")
    case None
    with transition_spec [OF inv now a t, of res] tr inv show ?thesis by auto
  next
    case (Some x)
    with transition_spec [OF inv now a t, of res] tr obtain y where
      y: "item_normal y" "ri_Text y = ?t" and
      r': "r' = (case action_section (normalizeReviewAction action) of
             None \<Rightarrow> transition_base now ?t r
           | Some sec \<Rightarrow> section_append (transition_base now ?t r) sec y)" by auto
    have "?t \<notin> ri_Text ` set (room_items (transition_base now ?t r))"
      by (auto simp: room_items_transition_base)
    then have "room_inv (section_append (transition_base now ?t r) sec y)"
      if "action_section (normalizeReviewAction action) = Some sec" for sec
      using room_inv_section_append [OF base action_section_valid [OF that] y(1)] y(2) t by simp
    with r' base show ?thesis by (simp split: option.splits)
  qed
qed

section \<open>Resolution by evidence\<close>

definition evidence_match :: "string \<Rightarrow> string \<Rightarrow> ReviewRoomItem \<Rightarrow> bool" where
  "evidence_match source ev i \<longleftrightarrow>
     TrimSpace (ri_Source i) = TrimSpace source \<and> reviewRoomItemHasEvidence i (TrimSpace ev)"

lemma findByEvidence_eq:
  "TrimSpace ev \<noteq> [] \<Longrightarrow> findOpenReviewRoomItemByEvidence r source ev =
     map_option ri_Text (find (evidence_match source ev) (rm_Open r))"
  by (simp add: findOpenReviewRoomItemByEvidence_def evidence_match_def [abs_def] Let_def)

text \<open>One turn of the loop removes exactly the first matching open item.\<close>

lemma resolve_first_match:
  assumes inv: "room_inv r" and now: "\<not> IsZero now"
    and f: "find P (rm_Open r) = Some x"
  shows "\<exists>m. transitionReviewRoomItem now r ''resolve'' (ri_Text x) res =
           Inr (transition_base now (ri_Text x) r, Some m, True)"
    and "rm_Accepted (transition_base now (ri_Text x) r) = rm_Accepted r"
    and "rm_Deferred (transition_base now (ri_Text x) r) = rm_Deferred r"
    and "rm_Open (transition_base now (ri_Text x) r) = filter (\<lambda>i. ri_Text i \<noteq> ri_Text x) (rm_Open r)"
    and "filter (\<lambda>i. \<not> P i) (filter (\<lambda>i. ri_Text i \<noteq> ri_Text x) (rm_Open r)) = filter (\<lambda>i. \<not> P i) (rm_Open r)"
    and "length (filter P (rm_Open r)) = Suc (length (filter P (filter (\<lambda>i. ri_Text i \<noteq> ri_Text x) (rm_Open r))))"
proof -
  have x: "x \<in> set (rm_Open r)" "P x" using f by (auto simp: find_Some_iff)
  have mem: "x \<in> set (room_items r)" using x by (simp add: room_items_def)
  have n: "item_normal x" "ri_Text x \<noteq> []" using inv mem
    by (auto simp: room_inv_def room_normal_def list_all_iff)
  have tt: "TrimSpace (ri_Text x) = ri_Text x" using n by (simp add: item_normal_text)
  have "find (\<lambda>i. ri_Text i = ri_Text x) (room_items r) \<noteq> None"
    using mem by (auto simp: find_None_iff)
  with transition_spec [OF inv now, of "''resolve''" "ri_Text x" res] tt n(2)
  show "\<exists>m. transitionReviewRoomItem now r ''resolve'' (ri_Text x) res =
           Inr (transition_base now (ri_Text x) r, Some m, True)"
    by (auto simp: action_section_def)
  have d: "distinct (map ri_Text (rm_Open r))" "ri_Text x \<notin> ri_Text ` set (rm_Accepted r)"
    "ri_Text x \<notin> ri_Text ` set (rm_Deferred r)"
    using inv x(1) by (auto simp: room_inv_def room_items_def)
  then show "rm_Accepted (transition_base now (ri_Text x) r) = rm_Accepted r"
    and "rm_Deferred (transition_base now (ri_Text x) r) = rm_Deferred r"
    by (simp_all add: transition_base_def without_def filter_text_absent)
  show "rm_Open (transition_base now (ri_Text x) r) = filter (\<lambda>i. ri_Text i \<noteq> ri_Text x) (rm_Open r)"
    by (simp add: transition_base_def without_def)
  obtain a b where ab: "rm_Open r = a @ x # b" using x(1) by (meson split_list)
  with d have k: "filter (\<lambda>i. ri_Text i \<noteq> ri_Text x) (rm_Open r) = a @ b"
    by (simp add: filter_text_absent)
  show "filter (\<lambda>i. \<not> P i) (filter (\<lambda>i. ri_Text i \<noteq> ri_Text x) (rm_Open r)) = filter (\<lambda>i. \<not> P i) (rm_Open r)"
    and "length (filter P (rm_Open r)) = Suc (length (filter P (filter (\<lambda>i. ri_Text i \<noteq> ri_Text x) (rm_Open r))))"
    unfolding k by (simp_all add: ab x(2))
qed

lemma resolve_loop_filter:
  assumes "room_inv r" "\<not> IsZero now" "TrimSpace ev \<noteq> []"
  shows "\<exists>r'. resolve_by_evidence_loop now r source ev res n =
              Inr (r', n + length (filter (evidence_match source ev) (rm_Open r))) \<and> room_inv r' \<and>
            rm_Open r' = filter (\<lambda>i. \<not> evidence_match source ev i) (rm_Open r) \<and>
            rm_Accepted r' = rm_Accepted r \<and> rm_Deferred r' = rm_Deferred r"
  using assms
proof (induction now r source ev res n rule: resolve_by_evidence_loop.induct)
  case (1 now r source ev res n)
  let ?P = "evidence_match source ev"
  show ?case
  proof (cases "find ?P (rm_Open r)")
    case None
    then have "findOpenReviewRoomItemByEvidence r source ev = None" using "1.prems"
      by (simp add: findByEvidence_eq)
    moreover have "filter ?P (rm_Open r) = []" "filter (\<lambda>i. \<not> ?P i) (rm_Open r) = rm_Open r"
      using None by (auto simp: find_None_iff filter_empty_conv filter_id_conv)
    ultimately show ?thesis using "1.prems"
      by (subst resolve_by_evidence_loop.simps) simp
  next
    case (Some x)
    note first = resolve_first_match [OF "1.prems"(1,2) Some]
    obtain m where tr: "transitionReviewRoomItem now r ''resolve'' (ri_Text x) res =
        Inr (transition_base now (ri_Text x) r, Some m, True)" using first(1) by blast
    have fo: "findOpenReviewRoomItemByEvidence r source ev = Some (ri_Text x)"
      using Some "1.prems" by (simp add: findByEvidence_eq)
    have inv': "room_inv (transition_base now (ri_Text x) r)"
      using "1.prems"(1) by (rule room_inv_transition_base)
    have step: "resolve_by_evidence_loop now r source ev res n =
        resolve_by_evidence_loop now (transition_base now (ri_Text x) r) source ev res (Suc n)"
      by (subst resolve_by_evidence_loop.simps) (simp add: fo tr)
    from "1.IH" [OF fo tr refl refl _ inv' "1.prems"(2,3)] first(2-6) show ?thesis
      unfolding step by auto
  qed
qed

end
