(* ===== verification/Auth.thy ===== *)
theory Auth
  imports Sha256 Json_Value
begin

text \<open>
  Actor identities (\<open>operator_identity.go\<close>) and the write-token store (\<open>auth.go\<close>). The scoped token
  hashes are a Go map, which assignment of an \<open>authConfig\<close> shares rather than copies; the model
  keeps the maps in a store of their own and the configuration holds an address, so that a saved
  configuration sees later updates of its map exactly as in the code. A map is an association
  list with distinct keys, updated and deleted by \<open>AList\<close>. The environment variable
  LAYER\_OS\_DEFAULT\_ACTOR is the argument \<open>dflt\<close>.
\<close>

section \<open>Actors\<close>

definition neutralDefaultActor :: string where
  "neutralDefaultActor = ''system''"

definition normalizeActor :: "string \<Rightarrow> string" where
  "normalizeActor value =
     (let v = TrimSpace (ToLower value)
      in if v \<in> {''layer-osctl'', ''layer-osd'', ''''} then '''' else v)"

definition DefaultActor :: "string \<Rightarrow> string" where
  "DefaultActor dflt = (let a = normalizeActor dflt in if a \<noteq> '''' then a else neutralDefaultActor)"

fun ResolveActor :: "string \<Rightarrow> string list \<Rightarrow> string" where
  "ResolveActor dflt [] = DefaultActor dflt"
| "ResolveActor dflt (c # cs) =
     (let a = normalizeActor c in if a \<noteq> '''' then a else ResolveActor dflt cs)"

lemma normalizeActor_idem [simp]: "normalizeActor (normalizeActor v) = normalizeActor v"
proof -
  have "ToLower [] = []" "TrimSpace (TrimSpace (ToLower v)) = TrimSpace (ToLower v)" by simp_all
  then show ?thesis by (simp add: normalizeActor_def Let_def)
qed

lemma normalizeActor_not_blank: "normalizeActor v \<noteq> '''' \<Longrightarrow> \<not> blank (normalizeActor v)"
  by (auto simp: normalizeActor_def Let_def blank_def split: if_splits)

lemma neutralDefaultActor_normal: "normalizeActor neutralDefaultActor = neutralDefaultActor"
  by code_simp

lemma ResolveActor_normal: "normalizeActor (ResolveActor dflt cs) = ResolveActor dflt cs"
  by (induction cs) (simp_all add: DefaultActor_def Let_def neutralDefaultActor_normal)

lemma ResolveActor_nonempty [simp]: "ResolveActor dflt cs \<noteq> ''''"
  by (induction cs) (simp_all add: DefaultActor_def Let_def neutralDefaultActor_def)

lemma ResolveActor_not_blank [simp]: "\<not> blank (ResolveActor dflt cs)"
  using normalizeActor_not_blank [of "ResolveActor dflt cs"] by (simp add: ResolveActor_normal)

lemma ResolveActor_idem [simp]: "ResolveActor dflt' [ResolveActor dflt cs] = ResolveActor dflt cs"
  by (simp add: ResolveActor_normal Let_def)

section \<open>The write-token store\<close>

record authConfig =
  ac_WriteTokenHash :: string
  ac_ScopedTokenHashes :: "nat option"
  ac_UpdatedAt :: "time option"

record authStore =
  au_config :: authConfig
  au_maps :: "(string \<times> string) list list"

record AuthStatus =
  as_WriteAuthEnabled :: bool
  as_UpdatedAt :: "time option"

text \<open>The contents of the map a configuration points to; a \<open>nil\<close> map reads as the empty one.\<close>

definition scoped_hashes :: "(string \<times> string) list list \<Rightarrow> authConfig \<Rightarrow> (string \<times> string) list" where
  "scoped_hashes maps config =
     (case ac_ScopedTokenHashes config of
        None \<Rightarrow> []
      | Some a \<Rightarrow> if a < length maps then maps ! a else [])"

definition defaultAuthConfig :: authConfig where
  "defaultAuthConfig = \<lparr>ac_WriteTokenHash = '''', ac_ScopedTokenHashes = None, ac_UpdatedAt = None\<rparr>"

text \<open>\<open>newAuthStore\<close> copies the configuration, hence the address, and no map.\<close>

definition newAuthStore :: "(string \<times> string) list list \<Rightarrow> authConfig \<Rightarrow> authStore" where
  "newAuthStore maps config = \<lparr>au_config = config, au_maps = maps\<rparr>"

definition hashToken :: "string \<Rightarrow> string" where
  "hashToken token = sha256_hex token"

definition authEnabled :: "(string \<times> string) list list \<Rightarrow> authConfig \<Rightarrow> bool" where
  "authEnabled maps config \<longleftrightarrow>
     TrimSpace (ac_WriteTokenHash config) \<noteq> '''' \<or>
     list_ex (\<lambda>(_, h). TrimSpace h \<noteq> '''') (scoped_hashes maps config)"

definition authStore_current :: "authStore \<Rightarrow> authConfig" where
  "authStore_current s = au_config s"

definition authStore_status :: "authStore \<Rightarrow> AuthStatus" where
  "authStore_status s =
     \<lparr>as_WriteAuthEnabled = authEnabled (au_maps s) (au_config s), as_UpdatedAt = ac_UpdatedAt (au_config s)\<rparr>"

definition authStore_setToken :: "string \<Rightarrow> string \<Rightarrow> string \<Rightarrow> time \<Rightarrow> authStore \<Rightarrow> error + authStore" where
  "authStore_setToken dflt token actor updatedAt s =
     (let token = TrimSpace token in
      if token = '''' then Inl ''write token is required'' else
      let actor = ResolveActor dflt [actor];
          s1 = (if actor = ''founder''
                then s\<lparr>au_config := (au_config s)\<lparr>ac_WriteTokenHash := hashToken token\<rparr>\<rparr>
                else case ac_ScopedTokenHashes (au_config s) of
                  None \<Rightarrow> s\<lparr>au_config := (au_config s)\<lparr>ac_ScopedTokenHashes := Some (length (au_maps s))\<rparr>,
                            au_maps := au_maps s @ [[(actor, hashToken token)]]\<rparr>
                | Some a \<Rightarrow> s\<lparr>au_maps := (au_maps s)[a := AList.update actor (hashToken token) (au_maps s ! a)]\<rparr>)
      in Inr (s1\<lparr>au_config := (au_config s1)\<lparr>ac_UpdatedAt := Some updatedAt\<rparr>\<rparr>))"

definition authStore_clear :: "string \<Rightarrow> string \<Rightarrow> time \<Rightarrow> authStore \<Rightarrow> authStore" where
  "authStore_clear dflt actor updatedAt s =
     (let actor = ResolveActor dflt [actor];
          s1 = (if actor = ''founder''
                then s\<lparr>au_config := (au_config s)\<lparr>ac_WriteTokenHash := ''''\<rparr>\<rparr>
                else case ac_ScopedTokenHashes (au_config s) of
                  None \<Rightarrow> s
                | Some a \<Rightarrow>
                    let m = AList.delete actor (au_maps s ! a);
                        s2 = s\<lparr>au_maps := (au_maps s)[a := m]\<rparr>
                    in if m = [] then s2\<lparr>au_config := (au_config s2)\<lparr>ac_ScopedTokenHashes := None\<rparr>\<rparr>
                       else s2)
      in s1\<lparr>au_config := (au_config s1)\<lparr>ac_UpdatedAt := Some updatedAt\<rparr>\<rparr>)"

definition authStore_authorize :: "string \<Rightarrow> string \<Rightarrow> string \<Rightarrow> authStore \<Rightarrow> bool" where
  "authStore_authorize dflt token actor s =
     (if \<not> authEnabled (au_maps s) (au_config s) then True else
      let sum = hashToken (TrimSpace token);
          actor = ResolveActor dflt [actor];
          scoped = TrimSpace (case map_of (scoped_hashes (au_maps s) (au_config s)) actor of None \<Rightarrow> '''' | Some h \<Rightarrow> h)
      in if scoped \<noteq> '''' \<and> sum = scoped then True
         else if TrimSpace (ac_WriteTokenHash (au_config s)) = '''' then False
         else sum = ac_WriteTokenHash (au_config s))"

section \<open>Well-formed stores\<close>

text \<open>
  Every address points into the store, every map has distinct keys, and no stored hash is blank
  once it has been written by \<open>setToken\<close>.
\<close>

definition auth_wf :: "authStore \<Rightarrow> bool" where
  "auth_wf s \<longleftrightarrow>
     (case ac_ScopedTokenHashes (au_config s) of None \<Rightarrow> True | Some a \<Rightarrow> a < length (au_maps s)) \<and>
     list_all (\<lambda>m. distinct (map fst m)) (au_maps s)"

lemma hashToken_simps [simp]:
  "TrimSpace (hashToken t) = hashToken t" "hashToken t \<noteq> ''''"
  using length_sha256_hex [of t] by (auto simp: hashToken_def simp del: length_sha256_hex)

lemma list_all_list_update: "list_all P xs \<Longrightarrow> P x \<Longrightarrow> list_all P (xs[i := x])"
  by (auto simp: list_all_iff dest: set_update_subset_insert [THEN subsetD])

lemma auth_wf_setToken:
  assumes wf: "auth_wf s" and set: "authStore_setToken dflt tok actor t s = Inr s'"
  shows "auth_wf s'"
proof -
  have "distinct (map fst (AList.update k v (au_maps s ! a)))" if "a < length (au_maps s)" for k v a
    using wf that by (intro distinct_update) (simp add: auth_wf_def list_all_length)
  then show ?thesis using wf set
    by (auto simp: auth_wf_def authStore_setToken_def Let_def list_all_list_update
        simp del: ResolveActor.simps split: if_splits option.splits)
qed

lemma auth_wf_clear:
  assumes wf: "auth_wf s" shows "auth_wf (authStore_clear dflt actor t s)"
proof -
  have "distinct (map fst (AList.delete k (au_maps s ! a)))" if "a < length (au_maps s)" for k a
    using wf that by (intro distinct_delete) (simp add: auth_wf_def list_all_length)
  then show ?thesis using wf
    by (auto simp: auth_wf_def authStore_clear_def Let_def list_all_list_update
        simp del: ResolveActor.simps split: option.splits)
qed

lemma auth_wf_new: "auth_wf (newAuthStore maps config) \<longleftrightarrow>
    (case ac_ScopedTokenHashes config of None \<Rightarrow> True | Some a \<Rightarrow> a < length maps) \<and>
    list_all (\<lambda>m. distinct (map fst m)) maps"
  by (simp add: auth_wf_def newAuthStore_def split: option.splits)

section \<open>What a token opens\<close>

lemma scoped_hashes_setToken:
  assumes "auth_wf s" "authStore_setToken dflt tok actor t s = Inr s'"
  shows "map_of (scoped_hashes (au_maps s') (au_config s')) =
    (if ResolveActor dflt [actor] = ''founder'' then map_of (scoped_hashes (au_maps s) (au_config s))
     else (map_of (scoped_hashes (au_maps s) (au_config s)))
            (ResolveActor dflt [actor] \<mapsto> hashToken (TrimSpace tok)))"
    and "ac_WriteTokenHash (au_config s') =
      (if ResolveActor dflt [actor] = ''founder'' then hashToken (TrimSpace tok)
       else ac_WriteTokenHash (au_config s))"
  using assms
  by (auto simp: auth_wf_def authStore_setToken_def scoped_hashes_def Let_def update_conv'
      nth_append simp del: ResolveActor.simps split: if_splits option.splits)

lemma setToken_enabled:
  assumes "auth_wf s" "authStore_setToken dflt tok actor t s = Inr s'"
  shows "authEnabled (au_maps s') (au_config s')"
proof (cases "ResolveActor dflt [actor] = ''founder''")
  case True
  then show ?thesis using scoped_hashes_setToken (2) [OF assms] by (simp add: authEnabled_def)
next
  case False
  then have "map_of (scoped_hashes (au_maps s') (au_config s')) (ResolveActor dflt [actor]) =
      Some (hashToken (TrimSpace tok))"
    using scoped_hashes_setToken (1) [OF assms] by simp
  then have "(ResolveActor dflt [actor], hashToken (TrimSpace tok)) \<in> set (scoped_hashes (au_maps s') (au_config s'))"
    by (rule map_of_SomeD)
  then show ?thesis by (force simp: authEnabled_def list_ex_iff)
qed

lemma setToken_authorizes:
  assumes "auth_wf s" "authStore_setToken dflt tok actor t s = Inr s'"
  shows "authStore_authorize dflt tok actor s'"
  using setToken_enabled [OF assms] scoped_hashes_setToken [OF assms]
  by (auto simp: authStore_authorize_def Let_def simp del: ResolveActor.simps)

lemma authorize_sound:
  assumes "authEnabled (au_maps s) (au_config s)" "authStore_authorize dflt tok actor s"
  shows "hashToken (TrimSpace tok) = ac_WriteTokenHash (au_config s) \<or>
    (\<exists>h. map_of (scoped_hashes (au_maps s) (au_config s)) (ResolveActor dflt [actor]) = Some h \<and>
         hashToken (TrimSpace tok) = TrimSpace h)"
  using assms
  by (auto simp: authStore_authorize_def Let_def simp del: ResolveActor.simps
      split: if_splits option.splits)

end
