(* ===== verification/Stable_Sort.thy ===== *)
theory Stable_Sort
  imports Prelude "HOL-Library.Multiset"
begin

text \<open>
  \<open>sort.SliceStable\<close> with a comparison function. Go promises nothing unless the comparison is a strict weak
  order; the locale states that requirement and holds what the sort gives for it, and every comparison
  the program sorts with is an interpretation. With a comparison of this kind the result of a stable
  sort is unique, so an insertion sort models it.
\<close>

fun insert_by :: "('a \<Rightarrow> 'a \<Rightarrow> bool) \<Rightarrow> 'a \<Rightarrow> 'a list \<Rightarrow> 'a list" where
  "insert_by lt x [] = [x]"
| "insert_by lt x (y # ys) = (if lt y x then y # insert_by lt x ys else x # y # ys)"

definition stable_sort_by :: "('a \<Rightarrow> 'a \<Rightarrow> bool) \<Rightarrow> 'a list \<Rightarrow> 'a list" where
  "stable_sort_by lt xs = foldr (insert_by lt) xs []"

lemma stable_sort_by_simps [simp]:
  "stable_sort_by lt [] = []" "stable_sort_by lt (x # xs) = insert_by lt x (stable_sort_by lt xs)"
  by (simp_all add: stable_sort_by_def)

lemma mset_insert_by [simp]: "mset (insert_by lt x xs) = add_mset x (mset xs)"
  by (induction xs) auto

lemma mset_stable_sort_by [simp]: "mset (stable_sort_by lt xs) = mset xs"
  by (induction xs) simp_all

lemma set_stable_sort_by [simp]: "set (stable_sort_by lt xs) = set xs"
  using mset_stable_sort_by [of lt xs] by (rule mset_eq_setD)

lemma set_insert_by [simp]: "set (insert_by lt x xs) = insert x (set xs)"
  by (induction xs) auto

lemma length_stable_sort_by [simp]: "length (stable_sort_by lt xs) = length xs"
  using mset_stable_sort_by [of lt xs] by (rule mset_eq_length)

text \<open>A strict weak order: asymmetric, and whatever is between two ordered elements is ordered with one of them.\<close>

locale weak_order =
  fixes lt :: "'a \<Rightarrow> 'a \<Rightarrow> bool"
  assumes asym: "lt x y \<Longrightarrow> \<not> lt y x"
    and between: "lt x z \<Longrightarrow> lt x y \<or> lt y z"
begin

lemma irrefl: "\<not> lt x x"
  using asym by blast

lemma not_less_trans: "\<not> lt y x \<Longrightarrow> \<not> lt z y \<Longrightarrow> \<not> lt z x"
  using between by blast

lemma sorted_insert_by:
  "sorted_wrt (\<lambda>a b. \<not> lt b a) xs \<Longrightarrow> sorted_wrt (\<lambda>a b. \<not> lt b a) (insert_by lt x xs)"
proof (induction xs)
  case (Cons y ys)
  show ?case
  proof (cases "lt y x")
    case True
    then show ?thesis using Cons asym by auto
  next
    case False
    then have "\<forall>z \<in> set ys. \<not> lt z x" using Cons.prems not_less_trans by (metis sorted_wrt.simps(2))
    then show ?thesis using False Cons.prems by auto
  qed
qed simp

lemma sorted_stable_sort: "sorted_wrt (\<lambda>a b. \<not> lt b a) (stable_sort_by lt xs)"
  by (induction xs) (simp_all add: sorted_insert_by)

text \<open>Elements that the order does not tell apart keep their places relative to each other.\<close>

lemma filter_insert_by:
  assumes "\<And>a b. P a \<Longrightarrow> P b \<Longrightarrow> \<not> lt a b"
  shows "filter P (insert_by lt x xs) = filter P (x # xs)"
  using assms by (induction xs) auto

lemma stable_sort_stable:
  assumes "\<And>a b. P a \<Longrightarrow> P b \<Longrightarrow> \<not> lt a b"
  shows "filter P (stable_sort_by lt xs) = filter P xs"
  using assms by (induction xs) (simp_all add: filter_insert_by)

text \<open>The longest prefix that is asked for holds the least elements, and none beyond it is less.\<close>

lemma sorted_prefix:
  "sorted_wrt (\<lambda>a b. \<not> lt b a) (take n (stable_sort_by lt xs) @ drop n (stable_sort_by lt xs))"
  by (simp add: sorted_stable_sort)

text \<open>A list that is sorted already is returned as it is.\<close>

lemma insert_by_least: "\<forall>y \<in> set xs. \<not> lt y x \<Longrightarrow> insert_by lt x xs = x # xs"
  by (cases xs) auto

lemma stable_sort_sorted: "sorted_wrt (\<lambda>a b. \<not> lt b a) xs \<Longrightarrow> stable_sort_by lt xs = xs"
  by (induction xs) (simp_all add: insert_by_least)

end

end
