(* ===== verification/Continuity.thy ===== *)
theory Continuity
  imports Text_Mask Review_Room_Props Auth Stable_Sort
begin

text \<open>
  Continuity records and session checkpoints (\<open>continuity.go\<close>, \<open>types_continuity.go\<close> and the normalisers of
  \<open>service_session_bus.go\<close>). A record belongs to an actor and a source; it is active, becomes stale a day
  after its last update, and is resolved when its session is finished. Every read of the store
  normalises the records against the clock, so whether a record is active or stale depends on the
  instant. The lists of a record are Go slices that normalisation has made non-nil; the \<open>nil\<close> checks of
  \<open>Validate\<close> hold for them by construction. The argument \<open>dflt\<close> is the environment's default actor.
\<close>

section \<open>Types\<close>

record ContinuityNote =
  cn_NoteID :: string
  cn_Kind :: string
  cn_Text :: string
  cn_Refs :: "string list"
  cn_CreatedAt :: time

record ContinuityRecord =
  co_RecordID :: string
  co_Source :: string
  co_Actor :: string
  co_Status :: string
  co_CurrentFocus :: string
  co_CurrentGoal :: "string option"
  co_NextSteps :: "string list"
  co_OpenRisks :: "string list"
  co_HandoffNote :: "string option"
  co_Refs :: "string list"
  co_Notes :: "ContinuityNote list"
  co_CreatedAt :: time
  co_UpdatedAt :: time
  co_ResolvedAt :: "time option"

record SessionCheckpoint =
  sc_CheckpointID :: string
  sc_Source :: string
  sc_Actor :: string
  sc_CurrentFocus :: string
  sc_CurrentGoal :: "string option"
  sc_NextSteps :: "string list"
  sc_OpenRisks :: "string list"
  sc_HandoffNote :: "string option"
  sc_Note :: "string option"
  sc_Refs :: "string list"
  sc_UpdatedAt :: time

record SessionCheckpointInput =
  ci_Source :: string
  ci_CurrentFocus :: string
  ci_CurrentGoal :: "string option"
  ci_NextSteps :: "string slice"
  ci_OpenRisks :: "string slice"
  ci_HandoffNote :: "string option"
  ci_Note :: "string option"
  ci_Refs :: "string slice"

record SessionNoteInput =
  ni_Source :: string
  ni_Kind :: string
  ni_Text :: string
  ni_Refs :: "string slice"

record SessionFinishInput =
  fi_CurrentFocus :: string
  fi_CurrentGoal :: "string option"
  fi_NextSteps :: "string slice"
  fi_OpenRisks :: "string slice"
  fi_HandoffNote :: "string option"
  fi_Note :: "string option"

definition continuityNoteHistoryLimit :: nat where "continuityNoteHistoryLimit = 50"
definition continuityStaleAfter :: int where "continuityStaleAfter = 24 * 3600 * 10 ^ 9"

section \<open>Normalisation\<close>

definition normalizeOptionalString :: "string option \<Rightarrow> string option" where
  "normalizeOptionalString value =
     (case value of None \<Rightarrow> None
      | Some v \<Rightarrow> let trimmed = TrimSpace v in if trimmed = '''' then None else Some trimmed)"

definition normalizeSessionCheckpointList :: "string slice \<Rightarrow> string list" where
  "normalizeSessionCheckpointList items = evidence_from [] (elems items)"

definition normalizeObservationRefs :: "string slice \<Rightarrow> string list" where
  "normalizeObservationRefs items = evidence_from [] (elems items)"

definition continuityStatusRank :: "string \<Rightarrow> nat" where
  "continuityStatusRank value =
     (let v = TrimSpace (ToLower value)
      in if v = ''active'' then 0 else if v = ''stale'' then 1 else if v = ''resolved'' then 2 else 3)"

definition normalizeContinuitySource :: "string \<Rightarrow> string" where
  "normalizeContinuitySource value = (let v = TrimSpace (ToLower value) in if v = '''' then ''terminal'' else v)"

definition normalizeContinuityNoteKind :: "string \<Rightarrow> string" where
  "normalizeContinuityNoteKind value = (let v = TrimSpace (ToLower value) in if v = '''' then ''note'' else v)"

definition validContinuityStatus :: "string \<Rightarrow> bool" where
  "validContinuityStatus value \<longleftrightarrow> TrimSpace (ToLower value) \<in> {''active'', ''resolved'', ''stale''}"

definition validContinuityNoteKind :: "string \<Rightarrow> bool" where
  "validContinuityNoteKind value \<longleftrightarrow> normalizeContinuityNoteKind value \<in> {''note'', ''todo'', ''decision'', ''risk''}"

definition nextContinuityRecordID :: "time \<Rightarrow> string" where
  "nextContinuityRecordID now = ''continuity_record_'' @ Itoa now"

definition nextContinuityNoteID :: "time \<Rightarrow> string" where
  "nextContinuityNoteID now = ''continuity_note_'' @ Itoa now"

definition normalizeContinuityNoteAt :: "time \<Rightarrow> ContinuityNote \<Rightarrow> ContinuityNote" where
  "normalizeContinuityNoteAt now item =
     (let i = TrimSpace (cn_NoteID item)
      in \<lparr>cn_NoteID = (if i = '''' then nextContinuityNoteID now else i),
          cn_Kind = normalizeContinuityNoteKind (cn_Kind item),
          cn_Text = limitText (TrimSpace (maskConversationText (cn_Text item))) 500,
          cn_Refs = normalizeObservationRefs (Some (cn_Refs item)),
          cn_CreatedAt = (if IsZero (cn_CreatedAt item) then now else cn_CreatedAt item)\<rparr>)"

definition trimContinuityNotes :: "ContinuityNote list \<Rightarrow> ContinuityNote list" where
  "trimContinuityNotes items =
     (if length items \<le> continuityNoteHistoryLimit then items
      else drop (length items - continuityNoteHistoryLimit) items)"

definition continuityStatusAt :: "time \<Rightarrow> ContinuityRecord \<Rightarrow> string" where
  "continuityStatusAt now item =
     (let status = TrimSpace (ToLower (co_Status item)) in
      if status = ''resolved'' then ''resolved'' else
      let status = (if status = '''' then ''active'' else status) in
      if IsZero (co_UpdatedAt item) then status
      else if now - co_UpdatedAt item \<ge> continuityStaleAfter then ''stale''
      else ''active'')"

text \<open>The loop over the notes: those with a text are kept, and their references are added.\<close>

fun normalize_notes :: "time \<Rightarrow> ContinuityNote list \<Rightarrow> string list \<Rightarrow> ContinuityNote list \<times> string list" where
  "normalize_notes at [] refs = ([], refs)"
| "normalize_notes at (n # ns) refs =
     (let x = normalizeContinuityNoteAt at n in
      if cn_Text x = '''' then normalize_notes at ns refs
      else let (xs, refs') = normalize_notes at ns (normalizeObservationRefs (Some (refs @ cn_Refs x)))
           in (x # xs, refs'))"

definition normalizeContinuityRecordAt :: "string \<Rightarrow> time \<Rightarrow> ContinuityRecord \<Rightarrow> ContinuityRecord" where
  "normalizeContinuityRecordAt dflt now item =
     (let i = TrimSpace (co_RecordID item);
          created = (if IsZero (co_CreatedAt item) then now else co_CreatedAt item);
          updated = (if IsZero (co_UpdatedAt item) then created else co_UpdatedAt item);
          (notes, refs) = normalize_notes updated (co_Notes item) (normalizeObservationRefs (Some (co_Refs item)));
          status = continuityStatusAt now (item\<lparr>co_UpdatedAt := updated\<rparr>)
      in \<lparr>co_RecordID = (if i = '''' then nextContinuityRecordID now else i),
          co_Source = normalizeContinuitySource (co_Source item),
          co_Actor = ResolveActor dflt [co_Actor item],
          co_Status = status,
          co_CurrentFocus = TrimSpace (co_CurrentFocus item),
          co_CurrentGoal = normalizeOptionalString (co_CurrentGoal item),
          co_NextSteps = normalizeSessionCheckpointList (Some (co_NextSteps item)),
          co_OpenRisks = normalizeSessionCheckpointList (Some (co_OpenRisks item)),
          co_HandoffNote = normalizeOptionalString (co_HandoffNote item),
          co_Refs = refs,
          co_Notes = trimContinuityNotes notes,
          co_CreatedAt = created,
          co_UpdatedAt = updated,
          co_ResolvedAt =
            (if status = ''resolved''
             then Some (case co_ResolvedAt item of None \<Rightarrow> updated | Some r \<Rightarrow> if IsZero r then updated else r)
             else None)\<rparr>)"

text \<open>The order of \<open>sortContinuityRecords\<close>: by status, then the latest update, the latest creation, the identifier.\<close>

definition continuity_less :: "ContinuityRecord \<Rightarrow> ContinuityRecord \<Rightarrow> bool" where
  "continuity_less a b =
     (if continuityStatusRank (co_Status a) \<noteq> continuityStatusRank (co_Status b)
      then continuityStatusRank (co_Status a) < continuityStatusRank (co_Status b)
      else if co_UpdatedAt a \<noteq> co_UpdatedAt b then co_UpdatedAt a > co_UpdatedAt b
      else if co_CreatedAt a \<noteq> co_CreatedAt b then co_CreatedAt a > co_CreatedAt b
      else co_RecordID a > co_RecordID b)"

interpretation continuity_order: weak_order continuity_less
  by unfold_locales (auto simp: continuity_less_def split: if_splits)

definition sortContinuityRecords :: "ContinuityRecord list \<Rightarrow> ContinuityRecord list" where
  "sortContinuityRecords items = stable_sort_by continuity_less items"

definition normalizeContinuityRecordsAt :: "string \<Rightarrow> time \<Rightarrow> ContinuityRecord list \<Rightarrow> ContinuityRecord list" where
  "normalizeContinuityRecordsAt dflt now items =
     sortContinuityRecords (filter (\<lambda>r. co_RecordID r \<noteq> '''') (map (normalizeContinuityRecordAt dflt now) items))"

section \<open>Validation\<close>

definition ContinuityNote_Validate :: "ContinuityNote \<Rightarrow> error option" where
  "ContinuityNote_Validate n = first_error
     [(blank (cn_NoteID n), ''continuity note note_id is required''),
      (\<not> validContinuityNoteKind (cn_Kind n), ''continuity note kind is invalid''),
      (blank (cn_Text n), ''continuity note text is required''),
      (IsZero (cn_CreatedAt n), ''continuity note created_at is required'')]"

fun notes_error :: "ContinuityNote list \<Rightarrow> error option" where
  "notes_error [] = None"
| "notes_error (n # ns) = (case ContinuityNote_Validate n of Some err \<Rightarrow> Some err | None \<Rightarrow> notes_error ns)"

definition ContinuityRecord_Validate :: "ContinuityRecord \<Rightarrow> error option" where
  "ContinuityRecord_Validate c =
     (case first_error
        [(blank (co_RecordID c), ''continuity record record_id is required''),
         (blank (co_Source c), ''continuity record source is required''),
         (blank (co_Actor c), ''continuity record actor is required''),
         (\<not> validContinuityStatus (co_Status c), ''continuity record status is invalid''),
         (blank (co_CurrentFocus c), ''continuity record current_focus is required'')] of
        Some err \<Rightarrow> Some err
      | None \<Rightarrow>
          (case notes_error (co_Notes c) of
             Some err \<Rightarrow> Some err
           | None \<Rightarrow> first_error
               [(IsZero (co_CreatedAt c), ''continuity record created_at is required''),
                (IsZero (co_UpdatedAt c), ''continuity record updated_at is required''),
                (co_Status c = ''resolved'' \<and> opt_zero (co_ResolvedAt c),
                 ''continuity record resolved_at is required when resolved'')]))"

definition SessionCheckpoint_Validate :: "SessionCheckpoint \<Rightarrow> error option" where
  "SessionCheckpoint_Validate c = first_error
     [(blank (sc_CheckpointID c), ''session checkpoint checkpoint_id is required''),
      (blank (sc_Source c), ''session checkpoint source is required''),
      (blank (sc_Actor c), ''session checkpoint actor is required''),
      (blank (sc_CurrentFocus c), ''session checkpoint current_focus is required''),
      (IsZero (sc_UpdatedAt c), ''session checkpoint updated_at is required'')]"

definition SessionCheckpointInput_Validate :: "SessionCheckpointInput \<Rightarrow> error option" where
  "SessionCheckpointInput_Validate i = first_error
     [(blank (ci_CurrentFocus i), ''session checkpoint current_focus is required''),
      (ci_NextSteps i = None, ''session checkpoint next_steps is required''),
      (ci_OpenRisks i = None, ''session checkpoint open_risks is required''),
      (ci_Refs i = None, ''session checkpoint refs are required'')]"

definition SessionNoteInput_Validate :: "SessionNoteInput \<Rightarrow> error option" where
  "SessionNoteInput_Validate i = first_error
     [(blank (ni_Source i), ''session note source is required''),
      (\<not> validContinuityNoteKind (ni_Kind i), ''session note kind is invalid''),
      (blank (ni_Text i), ''session note text is required''),
      (ni_Refs i = None, ''session note refs are required'')]"

definition SessionFinishInput_Validate :: "SessionFinishInput \<Rightarrow> error option" where
  "SessionFinishInput_Validate i = first_error
     [(blank (fi_CurrentFocus i), ''session finish current_focus is required''),
      (fi_NextSteps i = None, ''session finish next_steps is required''),
      (fi_OpenRisks i = None, ''session finish open_risks is required'')]"

section \<open>Inputs and checkpoints\<close>

definition normalizeSessionCheckpointSource :: "string \<Rightarrow> string" where
  "normalizeSessionCheckpointSource value = normalizeContinuitySource value"

definition normalizeSessionCheckpointInput :: "SessionCheckpointInput \<Rightarrow> SessionCheckpointInput" where
  "normalizeSessionCheckpointInput i =
     \<lparr>ci_Source = normalizeSessionCheckpointSource (ci_Source i),
      ci_CurrentFocus = TrimSpace (ci_CurrentFocus i),
      ci_CurrentGoal = normalizeOptionalString (ci_CurrentGoal i),
      ci_NextSteps = Some (normalizeSessionCheckpointList (ci_NextSteps i)),
      ci_OpenRisks = Some (normalizeSessionCheckpointList (ci_OpenRisks i)),
      ci_HandoffNote = normalizeOptionalString (ci_HandoffNote i),
      ci_Note = normalizeOptionalString (ci_Note i),
      ci_Refs = Some (normalizeObservationRefs (ci_Refs i))\<rparr>"

definition normalizeSessionNoteInput :: "SessionNoteInput \<Rightarrow> SessionNoteInput" where
  "normalizeSessionNoteInput i =
     \<lparr>ni_Source = normalizeContinuitySource (ni_Source i),
      ni_Kind = normalizeContinuityNoteKind (ni_Kind i),
      ni_Text = limitText (TrimSpace (maskConversationText (ni_Text i))) 500,
      ni_Refs = Some (normalizeObservationRefs (ni_Refs i))\<rparr>"

definition normalizeSessionCheckpoint :: "string \<Rightarrow> SessionCheckpoint \<Rightarrow> SessionCheckpoint" where
  "normalizeSessionCheckpoint dflt c =
     \<lparr>sc_CheckpointID = TrimSpace (sc_CheckpointID c),
      sc_Source = normalizeSessionCheckpointSource (sc_Source c),
      sc_Actor = ResolveActor dflt [sc_Actor c],
      sc_CurrentFocus = TrimSpace (sc_CurrentFocus c),
      sc_CurrentGoal = normalizeOptionalString (sc_CurrentGoal c),
      sc_NextSteps = normalizeSessionCheckpointList (Some (sc_NextSteps c)),
      sc_OpenRisks = normalizeSessionCheckpointList (Some (sc_OpenRisks c)),
      sc_HandoffNote = normalizeOptionalString (sc_HandoffNote c),
      sc_Note = normalizeOptionalString (sc_Note c),
      sc_Refs = normalizeObservationRefs (Some (sc_Refs c)),
      sc_UpdatedAt = sc_UpdatedAt c\<rparr>"

text \<open>\<open>strings.Replace\<close> with count 1: the first occurrence.\<close>

fun replace_once :: "string \<Rightarrow> string \<Rightarrow> string \<Rightarrow> string" where
  "replace_once old new [] = (if old = [] then new else [])"
| "replace_once old new (c # s) =
     (if starts_with (c # s) old then new @ drop (length old) (c # s) else c # replace_once old new s)"

definition continuityRecordFromSessionCheckpoint :: "string \<Rightarrow> clock \<Rightarrow> SessionCheckpoint \<Rightarrow> ContinuityRecord" where
  "continuityRecordFromSessionCheckpoint dflt ts item0 =
     (let item = normalizeSessionCheckpoint dflt item0;
          now = (if IsZero (sc_UpdatedAt item) then ts 0 else sc_UpdatedAt item);
          r = TrimSpace (replace_once ''session_checkpoint'' ''continuity_record'' (sc_CheckpointID item));
          recordID = (if r = '''' then nextContinuityRecordID now else r)
      in normalizeContinuityRecordAt dflt (ts 1)
           \<lparr>co_RecordID = recordID, co_Source = sc_Source item, co_Actor = sc_Actor item, co_Status = ''active'',
            co_CurrentFocus = sc_CurrentFocus item, co_CurrentGoal = sc_CurrentGoal item, co_NextSteps = sc_NextSteps item,
            co_OpenRisks = sc_OpenRisks item, co_HandoffNote = sc_HandoffNote item, co_Refs = sc_Refs item,
            co_Notes = (case sc_Note item of None \<Rightarrow> []
                        | Some n \<Rightarrow> [\<lparr>cn_NoteID = replace_once ''continuity_record'' ''continuity_note'' recordID,
                                    cn_Kind = ''note'', cn_Text = n, cn_Refs = sc_Refs item, cn_CreatedAt = now\<rparr>]),
            co_CreatedAt = now, co_UpdatedAt = now, co_ResolvedAt = None\<rparr>)"

definition sessionCheckpointFromContinuityRecord :: "string \<Rightarrow> time \<Rightarrow> ContinuityRecord \<Rightarrow> SessionCheckpoint" where
  "sessionCheckpointFromContinuityRecord dflt now item0 =
     (let item = normalizeContinuityRecordAt dflt now item0;
          latest = (if co_Notes item = [] then None
                    else let v = TrimSpace (cn_Text (last (co_Notes item))) in if v = '''' then None else Some v)
      in normalizeSessionCheckpoint dflt
           \<lparr>sc_CheckpointID = replace_once ''continuity_record'' ''session_checkpoint'' (co_RecordID item),
            sc_Source = co_Source item, sc_Actor = co_Actor item, sc_CurrentFocus = co_CurrentFocus item,
            sc_CurrentGoal = co_CurrentGoal item, sc_NextSteps = co_NextSteps item, sc_OpenRisks = co_OpenRisks item,
            sc_HandoffNote = co_HandoffNote item, sc_Note = latest, sc_Refs = co_Refs item, sc_UpdatedAt = co_UpdatedAt item\<rparr>)"

section \<open>Records from and to the system memory\<close>

definition normalizeContinuityMemoryBase :: "SystemMemory \<Rightarrow> time \<Rightarrow> SystemMemory" where
  "normalizeContinuityMemoryBase memory now =
     \<lparr>sm_CurrentFocus = (if blank (sm_CurrentFocus memory) then sm_CurrentFocus (defaultSystemMemory now) else sm_CurrentFocus memory),
      sm_CurrentGoal = normalizeOptionalString (sm_CurrentGoal memory),
      sm_NextSteps = Some (elems (sm_NextSteps memory)),
      sm_OpenRisks = Some (elems (sm_OpenRisks memory)),
      sm_HandoffNote = normalizeOptionalString (sm_HandoffNote memory),
      sm_LastOperator = normalizeOptionalString (sm_LastOperator memory),
      sm_UpdatedAt = (if IsZero (sm_UpdatedAt memory) then now else sm_UpdatedAt memory)\<rparr>"

definition continuityRecordFromMemory :: "string \<Rightarrow> SystemMemory \<Rightarrow> string \<Rightarrow> string \<Rightarrow> time \<Rightarrow> ContinuityRecord" where
  "continuityRecordFromMemory dflt memory0 actor source now =
     (let memory = normalizeContinuityMemoryBase memory0 now
      in normalizeContinuityRecordAt dflt now
           \<lparr>co_RecordID = nextContinuityRecordID now, co_Source = normalizeContinuitySource source,
            co_Actor = ResolveActor dflt [actor], co_Status = ''active'', co_CurrentFocus = sm_CurrentFocus memory,
            co_CurrentGoal = sm_CurrentGoal memory, co_NextSteps = elems (sm_NextSteps memory),
            co_OpenRisks = elems (sm_OpenRisks memory), co_HandoffNote = sm_HandoffNote memory, co_Refs = [], co_Notes = [],
            co_CreatedAt = now, co_UpdatedAt = now, co_ResolvedAt = None\<rparr>)"

definition applySessionCheckpointToContinuityRecord ::
  "string \<Rightarrow> ContinuityRecord \<Rightarrow> SessionCheckpointInput \<Rightarrow> time \<Rightarrow> ContinuityRecord" where
  "applySessionCheckpointToContinuityRecord dflt item0 input now =
     (let item = normalizeContinuityRecordAt dflt now item0
      in normalizeContinuityRecordAt dflt now
           (item\<lparr>co_Source := ci_Source input, co_Status := ''active'', co_CurrentFocus := ci_CurrentFocus input,
                 co_CurrentGoal := ci_CurrentGoal input, co_NextSteps := elems (ci_NextSteps input),
                 co_OpenRisks := elems (ci_OpenRisks input), co_HandoffNote := ci_HandoffNote input,
                 co_Refs := normalizeObservationRefs (Some (co_Refs item @ elems (ci_Refs input))),
                 co_UpdatedAt := now, co_ResolvedAt := None,
                 co_Notes := co_Notes item @
                   (case ci_Note input of None \<Rightarrow> []
                    | Some n \<Rightarrow> [normalizeContinuityNoteAt now
                                  \<lparr>cn_NoteID = '''', cn_Kind = ''note'', cn_Text = n, cn_Refs = elems (ci_Refs input),
                                   cn_CreatedAt = now\<rparr>])\<rparr>))"

definition applySessionFinishToContinuityRecord ::
  "string \<Rightarrow> ContinuityRecord \<Rightarrow> SessionFinishInput \<Rightarrow> time \<Rightarrow> ContinuityRecord" where
  "applySessionFinishToContinuityRecord dflt item0 input now =
     (let item = normalizeContinuityRecordAt dflt now item0
      in normalizeContinuityRecordAt dflt now
           (item\<lparr>co_Status := ''resolved'', co_CurrentFocus := TrimSpace (fi_CurrentFocus input),
                 co_CurrentGoal := normalizeOptionalString (fi_CurrentGoal input),
                 co_NextSteps := normalizeSessionCheckpointList (fi_NextSteps input),
                 co_OpenRisks := normalizeSessionCheckpointList (fi_OpenRisks input),
                 co_HandoffNote := normalizeOptionalString (fi_HandoffNote input),
                 co_UpdatedAt := now, co_ResolvedAt := Some now,
                 co_Notes := co_Notes item @
                   (case fi_Note input of None \<Rightarrow> []
                    | Some n \<Rightarrow> [normalizeContinuityNoteAt now
                                  \<lparr>cn_NoteID = '''', cn_Kind = ''decision'', cn_Text = n, cn_Refs = co_Refs item,
                                   cn_CreatedAt = now\<rparr>])\<rparr>))"

definition applySessionNoteToContinuityRecord ::
  "string \<Rightarrow> ContinuityRecord \<Rightarrow> SessionNoteInput \<Rightarrow> time \<Rightarrow> ContinuityRecord \<times> ContinuityNote" where
  "applySessionNoteToContinuityRecord dflt item0 input now =
     (let item = normalizeContinuityRecordAt dflt now item0;
          note = normalizeContinuityNoteAt now
                   \<lparr>cn_NoteID = '''', cn_Kind = ni_Kind input, cn_Text = ni_Text input, cn_Refs = elems (ni_Refs input),
                    cn_CreatedAt = now\<rparr>;
          item = item\<lparr>co_Status := ''active'', co_Source := ni_Source input,
                      co_Refs := normalizeObservationRefs (Some (co_Refs item @ cn_Refs note)),
                      co_Notes := co_Notes item @ [note], co_UpdatedAt := now, co_ResolvedAt := None,
                      co_NextSteps := (if cn_Kind note = ''todo''
                                       then normalizeSessionCheckpointList (Some (co_NextSteps item @ [cn_Text note]))
                                       else co_NextSteps item),
                      co_OpenRisks := (if cn_Kind note = ''risk''
                                       then normalizeSessionCheckpointList (Some (co_OpenRisks item @ [cn_Text note]))
                                       else co_OpenRisks item)\<rparr>
      in (normalizeContinuityRecordAt dflt now item, note))"

definition continuityMemoryProjection ::
  "string \<Rightarrow> time \<Rightarrow> SystemMemory \<Rightarrow> ContinuityRecord \<Rightarrow> string \<Rightarrow> SystemMemory" where
  "continuityMemoryProjection dflt now base0 item0 actor =
     (let base = normalizeContinuityMemoryBase base0 (co_UpdatedAt item0);
          item = normalizeContinuityRecordAt dflt now item0;
          resolved = ResolveActor dflt [actor]
      in base\<lparr>sm_CurrentFocus := co_CurrentFocus item, sm_CurrentGoal := co_CurrentGoal item,
              sm_NextSteps := Some (co_NextSteps item), sm_OpenRisks := Some (co_OpenRisks item),
              sm_HandoffNote := co_HandoffNote item,
              sm_LastOperator := (if resolved \<noteq> '''' then Some resolved else sm_LastOperator base),
              sm_UpdatedAt := co_UpdatedAt item\<rparr>)"

section \<open>The store\<close>

definition newContinuityStore :: "string \<Rightarrow> time \<Rightarrow> ContinuityRecord list \<Rightarrow> ContinuityRecord list" where
  "newContinuityStore dflt now items = normalizeContinuityRecordsAt dflt now items"

definition continuityStore_list :: "string \<Rightarrow> time \<Rightarrow> ContinuityRecord list \<Rightarrow> ContinuityRecord list" where
  "continuityStore_list dflt now items = normalizeContinuityRecordsAt dflt now items"

fun records_error :: "ContinuityRecord list \<Rightarrow> error option" where
  "records_error [] = None"
| "records_error (r # rs) = (case ContinuityRecord_Validate r of Some err \<Rightarrow> Some err | None \<Rightarrow> records_error rs)"

definition continuityStore_replace :: "string \<Rightarrow> time \<Rightarrow> ContinuityRecord list \<Rightarrow> error + ContinuityRecord list" where
  "continuityStore_replace dflt now items0 =
     (let items = normalizeContinuityRecordsAt dflt now items0
      in case records_error items of Some err \<Rightarrow> Inl err | None \<Rightarrow> Inr items)"

definition latestContinuityRecord ::
  "string \<Rightarrow> time \<Rightarrow> ContinuityRecord list \<Rightarrow> string \<Rightarrow> string \<Rightarrow> string list \<Rightarrow> ContinuityRecord option" where
  "latestContinuityRecord dflt now items actor0 source0 statuses =
     (let source = normalizeContinuitySource source0; actor = ResolveActor dflt [actor0];
          allowed = map (\<lambda>s. TrimSpace (ToLower s)) statuses
      in find (\<lambda>item. \<not> (actor \<noteq> '''' \<and> actor \<noteq> ''*'' \<and> co_Actor item \<noteq> actor) \<and>
                       \<not> (source \<noteq> '''' \<and> source \<noteq> ''*'' \<and> co_Source item \<noteq> source) \<and>
                       \<not> (allowed \<noteq> [] \<and> co_Status item \<notin> set allowed))
           (normalizeContinuityRecordsAt dflt now items))"

definition latestOpenContinuityRecord ::
  "string \<Rightarrow> clock \<Rightarrow> ContinuityRecord list \<Rightarrow> string \<Rightarrow> string \<Rightarrow> ContinuityRecord option" where
  "latestOpenContinuityRecord dflt ts items actor source =
     (case latestContinuityRecord dflt (ts 0) items actor source [''active''] of
        Some item \<Rightarrow> Some item
      | None \<Rightarrow> latestContinuityRecord dflt (ts 1) items actor source [''stale''])"

text \<open>The clock is read for the new record, for each record that is kept, and for the result.\<close>

definition upsertContinuityRecord ::
  "string \<Rightarrow> clock \<Rightarrow> ContinuityRecord list \<Rightarrow> ContinuityRecord \<Rightarrow> ContinuityRecord list" where
  "upsertContinuityRecord dflt ts items next0 =
     (let next = normalizeContinuityRecordAt dflt (ts 0) next0;
          out = map (\<lambda>(k, item). if co_RecordID item \<noteq> co_RecordID next then normalizeContinuityRecordAt dflt (ts (2 + k)) item
                                 else next)
                  (enumerate 0 items);
          out = (if list_ex (\<lambda>item. co_RecordID item = co_RecordID next) items then out else out @ [next])
      in normalizeContinuityRecordsAt dflt (ts 1) out)"

definition continuityRecordForCompatibility :: "string \<Rightarrow> clock \<Rightarrow> ContinuityRecord list \<Rightarrow> SessionCheckpoint option" where
  "continuityRecordForCompatibility dflt ts items =
     map_option (sessionCheckpointFromContinuityRecord dflt (ts 2)) (latestOpenContinuityRecord dflt ts items ''*'' ''*'')"

section \<open>The empty store\<close>

lemma continuity_empty [simp]:
  "normalizeContinuityRecordsAt dflt now [] = []" "continuityStore_list dflt now [] = []"
  "latestContinuityRecord dflt now [] actor source statuses = None"
  "latestOpenContinuityRecord dflt ts [] actor source = None" "continuityRecordForCompatibility dflt ts [] = None"
  by (simp_all add: normalizeContinuityRecordsAt_def continuityStore_list_def sortContinuityRecords_def stable_sort_by_def
      latestContinuityRecord_def latestOpenContinuityRecord_def continuityRecordForCompatibility_def Let_def)

end
