(* ===== verification/Observations.thy ===== *)
theory Observations
  imports Continuity
begin

text \<open>
  Observations (\<open>observation.go\<close>, \<open>service_observation.go\<close>, the channel names of \<open>observation_taxonomy.go\<close> and
  the validation of \<open>types_knowledge.go\<close>): the append-only registry, the normalisation of a record and the
  query that filters, sorts and limits it; and the observation a session note leaves.
\<close>

record ObservationRecord =
  ob_ObservationID :: string
  ob_SourceChannel :: string
  ob_CapturedAt :: time
  ob_Actor :: string
  ob_Topic :: string
  ob_Refs :: "string slice"
  ob_Confidence :: string
  ob_RawExcerpt :: string
  ob_NormalizedSummary :: string

record ObservationQuery =
  oq_SourceChannel :: string
  oq_Topic :: string
  oq_Actor :: string
  oq_Ref :: string
  oq_Text :: string
  oq_Limit :: int

definition validObservationConfidence :: "string \<Rightarrow> bool" where
  "validObservationConfidence value \<longleftrightarrow> TrimSpace value \<in> {''low'', ''medium'', ''high''}"

definition ObservationRecord_Validate :: "ObservationRecord \<Rightarrow> error option" where
  "ObservationRecord_Validate o' = first_error
     [(blank (ob_ObservationID o'), ''observation record observation_id is required''),
      (blank (ob_SourceChannel o'), ''observation record source_channel is required''),
      (IsZero (ob_CapturedAt o'), ''observation record captured_at is required''),
      (blank (ob_Actor o'), ''observation record actor is required''),
      (blank (ob_Topic o'), ''observation record topic is required''),
      (ob_Refs o' = None, ''observation record refs is required''),
      (\<not> validObservationConfidence (ob_Confidence o'), ''observation record confidence is invalid''),
      (blank (ob_RawExcerpt o'), ''observation record raw_excerpt is required''),
      (blank (ob_NormalizedSummary o'), ''observation record normalized_summary is required'')]"

definition observationStore_create :: "ObservationRecord list \<Rightarrow> ObservationRecord \<Rightarrow> error + ObservationRecord list" where
  [store_defs]: "observationStore_create items item = append_valid ObservationRecord_Validate items item"

interpretation observation_store: append_store ob_ObservationID ObservationRecord_Validate observationStore_create
  by unfold_locales (simp add: store_defs)

section \<open>Channels\<close>

definition canonicalObservationChannel :: "string \<Rightarrow> string" where
  "canonicalObservationChannel value0 =
     (let value = ToLower (TrimSpace value0)
      in if value = '''' then ''''
         else if value = ''tg'' then ''telegram''
         else if value \<in> {''ag'', ''antigravity-ide'', ''antigravity_ide''} then ''antigravity''
         else if value \<in> {''gem'', ''gemini'', ''gemini-cli'', ''gemini_cli''} then ''gemini''
         else if value \<in> {''crawl'', ''content-crawl'', ''content_crawl'', ''web-crawl'', ''web_crawl''} then ''crawler''
         else if value \<in> {''archive'', ''personal-archive'', ''personal_archive'', ''personal-db''} then ''personal_db''
         else if value \<in> {''notebook'', ''notebooklm'', ''notebook-lm'', ''notebook_lm''} then ''notebook_lm''
         else value)"

definition ObservationChannelFamily :: "string \<Rightarrow> string" where
  "ObservationChannelFamily channel =
     (let c = canonicalObservationChannel channel
      in if c \<in> {''antigravity'', ''gemini''} then ''agent_workspace''
         else if c = ''telegram'' then ''founder_inbox''
         else if c \<in> {''personal_db'', ''notebook_lm''} then ''founder_archive''
         else if c = ''crawler'' then ''external_content''
         else if c \<in> {''session'', ''agent_job''} then ''runtime''
         else if c \<in> {''terminal'', ''cockpit'', ''api''} then ''operator_surface''
         else ''external'')"

definition normalizeObservationChannel :: "string \<Rightarrow> string" where
  "normalizeObservationChannel value = canonicalObservationChannel value"

definition surfaceForObservationChannel :: "string \<Rightarrow> string" where
  "surfaceForObservationChannel channel =
     (let c = normalizeObservationChannel channel
      in if c = ''telegram'' then ''telegram'' else if c = ''cockpit'' then ''cockpit'' else ''api'')"

section \<open>Normalisation\<close>

definition normalizeObservationConfidence :: "string \<Rightarrow> string" where
  "normalizeObservationConfidence value0 =
     (let value = ToLower (TrimSpace value0) in if validObservationConfidence value then value else ''medium'')"

definition nextObservationID :: "time \<Rightarrow> string" where
  "nextObservationID now = ''observation_'' @ Itoa now"

definition normalizeObservationRecord :: "time \<Rightarrow> ObservationRecord \<Rightarrow> string \<Rightarrow> ObservationRecord" where
  "normalizeObservationRecord now item fallbackActor =
     (let actor = TrimSpace (ob_Actor item);
          raw = TrimSpace (ob_RawExcerpt item); summary = TrimSpace (ob_NormalizedSummary item);
          raw' = (if raw = '''' then summary else raw)
      in \<lparr>ob_ObservationID = (if blank (ob_ObservationID item) then nextObservationID now else ob_ObservationID item),
          ob_SourceChannel = normalizeObservationChannel (ob_SourceChannel item),
          ob_CapturedAt = (if IsZero (ob_CapturedAt item) then now else ob_CapturedAt item),
          ob_Actor = (if actor = '''' then TrimSpace fallbackActor else actor),
          ob_Topic = TrimSpace (ob_Topic item),
          ob_Refs = Some (normalizeObservationRefs (ob_Refs item)),
          ob_Confidence = normalizeObservationConfidence (ob_Confidence item),
          ob_RawExcerpt = raw',
          ob_NormalizedSummary = (if summary = '''' then raw' else summary)\<rparr>)"

section \<open>Queries\<close>

definition observationHasRef :: "ObservationRecord \<Rightarrow> string \<Rightarrow> bool" where
  "observationHasRef item ref = list_ex (\<lambda>c. TrimSpace c = ref) (elems (ob_Refs item))"

definition observationMatchesText :: "ObservationRecord \<Rightarrow> string \<Rightarrow> bool" where
  "observationMatchesText item txt \<longleftrightarrow>
     txt = '''' \<or>
     list_ex (\<lambda>f. contains_sub (ToLower f) txt)
       [ob_Topic item, ob_Actor item, ob_SourceChannel item, ob_RawExcerpt item, ob_NormalizedSummary item] \<or>
     list_ex (\<lambda>r. contains_sub (ToLower r) txt) (elems (ob_Refs item))"

definition observation_less :: "ObservationRecord \<Rightarrow> ObservationRecord \<Rightarrow> bool" where
  "observation_less a b =
     (if ob_CapturedAt a = ob_CapturedAt b then ob_ObservationID a > ob_ObservationID b
      else ob_CapturedAt a > ob_CapturedAt b)"

interpretation observation_order: weak_order observation_less
  by unfold_locales (auto simp: observation_less_def split: if_splits)

definition observation_selected :: "ObservationQuery \<Rightarrow> ObservationRecord \<Rightarrow> bool" where
  "observation_selected q item \<longleftrightarrow>
     (let channel = normalizeObservationChannel (oq_SourceChannel q);
          topic = ToLower (TrimSpace (oq_Topic q)); actor = ToLower (TrimSpace (oq_Actor q));
          ref = TrimSpace (oq_Ref q); txt = ToLower (TrimSpace (oq_Text q))
      in \<not> (channel \<noteq> '''' \<and> normalizeObservationChannel (ob_SourceChannel item) \<noteq> channel) \<and>
         \<not> (topic \<noteq> '''' \<and> \<not> contains_sub (ToLower (ob_Topic item)) topic) \<and>
         \<not> (actor \<noteq> '''' \<and> \<not> contains_sub (ToLower (ob_Actor item)) actor) \<and>
         \<not> (ref \<noteq> '''' \<and> \<not> observationHasRef item ref) \<and>
         \<not> (txt \<noteq> '''' \<and> \<not> observationMatchesText item txt))"

definition filterObservations :: "ObservationRecord list \<Rightarrow> ObservationQuery \<Rightarrow> ObservationRecord list" where
  "filterObservations items q =
     (let filtered = stable_sort_by observation_less (filter (observation_selected q) items)
      in if oq_Limit q > 0 \<and> int (length filtered) > oq_Limit q then take (nat (oq_Limit q)) filtered else filtered)"

text \<open>The answer of a query with what the limit cuts off behind it: all selected records, in the order of the
  sort, those of one instant and identifier in the order of the registry.\<close>

lemma filterObservations_order:
  defines "key \<equiv> \<lambda>x. (ob_CapturedAt x, ob_ObservationID x)"
  shows "\<exists>rest. mset (filterObservations items q @ rest) = mset (filter (observation_selected q) items) \<and>
     sorted_wrt (\<lambda>a b. \<not> observation_less b a) (filterObservations items q @ rest) \<and>
     (\<forall>k. filter (\<lambda>x. key x = k) (filterObservations items q @ rest) =
            filter (\<lambda>x. key x = k) (filter (observation_selected q) items)) \<and>
     length (filterObservations items q) =
       (if 0 < oq_Limit q then min (nat (oq_Limit q)) (length (filter (observation_selected q) items))
        else length (filter (observation_selected q) items))"
proof -
  let ?sel = "filter (observation_selected q) items" let ?all = "stable_sort_by observation_less ?sel"
  let ?n = "if 0 < oq_Limit q then nat (oq_Limit q) else length ?sel"
  have t: "filterObservations items q = take ?n ?all"
    by (cases "0 < oq_Limit q"; cases "oq_Limit q < int (length ?sel)") (simp_all add: filterObservations_def Let_def)
  then have all: "filterObservations items q @ drop ?n ?all = ?all" by simp
  have "filter (\<lambda>x. key x = k) ?all = filter (\<lambda>x. key x = k) ?sel" for k
  proof (rule observation_order.stable_sort_stable)
    fix a b assume "key a = k" "key b = k"
    then have "ob_CapturedAt a = ob_CapturedAt b" "ob_ObservationID a = ob_ObservationID b" by (simp_all add: key_def prod_eq_iff)
    then show "\<not> observation_less a b" by (simp add: observation_less_def)
  qed
  moreover have "length (filterObservations items q) = min ?n (length ?sel)" using t by simp
  ultimately show ?thesis
    using observation_order.sorted_stable_sort [of ?sel] by (intro exI [of _ "drop ?n ?all"]) (simp add: all)
qed

definition ObservationQuery_Validate :: "ObservationQuery \<Rightarrow> error option" where
  "ObservationQuery_Validate q = first_error [(oq_Limit q < 0, ''observation query limit must not be negative'')]"

section \<open>Observations of the runtime itself\<close>

definition continuityObservationForNote :: "string \<Rightarrow> time \<Rightarrow> ContinuityRecord \<Rightarrow> ContinuityNote \<Rightarrow> ObservationRecord" where
  "continuityObservationForNote dflt now item0 note0 =
     (let item = normalizeContinuityRecordAt dflt now item0;
          note = normalizeContinuityNoteAt (co_UpdatedAt item) note0;
          refs = [''continuity:'' @ co_RecordID item, ''continuity_note:'' @ cn_NoteID note] @ cn_Refs note;
          parts = [''kind='' @ cn_Kind note, ''focus='' @ co_CurrentFocus item, ''text='' @ cn_Text note] @
                  (if cn_Refs note \<noteq> [] then [''refs='' @ join_with ''; '' (cn_Refs note)] else [])
      in \<lparr>ob_ObservationID = '''', ob_SourceChannel = ''terminal'', ob_CapturedAt = cn_CreatedAt note, ob_Actor = co_Actor item,
          ob_Topic = ''continuity.note'', ob_Refs = Some (normalizeObservationRefs (Some refs)), ob_Confidence = ''high'',
          ob_RawExcerpt = join_with '' | '' parts,
          ob_NormalizedSummary = limitText (''Continuity '' @ cn_Kind note @ '': '' @ cn_Text note) 180\<rparr>)"

end
