(* ===== verification/Capitalization.thy ===== *)
theory Capitalization
  imports Continuity Event_Store
begin

text \<open>
  Capitalisation entries (\<open>capitalization.go\<close>): the record of a finished session that is kept as a file of
  the corpus, one file per entry, named by the entry.
\<close>

record CapitalizationFacet =
  cf_Summary :: string
  cf_Items :: "string list"

record CapitalizationEntry =
  ce_EntryID :: string
  ce_CreatedAt :: time
  ce_Actor :: string
  ce_SourceEventID :: string
  ce_SourceKind :: string
  ce_Situation :: CapitalizationFacet
  ce_Decision :: CapitalizationFacet
  ce_Cost :: CapitalizationFacet
  ce_Result :: CapitalizationFacet

definition limitStrings :: "string slice \<Rightarrow> nat \<Rightarrow> string list" where
  "limitStrings items mx =
     (case items of None \<Rightarrow> [] | Some xs \<Rightarrow> if mx = 0 \<or> length xs \<le> mx then xs else take mx xs)"

definition topReviewTexts :: "ReviewRoomItem list \<Rightarrow> nat \<Rightarrow> string list" where
  "topReviewTexts items mx = limitStrings (Some (map ri_Text items)) mx"

text \<open>\<open>v != nil && *v != ""\<close>: an optional text that is added when it is there.\<close>

definition some_text :: "string option \<Rightarrow> string list" where
  "some_text v = (case v of None \<Rightarrow> [] | Some x \<Rightarrow> if x \<noteq> '''' then [x] else [])"

definition newCapitalizationEntry :: "SessionFinishInput \<Rightarrow> EventEnvelope \<Rightarrow> ReviewRoomSummary \<Rightarrow> string \<Rightarrow> CapitalizationEntry" where
  "newCapitalizationEntry i event review actor =
     \<lparr>ce_EntryID = ''cap_'' @ ev_EventID event, ce_CreatedAt = ev_Timestamp event, ce_Actor = actor,
      ce_SourceEventID = ev_EventID event, ce_SourceKind = ev_Kind event,
      ce_Situation = \<lparr>cf_Summary = fi_CurrentFocus i, cf_Items = some_text (fi_CurrentGoal i) @ limitStrings (fi_OpenRisks i) 3\<rparr>,
      ce_Decision = \<lparr>cf_Summary = ''Session closed with explicit next steps'',
        cf_Items = limitStrings (fi_NextSteps i) 3 @ some_text (fi_HandoffNote i) @ some_text (fi_Note i)\<rparr>,
      ce_Cost = \<lparr>cf_Summary = ''Carry-over cost and queue pressure'',
        cf_Items = limitStrings (fi_OpenRisks i) 3 @
          (if rv_OpenCount review > 0 then [''review_open:'' @ Itoa (rv_OpenCount review)] else [])\<rparr>,
      ce_Result = \<lparr>cf_Summary = ''Memory updated and session evidence emitted'',
        cf_Items = [''event:'' @ ev_EventID event, ''actor:'' @ actor] @
          (if rv_OpenCount review > 0 then topReviewTexts (rv_TopOpen review) 1 else [])\<rparr>\<rparr>"

text \<open>
  The checks on the file name. The second literal is a raw string of two backslashes, so a single
  backslash passes.
\<close>

definition entry_id_error :: "string \<Rightarrow> error option" where
  "entry_id_error entryID = first_error
     [(entryID = '''', ''capitalization entry_id is required''),
      (contains_sub entryID ''/'' \<or> contains_sub entryID [CHR 0x5C, CHR 0x5C] \<or> contains_sub entryID ''..'',
       ''capitalization entry_id must not contain path traversal segments'')]"

end
