(* ===== verification/Persist.thy ===== *)
theory Persist
  imports Event_Store Policy Observations Capitalization
begin

text \<open>
  The service's state and its persistence (\<open>service.go\<close>, \<open>disk.go\<close>, \<open>disk_auth.go\<close>, \<open>disk_events.go\<close>):
  one in-memory store per domain, a signature of what was last written per domain, the writer
  lease, and \<open>persistLocked\<close>, which writes the domains whose signature changed, one file after the
  other in the order of \<open>persistDomains\<close>. A file write is atomic (temporary file and rename): it
  fails and leaves the old file, or replaces it. Everything the operating system decides is in
  the \<open>env\<close> of a call: clock readings, environment variables, which writes fail. JSON encoding is the
  function \<open>en_marshal\<close>; nothing but its being a function is used. The \<open>current\<close> method of the review-room
  store normalises the room again, which leaves a stored room as it is (\<open>copyReviewRoom_normal\<close>), so
  readers take the stored room. The continuity store normalises against the clock on every read, so
  the snapshot of a save holds the records as they are at that instant; the file is normalised once
  more, and the session checkpoint of the latest open record is written beside it.
\<close>

record WriteLease =
  wl_Owner :: string
  wl_PID :: int
  wl_AcquiredAt :: "time option"
  wl_UpdatedAt :: "time option"
  wl_Status :: string

section \<open>Domains and their values\<close>

datatype domain =
    D_branch | D_proposal | D_agentJob | D_observation | D_continuity | D_work | D_flow | D_approval
  | D_event | D_release | D_deploy | D_rollback | D_target | D_preflight | D_policy | D_gateway
  | D_execute | D_verify | D_reviewRoom | D_memory | D_auth | D_state

datatype dval =
    V_branch "Branch list" | V_proposal "ProposalItem list" | V_agentJob "AgentJob list"
  | V_observation "ObservationRecord list" | V_continuity "ContinuityRecord list"
  | V_work "WorkItem list" | V_flow "FlowRun list" | V_approval "ApprovalItem list"
  | V_event "EventEnvelope list" | V_release "ReleasePacket list" | V_deploy "DeployRun list"
  | V_rollback "RollbackRun list" | V_target "DeployTarget list" | V_preflight "PreflightRecord list"
  | V_policy "PolicyDecision list" | V_gateway "GatewayCall list" | V_execute "ExecuteRun list"
  | V_verify "VerificationRecord list" | V_reviewRoom ReviewRoom | V_memory SystemMemory
  | V_auth string "(string \<times> string) list option" "time option" | V_state CompanyState

definition persistDomains :: "domain list" where
  "persistDomains =
     [D_branch, D_proposal, D_agentJob, D_observation, D_continuity, D_work, D_flow, D_approval, D_event,
      D_release, D_deploy, D_rollback, D_target, D_preflight, D_policy, D_gateway, D_execute, D_verify,
      D_reviewRoom, D_memory, D_auth, D_state]"

lemma persistDomains_all: "d \<in> set persistDomains"
  by (cases d) (simp_all add: persistDomains_def)

lemma persistDomains_distinct: "distinct persistDomains"
  by (simp add: persistDomains_def)

datatype lease_file = NoLease | Lease WriteLease | TornLease

record diskStore =
  dk_file :: "domain \<Rightarrow> dval"
  dk_archive :: "EventEnvelope list"
  dk_seal :: "reviewRoomSeal option"
  dk_checkpoint :: "SessionCheckpoint option"
  dk_entries :: "(string \<times> CapitalizationEntry) list"
  dk_lease :: lease_file

record Service =
  sv_dirty :: "domain \<Rightarrow> bool"
  sv_persisted :: "domain \<Rightarrow> string"
  sv_actorOverride :: string
  sv_state :: CompanyState
  sv_branch :: "Branch list"
  sv_proposal :: "ProposalItem list"
  sv_agentJob :: "AgentJob list"
  sv_observation :: "ObservationRecord list"
  sv_continuity :: "ContinuityRecord list"
  sv_work :: "WorkItem list"
  sv_flow :: "FlowRun list"
  sv_approval :: "ApprovalItem list"
  sv_event :: eventStore
  sv_release :: "ReleasePacket list"
  sv_deploy :: "DeployRun list"
  sv_rollback :: "RollbackRun list"
  sv_target :: "DeployTarget list"
  sv_preflight :: "PreflightRecord list"
  sv_policy :: "PolicyDecision list"
  sv_gateway :: "GatewayCall list"
  sv_execute :: "ExecuteRun list"
  sv_verify :: "VerificationRecord list"
  sv_reviewRoom :: ReviewRoom
  sv_memory :: SystemMemory
  sv_auth :: authStore
  sv_disk :: diskStore

record env =
  en_ACTOR :: string
  en_WRITER_ID :: string
  en_DEFAULT_ACTOR :: string
  en_EVENT_RETENTION :: string
  en_MODELS :: string
  en_MODEL :: string
  en_clock :: clock
  en_fmt :: "time \<Rightarrow> string"
  en_isWord :: "nat \<Rightarrow> bool"
  en_auditPromotion :: bool
  en_auditItems :: "ReviewRoomItem list"
  en_roomHash :: "ReviewRoom \<Rightarrow> string"
  en_marshal :: "dval \<Rightarrow> error + string"
  en_pid :: int
  en_alive :: "int \<Rightarrow> bool"
  en_leaseOpen :: "error option"
  en_leaseRead :: "error option"
  en_leaseWrite :: "error option"
  en_badJSON :: error
  en_write :: "domain \<Rightarrow> error option"
  en_archive :: "(error \<times> nat) option"
  en_checkpoint :: "error option"
  en_corpusDir :: "error option"
  en_corpusWrite :: "error option"
  en_seal :: "error option"

text \<open>Clock readings of the persistence layer; operations use the readings below 100.\<close>

definition now_audit :: "env \<Rightarrow> time" where "now_audit e = en_clock e 100"
definition now_seal :: "env \<Rightarrow> time" where "now_seal e = en_clock e 101"
definition now_lease :: "env \<Rightarrow> time" where "now_lease e = en_clock e 102"
definition now_store :: "env \<Rightarrow> time" where "now_store e = en_clock e 103"
definition now_list :: "env \<Rightarrow> time" where "now_list e = en_clock e 104"
definition now_save :: "env \<Rightarrow> time" where "now_save e = en_clock e 105"
definition now_checkpoint :: "env \<Rightarrow> clock" where "now_checkpoint e i = en_clock e (106 + i)"

section \<open>The writer lease\<close>

definition processAlive :: "env \<Rightarrow> int \<Rightarrow> bool" where
  "processAlive e pid = (if pid \<le> 0 then False else en_alive e pid)"

definition lease_owner :: "env \<Rightarrow> string" where
  "lease_owner e = (let owner = TrimSpace (en_WRITER_ID e) in if owner = '''' then ''layer-osctl'' else owner)"

definition ensureWriterLease :: "env \<Rightarrow> lease_file \<Rightarrow> error option \<times> lease_file" where
  "ensureWriterLease e file =
     (let owner = lease_owner e;
          current = \<lparr>wl_Owner = owner, wl_PID = en_pid e, wl_AcquiredAt = Some (now_lease e),
                     wl_UpdatedAt = Some (now_lease e), wl_Status = ''active''\<rparr>
      in case en_leaseOpen e of Some err \<Rightarrow> (Some err, file) | None \<Rightarrow>
         (case file of
            NoLease \<Rightarrow>
              (case en_leaseWrite e of
                 Some err \<Rightarrow> (Some err, TornLease)
               | None \<Rightarrow> (None, Lease current))
          | TornLease \<Rightarrow> (Some (case en_leaseRead e of Some err \<Rightarrow> err | None \<Rightarrow> en_badJSON e), TornLease)
          | Lease existing \<Rightarrow>
              (case en_leaseRead e of Some err \<Rightarrow> (Some err, file) | None \<Rightarrow>
                 if wl_Owner existing = owner
                 then (case en_leaseWrite e of
                         Some err \<Rightarrow> (Some err, file)
                       | None \<Rightarrow> (None, Lease (current\<lparr>wl_AcquiredAt := wl_AcquiredAt existing\<rparr>)))
                 else if \<not> processAlive e (wl_PID existing)
                 then (case en_leaseWrite e of
                         Some err \<Rightarrow> (Some err, file)
                       | None \<Rightarrow> (None, Lease current))
                 else (Some (''write lease held by '' @ wl_Owner existing), file))))"

definition currentLease :: "lease_file \<Rightarrow> env \<Rightarrow> WriteLease" where
  "currentLease file e =
     (let none = \<lparr>wl_Owner = '''', wl_PID = 0, wl_AcquiredAt = None, wl_UpdatedAt = None, wl_Status = ''none''\<rparr>
      in case file of
           Lease lease \<Rightarrow>
             if en_leaseRead e \<noteq> None then none
             else let status = (if wl_Owner lease = '''' then ''none'' else wl_Status lease)
                  in lease\<lparr>wl_Status := (if status = '''' then ''active'' else status)\<rparr>
         | _ \<Rightarrow> none)"

section \<open>Snapshots and dirty flags\<close>

primrec snapshotValue :: "Service \<Rightarrow> domain \<Rightarrow> dval" where
  "snapshotValue s D_branch = V_branch (sv_branch s)"
| "snapshotValue s D_proposal = V_proposal (sv_proposal s)"
| "snapshotValue s D_agentJob = V_agentJob (sv_agentJob s)"
| "snapshotValue s D_observation = V_observation (sv_observation s)"
| "snapshotValue s D_continuity = V_continuity (sv_continuity s)"
| "snapshotValue s D_work = V_work (sv_work s)"
| "snapshotValue s D_flow = V_flow (sv_flow s)"
| "snapshotValue s D_approval = V_approval (sv_approval s)"
| "snapshotValue s D_event = V_event (es_items (sv_event s))"
| "snapshotValue s D_release = V_release (sv_release s)"
| "snapshotValue s D_deploy = V_deploy (sv_deploy s)"
| "snapshotValue s D_rollback = V_rollback (sv_rollback s)"
| "snapshotValue s D_target = V_target (sv_target s)"
| "snapshotValue s D_preflight = V_preflight (sv_preflight s)"
| "snapshotValue s D_policy = V_policy (sv_policy s)"
| "snapshotValue s D_gateway = V_gateway (sv_gateway s)"
| "snapshotValue s D_execute = V_execute (sv_execute s)"
| "snapshotValue s D_verify = V_verify (sv_verify s)"
| "snapshotValue s D_reviewRoom = V_reviewRoom (sv_reviewRoom s)"
| "snapshotValue s D_memory = V_memory (sv_memory s)"
| "snapshotValue s D_auth =
     V_auth (ac_WriteTokenHash (au_config (sv_auth s)))
       (map_option (\<lambda>_. scoped_hashes (au_maps (sv_auth s)) (au_config (sv_auth s)))
          (ac_ScopedTokenHashes (au_config (sv_auth s))))
       (ac_UpdatedAt (au_config (sv_auth s)))"
| "snapshotValue s D_state = V_state (sv_state s)"

text \<open>\<open>populatePersistSignatures\<close>: one signature per domain, or the first encoding error.\<close>

fun marshal_error :: "env \<Rightarrow> Service \<Rightarrow> domain list \<Rightarrow> error option" where
  "marshal_error e s [] = None"
| "marshal_error e s (d # ds) =
     (case en_marshal e (snapshotValue s d) of Inl err \<Rightarrow> Some err | Inr _ \<Rightarrow> marshal_error e s ds)"

definition signatureFor :: "env \<Rightarrow> Service \<Rightarrow> domain \<Rightarrow> string" where
  "signatureFor e s d = (case en_marshal e (snapshotValue s d) of Inl _ \<Rightarrow> '''' | Inr sig \<Rightarrow> sig)"

definition domain_dirty :: "env \<Rightarrow> Service \<Rightarrow> domain \<Rightarrow> bool" where
  "domain_dirty e s d \<longleftrightarrow>
     (d = D_event \<and> es_pendingArchive (sv_event s) \<noteq> []) \<or> signatureFor e s d \<noteq> sv_persisted s d"

text \<open>What is saved: the service with the continuity records as their \<open>list\<close> gives them now.\<close>

definition currentPersistSnapshot :: "env \<Rightarrow> Service \<Rightarrow> Service" where
  "currentPersistSnapshot e s =
     s\<lparr>sv_continuity := continuityStore_list (en_DEFAULT_ACTOR e) (now_list e) (sv_continuity s)\<rparr>"

definition syncDirtyLocked :: "env \<Rightarrow> Service \<Rightarrow> Service \<Rightarrow> Service" where
  "syncDirtyLocked e snap s = s\<lparr>sv_dirty := domain_dirty e snap\<rparr>"

definition dirty_any :: "(domain \<Rightarrow> bool) \<Rightarrow> bool" where
  "dirty_any dirty = list_ex dirty persistDomains"

section \<open>Saving\<close>

definition write_file :: "domain \<Rightarrow> dval \<Rightarrow> Service \<Rightarrow> Service" where
  "write_file d v s = s\<lparr>sv_disk := (sv_disk s)\<lparr>dk_file := (dk_file (sv_disk s))(d := v)\<rparr>\<rparr>"

definition appendEventArchive :: "env \<Rightarrow> EventEnvelope list \<Rightarrow> Service \<Rightarrow> error option \<times> Service" where
  "appendEventArchive e items s =
     (if items = [] then (None, s) else
      case en_archive e of
        None \<Rightarrow> (None, s\<lparr>sv_disk := (sv_disk s)\<lparr>dk_archive := dk_archive (sv_disk s) @ items\<rparr>\<rparr>)
      | Some (err, k) \<Rightarrow>
          (Some err, s\<lparr>sv_disk := (sv_disk s)\<lparr>dk_archive := dk_archive (sv_disk s) @ take k items\<rparr>\<rparr>))"

text \<open>A capitalisation entry is a file of the corpus named by the entry; writing it replaces that file.\<close>

definition appendCapitalizationEntry :: "env \<Rightarrow> CapitalizationEntry \<Rightarrow> Service \<Rightarrow> error option \<times> Service" where
  "appendCapitalizationEntry e item s =
     (case en_corpusDir e of Some err \<Rightarrow> (Some err, s) | None \<Rightarrow>
      let entryID = TrimSpace (ce_EntryID item) in
      case entry_id_error entryID of Some err \<Rightarrow> (Some err, s) | None \<Rightarrow>
      case en_corpusWrite e of Some err \<Rightarrow> (Some err, s) | None \<Rightarrow>
      (None, s\<lparr>sv_disk := (sv_disk s)\<lparr>dk_entries := AList.update entryID item (dk_entries (sv_disk s))\<rparr>\<rparr>))"

definition save_checkpoint :: "env \<Rightarrow> SessionCheckpoint option \<Rightarrow> Service \<Rightarrow> error option \<times> Service" where
  "save_checkpoint e checkpoint s =
     (case checkpoint of
        None \<Rightarrow>
          (case en_checkpoint e of
             Some err \<Rightarrow> (Some err, s)
           | None \<Rightarrow> (None, s\<lparr>sv_disk := (sv_disk s)\<lparr>dk_checkpoint := None\<rparr>\<rparr>))
      | Some c \<Rightarrow>
          let item = normalizeSessionCheckpoint (en_DEFAULT_ACTOR e) c
          in case SessionCheckpoint_Validate item of
               Some err \<Rightarrow> (Some err, s)
             | None \<Rightarrow>
                 (case en_checkpoint e of
                    Some err \<Rightarrow> (Some err, s)
                  | None \<Rightarrow> (None, s\<lparr>sv_disk := (sv_disk s)\<lparr>dk_checkpoint := Some item\<rparr>\<rparr>)))"

definition save_domain :: "env \<Rightarrow> Service \<Rightarrow> domain \<Rightarrow> Service \<Rightarrow> error option \<times> Service" where
  "save_domain e snap d s =
     (if d = D_event then
        (case appendEventArchive e (es_pendingArchive (sv_event snap)) s of
           (Some err, s1) \<Rightarrow> (Some err, s1)
         | (None, s1) \<Rightarrow>
             (case en_write e D_event of
                Some err \<Rightarrow> (Some err, s1)
              | None \<Rightarrow> (let s2 = write_file D_event (snapshotValue snap D_event) s1
                         in (None, s2\<lparr>sv_event := markArchivePersisted (sv_event s2)\<rparr>))))
      else if d = D_continuity then
        (case en_write e d of Some err \<Rightarrow> (Some err, s)
         | None \<Rightarrow>
             save_checkpoint e
               (continuityRecordForCompatibility (en_DEFAULT_ACTOR e) (now_checkpoint e) (sv_continuity snap))
               (write_file d (V_continuity (normalizeContinuityRecordsAt (en_DEFAULT_ACTOR e) (now_save e) (sv_continuity snap))) s))
      else if d = D_reviewRoom then
        (case en_write e d of Some err \<Rightarrow> (Some err, s)
         | None \<Rightarrow>
             (let s1 = write_file d (V_reviewRoom (normalizeReviewRoom (now_seal e) (sv_reviewRoom snap))) s
              in case en_seal e of
                   Some err \<Rightarrow> (Some err, s1)
                 | None \<Rightarrow> (None, s1\<lparr>sv_disk := (sv_disk s1)\<lparr>dk_seal :=
                             Some (computeReviewRoomSeal (en_roomHash e) (now_seal e) (sv_reviewRoom snap))\<rparr>\<rparr>)))
      else
        (case en_write e d of Some err \<Rightarrow> (Some err, s) | None \<Rightarrow> (None, write_file d (snapshotValue snap d) s)))"

fun save_domains :: "env \<Rightarrow> Service \<Rightarrow> (domain \<Rightarrow> bool) \<Rightarrow> domain list \<Rightarrow> Service \<Rightarrow> error option \<times> Service" where
  "save_domains e snap dirty [] s = (None, s)"
| "save_domains e snap dirty (d # ds) s =
     (if \<not> dirty d then save_domains e snap dirty ds s
      else case save_domain e snap d s of
             (Some err, s1) \<Rightarrow> (Some err, s1)
           | (None, s1) \<Rightarrow> save_domains e snap dirty ds s1)"

definition persistLocked :: "env \<Rightarrow> Service \<Rightarrow> error option \<times> Service" where
  "persistLocked e s =
     (case ensureWriterLease e (dk_lease (sv_disk s)) of
        (Some err, file) \<Rightarrow> (Some err, s\<lparr>sv_disk := (sv_disk s)\<lparr>dk_lease := file\<rparr>\<rparr>)
      | (None, file) \<Rightarrow>
          (let s1 = s\<lparr>sv_disk := (sv_disk s)\<lparr>dk_lease := file\<rparr>\<rparr>;
               (room, changed) = syncAuditReviewRoom (en_isWord e) (now_audit e) (en_auditPromotion e)
                                   (en_auditItems e) (sv_reviewRoom s1);
               s2 = (if changed then s1\<lparr>sv_reviewRoom := newReviewRoomStore (now_store e) room\<rparr> else s1)
           in let snap = currentPersistSnapshot e s2
              in case marshal_error e snap persistDomains of
                   Some err \<Rightarrow> (Some err, s2)
                 | None \<Rightarrow>
                     (let s3 = syncDirtyLocked e snap s2 in
                      if \<not> dirty_any (sv_dirty s3) then (None, s3)
                      else case save_domains e snap (sv_dirty s3) persistDomains s3 of
                             (Some err, s4) \<Rightarrow> (Some err, s4)
                           | (None, s4) \<Rightarrow>
                               (None, s4\<lparr>sv_persisted := signatureFor e snap, sv_dirty := (\<lambda>_. False)\<rparr>))))"

end
