(* ===== verification/Persist_Props.thy ===== *)
theory Persist_Props
  imports Persist
begin

text \<open>
  What \<open>persistLocked\<close> keeps and what it writes. \<open>core\<close> is the part of the service that persistence
  never touches; the event store is at most marked as archived, the review room is at most
  synchronised with the audits, and the files written are those of the dirty domains.
\<close>

section \<open>Frame\<close>

definition no_disk :: diskStore where
  "no_disk = \<lparr>dk_file = (\<lambda>_. V_work []), dk_archive = [], dk_seal = None, dk_checkpoint = None, dk_entries = [], dk_lease = NoLease\<rparr>"

definition no_events :: eventStore where
  "no_events = \<lparr>es_items = [], es_pendingArchive = [], es_archivedCount = 0, es_limit = 0\<rparr>"

definition core :: "Service \<Rightarrow> Service" where
  "core s = s\<lparr>sv_dirty := \<lambda>_. False, sv_persisted := \<lambda>_. [], sv_disk := no_disk, sv_event := no_events,
              sv_reviewRoom := defaultReviewRoom ''''\<rparr>"

lemma core_updates [simp]:
  "core (s\<lparr>sv_dirty := x1\<rparr>) = core s" "core (s\<lparr>sv_persisted := x2\<rparr>) = core s"
  "core (s\<lparr>sv_disk := x3\<rparr>) = core s" "core (s\<lparr>sv_event := x4\<rparr>) = core s"
  "core (s\<lparr>sv_reviewRoom := x5\<rparr>) = core s"
  by (simp_all add: core_def)

lemma core_eqD:
  assumes "core s = core t"
  shows "sv_actorOverride s = sv_actorOverride t" "sv_state s = sv_state t" "sv_branch s = sv_branch t"
    "sv_proposal s = sv_proposal t" "sv_agentJob s = sv_agentJob t" "sv_observation s = sv_observation t"
    "sv_continuity s = sv_continuity t" "sv_work s = sv_work t" "sv_flow s = sv_flow t"
    "sv_approval s = sv_approval t" "sv_release s = sv_release t" "sv_deploy s = sv_deploy t"
    "sv_rollback s = sv_rollback t" "sv_target s = sv_target t" "sv_preflight s = sv_preflight t"
    "sv_policy s = sv_policy t" "sv_gateway s = sv_gateway t" "sv_execute s = sv_execute t"
    "sv_verify s = sv_verify t" "sv_memory s = sv_memory t" "sv_auth s = sv_auth t"
  using assms by (cases s; cases t; simp add: core_def)+

definition saved_value :: "env \<Rightarrow> Service \<Rightarrow> domain \<Rightarrow> dval" where
  "saved_value e snap d =
     (if d = D_reviewRoom then V_reviewRoom (normalizeReviewRoom (now_seal e) (sv_reviewRoom snap))
      else if d = D_continuity
      then V_continuity (normalizeContinuityRecordsAt (en_DEFAULT_ACTOR e) (now_save e) (sv_continuity snap))
      else snapshotValue snap d)"

text \<open>No continuity record turns stale between the snapshot and the write of its file.\<close>

definition steady :: "env \<Rightarrow> Service \<Rightarrow> bool" where
  "steady e s \<longleftrightarrow>
     normalizeContinuityRecordsAt (en_DEFAULT_ACTOR e) (now_save e) (sv_continuity (currentPersistSnapshot e s)) =
     sv_continuity (currentPersistSnapshot e s)"

lemma snapshot_simps [simp]:
  "sv_event (currentPersistSnapshot e s) = sv_event s" "sv_reviewRoom (currentPersistSnapshot e s) = sv_reviewRoom s"
  "sv_persisted (currentPersistSnapshot e s) = sv_persisted s" "sv_disk (currentPersistSnapshot e s) = sv_disk s"
  by (simp_all add: currentPersistSnapshot_def)

lemma snapshotValue_snapshot:
  "d \<noteq> D_continuity \<Longrightarrow> snapshotValue (currentPersistSnapshot e s) d = snapshotValue s d"
  by (cases d) (simp_all add: currentPersistSnapshot_def)

lemma saved_value_normal:
  assumes "room_normal (sv_reviewRoom s)" "steady e s"
  shows "saved_value e (currentPersistSnapshot e s) d = snapshotValue (currentPersistSnapshot e s) d"
  using assms by (simp add: saved_value_def normalizeReviewRoom_normal steady_def)

lemma save_checkpoint_frame:
  assumes "save_checkpoint e c s = (r, s')"
  shows "core s' = core s" "sv_reviewRoom s' = sv_reviewRoom s" "sv_persisted s' = sv_persisted s"
    "dk_lease (sv_disk s') = dk_lease (sv_disk s)" "sv_event s' = sv_event s"
    "dk_archive (sv_disk s') = dk_archive (sv_disk s)" "dk_file (sv_disk s') = dk_file (sv_disk s)"
  using assms by (auto simp: save_checkpoint_def Let_def split: option.splits)

lemma write_file_simps [simp]:
  "core (write_file d v s) = core s" "sv_event (write_file d v s) = sv_event s"
  "sv_reviewRoom (write_file d v s) = sv_reviewRoom s" "sv_persisted (write_file d v s) = sv_persisted s"
  "dk_file (sv_disk (write_file d v s)) = (dk_file (sv_disk s))(d := v)"
  "dk_archive (sv_disk (write_file d v s)) = dk_archive (sv_disk s)"
  "dk_lease (sv_disk (write_file d v s)) = dk_lease (sv_disk s)"
  by (simp_all add: write_file_def)

text \<open>One save: the frame, and what a success writes.\<close>

lemma save_domain_frame:
  assumes "save_domain e snap d s = (r, s')"
  shows "core s' = core s" "sv_reviewRoom s' = sv_reviewRoom s" "sv_persisted s' = sv_persisted s"
    "dk_lease (sv_disk s') = dk_lease (sv_disk s)"
    "sv_event s' = (if d = D_event \<and> r = None then markArchivePersisted (sv_event s) else sv_event s)"
    "d \<noteq> D_event \<Longrightarrow> dk_archive (sv_disk s') = dk_archive (sv_disk s)"
    "dk_file (sv_disk s') d' = dk_file (sv_disk s) d' \<or> (d' = d \<and> dk_file (sv_disk s') d' = saved_value e snap d)"
  using assms
  by (auto simp: save_domain_def appendEventArchive_def saved_value_def Let_def
      split: if_splits option.splits prod.splits dest: save_checkpoint_frame)

lemma save_domain_ok:
  assumes "save_domain e snap d s = (None, s')"
  shows "dk_file (sv_disk s') = (dk_file (sv_disk s))(d := saved_value e snap d)"
    and "dk_archive (sv_disk s') =
      dk_archive (sv_disk s) @ (if d = D_event then es_pendingArchive (sv_event snap) else [])"
  using assms
  by (auto simp: save_domain_def appendEventArchive_def saved_value_def Let_def
      split: if_splits option.splits prod.splits dest: save_checkpoint_frame)

lemma save_domains_frame:
  assumes "save_domains e snap dirty ds s = (r, s')"
  shows "core s' = core s \<and> sv_reviewRoom s' = sv_reviewRoom s \<and> sv_persisted s' = sv_persisted s \<and>
    dk_lease (sv_disk s') = dk_lease (sv_disk s)"
  using assms
proof (induction ds arbitrary: s)
  case (Cons d ds)
  then show ?case
    using save_domain_frame(1-4) [of e snap d s]
    by (auto split: if_splits prod.splits option.splits)
qed simp

lemma save_domains_files:
  assumes "save_domains e snap dirty ds s = (r, s')"
  shows "dk_file (sv_disk s') d' = dk_file (sv_disk s) d' \<or>
    (dirty d' \<and> d' \<in> set ds \<and> dk_file (sv_disk s') d' = saved_value e snap d')"
  using assms
proof (induction ds arbitrary: s)
  case (Cons d ds)
  show ?case
  proof (cases "dirty d")
    case False
    then show ?thesis using Cons by auto
  next
    case True
    obtain r1 s1 where sd: "save_domain e snap d s = (r1, s1)" by fastforce
    note one = save_domain_frame(7) [OF sd, of d']
    show ?thesis
    proof (cases r1)
      case None
      then have "save_domains e snap dirty ds s1 = (r, s')" using Cons.prems True sd by simp
      from Cons.IH [OF this] one True show ?thesis by auto
    next
      case (Some err)
      then show ?thesis using Cons.prems True sd one by auto
    qed
  qed
qed simp

lemma save_domains_event:
  assumes "save_domains e snap dirty ds s = (r, s')" "distinct ds"
  shows "sv_event s' = sv_event s \<or> sv_event s' = markArchivePersisted (sv_event s)"
    and "D_event \<notin> set ds \<Longrightarrow> sv_event s' = sv_event s"
  using assms
proof (induction ds arbitrary: s)
  case (Cons d ds)
  {
    case 1
    then show ?case using Cons.IH save_domain_frame(5) [of e snap d s]
      by (cases "d = D_event") (fastforce split: if_splits prod.splits option.splits)+
  next
    case 2
    then show ?case using Cons.IH save_domain_frame(5) [of e snap d s]
      by (fastforce split: if_splits prod.splits option.splits)
  }
qed simp_all

lemma save_domains_ok_step:
  assumes "save_domains e snap dirty (d # ds) s = (None, s')"
  shows "\<exists>s1. save_domains e snap dirty ds s1 = (None, s') \<and>
    dk_file (sv_disk s1) = (if dirty d then (dk_file (sv_disk s))(d := saved_value e snap d) else dk_file (sv_disk s)) \<and>
    dk_archive (sv_disk s1) =
      dk_archive (sv_disk s) @ (if dirty d \<and> d = D_event then es_pendingArchive (sv_event snap) else []) \<and>
    sv_event s1 = (if dirty d \<and> d = D_event then markArchivePersisted (sv_event s) else sv_event s)"
proof (cases "dirty d")
  case False
  then show ?thesis using assms by (intro exI [of _ s]) simp
next
  case True
  then obtain s1 where s1: "save_domain e snap d s = (None, s1)" "save_domains e snap dirty ds s1 = (None, s')"
    using assms by (auto split: prod.splits option.splits)
  show ?thesis
    using s1(2) save_domain_ok [OF s1(1)] save_domain_frame(5) [OF s1(1)] True
    by (intro exI [of _ s1]) simp
qed

lemma save_domains_ok:
  assumes "save_domains e snap dirty ds s = (None, s')" "distinct ds"
  shows "(\<forall>d'. dk_file (sv_disk s') d' =
      (if dirty d' \<and> d' \<in> set ds then saved_value e snap d' else dk_file (sv_disk s) d')) \<and>
    dk_archive (sv_disk s') = dk_archive (sv_disk s) @
      (if dirty D_event \<and> D_event \<in> set ds then es_pendingArchive (sv_event snap) else []) \<and>
    sv_event s' = (if dirty D_event \<and> D_event \<in> set ds then markArchivePersisted (sv_event s) else sv_event s)"
  using assms
proof (induction ds arbitrary: s)
  case (Cons d ds)
  from save_domains_ok_step [OF Cons.prems(1)] obtain s1 where
    s1: "save_domains e snap dirty ds s1 = (None, s')"
      "dk_file (sv_disk s1) = (if dirty d then (dk_file (sv_disk s))(d := saved_value e snap d) else dk_file (sv_disk s))"
      "dk_archive (sv_disk s1) =
        dk_archive (sv_disk s) @ (if dirty d \<and> d = D_event then es_pendingArchive (sv_event snap) else [])"
      "sv_event s1 = (if dirty d \<and> d = D_event then markArchivePersisted (sv_event s) else sv_event s)" by blast
  from Cons.IH [OF s1(1)] Cons.prems(2) show ?case by (auto simp: s1(2-4))
qed simp

section \<open>The audit synchronisation keeps the room well formed\<close>

lemma room_inv_filterManaged:
  assumes "room_inv r"
  shows "room_inv (r\<lparr>rm_Accepted := filterManagedAuditItems (rm_Accepted r),
                    rm_Open := filterManagedAuditItems (rm_Open r),
                    rm_Deferred := filterManagedAuditItems (rm_Deferred r)\<rparr>)"
  using assms
  by (simp add: room_inv_def room_normal_def room_items_def filterManagedAuditItems_def list_all_iff
      distinct_map_filter inj_on_def) blast

lemma room_inv_ensure_all:
  assumes "\<not> IsZero now" "room_inv r"
  shows "room_inv (ensure_all wr now r items)"
  using assms(2)
proof (induction items arbitrary: r)
  case (Cons i items)
  then show ?case
    using ensureReviewRoomItem_spec(2) [OF Cons.prems assms(1)]
    by (auto split: sum.splits prod.splits)
qed simp

lemma syncAudit_inv:
  assumes "\<not> IsZero now" "room_inv r"
  shows "room_inv (fst (syncAuditReviewRoom wr now en items r))"
proof -
  have c: "copyReviewRoom now r = r" using assms(2) by (simp add: copyReviewRoom_normal room_inv_normal)
  let ?f = "r\<lparr>rm_Accepted := filterManagedAuditItems (rm_Accepted r),
              rm_Open := filterManagedAuditItems (rm_Open r),
              rm_Deferred := filterManagedAuditItems (rm_Deferred r)\<rparr>"
  have e: "room_inv (ensure_all wr now ?f items)"
    by (rule room_inv_ensure_all [OF assms(1) room_inv_filterManaged [OF assms(2)]])
  then have "normalizeReviewRoom now (ensure_all wr now ?f items) = ensure_all wr now ?f items"
    by (simp add: normalizeReviewRoom_normal room_inv_normal)
  then show ?thesis using e assms(2) by (simp add: syncAuditReviewRoom_def c Let_def)
qed

section \<open>persistLocked\<close>

text \<open>The service after the lease and the audit synchronisation, which is what is saved.\<close>

definition synced :: "env \<Rightarrow> Service \<Rightarrow> Service" where
  "synced e s =
     (let s1 = s\<lparr>sv_disk := (sv_disk s)\<lparr>dk_lease := snd (ensureWriterLease e (dk_lease (sv_disk s)))\<rparr>\<rparr>;
          (room, changed) = syncAuditReviewRoom (en_isWord e) (now_audit e) (en_auditPromotion e)
                              (en_auditItems e) (sv_reviewRoom s1)
      in if changed then s1\<lparr>sv_reviewRoom := newReviewRoomStore (now_store e) room\<rparr> else s1)"

lemma synced_simps [simp]:
  "core (synced e s) = core s" "sv_event (synced e s) = sv_event s"
  "sv_persisted (synced e s) = sv_persisted s"
  "dk_file (sv_disk (synced e s)) = dk_file (sv_disk s)"
  "dk_archive (sv_disk (synced e s)) = dk_archive (sv_disk s)"
  by (simp_all add: synced_def Let_def split: prod.splits)

definition clock_ok :: "env \<Rightarrow> bool" where
  "clock_ok e \<longleftrightarrow> (\<forall>k. \<not> IsZero (en_clock e k))"

lemma clock_okD [simp]: "clock_ok e \<Longrightarrow> \<not> IsZero (en_clock e k)"
  by (simp add: clock_ok_def)

lemma synced_room_inv:
  assumes "clock_ok e" "room_inv (sv_reviewRoom s)"
  shows "room_inv (sv_reviewRoom (synced e s))"
proof -
  have "\<not> IsZero (now_audit e)" using assms(1) by (simp add: now_audit_def)
  from syncAudit_inv [OF this assms(2), of "en_isWord e" "en_auditPromotion e" "en_auditItems e"] assms(2)
  show ?thesis
    by (auto simp: synced_def Let_def newReviewRoomStore_normal room_inv_normal split: prod.splits)
qed

lemma synced_room_off: "\<not> en_auditPromotion e \<Longrightarrow> sv_reviewRoom (synced e s) = sv_reviewRoom s"
  by (simp add: synced_def syncAuditReviewRoom_def)

lemma persistLocked_unfold:
  "persistLocked e s =
     (case fst (ensureWriterLease e (dk_lease (sv_disk s))) of
        Some err \<Rightarrow> (Some err, s\<lparr>sv_disk := (sv_disk s)\<lparr>dk_lease := snd (ensureWriterLease e (dk_lease (sv_disk s)))\<rparr>\<rparr>)
      | None \<Rightarrow>
          (let snap = currentPersistSnapshot e (synced e s) in
           case marshal_error e snap persistDomains of
             Some err \<Rightarrow> (Some err, synced e s)
           | None \<Rightarrow>
               (let s3 = syncDirtyLocked e snap (synced e s) in
                if \<not> dirty_any (sv_dirty s3) then (None, s3)
                else case save_domains e snap (sv_dirty s3) persistDomains s3 of
                       (Some err, s4) \<Rightarrow> (Some err, s4)
                     | (None, s4) \<Rightarrow> (None, s4\<lparr>sv_persisted := signatureFor e snap, sv_dirty := (\<lambda>_. False)\<rparr>))))"
proof -
  obtain le lf where l: "ensureWriterLease e (dk_lease (sv_disk s)) = (le, lf)" by fastforce
  obtain room ch where r: "syncAuditReviewRoom (en_isWord e) (now_audit e) (en_auditPromotion e)
      (en_auditItems e) (sv_reviewRoom s) = (room, ch)" by fastforce
  show ?thesis
    by (cases le; cases ch; simp add: persistLocked_def synced_def l r Let_def cong: option.case_cong)
qed

lemma syncDirty_simps [simp]:
  "core (syncDirtyLocked e y s) = core s" "sv_event (syncDirtyLocked e y s) = sv_event s"
  "sv_reviewRoom (syncDirtyLocked e y s) = sv_reviewRoom s" "sv_persisted (syncDirtyLocked e y s) = sv_persisted s"
  "sv_disk (syncDirtyLocked e y s) = sv_disk s" "sv_dirty (syncDirtyLocked e y s) = domain_dirty e y"
  by (simp_all add: syncDirtyLocked_def)

lemma snapshotValue_frame:
  assumes "core s = core t" "sv_event s = sv_event t" "sv_reviewRoom s = sv_reviewRoom t"
  shows "snapshotValue s d = snapshotValue t d"
  using core_eqD [OF assms(1)] assms(2,3) by (cases d) simp_all

lemma signatureFor_frame:
  assumes "core s = core t" "sv_event s = sv_event t" "sv_reviewRoom s = sv_reviewRoom t"
  shows "signatureFor e s = signatureFor e t"
  using snapshotValue_frame [OF assms] by (simp add: signatureFor_def fun_eq_iff)

lemma snapshotValue_mark:
  assumes "core s = core t" "sv_event s = markArchivePersisted (sv_event t)" "sv_reviewRoom s = sv_reviewRoom t"
  shows "snapshotValue s d = snapshotValue t d"
  using core_eqD [OF assms(1)] assms(2,3) by (cases d) (simp_all add: markArchivePersisted_def)

lemma snapshot_frame:
  assumes "core s = core t" "sv_event s = sv_event t \<or> sv_event s = markArchivePersisted (sv_event t)" "sv_reviewRoom s = sv_reviewRoom t"
  shows "snapshotValue (currentPersistSnapshot e s) d = snapshotValue (currentPersistSnapshot e t) d"
proof -
  let ?L = "continuityStore_list (en_DEFAULT_ACTOR e) (now_list e) (sv_continuity t)"
  have "core (currentPersistSnapshot e s) = (core s)\<lparr>sv_continuity := ?L\<rparr>"
    "core (currentPersistSnapshot e t) = (core t)\<lparr>sv_continuity := ?L\<rparr>"
    using core_eqD(7) [OF assms(1)] by (simp_all add: core_def currentPersistSnapshot_def)
  then have "core (currentPersistSnapshot e s) = core (currentPersistSnapshot e t)" using assms(1) by simp
  then show ?thesis using assms(2,3) by (auto intro: snapshotValue_frame snapshotValue_mark)
qed

lemma marshal_error_None: "marshal_error e s ds = None \<Longrightarrow> d \<in> set ds \<Longrightarrow>
    en_marshal e (snapshotValue s d) = Inr (signatureFor e s d)"
  by (induction ds) (auto simp: signatureFor_def split: sum.splits)

text \<open>The frame of \<open>persistLocked\<close>, whether it succeeds or fails.\<close>

lemma persistLocked_frame:
  assumes "persistLocked e s = (r, s')"
  shows "core s' = core s"
    and "sv_event s' = sv_event s \<or> sv_event s' = markArchivePersisted (sv_event s)"
    and "sv_reviewRoom s' = sv_reviewRoom s \<or> sv_reviewRoom s' = sv_reviewRoom (synced e s)"
proof -
  let ?y = "currentPersistSnapshot e (synced e s)"
  let ?s3 = "syncDirtyLocked e ?y (synced e s)"
  obtain r4 s4 where sd: "save_domains e ?y (sv_dirty ?s3) persistDomains ?s3 = (r4, s4)" by fastforce
  note f = save_domains_frame [OF sd] and ev = save_domains_event(1) [OF sd persistDomains_distinct]
  have cases: "s' = s\<lparr>sv_disk := (sv_disk s)\<lparr>dk_lease := snd (ensureWriterLease e (dk_lease (sv_disk s)))\<rparr>\<rparr> \<or>
      s' = synced e s \<or> s' = ?s3 \<or> s' = s4 \<or>
      s' = s4\<lparr>sv_persisted := signatureFor e ?y, sv_dirty := (\<lambda>_. False)\<rparr>"
    using assms sd unfolding persistLocked_unfold Let_def by (auto split: option.splits if_splits)
  then show "core s' = core s" using f by auto
  show "sv_event s' = sv_event s \<or> sv_event s' = markArchivePersisted (sv_event s)" using cases ev by auto
  show "sv_reviewRoom s' = sv_reviewRoom s \<or> sv_reviewRoom s' = sv_reviewRoom (synced e s)"
    using cases f by auto
qed

lemma persistLocked_room_inv:
  assumes "persistLocked e s = (r, s')" "clock_ok e" "room_inv (sv_reviewRoom s)"
  shows "room_inv (sv_reviewRoom s')"
  using persistLocked_frame(3) [OF assms(1)] synced_room_inv [OF assms(2,3)] assms(3) by auto

section \<open>Durability\<close>

text \<open>The signatures describe the files: what was last written encodes to the recorded signature.\<close>

definition on_disk :: "(dval \<Rightarrow> error + string) \<Rightarrow> Service \<Rightarrow> bool" where
  "on_disk m s \<longleftrightarrow> (\<forall>d. m (dk_file (sv_disk s) d) = Inr (sv_persisted s d))"

lemma persistLocked_success:
  assumes p: "persistLocked e s = (None, s')" and ck: "clock_ok e" and inv: "room_inv (sv_reviewRoom s)"
    and od: "on_disk (en_marshal e) s" and st: "steady e s"
  shows "on_disk (en_marshal e) s'"
    and "en_marshal e (dk_file (sv_disk s') d) = en_marshal e (snapshotValue (currentPersistSnapshot e s') d)"
    and "es_pendingArchive (sv_event s') = []"
    and "dk_archive (sv_disk s') = dk_archive (sv_disk s) @ es_pendingArchive (sv_event s)"
    and "es_items (sv_event s') = es_items (sv_event s)"
proof -
  let ?y = "currentPersistSnapshot e (synced e s)"
  let ?s3 = "syncDirtyLocked e ?y (synced e s)"
  have me: "marshal_error e ?y persistDomains = None"
    using p unfolding persistLocked_unfold Let_def by (auto split: option.splits)
  have sig: "en_marshal e (snapshotValue ?y d) = Inr (signatureFor e ?y d)" for d
    by (rule marshal_error_None [OF me persistDomains_all])
  have norm: "saved_value e ?y d = snapshotValue ?y d" for d
  proof (rule saved_value_normal)
    show "room_normal (sv_reviewRoom (synced e s))" by (rule room_inv_normal [OF synced_room_inv [OF ck inv]])
    have "sv_continuity (synced e s) = sv_continuity s" using core_eqD(7) [of "synced e s" s] by simp
    then show "steady e (synced e s)" using st by (simp add: steady_def currentPersistSnapshot_def)
  qed
  have clean: "sv_persisted s d = signatureFor e ?y d" "d = D_event \<longrightarrow> es_pendingArchive (sv_event s) = []"
    if "\<not> domain_dirty e ?y d" for d
    using that by (simp_all add: domain_dirty_def)
  have file_clean: "en_marshal e (dk_file (sv_disk s) d) = Inr (signatureFor e ?y d)"
    if "\<not> domain_dirty e ?y d" for d
    using od clean(1) [OF that] by (simp add: on_disk_def)
  have le: "fst (ensureWriterLease e (dk_lease (sv_disk s))) = None"
    using p unfolding persistLocked_unfold by (auto split: option.splits)
  obtain r4 t4 where sd: "save_domains e ?y (domain_dirty e ?y) persistDomains ?s3 = (r4, t4)" by fastforce
  have "(if \<not> dirty_any (domain_dirty e ?y) then (None, ?s3)
         else case r4 of Some err \<Rightarrow> (Some err, t4)
              | None \<Rightarrow> (None, t4\<lparr>sv_persisted := signatureFor e ?y, sv_dirty := (\<lambda>_. False)\<rparr>)) = (None, s')"
    using p unfolding persistLocked_unfold Let_def syncDirty_simps sd me le by (cases r4) (simp_all split: if_splits)
  then consider (none) "\<not> dirty_any (domain_dirty e ?y)" "s' = ?s3"
    | (some) s4 where "save_domains e ?y (domain_dirty e ?y) persistDomains ?s3 = (None, s4)"
        "s' = s4\<lparr>sv_persisted := signatureFor e ?y, sv_dirty := (\<lambda>_. False)\<rparr>"
    using sd by (auto split: if_splits option.splits)
  then have all: "on_disk (en_marshal e) s' \<and>
      (\<forall>d. en_marshal e (dk_file (sv_disk s') d) = en_marshal e (snapshotValue (currentPersistSnapshot e s') d)) \<and>
      es_pendingArchive (sv_event s') = [] \<and>
      dk_archive (sv_disk s') = dk_archive (sv_disk s) @ es_pendingArchive (sv_event s) \<and>
      es_items (sv_event s') = es_items (sv_event s)"
  proof cases
    case none
    then have nd: "\<not> domain_dirty e ?y d" for d
      using persistDomains_all [of d] by (auto simp: dirty_any_def list_ex_iff)
    have "snapshotValue (currentPersistSnapshot e ?s3) d = snapshotValue ?y d" for d by (rule snapshot_frame) simp_all
    then show ?thesis using none od file_clean [OF nd] clean(2) [OF nd, of D_event] sig by (simp add: on_disk_def)
  next
    case some
    note ok = save_domains_ok [OF some(1) persistDomains_distinct]
    note fr = save_domains_frame [OF some(1)]
    have fl: "en_marshal e (dk_file (sv_disk s4) d) = Inr (signatureFor e ?y d)" for d
      using ok file_clean [of d] sig [of d] norm persistDomains_all [of d] by auto
    have snap: "snapshotValue (currentPersistSnapshot e s') d = snapshotValue ?y d" for d
      by (rule snapshot_frame) (use ok fr some(2) in auto)
    have ev: "es_pendingArchive (sv_event s') = [] \<and>
        dk_archive (sv_disk s') = dk_archive (sv_disk s) @ es_pendingArchive (sv_event s) \<and>
        es_items (sv_event s') = es_items (sv_event s)"
      using ok some(2) clean(2) [of D_event] persistDomains_all [of D_event]
      by (cases "domain_dirty e ?y D_event") (auto simp: markArchivePersisted_def)
    show ?thesis using fl snap sig ev some(2) by (simp add: on_disk_def)
  qed
  then show "on_disk (en_marshal e) s'"
    "en_marshal e (dk_file (sv_disk s') d) = en_marshal e (snapshotValue (currentPersistSnapshot e s') d)"
    "es_pendingArchive (sv_event s') = []"
    "dk_archive (sv_disk s') = dk_archive (sv_disk s) @ es_pendingArchive (sv_event s)"
    "es_items (sv_event s') = es_items (sv_event s)" by blast+
qed

text \<open>A domain whose signature is the recorded one is never rewritten, whatever is on its file.\<close>

lemma persistLocked_clean_file:
  assumes "persistLocked e s = (r, s')" "signatureFor e (currentPersistSnapshot e (synced e s)) d = sv_persisted s d"
    "d \<noteq> D_event"
  shows "dk_file (sv_disk s') d = dk_file (sv_disk s) d"
proof -
  let ?y = "currentPersistSnapshot e (synced e s)"
  let ?s3 = "syncDirtyLocked e ?y (synced e s)"
  obtain r4 s4 where sd: "save_domains e ?y (sv_dirty ?s3) persistDomains ?s3 = (r4, s4)" by fastforce
  have "\<not> domain_dirty e ?y d" using assms(2,3) by (simp add: domain_dirty_def)
  then have "dk_file (sv_disk s4) d = dk_file (sv_disk s) d"
    using save_domains_files [OF sd, of d] by simp
  moreover have "s' = s\<lparr>sv_disk := (sv_disk s)\<lparr>dk_lease := snd (ensureWriterLease e (dk_lease (sv_disk s)))\<rparr>\<rparr> \<or>
      s' = synced e s \<or> s' = ?s3 \<or> s' = s4 \<or>
      s' = s4\<lparr>sv_persisted := signatureFor e ?y, sv_dirty := (\<lambda>_. False)\<rparr>"
    using assms(1) sd unfolding persistLocked_unfold Let_def by (auto split: option.splits if_splits)
  ultimately show ?thesis by auto
qed


section \<open>A working disk\<close>

text \<open>Nothing the operating system decides goes wrong, and the lease is free or the caller's own.\<close>

definition checkpoint_ok :: "env \<Rightarrow> ContinuityRecord list \<Rightarrow> bool" where
  "checkpoint_ok e items =
     (case continuityRecordForCompatibility (en_DEFAULT_ACTOR e) (now_checkpoint e)
             (continuityStore_list (en_DEFAULT_ACTOR e) (now_list e) items) of
        None \<Rightarrow> True
      | Some c \<Rightarrow> SessionCheckpoint_Validate (normalizeSessionCheckpoint (en_DEFAULT_ACTOR e) c) = None)"

definition disk_works :: "env \<Rightarrow> Service \<Rightarrow> bool" where
  "disk_works e s \<longleftrightarrow> en_leaseOpen e = None \<and> en_leaseRead e = None \<and> en_leaseWrite e = None \<and>
     (case dk_lease (sv_disk s) of NoLease \<Rightarrow> True | Lease l \<Rightarrow> wl_Owner l = lease_owner e | TornLease \<Rightarrow> False) \<and>
     (\<forall>v. \<exists>sig. en_marshal e v = Inr sig) \<and> (\<forall>d. en_write e d = None) \<and> en_archive e = None \<and>
     en_checkpoint e = None \<and> en_seal e = None \<and> checkpoint_ok e (sv_continuity s)"

lemma marshal_error_works: "disk_works e s \<Longrightarrow> marshal_error e t ds = None"
proof (induction ds)
  case (Cons d ds)
  then obtain sig where "en_marshal e (snapshotValue t d) = Inr sig" by (auto simp: disk_works_def)
  with Cons show ?case by simp
qed simp

lemma save_domain_works:
  assumes "disk_works e s" "sv_continuity y = sv_continuity s"
  shows "\<exists>t'. save_domain e (currentPersistSnapshot e y) d t = (None, t') \<and> dk_lease (sv_disk t') = dk_lease (sv_disk t)"
proof (cases "d = D_continuity")
  case True
  obtain r t' where c: "save_checkpoint e (continuityRecordForCompatibility (en_DEFAULT_ACTOR e) (now_checkpoint e)
        (sv_continuity (currentPersistSnapshot e y)))
      (write_file d (V_continuity (normalizeContinuityRecordsAt (en_DEFAULT_ACTOR e) (now_save e)
        (sv_continuity (currentPersistSnapshot e y)))) t) = (r, t')" by fastforce
  then have "r = None" using assms
    by (auto simp: save_checkpoint_def disk_works_def checkpoint_ok_def currentPersistSnapshot_def Let_def split: option.splits)
  then show ?thesis using True c save_checkpoint_frame(4) [OF c] assms(1) by (auto simp: save_domain_def disk_works_def)
next
  case False
  then show ?thesis
    using assms by (simp add: save_domain_def appendEventArchive_def disk_works_def write_file_def Let_def)
qed

lemma save_domains_works:
  assumes "disk_works e s" "sv_continuity y = sv_continuity s"
  shows "\<exists>t'. save_domains e (currentPersistSnapshot e y) dirty ds t = (None, t') \<and> dk_lease (sv_disk t') = dk_lease (sv_disk t)"
proof (induction ds arbitrary: t)
  case (Cons d ds)
  obtain t' where "save_domain e (currentPersistSnapshot e y) d t = (None, t')" "dk_lease (sv_disk t') = dk_lease (sv_disk t)"
    using save_domain_works [OF assms] by blast
  with Cons.IH [of t] Cons.IH [of t'] show ?case by auto
qed simp

lemma ensureWriterLease_works:
  assumes "disk_works e s"
  shows "\<exists>l. ensureWriterLease e (dk_lease (sv_disk s)) = (None, Lease l) \<and> wl_Owner l = lease_owner e"
  using assms by (auto simp: ensureWriterLease_def disk_works_def Let_def split: lease_file.splits)

lemma persistLocked_works:
  assumes "disk_works e s"
  shows "\<exists>t. persistLocked e s = (None, t) \<and> disk_works e t"
proof -
  obtain l where l: "ensureWriterLease e (dk_lease (sv_disk s)) = (None, Lease l)" "wl_Owner l = lease_owner e"
    using ensureWriterLease_works [OF assms] by blast
  let ?y = "currentPersistSnapshot e (synced e s)"
  let ?s3 = "syncDirtyLocked e ?y (synced e s)"
  have c: "sv_continuity (synced e s) = sv_continuity s" using core_eqD(7) [of "synced e s" s] by simp
  obtain t where t: "save_domains e ?y (sv_dirty ?s3) persistDomains ?s3 = (None, t)"
    "dk_lease (sv_disk t) = dk_lease (sv_disk ?s3)"
    using save_domains_works [OF assms c] by blast
  have ct: "sv_continuity t = sv_continuity s" using save_domains_frame [OF t(1)] c core_eqD(7) [of t "synced e s"] by simp
  have "sv_continuity ?s3 = sv_continuity s" using c by (simp add: syncDirtyLocked_def)
  moreover have "dk_lease (sv_disk ?s3) = Lease l" using l by (simp add: synced_def Let_def split: prod.split)
  ultimately show ?thesis
    using assms l t ct marshal_error_works [OF assms, of ?y persistDomains]
    unfolding persistLocked_unfold Let_def by (auto simp: disk_works_def)
qed

end
