(* ===== verification/Service_Core.thy ===== *)
theory Service_Core
  imports Persist_Props
begin

text \<open>
  The operations of \<open>service.go\<close> that change state: work items, flows, review-room entries, system
  memory and write tokens. Every operation has the shape of the source: checks, the store update,
  the event, then \<open>persistLocked\<close>; each failing step runs the assignments the source runs before it
  returns. \<open>event_or\<close> and \<open>persist_or\<close> are the two failing steps with their undo assignments. An
  operation is a function of the call's \<open>env\<close> and of the service; its result is an error or a value,
  with the service afterwards. The founder notification after some operations only sends messages
  and is not represented.
\<close>

type_synonym 'a outcome = "(error + 'a) \<times> Service"

section \<open>Shared steps\<close>

text \<open>The clock readings of the \<open>k\<close>-th event of an operation.\<close>

definition tick :: "env \<Rightarrow> nat \<Rightarrow> clock" where
  "tick e k = (\<lambda>i. en_clock e (10 * k + i))"

definition currentActorOverride :: "Service \<Rightarrow> string" where
  "currentActorOverride s = normalizeActor (sv_actorOverride s)"

definition currentActor :: "env \<Rightarrow> Service \<Rightarrow> string" where
  "currentActor e s =
     (let actor = currentActorOverride s
      in if actor \<noteq> '''' then actor else ResolveActor (en_DEFAULT_ACTOR e) [en_ACTOR e, en_WRITER_ID e])"

definition WithActor :: "string \<Rightarrow> (Service \<Rightarrow> 'a \<times> Service) \<Rightarrow> Service \<Rightarrow> 'a \<times> Service" where
  "WithActor actor fn s =
     (let a = normalizeActor actor in
      if a = '''' then fn s
      else let prev = currentActorOverride s; (r, s') = fn (s\<lparr>sv_actorOverride := a\<rparr>)
           in (r, s'\<lparr>sv_actorOverride := prev\<rparr>))"

definition service_event :: "env \<Rightarrow> nat \<Rightarrow> Service \<Rightarrow> string \<Rightarrow> string \<Rightarrow> string \<Rightarrow> string \<Rightarrow> jobject \<Rightarrow> EventEnvelope" where
  "service_event e k s kind surface workItemID stage data =
     newEvent (en_fmt e) (tick e k) kind (currentActor e s) surface workItemID stage data"

definition newSystemEvent :: "env \<Rightarrow> nat \<Rightarrow> Service \<Rightarrow> string \<Rightarrow> jobject \<Rightarrow> EventEnvelope" where
  "newSystemEvent e k s kind data = service_event e k s kind ''api'' ''system'' ''discover'' data"

definition restore_event :: "env \<Rightarrow> eventStore \<Rightarrow> Service \<Rightarrow> Service" where
  "restore_event e old s = s\<lparr>sv_event := newEventStoreFromState (en_EVENT_RETENTION e) old\<rparr>"

definition restore_room :: "env \<Rightarrow> ReviewRoom \<Rightarrow> Service \<Rightarrow> Service" where
  "restore_room e old s = s\<lparr>sv_reviewRoom := newReviewRoomStore (now_store e) old\<rparr>"

definition event_or ::
  "EventEnvelope \<Rightarrow> (Service \<Rightarrow> Service) \<Rightarrow> (Service \<Rightarrow> 'a outcome) \<Rightarrow> Service \<Rightarrow> 'a outcome" where
  "event_or ev undo k s =
     (case eventStore_append (sv_event s) ev of
        Inl err \<Rightarrow> (Inl err, undo s)
      | Inr es \<Rightarrow> k (s\<lparr>sv_event := es\<rparr>))"

definition persist_or :: "env \<Rightarrow> (Service \<Rightarrow> Service) \<Rightarrow> 'a \<Rightarrow> Service \<Rightarrow> 'a outcome" where
  "persist_or e undo x s =
     (case persistLocked e s of
        (Some err, s') \<Rightarrow> (Inl err, undo s')
      | (None, s') \<Rightarrow> (Inr x, s'))"

definition ensureActiveBranchLocked :: "Service \<Rightarrow> string option \<Rightarrow> error option" where
  "ensureActiveBranchLocked s branchID =
     (case branchID of
        None \<Rightarrow> None
      | Some b \<Rightarrow>
          let value = TrimSpace b in
          if value = '''' then Some ''branch_id must not be empty''
          else case branchStore_get (sv_branch s) value of
                 None \<Rightarrow> Some ''branch_id not found''
               | Some branch \<Rightarrow>
                   if br_Status branch \<noteq> ''active'' then Some ''branch_id must reference an active branch'' else None)"

section \<open>Work items and flows\<close>

definition CreateWorkItem :: "env \<Rightarrow> WorkItem \<Rightarrow> Service \<Rightarrow> unit outcome" where
  "CreateWorkItem e item s =
     (case ensureActiveBranchLocked s (wi_BranchID item) of
        Some err \<Rightarrow> (Inl err, s)
      | None \<Rightarrow>
          (case workStore_create (sv_work s) item of
             Inl err \<Rightarrow> (Inl err, s)
           | Inr items \<Rightarrow>
               let s1 = s\<lparr>sv_work := items\<rparr>;
                   s2 = s1\<lparr>sv_state := updateWorkItemsActive (sv_state s1) (int (length items))\<rparr>;
                   undo = (\<lambda>t. t\<lparr>sv_work := sv_work s, sv_state := sv_state s\<rparr>)
               in event_or (service_event e 0 s2 ''work_item.created'' (wi_Surface item) (wi_ID item) (wi_Stage item)
                              [(''title'', JString (wi_Title item))])
                    undo
                    (persist_or e (\<lambda>t. restore_event e (sv_event s) (undo t)) ()) s2))"

definition flow_defaults :: "env \<Rightarrow> FlowRun \<Rightarrow> FlowRun" where
  "flow_defaults e item =
     (let created = (if IsZero (fr_CreatedAt item) then en_clock e 50 else fr_CreatedAt item)
      in item\<lparr>fr_Status := (if fr_Status item = '''' then ''active'' else fr_Status item),
              fr_Notes := Some (elems (fr_Notes item)),
              fr_CreatedAt := created,
              fr_UpdatedAt := (if IsZero (fr_UpdatedAt item) then created else fr_UpdatedAt item)\<rparr>)"

definition CreateFlow :: "env \<Rightarrow> FlowRun \<Rightarrow> Service \<Rightarrow> unit outcome" where
  "CreateFlow e item0 s =
     (case workStore_get (sv_work s) (fr_WorkItemID item0) of
        None \<Rightarrow> (Inl ''flow work_item_id not found'', s)
      | Some work \<Rightarrow>
          let item = flow_defaults e item0
          in case flowStore_create (sv_flow s) item of
               Inl err \<Rightarrow> (Inl err, s)
             | Inr items \<Rightarrow>
                 let s1 = s\<lparr>sv_flow := items\<rparr>; undo = (\<lambda>t. t\<lparr>sv_flow := sv_flow s\<rparr>)
                 in event_or (service_event e 0 s1 ''flow.created'' (wi_Surface work) (wi_ID work) (wi_Stage work)
                                [(''flow_id'', JString (fr_FlowID item)), (''status'', JString (fr_Status item))])
                      undo
                      (persist_or e (\<lambda>t. restore_event e (sv_event s) (undo t)) ()) s1)"

text \<open>
  \<open>deriveFlowStatusLocked\<close>: the latest linked record that is decisive. A rollback of another status
  and a deploy that neither failed nor succeeded fall through, as do the loops over records with
  the wrong identifier.
\<close>

fun rollback_verdict :: "string \<Rightarrow> RollbackRun list \<Rightarrow> string option" where
  "rollback_verdict rid [] = None"
| "rollback_verdict rid (r # rs) =
     (if rr_RollbackID r \<noteq> rid then rollback_verdict rid rs
      else if rr_Status r = ''failed'' then Some ''blocked''
      else if rr_Status r = ''succeeded'' \<or> rr_Status r = ''recorded'' then Some ''rolled_back''
      else rollback_verdict rid rs)"

definition deploy_verdict :: "Service \<Rightarrow> string \<Rightarrow> string option" where
  "deploy_verdict s did =
     (case deployStore_get (sv_deploy s) did of
        None \<Rightarrow> None
      | Some d \<Rightarrow> if dr_Status d = ''failed'' then Some ''blocked''
                  else if dr_Status d = ''succeeded'' then Some ''released'' else None)"

definition approval_is :: "Service \<Rightarrow> string option \<Rightarrow> string \<Rightarrow> bool" where
  "approval_is s aid status =
     (case aid of
        None \<Rightarrow> False
      | Some a \<Rightarrow> (case approvalStore_get (sv_approval s) a of None \<Rightarrow> False | Some ap \<Rightarrow> ap_Status ap = status))"

definition run_verdict :: "string option \<Rightarrow> string option" where
  "run_verdict status = (case status of None \<Rightarrow> None | Some st \<Rightarrow> Some (if st = ''failed'' then ''blocked'' else ''waiting''))"

definition deriveFlowStatusLocked :: "Service \<Rightarrow> FlowRun \<Rightarrow> string" where
  "deriveFlowStatusLocked s item =
     (case Option.bind (fr_RollbackID item) (\<lambda>r. rollback_verdict r (sv_rollback s)) of Some v \<Rightarrow> v | None \<Rightarrow>
      case Option.bind (fr_DeployID item) (deploy_verdict s) of Some v \<Rightarrow> v | None \<Rightarrow>
      if fr_ReleaseID item \<noteq> None then ''released''
      else if approval_is s (fr_ApprovalID item) ''rejected'' then ''blocked''
      else case Option.bind (fr_VerificationID item)
                  (\<lambda>v. run_verdict (map_option vr_Status (lookup vr_RecordID v (sv_verify s)))) of Some v \<Rightarrow> v | None \<Rightarrow>
      case Option.bind (fr_ExecuteID item)
             (\<lambda>x. run_verdict (map_option er_Status (lookup er_ExecuteID x (sv_execute s)))) of Some v \<Rightarrow> v | None \<Rightarrow>
      if approval_is s (fr_ApprovalID item) ''pending'' then ''waiting''
      else ''active'')"

definition ref_missing :: "(string \<Rightarrow> bool) \<Rightarrow> string option \<Rightarrow> bool" where
  "ref_missing exists ref =
     (case ref of None \<Rightarrow> False | Some r \<Rightarrow> TrimSpace r \<noteq> '''' \<and> \<not> exists (TrimSpace r))"

record flow_links =
  fl_approval :: "string option"
  fl_policy :: "string option"
  fl_execute :: "string option"
  fl_verification :: "string option"
  fl_release :: "string option"
  fl_deploy :: "string option"
  fl_rollback :: "string option"

definition flow_links_error :: "Service \<Rightarrow> flow_links \<Rightarrow> error option" where
  "flow_links_error s l = first_error
     [(ref_missing (\<lambda>r. approvalStore_get (sv_approval s) r \<noteq> None) (fl_approval l), ''flow approval_id not found''),
      (ref_missing (\<lambda>r. policyStore_get (sv_policy s) r \<noteq> None) (fl_policy l), ''flow policy_decision_id not found''),
      (ref_missing (\<lambda>r. list_ex (\<lambda>x. er_ExecuteID x = r) (sv_execute s)) (fl_execute l), ''flow execute_id not found''),
      (ref_missing (\<lambda>r. list_ex (\<lambda>x. vr_RecordID x = r) (sv_verify s)) (fl_verification l), ''flow verification_id not found''),
      (ref_missing (\<lambda>r. releaseStore_get (sv_release s) r \<noteq> None) (fl_release l), ''flow release_id not found''),
      (ref_missing (\<lambda>r. deployStore_get (sv_deploy s) r \<noteq> None) (fl_deploy l), ''flow deploy_id not found''),
      (ref_missing (\<lambda>r. list_ex (\<lambda>x. rr_RollbackID x = r) (sv_rollback s)) (fl_rollback l), ''flow rollback_id not found'')]"

definition flow_item :: "env \<Rightarrow> string \<Rightarrow> WorkItem \<Rightarrow> flow_links \<Rightarrow> string list \<Rightarrow> Service \<Rightarrow> FlowRun" where
  "flow_item e flowID work l notes s =
     (let now = en_clock e 50;
          item = \<lparr>fr_FlowID = flowID, fr_WorkItemID = wi_ID work,
                  fr_ApprovalID = normalizeRef (fl_approval l), fr_PolicyDecisionID = normalizeRef (fl_policy l),
                  fr_ExecuteID = normalizeRef (fl_execute l), fr_VerificationID = normalizeRef (fl_verification l),
                  fr_ReleaseID = normalizeRef (fl_release l), fr_DeployID = normalizeRef (fl_deploy l),
                  fr_RollbackID = normalizeRef (fl_rollback l), fr_Status = '''', fr_Notes = Some notes,
                  fr_CreatedAt = (case flowStore_get (sv_flow s) flowID of Some old \<Rightarrow> fr_CreatedAt old | None \<Rightarrow> now),
                  fr_UpdatedAt = now\<rparr>
      in item\<lparr>fr_Status := deriveFlowStatusLocked s item\<rparr>)"

definition SyncFlow :: "env \<Rightarrow> string \<Rightarrow> string \<Rightarrow> flow_links \<Rightarrow> string list \<Rightarrow> Service \<Rightarrow> FlowRun outcome" where
  "SyncFlow e flowID workItemID l notes s =
     (case workStore_get (sv_work s) workItemID of
        None \<Rightarrow> (Inl ''flow work_item_id not found'', s)
      | Some work \<Rightarrow>
      case flow_links_error s l of Some err \<Rightarrow> (Inl err, s) | None \<Rightarrow>
      let item = flow_item e flowID work l notes s
      in case flowStore_update (sv_flow s) item of
           Inl err \<Rightarrow> (Inl err, s)
         | Inr items \<Rightarrow>
             let s1 = s\<lparr>sv_flow := items\<rparr>; undo = (\<lambda>t. t\<lparr>sv_flow := sv_flow s\<rparr>)
             in event_or (service_event e 0 s1 ''flow.synced'' (wi_Surface work) (wi_ID work) (wi_Stage work)
                            [(''flow_id'', JString (fr_FlowID item)), (''status'', JString (fr_Status item))])
                  undo
                  (persist_or e (\<lambda>t. restore_event e (sv_event s) (undo t)) item) s1)"

section \<open>Review room\<close>

definition string_array :: "string list \<Rightarrow> json" where
  "string_array xs = JArray (map JString xs)"

definition reviewRoomRationaleData :: "ReviewRoomRationale \<Rightarrow> json" where
  "reviewRoomRationaleData r =
     JObject [(''trigger'', JString (ra_Trigger r)), (''reason'', JString (ra_Reason r)), (''rule'', JString (ra_Rule r))]"

definition reviewRoomResolutionData :: "env \<Rightarrow> ReviewRoomResolution \<Rightarrow> json" where
  "reviewRoomResolutionData e r =
     JObject ([(''action'', JString (rs_Action r)), (''reason'', JString (rs_Reason r)), (''rule'', JString (rs_Rule r)),
               (''resolved_at'', JString (en_fmt e (rs_ResolvedAt r)))] @
              (if rs_Evidence r \<noteq> [] then [(''evidence'', string_array (rs_Evidence r))] else []))"

definition opt_trimmed :: "string \<Rightarrow> string option \<Rightarrow> jobject" where
  "opt_trimmed key v = (case v of None \<Rightarrow> [] | Some x \<Rightarrow> [(key, JString (TrimSpace x))])"

definition opt_array :: "string \<Rightarrow> string list \<Rightarrow> jobject" where
  "opt_array key xs = (if xs \<noteq> [] then [(key, string_array xs)] else [])"

text \<open>The optional fields of an item that its event carries.\<close>

definition item_detail_data :: "ReviewRoomItem \<Rightarrow> jobject" where
  "item_detail_data item =
     opt_trimmed ''ref'' (ri_Ref item) @
     (if TrimSpace (ri_Why item) \<noteq> '''' then [(''why'', JString (ri_Why item))] else []) @
     opt_trimmed ''why_unresolved'' (ri_WhyUnresolved item) @
     opt_trimmed ''contradiction'' (ri_Contradiction item) @
     opt_array ''contradictions'' (ri_Contradictions item) @
     opt_array ''pattern_refs'' (ri_PatternRefs item) @
     (case ri_Rationale item of None \<Rightarrow> [] | Some r \<Rightarrow> [(''rationale'', reviewRoomRationaleData r)])"

definition item_event_data :: "string \<Rightarrow> ReviewRoomItem \<Rightarrow> jobject" where
  "item_event_data sec item =
     [(''section'', JString sec), (''item'', JString (TrimSpace (ri_Text item))), (''kind'', JString (ri_Kind item)),
      (''severity'', JString (ri_Severity item)), (''source'', JString (ri_Source item))] @
     item_detail_data item @ opt_array ''evidence'' (ri_Evidence item)"

definition blank_item :: "string \<Rightarrow> ReviewRoomItem" where
  "blank_item text =
     \<lparr>ri_Text = text, ri_Kind = '''', ri_Severity = '''', ri_Source = '''', ri_Ref = None, ri_Why = '''',
      ri_WhyUnresolved = None, ri_Contradiction = None, ri_Contradictions = [], ri_PatternRefs = [],
      ri_Rationale = None, ri_Resolution = None, ri_Evidence = [], ri_CreatedAt = 0, ri_UpdatedAt = 0\<rparr>"

definition reviewRoomItemFromSection :: "env \<Rightarrow> ReviewRoom \<Rightarrow> string \<Rightarrow> string \<Rightarrow> ReviewRoomItem" where
  "reviewRoomItemFromSection e room sec text =
     (case reviewRoomSection (normalizeReviewRoom (now_store e) room) (normalizeReviewSection sec) of
        None \<Rightarrow> blank_item (TrimSpace text)
      | Some items \<Rightarrow>
          (case find (\<lambda>i. ri_Text i = TrimSpace text) items of
             Some i \<Rightarrow> i | None \<Rightarrow> blank_item (TrimSpace text)))"

definition autoOpenReviewRoomItemLocked :: "env \<Rightarrow> nat \<Rightarrow> ReviewRoomItem \<Rightarrow> Service \<Rightarrow> error option \<times> Service" where
  "autoOpenReviewRoomItemLocked e k item0 s =
     (case ensureReviewRoomItem (en_isWord e) (now_store e) (sv_reviewRoom s) ''open'' item0 of
        Inl err \<Rightarrow> (Some err, s)
      | Inr (updated, added) \<Rightarrow>
          if \<not> added then (None, s)
          else let s1 = s\<lparr>sv_reviewRoom := newReviewRoomStore (now_store e) updated\<rparr>;
                   item = reviewRoomItemFromSection e updated ''open'' (ri_Text item0)
               in case eventStore_append (sv_event s1)
                         (newSystemEvent e k s1 ''review_room.item_auto_added'' (item_event_data ''open'' item)) of
                    Inl err \<Rightarrow> (Some err, s1)
                  | Inr es \<Rightarrow> (None, s1\<lparr>sv_event := es\<rparr>))"

definition AddStructuredReviewRoomItem :: "env \<Rightarrow> string \<Rightarrow> ReviewRoomItem \<Rightarrow> Service \<Rightarrow> ReviewRoom outcome" where
  "AddStructuredReviewRoomItem e section0 item0 s =
     (let item = normalizeReviewRoomItem (en_clock e 50) item0 in
      case ReviewRoomItem_Validate item of Some err \<Rightarrow> (Inl err, s) | None \<Rightarrow>
      case reviewRoomStore_add (en_isWord e) (now_store e) (sv_reviewRoom s) section0 item of
        Inl err \<Rightarrow> (Inl err, s)
      | Inr (updated, stored) \<Rightarrow>
          let s1 = s\<lparr>sv_reviewRoom := stored\<rparr>;
              item = reviewRoomItemFromSection e updated section0 (ri_Text item)
          in event_or (newSystemEvent e 0 s1 ''review_room.item_added''
                         (item_event_data (normalizeReviewSection section0) item))
               (restore_room e (sv_reviewRoom s))
               (persist_or e (\<lambda>t. restore_event e (sv_event s) (restore_room e (sv_reviewRoom s) t)) updated) s1)"

definition AddReviewRoomItem :: "env \<Rightarrow> string \<Rightarrow> string \<Rightarrow> Service \<Rightarrow> ReviewRoom outcome" where
  "AddReviewRoomItem e section0 item s =
     AddStructuredReviewRoomItem e section0
       (newManualReviewRoomItem (en_clock e 51) item ''agenda'' ''medium'' ''manual'' None) s"

definition transition_event_data :: "env \<Rightarrow> string \<Rightarrow> string \<Rightarrow> ReviewRoomItem option \<Rightarrow> jobject" where
  "transition_event_data e action item transitioned =
     [(''action'', JString (normalizeReviewAction action)), (''item'', JString (TrimSpace item))] @
     (case transitioned of
        None \<Rightarrow> []
      | Some t \<Rightarrow>
          [(''kind'', JString (ri_Kind t)), (''severity'', JString (ri_Severity t)), (''source'', JString (ri_Source t))] @
          item_detail_data t @
          (case ri_Resolution t of None \<Rightarrow> [] | Some r \<Rightarrow> [(''resolution'', reviewRoomResolutionData e r)]) @
          opt_array ''evidence'' (ri_Evidence t))"

definition TransitionStructuredReviewRoomItem ::
  "env \<Rightarrow> string \<Rightarrow> string \<Rightarrow> ReviewRoomResolution option \<Rightarrow> Service \<Rightarrow> ReviewRoom outcome" where
  "TransitionStructuredReviewRoomItem e action item resolution s =
     (case transitionStructured (now_store e) (sv_reviewRoom s) action item resolution of
        Inl err \<Rightarrow> (Inl err, s)
      | Inr (updated, transitioned, stored) \<Rightarrow>
          let s1 = s\<lparr>sv_reviewRoom := stored\<rparr>
          in event_or (newSystemEvent e 0 s1 ''review_room.item_transitioned''
                         (transition_event_data e action item transitioned))
               (restore_room e (sv_reviewRoom s))
               (persist_or e (\<lambda>t. restore_event e (sv_event s) (restore_room e (sv_reviewRoom s) t)) updated) s1)"

definition TransitionReviewRoomItem :: "env \<Rightarrow> string \<Rightarrow> string \<Rightarrow> Service \<Rightarrow> ReviewRoom outcome" where
  "TransitionReviewRoomItem e action item s = TransitionStructuredReviewRoomItem e action item None s"

section \<open>Memory and write tokens\<close>

definition ReplaceMemory :: "env \<Rightarrow> SystemMemory \<Rightarrow> Service \<Rightarrow> unit outcome" where
  "ReplaceMemory e memory s =
     (case memoryStore_replace (sv_memory s) memory of
        Inl err \<Rightarrow> (Inl err, s)
      | Inr m \<Rightarrow>
          let s1 = s\<lparr>sv_memory := m\<rparr>; undo = (\<lambda>t. t\<lparr>sv_memory := sv_memory s\<rparr>)
          in event_or (newSystemEvent e 0 s1 ''memory.updated'' [(''current_focus'', JString (sm_CurrentFocus memory))])
               undo
               (persist_or e (\<lambda>t. restore_event e (sv_event s) (undo t)) ()) s1)"

text \<open>
  \<open>s.auth = newAuthStore(old)\<close>: the saved configuration is put back; the maps it points to are
  whatever they are by then.
\<close>

definition restore_auth :: "authConfig \<Rightarrow> Service \<Rightarrow> Service" where
  "restore_auth old s = s\<lparr>sv_auth := newAuthStore (au_maps (sv_auth s)) old\<rparr>"

definition auth_event_data :: "AuthStatus \<Rightarrow> string \<Rightarrow> jobject" where
  "auth_event_data status actor =
     [(''write_auth_enabled'', JBool (as_WriteAuthEnabled status)), (''actor'', JString actor)]"

definition SetWriteToken :: "env \<Rightarrow> string \<Rightarrow> Service \<Rightarrow> AuthStatus outcome" where
  "SetWriteToken e token s =
     (let old = authStore_current (sv_auth s); actor = currentActor e s in
      case authStore_setToken (en_DEFAULT_ACTOR e) token actor (en_clock e 50) (sv_auth s) of
        Inl err \<Rightarrow> (Inl err, s)
      | Inr au \<Rightarrow>
          let s1 = s\<lparr>sv_auth := au\<rparr>; status = authStore_status au
          in event_or (newSystemEvent e 0 s1 ''auth.enabled'' (auth_event_data status actor))
               (restore_auth old)
               (persist_or e (\<lambda>t. restore_event e (sv_event s) (restore_auth old t)) status) s1)"

definition ClearWriteToken :: "env \<Rightarrow> Service \<Rightarrow> AuthStatus outcome" where
  "ClearWriteToken e s =
     (let old = authStore_current (sv_auth s); actor = currentActor e s;
          au = authStore_clear (en_DEFAULT_ACTOR e) actor (en_clock e 50) (sv_auth s);
          s1 = s\<lparr>sv_auth := au\<rparr>; status = authStore_status au
      in event_or (newSystemEvent e 0 s1 ''auth.cleared'' (auth_event_data status actor))
           (restore_auth old)
           (persist_or e (\<lambda>t. restore_event e (sv_event s) (restore_auth old t)) status) s1)"

definition AuthorizeWriteToken :: "env \<Rightarrow> string \<Rightarrow> Service \<Rightarrow> bool" where
  "AuthorizeWriteToken e token s = authStore_authorize (en_DEFAULT_ACTOR e) token (currentActor e s) (sv_auth s)"

definition AuthorizeWriteTokenForActor :: "env \<Rightarrow> string \<Rightarrow> string \<Rightarrow> Service \<Rightarrow> bool" where
  "AuthorizeWriteTokenForActor e token actor s = authStore_authorize (en_DEFAULT_ACTOR e) token actor (sv_auth s)"

definition ServiceAuthStatus :: "Service \<Rightarrow> AuthStatus" where
  "ServiceAuthStatus s = authStore_status (sv_auth s)"

end
