(* ===== verification/Service_Ops.thy ===== *)
theory Service_Ops
  imports Service_Core
begin

text \<open>
  The remaining operations of the service: branches (\<open>service_branch.go\<close>), releases, deploys,
  rollbacks and targets (\<open>service_release.go\<close>), approvals, preflights, policies, gateway calls,
  executions and verifications (\<open>service_control.go\<close>). Adapters are interfaces in the source:
  a deploy or verification adapter is its name and the outcome of running a command, a gateway
  adapter is the record of its methods; the two adapters of \<open>adapter.go\<close> that never leave the process
  are given.
\<close>

definition room_or ::
  "(Service \<Rightarrow> error option \<times> Service) \<Rightarrow> (Service \<Rightarrow> Service) \<Rightarrow> (Service \<Rightarrow> 'a outcome) \<Rightarrow> Service \<Rightarrow> 'a outcome" where
  "room_or act undo k s =
     (case act s of (Some err, s') \<Rightarrow> (Inl err, undo s') | (None, s') \<Rightarrow> k s')"

text \<open>Open the suggested item, if there is one.\<close>

definition suggest_or ::
  "env \<Rightarrow> nat \<Rightarrow> ReviewRoomItem option \<Rightarrow> (Service \<Rightarrow> Service) \<Rightarrow> (Service \<Rightarrow> 'a outcome) \<Rightarrow> Service \<Rightarrow> 'a outcome" where
  "suggest_or e k sug undo cont s =
     (case sug of None \<Rightarrow> cont s | Some item \<Rightarrow> room_or (autoOpenReviewRoomItemLocked e k item) undo cont s)"

section \<open>Branches\<close>

definition branch_to_create :: "env \<Rightarrow> Branch \<Rightarrow> Service \<Rightarrow> error + Branch" where
  "branch_to_create e item0 s =
     (let item1 = normalizeBranch (en_clock e 50) item0;
          parent = (case br_ParentBranchID item1 of
                      None \<Rightarrow> Inr item1
                    | Some p \<Rightarrow> (case branchStore_get (sv_branch s) (TrimSpace p) of
                                   None \<Rightarrow> Inl ''branch parent_branch_id not found''
                                 | Some b \<Rightarrow> Inr (item1\<lparr>br_RootBranchID := br_RootBranchID b\<rparr>)))
      in case parent of Inl err \<Rightarrow> Inl err | Inr item2 \<Rightarrow>
         Inr (if br_RootBranchID item2 = '''' then item2\<lparr>br_RootBranchID := br_BranchID item2\<rparr> else item2))"

definition CreateBranch :: "env \<Rightarrow> Branch \<Rightarrow> Service \<Rightarrow> unit outcome" where
  "CreateBranch e item0 s =
     (case branch_to_create e item0 s of Inl err \<Rightarrow> (Inl err, s) | Inr item \<Rightarrow>
      case branchStore_create (en_clock e 51) (sv_branch s) item of
        Inl err \<Rightarrow> (Inl err, s)
      | Inr items \<Rightarrow>
          let s1 = s\<lparr>sv_branch := items\<rparr>;
              undo = (\<lambda>t. t\<lparr>sv_branch := newBranchStore (now_store e) (sv_branch s)\<rparr>)
          in event_or (service_event e 0 s1 ''branch.created'' (br_Surface item) (br_BranchID item) (br_Stage item)
                         [(''branch_id'', JString (br_BranchID item)), (''root_branch_id'', JString (br_RootBranchID item)),
                          (''status'', JString (br_Status item)), (''title'', JString (br_Title item))])
               undo
               (persist_or e (\<lambda>t. restore_event e (sv_event s) (undo t)) ()) s1)"

definition branch_merge_item :: "time \<Rightarrow> string \<Rightarrow> string \<Rightarrow> ReviewRoomItem" where
  "branch_merge_item now branchID target =
     newStructuredReviewRoomItem now
       (''Branch `'' @ branchID @ ''` merged into `'' @ target @
        ''`; reconcile branch-bound proposal/job/work references before archival cleanup.'')
       ''agenda'' ''low'' ''branch.merge'' (Some (''branch:'' @ branchID))
       (Some \<lparr>ra_Trigger = ''branch.merged'',
              ra_Reason = ''merged branches should close their attached execution lane cleanly before archival cleanup'',
              ra_Rule = ''review_room.branch_merge_reconcile''\<rparr>)
       [''branch:'' @ branchID, ''merge_target:'' @ target]"

definition MergeBranch :: "env \<Rightarrow> string \<Rightarrow> string \<Rightarrow> string list \<Rightarrow> Service \<Rightarrow> Branch outcome" where
  "MergeBranch e branchID targetBranchID notes s =
     (case branchStore_merge (sv_branch s) branchID targetBranchID notes (en_clock e 50) of
        Inl err \<Rightarrow> (Inl err, s)
      | Inr (updated, items) \<Rightarrow>
          let s1 = s\<lparr>sv_branch := items\<rparr>;
              undo = (\<lambda>t. t\<lparr>sv_branch := newBranchStore (now_store e) (sv_branch s)\<rparr>);
              undo_all = (\<lambda>t. restore_room e (sv_reviewRoom s) (restore_event e (sv_event s) (undo t)))
          in event_or (service_event e 0 s1 ''branch.merged'' (br_Surface updated) (br_BranchID updated) (br_Stage updated)
                         [(''branch_id'', JString (br_BranchID updated)),
                          (''merge_target_branch_id'', JString (TrimSpace targetBranchID)),
                          (''root_branch_id'', JString (br_RootBranchID updated)), (''status'', JString (br_Status updated))])
               undo
               (room_or (autoOpenReviewRoomItemLocked e 1
                           (branch_merge_item (en_clock e 51) (br_BranchID updated) (TrimSpace targetBranchID)))
                  undo_all (persist_or e undo_all updated)) s1)"

section \<open>Releases, deploys, rollbacks, targets\<close>

fun approval_refs_error :: "Service \<Rightarrow> string \<Rightarrow> string list \<Rightarrow> error option" where
  "approval_refs_error s workItemID [] = None"
| "approval_refs_error s workItemID (r # rs) =
     (case approvalStore_get (sv_approval s) r of
        None \<Rightarrow> Some ''release approval_ref not found''
      | Some approval \<Rightarrow>
          if ap_Status approval \<noteq> ''approved'' then Some ''release requires approved approval refs''
          else if ap_WorkItemID approval \<noteq> workItemID then Some ''release approval_ref work_item mismatch''
          else approval_refs_error s workItemID rs)"

definition set_or_now :: "env \<Rightarrow> nat \<Rightarrow> time option \<Rightarrow> time option" where
  "set_or_now e k t = (case t of Some x \<Rightarrow> if IsZero x then Some (en_clock e k) else Some x | None \<Rightarrow> Some (en_clock e k))"

definition release_defaults :: "env \<Rightarrow> ReleasePacket \<Rightarrow> ReleasePacket" where
  "release_defaults e item =
     item\<lparr>rp_ReleasedAt := set_or_now e 50 (rp_ReleasedAt item),
          rp_Artifacts := Some (elems (rp_Artifacts item)),
          rp_Metrics := Some (case rp_Metrics item of None \<Rightarrow> [] | Some m \<Rightarrow> m),
          rp_ApprovalRefs := Some (elems (rp_ApprovalRefs item))\<rparr>"

definition CreateRelease :: "env \<Rightarrow> ReleasePacket \<Rightarrow> Service \<Rightarrow> unit outcome" where
  "CreateRelease e item0 s =
     (let item = release_defaults e item0;
          refs = elems (rp_ApprovalRefs item)
      in if refs = [] then (Inl ''release approval_refs must not be empty'', s)
         else case approval_refs_error s (rp_WorkItemID item) refs of Some err \<Rightarrow> (Inl err, s) | None \<Rightarrow>
         case releaseStore_create (sv_release s) item of
           Inl err \<Rightarrow> (Inl err, s)
         | Inr items \<Rightarrow>
             let s1 = s\<lparr>sv_release := items\<rparr>;
                 s2 = s1\<lparr>sv_state := updateLastReleaseAt (sv_state s1) (rp_ReleasedAt item)\<rparr>;
                 undo = (\<lambda>t. t\<lparr>sv_release := sv_release s, sv_state := sv_state s\<rparr>)
             in event_or (service_event e 0 s2 ''release.created'' ''api'' (rp_WorkItemID item) ''release''
                            [(''target'', JString (rp_Target item)), (''channel'', JString (rp_Channel item))])
                  undo
                  (persist_or e (\<lambda>t. restore_event e (sv_event s) (undo t)) ()) s2)"

definition deploy_defaults :: "env \<Rightarrow> ReleasePacket \<Rightarrow> DeployRun \<Rightarrow> DeployRun" where
  "deploy_defaults e release item =
     item\<lparr>dr_Target := (if dr_Target item = '''' then rp_Target release else dr_Target item),
          dr_Status := (if dr_Status item = '''' then ''succeeded'' else dr_Status item),
          dr_Notes := Some (elems (dr_Notes item)),
          dr_StartedAt := (if IsZero (dr_StartedAt item) then en_clock e 50 else dr_StartedAt item),
          dr_FinishedAt := set_or_now e 51 (dr_FinishedAt item)\<rparr>"

definition CreateDeploy :: "env \<Rightarrow> DeployRun \<Rightarrow> Service \<Rightarrow> unit outcome" where
  "CreateDeploy e item0 s =
     (case releaseStore_get (sv_release s) (dr_ReleaseID item0) of
        None \<Rightarrow> (Inl ''deploy release_id not found'', s)
      | Some release \<Rightarrow>
          let item = deploy_defaults e release item0
          in case deployStore_create (sv_deploy s) item of
               Inl err \<Rightarrow> (Inl err, s)
             | Inr items \<Rightarrow>
                 let s1 = s\<lparr>sv_deploy := items\<rparr>;
                     s2 = s1\<lparr>sv_state := updateDeployHealth (sv_state s1) (dr_Status item)\<rparr>;
                     undo = (\<lambda>t. t\<lparr>sv_deploy := sv_deploy s, sv_state := sv_state s\<rparr>);
                     undo_all = (\<lambda>t. restore_room e (sv_reviewRoom s) (restore_event e (sv_event s) (undo t)))
                 in event_or (service_event e 0 s2 ''deploy.created'' ''api'' (rp_WorkItemID release) ''release''
                                [(''target'', JString (dr_Target item)), (''status'', JString (dr_Status item))])
                      undo
                      (suggest_or e 1 (reviewRoomSuggestionForDeploy (en_clock e 52) item) undo_all
                         (persist_or e undo_all ())) s2)"

definition rollback_defaults :: "env \<Rightarrow> ReleasePacket \<Rightarrow> RollbackRun \<Rightarrow> RollbackRun" where
  "rollback_defaults e release item =
     item\<lparr>rr_Target := (if rr_Target item = '''' then rp_Target release else rr_Target item),
          rr_Status := (if rr_Status item = '''' then ''succeeded'' else rr_Status item),
          rr_Notes := Some (elems (rr_Notes item)),
          rr_StartedAt := (if IsZero (rr_StartedAt item) then en_clock e 50 else rr_StartedAt item),
          rr_FinishedAt := set_or_now e 51 (rr_FinishedAt item)\<rparr>"

definition rollback_health :: "RollbackRun \<Rightarrow> CompanyState \<Rightarrow> CompanyState" where
  "rollback_health item st =
     (if rr_Status item = ''succeeded'' then updateDeployHealth st ''succeeded''
      else if rr_Status item = ''failed'' then updateDeployHealth st ''failed''
      else st)"

definition CreateRollback :: "env \<Rightarrow> RollbackRun \<Rightarrow> Service \<Rightarrow> unit outcome" where
  "CreateRollback e item0 s =
     (case releaseStore_get (sv_release s) (rr_ReleaseID item0) of
        None \<Rightarrow> (Inl ''rollback release_id not found'', s)
      | Some release \<Rightarrow>
          if ref_missing (\<lambda>d. deployStore_get (sv_deploy s) d \<noteq> None) (rr_DeployID item0)
          then (Inl ''rollback deploy_id not found'', s)
          else
          let item = rollback_defaults e release item0
          in case rollbackStore_create (sv_rollback s) item of
               Inl err \<Rightarrow> (Inl err, s)
             | Inr items \<Rightarrow>
                 let s1 = s\<lparr>sv_rollback := items\<rparr>;
                     s2 = s1\<lparr>sv_state := rollback_health item (sv_state s1)\<rparr>;
                     undo = (\<lambda>t. t\<lparr>sv_rollback := sv_rollback s, sv_state := sv_state s\<rparr>);
                     undo_all = (\<lambda>t. restore_room e (sv_reviewRoom s) (restore_event e (sv_event s) (undo t)))
                 in event_or (service_event e 0 s2 ''rollback.created'' ''api'' (rp_WorkItemID release) ''release''
                                [(''target'', JString (rr_Target item)), (''status'', JString (rr_Status item))])
                      undo
                      (suggest_or e 1 (reviewRoomSuggestionForRollback (en_clock e 52) item) undo_all
                         (persist_or e undo_all ())) s2)"

definition PutTarget :: "env \<Rightarrow> DeployTarget \<Rightarrow> Service \<Rightarrow> unit outcome" where
  "PutTarget e item s =
     (case targetStore_put (sv_target s) item of
        Inl err \<Rightarrow> (Inl err, s)
      | Inr items \<Rightarrow>
          let s1 = s\<lparr>sv_target := items\<rparr>; undo = (\<lambda>t. t\<lparr>sv_target := sv_target s\<rparr>)
          in event_or (newSystemEvent e 0 s1 ''target.updated'' [(''target_id'', JString (dt_TargetID item))])
               undo
               (persist_or e (\<lambda>t. restore_event e (sv_event s) (undo t)) ()) s1)"

record deploy_adapter =
  da_Name :: string
  da_Run :: "DeployTarget \<Rightarrow> string \<times> error option"

text \<open>An executed run: the item is recorded, and the adapter's error is returned beside it.\<close>

definition ExecuteDeploy ::
  "env \<Rightarrow> deploy_adapter \<Rightarrow> string \<Rightarrow> string \<Rightarrow> string list \<Rightarrow> Service \<Rightarrow> (DeployRun \<times> error option) outcome" where
  "ExecuteDeploy e ad deployID releaseID baseNotes s =
     (case releaseStore_get (sv_release s) releaseID of
        None \<Rightarrow> (Inl ''deploy release_id not found'', s)
      | Some release \<Rightarrow>
      case targetStore_get (sv_target s) (rp_Target release) of
        None \<Rightarrow> (Inl ''deploy target not found'', s)
      | Some target \<Rightarrow>
          let (output, execErr) = da_Run ad target;
              item = \<lparr>dr_DeployID = deployID, dr_ReleaseID = releaseID, dr_Target = rp_Target release,
                      dr_Status = statusFromError execErr,
                      dr_Notes = Some (buildDeployNotes baseNotes output execErr @ [''adapter:'' @ da_Name ad]),
                      dr_StartedAt = en_clock e 60, dr_FinishedAt = Some (en_clock e 61)\<rparr>
          in case CreateDeploy e item s of
               (Inl err, s') \<Rightarrow> (Inl err, s')
             | (Inr _, s') \<Rightarrow> (Inr (item, execErr), s'))"

definition ExecuteRollback ::
  "env \<Rightarrow> deploy_adapter \<Rightarrow> string \<Rightarrow> string \<Rightarrow> string \<Rightarrow> string list \<Rightarrow> Service \<Rightarrow> (RollbackRun \<times> error option) outcome" where
  "ExecuteRollback e ad rollbackID releaseID deployID baseNotes s =
     (case releaseStore_get (sv_release s) releaseID of
        None \<Rightarrow> (Inl ''rollback release_id not found'', s)
      | Some release \<Rightarrow>
      case targetStore_get (sv_target s) (rp_Target release) of
        None \<Rightarrow> (Inl ''deploy target not found'', s)
      | Some target \<Rightarrow>
          let (output, execErr) = da_Run ad target;
              item = \<lparr>rr_RollbackID = rollbackID, rr_ReleaseID = releaseID,
                      rr_DeployID = (if TrimSpace deployID \<noteq> '''' then Some (TrimSpace deployID) else None),
                      rr_Target = rp_Target release, rr_Status = statusFromError execErr,
                      rr_Notes = Some (buildDeployNotes baseNotes output execErr @ [''adapter:'' @ da_Name ad]),
                      rr_StartedAt = en_clock e 60, rr_FinishedAt = Some (en_clock e 61)\<rparr>
          in case CreateRollback e item s of
               (Inl err, s') \<Rightarrow> (Inl err, s')
             | (Inr _, s') \<Rightarrow> (Inr (item, execErr), s'))"

section \<open>Approvals, preflights, policies\<close>

definition CreateApproval :: "env \<Rightarrow> ApprovalItem \<Rightarrow> Service \<Rightarrow> unit outcome" where
  "CreateApproval e item s =
     (case approvalStore_create (sv_approval s) item of
        Inl err \<Rightarrow> (Inl err, s)
      | Inr items \<Rightarrow>
          let s1 = s\<lparr>sv_approval := items\<rparr>;
              s2 = s1\<lparr>sv_state := updateApprovalsPending (sv_state s1) (approvalStore_count items)\<rparr>;
              undo = (\<lambda>t. t\<lparr>sv_approval := sv_approval s, sv_state := sv_state s\<rparr>)
          in event_or (service_event e 0 s2 ''approval.created'' (ap_DecisionSurface item) (ap_WorkItemID item)
                         (ap_Stage item) [(''summary'', JString (ap_Summary item))])
               undo
               (persist_or e (\<lambda>t. restore_event e (sv_event s) (undo t)) ()) s2)"

definition approval_cleared_resolution :: "ApprovalItem \<Rightarrow> ReviewRoomResolution" where
  "approval_cleared_resolution item =
     \<lparr>rs_Action = ''resolve'', rs_Reason = ''approved resolution cleared the prior rejection review item'',
      rs_Rule = ''review_room.auto.approval_rejection_cleared'',
      rs_Evidence = [''approval:'' @ ap_ApprovalID item], rs_ResolvedAt = 0\<rparr>"

text \<open>The review items of an earlier rejection are resolved when the approval is granted.\<close>

definition clear_rejection :: "env \<Rightarrow> ApprovalItem \<Rightarrow> Service \<Rightarrow> error option \<times> Service" where
  "clear_rejection e item s =
     (if ap_Status item \<noteq> ''approved'' then (None, s) else
      case autoResolveReviewRoomItemLocked (now_store e) (sv_reviewRoom s) ''approval.rejected''
             (Some (ap_ApprovalID item)) (Some (approval_cleared_resolution item)) of
        Inl err \<Rightarrow> (Some err, s)
      | Inr (updated, _, changed) \<Rightarrow>
          if \<not> changed then (None, s)
          else let s1 = s\<lparr>sv_reviewRoom := newReviewRoomStore (now_store e) updated\<rparr>
               in case eventStore_append (sv_event s1)
                         (newSystemEvent e 2 s1 ''review_room.item_auto_resolved''
                            [(''source'', JString ''approval.rejected''), (''ref'', JString (ap_ApprovalID item)),
                             (''action'', JString ''resolve'')]) of
                    Inl err \<Rightarrow> (Some err, s1)
                  | Inr es \<Rightarrow> (None, s1\<lparr>sv_event := es\<rparr>))"

definition ResolveApproval :: "env \<Rightarrow> string \<Rightarrow> string \<Rightarrow> Service \<Rightarrow> ApprovalItem outcome" where
  "ResolveApproval e approvalID status s =
     (if status \<noteq> ''approved'' \<and> status \<noteq> ''rejected''
      then (Inl ''approval resolve status must be approved or rejected'', s)
      else case approvalStore_resolve (sv_approval s) approvalID status (en_clock e 50) of
        Inl err \<Rightarrow> (Inl err, s)
      | Inr (item, items) \<Rightarrow>
          let s1 = s\<lparr>sv_approval := items\<rparr>;
              s2 = s1\<lparr>sv_state := updateApprovalsPending (sv_state s1) (approvalStore_count items)\<rparr>;
              undo = (\<lambda>t. t\<lparr>sv_approval := sv_approval s, sv_state := sv_state s\<rparr>);
              undo_all = (\<lambda>t. restore_event e (sv_event s) (restore_room e (sv_reviewRoom s) (undo t)))
          in event_or (service_event e 0 s2 ''approval.resolved'' (ap_DecisionSurface item) (ap_WorkItemID item)
                         (ap_Stage item) [(''status'', JString (ap_Status item))])
               undo
               (suggest_or e 1 (reviewRoomSuggestionForApproval (en_clock e 51) item) undo_all
                  (room_or (clear_rejection e item) undo_all (persist_or e undo_all item))) s2)"

fun mergeRuntimeModels_from :: "string list \<Rightarrow> string list \<Rightarrow> string list" where
  "mergeRuntimeModels_from items [] = items"
| "mergeRuntimeModels_from items (raw # rest) =
     (let value = TrimSpace raw in
      if value = '''' \<or> value \<in> set items then mergeRuntimeModels_from items rest
      else mergeRuntimeModels_from (items @ [value]) rest)"

definition mergeRuntimeModels :: "string list list \<Rightarrow> string list" where
  "mergeRuntimeModels groups = mergeRuntimeModels_from [] (concat groups)"

fun split_comma :: "string \<Rightarrow> string list" where
  "split_comma [] = [[]]"
| "split_comma (d # s) =
     (if d = CHR '','' then [] # split_comma s
      else case split_comma s of [] \<Rightarrow> [[d]] | p # ps \<Rightarrow> (d # p) # ps)"

definition splitEnvModels :: "string \<Rightarrow> string list" where
  "splitEnvModels value =
     (let raw = TrimSpace value
      in if raw = '''' then [] else filter (\<lambda>v. v \<noteq> '''') (map TrimSpace (split_comma raw)))"

definition runtimeModelsFromEnv :: "env \<Rightarrow> string list" where
  "runtimeModelsFromEnv e = mergeRuntimeModels [splitEnvModels (en_MODELS e), splitEnvModels (en_MODEL e)]"

definition CreatePreflight :: "env \<Rightarrow> PreflightRecord \<Rightarrow> Service \<Rightarrow> unit outcome" where
  "CreatePreflight e item0 s =
     (let item = item0\<lparr>pf_ModelsUsed := Some (mergeRuntimeModels [elems (pf_ModelsUsed item0), runtimeModelsFromEnv e])\<rparr>
      in case preflightStore_create (sv_preflight s) item of
           Inl err \<Rightarrow> (Inl err, s)
         | Inr items \<Rightarrow>
             let s1 = s\<lparr>sv_preflight := items\<rparr>; undo = (\<lambda>t. t\<lparr>sv_preflight := sv_preflight s\<rparr>)
             in event_or (newSystemEvent e 0 s1 ''preflight.created''
                            [(''record_id'', JString (pf_RecordID item)), (''status'', JString (pf_Status item)),
                             (''decision'', JString (pf_Decision item))])
                  undo
                  (persist_or e (\<lambda>t. restore_event e (sv_event s) (undo t)) ()) s1)"

definition CreatePolicy :: "env \<Rightarrow> PolicyDecision \<Rightarrow> Service \<Rightarrow> unit outcome" where
  "CreatePolicy e item s =
     (case policyStore_create (sv_policy s) item of
        Inl err \<Rightarrow> (Inl err, s)
      | Inr items \<Rightarrow>
          let s1 = s\<lparr>sv_policy := items\<rparr>; undo = (\<lambda>t. t\<lparr>sv_policy := newPolicyStore (sv_policy s)\<rparr>)
          in event_or (newSystemEvent e 0 s1 ''policy.created''
                         [(''decision_id'', JString (pd_DecisionID item)), (''decision'', JString (pd_Decision item)),
                          (''mode'', JString (pd_Mode item))])
               undo
               (persist_or e (\<lambda>t. restore_event e (sv_event s) (undo t)) ()) s1)"

definition EvaluatePolicy ::
  "env \<Rightarrow> string \<Rightarrow> string \<Rightarrow> string \<Rightarrow> string \<Rightarrow> string \<Rightarrow> string \<Rightarrow> bool \<Rightarrow> Service \<Rightarrow> PolicyDecision outcome" where
  "EvaluatePolicy e decisionID intent scope risk novelty tokenClass requiresApproval s =
     (let (mode, decision, reasons) = decidePolicy intent risk novelty tokenClass requiresApproval;
          item = \<lparr>pd_DecisionID = decisionID, pd_Intent = intent, pd_Scope = scope, pd_Risk = risk, pd_Novelty = novelty,
                  pd_TokenClass = tokenClass, pd_RequiresApproval = requiresApproval, pd_Mode = mode,
                  pd_Decision = decision, pd_Reasons = Some reasons, pd_CreatedAt = en_clock e 50\<rparr>
      in case CreatePolicy e item s of
           (Inl err, s') \<Rightarrow> (Inl err, s')
         | (Inr _, s') \<Rightarrow> (Inr item, s'))"

end
