(* ===== verification/Write_Guard.thy ===== *)
theory Write_Guard
  imports Json_Value
begin

text \<open>
  The write-security guard of the HTTP layer (\<open>internal/api/security_guard.go\<close> and the request
  helpers of \<open>internal/api/router.go\<close>): per-caller failure counters with a sliding window, a
  throttle once the threshold is reached, and the security signals a failure raises. A function
  that raises signals returns them in order, for the caller to hand to the service. Durations are
  in nanoseconds. The parsers of \<open>net/url\<close> and \<open>net\<close> that decide origins and loopback addresses are
  the arguments \<open>parseURL\<close> (scheme and host of a URL) and \<open>loopbackIP\<close>.
\<close>

section \<open>Requests\<close>

record Request =
  rq_Method :: string
  rq_Path :: string
  rq_Header :: "string \<Rightarrow> string"
  rq_RemoteAddr :: string
  rq_Host :: string
  rq_URLHost :: string
  rq_TLS :: bool

definition requestActor :: "Request \<Rightarrow> string" where
  "requestActor r = TrimSpace (rq_Header r ''X-Layer-Actor'')"

definition index_byte :: "char \<Rightarrow> string \<Rightarrow> nat option" where
  "index_byte c s = (let n = length (takeWhile (\<lambda>d. d \<noteq> c) s) in if n < length s then Some n else None)"

definition last_byte :: "char \<Rightarrow> string \<Rightarrow> nat option" where
  "last_byte c s = map_option (\<lambda>i. length s - 1 - i) (index_byte c (rev s))"

text \<open>The host part of \<open>net.SplitHostPort\<close>, or \<open>None\<close> where it reports an error.\<close>

definition split_host :: "string \<Rightarrow> string option" where
  "split_host hostport =
     (case last_byte (CHR '':'') hostport of
        None \<Rightarrow> None
      | Some i \<Rightarrow>
          if hostport \<noteq> [] \<and> hd hostport = CHR ''['' then
            (case index_byte (CHR '']'') hostport of
               None \<Rightarrow> None
             | Some e \<Rightarrow>
                 if e + 1 \<noteq> i then None
                 else if index_byte (CHR ''['') (drop 1 hostport) \<noteq> None then None
                 else if index_byte (CHR '']'') (drop (e + 1) hostport) \<noteq> None then None
                 else Some (drop 1 (take e hostport)))
          else if index_byte (CHR '':'') (take i hostport) \<noteq> None then None
          else if index_byte (CHR ''['') hostport \<noteq> None then None
          else if index_byte (CHR '']'') hostport \<noteq> None then None
          else Some (take i hostport))"

definition remoteHost :: "string \<Rightarrow> string" where
  "remoteHost raw =
     (let raw = TrimSpace raw
      in if raw = '''' then '''' else case split_host raw of Some host \<Rightarrow> host | None \<Rightarrow> raw)"

definition requestScheme :: "Request \<Rightarrow> string" where
  "requestScheme r =
     (let forwarded = TrimSpace (rq_Header r ''X-Forwarded-Proto'');
          value = TrimSpace (hd (split_on (CHR '','') forwarded))
      in if forwarded \<noteq> '''' \<and> value \<noteq> '''' then ToLower value
         else if rq_TLS r then ''https'' else ''http'')"

definition requestHost :: "Request \<Rightarrow> string" where
  "requestHost r = (let host = TrimSpace (rq_Host r) in if host \<noteq> '''' then host else TrimSpace (rq_URLHost r))"

text \<open>\<open>strings.EqualFold\<close>, on the letters whose simple folding orbit contains an ASCII letter.\<close>

fun fold_case :: "string \<Rightarrow> string" where
  "fold_case [] = []"
| "fold_case (c # s) =
     (if starts_with (c # s) [CHR 0xC5, CHR 0xBF] then CHR ''s'' # fold_case (drop 1 s)
      else if starts_with (c # s) [CHR 0xE2, CHR 0x84, CHR 0xAA] then CHR ''k'' # fold_case (drop 2 s)
      else lower_char c # fold_case s)"

definition EqualFold :: "string \<Rightarrow> string \<Rightarrow> bool" where
  "EqualFold a b \<longleftrightarrow> fold_case a = fold_case b"

type_synonym url_parser = "string \<Rightarrow> (string \<times> string) option"

definition matchesRequestOrigin :: "url_parser \<Rightarrow> string \<Rightarrow> Request \<Rightarrow> bool" where
  "matchesRequestOrigin parseURL raw r =
     (case parseURL (TrimSpace raw) of
        None \<Rightarrow> False
      | Some (scheme, host) \<Rightarrow>
          if scheme = '''' \<or> host = '''' then False
          else EqualFold host (requestHost r) \<and> EqualFold scheme (requestScheme r))"

definition originAllowed :: "url_parser \<Rightarrow> Request \<Rightarrow> bool" where
  "originAllowed parseURL r =
     (let origin = TrimSpace (rq_Header r ''Origin''); referer = TrimSpace (rq_Header r ''Referer'')
      in if origin \<noteq> '''' then matchesRequestOrigin parseURL origin r
         else if referer \<noteq> '''' then matchesRequestOrigin parseURL referer r
         else True)"

definition trim_brackets :: "string \<Rightarrow> string" where
  "trim_brackets s =
     (let cut = dropWhile (\<lambda>c. c = CHR ''['' \<or> c = CHR '']'') in rev (cut (rev (cut s))))"

definition isLoopbackHost :: "(string \<Rightarrow> bool) \<Rightarrow> string \<Rightarrow> bool" where
  "isLoopbackHost loopbackIP raw =
     (let raw = trim_brackets (TrimSpace (ToLower raw))
      in if raw = '''' then False else if raw = ''localhost'' then True else loopbackIP raw)"

definition requestFromLoopback :: "(string \<Rightarrow> bool) \<Rightarrow> Request \<Rightarrow> bool" where
  "requestFromLoopback loopbackIP r =
     (if \<not> isLoopbackHost loopbackIP (remoteHost (rq_RemoteAddr r)) then False
      else let forwarded = TrimSpace (rq_Header r ''X-Forwarded-For'')
           in forwarded = '''' \<or>
              list_all (\<lambda>item. isLoopbackHost loopbackIP (TrimSpace item)) (split_on (CHR '','') forwarded))"

section \<open>Counters\<close>

definition minute :: int where
  "minute = 60 * 10 ^ 9"

definition writeAuthFailureThreshold :: nat where
  "writeAuthFailureThreshold = 5"

definition writeAuthFailureWindow :: int where
  "writeAuthFailureWindow = 2 * minute"

definition writeAuthThrottleWindow :: int where
  "writeAuthThrottleWindow = 90 * 10 ^ 9"

definition writeProbeThreshold :: nat where
  "writeProbeThreshold = 3"

definition writeProbeWindow :: int where
  "writeProbeWindow = 10 * minute"

lemmas guard_consts =
  minute_def writeAuthFailureThreshold_def writeAuthFailureWindow_def writeAuthThrottleWindow_def
  writeProbeThreshold_def writeProbeWindow_def

record writeSecurityCounter =
  wc_Count :: nat
  wc_LastAt :: time
  wc_BlockedUntil :: time
  wc_FirstSeen :: bool
  wc_Escalated :: bool

definition zero_counter :: writeSecurityCounter where
  "zero_counter = \<lparr>wc_Count = 0, wc_LastAt = 0, wc_BlockedUntil = 0, wc_FirstSeen = False, wc_Escalated = False\<rparr>"

type_synonym counters = "string \<Rightarrow> writeSecurityCounter option"

definition securitySubjectKey :: "Request \<Rightarrow> string" where
  "securitySubjectKey r =
     (let actor = requestActor r; actor = (if actor = '''' then ''anonymous'' else actor);
          host = remoteHost (rq_RemoteAddr r); host = (if host = '''' then ''unknown'' else host)
      in ToLower (TrimSpace actor) @ ''|'' @ ToLower (TrimSpace host))"

definition counterKey :: "string \<Rightarrow> Request \<Rightarrow> string" where
  "counterKey scope r = TrimSpace scope @ ''|'' @ securitySubjectKey r"

definition counter_expired :: "time \<Rightarrow> writeSecurityCounter \<Rightarrow> bool" where
  "counter_expired now t \<longleftrightarrow>
     \<not> (\<not> IsZero (wc_BlockedUntil t) \<and> now < wc_BlockedUntil t) \<and>
     (IsZero (wc_LastAt t) \<or> now - wc_LastAt t > 2 * writeProbeWindow)"

definition pruneExpiredLocked :: "time \<Rightarrow> counters \<Rightarrow> counters" where
  "pruneExpiredLocked now cs =
     (\<lambda>k. case cs k of None \<Rightarrow> None | Some t \<Rightarrow> if counter_expired now t then None else Some t)"

definition guard_blocked :: "string \<Rightarrow> Request \<Rightarrow> time \<Rightarrow> counters \<Rightarrow> int option" where
  "guard_blocked scope r now cs =
     (case cs (counterKey scope r) of
        None \<Rightarrow> None
      | Some t \<Rightarrow> if IsZero (wc_BlockedUntil t) \<or> \<not> now < wc_BlockedUntil t then None
                  else Some (wc_BlockedUntil t - now))"

definition guard_clear :: "string \<Rightarrow> Request \<Rightarrow> time \<Rightarrow> counters \<Rightarrow> counters" where
  "guard_clear scope r now cs = pruneExpiredLocked now (cs(counterKey scope r := None))"

text \<open>
  The update of one tracker: the reset of an idle one, the count, the two one-shot flags and the
  block. The result carries \<open>first\<close> and \<open>escalated\<close>.
\<close>

definition observe_tracker ::
  "time \<Rightarrow> int \<Rightarrow> nat \<Rightarrow> int \<Rightarrow> writeSecurityCounter \<Rightarrow> writeSecurityCounter \<times> bool \<times> bool" where
  "observe_tracker now window threshold blockDuration t =
     (let t = (if (IsZero (wc_BlockedUntil t) \<or> \<not> now < wc_BlockedUntil t) \<and>
                  (IsZero (wc_LastAt t) \<or> now - wc_LastAt t > window)
               then zero_counter else t);
          t = t\<lparr>wc_Count := wc_Count t + 1, wc_LastAt := now\<rparr>;
          first = (\<not> wc_FirstSeen t);
          t = t\<lparr>wc_FirstSeen := True\<rparr>;
          escalated = (0 < threshold \<and> wc_Count t \<ge> threshold \<and> \<not> wc_Escalated t);
          t = (if escalated
               then t\<lparr>wc_Escalated := True,
                      wc_BlockedUntil := (if blockDuration > 0 then now + blockDuration else wc_BlockedUntil t)\<rparr>
               else t)
      in (t, first, escalated))"

definition observeFailure ::
  "string \<Rightarrow> Request \<Rightarrow> int \<Rightarrow> nat \<Rightarrow> int \<Rightarrow> time \<Rightarrow> counters \<Rightarrow>
   (nat \<times> time \<times> bool \<times> bool \<times> time) \<times> counters" where
  "observeFailure scope r window threshold blockDuration now cs =
     (let key = counterKey scope r;
          (t, first, escalated) =
            observe_tracker now window threshold blockDuration
              (case cs key of None \<Rightarrow> zero_counter | Some t \<Rightarrow> t)
      in ((wc_Count t, wc_BlockedUntil t, first, escalated, now), pruneExpiredLocked now (cs(key \<mapsto> t))))"

section \<open>Signals\<close>

record SecuritySignalInput =
  si_Signal :: string
  si_Summary :: string
  si_Severity :: string
  si_Source :: string
  si_Ref :: string
  si_Evidence :: "string list"
  si_Data :: "jobject option"
  si_Promote :: bool
  si_ReviewReason :: string
  si_ReviewRule :: string

definition securitySubjectLabel :: "Request \<Rightarrow> string" where
  "securitySubjectLabel r =
     (let actor = requestActor r; host = remoteHost (rq_RemoteAddr r)
      in (if actor = '''' then ''anonymous actor'' else ''actor `'' @ actor @ ''`'') @ '' from '' @
         (if host = '''' then ''unknown remote'' else ''remote `'' @ host @ ''`''))"

definition blankToUnknown :: "string \<Rightarrow> string" where
  "blankToUnknown value = (let v = TrimSpace value in if v = '''' then ''unknown'' else v)"

definition opt_entry :: "string \<Rightarrow> string \<Rightarrow> jobject" where
  "opt_entry key value = (if value \<noteq> '''' then [(key, JString value)] else [])"

definition securitySignalData :: "(time \<Rightarrow> string) \<Rightarrow> Request \<Rightarrow> string \<Rightarrow> nat \<Rightarrow> time \<Rightarrow> jobject" where
  "securitySignalData fmt r reason count blockedUntil =
     [(''method'', JString (TrimSpace (rq_Method r))),
      (''path'', JString (TrimSpace (rq_Path r))),
      (''actor'', JString (requestActor r)),
      (''remote_host'', JString (remoteHost (rq_RemoteAddr r))),
      (''request_host'', JString (requestHost r)),
      (''request_scheme'', JString (requestScheme r)),
      (''count'', JInt (int count)),
      (''expected_origin'', JString (requestScheme r @ ''://'' @ requestHost r))] @
     opt_entry ''reason'' reason @
     opt_entry ''origin'' (TrimSpace (rq_Header r ''Origin'')) @
     opt_entry ''referer'' (TrimSpace (rq_Header r ''Referer'')) @
     opt_entry ''forwarded_for'' (TrimSpace (rq_Header r ''X-Forwarded-For'')) @
     (if \<not> IsZero blockedUntil then [(''blocked_until'', JString (fmt blockedUntil))] else [])"

definition opt_line :: "string \<Rightarrow> string \<Rightarrow> string list" where
  "opt_line key value = (if value \<noteq> '''' then [key @ value] else [])"

definition securitySignalEvidence :: "Request \<Rightarrow> string \<Rightarrow> nat \<Rightarrow> string list" where
  "securitySignalEvidence r reason count =
     [''method:'' @ TrimSpace (rq_Method r),
      ''path:'' @ TrimSpace (rq_Path r),
      ''remote:'' @ blankToUnknown (remoteHost (rq_RemoteAddr r)),
      ''actor:'' @ blankToUnknown (requestActor r),
      ''count:'' @ Itoa (int count)] @
     opt_line ''reason:'' reason @
     opt_line ''origin:'' (TrimSpace (rq_Header r ''Origin'')) @
     opt_line ''referer:'' (TrimSpace (rq_Header r ''Referer'')) @
     opt_line ''forwarded_for:'' (TrimSpace (rq_Header r ''X-Forwarded-For''))"

definition first_signal :: "string \<Rightarrow> string \<Rightarrow> string \<Rightarrow> jobject \<Rightarrow> string list \<Rightarrow> SecuritySignalInput" where
  "first_signal signal summary source data evidence =
     \<lparr>si_Signal = signal, si_Summary = summary, si_Severity = ''medium'', si_Source = source, si_Ref = '''',
      si_Evidence = evidence, si_Data = Some data, si_Promote = False, si_ReviewReason = '''', si_ReviewRule = ''''\<rparr>"

definition escalated_signal ::
  "string \<Rightarrow> string \<Rightarrow> string \<Rightarrow> string \<Rightarrow> string \<Rightarrow> jobject \<Rightarrow> string list \<Rightarrow> SecuritySignalInput" where
  "escalated_signal signal summary source reason rule data evidence =
     \<lparr>si_Signal = signal, si_Summary = summary, si_Severity = ''high'', si_Source = source, si_Ref = '''',
      si_Evidence = evidence, si_Data = Some data, si_Promote = True, si_ReviewReason = reason, si_ReviewRule = rule\<rparr>"

definition recordAuthFailure ::
  "(time \<Rightarrow> string) \<Rightarrow> Request \<Rightarrow> string \<Rightarrow> time \<Rightarrow> counters \<Rightarrow> int option \<times> SecuritySignalInput list \<times> counters" where
  "recordAuthFailure fmt r reason now0 cs =
     (let ((count, blockedUntil, first, escalated, now), cs1) =
            observeFailure ''write_auth'' r writeAuthFailureWindow writeAuthFailureThreshold
              writeAuthThrottleWindow now0 cs;
          data = securitySignalData fmt r reason count blockedUntil;
          evidence = securitySignalEvidence r reason count;
          signals =
            (if first
             then [first_signal ''write_auth_rejected''
                     (''Write auth rejected for '' @ securitySubjectLabel r @ ''.'') ''api.auth'' data evidence]
             else []) @
            (if escalated
             then [escalated_signal ''write_auth_bruteforce_detected''
                     (''Repeated write-auth failures reached the throttle threshold for '' @
                      securitySubjectLabel r @ ''; inspect for hostile or misconfigured agent activity.'')
                     ''api.auth''
                     (''repeated write-auth failures suggest brute-force or misconfigured agent traffic '' @
                      ''that needs founder review before trusting the caller'')
                     ''review_room.auto.security_write_auth_bruteforce'' data evidence]
             else [])
      in (if \<not> IsZero blockedUntil \<and> blockedUntil > now then Some (blockedUntil - now) else None, signals, cs1))"

definition recordCrossOriginWrite ::
  "(time \<Rightarrow> string) \<Rightarrow> Request \<Rightarrow> time \<Rightarrow> counters \<Rightarrow> SecuritySignalInput list \<times> counters" where
  "recordCrossOriginWrite fmt r now cs =
     (let ((count, _, first, escalated, _), cs1) =
            observeFailure ''cross_origin_write'' r writeProbeWindow writeProbeThreshold 0 now cs;
          data = securitySignalData fmt r ''cross_origin_write_blocked'' count 0;
          evidence = securitySignalEvidence r ''cross_origin_write_blocked'' count
      in ((if first
           then [first_signal ''cross_origin_write_blocked''
                   (''Cross-origin write blocked for '' @ securitySubjectLabel r @ ''.'') ''api.same_origin'' data evidence]
           else []) @
          (if escalated
           then [escalated_signal ''cross_origin_write_probe_detected''
                   (''Repeated cross-origin write probes detected for '' @ securitySubjectLabel r @
                    ''; inspect for browser-origin abuse or hostile automation.'')
                   ''api.same_origin''
                   (''repeated cross-origin write probes indicate hostile or misconfigured automation '' @
                    ''that needs founder review before trusting the caller'')
                   ''review_room.auto.security_cross_origin_write_probe'' data evidence]
           else []), cs1))"

definition recordBootstrapProbe ::
  "(time \<Rightarrow> string) \<Rightarrow> Request \<Rightarrow> time \<Rightarrow> counters \<Rightarrow> SecuritySignalInput list \<times> counters" where
  "recordBootstrapProbe fmt r now cs =
     (let ((count, _, first, escalated, _), cs1) =
            observeFailure ''auth_bootstrap'' r writeProbeWindow writeProbeThreshold 0 now cs;
          data = securitySignalData fmt r ''auth_bootstrap_requires_loopback'' count 0;
          evidence = securitySignalEvidence r ''auth_bootstrap_requires_loopback'' count
      in ((if first
           then [first_signal ''auth_bootstrap_blocked''
                   (''Non-loopback auth bootstrap blocked for '' @ securitySubjectLabel r @ ''.'')
                   ''api.auth_bootstrap'' data evidence]
           else []) @
          (if escalated
           then [escalated_signal ''auth_bootstrap_probe_detected''
                   (''Repeated non-loopback auth bootstrap probes detected for '' @ securitySubjectLabel r @
                    ''; inspect for hostile agent bootstrap attempts.'')
                   ''api.auth_bootstrap''
                   (''repeated non-loopback bootstrap probes indicate hostile or misconfigured automation '' @
                    ''that needs founder review before trusting the caller'')
                   ''review_room.auto.security_auth_bootstrap_probe'' data evidence]
           else []), cs1))"

section \<open>The gate in front of every write\<close>

text \<open>The answer of a gate: the handler goes on, or the response with status, message and the
  Retry-After seconds is written.\<close>

datatype gate = Pass | Reject nat string "int option"

definition writeThrottledAuthError :: "int \<Rightarrow> gate" where
  "writeThrottledAuthError retryAfter =
     (let seconds = (retryAfter + 5 * 10 ^ 8) div 10 ^ 9
      in Reject 429 ''write auth temporarily throttled'' (Some (if seconds < 1 then 1 else seconds)))"

definition requireSameOriginWrite ::
  "url_parser \<Rightarrow> (time \<Rightarrow> string) \<Rightarrow> time \<Rightarrow> Request \<Rightarrow> counters \<Rightarrow> gate \<times> SecuritySignalInput list \<times> counters" where
  "requireSameOriginWrite parseURL fmt now r cs =
     (if originAllowed parseURL r then (Pass, [], cs)
      else let (signals, cs1) = recordCrossOriginWrite fmt r now cs
           in (Reject 403 ''cross-origin write blocked'' None, signals, cs1))"

definition auth_failure ::
  "(time \<Rightarrow> string) \<Rightarrow> time \<Rightarrow> Request \<Rightarrow> string \<Rightarrow> string \<Rightarrow> counters \<Rightarrow> gate \<times> SecuritySignalInput list \<times> counters" where
  "auth_failure fmt now r reason message cs =
     (case recordAuthFailure fmt r reason now cs of
        (Some retryAfter, signals, cs1) \<Rightarrow> (writeThrottledAuthError retryAfter, signals, cs1)
      | (None, signals, cs1) \<Rightarrow> (Reject 401 message None, signals, cs1))"

definition requireWriteAuth ::
  "url_parser \<Rightarrow> (time \<Rightarrow> string) \<Rightarrow> clock \<Rightarrow> bool \<Rightarrow> (string \<Rightarrow> bool) \<Rightarrow> Request \<Rightarrow> counters \<Rightarrow>
   gate \<times> SecuritySignalInput list \<times> counters" where
  "requireWriteAuth parseURL fmt ts enabled authorized r cs =
     (case requireSameOriginWrite parseURL fmt (ts 0) r cs of
        (Reject a b c, signals, cs1) \<Rightarrow> (Reject a b c, signals, cs1)
      | (Pass, _, _) \<Rightarrow>
          if \<not> enabled then (Pass, [], cs) else
          (case guard_blocked ''write_auth'' r (ts 0) cs of
             Some retryAfter \<Rightarrow> (writeThrottledAuthError retryAfter, [], cs)
           | None \<Rightarrow>
               let header = TrimSpace (rq_Header r ''Authorization'') in
               if \<not> starts_with header ''Bearer ''
               then auth_failure fmt (ts 1) r ''missing_bearer_token'' ''missing bearer token'' cs
               else let token = TrimSpace (drop (length ''Bearer '') header) in
                 if \<not> authorized token
                 then auth_failure fmt (ts 1) r ''invalid_bearer_token'' ''invalid bearer token'' cs
                 else (Pass, [], guard_clear ''write_auth'' r (ts 1) cs)))"

definition requireAuthBootstrap ::
  "url_parser \<Rightarrow> (string \<Rightarrow> bool) \<Rightarrow> (time \<Rightarrow> string) \<Rightarrow> clock \<Rightarrow> bool \<Rightarrow> (string \<Rightarrow> bool) \<Rightarrow> Request \<Rightarrow> counters \<Rightarrow>
   gate \<times> SecuritySignalInput list \<times> counters" where
  "requireAuthBootstrap parseURL loopbackIP fmt ts enabled authorized r cs =
     (if enabled then requireWriteAuth parseURL fmt ts enabled authorized r cs else
      case requireSameOriginWrite parseURL fmt (ts 0) r cs of
        (Reject a b c, signals, cs1) \<Rightarrow> (Reject a b c, signals, cs1)
      | (Pass, _, _) \<Rightarrow>
          if \<not> requestFromLoopback loopbackIP r
          then let (signals, cs1) = recordBootstrapProbe fmt r (ts 1) cs
               in (Reject 403 ''auth bootstrap requires loopback request'' None, signals, cs1)
          else (Pass, [], cs))"

section \<open>Behaviour of the counters\<close>

lemma IsZero_simps [simp]: "IsZero 0" "t \<noteq> 0 \<Longrightarrow> \<not> IsZero t"
  by (simp_all add: IsZero_def)

text \<open>Pruning never changes whether, or for how long, a caller is blocked from now on.\<close>

lemma prune_blocked:
  assumes "now \<le> later"
  shows "guard_blocked scope r later (pruneExpiredLocked now cs) = guard_blocked scope r later cs"
  using assms
  by (auto simp: guard_blocked_def pruneExpiredLocked_def counter_expired_def split: option.splits)

lemma observe_other:
  assumes "counterKey scope r \<noteq> counterKey scope' r'" "now \<le> later"
  shows "guard_blocked scope' r' later (snd (observeFailure scope r w th d now cs)) =
         guard_blocked scope' r' later cs"
  using assms
  by (simp add: observeFailure_def Let_def prune_blocked split: prod.splits)
    (auto simp: guard_blocked_def)

lemma clear_unblocks:
  "guard_blocked scope r later (guard_clear scope r now cs) = None"
  by (simp add: guard_clear_def guard_blocked_def pruneExpiredLocked_def)

text \<open>A run of failures of one caller: the tracker after failures at the given instants.\<close>

fun failures :: "string \<Rightarrow> Request \<Rightarrow> int \<Rightarrow> nat \<Rightarrow> int \<Rightarrow> time list \<Rightarrow> counters \<Rightarrow> counters" where
  "failures scope r w th d [] cs = cs"
| "failures scope r w th d (t # ts) cs = failures scope r w th d ts (snd (observeFailure scope r w th d t cs))"

lemma observe_lookup:
  assumes "now \<noteq> 0"
  shows "snd (observeFailure scope r w th d now cs) (counterKey scope r) =
         Some (fst (observe_tracker now w th d (case cs (counterKey scope r) of None \<Rightarrow> zero_counter | Some t \<Rightarrow> t)))"
proof -
  let ?t = "fst (observe_tracker now w th d (case cs (counterKey scope r) of None \<Rightarrow> zero_counter | Some t \<Rightarrow> t))"
  have "wc_LastAt ?t = now" by (simp add: observe_tracker_def Let_def)
  then have "\<not> counter_expired now ?t" using assms
    by (simp add: counter_expired_def guard_consts)
  then show ?thesis
    by (auto simp: observeFailure_def Let_def pruneExpiredLocked_def split: prod.splits)
qed

text \<open>Failures that follow each other within the window, counted from the instant \<open>l0\<close>.\<close>

fun paced :: "int \<Rightarrow> time \<Rightarrow> time list \<Rightarrow> bool" where
  "paced w l0 [] = True"
| "paced w l0 (t # ts) = (0 < t \<and> t - l0 \<le> w \<and> paced w t ts)"

text \<open>
  Below the threshold a paced run only counts. The tracker of an unescalated run of \<open>n\<close> failures
  whose latest was at \<open>l0\<close>:
\<close>

definition counting :: "nat \<Rightarrow> time \<Rightarrow> writeSecurityCounter" where
  "counting n l0 = \<lparr>wc_Count = n, wc_LastAt = l0, wc_BlockedUntil = 0, wc_FirstSeen = True, wc_Escalated = False\<rparr>"

definition throttled :: "nat \<Rightarrow> time \<Rightarrow> time \<Rightarrow> writeSecurityCounter" where
  "throttled n l0 until = \<lparr>wc_Count = n, wc_LastAt = l0, wc_BlockedUntil = until, wc_FirstSeen = True, wc_Escalated = True\<rparr>"

lemma observe_counting:
  assumes "0 < l0" "now - l0 \<le> w" "0 < d"
  shows "fst (observe_tracker now w th d (counting n l0)) =
    (if 0 < th \<and> th \<le> n + 1 then throttled (n + 1) now (now + d) else counting (n + 1) now)"
  using assms by (simp add: observe_tracker_def counting_def throttled_def Let_def)

lemma observe_throttled:
  assumes "0 < l0" "now - l0 \<le> w"
  shows "fst (observe_tracker now w th d (throttled n l0 until)) = throttled (n + 1) now until"
  using assms by (simp add: observe_tracker_def throttled_def Let_def)

lemma failures_counting:
  assumes "paced w l0 ts" "cs (counterKey scope r) = Some (counting n l0)" "0 < l0" "0 < d"
    "n + length ts < th"
  shows "failures scope r w th d ts cs (counterKey scope r) = Some (counting (n + length ts) (last (l0 # ts)))"
  using assms
proof (induction ts arbitrary: l0 n cs)
  case (Cons t ts)
  have "snd (observeFailure scope r w th d t cs) (counterKey scope r) = Some (counting (Suc n) t)"
    using Cons.prems by (simp add: observe_lookup observe_counting)
  then show ?case using Cons.IH [of t "snd (observeFailure scope r w th d t cs)" "Suc n"] Cons.prems by simp
qed simp

lemma failures_throttled:
  assumes "paced w l0 ts" "cs (counterKey scope r) = Some (throttled n l0 until)" "0 < l0"
  shows "failures scope r w th d ts cs (counterKey scope r) =
    Some (throttled (n + length ts) (last (l0 # ts)) until)"
  using assms
proof (induction ts arbitrary: l0 n cs)
  case (Cons t ts)
  have "snd (observeFailure scope r w th d t cs) (counterKey scope r) = Some (throttled (Suc n) t until)"
    using Cons.prems by (simp add: observe_lookup observe_throttled)
  then show ?case using Cons.IH [of t "snd (observeFailure scope r w th d t cs)" "Suc n"] Cons.prems by simp
qed simp

lemma failures_append:
  "failures scope r w th d (xs @ ys) cs = failures scope r w th d ys (failures scope r w th d xs cs)"
  by (induction xs arbitrary: cs) simp_all

text \<open>The failure that reaches the threshold starts the block.\<close>

lemma failures_reach_threshold:
  assumes "cs (counterKey scope r) = None" "paced w t (ts @ [l])" "0 < t" "0 < d" "length ts + 2 = th"
  shows "failures scope r w th d (t # ts @ [l]) cs (counterKey scope r) = Some (throttled th l (l + d))"
proof -
  let ?k = "counterKey scope r" and ?c = "snd (observeFailure scope r w th d t cs)"
  have c1: "?c ?k = Some (counting 1 t)"
    using assms by (simp add: observe_lookup) (auto simp: observe_tracker_def zero_counter_def counting_def Let_def)
  have p: "paced w t ts" "0 < l" "l - last (t # ts) \<le> w" "0 < last (t # ts)"
    using assms(2,3) by (induction ts arbitrary: t) auto
  let ?f = "failures scope r w th d ts ?c"
  have "?f ?k = Some (counting (1 + length ts) (last (t # ts)))"
    using failures_counting [of w t ts ?c scope r 1 d th] p(1) c1 assms by simp
  then have "snd (observeFailure scope r w th d l ?f) ?k = Some (throttled th l (l + d))"
    using observe_counting [OF p(4) p(3) assms(4), of th "1 + length ts"] assms(5) p(2)
    by (simp add: observe_lookup)
  then show ?thesis by (simp add: failures_append)
qed

lemma blocked_throttled:
  "cs (counterKey scope r) = Some (throttled n l until) \<Longrightarrow> 0 < until \<Longrightarrow>
   guard_blocked scope r later cs = (if later < until then Some (until - later) else None)"
  by (simp add: guard_blocked_def throttled_def)

end
