(* ===== verification/Service_Runs.thy ===== *)
theory Service_Runs
  imports Service_Ops Write_Guard
begin

text \<open>
  Gateway calls, executions and verifications (\<open>service_control.go\<close>, \<open>adapter.go\<close>), security signals
  (\<open>security_signal.go\<close>), proposals (\<open>service_proposal.go\<close>), agent jobs and their chains
  (\<open>service_job.go\<close>, \<open>service_job_chain.go\<close>) and the reclaim of running jobs at start-up.
\<close>

section \<open>Gateway calls\<close>

record gateway_adapter =
  ga_DispatchEnabled :: bool
  ga_RequiredMode :: string
  ga_Prepare :: "GatewayCall \<Rightarrow> PolicyDecision \<Rightarrow> error + GatewayCall"
  ga_Dispatch :: "GatewayCall \<Rightarrow> PolicyDecision \<Rightarrow> jobject option \<Rightarrow> error + GatewayCall"

definition prepareRecordedGatewayCall :: "GatewayCall \<Rightarrow> PolicyDecision \<Rightarrow> GatewayCall" where
  "prepareRecordedGatewayCall call decision =
     call\<lparr>gc_Status := (if gc_Status call = '''' then ''recorded'' else gc_Status call),
          gc_Notes := Some (elems (gc_Notes call)),
          gc_AttemptCount := 0, gc_LastHTTPStatus := None, gc_LastError := None, gc_ResponsePreview := None,
          gc_DispatchedAt := None,
          gc_TokenBudget := (if gc_TokenBudget call = 0
                             then (if pd_TokenClass decision = ''large'' then 64000
                                   else if pd_TokenClass decision = ''medium'' then 16000 else 8000)
                             else gc_TokenBudget call)\<rparr>"

definition add_note :: "string \<Rightarrow> GatewayCall \<Rightarrow> GatewayCall" where
  "add_note note call = call\<lparr>gc_Notes := Some (appendUniqueString (elems (gc_Notes call)) note)\<rparr>"

definition recordGatewayAdapter :: gateway_adapter where
  "recordGatewayAdapter =
     \<lparr>ga_DispatchEnabled = False, ga_RequiredMode = ''single'',
      ga_Prepare = (\<lambda>call decision. Inr (add_note ''dispatch:recorded-intent''
                      (add_note ''adapter:record'' (prepareRecordedGatewayCall call decision)))),
      ga_Dispatch = (\<lambda>call decision payload. Inr call)\<rparr>"

definition packetGatewayAdapter :: "(gateway_adapter \<times> string) option \<Rightarrow> string \<Rightarrow> gateway_adapter" where
  "packetGatewayAdapter base reason =
     (let name = (case base of None \<Rightarrow> ''packet'' | Some (_, n) \<Rightarrow> if TrimSpace n \<noteq> '''' then TrimSpace n else ''packet'')
      in \<lparr>ga_DispatchEnabled = False,
          ga_RequiredMode = (case base of None \<Rightarrow> ''single'' | Some (b, _) \<Rightarrow> ga_RequiredMode b),
          ga_Prepare = (\<lambda>call decision.
            let c = add_note ''dispatch:job_packet'' (add_note (''adapter:'' @ name) (prepareRecordedGatewayCall call decision))
            in Inr (if TrimSpace reason \<noteq> '''' then add_note (''dispatch:reason='' @ TrimSpace reason) c else c)),
          ga_Dispatch = (\<lambda>call decision payload. Inr call)\<rparr>)"

definition gatewayEventData :: "GatewayCall \<Rightarrow> jobject" where
  "gatewayEventData item =
     [(''call_id'', JString (gc_CallID item)), (''decision_id'', JString (gc_DecisionID item)),
      (''provider'', JString (gc_Provider item)), (''request_kind'', JString (gc_RequestKind item)),
      (''status'', JString (gc_Status item)), (''attempt_count'', JInt (gc_AttemptCount item))] @
     (case gc_LastHTTPStatus item of None \<Rightarrow> [] | Some n \<Rightarrow> [(''last_http_status'', JInt n)]) @
     (case gc_LastError item of None \<Rightarrow> [] | Some m \<Rightarrow> [(''last_error'', JString m)]) @
     (case gc_ResponsePreview item of None \<Rightarrow> [] | Some m \<Rightarrow> [(''response_preview'', JString m)])"

definition createGatewayCallWithPayload ::
  "env \<Rightarrow> GatewayCall \<Rightarrow> gateway_adapter \<Rightarrow> jobject option \<Rightarrow> Service \<Rightarrow> unit outcome" where
  "createGatewayCallWithPayload e item0 ad payload s =
     (case policyStore_get (sv_policy s) (gc_DecisionID item0) of
        None \<Rightarrow> (Inl ''gateway decision_id not found'', s)
      | Some decision \<Rightarrow>
      let requiredMode = canonicalPolicyMode (ga_RequiredMode ad) in
      if pd_Decision decision \<noteq> ''go'' \<or> canonicalPolicyMode (pd_Mode decision) \<noteq> requiredMode
      then (Inl (''gateway requires a '' @ requiredMode @ ''-mode go policy decision''), s)
      else case ga_Prepare ad item0 decision of Inl err \<Rightarrow> (Inl err, s) | Inr prepared0 \<Rightarrow>
      case (if ga_DispatchEnabled ad then ga_Dispatch ad prepared0 decision payload else Inr prepared0) of
        Inl err \<Rightarrow> (Inl err, s)
      | Inr item \<Rightarrow>
      case gatewayStore_create (sv_gateway s) item of
        Inl err \<Rightarrow> (Inl err, s)
      | Inr items \<Rightarrow>
          let s1 = s\<lparr>sv_gateway := items\<rparr>;
              undo = (\<lambda>t. t\<lparr>sv_gateway := sv_gateway s\<rparr>);
              undo_event = (\<lambda>t. restore_event e (sv_event s) (undo t));
              undo_all = (\<lambda>t. restore_room e (sv_reviewRoom s) (undo_event t));
              save = persist_or e undo_all ();
              failed = (\<lambda>t. if gc_Status item = ''failed''
                            then event_or (newSystemEvent e 2 t ''gateway.failed'' (gatewayEventData item)) undo_event
                                   (suggest_or e 3 (reviewRoomSuggestionForGatewayCall (en_clock e 50) item) undo_all save) t
                            else save t);
              sent = (\<lambda>t. if gc_Status item = ''sent''
                          then event_or (newSystemEvent e 1 t ''gateway.sent'' (gatewayEventData item)) undo_event failed t
                          else failed t)
          in event_or (newSystemEvent e 0 s1 ''gateway.created'' (gatewayEventData item)) undo sent s1)"

definition CreateGatewayCall :: "env \<Rightarrow> gateway_adapter \<Rightarrow> GatewayCall \<Rightarrow> Service \<Rightarrow> unit outcome" where
  "CreateGatewayCall e ad item s = createGatewayCallWithPayload e item ad None s"

section \<open>Executions\<close>

definition CreateExecute :: "env \<Rightarrow> ExecuteRun \<Rightarrow> Service \<Rightarrow> unit outcome" where
  "CreateExecute e item s =
     (case executeStore_create (sv_execute s) item of
        Inl err \<Rightarrow> (Inl err, s)
      | Inr items \<Rightarrow>
          let s1 = s\<lparr>sv_execute := items\<rparr>;
              undo = (\<lambda>t. t\<lparr>sv_execute := newExecuteStore (sv_execute s)\<rparr>);
              undo_all = (\<lambda>t. restore_room e (sv_reviewRoom s) (restore_event e (sv_event s) (undo t)))
          in event_or (newSystemEvent e 0 s1 ''execute.created''
                         [(''execute_id'', JString (er_ExecuteID item)), (''work_item_id'', JString (er_WorkItemID item)),
                          (''policy_decision_id'', JString (er_PolicyDecisionID item)),
                          (''status'', JString (er_Status item)), (''mode'', JString (er_Mode item))])
               undo
               (suggest_or e 1 (reviewRoomSuggestionForExecute (en_clock e 52) item) undo_all
                  (persist_or e undo_all ())) s1)"

text \<open>A run and the error the source returns beside it, if the policy blocks it.\<close>

definition RunExecute ::
  "env \<Rightarrow> string \<Rightarrow> string \<Rightarrow> string \<Rightarrow> string list \<Rightarrow> Service \<Rightarrow> (ExecuteRun \<times> error option) outcome" where
  "RunExecute e executeID workItemID policyDecisionID baseNotes s =
     (case workStore_get (sv_work s) workItemID of
        None \<Rightarrow> (Inl ''execute work_item_id not found'', s)
      | Some workItem \<Rightarrow>
      case policyStore_get (sv_policy s) policyDecisionID of
        None \<Rightarrow> (Inl ''execute policy_decision_id not found'', s)
      | Some decision \<Rightarrow>
          let now = en_clock e 50;
              blocked = (pd_Decision decision = ''hold'' \<or> pd_Mode decision = ''blocked'');
              status = (if blocked then ''failed'' else executeStatusFromDecision decision);
              item = \<lparr>er_ExecuteID = executeID, er_WorkItemID = wi_ID workItem,
                      er_PolicyDecisionID = pd_DecisionID decision, er_Mode = pd_Mode decision, er_Status = status,
                      er_Notes = Some (buildExecuteNotes decision baseNotes), er_StartedAt = now,
                      er_FinishedAt = (if \<not> blocked \<and> status = ''recorded'' then None else Some now)\<rparr>
          in case CreateExecute e item s of
               (Inl err, s') \<Rightarrow> (Inl err, s')
             | (Inr _, s') \<Rightarrow> (Inr (item, if blocked then Some ''execute blocked by policy'' else None), s'))"

section \<open>Verifications\<close>

definition verification_cleared_resolution :: "VerificationRecord \<Rightarrow> string \<Rightarrow> ReviewRoomResolution" where
  "verification_cleared_resolution item scopeEvidence =
     \<lparr>rs_Action = ''resolve'', rs_Reason = ''later verification passed for the same scope'',
      rs_Rule = ''review_room.auto.verification_failed_clear'',
      rs_Evidence = [''verification:'' @ vr_RecordID item, scopeEvidence, ''status:passed''], rs_ResolvedAt = 0\<rparr>"

definition clear_failed_scope :: "env \<Rightarrow> VerificationRecord \<Rightarrow> Service \<Rightarrow> error option \<times> Service" where
  "clear_failed_scope e item s =
     (if vr_Status item = ''passed'' \<and> TrimSpace (vr_Scope item) \<noteq> '''' then
        let scopeEvidence = ''scope:'' @ TrimSpace (vr_Scope item) in
        case autoResolveReviewRoomItemsByEvidenceLocked (now_store e) (sv_reviewRoom s) ''verification.failed''
               scopeEvidence (Some (verification_cleared_resolution item scopeEvidence)) of
          Inl err \<Rightarrow> (Some err, s)
        | Inr (room, resolved) \<Rightarrow>
            if resolved > 0 then (None, s\<lparr>sv_reviewRoom := newReviewRoomStore (now_store e) room\<rparr>) else (None, s)
      else (None, s))"

definition CreateVerification :: "env \<Rightarrow> VerificationRecord \<Rightarrow> Service \<Rightarrow> unit outcome" where
  "CreateVerification e item s =
     (case verificationStore_create (sv_verify s) item of
        Inl err \<Rightarrow> (Inl err, s)
      | Inr items \<Rightarrow>
          let s1 = s\<lparr>sv_verify := items\<rparr>;
              undo = (\<lambda>t. t\<lparr>sv_verify := sv_verify s\<rparr>);
              undo_all = (\<lambda>t. restore_room e (sv_reviewRoom s) (restore_event e (sv_event s) (undo t)));
              save = persist_or e undo_all ();
              review = (case reviewRoomSuggestionForVerification (en_clock e 52) item of
                          Some sug \<Rightarrow> autoOpenReviewRoomItemLocked e 1 sug
                        | None \<Rightarrow> clear_failed_scope e item)
          in event_or (newSystemEvent e 0 s1 ''verification.created''
                         [(''record_id'', JString (vr_RecordID item)), (''scope'', JString (vr_Scope item)),
                          (''status'', JString (vr_Status item))])
               undo (room_or review undo_all save) s1)"

record verify_adapter =
  va_Name :: string
  va_Run :: "string list \<Rightarrow> string \<Rightarrow> string \<times> error option"

definition RunVerification ::
  "env \<Rightarrow> verify_adapter \<Rightarrow> string \<Rightarrow> string \<Rightarrow> string \<Rightarrow> string list \<Rightarrow> string list \<Rightarrow> Service \<Rightarrow>
   (VerificationRecord \<times> error option) outcome" where
  "RunVerification e ad recordID scope workdir command baseNotes s =
     (case normalizeVerificationCommand command of Inl err \<Rightarrow> (Inl err, s) | Inr cmd \<Rightarrow>
      let (output, runErr) = va_Run ad cmd workdir;
          item = \<lparr>vr_RecordID = recordID, vr_Scope = scope, vr_Command = cmd,
                  vr_Status = verificationStatusFromError runErr,
                  vr_Notes = Some (buildVerificationNotes baseNotes output runErr @ [''adapter:'' @ va_Name ad]),
                  vr_StartedAt = en_clock e 60, vr_FinishedAt = Some (en_clock e 61)\<rparr>
      in case CreateVerification e item s of
           (Inl err, s') \<Rightarrow> (Inl err, s')
         | (Inr _, s') \<Rightarrow> (Inr (item, runErr), s'))"

section \<open>Security signals\<close>

definition is_in :: "string \<Rightarrow> char \<Rightarrow> bool" where
  "is_in cs c = list_ex (\<lambda>d. d = c) cs"

definition trim_chars :: "string \<Rightarrow> string \<Rightarrow> string" where
  "trim_chars cs s = rev (dropWhile (is_in cs) (rev (dropWhile (is_in cs) s)))"

definition normalizeSecuritySignalToken :: "string \<Rightarrow> string" where
  "normalizeSecuritySignalToken raw0 =
     (let raw = TrimSpace (ToLower raw0) in
      if raw = '''' then ''''
      else let raw = map (\<lambda>c. if is_in '' -/:'' c then CHR ''_'' else c) raw
           in join_with ''.'' (filter (\<lambda>p. p \<noteq> '''') (map (trim_chars ''_.'') (split_on (CHR ''.'') raw))))"

definition normalizeSecuritySignalInput :: "SecuritySignalInput \<Rightarrow> error + SecuritySignalInput" where
  "normalizeSecuritySignalInput i =
     (let signal = normalizeSecuritySignalToken (si_Signal i); summary = TrimSpace (si_Summary i);
          severity = TrimSpace (ToLower (si_Severity i)); source = TrimSpace (si_Source i); ref = TrimSpace (si_Ref i);
          reason = TrimSpace (si_ReviewReason i); rule = TrimSpace (si_ReviewRule i); p = si_Promote i
      in if signal = '''' then Inl ''security signal is required''
         else if summary = '''' then Inl ''security signal summary is required''
         else Inr (i\<lparr>si_Signal := signal, si_Summary := summary,
                     si_Severity := (if severity = '''' then ''medium'' else severity),
                     si_Source := (if source = '''' then ''runtime.security'' else source),
                     si_Ref := (if ref = '''' \<and> p
                                then ''security_'' @ map (\<lambda>c. if c = CHR ''.'' then CHR ''_'' else c) signal else ref),
                     si_Evidence := normalizeReviewRoomEvidence (si_Evidence i),
                     si_ReviewReason := (if reason = '''' \<and> p
                        then ''security signal escalation requires founder review before trusting the caller or lane'' else reason),
                     si_ReviewRule := (if rule = '''' \<and> p then ''review_room.auto.security_signal'' else rule),
                     si_Data := Some (case si_Data i of None \<Rightarrow> [] | Some d \<Rightarrow> d)\<rparr>))"

definition security_event_data :: "SecuritySignalInput \<Rightarrow> jobject" where
  "security_event_data i =
     (let data = (case cloneJSONObject (si_Data i) of None \<Rightarrow> [] | Some d \<Rightarrow> d);
          data = AList.update ''signal'' (JString (si_Signal i)) data;
          data = AList.update ''summary'' (JString (si_Summary i)) data;
          data = AList.update ''severity'' (JString (si_Severity i)) data;
          data = AList.update ''source'' (JString (si_Source i)) data;
          data = (if si_Ref i \<noteq> '''' then AList.update ''ref'' (JString (si_Ref i)) data else data);
          data = (if si_Evidence i \<noteq> [] then AList.update ''evidence'' (string_array (si_Evidence i)) data else data)
      in if si_Promote i then AList.update ''review_promoted'' (JBool True) data else data)"

definition RecordSecuritySignal :: "env \<Rightarrow> SecuritySignalInput \<Rightarrow> Service \<Rightarrow> unit outcome" where
  "RecordSecuritySignal e input0 s =
     (case normalizeSecuritySignalInput input0 of Inl err \<Rightarrow> (Inl err, s) | Inr input \<Rightarrow>
      let data = security_event_data input in
      case validateJSONObject data ''security signal data'' of Some err \<Rightarrow> (Inl err, s) | None \<Rightarrow>
      let save = persist_or e (\<lambda>t. restore_room e (sv_reviewRoom s) (restore_event e (sv_event s) t)) ();
          promote = (\<lambda>t. if \<not> si_Promote input then save t
             else case ensureReviewRoomItem (en_isWord e) (now_store e) (sv_reviewRoom t) ''open''
                    (newSignalReviewRoomItem (en_clock e 50) (si_Summary input) (''security.'' @ si_Signal input)
                       (Some (si_Ref input)) (si_ReviewReason input) (si_ReviewRule input) (si_Evidence input)) of
                  Inl err \<Rightarrow> (Inl err, restore_event e (sv_event s) t)
                | Inr (updated, _) \<Rightarrow> save (t\<lparr>sv_reviewRoom := newReviewRoomStore (now_store e) updated\<rparr>))
      in event_or (newSystemEvent e 0 s (''security.'' @ si_Signal input) data) (\<lambda>t. t) promote s)"

end
