(* ===== verification/Service_Jobs.thy ===== *)
theory Service_Jobs
  imports Service_Runs
begin

text \<open>
  Proposals (\<open>service_proposal.go\<close>), agent jobs and the jobs their chain rules derive
  (\<open>service_job.go\<close>, \<open>service_job_chain.go\<close>), and the reclaim of running jobs at start-up
  (\<open>service.go\<close>).
\<close>

section \<open>Proposals\<close>

definition normalizeProposalItem :: "time \<Rightarrow> ProposalItem \<Rightarrow> ProposalItem" where
  "normalizeProposalItem now item =
     (let created = (if IsZero (pi_CreatedAt item) then now else pi_CreatedAt item)
      in item\<lparr>pi_Summary := (if pi_Summary item = '''' then pi_Title item else pi_Summary item),
              pi_Status := (if pi_Status item = '''' then ''proposed'' else pi_Status item),
              pi_Notes := Some (elems (pi_Notes item)),
              pi_CreatedAt := created,
              pi_UpdatedAt := (if IsZero (pi_UpdatedAt item) then created else pi_UpdatedAt item)\<rparr>)"

definition createProposalLocked :: "env \<Rightarrow> ProposalItem \<Rightarrow> Service \<Rightarrow> ProposalItem outcome" where
  "createProposalLocked e item0 s =
     (let item = normalizeProposalItem (en_clock e 50) item0 in
      case proposalStore_create (sv_proposal s) item of
        Inl err \<Rightarrow> (Inl err, s)
      | Inr items \<Rightarrow>
          let s1 = s\<lparr>sv_proposal := items\<rparr>
          in event_or (service_event e 0 s1 ''proposal.created'' (pi_Surface item) (pi_ProposalID item) ''discover''
                         [(''title'', JString (pi_Title item)), (''status'', JString (pi_Status item)),
                          (''summary'', JString (pi_Summary item))])
               (\<lambda>t. t) (\<lambda>t. (Inr item, t)) s1)"

definition CreateProposal :: "env \<Rightarrow> ProposalItem \<Rightarrow> Service \<Rightarrow> unit outcome" where
  "CreateProposal e item s =
     (case ensureActiveBranchLocked s (pi_BranchID item) of
        Some err \<Rightarrow> (Inl err, s)
      | None \<Rightarrow>
          (case createProposalLocked e item s of
             (Inl err, s1) \<Rightarrow> (Inl err, s1)
           | (Inr _, s1) \<Rightarrow>
               persist_or e (\<lambda>t. restore_event e (sv_event s) (t\<lparr>sv_proposal := sv_proposal s\<rparr>)) () s1))"

definition promoted_work :: "time \<Rightarrow> ProposalItem \<Rightarrow> string \<Rightarrow> WorkItem" where
  "promoted_work now proposal workID =
     \<lparr>wi_ID = workID, wi_BranchID = normalizeRef (pi_BranchID proposal), wi_Title = pi_Title proposal,
      wi_Intent = pi_Intent proposal, wi_Stage = ''discover'', wi_Surface = pi_Surface proposal,
      wi_Pack = ''proposal'', wi_Priority = pi_Priority proposal, wi_Risk = pi_Risk proposal,
      wi_RequiresApproval = False, wi_Payload = Some [(''proposal_id'', JString (pi_ProposalID proposal))],
      wi_CorrelationID = pi_ProposalID proposal, wi_CreatedAt = now\<rparr>"

definition PromoteProposal :: "env \<Rightarrow> string \<Rightarrow> string \<Rightarrow> Service \<Rightarrow> (ProposalItem \<times> WorkItem) outcome" where
  "PromoteProposal e proposalID workID s =
     (case proposalStore_get (sv_proposal s) proposalID of
        None \<Rightarrow> (Inl ''proposal_id not found'', s)
      | Some proposal \<Rightarrow>
      if pi_Status proposal \<noteq> ''proposed'' then (Inl ''proposal is not open'', s) else
      let work = promoted_work (en_clock e 50) proposal workID
      in case workStore_create (sv_work s) work of Inl err \<Rightarrow> (Inl err, s) | Inr works \<Rightarrow>
         let s1 = s\<lparr>sv_work := works\<rparr>
         in case proposalStore_promote (sv_proposal s1) proposalID workID (en_clock e 51) of
              Inl err \<Rightarrow> (Inl err, s1\<lparr>sv_work := sv_work s\<rparr>)
            | Inr (updated, proposals) \<Rightarrow>
                let s2 = s1\<lparr>sv_proposal := proposals\<rparr>;
                    s3 = s2\<lparr>sv_state := updateWorkItemsActive (sv_state s2) (int (length works))\<rparr>;
                    undo = (\<lambda>t. t\<lparr>sv_proposal := sv_proposal s, sv_work := sv_work s, sv_state := sv_state s\<rparr>)
                in event_or (service_event e 0 s3 ''proposal.promoted'' (pi_Surface proposal) (pi_ProposalID proposal) ''discover''
                               [(''proposal_id'', JString (pi_ProposalID proposal)), (''work_item_id'', JString (wi_ID work))])
                     undo
                     (\<lambda>t. event_or (service_event e 1 t ''work_item.created'' (wi_Surface work) (wi_ID work) (wi_Stage work)
                                      [(''title'', JString (wi_Title work)), (''source'', JString ''proposal.promote'')])
                            undo
                            (persist_or e (\<lambda>t. restore_event e (sv_event s) (undo t)) (updated, work)) t) s3)"

section \<open>Agent jobs\<close>

definition normalizeAgentJobItem :: "time \<Rightarrow> AgentJob \<Rightarrow> AgentJob" where
  "normalizeAgentJobItem now item =
     (let created = (if IsZero (aj_CreatedAt item) then now else aj_CreatedAt item)
      in item\<lparr>aj_Status := (if aj_Status item = '''' then ''queued'' else aj_Status item),
              aj_Notes := Some (elems (aj_Notes item)),
              aj_CreatedAt := created,
              aj_UpdatedAt := (if IsZero (aj_UpdatedAt item) then created else aj_UpdatedAt item)\<rparr>)"

definition createAgentJobLocked :: "env \<Rightarrow> AgentJob \<Rightarrow> Service \<Rightarrow> AgentJob outcome" where
  "createAgentJobLocked e item0 s =
     (let item = normalizeAgentJobItem (en_clock e 50) item0 in
      case agentJobStore_create (sv_agentJob s) item of
        Inl err \<Rightarrow> (Inl err, s)
      | Inr items \<Rightarrow>
          let s1 = s\<lparr>sv_agentJob := items\<rparr>
          in event_or (service_event e 0 s1 ''agent_job.created'' (aj_Surface item) (aj_JobID item) (aj_Stage item)
                         [(''kind'', JString (aj_Kind item)), (''role'', JString (aj_Role item)),
                          (''status'', JString (aj_Status item)), (''summary'', JString (aj_Summary item))])
               (\<lambda>t. t) (\<lambda>t. (Inr item, t)) s1)"

definition CreateAgentJob :: "env \<Rightarrow> AgentJob \<Rightarrow> Service \<Rightarrow> unit outcome" where
  "CreateAgentJob e item s =
     (case ensureActiveBranchLocked s (aj_BranchID item) of
        Some err \<Rightarrow> (Inl err, s)
      | None \<Rightarrow>
          (case createAgentJobLocked e item s of
             (Inl err, s1) \<Rightarrow> (Inl err, s1)
           | (Inr _, s1) \<Rightarrow>
               persist_or e (\<lambda>t. restore_event e (sv_event s) (t\<lparr>sv_agentJob := sv_agentJob s\<rparr>)) () s1))"

definition provenance_keys :: "(string \<times> string) list" where
  "provenance_keys =
     [(''dispatch_actor'', ''dispatch_actor''), (''reported_by_actor'', ''report_actor''),
      (''completion_mode'', ''completion_mode''), (''execution_origin'', ''execution_origin''),
      (''dispatch_transport'', ''dispatch_transport'')]"

definition agentJobResultString :: "json option \<Rightarrow> string" where
  "agentJobResultString v = (case v of Some (JString t) \<Rightarrow> t | _ \<Rightarrow> '''')"

fun copy_provenance :: "(string \<times> string) list \<Rightarrow> jobject \<Rightarrow> jobject \<Rightarrow> jobject" where
  "copy_provenance [] result data = data"
| "copy_provenance ((from, to) # ks) result data =
     (let value = TrimSpace (agentJobResultString (map_of result from))
      in copy_provenance ks result (if value = '''' then data else AList.update to (JString value) data))"

definition copyAgentJobResultProvenance :: "jobject \<Rightarrow> jobject \<Rightarrow> jobject" where
  "copyAgentJobResultProvenance data result = copy_provenance provenance_keys result data"

definition job_event_data :: "AgentJob \<Rightarrow> jobject" where
  "job_event_data updated =
     (let data = [(''kind'', JString (aj_Kind updated)), (''role'', JString (aj_Role updated)),
                  (''status'', JString (aj_Status updated))]
      in case aj_Result updated of
           None \<Rightarrow> data
         | Some result \<Rightarrow> copyAgentJobResultProvenance (data @ [(''result'', JObject result)]) result)"

definition job_recovered_resolution :: "AgentJob \<Rightarrow> ReviewRoomResolution" where
  "job_recovered_resolution job =
     \<lparr>rs_Action = ''resolve'', rs_Reason = ''job left failed state after status transition'',
      rs_Rule = ''review_room.auto.agent_job_failed_clear'',
      rs_Evidence = [''job:'' @ aj_JobID job, ''status:'' @ aj_Status job], rs_ResolvedAt = 0\<rparr>"

text \<open>The review room follows the job: a failed job opens an item, any other status closes it.\<close>

definition review_job :: "env \<Rightarrow> AgentJob \<Rightarrow> Service \<Rightarrow> error option \<times> Service" where
  "review_job e updated s =
     (case reviewRoomSuggestionForAgentJob (en_clock e 52) updated of
        Some suggestion \<Rightarrow>
          (case ensureReviewRoomItem (en_isWord e) (now_store e) (sv_reviewRoom s) ''open'' suggestion of
             Inl err \<Rightarrow> (Some err, s)
           | Inr (room, changed) \<Rightarrow>
               (None, if changed then s\<lparr>sv_reviewRoom := newReviewRoomStore (now_store e) room\<rparr> else s))
      | None \<Rightarrow>
          if aj_Status updated = ''failed'' then (None, s) else
          (case autoResolveReviewRoomItemLocked (now_store e) (sv_reviewRoom s) ''agent_job.failed''
                  (Some (aj_JobID updated)) (Some (job_recovered_resolution updated)) of
             Inl err \<Rightarrow> (Some err, s)
           | Inr (room, _, changed) \<Rightarrow>
               (None, if changed then s\<lparr>sv_reviewRoom := newReviewRoomStore (now_store e) room\<rparr> else s)))"

definition updateAgentJobLocked ::
  "env \<Rightarrow> string \<Rightarrow> string \<Rightarrow> string slice \<Rightarrow> jobject option \<Rightarrow> string \<Rightarrow> Service \<Rightarrow> (AgentJob \<times> EventEnvelope) outcome" where
  "updateAgentJobLocked e jobID status notes result eventKind s =
     (case agentJobStore_get (sv_agentJob s) jobID of
        None \<Rightarrow> (Inl ''job_id not found'', s)
      | Some _ \<Rightarrow>
      case agentJobStore_update (sv_agentJob s) jobID status notes result (en_clock e 50) of
        Inl err \<Rightarrow> (Inl err, s)
      | Inr (updated, items) \<Rightarrow>
          let s1 = s\<lparr>sv_agentJob := items\<rparr>;
              event = service_event e 0 s1 eventKind (aj_Surface updated) (aj_JobID updated) (aj_Stage updated)
                        (job_event_data updated);
              undo = (\<lambda>t. t\<lparr>sv_agentJob := sv_agentJob s\<rparr>);
              undo_all = (\<lambda>t. restore_event e (sv_event s) (restore_room e (sv_reviewRoom s) (undo t)))
          in event_or event undo
               (room_or (review_job e updated) undo_all (persist_or e undo_all (updated, event))) s1)"

definition UpdateAgentJob ::
  "env \<Rightarrow> string \<Rightarrow> string \<Rightarrow> string slice \<Rightarrow> jobject option \<Rightarrow> Service \<Rightarrow> AgentJob outcome" where
  "UpdateAgentJob e jobID status notes result s =
     (case updateAgentJobLocked e jobID status notes result ''agent_job.updated'' s of
        (Inl err, s') \<Rightarrow> (Inl err, s')
      | (Inr (updated, _), s') \<Rightarrow> (Inr updated, s'))"

definition merge_patch :: "jobject \<Rightarrow> jobject \<Rightarrow> jobject" where
  "merge_patch base patch = foldl (\<lambda>m kv. AList.update (fst kv) (snd kv) m) base patch"

definition applyAgentJobResultPatchLocked :: "env \<Rightarrow> string \<Rightarrow> jobject option \<Rightarrow> Service \<Rightarrow> AgentJob outcome" where
  "applyAgentJobResultPatchLocked e jobID patch s =
     (case agentJobStore_get (sv_agentJob s) jobID of
        None \<Rightarrow> (Inl ''job_id not found'', s)
      | Some current \<Rightarrow>
          let base = (case cloneJSONObject (aj_Result current) of None \<Rightarrow> [] | Some r \<Rightarrow> r);
              merged = merge_patch base (case cloneJSONObject patch of None \<Rightarrow> [] | Some p \<Rightarrow> p)
          in case agentJobStore_update (sv_agentJob s) jobID (aj_Status current) (aj_Notes current) (Some merged)
                    (en_clock e 50) of
               Inl err \<Rightarrow> (Inl err, s)
             | Inr (updated, items) \<Rightarrow>
                 persist_or e (\<lambda>t. t\<lparr>sv_agentJob := sv_agentJob s\<rparr>) updated (s\<lparr>sv_agentJob := items\<rparr>))"

text \<open>
  Start-up: every job that was running is failed, one \<open>updateAgentJobLocked\<close> per job, with the
  environment of each call; an error of one call does not stop the loop.
\<close>

definition reclaim_result :: "AgentJob \<Rightarrow> jobject" where
  "reclaim_result job =
     AList.update ''reclaim_reason'' (JString ''daemon_restart'')
       (case cloneJSONObject (aj_Result job) of None \<Rightarrow> [] | Some r \<Rightarrow> r)"

fun reclaim_jobs :: "(nat \<Rightarrow> env) \<Rightarrow> nat \<Rightarrow> AgentJob list \<Rightarrow> Service \<Rightarrow> Service" where
  "reclaim_jobs es k [] s = s"
| "reclaim_jobs es k (job # jobs) s =
     (if aj_Status job \<noteq> ''running'' then reclaim_jobs es k jobs s
      else reclaim_jobs es (Suc k) jobs
             (snd (updateAgentJobLocked (es k) (aj_JobID job) ''failed''
                     (Some (appendUniqueString (elems (aj_Notes job)) ''startup_reclaim''))
                     (Some (reclaim_result job)) ''agent_job.failed'' s)))"

definition reclaimStaleJobsOnStartup :: "(nat \<Rightarrow> env) \<Rightarrow> Service \<Rightarrow> Service" where
  "reclaimStaleJobsOnStartup es s = reclaim_jobs es 0 (sv_agentJob s) s"

section \<open>Chained jobs\<close>

definition crc32_table :: "32 word \<Rightarrow> 32 word" where
  "crc32_table x = ((\<lambda>c. if c AND 1 = 1 then 0xEDB88320 XOR drop_bit 1 c else drop_bit 1 c) ^^ 8) x"

definition crc32 :: "string \<Rightarrow> 32 word" where
  "crc32 s = NOT (foldl (\<lambda>c b. crc32_table ((c XOR of_nat (of_char b)) AND 0xFF) XOR drop_bit 8 c) (NOT 0) s)"

definition deriveChainedJobID :: "string \<Rightarrow> ChainRule \<Rightarrow> string" where
  "deriveChainedJobID parentJobID rule =
     ''job_chain_'' @ hex_word (crc32 (join_with ''|''
       [TrimSpace parentJobID, TrimSpace (cr_RuleID rule), TrimSpace (cr_OnStatus rule),
        TrimSpace (cr_NextKind rule), TrimSpace (cr_NextRole rule), TrimSpace (cr_Summary rule)]))"

definition chain_payload :: "AgentJob \<Rightarrow> ChainRule \<Rightarrow> jobject" where
  "chain_payload parent rule =
     (let p = (case cloneJSONObject (cr_Payload rule) of None \<Rightarrow> [] | Some d \<Rightarrow> d);
          p = AList.update ''chain_parent_job_id'' (JString (aj_JobID parent)) p;
          p = AList.update ''chain_parent_role'' (JString (aj_Role parent)) p;
          p = AList.update ''chain_parent_status'' (JString (aj_Status parent)) p;
          p = AList.update ''chain_rule_id'' (JString (cr_RuleID rule)) p;
          p = AList.update ''chain_parent_summary'' (JString (aj_Summary parent)) p;
          p = (case aj_Ref parent of None \<Rightarrow> p | Some r \<Rightarrow> AList.update ''chain_parent_ref'' (JString (TrimSpace r)) p);
          p = (case aj_Result parent of
                 None \<Rightarrow> p
               | Some r \<Rightarrow> AList.update ''chain_parent_result''
                             (case cloneJSONObject (Some r) of None \<Rightarrow> JNull | Some c \<Rightarrow> JObject c) p)
      in if cr_NotifyTelegram rule then AList.update ''notify_telegram'' (JBool True) p else p)"

definition chainedAgentJob :: "time \<Rightarrow> AgentJob \<Rightarrow> ChainRule \<Rightarrow> AgentJob" where
  "chainedAgentJob now parent rule =
     \<lparr>aj_JobID = deriveChainedJobID (aj_JobID parent) rule, aj_BranchID = None,
      aj_Kind = TrimSpace (cr_NextKind rule), aj_Role = TrimSpace (cr_NextRole rule),
      aj_Summary = TrimSpace (cr_Summary rule), aj_Status = ''queued'', aj_Source = ''agent_job.chain'',
      aj_Surface = (if validSurface (cr_Surface rule) then cr_Surface rule else aj_Surface parent),
      aj_Stage = (if validStage (cr_NextStage rule) then cr_NextStage rule else aj_Stage parent),
      aj_Ref = normalizeRef (aj_Ref parent), aj_Payload = Some (chain_payload parent rule), aj_Result = None,
      aj_Notes = Some (foldl appendUniqueString
        [''chain:child'', ''chain_parent:'' @ aj_JobID parent, ''chain_rule:'' @ cr_RuleID rule] (cr_Notes rule)),
      aj_CreatedAt = now, aj_UpdatedAt = now\<rparr>"

end
