(* ===== verification/Service_Logic.thy ===== *)
theory Service_Logic
  imports Service_Jobs
begin

text \<open>
  A small program logic for the operations: \<open>sat\<close> states what holds of the service when an operation
  returns an error and when it returns a value, with one rule per shared step. \<open>unchanged\<close> is the
  postcondition of every error, \<open>committed\<close> of every success.
\<close>

section \<open>Postconditions\<close>

lemma core_push [simp]:
  "core (sv_actorOverride_update g0 s) = sv_actorOverride_update g0 (core s)"
  "core (sv_state_update g1 s) = sv_state_update g1 (core s)"
  "core (sv_branch_update g2 s) = sv_branch_update g2 (core s)"
  "core (sv_proposal_update g3 s) = sv_proposal_update g3 (core s)"
  "core (sv_agentJob_update g4 s) = sv_agentJob_update g4 (core s)"
  "core (sv_work_update g5 s) = sv_work_update g5 (core s)"
  "core (sv_flow_update g6 s) = sv_flow_update g6 (core s)"
  "core (sv_approval_update g7 s) = sv_approval_update g7 (core s)"
  "core (sv_release_update g8 s) = sv_release_update g8 (core s)"
  "core (sv_deploy_update g9 s) = sv_deploy_update g9 (core s)"
  "core (sv_rollback_update h0 s) = sv_rollback_update h0 (core s)"
  "core (sv_target_update h1 s) = sv_target_update h1 (core s)"
  "core (sv_preflight_update h2 s) = sv_preflight_update h2 (core s)"
  "core (sv_policy_update h3 s) = sv_policy_update h3 (core s)"
  "core (sv_gateway_update h4 s) = sv_gateway_update h4 (core s)"
  "core (sv_execute_update h5 s) = sv_execute_update h5 (core s)"
  "core (sv_verify_update h6 s) = sv_verify_update h6 (core s)"
  "core (sv_memory_update h7 s) = sv_memory_update h7 (core s)"
  "core (sv_auth_update h8 s) = sv_auth_update h8 (core s)"
  by (simp_all add: core_def)

lemma core_fields [simp]:
  "sv_state (core s) = sv_state s" "sv_branch (core s) = sv_branch s" "sv_proposal (core s) = sv_proposal s"
  "sv_agentJob (core s) = sv_agentJob s" "sv_work (core s) = sv_work s" "sv_flow (core s) = sv_flow s"
  "sv_approval (core s) = sv_approval s" "sv_release (core s) = sv_release s" "sv_deploy (core s) = sv_deploy s"
  "sv_rollback (core s) = sv_rollback s" "sv_target (core s) = sv_target s" "sv_preflight (core s) = sv_preflight s"
  "sv_policy (core s) = sv_policy s" "sv_gateway (core s) = sv_gateway s" "sv_execute (core s) = sv_execute s"
  "sv_verify (core s) = sv_verify s" "sv_memory (core s) = sv_memory s" "sv_auth (core s) = sv_auth s"
  "sv_actorOverride (core s) = sv_actorOverride s"
  by (simp_all add: core_def)

lemma same_field [simp]:
  "s\<lparr>sv_state := sv_state s\<rparr> = s" "s\<lparr>sv_branch := sv_branch s\<rparr> = s"
  "s\<lparr>sv_proposal := sv_proposal s\<rparr> = s" "s\<lparr>sv_agentJob := sv_agentJob s\<rparr> = s"
  "s\<lparr>sv_work := sv_work s\<rparr> = s" "s\<lparr>sv_flow := sv_flow s\<rparr> = s"
  "s\<lparr>sv_approval := sv_approval s\<rparr> = s" "s\<lparr>sv_release := sv_release s\<rparr> = s"
  "s\<lparr>sv_deploy := sv_deploy s\<rparr> = s" "s\<lparr>sv_rollback := sv_rollback s\<rparr> = s"
  "s\<lparr>sv_target := sv_target s\<rparr> = s" "s\<lparr>sv_preflight := sv_preflight s\<rparr> = s"
  "s\<lparr>sv_policy := sv_policy s\<rparr> = s" "s\<lparr>sv_gateway := sv_gateway s\<rparr> = s"
  "s\<lparr>sv_execute := sv_execute s\<rparr> = s" "s\<lparr>sv_verify := sv_verify s\<rparr> = s"
  "s\<lparr>sv_memory := sv_memory s\<rparr> = s" "s\<lparr>sv_auth := sv_auth s\<rparr> = s"
  by simp_all

lemma core_same_field [simp]:
  "(core s)\<lparr>sv_state := sv_state s\<rparr> = core s" "(core s)\<lparr>sv_branch := sv_branch s\<rparr> = core s"
  "(core s)\<lparr>sv_proposal := sv_proposal s\<rparr> = core s" "(core s)\<lparr>sv_agentJob := sv_agentJob s\<rparr> = core s"
  "(core s)\<lparr>sv_work := sv_work s\<rparr> = core s" "(core s)\<lparr>sv_flow := sv_flow s\<rparr> = core s"
  "(core s)\<lparr>sv_approval := sv_approval s\<rparr> = core s" "(core s)\<lparr>sv_release := sv_release s\<rparr> = core s"
  "(core s)\<lparr>sv_deploy := sv_deploy s\<rparr> = core s" "(core s)\<lparr>sv_rollback := sv_rollback s\<rparr> = core s"
  "(core s)\<lparr>sv_target := sv_target s\<rparr> = core s" "(core s)\<lparr>sv_preflight := sv_preflight s\<rparr> = core s"
  "(core s)\<lparr>sv_policy := sv_policy s\<rparr> = core s" "(core s)\<lparr>sv_gateway := sv_gateway s\<rparr> = core s"
  "(core s)\<lparr>sv_execute := sv_execute s\<rparr> = core s" "(core s)\<lparr>sv_verify := sv_verify s\<rparr> = core s"
  "(core s)\<lparr>sv_memory := sv_memory s\<rparr> = core s" "(core s)\<lparr>sv_auth := sv_auth s\<rparr> = core s"
  by (simp_all add: core_def)

text \<open>An event store that has only received valid events and been archived.\<close>

definition grows :: "eventStore \<Rightarrow> eventStore \<Rightarrow> bool" where
  "grows a b \<longleftrightarrow> es_limit b = es_limit a \<and> (window_ok a \<longrightarrow> window_ok b) \<and> eventStore_count a \<le> eventStore_count b \<and>
     (\<forall>ev \<in> set (eventStore_list b). ev \<in> set (eventStore_list a) \<or> EventEnvelope_Validate ev = None)"

lemma grows_refl [simp]: "grows a a"
  by (simp add: grows_def)

lemma grows_trans [trans]: "grows a b \<Longrightarrow> grows b c \<Longrightarrow> grows a c"
  unfolding grows_def by (metis order_trans)

lemma grows_append: "eventStore_append a ev = Inr b \<Longrightarrow> grows a b"
  using eventStore_append_limit [of a ev b] window_ok_append [of a ev b] eventStore_count_append [of a ev b]
    eventStore_append_history [of a ev b] eventStore_append_Inr_iff [of a ev]
  by (auto simp: grows_def)

lemma grows_mark [simp]: "grows a (markArchivePersisted a)"
  by (simp add: grows_def window_ok_mark eventStore_count_mark)
     (auto simp: markArchivePersisted_def eventStore_list_def)

definition restorable :: "Service \<Rightarrow> bool" where
  "restorable s \<longleftrightarrow> 0 < es_limit (sv_event s) \<and> room_inv (sv_reviewRoom s) \<and>
     (\<forall>now. newBranchStore now (sv_branch s) = sv_branch s) \<and>
     newPolicyStore (sv_policy s) = sv_policy s \<and> newExecuteStore (sv_execute s) = sv_execute s"

definition unchanged :: "env \<Rightarrow> Service \<Rightarrow> Service \<Rightarrow> bool" where
  "unchanged e s t \<longleftrightarrow> core t = core s \<and> sv_event t = sv_event s \<and> room_inv (sv_reviewRoom t) \<and>
     (\<not> en_auditPromotion e \<longrightarrow> sv_reviewRoom t = sv_reviewRoom s)"

text \<open>\<open>u\<close> is the service after the stores became those of \<open>t\<close> and at least one event was recorded.\<close>

definition committed :: "Service \<Rightarrow> Service \<Rightarrow> Service \<Rightarrow> bool" where
  "committed s t u \<longleftrightarrow> core u = core t \<and> room_inv (sv_reviewRoom u) \<and> grows (sv_event s) (sv_event u) \<and>
     eventStore_count (sv_event s) < eventStore_count (sv_event u)"

lemma unchanged_refl [simp]: "restorable s \<Longrightarrow> unchanged e s s"
  by (simp add: unchanged_def restorable_def)

section \<open>Rules\<close>

definition sat :: "(Service \<Rightarrow> bool) \<Rightarrow> ('a \<Rightarrow> Service \<Rightarrow> bool) \<Rightarrow> 'a outcome \<Rightarrow> bool" where
  "sat Qe Qs out = (case out of (Inl err, t) \<Rightarrow> Qe t | (Inr x, t) \<Rightarrow> Qs x t)"

lemma sat_simps [simp]: "sat Qe Qs (Inl err, t) = Qe t" "sat Qe Qs (Inr x, t) = Qs x t"
  by (simp_all add: sat_def)

lemma sat_error: "sat Qe Qs out \<Longrightarrow> out = (Inl err, t) \<Longrightarrow> Qe t"
  by (simp add: sat_def)

lemma sat_value: "sat Qe Qs out \<Longrightarrow> out = (Inr x, t) \<Longrightarrow> Qs x t"
  by (simp add: sat_def)

lemma sat_mono: "sat Qe Qs out \<Longrightarrow> (\<And>t. Qe t \<Longrightarrow> Qe' t) \<Longrightarrow> (\<And>x t. Qs x t \<Longrightarrow> Qs' x t) \<Longrightarrow> sat Qe' Qs' out"
  by (auto simp: sat_def split: prod.splits sum.splits)

text \<open>An operation that returns another value for the same service.\<close>

lemma sat_wrap:
  assumes "sat Qe Qs out" "\<And>x t. Qs x t \<Longrightarrow> Qs' (g x) t"
  shows "sat Qe Qs' (case out of (Inl err, t) \<Rightarrow> (Inl err, t) | (Inr x, t) \<Rightarrow> (Inr (g x), t))"
  using assms by (auto simp: sat_def split: prod.splits sum.splits)

text \<open>What a step between the store update and the save may do: the room and the event store.\<close>

definition touched :: "Service \<Rightarrow> Service \<Rightarrow> bool" where
  "touched s t \<longleftrightarrow> core t = core s \<and> room_inv (sv_reviewRoom t) \<and> grows (sv_event s) (sv_event t)"

lemma touched_refl: "room_inv (sv_reviewRoom s) \<Longrightarrow> touched s s"
  by (simp add: touched_def)

lemma sat_event:
  assumes "Qe (undo s)"
    and "\<And>es. grows (sv_event s) es \<Longrightarrow> eventStore_count (sv_event s) < eventStore_count es \<Longrightarrow>
           sat Qe Qs (k (s\<lparr>sv_event := es\<rparr>))"
  shows "sat Qe Qs (event_or ev undo k s)"
  using assms grows_append [of "sv_event s" ev] eventStore_count_append [of "sv_event s" ev]
  by (auto simp: event_or_def split: sum.splits)

lemma sat_room:
  assumes "\<And>t. touched s t \<Longrightarrow> Qe (undo t)" "\<And>t. touched s t \<Longrightarrow> sat Qe Qs (k t)"
    and "touched s (snd (act s))"
  shows "sat Qe Qs (room_or act undo k s)"
  using assms by (cases "act s") (auto simp: room_or_def split: option.splits)

lemma sat_persist:
  assumes "clock_ok e" "room_inv (sv_reviewRoom s)"
    and "\<And>t. touched s t \<Longrightarrow> (\<not> en_auditPromotion e \<Longrightarrow> sv_reviewRoom t = sv_reviewRoom s) \<Longrightarrow> Qe (undo t)"
    and "\<And>t. touched s t \<Longrightarrow> Qs x t"
  shows "sat Qe Qs (persist_or e undo x s)"
proof (cases "persistLocked e s")
  case (Pair r t)
  note fr = persistLocked_frame [OF Pair]
  have t: "touched s t"
    using fr(1,2) persistLocked_room_inv [OF Pair assms(1,2)] by (auto simp: touched_def)
  have "\<not> en_auditPromotion e \<Longrightarrow> sv_reviewRoom t = sv_reviewRoom s"
    using fr(3) synced_room_off [of e s] by auto
  then show ?thesis using assms(3,4) t Pair by (cases r) (simp_all add: persist_or_def)
qed

lemma restore_event_simps [simp]:
  "core (restore_event e old s) = core s" "sv_reviewRoom (restore_event e old s) = sv_reviewRoom s"
  "0 < es_limit old \<Longrightarrow> sv_event (restore_event e old s) = old"
  by (simp_all add: restore_event_def newEventStoreFromState_def)

lemma restore_room_simps [simp]:
  "core (restore_room e old s) = core s" "sv_event (restore_room e old s) = sv_event s"
  "room_inv old \<Longrightarrow> sv_reviewRoom (restore_room e old s) = old"
  by (simp_all add: restore_room_def newReviewRoomStore_normal room_inv_normal)

lemma touched_event: "touched s t \<Longrightarrow> grows (sv_event s) (sv_event t)"
  by (simp add: touched_def)

lemma touched_room: "touched s t \<Longrightarrow> room_inv (sv_reviewRoom t)"
  by (simp add: touched_def)

lemma autoOpen_touched:
  assumes "clock_ok e" "room_inv (sv_reviewRoom s)"
  shows "touched s (snd (autoOpenReviewRoomItemLocked e k item s))"
proof -
  have now: "\<not> IsZero (now_store e)" using assms(1) by (simp add: now_store_def)
  have r: "room_inv r" if "ensureReviewRoomItem (en_isWord e) (now_store e) (sv_reviewRoom s) ''open'' item = Inr (r, a)" for r a
    using ensureReviewRoomItem_spec(2) [OF assms(2) now that] .
  then show ?thesis
    using assms(2) grows_append
    by (auto simp: autoOpenReviewRoomItemLocked_def touched_def Let_def newReviewRoomStore_normal room_inv_normal
        split: sum.splits prod.splits)
qed

end
