(* ===== verification/Service_Specs.thy ===== *)
theory Service_Specs
  imports Service_Logic
begin

text \<open>
  One specification per operation: on an error the service is as before (\<open>unchanged\<close>), on a success
  the stores are the stated ones and the event log has grown (\<open>committed\<close>), and the conditions the
  operation checked hold.
\<close>

section \<open>The two common shapes\<close>

text \<open>Store update, event, save; the undo puts the stores of \<open>s\<close> back.\<close>

lemma sat_log_and_save:
  assumes ck: "clock_ok e" and rs: "restorable s"
    and ev: "sv_event s1 = sv_event s" and room: "sv_reviewRoom s1 = sv_reviewRoom s"
    and undo: "\<And>t. core t = core s1 \<Longrightarrow> core (undo t) = core s \<and> sv_event (undo t) = sv_event t \<and>
                 sv_reviewRoom (undo t) = sv_reviewRoom t"
  shows "sat (unchanged e s) (\<lambda>y t. y = x \<and> committed s s1 t)
           (event_or evt undo (persist_or e (\<lambda>t. restore_event e (sv_event s) (undo t)) x) s1)"
proof (rule sat_event)
  have ri: "room_inv (sv_reviewRoom s1)" "0 < es_limit (sv_event s)" using rs room by (simp_all add: restorable_def)
  show "unchanged e s (undo s1)" using undo [of s1] ri ev room by (simp add: unchanged_def)
  fix es assume es: "grows (sv_event s1) es" "eventStore_count (sv_event s1) < eventStore_count es"
  show "sat (unchanged e s) (\<lambda>y t. y = x \<and> committed s s1 t)
      (persist_or e (\<lambda>t. restore_event e (sv_event s) (undo t)) x (s1\<lparr>sv_event := es\<rparr>))"
  proof (rule sat_persist [OF ck])
    show "room_inv (sv_reviewRoom (s1\<lparr>sv_event := es\<rparr>))" using ri by simp
  next
    fix t assume t: "touched (s1\<lparr>sv_event := es\<rparr>) t"
      and r: "\<not> en_auditPromotion e \<Longrightarrow> sv_reviewRoom t = sv_reviewRoom (s1\<lparr>sv_event := es\<rparr>)"
    show "unchanged e s (restore_event e (sv_event s) (undo t))"
      using undo [of t] t r ri room by (auto simp: unchanged_def touched_def)
  next
    fix t assume t: "touched (s1\<lparr>sv_event := es\<rparr>) t"
    then have "grows es (sv_event t)" by (simp add: touched_def)
    moreover have "eventStore_count es \<le> eventStore_count (sv_event t)" using calculation by (simp add: grows_def)
    ultimately show "x = x \<and> committed s s1 t"
      using t es ev grows_trans [of "sv_event s" es] by (auto simp: committed_def touched_def)
  qed
qed

text \<open>Store update, event, a step on the review room, save; the undo also puts room and events back.\<close>

lemma sat_log_review_save:
  assumes ck: "clock_ok e" and rs: "restorable s"
    and ev: "sv_event s1 = sv_event s" and room: "sv_reviewRoom s1 = sv_reviewRoom s"
    and undo: "\<And>t. core t = core s1 \<Longrightarrow> core (undo t) = core s \<and> sv_event (undo t) = sv_event t \<and>
                 sv_reviewRoom (undo t) = sv_reviewRoom t"
    and undo_all: "\<And>t. core t = core s1 \<Longrightarrow> core (undo_all t) = core s \<and> sv_event (undo_all t) = sv_event s \<and>
                 sv_reviewRoom (undo_all t) = sv_reviewRoom s"
    and act: "\<And>t. room_inv (sv_reviewRoom t) \<Longrightarrow> touched t (snd (act t))"
  shows "sat (unchanged e s) (\<lambda>y t. y = x \<and> committed s s1 t)
           (event_or evt undo (room_or act undo_all (persist_or e undo_all x)) s1)"
proof (rule sat_event)
  have ri: "room_inv (sv_reviewRoom s1)" using rs room by (simp add: restorable_def)
  show "unchanged e s (undo s1)" using undo [of s1] ri ev room by (simp add: unchanged_def)
  have undone: "unchanged e s (undo_all t)" if "core t = core s1" for t
    using undo_all [OF that] ri room by (simp add: unchanged_def)
  fix es assume es: "grows (sv_event s1) es" "eventStore_count (sv_event s1) < eventStore_count es"
  show "sat (unchanged e s) (\<lambda>y t. y = x \<and> committed s s1 t)
      (room_or act undo_all (persist_or e undo_all x) (s1\<lparr>sv_event := es\<rparr>))"
  proof (rule sat_room)
    fix t assume t: "touched (s1\<lparr>sv_event := es\<rparr>) t"
    then have ct: "core t = core s1" by (simp add: touched_def)
    then show "unchanged e s (undo_all t)" by (rule undone)
    show "sat (unchanged e s) (\<lambda>y t. y = x \<and> committed s s1 t) (persist_or e undo_all x t)"
    proof (rule sat_persist [OF ck touched_room [OF t]])
      fix u assume "touched t u"
      then show "unchanged e s (undo_all u)" using ct by (intro undone) (simp add: touched_def)
    next
      fix u assume u: "touched t u"
      have g: "grows es (sv_event u)"
        using grows_trans [OF touched_event [OF t] touched_event [OF u]] by simp
      moreover have "eventStore_count es \<le> eventStore_count (sv_event u)" using g by (simp add: grows_def)
      ultimately show "x = x \<and> committed s s1 u"
        using u es ev ct grows_trans [of "sv_event s" es] by (auto simp: committed_def touched_def)
    qed
  next
    show "touched (s1\<lparr>sv_event := es\<rparr>) (snd (act (s1\<lparr>sv_event := es\<rparr>)))" using ri by (intro act) simp
  qed
qed

lemma suggest_or_room_or:
  "suggest_or e k sug undo cont s =
     room_or (case sug of None \<Rightarrow> (\<lambda>t. (None, t)) | Some item \<Rightarrow> autoOpenReviewRoomItemLocked e k item) undo cont s"
  by (simp add: suggest_or_def room_or_def split: option.splits)

lemma suggest_touched:
  "clock_ok e \<Longrightarrow> room_inv (sv_reviewRoom t) \<Longrightarrow>
   touched t (snd ((case sug of None \<Rightarrow> (\<lambda>t. (None, t)) | Some item \<Rightarrow> autoOpenReviewRoomItemLocked e k item) t))"
  by (simp add: touched_refl autoOpen_touched split: option.splits)

section \<open>Work items and flows\<close>

lemma CreateWorkItem_spec:
  assumes "clock_ok e" "restorable s"
  shows "sat (unchanged e s)
    (\<lambda>_ t. ensureActiveBranchLocked s (wi_BranchID item) = None \<and> WorkItem_Validate item = None \<and>
       committed s (s\<lparr>sv_work := sv_work s @ [item],
                      sv_state := updateWorkItemsActive (sv_state s) (int (length (sv_work s @ [item])))\<rparr>) t)
    (CreateWorkItem e item s)"
proof -
  let ?s1 = "s\<lparr>sv_work := sv_work s @ [item],
               sv_state := updateWorkItemsActive (sv_state s) (int (length (sv_work s @ [item])))\<rparr>"
  have "sat (unchanged e s) (\<lambda>y t. y = () \<and> committed s ?s1 t)
      (event_or evt (\<lambda>t. t\<lparr>sv_work := sv_work s, sv_state := sv_state s\<rparr>)
        (persist_or e (\<lambda>t. restore_event e (sv_event s) (t\<lparr>sv_work := sv_work s, sv_state := sv_state s\<rparr>)) ()) ?s1)" for evt
    by (rule sat_log_and_save [OF assms]) simp_all
  from sat_mono [OF this] show ?thesis
    using assms by (auto simp: CreateWorkItem_def workStore_create_def Let_def split: option.splits sum.splits)
qed

lemma CreateFlow_spec:
  assumes "clock_ok e" "restorable s"
  shows "sat (unchanged e s)
    (\<lambda>_ t. (\<exists>work. workStore_get (sv_work s) (fr_WorkItemID item) = Some work) \<and>
       FlowRun_Validate (flow_defaults e item) = None \<and>
       committed s (s\<lparr>sv_flow := sv_flow s @ [flow_defaults e item]\<rparr>) t)
    (CreateFlow e item s)"
proof -
  have *: "sat (unchanged e s) (\<lambda>y t. y = () \<and> committed s (s\<lparr>sv_flow := items\<rparr>) t)
      (event_or evt (\<lambda>t. t\<lparr>sv_flow := sv_flow s\<rparr>)
        (persist_or e (\<lambda>t. restore_event e (sv_event s) (t\<lparr>sv_flow := sv_flow s\<rparr>)) ()) (s\<lparr>sv_flow := items\<rparr>))" for evt items
    by (rule sat_log_and_save [OF assms]) simp_all
  show ?thesis using assms
    by (auto simp: CreateFlow_def flowStore_create_def Let_def split: option.splits sum.splits
        intro!: sat_mono [OF *])
qed

lemma deriveFlowStatus_status [simp]: "deriveFlowStatusLocked s (item\<lparr>fr_Status := st\<rparr>) = deriveFlowStatusLocked s item"
  by (simp add: deriveFlowStatusLocked_def cong: option.case_cong if_cong)

lemma flow_item_facts:
  "fr_FlowID (flow_item e f work l ns s) = f" "fr_WorkItemID (flow_item e f work l ns s) = wi_ID work"
  "fr_Status (flow_item e f work l ns s) = deriveFlowStatusLocked s (flow_item e f work l ns s)"
proof -
  let ?i = "\<lambda>i. i\<lparr>fr_Status := deriveFlowStatusLocked s i\<rparr>"
  have "fr_Status (?i i) = deriveFlowStatusLocked s (?i i)" for i by simp
  then show "fr_Status (flow_item e f work l ns s) = deriveFlowStatusLocked s (flow_item e f work l ns s)"
    unfolding flow_item_def Let_def .
qed (simp_all add: flow_item_def Let_def)

lemma SyncFlow_spec:
  assumes "clock_ok e" "restorable s"
  shows "sat (unchanged e s)
    (\<lambda>item t. \<exists>work items. workStore_get (sv_work s) workItemID = Some work \<and> flow_links_error s l = None \<and>
       item = flow_item e flowID work l notes s \<and>
       flowStore_update (sv_flow s) item = Inr items \<and> committed s (s\<lparr>sv_flow := items\<rparr>) t)
    (SyncFlow e flowID workItemID l notes s)"
proof -
  have *: "sat (unchanged e s) (\<lambda>y t. y = x \<and> committed s (s\<lparr>sv_flow := items\<rparr>) t)
      (event_or evt (\<lambda>t. t\<lparr>sv_flow := sv_flow s\<rparr>)
        (persist_or e (\<lambda>t. restore_event e (sv_event s) (t\<lparr>sv_flow := sv_flow s\<rparr>)) x) (s\<lparr>sv_flow := items\<rparr>))"
    for evt items x
    by (rule sat_log_and_save [OF assms]) simp_all
  show ?thesis using assms
    unfolding SyncFlow_def Let_def
    by (auto split: option.splits sum.splits intro!: sat_mono [OF *])
qed

section \<open>Memory\<close>

lemma ReplaceMemory_spec:
  assumes "clock_ok e" "restorable s"
  shows "sat (unchanged e s)
    (\<lambda>_ t. SystemMemory_Validate memory = None \<and> committed s (s\<lparr>sv_memory := memory\<rparr>) t)
    (ReplaceMemory e memory s)"
proof -
  have *: "sat (unchanged e s) (\<lambda>y t. y = () \<and> committed s (s\<lparr>sv_memory := m\<rparr>) t)
      (event_or evt (\<lambda>t. t\<lparr>sv_memory := sv_memory s\<rparr>)
        (persist_or e (\<lambda>t. restore_event e (sv_event s) (t\<lparr>sv_memory := sv_memory s\<rparr>)) ()) (s\<lparr>sv_memory := m\<rparr>))" for evt m
    by (rule sat_log_and_save [OF assms]) simp_all
  show ?thesis using assms
    by (auto simp: ReplaceMemory_def memoryStore_replace_def Let_def split: option.splits intro!: sat_mono [OF *])
qed

section \<open>Branches\<close>

lemma CreateBranch_spec:
  assumes "clock_ok e" "restorable s"
  shows "sat (unchanged e s)
    (\<lambda>_ t. \<exists>b items. branch_to_create e item s = Inr b \<and>
       branchStore_create (en_clock e 51) (sv_branch s) b = Inr items \<and> committed s (s\<lparr>sv_branch := items\<rparr>) t)
    (CreateBranch e item s)"
proof -
  have nb: "newBranchStore now (sv_branch s) = sv_branch s" for now using assms by (simp add: restorable_def)
  have *: "sat (unchanged e s) (\<lambda>y t. y = () \<and> committed s (s\<lparr>sv_branch := items\<rparr>) t)
      (event_or evt (\<lambda>t. t\<lparr>sv_branch := sv_branch s\<rparr>)
        (persist_or e (\<lambda>t. restore_event e (sv_event s) (t\<lparr>sv_branch := sv_branch s\<rparr>)) ()) (s\<lparr>sv_branch := items\<rparr>))"
    for evt items
    by (rule sat_log_and_save [OF assms]) simp_all
  show ?thesis using assms
    by (auto simp: CreateBranch_def nb Let_def split: sum.splits intro!: sat_mono [OF *])
qed

lemma MergeBranch_spec:
  assumes "clock_ok e" "restorable s"
  shows "sat (unchanged e s)
    (\<lambda>b t. \<exists>now items. branchStore_merge (sv_branch s) branchID target notes now = Inr (b, items) \<and>
       committed s (s\<lparr>sv_branch := items\<rparr>) t)
    (MergeBranch e branchID target notes s)"
proof -
  have nb: "newBranchStore now (sv_branch s) = sv_branch s" for now using assms by (simp add: restorable_def)
  have *: "sat (unchanged e s) (\<lambda>y t. y = x \<and> committed s (s\<lparr>sv_branch := items\<rparr>) t)
      (event_or evt (\<lambda>t. t\<lparr>sv_branch := sv_branch s\<rparr>)
        (room_or (autoOpenReviewRoomItemLocked e k item)
          (\<lambda>t. restore_room e (sv_reviewRoom s) (restore_event e (sv_event s) (t\<lparr>sv_branch := sv_branch s\<rparr>)))
          (persist_or e (\<lambda>t. restore_room e (sv_reviewRoom s) (restore_event e (sv_event s) (t\<lparr>sv_branch := sv_branch s\<rparr>))) x))
        (s\<lparr>sv_branch := items\<rparr>))"
    for evt items x item k
    using assms
    by (intro sat_log_review_save autoOpen_touched) (simp_all add: restorable_def)
  show ?thesis using assms
    by (auto simp: MergeBranch_def nb Let_def split: sum.splits prod.splits intro!: sat_mono [OF *])
qed

section \<open>Releases, deploys, rollbacks, targets\<close>

lemma approval_refs_error_None:
  "approval_refs_error s w refs = None \<longleftrightarrow>
     (\<forall>r \<in> set refs. \<exists>a. approvalStore_get (sv_approval s) r = Some a \<and> ap_Status a = ''approved'' \<and> ap_WorkItemID a = w)"
  by (induction refs) (auto split: option.splits)

lemma CreateRelease_spec:
  assumes "clock_ok e" "restorable s"
  shows "sat (unchanged e s)
    (\<lambda>_ t. elems (rp_ApprovalRefs item) \<noteq> [] \<and>
       (\<forall>r \<in> set (elems (rp_ApprovalRefs item)). \<exists>a. approvalStore_get (sv_approval s) r = Some a \<and>
          ap_Status a = ''approved'' \<and> ap_WorkItemID a = rp_WorkItemID item) \<and>
       ReleasePacket_Validate (release_defaults e item) = None \<and>
       committed s (s\<lparr>sv_release := sv_release s @ [release_defaults e item],
                      sv_state := updateLastReleaseAt (sv_state s) (rp_ReleasedAt (release_defaults e item))\<rparr>) t)
    (CreateRelease e item s)"
proof -
  have *: "sat (unchanged e s) (\<lambda>y t. y = () \<and> committed s (s\<lparr>sv_release := items, sv_state := st\<rparr>) t)
      (event_or evt (\<lambda>t. t\<lparr>sv_release := sv_release s, sv_state := sv_state s\<rparr>)
        (persist_or e (\<lambda>t. restore_event e (sv_event s) (t\<lparr>sv_release := sv_release s, sv_state := sv_state s\<rparr>)) ())
        (s\<lparr>sv_release := items, sv_state := st\<rparr>))" for evt items st
    by (rule sat_log_and_save [OF assms]) simp_all
  have ids: "rp_WorkItemID (release_defaults e item) = rp_WorkItemID item"
    "elems (rp_ApprovalRefs (release_defaults e item)) = elems (rp_ApprovalRefs item)"
    by (simp_all add: release_defaults_def)
  show ?thesis using assms
    by (auto simp: CreateRelease_def releaseStore_create_def Let_def approval_refs_error_None ids
        split: option.splits sum.splits intro!: sat_mono [OF *])
qed

lemma CreateDeploy_spec:
  assumes "clock_ok e" "restorable s"
  shows "sat (unchanged e s)
    (\<lambda>_ t. \<exists>release. releaseStore_get (sv_release s) (dr_ReleaseID item) = Some release \<and>
       DeployRun_Validate (deploy_defaults e release item) = None \<and>
       committed s (s\<lparr>sv_deploy := sv_deploy s @ [deploy_defaults e release item],
                      sv_state := updateDeployHealth (sv_state s) (dr_Status (deploy_defaults e release item))\<rparr>) t)
    (CreateDeploy e item s)"
proof -
  let ?undo = "\<lambda>t. t\<lparr>sv_deploy := sv_deploy s, sv_state := sv_state s\<rparr>"
  let ?all = "\<lambda>t. restore_room e (sv_reviewRoom s) (restore_event e (sv_event s) (?undo t))"
  have *: "sat (unchanged e s) (\<lambda>y t. y = () \<and> committed s (s\<lparr>sv_deploy := items, sv_state := st\<rparr>) t)
      (event_or evt ?undo (suggest_or e k sug ?all (persist_or e ?all ())) (s\<lparr>sv_deploy := items, sv_state := st\<rparr>))"
    for evt items st k sug
    unfolding suggest_or_room_or [abs_def]
    using assms by (intro sat_log_review_save suggest_touched) (simp_all add: restorable_def)
  show ?thesis using assms
    by (auto simp: CreateDeploy_def deployStore_create_def Let_def split: option.splits sum.splits
        intro!: sat_mono [OF *])
qed

lemma CreateRollback_spec:
  assumes "clock_ok e" "restorable s"
  shows "sat (unchanged e s)
    (\<lambda>_ t. \<exists>release. releaseStore_get (sv_release s) (rr_ReleaseID item) = Some release \<and>
       \<not> ref_missing (\<lambda>d. deployStore_get (sv_deploy s) d \<noteq> None) (rr_DeployID item) \<and>
       RollbackRun_Validate (rollback_defaults e release item) = None \<and>
       committed s (s\<lparr>sv_rollback := sv_rollback s @ [rollback_defaults e release item],
                      sv_state := rollback_health (rollback_defaults e release item) (sv_state s)\<rparr>) t)
    (CreateRollback e item s)"
proof -
  let ?undo = "\<lambda>t. t\<lparr>sv_rollback := sv_rollback s, sv_state := sv_state s\<rparr>"
  let ?all = "\<lambda>t. restore_room e (sv_reviewRoom s) (restore_event e (sv_event s) (?undo t))"
  have *: "sat (unchanged e s) (\<lambda>y t. y = () \<and> committed s (s\<lparr>sv_rollback := items, sv_state := st\<rparr>) t)
      (event_or evt ?undo (suggest_or e k sug ?all (persist_or e ?all ())) (s\<lparr>sv_rollback := items, sv_state := st\<rparr>))"
    for evt items st k sug
    unfolding suggest_or_room_or [abs_def]
    using assms by (intro sat_log_review_save suggest_touched) (simp_all add: restorable_def)
  show ?thesis using assms
    by (auto simp: CreateRollback_def rollbackStore_create_def Let_def
        split: option.splits sum.splits intro!: sat_mono [OF *])
qed

lemma PutTarget_spec:
  assumes "clock_ok e" "restorable s"
  shows "sat (unchanged e s)
    (\<lambda>_ t. \<exists>items. targetStore_put (sv_target s) item = Inr items \<and> committed s (s\<lparr>sv_target := items\<rparr>) t)
    (PutTarget e item s)"
proof -
  have *: "sat (unchanged e s) (\<lambda>y t. y = () \<and> committed s (s\<lparr>sv_target := items\<rparr>) t)
      (event_or evt (\<lambda>t. t\<lparr>sv_target := sv_target s\<rparr>)
        (persist_or e (\<lambda>t. restore_event e (sv_event s) (t\<lparr>sv_target := sv_target s\<rparr>)) ()) (s\<lparr>sv_target := items\<rparr>))" for evt items
    by (rule sat_log_and_save [OF assms]) simp_all
  show ?thesis using assms by (auto simp: PutTarget_def Let_def split: sum.splits intro!: sat_mono [OF *])
qed

end
