(* ===== verification/Service_Specs2.thy ===== *)
theory Service_Specs2
  imports Service_Specs
begin

text \<open>
  Specifications of the operations on the review room, tokens, approvals, policies, gateway calls,
  runs, security signals, proposals and agent jobs, in the form of \<open>Service_Specs\<close>.
\<close>

section \<open>Review room\<close>

lemma sat_room_save:
  assumes ck: "clock_ok e" and rs: "restorable s" and inv: "room_inv room"
  shows "sat (unchanged e s) (\<lambda>y t. y = x \<and> committed s s t)
    (event_or evt (restore_room e (sv_reviewRoom s))
       (persist_or e (\<lambda>t. restore_event e (sv_event s) (restore_room e (sv_reviewRoom s) t)) x)
       (s\<lparr>sv_reviewRoom := room\<rparr>))"
proof (rule sat_event)
  have r: "room_inv (sv_reviewRoom s)" "0 < es_limit (sv_event s)" using rs by (simp_all add: restorable_def)
  show "unchanged e s (restore_room e (sv_reviewRoom s) (s\<lparr>sv_reviewRoom := room\<rparr>))"
    using r by (simp add: unchanged_def)
  fix es assume es: "grows (sv_event (s\<lparr>sv_reviewRoom := room\<rparr>)) es"
    "eventStore_count (sv_event (s\<lparr>sv_reviewRoom := room\<rparr>)) < eventStore_count es"
  show "sat (unchanged e s) (\<lambda>y t. y = x \<and> committed s s t)
     (persist_or e (\<lambda>t. restore_event e (sv_event s) (restore_room e (sv_reviewRoom s) t)) x
        (s\<lparr>sv_reviewRoom := room, sv_event := es\<rparr>))"
  proof (rule sat_persist [OF ck])
    show "room_inv (sv_reviewRoom (s\<lparr>sv_reviewRoom := room, sv_event := es\<rparr>))" using inv by simp
  next
    fix t assume "touched (s\<lparr>sv_reviewRoom := room, sv_event := es\<rparr>) t"
    then show "unchanged e s (restore_event e (sv_event s) (restore_room e (sv_reviewRoom s) t))"
      using r by (simp add: unchanged_def touched_def)
  next
    fix t assume t: "touched (s\<lparr>sv_reviewRoom := room, sv_event := es\<rparr>) t"
    then have g: "grows es (sv_event t)" by (simp add: touched_def)
    moreover have "eventStore_count es \<le> eventStore_count (sv_event t)" using g by (simp add: grows_def)
    ultimately show "x = x \<and> committed s s t"
      using t es grows_trans [of "sv_event s" es] by (auto simp: committed_def touched_def)
  qed
qed

lemma AddStructuredReviewRoomItem_spec:
  assumes "clock_ok e" "restorable s"
  shows "sat (unchanged e s) (\<lambda>_ t. committed s s t) (AddStructuredReviewRoomItem e sec item s)"
proof -
  have now: "\<not> IsZero (now_store e)" using assms by (simp add: now_store_def)
  have inv: "room_inv (sv_reviewRoom s)" using assms by (simp add: restorable_def)
  then have c: "copyReviewRoom n (sv_reviewRoom s) = sv_reviewRoom s" for n
    by (simp add: copyReviewRoom_normal room_inv_normal)
  have st: "room_inv stored" if "reviewRoomStore_add (en_isWord e) (now_store e) (sv_reviewRoom s) sec i = Inr (u, stored)"
    for i u stored
    using that ensureReviewRoomItem_spec(2) [OF inv now]
    by (auto simp: reviewRoomStore_add_def c Let_def split: if_splits sum.splits prod.splits)
  show ?thesis
    using assms st
    by (auto simp: AddStructuredReviewRoomItem_def Let_def split: option.splits sum.splits prod.splits
        intro!: sat_mono [OF sat_room_save])
qed

lemma TransitionStructuredReviewRoomItem_spec:
  assumes "clock_ok e" "restorable s"
  shows "sat (unchanged e s) (\<lambda>_ t. committed s s t) (TransitionStructuredReviewRoomItem e action item res s)"
proof -
  have now: "\<not> IsZero (now_store e)" using assms by (simp add: now_store_def)
  have inv: "room_inv (sv_reviewRoom s)" using assms by (simp add: restorable_def)
  have st: "room_inv stored"
    if "transitionStructured (now_store e) (sv_reviewRoom s) action item res = Inr (u, m, stored)" for u m stored
    using that room_inv_transition [OF inv now]
    by (auto simp: transitionStructured_def Let_def split: if_splits sum.splits prod.splits)
  show ?thesis
    using assms st
    by (auto simp: TransitionStructuredReviewRoomItem_def Let_def split: sum.splits prod.splits
        intro!: sat_mono [OF sat_room_save])
qed

section \<open>Write tokens\<close>

text \<open>The service apart from its token store.\<close>

definition sans_auth :: "Service \<Rightarrow> Service" where
  "sans_auth s = s\<lparr>sv_auth := newAuthStore [] defaultAuthConfig\<rparr>"

lemma sat_auth_save:
  assumes ck: "clock_ok e" and rs: "restorable s"
  shows "sat (\<lambda>t. unchanged e (sans_auth s) (sans_auth t) \<and> sv_auth t = newAuthStore (au_maps au) (au_config (sv_auth s)))
    (\<lambda>y t. y = x \<and> committed s (s\<lparr>sv_auth := au\<rparr>) t)
    (event_or evt (restore_auth (au_config (sv_auth s)))
       (persist_or e (\<lambda>t. restore_event e (sv_event s) (restore_auth (au_config (sv_auth s)) t)) x) (s\<lparr>sv_auth := au\<rparr>))"
proof (rule sat_event)
  have r: "room_inv (sv_reviewRoom s)" "0 < es_limit (sv_event s)" using rs by (simp_all add: restorable_def)
  let ?Qe = "\<lambda>t. unchanged e (sans_auth s) (sans_auth t) \<and> sv_auth t = newAuthStore (au_maps au) (au_config (sv_auth s))"
  show "?Qe (restore_auth (au_config (sv_auth s)) (s\<lparr>sv_auth := au\<rparr>))"
    using r by (simp add: unchanged_def restore_auth_def sans_auth_def)
  fix es assume es: "grows (sv_event (s\<lparr>sv_auth := au\<rparr>)) es"
    "eventStore_count (sv_event (s\<lparr>sv_auth := au\<rparr>)) < eventStore_count es"
  show "sat ?Qe (\<lambda>y t. y = x \<and> committed s (s\<lparr>sv_auth := au\<rparr>) t)
     (persist_or e (\<lambda>t. restore_event e (sv_event s) (restore_auth (au_config (sv_auth s)) t)) x
        (s\<lparr>sv_auth := au, sv_event := es\<rparr>))"
  proof (rule sat_persist [OF ck])
    show "room_inv (sv_reviewRoom (s\<lparr>sv_auth := au, sv_event := es\<rparr>))" using r by simp
  next
    fix t assume t: "touched (s\<lparr>sv_auth := au, sv_event := es\<rparr>) t"
      and room: "\<not> en_auditPromotion e \<Longrightarrow> sv_reviewRoom t = sv_reviewRoom (s\<lparr>sv_auth := au, sv_event := es\<rparr>)"
    have "sv_auth t = au" using t core_eqD(21) [of t "s\<lparr>sv_auth := au, sv_event := es\<rparr>"] by (simp add: touched_def)
    then show "?Qe (restore_event e (sv_event s) (restore_auth (au_config (sv_auth s)) t))"
      using t r room
      by (auto simp: unchanged_def touched_def restore_auth_def sans_auth_def restore_event_def newEventStoreFromState_def)
  next
    fix t assume t: "touched (s\<lparr>sv_auth := au, sv_event := es\<rparr>) t"
    then have g: "grows es (sv_event t)" by (simp add: touched_def)
    moreover have "eventStore_count es \<le> eventStore_count (sv_event t)" using g by (simp add: grows_def)
    ultimately show "x = x \<and> committed s (s\<lparr>sv_auth := au\<rparr>) t"
      using t es grows_trans [of "sv_event s" es] by (auto simp: committed_def touched_def)
  qed
qed

lemma SetWriteToken_spec:
  assumes "clock_ok e" "restorable s"
  shows "sat (\<lambda>t. unchanged e (sans_auth s) (sans_auth t) \<and>
       (sv_auth t = sv_auth s \<or>
        (\<exists>au. authStore_setToken (en_DEFAULT_ACTOR e) token (currentActor e s) (en_clock e 50) (sv_auth s) = Inr au \<and>
              sv_auth t = newAuthStore (au_maps au) (au_config (sv_auth s)))))
    (\<lambda>_ t. \<exists>au. authStore_setToken (en_DEFAULT_ACTOR e) token (currentActor e s) (en_clock e 50) (sv_auth s) = Inr au \<and>
       committed s (s\<lparr>sv_auth := au\<rparr>) t)
    (SetWriteToken e token s)"
proof -
  have "unchanged e (sans_auth s) (sans_auth s)" using assms by (simp add: unchanged_def restorable_def sans_auth_def)
  then show ?thesis
    using sat_mono [OF sat_auth_save [OF assms]]
    by (auto simp: SetWriteToken_def authStore_current_def Let_def split: sum.splits
        intro!: sat_mono [OF sat_auth_save [OF assms]])
qed

lemma ClearWriteToken_spec:
  assumes "clock_ok e" "restorable s"
  shows "sat (\<lambda>t. unchanged e (sans_auth s) (sans_auth t) \<and>
       sv_auth t = newAuthStore
         (au_maps (authStore_clear (en_DEFAULT_ACTOR e) (currentActor e s) (en_clock e 50) (sv_auth s))) (au_config (sv_auth s)))
    (\<lambda>_ t. committed s (s\<lparr>sv_auth := authStore_clear (en_DEFAULT_ACTOR e) (currentActor e s) (en_clock e 50) (sv_auth s)\<rparr>) t)
    (ClearWriteToken e s)"
  by (auto simp: ClearWriteToken_def authStore_current_def Let_def intro!: sat_mono [OF sat_auth_save [OF assms]])

section \<open>Approvals, preflights, policies\<close>

lemma CreateApproval_spec:
  assumes "clock_ok e" "restorable s"
  shows "sat (unchanged e s)
    (\<lambda>_ t. ApprovalItem_Validate item = None \<and>
       committed s (s\<lparr>sv_approval := sv_approval s @ [item],
                      sv_state := updateApprovalsPending (sv_state s) (approvalStore_count (sv_approval s @ [item]))\<rparr>) t)
    (CreateApproval e item s)"
proof -
  have *: "sat (unchanged e s) (\<lambda>y t. y = () \<and> committed s (s\<lparr>sv_approval := items, sv_state := st\<rparr>) t)
      (event_or evt (\<lambda>t. t\<lparr>sv_approval := sv_approval s, sv_state := sv_state s\<rparr>)
        (persist_or e (\<lambda>t. restore_event e (sv_event s) (t\<lparr>sv_approval := sv_approval s, sv_state := sv_state s\<rparr>)) ())
        (s\<lparr>sv_approval := items, sv_state := st\<rparr>))" for evt items st
    by (rule sat_log_and_save [OF assms]) simp_all
  show ?thesis using assms
    by (auto simp: CreateApproval_def approvalStore_create_def Let_def split: sum.splits intro!: sat_mono [OF *])
qed

lemma clear_rejection_touched:
  assumes "clock_ok e" "room_inv (sv_reviewRoom s)"
  shows "touched s (snd (clear_rejection e item s))"
proof -
  have now: "\<not> IsZero (now_store e)" using assms(1) by (simp add: now_store_def)
  have c: "copyReviewRoom n (sv_reviewRoom s) = sv_reviewRoom s" for n
    using assms(2) by (simp add: copyReviewRoom_normal room_inv_normal)
  have "room_inv r" if "autoResolveReviewRoomItemLocked (now_store e) (sv_reviewRoom s) src ref res = Inr (r, m, ch)"
    for src ref res r m ch
    using that room_inv_transition [OF assms(2) now] assms(2)
    by (auto simp: autoResolveReviewRoomItemLocked_def c Let_def split: option.splits)
  then show ?thesis
    using assms(2) grows_append
    by (auto simp: clear_rejection_def touched_def Let_def newReviewRoomStore_normal room_inv_normal
        split: sum.splits prod.splits)
qed

text \<open>Two steps on the room, with the same undo, are one.\<close>

definition then_act ::
  "(Service \<Rightarrow> error option \<times> Service) \<Rightarrow> (Service \<Rightarrow> error option \<times> Service) \<Rightarrow> Service \<Rightarrow> error option \<times> Service" where
  "then_act f g s = (case f s of (Some err, t) \<Rightarrow> (Some err, t) | (None, t) \<Rightarrow> g t)"

lemma room_or_then: "room_or f undo (room_or g undo k) s = room_or (then_act f g) undo k s"
  by (simp add: room_or_def then_act_def split: prod.splits option.splits)

lemma touched_trans: "touched a b \<Longrightarrow> touched b c \<Longrightarrow> touched a c"
  using grows_trans by (auto simp: touched_def)

lemma then_act_touched:
  assumes "touched s (snd (f s))" "\<And>t. room_inv (sv_reviewRoom t) \<Longrightarrow> touched t (snd (g t))"
  shows "touched s (snd (then_act f g s))"
  using assms touched_trans touched_room by (cases "f s") (auto simp: then_act_def split: option.splits)

lemma ResolveApproval_spec:
  assumes "clock_ok e" "restorable s"
  shows "sat (unchanged e s)
    (\<lambda>item t. \<exists>items. status \<in> {''approved'', ''rejected''} \<and>
       approvalStore_resolve (sv_approval s) approvalID status (en_clock e 50) = Inr (item, items) \<and>
       committed s (s\<lparr>sv_approval := items,
                      sv_state := updateApprovalsPending (sv_state s) (approvalStore_count items)\<rparr>) t)
    (ResolveApproval e approvalID status s)"
proof -
  let ?undo = "\<lambda>t. t\<lparr>sv_approval := sv_approval s, sv_state := sv_state s\<rparr>"
  let ?all = "\<lambda>t. restore_event e (sv_event s) (restore_room e (sv_reviewRoom s) (?undo t))"
  have *: "sat (unchanged e s) (\<lambda>y t. y = x \<and> committed s (s\<lparr>sv_approval := items, sv_state := st\<rparr>) t)
      (event_or evt ?undo (suggest_or e k sug ?all (room_or (clear_rejection e x) ?all (persist_or e ?all x)))
         (s\<lparr>sv_approval := items, sv_state := st\<rparr>))"
    for evt items st k sug x
    unfolding suggest_or_room_or [abs_def] room_or_then
    using assms
    by (intro sat_log_review_save then_act_touched suggest_touched clear_rejection_touched) (simp_all add: restorable_def)
  show ?thesis using assms
    by (auto simp: ResolveApproval_def Let_def split: sum.splits prod.splits intro!: sat_mono [OF *])
qed

lemma CreatePreflight_spec:
  assumes "clock_ok e" "restorable s"
  shows "sat (unchanged e s)
    (\<lambda>_ t. \<exists>p. PreflightRecord_Validate p = None \<and> pf_RecordID p = pf_RecordID item \<and>
       committed s (s\<lparr>sv_preflight := sv_preflight s @ [p]\<rparr>) t)
    (CreatePreflight e item s)"
proof -
  have *: "sat (unchanged e s) (\<lambda>y t. y = () \<and> committed s (s\<lparr>sv_preflight := items\<rparr>) t)
      (event_or evt (\<lambda>t. t\<lparr>sv_preflight := sv_preflight s\<rparr>)
        (persist_or e (\<lambda>t. restore_event e (sv_event s) (t\<lparr>sv_preflight := sv_preflight s\<rparr>)) ())
        (s\<lparr>sv_preflight := items\<rparr>))" for evt items
    by (rule sat_log_and_save [OF assms]) simp_all
  show ?thesis using assms
    by (auto simp: CreatePreflight_def preflightStore_create_def Let_def split: sum.splits intro!: sat_mono [OF *])
qed

lemma CreatePolicy_spec:
  assumes "clock_ok e" "restorable s"
  shows "sat (unchanged e s)
    (\<lambda>_ t. \<exists>items. policyStore_create (sv_policy s) item = Inr items \<and> committed s (s\<lparr>sv_policy := items\<rparr>) t)
    (CreatePolicy e item s)"
proof -
  have np: "newPolicyStore (sv_policy s) = sv_policy s" using assms by (simp add: restorable_def)
  have *: "sat (unchanged e s) (\<lambda>y t. y = () \<and> committed s (s\<lparr>sv_policy := items\<rparr>) t)
      (event_or evt (\<lambda>t. t\<lparr>sv_policy := sv_policy s\<rparr>)
        (persist_or e (\<lambda>t. restore_event e (sv_event s) (t\<lparr>sv_policy := sv_policy s\<rparr>)) ()) (s\<lparr>sv_policy := items\<rparr>))" for evt items
    by (rule sat_log_and_save [OF assms]) simp_all
  show ?thesis using assms
    by (auto simp: CreatePolicy_def np Let_def split: sum.splits intro!: sat_mono [OF *])
qed

lemma EvaluatePolicy_spec:
  assumes "clock_ok e" "restorable s"
  shows "sat (unchanged e s)
    (\<lambda>d t. \<exists>items. policyStore_create (sv_policy s) d = Inr items \<and> committed s (s\<lparr>sv_policy := items\<rparr>) t \<and>
       pd_DecisionID d = decisionID \<and> pd_Risk d = risk \<and> pd_Novelty d = novelty \<and> pd_TokenClass d = tc \<and>
       pd_RequiresApproval d = appr \<and> pd_Mode d = fst (decidePolicy intent risk novelty tc appr) \<and>
       pd_Decision d = fst (snd (decidePolicy intent risk novelty tc appr)))
    (EvaluatePolicy e decisionID intent scope risk novelty tc appr s)"
proof -
  obtain m d r where p: "decidePolicy intent risk novelty tc appr = (m, d, r)" by (cases "decidePolicy intent risk novelty tc appr")
  show ?thesis
    unfolding EvaluatePolicy_def p Let_def prod.case
    by (rule sat_wrap [OF CreatePolicy_spec [OF assms]]) auto
qed

end
