(* ===== verification/Service_Specs3.thy ===== *)
theory Service_Specs3
  imports Service_Specs2
begin

text \<open>
  Specifications of gateway calls, runs, security signals, proposals and agent jobs. Two of these
  operations return an error of the event log without undoing their store update; that log entry
  is always valid, so the error cannot occur (\<open>service_event_valid\<close>).
\<close>

section \<open>Runs\<close>

lemma ExecuteDeploy_spec:
  assumes "clock_ok e" "restorable s"
  shows "sat (unchanged e s)
    (\<lambda>(item, err) t. \<exists>release. releaseStore_get (sv_release s) releaseID = Some release \<and> dr_ReleaseID item = releaseID \<and>
       dr_DeployID item = deployID \<and> (dr_Status item = ''failed'' \<longleftrightarrow> err \<noteq> None) \<and>
       DeployRun_Validate (deploy_defaults e release item) = None \<and>
       committed s (s\<lparr>sv_deploy := sv_deploy s @ [deploy_defaults e release item],
                      sv_state := updateDeployHealth (sv_state s) (dr_Status (deploy_defaults e release item))\<rparr>) t)
    (ExecuteDeploy e ad deployID releaseID notes s)"
proof (cases "releaseStore_get (sv_release s) releaseID")
  case (Some release)
  note release = Some
  show ?thesis
  proof (cases "targetStore_get (sv_target s) (rp_Target release)")
    case (Some target)
    obtain out err where run: "da_Run ad target = (out, err)" by fastforce
    show ?thesis
      unfolding ExecuteDeploy_def release Some run Let_def option.case prod.case
      by (rule sat_wrap [OF CreateDeploy_spec [OF assms]]) (auto simp: release statusFromError_def)
  qed (use assms release in \<open>simp add: ExecuteDeploy_def\<close>)
qed (use assms in \<open>simp add: ExecuteDeploy_def\<close>)

lemma ExecuteRollback_spec:
  assumes "clock_ok e" "restorable s"
  shows "sat (unchanged e s)
    (\<lambda>(item, err) t. \<exists>release. releaseStore_get (sv_release s) releaseID = Some release \<and> rr_ReleaseID item = releaseID \<and>
       (rr_Status item = ''failed'' \<longleftrightarrow> err \<noteq> None) \<and>
       \<not> ref_missing (\<lambda>d. deployStore_get (sv_deploy s) d \<noteq> None) (rr_DeployID item) \<and>
       RollbackRun_Validate (rollback_defaults e release item) = None \<and>
       committed s (s\<lparr>sv_rollback := sv_rollback s @ [rollback_defaults e release item],
                      sv_state := rollback_health (rollback_defaults e release item) (sv_state s)\<rparr>) t)
    (ExecuteRollback e ad rollbackID releaseID deployID notes s)"
proof (cases "releaseStore_get (sv_release s) releaseID")
  case (Some release)
  note release = Some
  show ?thesis
  proof (cases "targetStore_get (sv_target s) (rp_Target release)")
    case (Some target)
    obtain out err where run: "da_Run ad target = (out, err)" by fastforce
    show ?thesis
      unfolding ExecuteRollback_def release Some run Let_def option.case prod.case
      by (rule sat_wrap [OF CreateRollback_spec [OF assms]]) (auto simp: release statusFromError_def)
  qed (use assms release in \<open>simp add: ExecuteRollback_def\<close>)
qed (use assms in \<open>simp add: ExecuteRollback_def\<close>)

lemma CreateExecute_spec:
  assumes "clock_ok e" "restorable s"
  shows "sat (unchanged e s)
    (\<lambda>_ t. \<exists>items. executeStore_create (sv_execute s) item = Inr items \<and> committed s (s\<lparr>sv_execute := items\<rparr>) t)
    (CreateExecute e item s)"
proof -
  have nx: "newExecuteStore (sv_execute s) = sv_execute s" using assms by (simp add: restorable_def)
  let ?undo = "\<lambda>t. t\<lparr>sv_execute := sv_execute s\<rparr>"
  let ?all = "\<lambda>t. restore_room e (sv_reviewRoom s) (restore_event e (sv_event s) (?undo t))"
  have *: "sat (unchanged e s) (\<lambda>y t. y = () \<and> committed s (s\<lparr>sv_execute := items\<rparr>) t)
      (event_or evt ?undo (suggest_or e k sug ?all (persist_or e ?all ())) (s\<lparr>sv_execute := items\<rparr>))"
    for evt items k sug
    unfolding suggest_or_room_or [abs_def]
    using assms by (intro sat_log_review_save suggest_touched) (simp_all add: restorable_def)
  show ?thesis using assms
    by (auto simp: CreateExecute_def nx Let_def split: sum.splits intro!: sat_mono [OF *])
qed

lemma RunExecute_spec:
  assumes "clock_ok e" "restorable s"
  shows "sat (unchanged e s)
    (\<lambda>(item, err) t. \<exists>work decision items. workStore_get (sv_work s) workID = Some work \<and>
       policyStore_get (sv_policy s) decisionID = Some decision \<and> er_Mode item = pd_Mode decision \<and>
       (pd_Decision decision = ''hold'' \<or> pd_Mode decision = ''blocked'' \<longleftrightarrow> err \<noteq> None) \<and>
       (err \<noteq> None \<longrightarrow> er_Status item = ''failed'') \<and>
       (er_Status item = ''succeeded'' \<longrightarrow> pd_Mode decision = ''local'' \<and> pd_Decision decision \<noteq> ''hold'') \<and>
       executeStore_create (sv_execute s) item = Inr items \<and> committed s (s\<lparr>sv_execute := items\<rparr>) t)
    (RunExecute e executeID workID decisionID notes s)"
proof (cases "workStore_get (sv_work s) workID")
  case (Some work)
  note work = Some
  show ?thesis
  proof (cases "policyStore_get (sv_policy s) decisionID")
    case (Some decision)
    show ?thesis
      unfolding RunExecute_def work Some Let_def option.case
      by (rule sat_wrap [OF CreateExecute_spec [OF assms]]) (auto simp: executeStatusFromDecision_def split: if_splits)
  qed (use assms work in \<open>simp add: RunExecute_def\<close>)
qed (use assms in \<open>simp add: RunExecute_def\<close>)

lemma clear_failed_scope_touched:
  assumes "clock_ok e" "room_inv (sv_reviewRoom s)"
  shows "touched s (snd (clear_failed_scope e item s))"
proof -
  have now: "\<not> IsZero (now_store e)" using assms(1) by (simp add: now_store_def)
  have c: "copyReviewRoom n (sv_reviewRoom s) = sv_reviewRoom s" for n
    using assms(2) by (simp add: copyReviewRoom_normal room_inv_normal)
  have "room_inv r" if "autoResolveReviewRoomItemsByEvidenceLocked (now_store e) (sv_reviewRoom s) src ev res = Inr (r, n)"
    for src ev res r n
    using that resolve_loop_filter [OF assms(2) now, of "TrimSpace ev" src res 0] assms(2)
    by (auto simp: autoResolveReviewRoomItemsByEvidenceLocked_def c Let_def split: if_splits)
  then show ?thesis
    using assms(2)
    by (auto simp: clear_failed_scope_def touched_def Let_def newReviewRoomStore_normal room_inv_normal
        split: sum.splits prod.splits)
qed

lemma CreateVerification_spec:
  assumes "clock_ok e" "restorable s"
  shows "sat (unchanged e s)
    (\<lambda>_ t. VerificationRecord_Validate item = None \<and> committed s (s\<lparr>sv_verify := sv_verify s @ [item]\<rparr>) t)
    (CreateVerification e item s)"
proof -
  let ?undo = "\<lambda>t. t\<lparr>sv_verify := sv_verify s\<rparr>"
  let ?all = "\<lambda>t. restore_room e (sv_reviewRoom s) (restore_event e (sv_event s) (?undo t))"
  have *: "sat (unchanged e s) (\<lambda>y t. y = () \<and> committed s (s\<lparr>sv_verify := items\<rparr>) t)
      (event_or evt ?undo
         (room_or (case sug of Some i \<Rightarrow> autoOpenReviewRoomItemLocked e k i | None \<Rightarrow> clear_failed_scope e item)
            ?all (persist_or e ?all ())) (s\<lparr>sv_verify := items\<rparr>))"
    for evt items k sug
    using assms
    by (intro sat_log_review_save)
       (simp_all add: restorable_def autoOpen_touched clear_failed_scope_touched split: option.splits)
  show ?thesis using assms
    unfolding CreateVerification_def verificationStore_create_def Let_def
    by (auto split: sum.splits intro!: sat_mono [OF *])
qed

lemma RunVerification_spec:
  assumes "clock_ok e" "restorable s"
  shows "sat (unchanged e s)
    (\<lambda>(item, err) t. vr_RecordID item = recordID \<and> (vr_Status item = ''failed'' \<longleftrightarrow> err \<noteq> None) \<and>
       VerificationRecord_Validate item = None \<and> committed s (s\<lparr>sv_verify := sv_verify s @ [item]\<rparr>) t)
    (RunVerification e ad recordID scope workdir command notes s)"
proof (cases "normalizeVerificationCommand command")
  case (Inr cmd)
  obtain out err where run: "va_Run ad cmd workdir = (out, err)" by fastforce
  show ?thesis
    unfolding RunVerification_def Inr run Let_def sum.case prod.case
    by (rule sat_wrap [OF CreateVerification_spec [OF assms]]) (auto simp: verificationStatusFromError_def)
qed (use assms in \<open>simp add: RunVerification_def\<close>)

section \<open>Gateway calls\<close>

text \<open>A call in flight: the stores are those of \<open>s1\<close> and at least one event has been recorded.\<close>

definition inflight :: "Service \<Rightarrow> Service \<Rightarrow> Service \<Rightarrow> bool" where
  "inflight s s1 t \<longleftrightarrow> touched s1 t \<and> sv_event s1 = sv_event s \<and>
     eventStore_count (sv_event s) < eventStore_count (sv_event t)"

lemma inflight_touched: "inflight s s1 t \<Longrightarrow> touched t u \<Longrightarrow> inflight s s1 u"
proof -
  assume t: "inflight s s1 t" and u: "touched t u"
  then have "eventStore_count (sv_event t) \<le> eventStore_count (sv_event u)" by (simp add: touched_def grows_def)
  with t u touched_trans [of s1 t u] show "inflight s s1 u" by (simp add: inflight_def)
qed

lemma inflight_event:
  assumes "inflight s s1 t" "Qe (undo t)" "\<And>es. inflight s s1 (t\<lparr>sv_event := es\<rparr>) \<Longrightarrow> sat Qe Qs (k (t\<lparr>sv_event := es\<rparr>))"
  shows "sat Qe Qs (event_or ev undo k t)"
proof (rule sat_event, rule assms(2))
  fix es assume es: "grows (sv_event t) es" "eventStore_count (sv_event t) < eventStore_count es"
  then have "touched t (t\<lparr>sv_event := es\<rparr>)" using assms(1) by (simp add: touched_def inflight_def)
  from inflight_touched [OF assms(1) this] show "sat Qe Qs (k (t\<lparr>sv_event := es\<rparr>))" by (rule assms(3))
qed

lemma inflight_save:
  assumes "clock_ok e" "inflight s s1 t" "\<And>u. inflight s s1 u \<Longrightarrow> unchanged e s (undo u)"
  shows "sat (unchanged e s) (\<lambda>y u. committed s s1 u) (persist_or e undo x t)"
proof (rule sat_persist [OF assms(1)])
  show "room_inv (sv_reviewRoom t)" using assms(2) by (simp add: inflight_def touched_def)
  fix u assume "touched t u"
  then have u: "inflight s s1 u" using assms(2) inflight_touched by blast
  then show "unchanged e s (undo u)" by (rule assms(3))
  show "committed s s1 u" using u by (auto simp: inflight_def committed_def touched_def)
qed

lemma inflight_suggest:
  assumes "clock_ok e" "inflight s s1 t" "\<And>u. inflight s s1 u \<Longrightarrow> unchanged e s (undo u)"
  shows "sat (unchanged e s) (\<lambda>y u. committed s s1 u) (suggest_or e k sug undo (persist_or e undo x) t)"
  unfolding suggest_or_room_or
proof (rule sat_room)
  show "touched t (snd ((case sug of None \<Rightarrow> (\<lambda>t. (None, t)) | Some item \<Rightarrow> autoOpenReviewRoomItemLocked e k item) t))"
    using assms(1,2) by (intro suggest_touched) (simp_all add: inflight_def touched_def)
  fix u assume "touched t u"
  then have u: "inflight s s1 u" using assms(2) inflight_touched by blast
  then show "unchanged e s (undo u)" by (rule assms(3))
  show "sat (unchanged e s) (\<lambda>y u. committed s s1 u) (persist_or e undo x u)"
    by (rule inflight_save [OF assms(1) u assms(3)])
qed

lemma gateway_events:
  fixes ev2 :: "Service \<Rightarrow> EventEnvelope" and c2 :: bool and k :: nat and sug :: "ReviewRoomItem option"
  assumes "clock_ok e" "restorable s"
  defines "undo \<equiv> \<lambda>t. t\<lparr>sv_gateway := sv_gateway s\<rparr>"
  defines "uev \<equiv> \<lambda>t. restore_event e (sv_event s) (undo t)"
  defines "all \<equiv> \<lambda>t. restore_room e (sv_reviewRoom s) (uev t)"
  defines "failed \<equiv> \<lambda>t. if c2 then event_or (ev2 t) uev (suggest_or e k sug all (persist_or e all ())) t
                        else persist_or e all () t"
  shows "sat (unchanged e s) (\<lambda>_ t. committed s (s\<lparr>sv_gateway := items\<rparr>) t)
    (event_or ev0 undo (\<lambda>t. if c1 then event_or (ev1 t) uev failed t else failed t) (s\<lparr>sv_gateway := items\<rparr>))"
proof (rule sat_event)
  let ?s1 = "s\<lparr>sv_gateway := items\<rparr>"
  have ri: "room_inv (sv_reviewRoom s)" "0 < es_limit (sv_event s)" using assms by (simp_all add: restorable_def)
  show "unchanged e s (undo ?s1)" using ri by (simp add: unchanged_def undo_def)
  have all: "unchanged e s (all u)" if "inflight s ?s1 u" for u
    using that ri by (simp add: unchanged_def all_def uev_def undo_def inflight_def touched_def)
  have uev: "unchanged e s (uev u)" if "inflight s ?s1 u" "sv_reviewRoom u = sv_reviewRoom s" for u
    using that ri by (simp add: unchanged_def uev_def undo_def inflight_def touched_def)
  have failed: "sat (unchanged e s) (\<lambda>_ t. committed s ?s1 t) (failed u)"
    if "inflight s ?s1 u" "sv_reviewRoom u = sv_reviewRoom s" for u
    unfolding failed_def using that
    by (auto intro!: inflight_event inflight_suggest inflight_save assms(1) all uev)
  fix es assume "grows (sv_event ?s1) es" "eventStore_count (sv_event ?s1) < eventStore_count es"
  then have f: "inflight s ?s1 (?s1\<lparr>sv_event := es\<rparr>)" using ri by (simp add: inflight_def touched_def)
  then show "sat (unchanged e s) (\<lambda>_ t. committed s ?s1 t)
      (if c1 then event_or (ev1 (?s1\<lparr>sv_event := es\<rparr>)) uev failed (?s1\<lparr>sv_event := es\<rparr>) else failed (?s1\<lparr>sv_event := es\<rparr>))"
    by (auto intro!: inflight_event [OF f] uev failed)
qed

lemma createGatewayCall_spec:
  assumes "clock_ok e" "restorable s"
  shows "sat (unchanged e s)
    (\<lambda>_ t. \<exists>decision call. policyStore_get (sv_policy s) (gc_DecisionID item) = Some decision \<and>
       pd_Decision decision = ''go'' \<and>
       canonicalPolicyMode (pd_Mode decision) = canonicalPolicyMode (ga_RequiredMode ad) \<and>
       GatewayCall_Validate call = None \<and> committed s (s\<lparr>sv_gateway := sv_gateway s @ [call]\<rparr>) t \<and>
       (\<exists>prepared. ga_Prepare ad item decision = Inr prepared \<and>
          (if ga_DispatchEnabled ad then ga_Dispatch ad prepared decision payload else Inr prepared) = Inr call))
    (createGatewayCallWithPayload e item ad payload s)"
  using assms unfolding createGatewayCallWithPayload_def gatewayStore_create_def Let_def
  by (auto split: option.splits sum.splits if_splits intro!: sat_mono [OF gateway_events [OF assms]])

end
