(* ===== verification/Service_Specs4.thy ===== *)
theory Service_Specs4
  imports Service_Specs3
begin

text \<open>
  Specifications of security signals, proposals and agent jobs. \<open>createProposalLocked\<close>,
  \<open>createAgentJobLocked\<close> and the second event of \<open>PromoteProposal\<close> have no complete undo on a failing
  log; the event of a validated record is always valid, so these branches are not reached.
\<close>

section \<open>Events of validated records\<close>

lemma currentActor_not_blank [simp]: "\<not> blank (currentActor e s)"
  using normalizeActor_not_blank [of "sv_actorOverride s"]
  by (auto simp: currentActor_def currentActorOverride_def Let_def simp del: ResolveActor.simps)

lemma service_event_valid:
  assumes "clock_ok e" "\<not> blank kind" "validSurface sf" "\<not> blank w" "validStage st"
    "list_all (\<lambda>kv. \<not> blank (fst kv) \<and> json_ok (snd kv)) data"
  shows "EventEnvelope_Validate (service_event e k s kind sf w st data) = None"
  unfolding service_event_def using assms
  by (intro newEvent_valid) (simp_all add: tick_def validateJSONObject_ok)

lemma not_blank_keys:
  "\<not> blank ''title''" "\<not> blank ''status''" "\<not> blank ''summary''" "\<not> blank ''kind''" "\<not> blank ''role''"
  "\<not> blank ''source''" "\<not> blank ''proposal_id''" "\<not> blank ''work_item_id''"
  by code_simp+

lemma not_blank_kinds:
  "\<not> blank ''proposal.created''" "\<not> blank ''agent_job.created''" "\<not> blank ''proposal.promoted''"
  "\<not> blank ''work_item.created''"
  by code_simp+

lemmas event_literals = not_blank_keys not_blank_kinds

lemma event_or_valid:
  assumes "EventEnvelope_Validate ev = None"
  obtains es where "grows (sv_event s) es" "eventStore_count (sv_event s) < eventStore_count es"
    "event_or ev undo k s = k (s\<lparr>sv_event := es\<rparr>)"
proof -
  obtain es where es: "eventStore_append (sv_event s) ev = Inr es"
    using eventStore_append_Inr_iff [of "sv_event s" ev] assms by blast
  show thesis
    using that [of es] es grows_append [OF es] eventStore_count_append [OF es] by (simp add: event_or_def)
qed

section \<open>Security signals\<close>

lemma RecordSecuritySignal_spec:
  assumes "clock_ok e" "restorable s"
  shows "sat (unchanged e s) (\<lambda>_ t. committed s s t) (RecordSecuritySignal e input s)"
proof -
  have now: "\<not> IsZero (now_store e)" using assms by (simp add: now_store_def)
  have ri: "room_inv (sv_reviewRoom s)" "0 < es_limit (sv_event s)" using assms by (simp_all add: restorable_def)
  let ?all = "\<lambda>t. restore_room e (sv_reviewRoom s) (restore_event e (sv_event s) t)"
  have all: "unchanged e s (?all u)" if "inflight s s u" for u
    using that ri by (simp add: unchanged_def inflight_def touched_def)
  have save: "sat (unchanged e s) (\<lambda>_ t. committed s s t) (persist_or e ?all () u)" if "inflight s s u" for u
    using inflight_save [OF assms(1) that all] .
  have "sat (unchanged e s) (\<lambda>_ t. committed s s t)
      (event_or ev (\<lambda>t. t)
        (\<lambda>t. if \<not> promote then persist_or e ?all () t
             else case ensureReviewRoomItem (en_isWord e) (now_store e) (sv_reviewRoom t) ''open'' item of
                    Inl err \<Rightarrow> (Inl err, restore_event e (sv_event s) t)
                  | Inr (updated, _) \<Rightarrow>
                      persist_or e ?all () (t\<lparr>sv_reviewRoom := newReviewRoomStore (now_store e) updated\<rparr>)) s)" for ev promote item
  proof (rule sat_event)
    show "unchanged e s s" using assms by simp
    fix es assume "grows (sv_event s) es" "eventStore_count (sv_event s) < eventStore_count es"
    then have f: "inflight s s (s\<lparr>sv_event := es\<rparr>)" using ri by (simp add: inflight_def touched_def)
    have g: "inflight s s (s\<lparr>sv_event := es, sv_reviewRoom := newReviewRoomStore (now_store e) r\<rparr>)"
      if "ensureReviewRoomItem (en_isWord e) (now_store e) (sv_reviewRoom s) ''open'' item = Inr (r, a)" for r a
      using f ensureReviewRoomItem_spec(2) [OF ri(1) now that]
      by (simp add: inflight_def touched_def newReviewRoomStore_normal room_inv_normal)
    have "unchanged e s (restore_event e (sv_event s) (s\<lparr>sv_event := es\<rparr>))" using ri by (simp add: unchanged_def)
    then show "sat (unchanged e s) (\<lambda>_ t. committed s s t)
      (if \<not> promote then persist_or e ?all () (s\<lparr>sv_event := es\<rparr>)
       else case ensureReviewRoomItem (en_isWord e) (now_store e) (sv_reviewRoom (s\<lparr>sv_event := es\<rparr>)) ''open'' item of
              Inl err \<Rightarrow> (Inl err, restore_event e (sv_event s) (s\<lparr>sv_event := es\<rparr>))
            | Inr (updated, _) \<Rightarrow> persist_or e ?all ()
                (s\<lparr>sv_event := es, sv_reviewRoom := newReviewRoomStore (now_store e) updated\<rparr>))"
      using save [OF f] save [OF g] by (auto split: sum.splits prod.splits)
  qed
  note run = this
  show ?thesis using assms run
    unfolding RecordSecuritySignal_def Let_def by (auto split: sum.splits option.splits)
qed

section \<open>Proposals\<close>

lemma CreateProposal_spec:
  assumes "clock_ok e" "restorable s"
  shows "sat (unchanged e s)
    (\<lambda>_ t. ensureActiveBranchLocked s (pi_BranchID item) = None \<and>
       ProposalItem_Validate (normalizeProposalItem (en_clock e 50) item) = None \<and>
       committed s (s\<lparr>sv_proposal := sv_proposal s @ [normalizeProposalItem (en_clock e 50) item]\<rparr>) t)
    (CreateProposal e item s)"
proof -
  let ?p = "normalizeProposalItem (en_clock e 50) item"
  let ?s1 = "s\<lparr>sv_proposal := sv_proposal s @ [?p]\<rparr>"
  let ?undo = "\<lambda>t. restore_event e (sv_event s) (t\<lparr>sv_proposal := sv_proposal s\<rparr>)"
  have ri: "room_inv (sv_reviewRoom s)" "0 < es_limit (sv_event s)" using assms by (simp_all add: restorable_def)
  show ?thesis
  proof (cases "ensureActiveBranchLocked s (pi_BranchID item) = None \<and> ProposalItem_Validate ?p = None")
    case True
    let ?ev = "service_event e 0 ?s1 ''proposal.created'' (pi_Surface ?p) (pi_ProposalID ?p) ''discover''
                 [(''title'', JString (pi_Title ?p)), (''status'', JString (pi_Status ?p)), (''summary'', JString (pi_Summary ?p))]"
    have "EventEnvelope_Validate ?ev = None"
      using assms(1) True
      by (intro service_event_valid) (simp_all add: event_literals ProposalItem_Validate_def validStage_def split: if_splits)
    from event_or_valid [OF this, of ?s1 "\<lambda>t. t" "\<lambda>t. (Inr ?p, t)"] obtain es where
      es: "grows (sv_event ?s1) es" "eventStore_count (sv_event ?s1) < eventStore_count es"
        "event_or ?ev (\<lambda>t. t) (\<lambda>t. (Inr ?p, t)) ?s1 = (Inr ?p, ?s1\<lparr>sv_event := es\<rparr>)" by blast
    have created: "createProposalLocked e item s = (Inr ?p, ?s1\<lparr>sv_event := es\<rparr>)"
      using True es(3) by (simp add: createProposalLocked_def proposalStore_create_def append_valid_def Let_def)
    have f: "inflight s ?s1 (?s1\<lparr>sv_event := es\<rparr>)" using es ri by (simp add: inflight_def touched_def)
    have "sat (unchanged e s) (\<lambda>_ t. committed s ?s1 t) (persist_or e ?undo () (?s1\<lparr>sv_event := es\<rparr>))"
    proof (rule sat_persist [OF assms(1)])
      fix u assume u: "touched (?s1\<lparr>sv_event := es\<rparr>) u"
        and room: "\<not> en_auditPromotion e \<Longrightarrow> sv_reviewRoom u = sv_reviewRoom (?s1\<lparr>sv_event := es\<rparr>)"
      show "unchanged e s (?undo u)" using u room ri by (auto simp: unchanged_def touched_def)
    next
      fix u assume "touched (?s1\<lparr>sv_event := es\<rparr>) u"
      from inflight_touched [OF f this] show "committed s ?s1 u" by (auto simp: inflight_def committed_def touched_def)
    qed (use ri in simp)
    from sat_mono [OF this] True created show ?thesis by (simp add: CreateProposal_def)
  next
    case False
    then show ?thesis using assms
      by (auto simp: CreateProposal_def createProposalLocked_def proposalStore_create_def append_valid_def Let_def
          split: option.splits)
  qed
qed

lemma PromoteProposal_spec:
  assumes "clock_ok e" "restorable s"
  shows "sat (unchanged e s)
    (\<lambda>(updated, work) t. \<exists>proposal proposals.
       proposalStore_get (sv_proposal s) proposalID = Some proposal \<and> pi_Status proposal = ''proposed'' \<and>
       WorkItem_Validate work = None \<and> wi_ID work = workID \<and>
       proposalStore_promote (sv_proposal s) proposalID workID (en_clock e 51) = Inr (updated, proposals) \<and>
       committed s (s\<lparr>sv_work := sv_work s @ [work], sv_proposal := proposals,
                      sv_state := updateWorkItemsActive (sv_state s) (int (Suc (length (sv_work s))))\<rparr>) t)
    (PromoteProposal e proposalID workID s)"
proof -
  have ri: "room_inv (sv_reviewRoom s)" "0 < es_limit (sv_event s)" using assms by (simp_all add: restorable_def)
  let ?undo = "\<lambda>t. t\<lparr>sv_proposal := sv_proposal s, sv_work := sv_work s, sv_state := sv_state s\<rparr>"
  let ?all = "\<lambda>t. restore_event e (sv_event s) (?undo t)"
  have run: "sat (unchanged e s) (\<lambda>y t. y = x \<and> committed s s3 t)
      (event_or ev1 ?undo (\<lambda>t. event_or (service_event e k t ''work_item.created'' (wi_Surface work) (wi_ID work) (wi_Stage work)
          [(''title'', JString (wi_Title work)), (''source'', JString ''proposal.promote'')]) ?undo (persist_or e ?all x) t) s3)"
    if s3: "s3 = s\<lparr>sv_work := works, sv_proposal := proposals, sv_state := st\<rparr>" and "WorkItem_Validate work = None"
    for s3 works proposals st ev1 work x k
  proof (rule sat_event)
    show "unchanged e s (?undo s3)" using s3 ri by (simp add: unchanged_def)
    fix es assume es: "grows (sv_event s3) es" "eventStore_count (sv_event s3) < eventStore_count es"
    have f: "inflight s s3 (s3\<lparr>sv_event := es\<rparr>)" using es ri s3 by (simp add: inflight_def touched_def)
    have "EventEnvelope_Validate (service_event e k (s3\<lparr>sv_event := es\<rparr>) ''work_item.created'' (wi_Surface work) (wi_ID work)
        (wi_Stage work) [(''title'', JString (wi_Title work)), (''source'', JString ''proposal.promote'')]) = None" (is "EventEnvelope_Validate ?ev = None")
      using assms(1) that(2) by (intro service_event_valid) (simp_all add: event_literals WorkItem_Validate_def then_json_def split: if_splits option.splits)
    from event_or_valid [OF this, of "s3\<lparr>sv_event := es\<rparr>" ?undo "persist_or e ?all x"] obtain es2 where
      es2: "grows es es2" "eventStore_count es < eventStore_count es2"
        "event_or ?ev ?undo (persist_or e ?all x) (s3\<lparr>sv_event := es\<rparr>) = persist_or e ?all x (s3\<lparr>sv_event := es2\<rparr>)" by auto
    have f2: "inflight s s3 (s3\<lparr>sv_event := es2\<rparr>)"
      using inflight_touched [OF f, of "s3\<lparr>sv_event := es2\<rparr>"] es2(1) ri s3 by (simp add: touched_def)
    show "sat (unchanged e s) (\<lambda>y t. y = x \<and> committed s s3 t) (event_or ?ev ?undo (persist_or e ?all x) (s3\<lparr>sv_event := es\<rparr>))"
      unfolding es2(3)
    proof (rule sat_persist [OF assms(1)])
      fix u assume u: "touched (s3\<lparr>sv_event := es2\<rparr>) u"
        and room: "\<not> en_auditPromotion e \<Longrightarrow> sv_reviewRoom u = sv_reviewRoom (s3\<lparr>sv_event := es2\<rparr>)"
      show "unchanged e s (?all u)" using u room ri s3 by (auto simp: unchanged_def touched_def)
    next
      fix u assume "touched (s3\<lparr>sv_event := es2\<rparr>) u"
      from inflight_touched [OF f2 this] show "x = x \<and> committed s s3 u" by (auto simp: inflight_def committed_def touched_def)
    qed (use ri s3 in simp)
  qed
  have id: "wi_ID (promoted_work n p w) = w" for n p w by (simp add: promoted_work_def)
  show ?thesis using assms
    by (auto simp: PromoteProposal_def workStore_create_def append_valid_def Let_def split: sum.splits option.splits
        intro!: sat_mono [OF run] id)
qed

section \<open>Agent jobs\<close>

lemma CreateAgentJob_spec:
  assumes "clock_ok e" "restorable s"
  shows "sat (unchanged e s)
    (\<lambda>_ t. ensureActiveBranchLocked s (aj_BranchID item) = None \<and>
       agentJobStore_create (sv_agentJob s) (normalizeAgentJobItem (en_clock e 50) item) =
         Inr (sv_agentJob s @ [normalizeAgentJobItem (en_clock e 50) item]) \<and>
       committed s (s\<lparr>sv_agentJob := sv_agentJob s @ [normalizeAgentJobItem (en_clock e 50) item]\<rparr>) t)
    (CreateAgentJob e item s)"
proof -
  let ?p = "normalizeAgentJobItem (en_clock e 50) item"
  let ?s1 = "s\<lparr>sv_agentJob := sv_agentJob s @ [?p]\<rparr>"
  let ?undo = "\<lambda>t. restore_event e (sv_event s) (t\<lparr>sv_agentJob := sv_agentJob s\<rparr>)"
  have ri: "room_inv (sv_reviewRoom s)" "0 < es_limit (sv_event s)" using assms by (simp_all add: restorable_def)
  show ?thesis
  proof (cases "ensureActiveBranchLocked s (aj_BranchID item) = None \<and> AgentJob_Validate ?p = None \<and>
      lookup aj_JobID (aj_JobID ?p) (sv_agentJob s) = None")
    case True
    let ?ev = "service_event e 0 ?s1 ''agent_job.created'' (aj_Surface ?p) (aj_JobID ?p) (aj_Stage ?p)
                 [(''kind'', JString (aj_Kind ?p)), (''role'', JString (aj_Role ?p)),
                  (''status'', JString (aj_Status ?p)), (''summary'', JString (aj_Summary ?p))]"
    have "EventEnvelope_Validate ?ev = None"
      using assms(1) True
      by (intro service_event_valid) (simp_all add: event_literals AgentJob_Validate_def then_json_def split: if_splits option.splits)
    from event_or_valid [OF this, of ?s1 "\<lambda>t. t" "\<lambda>t. (Inr ?p, t)"] obtain es where
      es: "grows (sv_event ?s1) es" "eventStore_count (sv_event ?s1) < eventStore_count es"
        "event_or ?ev (\<lambda>t. t) (\<lambda>t. (Inr ?p, t)) ?s1 = (Inr ?p, ?s1\<lparr>sv_event := es\<rparr>)" by blast
    have created: "createAgentJobLocked e item s = (Inr ?p, ?s1\<lparr>sv_event := es\<rparr>)"
      using True es(3) by (simp add: createAgentJobLocked_def agentJobStore_create_def Let_def)
    have f: "inflight s ?s1 (?s1\<lparr>sv_event := es\<rparr>)" using es ri by (simp add: inflight_def touched_def)
    have "sat (unchanged e s) (\<lambda>_ t. committed s ?s1 t) (persist_or e ?undo () (?s1\<lparr>sv_event := es\<rparr>))"
    proof (rule sat_persist [OF assms(1)])
      fix u assume u: "touched (?s1\<lparr>sv_event := es\<rparr>) u"
        and room: "\<not> en_auditPromotion e \<Longrightarrow> sv_reviewRoom u = sv_reviewRoom (?s1\<lparr>sv_event := es\<rparr>)"
      show "unchanged e s (?undo u)" using u room ri by (auto simp: unchanged_def touched_def)
    next
      fix u assume "touched (?s1\<lparr>sv_event := es\<rparr>) u"
      from inflight_touched [OF f this] show "committed s ?s1 u" by (auto simp: inflight_def committed_def touched_def)
    qed (use ri in simp)
    from sat_mono [OF this] True created show ?thesis by (simp add: CreateAgentJob_def agentJobStore_create_def)
  next
    case False
    then show ?thesis using assms
      by (auto simp: CreateAgentJob_def createAgentJobLocked_def agentJobStore_create_def Let_def split: option.splits)
  qed
qed

lemma review_job_touched:
  assumes "clock_ok e" "room_inv (sv_reviewRoom s)"
  shows "touched s (snd (review_job e job s))"
proof -
  have now: "\<not> IsZero (now_store e)" using assms(1) by (simp add: now_store_def)
  have c: "copyReviewRoom n (sv_reviewRoom s) = sv_reviewRoom s" for n
    using assms(2) by (simp add: copyReviewRoom_normal room_inv_normal)
  have a: "room_inv r" if "autoResolveReviewRoomItemLocked (now_store e) (sv_reviewRoom s) src ref res = Inr (r, m, ch)"
    for src ref res r m ch
    using that room_inv_transition [OF assms(2) now] assms(2)
    by (auto simp: autoResolveReviewRoomItemLocked_def c Let_def split: option.splits)
  have b: "room_inv r" if "ensureReviewRoomItem (en_isWord e) (now_store e) (sv_reviewRoom s) ''open'' it = Inr (r, ch)"
    for it r ch
    using ensureReviewRoomItem_spec(2) [OF assms(2) now that] .
  show ?thesis
    using assms(2)
    by (auto simp: review_job_def touched_def Let_def newReviewRoomStore_normal room_inv_normal dest!: a b
        split: sum.splits prod.splits option.splits)
qed

lemma updateAgentJobLocked_spec:
  assumes "clock_ok e" "restorable s"
  shows "sat (unchanged e s)
    (\<lambda>(updated, _) t. \<exists>items.
       agentJobStore_update (sv_agentJob s) jobID status nts result (en_clock e 50) = Inr (updated, items) \<and>
       committed s (s\<lparr>sv_agentJob := items\<rparr>) t)
    (updateAgentJobLocked e jobID status nts result kind s)"
proof -
  let ?undo = "\<lambda>t. t\<lparr>sv_agentJob := sv_agentJob s\<rparr>"
  let ?all = "\<lambda>t. restore_event e (sv_event s) (restore_room e (sv_reviewRoom s) (?undo t))"
  have *: "sat (unchanged e s) (\<lambda>y t. y = x \<and> committed s (s\<lparr>sv_agentJob := items\<rparr>) t)
      (event_or evt ?undo (room_or (review_job e job) ?all (persist_or e ?all x)) (s\<lparr>sv_agentJob := items\<rparr>))"
    for evt items job x
    using assms by (intro sat_log_review_save review_job_touched) (simp_all add: restorable_def)
  show ?thesis using assms
    by (auto simp: updateAgentJobLocked_def Let_def split: sum.splits option.splits intro!: sat_mono [OF *])
qed

lemma UpdateAgentJob_spec:
  assumes "clock_ok e" "restorable s"
  shows "sat (unchanged e s)
    (\<lambda>updated t. \<exists>items.
       agentJobStore_update (sv_agentJob s) jobID status nts result (en_clock e 50) = Inr (updated, items) \<and>
       committed s (s\<lparr>sv_agentJob := items\<rparr>) t)
    (UpdateAgentJob e jobID status nts result s)"
  using updateAgentJobLocked_spec [OF assms, where jobID = jobID and status = status and nts = nts and result = result
      and kind = "''agent_job.updated''"]
  by (auto simp: UpdateAgentJob_def sat_def split: prod.splits sum.splits)

end
