(* ===== verification/Transactions.thy ===== *)
theory Transactions
  imports Main
begin

text \<open>
  The contract between the service and its callers: a request fails and leaves the visible state as
  it was, or succeeds and has one of its specified effects. The client lemmas are about sequences of
  requests: what is visible at the end is what the accepted requests alone produce, in their order.
\<close>

primrec run :: "('e \<Rightarrow> 'q \<Rightarrow> 's \<Rightarrow> 'x option \<times> 's) \<Rightarrow> ('e \<times> 'q) list \<Rightarrow> 's \<Rightarrow> 's" where
  "run exec [] s = s"
| "run exec (r # rs) s = run exec rs (snd (exec (fst r) (snd r) s))"

primrec accepted :: "('e \<Rightarrow> 'q \<Rightarrow> 's \<Rightarrow> 'x option \<times> 's) \<Rightarrow> ('e \<times> 'q) list \<Rightarrow> 's \<Rightarrow> ('e \<times> 'q) list" where
  "accepted exec [] s = []"
| "accepted exec (r # rs) s =
     (if fst (exec (fst r) (snd r) s) = None then [r] else []) @ accepted exec rs (snd (exec (fst r) (snd r) s))"

inductive path :: "('e \<Rightarrow> 'q \<Rightarrow> 'v \<Rightarrow> 'v \<Rightarrow> bool) \<Rightarrow> ('e \<times> 'q) list \<Rightarrow> 'v \<Rightarrow> 'v \<Rightarrow> bool" for eff where
  path_nil: "path eff [] v v"
| path_step: "eff e q v w \<Longrightarrow> path eff rs w x \<Longrightarrow> path eff ((e, q) # rs) v x"

inductive_cases path_nilE: "path eff [] v w"
inductive_cases path_stepE: "path eff (r # rs) v w"

lemma run_append: "run exec (rs @ qs) s = run exec qs (run exec rs s)"
  by (induction rs arbitrary: s) simp_all

locale transactional =
  fixes exec :: "'e \<Rightarrow> 'q \<Rightarrow> 's \<Rightarrow> 'x option \<times> 's"
    and ok :: "'e \<Rightarrow> bool" and inv :: "'s \<Rightarrow> bool"
    and view :: "'s \<Rightarrow> 'v" and eff :: "'e \<Rightarrow> 'q \<Rightarrow> 'v \<Rightarrow> 'v \<Rightarrow> bool"
  assumes failure: "ok e \<Longrightarrow> inv s \<Longrightarrow> exec e q s = (Some x, t) \<Longrightarrow> view t = view s \<and> inv t"
    and success: "ok e \<Longrightarrow> inv s \<Longrightarrow> exec e q s = (None, t) \<Longrightarrow> eff e q (view s) (view t) \<and> inv t"
begin

lemma step_inv: "ok e \<Longrightarrow> inv s \<Longrightarrow> inv (snd (exec e q s))"
proof (cases "exec e q s")
  case (Pair x t)
  assume "ok e" "inv s"
  with Pair show ?thesis using failure [of e s q _ t] success [of e s q t] by (cases x) simp_all
qed

lemma run_inv: "\<forall>r \<in> set rs. ok (fst r) \<Longrightarrow> inv s \<Longrightarrow> inv (run exec rs s)"
  by (induction rs arbitrary: s) (simp_all add: step_inv)

theorem history:
  "\<forall>r \<in> set rs. ok (fst r) \<Longrightarrow> inv s \<Longrightarrow> path eff (accepted exec rs s) (view s) (view (run exec rs s))"
proof (induction rs arbitrary: s)
  case (Cons r rs)
  obtain x t where step: "exec (fst r) (snd r) s = (x, t)" by fastforce
  have "inv t" using step_inv [of "fst r" s "snd r"] Cons.prems step by simp
  then have rest: "path eff (accepted exec rs t) (view t) (view (run exec rs t))"
    using Cons.IH [of t] Cons.prems by simp
  show ?case
  proof (cases x)
    case None
    then have "eff (fst r) (snd r) (view s) (view t)"
      using success [of "fst r" s "snd r" t] Cons.prems step by simp
    from path_step [of eff, OF this rest] show ?thesis using step None by simp
  next
    case (Some err)
    then have "view t = view s"
      using failure [of "fst r" s "snd r" err t] Cons.prems step by simp
    then show ?thesis using rest step Some by simp
  qed
qed (simp add: path_nil)

lemma rejected_invisible:
  "\<forall>r \<in> set rs. ok (fst r) \<Longrightarrow> inv s \<Longrightarrow> accepted exec rs s = [] \<Longrightarrow> view (run exec rs s) = view s"
  using history [of rs s] by (auto elim: path_nilE)

end

text \<open>A property of the visible state that every effect keeps.\<close>

locale kept = transactional +
  fixes P :: "'v \<Rightarrow> bool"
  assumes keeps: "eff e q v w \<Longrightarrow> ok e \<Longrightarrow> P v \<Longrightarrow> P w"
begin

lemma path_keeps: "path eff rs v w \<Longrightarrow> \<forall>r \<in> set rs. ok (fst r) \<Longrightarrow> P v \<Longrightarrow> P w"
  by (induction rule: path.induct) (auto dest: keeps)

lemma accepted_subset: "set (accepted exec rs s) \<subseteq> set rs"
  by (induction rs arbitrary: s) auto

theorem run_keeps: "\<forall>r \<in> set rs. ok (fst r) \<Longrightarrow> inv s \<Longrightarrow> P (view s) \<Longrightarrow> P (view (run exec rs s))"
  using path_keeps [OF history] accepted_subset [of rs s] by blast

end

end
