(* ===== verification/Service_Machine.thy ===== *)
theory Service_Machine
  imports Service_Specs4 Transactions
begin

text \<open>
  The service as a transition system: one request per exported operation, \<open>handle\<close> calls it, and
  \<open>effect\<close> is the abstract specification of what an accepted request does to the stores, with the
  conditions it was accepted under. \<open>handle\<close> refines \<open>effect\<close> (\<open>handle_failure\<close>, \<open>handle_success\<close>), which
  makes it an instance of \<open>transactional\<close>. The write tokens are left out of the visible state: a
  failed token change is not undone (see the theorems on tokens).
\<close>

section \<open>Requests\<close>

datatype request =
    R_CreateWorkItem WorkItem
  | R_CreateFlow FlowRun
  | R_SyncFlow string string flow_links "string list"
  | R_AddStructuredReviewRoomItem string ReviewRoomItem
  | R_TransitionStructuredReviewRoomItem string string "ReviewRoomResolution option"
  | R_ReplaceMemory SystemMemory
  | R_SetWriteToken string
  | R_ClearWriteToken
  | R_CreateBranch Branch
  | R_MergeBranch string string "string list"
  | R_CreateRelease ReleasePacket
  | R_CreateDeploy DeployRun
  | R_CreateRollback RollbackRun
  | R_PutTarget DeployTarget
  | R_ExecuteDeploy deploy_adapter string string "string list"
  | R_ExecuteRollback deploy_adapter string string string "string list"
  | R_CreateApproval ApprovalItem
  | R_ResolveApproval string string
  | R_CreatePreflight PreflightRecord
  | R_CreatePolicy PolicyDecision
  | R_EvaluatePolicy string string string string string string bool
  | R_CreateGatewayCall gateway_adapter GatewayCall
  | R_CreateExecute ExecuteRun
  | R_RunExecute string string string "string list"
  | R_CreateVerification VerificationRecord
  | R_RunVerification verify_adapter string string string "string list" "string list"
  | R_RecordSecuritySignal SecuritySignalInput
  | R_CreateProposal ProposalItem
  | R_PromoteProposal string string
  | R_CreateAgentJob AgentJob
  | R_UpdateAgentJob string string "string slice" "jobject option"

definition settle :: "'a outcome \<Rightarrow> error option \<times> Service" where
  "settle out = (case out of (Inl err, t) \<Rightarrow> (Some err, t) | (Inr _, t) \<Rightarrow> (None, t))"

primrec handle :: "env \<Rightarrow> request \<Rightarrow> Service \<Rightarrow> error option \<times> Service" where
  "handle e (R_CreateWorkItem item) s = settle (CreateWorkItem e item s)"
| "handle e (R_CreateFlow item) s = settle (CreateFlow e item s)"
| "handle e (R_SyncFlow f w l ns) s = settle (SyncFlow e f w l ns s)"
| "handle e (R_AddStructuredReviewRoomItem sec item) s = settle (AddStructuredReviewRoomItem e sec item s)"
| "handle e (R_TransitionStructuredReviewRoomItem action item res) s =
     settle (TransitionStructuredReviewRoomItem e action item res s)"
| "handle e (R_ReplaceMemory memory) s = settle (ReplaceMemory e memory s)"
| "handle e (R_SetWriteToken token) s = settle (SetWriteToken e token s)"
| "handle e R_ClearWriteToken s = settle (ClearWriteToken e s)"
| "handle e (R_CreateBranch item) s = settle (CreateBranch e item s)"
| "handle e (R_MergeBranch b target ns) s = settle (MergeBranch e b target ns s)"
| "handle e (R_CreateRelease item) s = settle (CreateRelease e item s)"
| "handle e (R_CreateDeploy item) s = settle (CreateDeploy e item s)"
| "handle e (R_CreateRollback item) s = settle (CreateRollback e item s)"
| "handle e (R_PutTarget item) s = settle (PutTarget e item s)"
| "handle e (R_ExecuteDeploy ad d r ns) s = settle (ExecuteDeploy e ad d r ns s)"
| "handle e (R_ExecuteRollback ad b r d ns) s = settle (ExecuteRollback e ad b r d ns s)"
| "handle e (R_CreateApproval item) s = settle (CreateApproval e item s)"
| "handle e (R_ResolveApproval a status) s = settle (ResolveApproval e a status s)"
| "handle e (R_CreatePreflight item) s = settle (CreatePreflight e item s)"
| "handle e (R_CreatePolicy item) s = settle (CreatePolicy e item s)"
| "handle e (R_EvaluatePolicy d i sc r n tc appr) s = settle (EvaluatePolicy e d i sc r n tc appr s)"
| "handle e (R_CreateGatewayCall ad item) s = settle (CreateGatewayCall e ad item s)"
| "handle e (R_CreateExecute item) s = settle (CreateExecute e item s)"
| "handle e (R_RunExecute x w d ns) s = settle (RunExecute e x w d ns s)"
| "handle e (R_CreateVerification item) s = settle (CreateVerification e item s)"
| "handle e (R_RunVerification ad r sc wd cmd ns) s = settle (RunVerification e ad r sc wd cmd ns s)"
| "handle e (R_RecordSecuritySignal input) s = settle (RecordSecuritySignal e input s)"
| "handle e (R_CreateProposal item) s = settle (CreateProposal e item s)"
| "handle e (R_PromoteProposal p w) s = settle (PromoteProposal e p w s)"
| "handle e (R_CreateAgentJob item) s = settle (CreateAgentJob e item s)"
| "handle e (R_UpdateAgentJob j status ns res) s = settle (UpdateAgentJob e j status ns res s)"

section \<open>Effects\<close>

inductive effect :: "env \<Rightarrow> request \<Rightarrow> Service \<Rightarrow> Service \<Rightarrow> bool" for e where
  eff_work: "ensureActiveBranchLocked s (wi_BranchID item) = None \<Longrightarrow> WorkItem_Validate item = None \<Longrightarrow>
    effect e (R_CreateWorkItem item) s
      (s\<lparr>sv_work := sv_work s @ [item],
         sv_state := updateWorkItemsActive (sv_state s) (int (length (sv_work s @ [item])))\<rparr>)"
| eff_flow: "workStore_get (sv_work s) (fr_WorkItemID item) = Some work \<Longrightarrow>
    FlowRun_Validate (flow_defaults e item) = None \<Longrightarrow>
    effect e (R_CreateFlow item) s (s\<lparr>sv_flow := sv_flow s @ [flow_defaults e item]\<rparr>)"
| eff_sync: "workStore_get (sv_work s) w = Some work \<Longrightarrow> flow_links_error s l = None \<Longrightarrow>
    item = flow_item e f work l ns s \<Longrightarrow>
    flowStore_update (sv_flow s) item = Inr items \<Longrightarrow>
    effect e (R_SyncFlow f w l ns) s (s\<lparr>sv_flow := items\<rparr>)"
| eff_room_add: "effect e (R_AddStructuredReviewRoomItem sec ri) s s"
| eff_room_move: "effect e (R_TransitionStructuredReviewRoomItem action ref res) s s"
| eff_memory: "SystemMemory_Validate memory = None \<Longrightarrow> effect e (R_ReplaceMemory memory) s (s\<lparr>sv_memory := memory\<rparr>)"
| eff_set_token: "effect e (R_SetWriteToken token) s (s\<lparr>sv_auth := au\<rparr>)"
| eff_clear_token: "effect e R_ClearWriteToken s (s\<lparr>sv_auth := au\<rparr>)"
| eff_branch: "branch_to_create e item s = Inr b \<Longrightarrow> branchStore_create (en_clock e 51) (sv_branch s) b = Inr items \<Longrightarrow>
    effect e (R_CreateBranch item) s (s\<lparr>sv_branch := items\<rparr>)"
| eff_merge: "branchStore_merge (sv_branch s) b target ns now = Inr (merged, items) \<Longrightarrow>
    effect e (R_MergeBranch b target ns) s (s\<lparr>sv_branch := items\<rparr>)"
| eff_release: "elems (rp_ApprovalRefs item) \<noteq> [] \<Longrightarrow>
    \<forall>r \<in> set (elems (rp_ApprovalRefs item)). \<exists>a. approvalStore_get (sv_approval s) r = Some a \<and>
       ap_Status a = ''approved'' \<and> ap_WorkItemID a = rp_WorkItemID item \<Longrightarrow>
    ReleasePacket_Validate (release_defaults e item) = None \<Longrightarrow>
    effect e (R_CreateRelease item) s
      (s\<lparr>sv_release := sv_release s @ [release_defaults e item],
         sv_state := updateLastReleaseAt (sv_state s) (rp_ReleasedAt (release_defaults e item))\<rparr>)"
| eff_deploy: "releaseStore_get (sv_release s) (dr_ReleaseID item) = Some release \<Longrightarrow>
    DeployRun_Validate (deploy_defaults e release item) = None \<Longrightarrow>
    q = R_CreateDeploy item \<or> q = R_ExecuteDeploy ad (dr_DeployID item) (dr_ReleaseID item) ns \<Longrightarrow>
    effect e q s
      (s\<lparr>sv_deploy := sv_deploy s @ [deploy_defaults e release item],
         sv_state := updateDeployHealth (sv_state s) (dr_Status (deploy_defaults e release item))\<rparr>)"
| eff_rollback: "releaseStore_get (sv_release s) (rr_ReleaseID item) = Some release \<Longrightarrow>
    \<not> ref_missing (\<lambda>d. deployStore_get (sv_deploy s) d \<noteq> None) (rr_DeployID item) \<Longrightarrow>
    RollbackRun_Validate (rollback_defaults e release item) = None \<Longrightarrow>
    q = R_CreateRollback item \<or> q = R_ExecuteRollback ad b (rr_ReleaseID item) d ns \<Longrightarrow>
    effect e q s
      (s\<lparr>sv_rollback := sv_rollback s @ [rollback_defaults e release item],
         sv_state := rollback_health (rollback_defaults e release item) (sv_state s)\<rparr>)"
| eff_target: "targetStore_put (sv_target s) item = Inr items \<Longrightarrow> effect e (R_PutTarget item) s (s\<lparr>sv_target := items\<rparr>)"
| eff_approval: "ApprovalItem_Validate item = None \<Longrightarrow>
    effect e (R_CreateApproval item) s
      (s\<lparr>sv_approval := sv_approval s @ [item],
         sv_state := updateApprovalsPending (sv_state s) (approvalStore_count (sv_approval s @ [item]))\<rparr>)"
| eff_resolve: "status \<in> {''approved'', ''rejected''} \<Longrightarrow>
    approvalStore_resolve (sv_approval s) a status (en_clock e 50) = Inr (resolved, items) \<Longrightarrow>
    effect e (R_ResolveApproval a status) s
      (s\<lparr>sv_approval := items, sv_state := updateApprovalsPending (sv_state s) (approvalStore_count items)\<rparr>)"
| eff_preflight: "PreflightRecord_Validate p = None \<Longrightarrow> pf_RecordID p = pf_RecordID item \<Longrightarrow>
    effect e (R_CreatePreflight item) s (s\<lparr>sv_preflight := sv_preflight s @ [p]\<rparr>)"
| eff_policy: "policyStore_create (sv_policy s) item = Inr items \<Longrightarrow>
    effect e (R_CreatePolicy item) s (s\<lparr>sv_policy := items\<rparr>)"
| eff_evaluate: "policyStore_create (sv_policy s) dec = Inr items \<Longrightarrow> pd_DecisionID dec = d \<Longrightarrow>
    pd_Mode dec = fst (decidePolicy i r n tc appr) \<Longrightarrow> pd_Decision dec = fst (snd (decidePolicy i r n tc appr)) \<Longrightarrow>
    effect e (R_EvaluatePolicy d i sc r n tc appr) s (s\<lparr>sv_policy := items\<rparr>)"
| eff_gateway: "policyStore_get (sv_policy s) (gc_DecisionID item) = Some decision \<Longrightarrow> pd_Decision decision = ''go'' \<Longrightarrow>
    canonicalPolicyMode (pd_Mode decision) = canonicalPolicyMode (ga_RequiredMode ad) \<Longrightarrow>
    ga_Prepare ad item decision = Inr prepared \<Longrightarrow>
    (if ga_DispatchEnabled ad then ga_Dispatch ad prepared decision None else Inr prepared) = Inr call \<Longrightarrow>
    GatewayCall_Validate call = None \<Longrightarrow>
    effect e (R_CreateGatewayCall ad item) s (s\<lparr>sv_gateway := sv_gateway s @ [call]\<rparr>)"
| eff_execute: "executeStore_create (sv_execute s) item = Inr items \<Longrightarrow>
    effect e (R_CreateExecute item) s (s\<lparr>sv_execute := items\<rparr>)"
| eff_run_execute: "workStore_get (sv_work s) w = Some work \<Longrightarrow> policyStore_get (sv_policy s) d = Some decision \<Longrightarrow>
    er_Mode item = pd_Mode decision \<Longrightarrow>
    (er_Status item = ''succeeded'' \<longrightarrow> pd_Mode decision = ''local'' \<and> pd_Decision decision \<noteq> ''hold'') \<Longrightarrow>
    executeStore_create (sv_execute s) item = Inr items \<Longrightarrow>
    effect e (R_RunExecute x w d ns) s (s\<lparr>sv_execute := items\<rparr>)"
| eff_verify: "VerificationRecord_Validate item = None \<Longrightarrow>
    q = R_CreateVerification item \<or> q = R_RunVerification ad (vr_RecordID item) sc wd cmd ns \<Longrightarrow>
    effect e q s (s\<lparr>sv_verify := sv_verify s @ [item]\<rparr>)"
| eff_signal: "effect e (R_RecordSecuritySignal input) s s"
| eff_proposal: "ensureActiveBranchLocked s (pi_BranchID item) = None \<Longrightarrow>
    ProposalItem_Validate (normalizeProposalItem (en_clock e 50) item) = None \<Longrightarrow>
    effect e (R_CreateProposal item) s
      (s\<lparr>sv_proposal := sv_proposal s @ [normalizeProposalItem (en_clock e 50) item]\<rparr>)"
| eff_promote: "proposalStore_get (sv_proposal s) p = Some proposal \<Longrightarrow> pi_Status proposal = ''proposed'' \<Longrightarrow>
    WorkItem_Validate work = None \<Longrightarrow> wi_ID work = w \<Longrightarrow>
    proposalStore_promote (sv_proposal s) p w (en_clock e 51) = Inr (updated, proposals) \<Longrightarrow>
    effect e (R_PromoteProposal p w) s
      (s\<lparr>sv_work := sv_work s @ [work], sv_proposal := proposals,
         sv_state := updateWorkItemsActive (sv_state s) (int (length (sv_work s @ [work])))\<rparr>)"
| eff_job: "ensureActiveBranchLocked s (aj_BranchID item) = None \<Longrightarrow>
    agentJobStore_create (sv_agentJob s) (normalizeAgentJobItem (en_clock e 50) item) = Inr items \<Longrightarrow>
    effect e (R_CreateAgentJob item) s (s\<lparr>sv_agentJob := items\<rparr>)"
| eff_update_job: "agentJobStore_update (sv_agentJob s) j status ns res (en_clock e 50) = Inr (updated, items) \<Longrightarrow>
    effect e (R_UpdateAgentJob j status ns res) s (s\<lparr>sv_agentJob := items\<rparr>)"

section \<open>Refinement\<close>

lemma settle_error: "settle out = (Some err, t) \<longleftrightarrow> out = (Inl err, t)"
  by (auto simp: settle_def split: prod.splits sum.splits)

lemma settle_value: "settle out = (None, t) \<longleftrightarrow> (\<exists>x. out = (Inr x, t))"
  by (auto simp: settle_def split: prod.splits sum.splits)

lemma sat_settle_error: "settle out = (Some err, t) \<Longrightarrow> sat Qe Qs out \<Longrightarrow> Qe t"
  by (simp add: settle_error)

lemma sat_settle_value: "settle out = (None, t) \<Longrightarrow> sat Qe Qs out \<Longrightarrow> \<exists>x. Qs x t"
  by (auto simp: settle_value)

lemma unchanged_sans_auth: "unchanged e s t \<Longrightarrow> unchanged e (sans_auth s) (sans_auth t)"
  by (simp add: unchanged_def sans_auth_def)

definition is_token_request :: "request \<Rightarrow> bool" where
  "is_token_request q \<longleftrightarrow> (\<exists>token. q = R_SetWriteToken token) \<or> q = R_ClearWriteToken"

lemmas op_specs = CreateWorkItem_spec CreateFlow_spec SyncFlow_spec AddStructuredReviewRoomItem_spec
  TransitionStructuredReviewRoomItem_spec ReplaceMemory_spec CreateBranch_spec MergeBranch_spec
  CreateRelease_spec CreateDeploy_spec CreateRollback_spec PutTarget_spec ExecuteDeploy_spec
  ExecuteRollback_spec CreateApproval_spec ResolveApproval_spec CreatePreflight_spec CreatePolicy_spec
  EvaluatePolicy_spec createGatewayCall_spec CreateExecute_spec RunExecute_spec CreateVerification_spec
  RunVerification_spec RecordSecuritySignal_spec CreateProposal_spec PromoteProposal_spec
  CreateAgentJob_spec UpdateAgentJob_spec

text \<open>A failed request leaves the service as it was; a failed token request all but the tokens.\<close>

lemma handle_failure_other:
  assumes "clock_ok e" "restorable s" "handle e q s = (Some err, t)" "\<not> is_token_request q"
  shows "unchanged e s t"
  using assms
  by (cases q) (auto simp: CreateGatewayCall_def is_token_request_def dest!: sat_settle_error intro: op_specs)

lemma handle_failure:
  assumes "clock_ok e" "restorable s" "handle e q s = (Some err, t)"
  shows "unchanged e (sans_auth s) (sans_auth t)"
proof (cases "is_token_request q")
  case True
  with assms(3) show ?thesis
    by (auto simp: is_token_request_def
        dest!: sat_settle_error [OF _ SetWriteToken_spec [OF assms(1,2)]] sat_settle_error [OF _ ClearWriteToken_spec [OF assms(1,2)]])
next
  case False
  from handle_failure_other [OF assms False] show ?thesis by (rule unchanged_sans_auth)
qed

text \<open>Every accepted request has an effect of its kind, and is logged.\<close>

lemma handle_success:
  assumes "clock_ok e" "restorable s" "handle e q s = (None, t)"
  shows "\<exists>u. effect e q s u \<and> committed s u t"
proof -
  note fin = op_specs [OF assms(1,2), THEN sat_settle_value [rotated]]
    SetWriteToken_spec [OF assms(1,2), THEN sat_settle_value [rotated]]
    ClearWriteToken_spec [OF assms(1,2), THEN sat_settle_value [rotated]]
  show ?thesis using assms(3)
    by (cases q) (fastforce simp: CreateGatewayCall_def dest!: fin intro: effect.intros)+
qed

end
