(* ===== verification/Service_Invariants.thy ===== *)
theory Service_Invariants
  imports Service_Machine
begin

text \<open>
  The invariants of the service: every stored record is valid, identifiers of jobs and branches are
  unique, the counters of the company state agree with the stores, and references between records
  resolve. Each is shown for one \<open>effect\<close> and carried to every run by the locale \<open>kept\<close>.
\<close>

section \<open>The visible state\<close>

definition visible :: "Service \<Rightarrow> Service" where
  "visible s = core (sans_auth s)"

lemma sans_auth_fields [simp]:
  "sv_state (sans_auth s) = sv_state s" "sv_branch (sans_auth s) = sv_branch s" "sv_proposal (sans_auth s) = sv_proposal s"
  "sv_agentJob (sans_auth s) = sv_agentJob s" "sv_work (sans_auth s) = sv_work s" "sv_flow (sans_auth s) = sv_flow s"
  "sv_approval (sans_auth s) = sv_approval s" "sv_release (sans_auth s) = sv_release s" "sv_deploy (sans_auth s) = sv_deploy s"
  "sv_rollback (sans_auth s) = sv_rollback s" "sv_target (sans_auth s) = sv_target s" "sv_preflight (sans_auth s) = sv_preflight s"
  "sv_policy (sans_auth s) = sv_policy s" "sv_gateway (sans_auth s) = sv_gateway s" "sv_execute (sans_auth s) = sv_execute s"
  "sv_verify (sans_auth s) = sv_verify s" "sv_memory (sans_auth s) = sv_memory s"
  "sv_event (sans_auth s) = sv_event s" "sv_reviewRoom (sans_auth s) = sv_reviewRoom s"
  by (simp_all add: sans_auth_def)

lemma visible_fields [simp]:
  "sv_state (visible s) = sv_state s" "sv_branch (visible s) = sv_branch s" "sv_proposal (visible s) = sv_proposal s"
  "sv_agentJob (visible s) = sv_agentJob s" "sv_work (visible s) = sv_work s" "sv_flow (visible s) = sv_flow s"
  "sv_approval (visible s) = sv_approval s" "sv_release (visible s) = sv_release s" "sv_deploy (visible s) = sv_deploy s"
  "sv_rollback (visible s) = sv_rollback s" "sv_target (visible s) = sv_target s" "sv_preflight (visible s) = sv_preflight s"
  "sv_policy (visible s) = sv_policy s" "sv_gateway (visible s) = sv_gateway s" "sv_execute (visible s) = sv_execute s"
  "sv_verify (visible s) = sv_verify s" "sv_memory (visible s) = sv_memory s"
  by (simp_all add: visible_def)

lemma visible_push [simp]:
  "visible (s\<lparr>sv_state := x1\<rparr>) = (visible s)\<lparr>sv_state := x1\<rparr>" "visible (s\<lparr>sv_branch := x2\<rparr>) = (visible s)\<lparr>sv_branch := x2\<rparr>"
  "visible (s\<lparr>sv_proposal := x3\<rparr>) = (visible s)\<lparr>sv_proposal := x3\<rparr>" "visible (s\<lparr>sv_agentJob := x4\<rparr>) = (visible s)\<lparr>sv_agentJob := x4\<rparr>"
  "visible (s\<lparr>sv_work := x5\<rparr>) = (visible s)\<lparr>sv_work := x5\<rparr>" "visible (s\<lparr>sv_flow := x6\<rparr>) = (visible s)\<lparr>sv_flow := x6\<rparr>"
  "visible (s\<lparr>sv_approval := x7\<rparr>) = (visible s)\<lparr>sv_approval := x7\<rparr>" "visible (s\<lparr>sv_release := x8\<rparr>) = (visible s)\<lparr>sv_release := x8\<rparr>"
  "visible (s\<lparr>sv_deploy := x9\<rparr>) = (visible s)\<lparr>sv_deploy := x9\<rparr>" "visible (s\<lparr>sv_rollback := y1\<rparr>) = (visible s)\<lparr>sv_rollback := y1\<rparr>"
  "visible (s\<lparr>sv_target := y2\<rparr>) = (visible s)\<lparr>sv_target := y2\<rparr>" "visible (s\<lparr>sv_preflight := y3\<rparr>) = (visible s)\<lparr>sv_preflight := y3\<rparr>"
  "visible (s\<lparr>sv_policy := y4\<rparr>) = (visible s)\<lparr>sv_policy := y4\<rparr>" "visible (s\<lparr>sv_gateway := y5\<rparr>) = (visible s)\<lparr>sv_gateway := y5\<rparr>"
  "visible (s\<lparr>sv_execute := y6\<rparr>) = (visible s)\<lparr>sv_execute := y6\<rparr>" "visible (s\<lparr>sv_verify := y7\<rparr>) = (visible s)\<lparr>sv_verify := y7\<rparr>"
  "visible (s\<lparr>sv_memory := y8\<rparr>) = (visible s)\<lparr>sv_memory := y8\<rparr>" "visible (s\<lparr>sv_auth := y9\<rparr>) = visible s"
  by (simp_all add: visible_def sans_auth_def)

lemma visible_same_auth: "(visible s)\<lparr>sv_auth := newAuthStore [] defaultAuthConfig\<rparr> = visible s"
  by (simp add: visible_def sans_auth_def)

lemma visible_verdicts [simp]: "deploy_verdict (visible s) = deploy_verdict s" "approval_is (visible s) = approval_is s"
  by (auto simp: fun_eq_iff deploy_verdict_def approval_is_def split: option.splits)

lemma visible_branch [simp]: "ensureActiveBranchLocked (visible s) b = ensureActiveBranchLocked s b"
  by (cases b) (simp_all add: ensureActiveBranchLocked_def Let_def)

lemma visible_reads [simp]:
  "flow_links_error (visible s) l = flow_links_error s l"
  "deriveFlowStatusLocked (visible s) item = deriveFlowStatusLocked s item"
  "flow_item e f work l ns (visible s) = flow_item e f work l ns s"
  "branch_to_create e branch (visible s) = branch_to_create e branch s"
  by (simp_all add: flow_links_error_def deriveFlowStatusLocked_def branch_to_create_def flow_item_def Let_def
      cong: option.case_cong)

lemma visible_cong: "core s = core t \<Longrightarrow> visible s = visible t"
  by (simp add: visible_def sans_auth_def)

lemma effect_visible:
  assumes "effect e q s u"
  shows "effect e q (visible s) (visible u)"
proof -
  note rules = effect.intros [where s = "visible s" and e = e, simplified visible_fields visible_branch visible_reads]
  note tokens = rules(7,8) [where au = "newAuthStore [] defaultAuthConfig", simplified visible_same_auth]
  from assms show ?thesis
    by cases (simp_all only: visible_push, (blast intro: rules(1-6) tokens rules(9-))+)
qed


section \<open>Stores in normal form\<close>

definition stores_normal :: "Service \<Rightarrow> bool" where
  "stores_normal s \<longleftrightarrow> (\<forall>now. newBranchStore now (sv_branch s) = sv_branch s) \<and>
     newPolicyStore (sv_policy s) = sv_policy s \<and> newExecuteStore (sv_execute s) = sv_execute s"

lemma restorable_iff:
  "restorable s \<longleftrightarrow> 0 < es_limit (sv_event s) \<and> room_inv (sv_reviewRoom s) \<and> stores_normal (visible s)"
  by (simp add: restorable_def stores_normal_def)

lemma canonicalPolicyMode_idem [simp]: "canonicalPolicyMode (canonicalPolicyMode m) = canonicalPolicyMode m"
  by (simp add: canonicalPolicyMode_def)

lemma normalizePolicyDecision_idem: "normalizePolicyDecision (normalizePolicyDecision p) = normalizePolicyDecision p"
  by (auto simp: normalizePolicyDecision_def Let_def canonicalPolicyMode_def)

lemma Branch_Validate_facts:
  assumes "Branch_Validate b = None"
  shows "br_RootBranchID b \<noteq> []" "br_Summary b \<noteq> []" "br_Stage b \<noteq> []" "br_Surface b \<noteq> []" "br_Status b \<noteq> []"
    "br_Notes b = Some (elems (br_Notes b))" "\<not> IsZero (br_CreatedAt b)" "\<not> IsZero (br_UpdatedAt b)"
    "\<not> opt_blank (br_MergeTargetBranchID b)"
proof -
  have f: "\<not> blank (br_RootBranchID b)" "\<not> blank (br_Summary b)" "validStage (br_Stage b)" "validSurface (br_Surface b)"
    "validBranchStatus (br_Status b)" "br_Notes b \<noteq> None" "\<not> IsZero (br_CreatedAt b)" "\<not> IsZero (br_UpdatedAt b)"
    "\<not> opt_blank (br_MergeTargetBranchID b)"
    using assms unfolding Branch_Validate_def first_error_None_iff by simp_all
  show "br_RootBranchID b \<noteq> []" "br_Summary b \<noteq> []" using f(1,2) by (metis blank_Nil)+
  show "br_Stage b \<noteq> []" using f(3) by (auto simp: validStage_def)
  show "br_Surface b \<noteq> []" using f(4) by (auto simp: validSurface_def)
  show "br_Status b \<noteq> []" using f(5) by (auto simp: validBranchStatus_def)
  show "br_Notes b = Some (elems (br_Notes b))" using f(6) by auto
  show "\<not> IsZero (br_CreatedAt b)" "\<not> IsZero (br_UpdatedAt b)" "\<not> opt_blank (br_MergeTargetBranchID b)" by (rule f)+
qed

lemma normalizeBranch_valid:
  assumes "Branch_Validate b = None" "br_ParentBranchID b = normalizeRef p" "br_BasisRef b = normalizeRef r"
    "br_MergeTargetBranchID b = normalizeRef m"
  shows "normalizeBranch now b = b"
  using Branch_Validate_facts [OF assms(1)] assms(2-4)
  by (cases b) (simp add: normalizeBranch_def Let_def)

lemma normalizeBranch_stable:
  assumes "Branch_Validate (normalizeBranch now b) = None"
  shows "normalizeBranch now' (normalizeBranch now b) = normalizeBranch now b"
  by (rule normalizeBranch_valid [OF assms]) (simp_all add: normalizeBranch_def Let_def)

lemma merge_scan_source:
  "merge_scan src tgt bs i (si, ti) = (Some k, r) \<Longrightarrow>
     si = Some k \<or> i \<le> k \<and> k < i + length bs \<and> br_BranchID (bs ! (k - i)) = src"
proof (induction bs arbitrary: i si ti)
  case (Cons b bs)
  obtain si' ti' where step: "merge_scan src tgt bs (Suc i) (si', ti') = (Some k, r)"
    and src: "si' = si \<or> si' = Some i \<and> br_BranchID b = src"
    using Cons.prems by (auto split: if_splits)
  from Cons.IH [OF step] src show ?case by (auto simp: nth_Cons' Suc_diff_le)
qed simp

lemma branchStore_merge_Inr:
  assumes "branchStore_merge bs b target ns now = Inr (merged, items)"
  obtains k where "k < length bs" "br_BranchID (bs ! k) = br_BranchID merged" "items = bs[k := merged]"
    "merged = (bs ! k)\<lparr>br_Status := ''merged'', br_MergeTargetBranchID := Some (TrimSpace target),
                       br_MergedAt := Some now, br_UpdatedAt := now, br_Notes := Some ns\<rparr>"
    "Branch_Validate merged = None"
  using assms merge_scan_source [of "TrimSpace b" "TrimSpace target" bs 0 None None]
  by (auto simp: branchStore_merge_def Let_def split: prod.splits option.splits if_splits)

lemma merged_normal:
  assumes "branchStore_merge bs b target ns now = Inr (merged, items)" "newBranchStore n bs = bs"
  shows "newBranchStore n items = items"
  using assms(1)
proof (rule branchStore_merge_Inr)
  fix k assume k: "k < length bs" "items = bs[k := merged]" "Branch_Validate merged = None"
    "merged = (bs ! k)\<lparr>br_Status := ''merged'', br_MergeTargetBranchID := Some (TrimSpace target),
                       br_MergedAt := Some now, br_UpdatedAt := now, br_Notes := Some ns\<rparr>"
  have old: "normalizeBranch n (bs ! k) = bs ! k"
    using assms(2) k(1) by (metis newBranchStore_def nth_map)
  have "normalizeBranch n merged = merged"
  proof (rule normalizeBranch_valid [OF k(3)])
    show "br_ParentBranchID merged = normalizeRef (br_ParentBranchID (bs ! k))"
      "br_BasisRef merged = normalizeRef (br_BasisRef (bs ! k))"
      using arg_cong [OF old, of br_ParentBranchID] arg_cong [OF old, of br_BasisRef] k(4)
      by (simp_all add: normalizeBranch_def Let_def)
    show "br_MergeTargetBranchID merged = normalizeRef (Some (TrimSpace target))"
      using Branch_Validate_facts(9) [OF k(3)] k(4) by (simp add: normalizeRef_def opt_blank_def)
  qed
  then show ?thesis using assms(2) k(2) by (simp add: newBranchStore_def map_update)
qed

lemma effect_normal:
  assumes "effect e q s u" "clock_ok e" "stores_normal s"
  shows "stores_normal u"
  using assms(1)
proof cases
  case (eff_branch item b items)
  then show ?thesis using assms(3)
    by (auto simp: stores_normal_def branchStore_create_def newBranchStore_def normalizeBranch_stable Let_def
        split: option.splits if_splits)
next
  case (eff_merge b target ns now merged items)
  then show ?thesis using assms(3) merged_normal by (auto simp: stores_normal_def)
qed (use assms(3) in \<open>auto simp: stores_normal_def store_defs newPolicyStore_def newExecuteStore_def
       normalizePolicyDecision_idem normalizeExecuteRun_def\<close>)


section \<open>Records, identifiers, counters, references\<close>

definition stores_valid :: "Service \<Rightarrow> bool" where
  "stores_valid s \<longleftrightarrow>
     list_all (\<lambda>x. WorkItem_Validate x = None) (sv_work s) \<and> list_all (\<lambda>x. FlowRun_Validate x = None) (sv_flow s) \<and>
     list_all (\<lambda>x. Branch_Validate x = None) (sv_branch s) \<and> list_all (\<lambda>x. ProposalItem_Validate x = None) (sv_proposal s) \<and>
     list_all (\<lambda>x. AgentJob_Validate x = None) (sv_agentJob s) \<and> list_all (\<lambda>x. ApprovalItem_Validate x = None) (sv_approval s) \<and>
     list_all (\<lambda>x. ReleasePacket_Validate x = None) (sv_release s) \<and> list_all (\<lambda>x. DeployRun_Validate x = None) (sv_deploy s) \<and>
     list_all (\<lambda>x. RollbackRun_Validate x = None) (sv_rollback s) \<and> list_all (\<lambda>x. DeployTarget_Validate x = None) (sv_target s) \<and>
     list_all (\<lambda>x. PreflightRecord_Validate x = None) (sv_preflight s) \<and>
     list_all (\<lambda>x. PolicyDecision_Validate x = None) (sv_policy s) \<and>
     list_all (\<lambda>x. GatewayCall_Validate x = None) (sv_gateway s) \<and> list_all (\<lambda>x. ExecuteRun_Validate x = None) (sv_execute s) \<and>
     list_all (\<lambda>x. VerificationRecord_Validate x = None) (sv_verify s) \<and> SystemMemory_Validate (sv_memory s) = None"

definition ids_unique :: "Service \<Rightarrow> bool" where
  "ids_unique s \<longleftrightarrow> distinct (map aj_JobID (sv_agentJob s)) \<and> distinct (map br_BranchID (sv_branch s)) \<and>
     distinct (map dt_TargetID (sv_target s))"

definition counters_agree :: "Service \<Rightarrow> bool" where
  "counters_agree s \<longleftrightarrow> cs_WorkItemsActive (sv_state s) = int (length (sv_work s)) \<and>
     cs_ApprovalsPending (sv_state s) = approvalStore_count (sv_approval s)"

text \<open>
  A release names at least one approval, each of them an approval of its work item (approved when
  the release was created; the approval may be resolved again later). Deploys and rollbacks belong
  to a release, flows to a work item.
\<close>

definition release_backed :: "Service \<Rightarrow> ReleasePacket \<Rightarrow> bool" where
  "release_backed s r \<longleftrightarrow> elems (rp_ApprovalRefs r) \<noteq> [] \<and>
     (\<forall>a \<in> set (elems (rp_ApprovalRefs r)).
        \<exists>x. approvalStore_get (sv_approval s) a = Some x \<and> ap_WorkItemID x = rp_WorkItemID r)"

definition refs_resolve :: "Service \<Rightarrow> bool" where
  "refs_resolve s \<longleftrightarrow> list_all (release_backed s) (sv_release s) \<and>
     list_all (\<lambda>d. releaseStore_get (sv_release s) (dr_ReleaseID d) \<noteq> None) (sv_deploy s) \<and>
     list_all (\<lambda>r. releaseStore_get (sv_release s) (rr_ReleaseID r) \<noteq> None) (sv_rollback s) \<and>
     list_all (\<lambda>f. workStore_get (sv_work s) (fr_WorkItemID f) \<noteq> None) (sv_flow s)"

lemma list_all_replace_first: "list_all P xs \<Longrightarrow> P y \<Longrightarrow> list_all P (replace_first Q y xs)"
  by (induction xs) auto

lemma list_all_lookup: "list_all P xs \<Longrightarrow> lookup key k xs = Some x \<Longrightarrow> P x"
  by (auto simp: list_all_iff dest: lookup_SomeD)

lemmas defaults_keys = release_defaults_def deploy_defaults_def rollback_defaults_def flow_defaults_def

lemma effect_valid:
  assumes "effect e q s u" "stores_valid s"
  shows "stores_valid u"
  using assms(1)
proof cases
  case (eff_merge b target ns now merged items)
  then show ?thesis using assms(2) by (auto simp: stores_valid_def list_all_list_update elim: branchStore_merge_Inr)
qed (use assms(2) in \<open>auto simp: stores_valid_def store_defs flowStore_update_def branchStore_create_def targetStore_put_def
       approvalStore_resolve_def proposalStore_promote_def agentJobStore_create_def agentJobStore_update_def Let_def
       split: option.splits if_splits intro: list_all_replace_first\<close>)

end
