(* ===== verification/Service_Histories.thy ===== *)
theory Service_Histories
  imports Service_Invariants
begin

text \<open>
  Runs of the service. \<open>handle\<close> is an instance of \<open>transactional\<close> with \<open>visible\<close> as the view and \<open>effect\<close>
  as the specification; each invariant of \<open>Service_Invariants\<close> is an instance of \<open>kept\<close>.
\<close>

section \<open>Identifiers, counters and references\<close>

lemma distinct_update_key:
  "distinct (map key xs) \<Longrightarrow> k < length xs \<Longrightarrow> key y = key (xs ! k) \<Longrightarrow> distinct (map key (xs[k := y]))"
  by (simp add: map_update list_update_same_conv [THEN iffD2])

lemma effect_ids:
  assumes "effect e q s u" "ids_unique s"
  shows "ids_unique u"
  using assms(1)
proof cases
  case (eff_merge b target ns now merged items)
  then show ?thesis using assms(2) by (auto simp: ids_unique_def distinct_update_key elim: branchStore_merge_Inr)
next
  case (eff_branch item b items)
  then show ?thesis using assms(2) branch_store.create_distinct by (auto simp: ids_unique_def)
next
  case (eff_job item items)
  then show ?thesis using assms(2) job_store.create_distinct by (auto simp: ids_unique_def)
next
  case (eff_update_job j status ns res updated items)
  then show ?thesis using assms(2)
    by (auto simp: ids_unique_def agentJobStore_update_def Let_def map_replace_first dest: lookup_SomeD split: option.splits)
next
  case (eff_target item items)
  then show ?thesis using assms(2)
    by (auto simp: ids_unique_def targetStore_put_def map_replace_first lookup_None_iff split: option.splits if_splits)
qed (use assms(2) in \<open>simp_all add: ids_unique_def\<close>)

lemma effect_counters:
  assumes "effect e q s u" "counters_agree s"
  shows "counters_agree u"
  using assms by cases (auto simp: counters_agree_def state_update_defs rollback_health_def)

text \<open>Lookups that other stores rely on are stable under every effect.\<close>

lemma lookup_append_stable: "lookup key k xs = Some x \<Longrightarrow> lookup key k (xs @ ys) = Some x"
  by (simp add: lookup_append)

definition work_stable :: "Service \<Rightarrow> Service \<Rightarrow> bool" where
  "work_stable s u \<longleftrightarrow> (\<forall>k x. workStore_get (sv_work s) k = Some x \<longrightarrow> workStore_get (sv_work u) k = Some x) \<and>
     (\<forall>k x. releaseStore_get (sv_release s) k = Some x \<longrightarrow> releaseStore_get (sv_release u) k = Some x) \<and>
     (\<forall>k x. approvalStore_get (sv_approval s) k = Some x \<longrightarrow>
        (\<exists>y. approvalStore_get (sv_approval u) k = Some y \<and> ap_WorkItemID y = ap_WorkItemID x))"

lemma approvalStore_resolve_get:
  assumes "approvalStore_resolve items a status now = Inr (resolved, items')" "approvalStore_get items k = Some x"
  shows "\<exists>y. approvalStore_get items' k = Some y \<and> ap_WorkItemID y = ap_WorkItemID x"
proof -
  obtain x2 where x2: "lookup ap_ApprovalID a items = Some x2" "resolved = x2\<lparr>ap_Status := status, ap_ResolvedAt := Some now\<rparr>"
    "items' = replace_first (\<lambda>x. ap_ApprovalID x = a) resolved items"
    using assms(1) by (auto simp: approvalStore_resolve_def Let_def split: option.splits)
  have "ap_ApprovalID resolved = a" using x2 lookup_SomeD [OF x2(1)] by simp
  with assms(2) x2 show ?thesis by (auto simp: approvalStore_get_def lookup_replace_first)
qed

lemma effect_stable:
  assumes "effect e q s u"
  shows "work_stable s u"
  using assms
proof cases
  case (eff_resolve status a resolved items)
  then show ?thesis using approvalStore_resolve_get [OF eff_resolve(4)] by (simp add: work_stable_def)
qed (auto simp: work_stable_def store_defs lookup_append_stable)


lemma release_backed_stable: "work_stable s u \<Longrightarrow> release_backed s r \<Longrightarrow> release_backed u r"
  unfolding release_backed_def work_stable_def by (metis (no_types, lifting))

lemma refs_stable:
  assumes "work_stable s u" "refs_resolve s"
  shows "list_all (release_backed u) (sv_release s)"
    "list_all (\<lambda>d. releaseStore_get (sv_release u) (dr_ReleaseID d) \<noteq> None) (sv_deploy s)"
    "list_all (\<lambda>r. releaseStore_get (sv_release u) (rr_ReleaseID r) \<noteq> None) (sv_rollback s)"
    "list_all (\<lambda>f. workStore_get (sv_work u) (fr_WorkItemID f) \<noteq> None) (sv_flow s)"
  using assms release_backed_stable [OF assms(1)]
  by (auto simp: refs_resolve_def list_all_iff work_stable_def)

lemma defaults_ids [simp]:
  "rp_WorkItemID (release_defaults e r) = rp_WorkItemID r"
  "elems (rp_ApprovalRefs (release_defaults e r)) = elems (rp_ApprovalRefs r)"
  "dr_ReleaseID (deploy_defaults e rel d) = dr_ReleaseID d" "rr_ReleaseID (rollback_defaults e rel b) = rr_ReleaseID b"
  "fr_WorkItemID (flow_defaults e f) = fr_WorkItemID f"
  by (simp_all add: defaults_keys Let_def)

lemma effect_refs:
  assumes "effect e q s u" "refs_resolve s"
  shows "refs_resolve u"
proof -
  note old = refs_stable [OF effect_stable [OF assms(1)] assms(2)]
  from assms(1) show ?thesis
  proof cases
    case (eff_sync w work l item f items ns)
    have "workStore_get (sv_work s) (wi_ID work) \<noteq> None"
      using eff_sync(3) lookup_SomeD [of wi_ID w "sv_work s" work] by (simp add: workStore_get_def)
    then show ?thesis using old eff_sync
      by (auto simp: refs_resolve_def flowStore_update_def flow_item_facts split: option.splits if_splits intro: list_all_replace_first)
  next
    case (eff_release item)
    then show ?thesis using old by (auto simp: refs_resolve_def release_backed_def)
  qed (use old in \<open>auto simp: refs_resolve_def\<close>)
qed

section \<open>The service is transactional\<close>

lemma restorable_step:
  assumes "clock_ok e" "restorable s"
  shows "restorable (snd (handle e q s))"
proof (cases "handle e q s")
  case (Pair r t)
  have n: "stores_normal (visible s)" using assms(2) by (simp add: restorable_iff)
  show ?thesis
  proof (cases r)
    case None
    with Pair obtain u where u: "effect e q s u" "committed s u t" using handle_success [OF assms] by auto
    have "visible t = visible u" using u(2) by (intro visible_cong) (simp add: committed_def)
    then have "stores_normal (visible t)" using effect_normal [OF effect_visible [OF u(1)] assms(1) n] by simp
    then show ?thesis using u(2) assms(2) Pair by (simp add: restorable_iff committed_def grows_def)
  next
    case (Some err)
    then have t: "unchanged e (sans_auth s) (sans_auth t)" using handle_failure [OF assms] Pair by auto
    then have "visible t = visible s" by (simp add: unchanged_def visible_def)
    then show ?thesis using t assms(2) n Pair by (simp add: restorable_iff unchanged_def)
  qed
qed

interpretation service: transactional handle clock_ok restorable visible effect
proof
  fix e s q x t assume h: "clock_ok e" "restorable s" "handle e q s = (Some (x :: error), t)"
  then show "visible t = visible s \<and> restorable t"
    using handle_failure [OF h] restorable_step [OF h(1,2), of q] by (simp add: unchanged_def visible_def)
next
  fix e s q t assume h: "clock_ok e" "restorable s" "handle e q s = (None, t)"
  obtain u where u: "effect e q s u" "committed s u t" using handle_success [OF h] by blast
  have "visible t = visible u" using u(2) by (intro visible_cong) (simp add: committed_def)
  then show "effect e q (visible s) (visible t) \<and> restorable t"
    using effect_visible [OF u(1)] restorable_step [OF h(1,2), of q] h(3) by simp
qed

interpretation valid_records: kept handle clock_ok restorable visible effect stores_valid
  by unfold_locales (rule effect_valid)

interpretation unique_ids: kept handle clock_ok restorable visible effect ids_unique
  by unfold_locales (rule effect_ids)

interpretation agreeing_counters: kept handle clock_ok restorable visible effect counters_agree
  by unfold_locales (rule effect_counters)

interpretation resolved_refs: kept handle clock_ok restorable visible effect refs_resolve
  by unfold_locales (rule effect_refs)

end
