(* ===== verification/Service_Live.thy ===== *)
theory Service_Live
  imports Service_Histories
begin

text \<open>
  Availability: with a working clock and a working disk, a well-formed request is accepted, and the
  service can accept the next one. The checks of the operation are thus the only reasons to refuse.
\<close>

lemma persist_or_works:
  assumes "disk_works e s"
  shows "\<exists>t. persist_or e undo x s = (Inr x, t) \<and> disk_works e t"
  using persistLocked_works [OF assms] by (auto simp: persist_or_def)

lemma disk_works_frame:
  "disk_works e s \<Longrightarrow> sv_disk t = sv_disk s \<Longrightarrow> sv_continuity t = sv_continuity s \<Longrightarrow> disk_works e t"
  by (simp add: disk_works_def)

lemma event_persist_works:
  assumes "disk_works e s" "EventEnvelope_Validate ev = None"
  shows "\<exists>t. event_or ev undo (persist_or e undo' x) s = (Inr x, t) \<and> disk_works e t"
proof -
  obtain es where es: "event_or ev undo (persist_or e undo' x) s = persist_or e undo' x (s\<lparr>sv_event := es\<rparr>)"
    using event_or_valid [OF assms(2)] by metis
  show ?thesis unfolding es by (rule persist_or_works) (rule disk_works_frame [OF assms(1)], simp_all)
qed

lemma CreateWorkItem_event_valid:
  assumes "clock_ok e" "WorkItem_Validate item = None"
  shows "EventEnvelope_Validate (service_event e k s ''work_item.created'' (wi_Surface item) (wi_ID item) (wi_Stage item)
      [(''title'', JString (wi_Title item))]) = None"
  using assms
  by (intro service_event_valid) (simp_all add: event_literals WorkItem_Validate_def then_json_def split: if_splits option.splits)

lemma CreateWorkItem_works:
  assumes "clock_ok e" "disk_works e s" "WorkItem_Validate item = None" "ensureActiveBranchLocked s (wi_BranchID item) = None"
  shows "\<exists>t. CreateWorkItem e item s = (Inr (), t) \<and> disk_works e t"
proof -
  let ?s1 = "s\<lparr>sv_work := sv_work s @ [item], sv_state := updateWorkItemsActive (sv_state s) (int (length (sv_work s @ [item])))\<rparr>"
  have d: "disk_works e ?s1" by (rule disk_works_frame [OF assms(2)]) simp_all
  note v = CreateWorkItem_event_valid [OF assms(1,3), of 0 ?s1]
  show ?thesis
    using event_persist_works [OF d v] assms(3,4)
    by (simp add: CreateWorkItem_def workStore_create_def append_valid_def Let_def)
qed


lemma live_literals:
  "\<not> blank ''release.created''" "\<not> blank ''target''" "\<not> blank ''channel''" "\<not> blank ''gateway.created''" "\<not> blank ''call_id''"
  "\<not> blank ''decision_id''" "\<not> blank ''provider''" "\<not> blank ''request_kind''" "\<not> blank ''attempt_count''" "\<not> blank ''execute.created''"
  "\<not> blank ''execute_id''" "\<not> blank ''policy_decision_id''" "\<not> blank ''mode''" "\<not> blank ''system''" "\<not> blank ''flow.synced''"
  "\<not> blank ''flow_id''" "validSurface ''api''" "validStage ''release''" "validStage ''discover''"
  by code_simp+

lemma CreateRelease_works:
  assumes "clock_ok e" "disk_works e s" "elems (rp_ApprovalRefs item) \<noteq> []"
    "approval_refs_error s (rp_WorkItemID item) (elems (rp_ApprovalRefs item)) = None"
    "ReleasePacket_Validate (release_defaults e item) = None"
  shows "\<exists>t. CreateRelease e item s = (Inr (), t) \<and> disk_works e t"
proof -
  let ?r = "release_defaults e item"
  let ?s2 = "s\<lparr>sv_release := sv_release s @ [?r], sv_state := updateLastReleaseAt (sv_state s) (rp_ReleasedAt ?r)\<rparr>"
  have d: "disk_works e ?s2" by (rule disk_works_frame [OF assms(2)]) simp_all
  have w: "\<not> blank (rp_WorkItemID item)"
    using assms(5) by (simp add: ReleasePacket_Validate_def then_json_def split: if_splits option.splits)
  have v: "EventEnvelope_Validate (service_event e 0 ?s2 ''release.created'' ''api'' (rp_WorkItemID ?r) ''release''
      [(''target'', JString (rp_Target ?r)), (''channel'', JString (rp_Channel ?r))]) = None"
    using assms(1) w by (intro service_event_valid) (simp_all add: live_literals)
  show ?thesis
    using event_persist_works [OF d v] assms(3-5)
    by (simp add: CreateRelease_def releaseStore_create_def append_valid_def Let_def)
qed

lemma newSystemEvent_valid:
  assumes "clock_ok e" "\<not> blank kind" "list_all (\<lambda>kv. \<not> blank (fst kv) \<and> json_ok (snd kv)) data"
  shows "EventEnvelope_Validate (newSystemEvent e k s kind data) = None"
  unfolding newSystemEvent_def by (rule service_event_valid) (use assms in \<open>simp_all add: live_literals\<close>)

text \<open>A gateway call that is only recorded, not dispatched.\<close>

lemma recorded_gateway_call_works:
  assumes "clock_ok e" "disk_works e s" "policyStore_get (sv_policy s) (gc_DecisionID item) = Some decision"
    "pd_Decision decision = ''go''" "canonicalPolicyMode (pd_Mode decision) = ''single''"
    "ga_Prepare recordGatewayAdapter item decision = Inr call" "GatewayCall_Validate call = None" "gc_Status call = ''recorded''"
  shows "\<exists>t. CreateGatewayCall e recordGatewayAdapter item s = (Inr (), t) \<and> disk_works e t"
proof -
  let ?s1 = "s\<lparr>sv_gateway := sv_gateway s @ [call]\<rparr>"
  have d: "disk_works e ?s1" by (rule disk_works_frame [OF assms(2)]) simp_all
  have c: "gc_LastHTTPStatus call = None" "gc_LastError call = None" "gc_ResponsePreview call = None"
    using assms(6) by (auto simp: recordGatewayAdapter_def add_note_def prepareRecordedGatewayCall_def)
  have v: "EventEnvelope_Validate (newSystemEvent e 0 ?s1 ''gateway.created'' (gatewayEventData call)) = None"
    using assms(1) by (intro newSystemEvent_valid) (simp_all add: live_literals event_literals gatewayEventData_def c)
  have r: "ga_RequiredMode recordGatewayAdapter = ''single''" "\<not> ga_DispatchEnabled recordGatewayAdapter"
    by (simp_all add: recordGatewayAdapter_def)
  have m: "canonicalPolicyMode ''single'' = ''single''" by (simp add: canonicalPolicyMode_def)
  show ?thesis
    using event_persist_works [OF d v] assms(3-8) r m
    by (simp add: CreateGatewayCall_def createGatewayCallWithPayload_def gatewayStore_create_def append_valid_def Let_def)
qed

lemma CreateExecute_works:
  assumes "clock_ok e" "disk_works e s" "executeStore_create (sv_execute s) item = Inr items"
    "reviewRoomSuggestionForExecute (en_clock e 52) item = None"
  shows "\<exists>t. CreateExecute e item s = (Inr (), t) \<and> disk_works e t"
proof -
  let ?s1 = "s\<lparr>sv_execute := items\<rparr>"
  have d: "disk_works e ?s1" by (rule disk_works_frame [OF assms(2)]) simp_all
  have v: "EventEnvelope_Validate (newSystemEvent e 0 ?s1 ''execute.created''
      [(''execute_id'', JString (er_ExecuteID item)), (''work_item_id'', JString (er_WorkItemID item)),
       (''policy_decision_id'', JString (er_PolicyDecisionID item)),
       (''status'', JString (er_Status item)), (''mode'', JString (er_Mode item))]) = None"
    using assms(1) by (intro newSystemEvent_valid) (simp_all add: live_literals event_literals)
  have sug: "suggest_or e k None undo c = c" for k undo c by (simp add: fun_eq_iff suggest_or_def)
  show ?thesis
    using event_persist_works [OF d v] assms(3,4)
    by (simp add: CreateExecute_def Let_def sug)
qed

end
