(* ===== verification/Demo.thy ===== *)
theory Demo
  imports Service_Live
begin

text \<open>
  Concrete data for the witnesses: an environment in which every write succeeds, a service as it is
  over an empty data directory, and one record of several kinds. Values are encoded by the length of
  what they hold, which is enough for the domains the witnesses change.
\<close>

fun demo_marshal :: "dval \<Rightarrow> error + string" where
  "demo_marshal (V_work xs) = Inr (Itoa (int (length xs)))"
| "demo_marshal (V_event xs) = Inr (Itoa (int (length xs)))"
| "demo_marshal (V_approval xs) = Inr (concat (map ap_Status xs))"
| "demo_marshal (V_release xs) = Inr (Itoa (int (length xs)))"
| "demo_marshal (V_state st) = Inr (Itoa (cs_WorkItemsActive st) @ '','' @ Itoa (cs_ApprovalsPending st))"
| "demo_marshal (V_auth h sc _) = Inr (h @ Itoa (int (length (case sc of None \<Rightarrow> [] | Some m \<Rightarrow> m))))"
| "demo_marshal _ = Inr ''-''"

definition demo_env :: env where
  "demo_env =
     \<lparr>en_ACTOR = ''founder'', en_WRITER_ID = ''daemon'', en_DEFAULT_ACTOR = ''founder'', en_EVENT_RETENTION = '''',
      en_MODELS = '''', en_MODEL = '''', en_clock = (\<lambda>i. 1000 + int i), en_fmt = Itoa, en_isWord = (\<lambda>n. 96 < n \<and> n < 123),
      en_auditPromotion = False, en_auditItems = [], en_roomHash = (\<lambda>_. ''h''), en_marshal = demo_marshal,
      en_pid = 7, en_alive = (\<lambda>p. p = 7), en_leaseOpen = None, en_leaseRead = None, en_leaseWrite = None,
      en_badJSON = ''unexpected end of JSON input'', en_write = (\<lambda>_. None), en_archive = None, en_checkpoint = None, en_corpusDir = None, en_corpusWrite = None,
      en_seal = None\<rparr>"

definition demo_room :: ReviewRoom where "demo_room = defaultReviewRoom ''review_room.json''"

definition demo_service :: Service where
  "demo_service =
     \<lparr>sv_dirty = (\<lambda>_. False), sv_persisted = (\<lambda>_. ''''), sv_actorOverride = '''', sv_state = defaultCompanyState,
      sv_branch = [], sv_proposal = [], sv_agentJob = [], sv_observation = [], sv_continuity = [], sv_work = [],
      sv_flow = [], sv_approval = [], sv_event = newEventStoreWithArchiveCount '''' [] 0, sv_release = [], sv_deploy = [],
      sv_rollback = [], sv_target = [], sv_preflight = [], sv_policy = [], sv_gateway = [], sv_execute = [], sv_verify = [],
      sv_reviewRoom = demo_room, sv_memory = defaultSystemMemory 5, sv_auth = newAuthStore [] defaultAuthConfig,
      sv_disk = \<lparr>dk_file = (\<lambda>_. V_work []), dk_archive = [], dk_seal = None, dk_checkpoint = None, dk_entries = [], dk_lease = NoLease\<rparr>\<rparr>"

definition demo_work :: WorkItem where
  "demo_work =
     \<lparr>wi_ID = ''w1'', wi_BranchID = None, wi_Title = ''title'', wi_Intent = ''intent'', wi_Stage = ''discover'',
      wi_Surface = ''api'', wi_Pack = ''core'', wi_Priority = ''high'', wi_Risk = ''low'', wi_RequiresApproval = False,
      wi_Payload = Some [], wi_CorrelationID = ''c1'', wi_CreatedAt = 5\<rparr>"

lemma clock_ok_demo: "clock_ok demo_env"
  by (simp add: clock_ok_def demo_env_def IsZero_def)

lemma restorable_demo: "restorable demo_service"
proof -
  have "\<not> blank ''review_room.json''" by code_simp
  then show ?thesis
    by (simp add: restorable_def demo_service_def demo_room_def room_inv_default newBranchStore_def newPolicyStore_def
        newExecuteStore_def newEventStoreWithArchiveCount_def Let_def) code_simp
qed

lemma disk_works_demo: "disk_works demo_env demo_service"
proof -
  have "\<exists>sig. demo_marshal v = Inr sig" for v by (cases v) simp_all
  then show ?thesis by (simp add: disk_works_def checkpoint_ok_def demo_env_def demo_service_def)
qed

end
