(* ===== verification/Guarantees_Ops.thy ===== *)
theory Guarantees_Ops
  imports Demo
begin

text \<open>
  The conditions under which the operations of the workflow act: what a release, a gateway call, an
  execution, a promotion, a merge and a flow synchronisation have checked when they succeed.
\<close>

definition demo_approval :: ApprovalItem where
  "demo_approval =
     \<lparr>ap_ApprovalID = ''a1'', ap_WorkItemID = ''w1'', ap_Stage = ''verify'', ap_Summary = ''ship'', ap_Risks = [],
      ap_RollbackPlan = ''revert'', ap_DecisionSurface = ''cockpit'', ap_Status = ''approved'', ap_RequestedAt = 5,
      ap_ResolvedAt = Some 6\<rparr>"

definition demo_release :: ReleasePacket where
  "demo_release =
     \<lparr>rp_ReleaseID = ''r1'', rp_WorkItemID = ''w1'', rp_Target = ''web'', rp_Channel = ''stable'', rp_Artifacts = None,
      rp_Metrics = None, rp_RollbackPlan = ''revert'', rp_ApprovalRefs = Some [''a1''], rp_ReleasedAt = None\<rparr>"

definition demo_policy :: PolicyDecision where
  "demo_policy =
     \<lparr>pd_DecisionID = ''d1'', pd_Intent = ''ask'', pd_Scope = ''repo'', pd_Risk = ''low'', pd_Novelty = ''low'',
      pd_TokenClass = ''small'', pd_RequiresApproval = False, pd_Mode = ''single'', pd_Decision = ''go'',
      pd_Reasons = Some [], pd_CreatedAt = 5\<rparr>"

definition demo_call :: GatewayCall where
  "demo_call =
     \<lparr>gc_CallID = ''c1'', gc_DecisionID = ''d1'', gc_Provider = ''p'', gc_Model = ''m'', gc_RequestKind = ''chat'',
      gc_Status = '''', gc_AttemptCount = 0, gc_LastHTTPStatus = None, gc_LastError = None, gc_ResponsePreview = None,
      gc_DispatchedAt = None, gc_TokenBudget = 0, gc_Notes = None, gc_CreatedAt = 5\<rparr>"

definition demo_ready :: Service where
  "demo_ready = demo_service\<lparr>sv_work := [demo_work], sv_approval := [demo_approval], sv_policy := [demo_policy]\<rparr>"

lemma restorable_ready: "restorable demo_ready"
proof -
  have "normalizePolicyDecision demo_policy = demo_policy" by code_simp
  then show ?thesis using restorable_demo by (simp add: demo_ready_def restorable_def newPolicyStore_def)
qed

lemma disk_works_ready: "disk_works demo_env demo_ready"
  by (rule disk_works_frame [OF disk_works_demo]) (simp_all add: demo_ready_def)

section \<open>Releases\<close>

text \<open>C9. Nothing is released without approval: a release that was created names at least one approval, and each
  one it names was stored, approved, and given for the work item of the release.\<close>

theorem release_needs_approval:
  assumes "clock_ok e" "restorable s" "CreateRelease e item s = (Inr u, t)"
  shows "elems (rp_ApprovalRefs item) \<noteq> [] \<and>
    (\<forall>r \<in> set (elems (rp_ApprovalRefs item)). \<exists>a. approvalStore_get (sv_approval s) r = Some a \<and>
       ap_Status a = ''approved'' \<and> ap_WorkItemID a = rp_WorkItemID item)"
  using sat_value [OF CreateRelease_spec [OF assms(1,2), of item] assms(3)] by blast

theorem release_needs_approval_witness:
  "\<exists>t. CreateRelease demo_env demo_release demo_ready = (Inr (), t) \<and>
     (\<exists>a. approvalStore_get (sv_approval demo_ready) ''a1'' = Some a \<and> ap_Status a = ''approved'')"
proof -
  have v: "ReleasePacket_Validate (release_defaults demo_env demo_release) = None" by code_simp
  have r: "elems (rp_ApprovalRefs demo_release) = [''a1'']" "rp_WorkItemID demo_release = ''w1''"
    by (simp_all add: demo_release_def)
  have ok: "approval_refs_error demo_ready ''w1'' [''a1''] = None"
    by (simp add: demo_ready_def demo_approval_def approvalStore_get_def)
  obtain t where t: "CreateRelease demo_env demo_release demo_ready = (Inr (), t)"
    using CreateRelease_works [OF clock_ok_demo disk_works_ready _ _ v] r ok by auto
  from release_needs_approval [OF clock_ok_demo restorable_ready t] r t show ?thesis by auto
qed

section \<open>Policy gates\<close>

text \<open>C10. A gateway call is made only under a stored policy decision that says \<open>go\<close> in the mode the adapter
  requires; what is stored is the call the adapter prepared and, if it dispatches, the dispatched one.\<close>

theorem gateway_call_needs_go:
  assumes "clock_ok e" "restorable s" "CreateGatewayCall e ad item s = (Inr u, t)"
  shows "\<exists>decision call prepared. policyStore_get (sv_policy s) (gc_DecisionID item) = Some decision \<and>
    pd_Decision decision = ''go'' \<and> canonicalPolicyMode (pd_Mode decision) = canonicalPolicyMode (ga_RequiredMode ad) \<and>
    ga_Prepare ad item decision = Inr prepared \<and>
    (if ga_DispatchEnabled ad then ga_Dispatch ad prepared decision None else Inr prepared) = Inr call \<and>
    sv_gateway t = sv_gateway s @ [call]"
proof -
  have "createGatewayCallWithPayload e item ad None s = (Inr u, t)" using assms(3) by (simp add: CreateGatewayCall_def)
  from sat_value [OF createGatewayCall_spec [OF assms(1,2), of item ad None] this]
  obtain decision call prepared where f: "policyStore_get (sv_policy s) (gc_DecisionID item) = Some decision"
    "pd_Decision decision = ''go''" "canonicalPolicyMode (pd_Mode decision) = canonicalPolicyMode (ga_RequiredMode ad)"
    "ga_Prepare ad item decision = Inr prepared"
    "(if ga_DispatchEnabled ad then ga_Dispatch ad prepared decision None else Inr prepared) = Inr call"
    "committed s (s\<lparr>sv_gateway := sv_gateway s @ [call]\<rparr>) t" by blast
  have "sv_gateway t = sv_gateway s @ [call]"
    using f(6) core_eqD(17) [of t "s\<lparr>sv_gateway := sv_gateway s @ [call]\<rparr>"] by (simp add: committed_def)
  with f show ?thesis by blast
qed

theorem gateway_call_needs_go_witness:
  "\<exists>t. CreateGatewayCall demo_env recordGatewayAdapter demo_call demo_ready = (Inr (), t) \<and>
     (\<exists>call. sv_gateway t = [call])"
proof -
  have p: "policyStore_get (sv_policy demo_ready) (gc_DecisionID demo_call) = Some demo_policy"
    "pd_Decision demo_policy = ''go''" "canonicalPolicyMode (pd_Mode demo_policy) = ''single''"
    by (simp_all add: demo_ready_def demo_call_def demo_policy_def policyStore_get_def canonicalPolicyMode_def)
  obtain call where c: "ga_Prepare recordGatewayAdapter demo_call demo_policy = Inr call"
    "GatewayCall_Validate call = None \<and> gc_Status call = ''recorded''"
  proof
    let ?c = "add_note ''dispatch:recorded-intent'' (add_note ''adapter:record'' (prepareRecordedGatewayCall demo_call demo_policy))"
    show "ga_Prepare recordGatewayAdapter demo_call demo_policy = Inr ?c" by (simp add: recordGatewayAdapter_def)
    show "GatewayCall_Validate ?c = None \<and> gc_Status ?c = ''recorded''" by code_simp
  qed
  obtain t where t: "CreateGatewayCall demo_env recordGatewayAdapter demo_call demo_ready = (Inr (), t)"
    using recorded_gateway_call_works [OF clock_ok_demo disk_works_ready p c(1)] c(2) by auto
  have "sv_gateway demo_ready = []" by (simp add: demo_ready_def demo_service_def)
  with gateway_call_needs_go [OF clock_ok_demo restorable_ready t] t show ?thesis by auto
qed



section \<open>Proposals\<close>

text \<open>C23. A proposal is promoted at most once: promotion takes an open proposal, adds exactly the one work item it
  returns and marks the proposal; every later promotion of the same proposal is refused without any change.\<close>

theorem proposal_promoted_once:
  assumes "clock_ok e" "restorable s" "PromoteProposal e p w s = (Inr (updated, work), t)"
  shows "(\<exists>proposal. proposalStore_get (sv_proposal s) p = Some proposal \<and> pi_Status proposal = ''proposed'') \<and>
    sv_work t = sv_work s @ [work] \<and> wi_ID work = w \<and> WorkItem_Validate work = None \<and>
    proposalStore_get (sv_proposal t) p = Some updated \<and> pi_PromotedWorkItemID updated = Some w \<and>
    (\<forall>e' w'. PromoteProposal e' p w' t = (Inl ''proposal is not open'', t))"
proof -
  from sat_value [OF PromoteProposal_spec [OF assms(1,2), of p w] assms(3)]
  obtain proposal proposals where pr: "proposalStore_get (sv_proposal s) p = Some proposal" "pi_Status proposal = ''proposed''"
    "WorkItem_Validate work = None" "wi_ID work = w"
    and prom: "proposalStore_promote (sv_proposal s) p w (en_clock e 51) = Inr (updated, proposals)"
    and c: "core t = core (s\<lparr>sv_work := sv_work s @ [work], sv_proposal := proposals,
                      sv_state := updateWorkItemsActive (sv_state s) (int (Suc (length (sv_work s))))\<rparr>)"
    by (auto simp: committed_def)
  have t: "sv_work t = sv_work s @ [work]" "sv_proposal t = proposals" using core_eqD [OF c] by simp_all
  have u: "pi_Status updated = ''promoted''" "pi_PromotedWorkItemID updated = Some w" "pi_ProposalID updated = p"
    "proposals = replace_first (\<lambda>x. pi_ProposalID x = p) updated (sv_proposal s)" "lookup pi_ProposalID p (sv_proposal s) \<noteq> None"
    using prom by (auto simp: proposalStore_promote_def Let_def dest: lookup_SomeD split: option.splits if_splits)
  have g: "proposalStore_get (sv_proposal t) p = Some updated"
    using u t(2) by (auto simp: proposalStore_get_def lookup_replace_first)
  then have "PromoteProposal e' p w' t = (Inl ''proposal is not open'', t)" for e' w'
    using u(1) by (simp add: PromoteProposal_def)
  with pr t u g show ?thesis by simp
qed

definition demo_proposal :: ProposalItem where
  "demo_proposal =
     \<lparr>pi_ProposalID = ''p1'', pi_BranchID = None, pi_Title = ''title'', pi_Intent = ''intent'', pi_Summary = ''summary'',
      pi_Surface = ''api'', pi_Priority = ''high'', pi_Risk = ''low'', pi_Status = ''proposed'', pi_Notes = Some [],
      pi_PromotedWorkItemID = None, pi_CreatedAt = 5, pi_UpdatedAt = 5\<rparr>"

definition demo_proposed :: Service where
  "demo_proposed = demo_service\<lparr>sv_proposal := [demo_proposal]\<rparr>"

lemma two_events_work:
  assumes "disk_works e s" "EventEnvelope_Validate ev = None" "\<And>t. EventEnvelope_Validate (ev' t) = None"
  shows "\<exists>t. event_or ev undo (\<lambda>t. event_or (ev' t) undo' (persist_or e undo'' x) t) s = (Inr x, t) \<and> disk_works e t"
proof -
  obtain es where es: "eventStore_append (sv_event s) ev = Inr es"
    using eventStore_append_Inr_iff [of "sv_event s" ev] assms(2) by blast
  have "disk_works e (s\<lparr>sv_event := es\<rparr>)" by (rule disk_works_frame [OF assms(1)]) simp_all
  from event_persist_works [OF this assms(3)] show ?thesis by (simp add: event_or_def [of ev] es)
qed

theorem proposal_promoted_once_witness:
  "\<exists>updated work t. PromoteProposal demo_env ''p1'' ''w1'' demo_proposed = (Inr (updated, work), t) \<and> sv_work t = [work] \<and>
     PromoteProposal demo_env ''p1'' ''w2'' t = (Inl ''proposal is not open'', t)"
proof -
  let ?w = "promoted_work (en_clock demo_env 50) demo_proposal ''w1''"
  let ?u = "demo_proposal\<lparr>pi_Status := ''promoted'', pi_PromotedWorkItemID := Some ''w1'', pi_UpdatedAt := en_clock demo_env 51\<rparr>"
  have v: "WorkItem_Validate ?w = None" "ProposalItem_Validate ?u = None" by code_simp+
  have s: "sv_proposal demo_proposed = [demo_proposal]" "sv_work demo_proposed = []" "pi_ProposalID demo_proposal = ''p1''"
    "pi_Status demo_proposal = ''proposed''" "wi_ID ?w = ''w1''" "wi_Surface ?w = ''api''" "wi_Stage ?w = ''discover''"
    "pi_Surface demo_proposal = ''api''"
    by (simp_all add: demo_proposed_def demo_service_def demo_proposal_def promoted_work_def)
  have rs: "restorable demo_proposed" using restorable_demo by (simp add: demo_proposed_def restorable_def)
  have d: "disk_works demo_env (demo_proposed\<lparr>sv_work := ws, sv_proposal := ps, sv_state := st\<rparr>)" for ws ps st
    by (rule disk_works_frame [OF disk_works_demo]) (simp_all add: demo_proposed_def)
  have lits: "\<not> blank ''proposal.promoted''" "\<not> blank ''p1''" "\<not> blank ''w1''" "\<not> blank ''work_item.created''" "\<not> blank ''proposal_id''"
    "\<not> blank ''work_item_id''" "\<not> blank ''title''" "\<not> blank ''source''" by code_simp+
  have e1: "EventEnvelope_Validate (service_event demo_env 0 x ''proposal.promoted'' ''api'' ''p1'' ''discover''
      [(''proposal_id'', JString a), (''work_item_id'', JString b)]) = None" for x a b
    by (rule service_event_valid [OF clock_ok_demo]) (simp_all add: lits live_literals)
  have e2: "EventEnvelope_Validate (service_event demo_env 1 x ''work_item.created'' ''api'' ''w1'' ''discover''
      [(''title'', JString a), (''source'', JString b)]) = None" for x a b
    by (rule service_event_valid [OF clock_ok_demo]) (simp_all add: lits live_literals)
  obtain t where t: "PromoteProposal demo_env ''p1'' ''w1'' demo_proposed = (Inr (?u, ?w), t)"
    using two_events_work [OF d e1 e2] v
    by (fastforce simp: PromoteProposal_def proposalStore_get_def workStore_create_def append_valid_def proposalStore_promote_def Let_def s)
  from proposal_promoted_once [OF clock_ok_demo rs t] t s(2) show ?thesis by auto
qed

section \<open>Branches\<close>

lemma merge_scan_ids:
  "map br_BranchID bs = map br_BranchID bs' \<Longrightarrow> fst (merge_scan src tgt bs i (si, ti)) = fst (merge_scan src tgt' bs' i (si, ti'))"
proof (induction bs arbitrary: bs' i si ti ti')
  case (Cons b bs)
  then obtain b' cs where bs': "bs' = b' # cs" "br_BranchID b' = br_BranchID b" "map br_BranchID bs = map br_BranchID cs"
    by (cases bs') auto
  have step: "merge_scan src tgt (x # xs) i (si, ti) = merge_scan src tgt xs (Suc i)
      (if br_BranchID x = src then Some i else si, if br_BranchID x = src then ti else if br_BranchID x = tgt then Some i else ti)"
    for x xs tgt ti by simp
  show ?case unfolding bs'(1) step bs'(2) by (rule Cons.IH [OF bs'(3)])
qed simp

text \<open>A merge takes an active branch and another, stored one; afterwards the branch is marked with its target,
  every other branch is as it was, and it cannot be merged again, into whatever target.\<close>

theorem branch_merged_once:
  assumes "branchStore_merge bs b target ns now = Inr (merged, bs')"
  shows "(\<exists>k < length bs. br_BranchID (bs ! k) = TrimSpace b \<and> br_Status (bs ! k) = ''active'' \<and> bs' = bs[k := merged]) \<and>
    br_BranchID merged = TrimSpace b \<and> br_Status merged = ''merged'' \<and> br_MergeTargetBranchID merged = Some (TrimSpace target) \<and>
    TrimSpace target \<noteq> TrimSpace b \<and>
    (\<forall>target' ns' now'. \<exists>err. branchStore_merge bs' b target' ns' now' = Inl err)"
proof -
  obtain k j where scan: "merge_scan (TrimSpace b) (TrimSpace target) bs 0 (None, None) = (Some k, Some j)"
    and act: "br_Status (bs ! k) = ''active''" and ne: "TrimSpace b \<noteq> TrimSpace target"
    and m: "merged = (bs ! k)\<lparr>br_Status := ''merged'', br_MergeTargetBranchID := Some (TrimSpace target),
                       br_MergedAt := Some now, br_UpdatedAt := now, br_Notes := Some ns\<rparr>" "bs' = bs[k := merged]"
    using assms by (auto simp: branchStore_merge_def Let_def split: prod.splits option.splits if_splits)
  have k: "k < length bs" "br_BranchID (bs ! k) = TrimSpace b"
    using merge_scan_source [OF scan] by simp_all
  have "map br_BranchID bs' = map br_BranchID bs" using m k(1) by (simp add: map_update list_update_same_conv)
  then have first: "fst (merge_scan (TrimSpace b) tgt bs' 0 (None, None)) = Some k" for tgt
    using merge_scan_ids [of bs' bs "TrimSpace b" tgt 0 None None "TrimSpace target" None] scan by simp
  have "\<exists>err. branchStore_merge bs' b target' ns' now' = Inl err" for target' ns' now'
  proof -
    obtain r where "merge_scan (TrimSpace b) (TrimSpace target') bs' 0 (None, None) = (Some k, r)"
      using first [of "TrimSpace target'"] by (cases "merge_scan (TrimSpace b) (TrimSpace target') bs' 0 (None, None)") simp
    moreover have "br_Status (bs' ! k) = ''merged''" using m k(1) by simp
    ultimately show ?thesis by (simp add: branchStore_merge_def Let_def split: option.split)
  qed
  then show ?thesis using k act m ne by (intro conjI exI [of _ k]) auto
qed

definition demo_branch :: "string \<Rightarrow> Branch" where
  "demo_branch i =
     \<lparr>br_BranchID = i, br_ParentBranchID = None, br_RootBranchID = i, br_Title = ''title'', br_Intent = ''intent'',
      br_Summary = ''summary'', br_Stage = ''discover'', br_Surface = ''api'', br_Status = ''active'', br_BasisRef = None,
      br_MergeTargetBranchID = None, br_MergedAt = None, br_Notes = Some [], br_CreatedAt = 5, br_UpdatedAt = 5\<rparr>"

theorem branch_merged_once_witness:
  "\<exists>merged bs'. branchStore_merge [demo_branch ''main'', demo_branch ''topic''] ''topic'' ''main'' [] 6 = Inr (merged, bs') \<and>
     (\<exists>err. branchStore_merge bs' ''topic'' ''main'' [] 7 = Inl err)"
proof -
  obtain merged bs' where m: "branchStore_merge [demo_branch ''main'', demo_branch ''topic''] ''topic'' ''main'' [] 6 = Inr (merged, bs')"
  proof -
    have "Branch_Validate ((demo_branch ''topic'')\<lparr>br_Status := ''merged'', br_MergeTargetBranchID := Some ''main'',
       br_MergedAt := Some 6, br_UpdatedAt := 6, br_Notes := Some []\<rparr>) = None" by code_simp
    moreover have "TrimSpace ''topic'' = ''topic''" "TrimSpace ''main'' = ''main''" by code_simp+
    moreover have "br_BranchID (demo_branch i) = i" "br_Status (demo_branch i) = ''active''" for i by (simp_all add: demo_branch_def)
    ultimately show thesis using that by (simp add: branchStore_merge_def Let_def)
  qed
  from branch_merged_once [OF m] m show ?thesis by blast
qed

section \<open>Flows\<close>

text \<open>C24. Synchronising a flow stores, under its identifier, a valid flow of an existing work item whose status is the
  one derived from the linked records; the identifier is then found with exactly this flow.\<close>

theorem synced_flow_is_derived:
  assumes "clock_ok e" "restorable s" "SyncFlow e flowID workItemID l nts s = (Inr item, t)"
  shows "flowStore_get (sv_flow t) flowID = Some item \<and> FlowRun_Validate item = None \<and>
    fr_Status item = deriveFlowStatusLocked s item \<and> flow_links_error s l = None \<and>
    (\<exists>work. workStore_get (sv_work s) workItemID = Some work \<and> fr_WorkItemID item = wi_ID work)"
proof -
  from sat_value [OF SyncFlow_spec [OF assms(1,2), of workItemID l flowID nts] assms(3)]
  obtain work items where f: "workStore_get (sv_work s) workItemID = Some work" "flow_links_error s l = None"
    "item = flow_item e flowID work l nts s" "flowStore_update (sv_flow s) item = Inr items"
    and c: "core t = core (s\<lparr>sv_flow := items\<rparr>)" by (auto simp: committed_def)
  have "sv_flow t = items" using core_eqD [OF c] by simp
  moreover have "lookup fr_FlowID flowID items = Some item" "FlowRun_Validate item = None"
    using f(4) flow_item_facts(1) [of e flowID work l nts s]
    by (auto simp: flowStore_update_def f(3) lookup_append lookup_replace_first split: option.splits if_splits)
  ultimately show ?thesis using f flow_item_facts [of e flowID work l nts s] by (simp add: flowStore_get_def)
qed

definition no_links :: flow_links where
  "no_links = \<lparr>fl_approval = None, fl_policy = None, fl_execute = None, fl_verification = None, fl_release = None,
     fl_deploy = None, fl_rollback = None\<rparr>"

theorem synced_flow_is_derived_witness:
  "\<exists>item t. SyncFlow demo_env ''f1'' ''w1'' no_links [] demo_ready = (Inr item, t) \<and> flowStore_get (sv_flow t) ''f1'' = Some item"
proof -
  let ?i = "flow_item demo_env ''f1'' demo_work no_links [] demo_ready"
  have v: "flowStore_update [] ?i = Inr [?i]" by code_simp
  have s: "workStore_get (sv_work demo_ready) ''w1'' = Some demo_work" "sv_flow demo_ready = []" "flow_links_error demo_ready no_links = None"
    "wi_ID demo_work = ''w1''" "wi_Surface demo_work = ''api''" "wi_Stage demo_work = ''discover''"
    by (simp_all add: demo_ready_def demo_service_def demo_work_def workStore_get_def) code_simp
  have "\<not> blank ''w1''" by code_simp
  then have ev: "EventEnvelope_Validate (service_event demo_env 0 x ''flow.synced'' ''api'' ''w1'' ''discover''
      [(''flow_id'', JString a), (''status'', JString b)]) = None" for x a b
    by (intro service_event_valid [OF clock_ok_demo]) (simp_all add: live_literals event_literals)
  have d: "disk_works demo_env (demo_ready\<lparr>sv_flow := [?i]\<rparr>)" by (rule disk_works_frame [OF disk_works_ready]) simp_all
  obtain t where t: "SyncFlow demo_env ''f1'' ''w1'' no_links [] demo_ready = (Inr ?i, t)"
    using event_persist_works [OF d ev] v by (fastforce simp: SyncFlow_def Let_def s)
  from synced_flow_is_derived [OF clock_ok_demo restorable_ready t] t show ?thesis by blast
qed

end
