(* ===== verification/Guarantees_Access.thy ===== *)
theory Guarantees_Access
  imports Demo
begin

text \<open>
  Who may write: what a request has shown when the gate lets it pass, what a token opens, how the
  failure counters throttle a caller, and two defects of the rollback and of the throttle.
\<close>

section \<open>The gate\<close>


lemma auth_failure_counts:
  "snd (snd (auth_failure fmt now r reason message cs)) =
     snd (observeFailure ''write_auth'' r writeAuthFailureWindow writeAuthFailureThreshold writeAuthThrottleWindow now cs)"
  by (auto simp: auth_failure_def recordAuthFailure_def Let_def split: prod.splits option.splits)

text \<open>The token a request carries after the \<open>Bearer\<close> prefix of its authorization header.\<close>

definition bearer_token :: "Request \<Rightarrow> string" where
  "bearer_token r = TrimSpace (drop 7 (TrimSpace (rq_Header r ''Authorization'')))"



definition demo_request :: Request where
  "demo_request =
     \<lparr>rq_Method = ''POST'', rq_Path = ''/api/work'', rq_Header = (\<lambda>h. if h = ''Authorization'' then ''Bearer k'' else ''''),
      rq_RemoteAddr = ''127.0.0.1:80'', rq_Host = ''localhost'', rq_URLHost = '''', rq_TLS = False\<rparr>"



lemma demo_token:
  "TrimSpace (rq_Header demo_request ''Authorization'') = ''Bearer k''" "TrimSpace ''k'' = ''k''" "TrimSpace [] = []"
  "starts_with ''Bearer k'' ''Bearer ''" "TrimSpace (rq_Header demo_request ''Origin'') = []"
  "TrimSpace (rq_Header demo_request ''Referer'') = []"
  by code_simp+

lemma demo_origin: "originAllowed parseURL demo_request"
  by (simp add: originAllowed_def demo_token)



text \<open>Bootstrapping: before any token exists, the token endpoints pass only requests of the own origin that
  come, through every forwarding hop, from the loopback interface.\<close>

theorem bootstrap_needs_loopback:
  assumes "fst (requireAuthBootstrap parseURL loopbackIP fmt ts False authorized r cs) = Pass"
  shows "originAllowed parseURL r \<and> isLoopbackHost loopbackIP (remoteHost (rq_RemoteAddr r)) \<and>
    (TrimSpace (rq_Header r ''X-Forwarded-For'') = [] \<or>
     list_all (\<lambda>hop. isLoopbackHost loopbackIP (TrimSpace hop))
       (split_on (CHR '','') (TrimSpace (rq_Header r ''X-Forwarded-For''))))"
  using assms
  by (auto simp: requireAuthBootstrap_def requireSameOriginWrite_def requestFromLoopback_def Let_def
      split: if_splits prod.splits)

theorem bootstrap_needs_loopback_witness:
  "isLoopbackHost (\<lambda>ip. ip = ''127.0.0.1'') (remoteHost (rq_RemoteAddr demo_request))"
proof -
  have "requestFromLoopback (\<lambda>ip. ip = ''127.0.0.1'') demo_request" by code_simp
  then have "fst (requireAuthBootstrap (\<lambda>_. None) (\<lambda>ip. ip = ''127.0.0.1'') Itoa (\<lambda>_. 7) False (\<lambda>_. False) demo_request
      (\<lambda>_. None)) = Pass"
    by (simp add: requireAuthBootstrap_def requireSameOriginWrite_def demo_origin)
  from bootstrap_needs_loopback [OF this] show ?thesis by simp
qed

section \<open>Tokens\<close>

lemma auth_event_valid:
  assumes "clock_ok e"
  shows "EventEnvelope_Validate (newSystemEvent e k s ''auth.enabled'' (auth_event_data status actor)) = None"
proof (rule newSystemEvent_valid [OF assms])
  show "\<not> blank ''auth.enabled''" by code_simp
  have "\<not> blank ''write_auth_enabled''" "\<not> blank ''actor''" by code_simp+
  then show "list_all (\<lambda>kv. \<not> blank (fst kv) \<and> json_ok (snd kv)) (auth_event_data status actor)"
    by (simp add: auth_event_data_def)
qed

lemma SetWriteToken_works:
  assumes "clock_ok e" "disk_works e s" "TrimSpace token \<noteq> []"
  shows "\<exists>status t. SetWriteToken e token s = (Inr status, t)"
proof -
  obtain au where au: "authStore_setToken (en_DEFAULT_ACTOR e) token (currentActor e s) (en_clock e 50) (sv_auth s) = Inr au"
    using assms(3) by (auto simp: authStore_setToken_def Let_def)
  have d: "disk_works e (s\<lparr>sv_auth := au\<rparr>)" by (rule disk_works_frame [OF assms(2)]) simp_all
  show ?thesis using event_persist_works [OF d auth_event_valid [OF assms(1)]] au
    by (fastforce simp: SetWriteToken_def Let_def)
qed

lemma SetWriteToken_refused:
  assumes "clock_ok e" "en_leaseOpen e = Some err" "TrimSpace token \<noteq> []"
  shows "\<exists>t. SetWriteToken e token s = (Inl err, t)"
proof -
  obtain au where au: "authStore_setToken (en_DEFAULT_ACTOR e) token (currentActor e s) (en_clock e 50) (sv_auth s) = Inr au"
    using assms(3) by (auto simp: authStore_setToken_def Let_def)
  obtain es where "eventStore_append (sv_event (s\<lparr>sv_auth := au\<rparr>)) (newSystemEvent e 0 (s\<lparr>sv_auth := au\<rparr>) ''auth.enabled''
      (auth_event_data (authStore_status au) (currentActor e s))) = Inr es"
    using eventStore_append_Inr_iff auth_event_valid [OF assms(1)] by blast
  then have es: "eventStore_append (sv_event s) (newSystemEvent e 0 (s\<lparr>sv_auth := au\<rparr>) ''auth.enabled''
      (auth_event_data (authStore_status au) (currentActor e s))) = Inr es" by simp
  show ?thesis using assms(2)
    by (simp add: SetWriteToken_def au es event_or_def persist_or_def persistLocked_def ensureWriterLease_def Let_def)
qed

text \<open>C27. A token that has been set opens the service for the identity that set it.\<close>

theorem set_token_opens:
  assumes "clock_ok e" "restorable s" "auth_wf (sv_auth s)" "SetWriteToken e token s = (Inr status, t)"
  shows "AuthorizeWriteToken e token t \<and> auth_wf (sv_auth t) \<and> authEnabled (au_maps (sv_auth t)) (au_config (sv_auth t))"
proof -
  from sat_value [OF SetWriteToken_spec [OF assms(1,2), of token] assms(4)] obtain au where
    au: "authStore_setToken (en_DEFAULT_ACTOR e) token (currentActor e s) (en_clock e 50) (sv_auth s) = Inr au"
    and c: "core t = core (s\<lparr>sv_auth := au\<rparr>)" by (auto simp: committed_def)
  have "sv_auth t = au" "sv_actorOverride t = sv_actorOverride s" using core_eqD [OF c] by simp_all
  then show ?thesis
    using setToken_authorizes [OF assms(3) au] auth_wf_setToken [OF assms(3) au] setToken_enabled [OF assms(3) au]
    by (simp add: AuthorizeWriteToken_def currentActor_def currentActorOverride_def)
qed

theorem set_token_opens_witness:
  "\<exists>status t. SetWriteToken demo_env ''k'' demo_service = (Inr status, t) \<and> AuthorizeWriteToken demo_env ''k'' t"
proof -
  have "auth_wf (sv_auth demo_service)" by (simp add: demo_service_def auth_wf_new defaultAuthConfig_def)
  obtain status t where "SetWriteToken demo_env ''k'' demo_service = (Inr status, t)"
    using SetWriteToken_works [OF clock_ok_demo disk_works_demo] demo_token(2) by (metis list.distinct(1))
  then show ?thesis using set_token_opens [OF clock_ok_demo restorable_demo \<open>auth_wf _\<close>] by blast
qed

text \<open>C31. A defect: the configuration that a failed save restores shares its map of scoped tokens with the one
  that was changed. The token of an identity other than the founder, set by a request that was rejected, is
  active all the same.\<close>

theorem rejected_scoped_token_stays:
  assumes "clock_ok e" "restorable s" "auth_wf (sv_auth s)" "ac_ScopedTokenHashes (au_config (sv_auth s)) \<noteq> None"
    "ResolveActor (en_DEFAULT_ACTOR e) [currentActor e s] \<noteq> ''founder''" "TrimSpace token \<noteq> []"
    "SetWriteToken e token s = (Inl err, t)"
  shows "AuthorizeWriteToken e token t"
proof -
  let ?set = "authStore_setToken (en_DEFAULT_ACTOR e) token (currentActor e s) (en_clock e 50) (sv_auth s)"
  obtain au where au: "?set = Inr au" using assms(6) by (auto simp: authStore_setToken_def Let_def)
  have out: "SetWriteToken e token s = event_or (newSystemEvent e 0 (s\<lparr>sv_auth := au\<rparr>) ''auth.enabled''
        (auth_event_data (authStore_status au) (currentActor e s))) (restore_auth (au_config (sv_auth s)))
      (persist_or e (\<lambda>t. restore_event e (sv_event s) (restore_auth (au_config (sv_auth s)) t)) (authStore_status au))
      (s\<lparr>sv_auth := au\<rparr>)"
    using au by (simp add: SetWriteToken_def authStore_current_def Let_def)
  have "unchanged e (sans_auth s) (sans_auth t)" and t: "sv_auth t = newAuthStore (au_maps au) (au_config (sv_auth s))"
    using sat_error [OF sat_auth_save [OF assms(1,2)] assms(7) [unfolded out]] by simp_all
  then have "sv_actorOverride t = sv_actorOverride s"
    using core_eqD(1) [of "sans_auth t" "sans_auth s"] by (simp add: unchanged_def sans_auth_def)
  then have act: "currentActor e t = currentActor e s" by (simp add: currentActor_def currentActorOverride_def)
  obtain a where a: "ac_ScopedTokenHashes (au_config (sv_auth s)) = Some a" "a < length (au_maps (sv_auth s))"
    using assms(3,4) by (auto simp: auth_wf_def)
  have "ac_ScopedTokenHashes (au_config au) = Some a" "length (au_maps au) = length (au_maps (sv_auth s))"
    using au a assms(5) by (auto simp: authStore_setToken_def Let_def simp del: ResolveActor.simps split: if_splits)
  with a have "scoped_hashes (au_maps (sv_auth t)) (au_config (sv_auth t)) = scoped_hashes (au_maps au) (au_config au)"
    by (simp add: t newAuthStore_def scoped_hashes_def)
  then have m: "map_of (scoped_hashes (au_maps (sv_auth t)) (au_config (sv_auth t)))
      (ResolveActor (en_DEFAULT_ACTOR e) [currentActor e t]) = Some (hashToken (TrimSpace token))"
    using scoped_hashes_setToken(1) [OF assms(3) au] assms(5) act by simp
  then show ?thesis
    by (simp add: AuthorizeWriteToken_def authStore_authorize_def Let_def del: ResolveActor.simps)
qed

definition leak_env :: env where
  "leak_env = demo_env\<lparr>en_ACTOR := ''agent'', en_leaseOpen := Some ''read-only file system''\<rparr>"

definition leak_service :: Service where
  "leak_service = demo_service\<lparr>sv_auth := newAuthStore [[(''bot'', hashToken ''b'')]]
     (defaultAuthConfig\<lparr>ac_ScopedTokenHashes := Some 0\<rparr>)\<rparr>"

theorem rejected_scoped_token_stays_witness:
  "\<exists>t. SetWriteToken leak_env ''k'' leak_service = (Inl ''read-only file system'', t) \<and>
     \<not> AuthorizeWriteToken leak_env ''k'' leak_service \<and> AuthorizeWriteToken leak_env ''k'' t"
proof -
  have ck: "clock_ok leak_env" using clock_ok_demo by (simp add: clock_ok_def leak_env_def)
  have rs: "restorable leak_service" using restorable_demo by (simp add: leak_service_def restorable_def)
  have wf: "auth_wf (sv_auth leak_service)" by (simp add: leak_service_def auth_wf_new defaultAuthConfig_def)
  have named: "ResolveActor (en_DEFAULT_ACTOR leak_env) [en_ACTOR leak_env, en_WRITER_ID leak_env] = ''agent''" by code_simp
  have "currentActorOverride leak_service = currentActorOverride demo_service"
    by (simp add: leak_service_def currentActorOverride_def)
  moreover have "currentActorOverride demo_service = []" by code_simp
  ultimately have actor: "currentActor leak_env leak_service = ''agent''" by (simp only: currentActor_def named Let_def) simp
  have resolve: "ResolveActor (en_DEFAULT_ACTOR leak_env) [''agent''] = ''agent''" by code_simp
  have sc: "ac_ScopedTokenHashes (au_config (sv_auth leak_service)) = Some 0"
    by (simp add: leak_service_def newAuthStore_def)
  have cl: "\<not> AuthorizeWriteToken leak_env ''k'' leak_service"
    unfolding AuthorizeWriteToken_def actor authStore_authorize_def resolve
    by (simp add: leak_service_def newAuthStore_def scoped_hashes_def authEnabled_def defaultAuthConfig_def Let_def demo_token)
  have lease: "en_leaseOpen leak_env = Some ''read-only file system''" by (simp add: leak_env_def)
  obtain t where out: "SetWriteToken leak_env ''k'' leak_service = (Inl ''read-only file system'', t)"
    using SetWriteToken_refused [OF ck lease] demo_token(2) by (metis list.distinct(1))
  have "AuthorizeWriteToken leak_env ''k'' t"
    by (rule rejected_scoped_token_stays [OF ck rs wf _ _ _ out]) (simp_all add: sc actor resolve demo_token del: ResolveActor.simps)
  with cl out show ?thesis by simp
qed

section \<open>The throttle\<close>

text \<open>Requests of one caller at the given instants, all through the gate of a service with tokens.\<close>

fun attempts :: "url_parser \<Rightarrow> (time \<Rightarrow> string) \<Rightarrow> (string \<Rightarrow> bool) \<Rightarrow> Request \<Rightarrow> time list \<Rightarrow> counters \<Rightarrow> counters" where
  "attempts parseURL fmt authorized r [] cs = cs"
| "attempts parseURL fmt authorized r (t # ts) cs =
     attempts parseURL fmt authorized r ts (snd (snd (requireWriteAuth parseURL fmt (\<lambda>_. t) True authorized r cs)))"

abbreviation auth_failures :: "Request \<Rightarrow> time list \<Rightarrow> counters \<Rightarrow> counters" where
  "auth_failures r \<equiv> failures ''write_auth'' r writeAuthFailureWindow writeAuthFailureThreshold writeAuthThrottleWindow"

abbreviation auth_key :: "Request \<Rightarrow> string" where
  "auth_key r \<equiv> counterKey ''write_auth'' r"

lemma failed_attempt:
  assumes "originAllowed parseURL r" "\<not> authorized (bearer_token r)" "guard_blocked ''write_auth'' r t cs = None"
  shows "snd (snd (requireWriteAuth parseURL fmt (\<lambda>_. t) True authorized r cs)) =
    snd (observeFailure ''write_auth'' r writeAuthFailureWindow writeAuthFailureThreshold writeAuthThrottleWindow t cs)"
  using assms
  by (simp add: requireWriteAuth_def requireSameOriginWrite_def auth_failure_counts bearer_token_def Let_def numeral_eq_Suc)

lemma not_blocked_simps:
  "cs (counterKey scope r) = None \<Longrightarrow> guard_blocked scope r t cs = None"
  "cs (counterKey scope r) = Some (counting n l) \<Longrightarrow> guard_blocked scope r t cs = None"
  "cs (counterKey scope r) = Some (throttled n l until) \<Longrightarrow> until \<le> t \<Longrightarrow> guard_blocked scope r t cs = None"
  by (simp_all add: guard_blocked_def counting_def throttled_def)

lemma attempts_counting:
  assumes "originAllowed parseURL r" "\<not> authorized (bearer_token r)"
    "paced writeAuthFailureWindow l0 ts" "cs (auth_key r) = Some (counting n l0)" "0 < l0"
    "n + length ts \<le> writeAuthFailureThreshold"
  shows "attempts parseURL fmt authorized r ts cs = auth_failures r ts cs"
  using assms(3-)
proof (induction ts arbitrary: l0 n cs)
  case (Cons t ts)
  let ?cs = "snd (observeFailure ''write_auth'' r writeAuthFailureWindow writeAuthFailureThreshold writeAuthThrottleWindow t cs)"
  have step: "snd (snd (requireWriteAuth parseURL fmt (\<lambda>_. t) True authorized r cs)) = ?cs"
    by (rule failed_attempt [where authorized = authorized, OF assms(1,2)]) (use Cons.prems in \<open>simp add: not_blocked_simps\<close>)
  show ?case
  proof (cases ts)
    case (Cons t' ts')
    then have "?cs (auth_key r) = Some (counting (Suc n) t)"
      using Cons.prems observe_counting [of l0 t writeAuthFailureWindow writeAuthThrottleWindow writeAuthFailureThreshold n]
      by (simp add: observe_lookup) (simp add: guard_consts)
    then show ?thesis using Cons.IH [of t ?cs "Suc n"] Cons.prems step by simp
  qed (simp add: step)
qed simp

lemma attempts_throttled:
  assumes "originAllowed parseURL r" "\<not> authorized (bearer_token r)"
    "paced writeAuthFailureWindow l0 ts" "cs (auth_key r) = Some (throttled n l0 until)" "0 < l0" "\<forall>t \<in> set ts. until \<le> t"
  shows "attempts parseURL fmt authorized r ts cs = auth_failures r ts cs"
  using assms(3-)
proof (induction ts arbitrary: l0 n cs)
  case (Cons t ts)
  let ?cs = "snd (observeFailure ''write_auth'' r writeAuthFailureWindow writeAuthFailureThreshold writeAuthThrottleWindow t cs)"
  have step: "snd (snd (requireWriteAuth parseURL fmt (\<lambda>_. t) True authorized r cs)) = ?cs"
    by (rule failed_attempt [where authorized = authorized, OF assms(1,2)]) (use Cons.prems in \<open>simp add: not_blocked_simps\<close>)
  have "?cs (auth_key r) = Some (throttled (Suc n) t until)"
    using Cons.prems by (simp add: observe_lookup observe_throttled)
  then show ?case using Cons.IH [of t ?cs "Suc n"] Cons.prems step by simp
qed simp

lemma auth_failure_expired:
  assumes "cs (auth_key r) = Some (throttled n l0 until)" "0 < l0" "now - l0 \<le> writeAuthFailureWindow" "until \<le> now"
  shows "fst (auth_failure fmt now r reason message cs) = Reject 401 message None"
proof -
  obtain first escalated where obs: "observe_tracker now writeAuthFailureWindow writeAuthFailureThreshold writeAuthThrottleWindow
      (throttled n l0 until) = (throttled (n + 1) now until, first, escalated)"
    using observe_throttled [OF assms(2,3)] by (metis prod.collapse)
  have "wc_BlockedUntil (throttled (n + 1) now until) = until" by (simp add: throttled_def)
  then have "fst (recordAuthFailure fmt r reason now cs) = None"
    using assms(1,4) obs by (simp add: recordAuthFailure_def observeFailure_def Let_def)
  then show ?thesis by (auto simp: auth_failure_def split: prod.splits)
qed

lemma five_attempts:
  assumes "originAllowed parseURL r" "\<not> authorized (bearer_token r)" "cs (auth_key r) = None"
    "0 < t\<^sub>1" "paced writeAuthFailureWindow t\<^sub>1 [t\<^sub>2, t\<^sub>3, t\<^sub>4, t\<^sub>5]"
  shows "attempts parseURL fmt authorized r [t\<^sub>1, t\<^sub>2, t\<^sub>3, t\<^sub>4, t\<^sub>5] cs (auth_key r) =
    Some (throttled 5 t\<^sub>5 (t\<^sub>5 + writeAuthThrottleWindow))"
proof -
  let ?cs = "snd (observeFailure ''write_auth'' r writeAuthFailureWindow writeAuthFailureThreshold writeAuthThrottleWindow t\<^sub>1 cs)"
  have step: "snd (snd (requireWriteAuth parseURL fmt (\<lambda>_. t\<^sub>1) True authorized r cs)) = ?cs"
    by (rule failed_attempt [where authorized = authorized, OF assms(1,2)]) (simp add: not_blocked_simps assms(3))
  have c1: "?cs (auth_key r) = Some (counting 1 t\<^sub>1)"
    using assms(3,4)
    by (simp add: observe_lookup) (simp add: observe_tracker_def zero_counter_def counting_def guard_consts Let_def)
  have "attempts parseURL fmt authorized r [t\<^sub>1, t\<^sub>2, t\<^sub>3, t\<^sub>4, t\<^sub>5] cs = auth_failures r (t\<^sub>1 # [t\<^sub>2, t\<^sub>3, t\<^sub>4] @ [t\<^sub>5]) cs"
    using attempts_counting [where authorized = authorized and cs = ?cs, OF assms(1,2,5) c1 assms(4)] step by (simp add: writeAuthFailureThreshold_def)
  then show ?thesis
    using failures_reach_threshold [of cs "''write_auth''" r writeAuthFailureWindow t\<^sub>1 "[t\<^sub>2, t\<^sub>3, t\<^sub>4]" t\<^sub>5
        writeAuthThrottleWindow writeAuthFailureThreshold] assms(3-5)
    by (simp add: writeAuthFailureThreshold_def writeAuthThrottleWindow_def)
qed



text \<open>C32. A defect: the throttle acts once. When its ninety seconds are over, a caller that goes on failing
  without ever pausing for more than two minutes is never throttled again: every further failure, however many
  there were, is answered with status 401.\<close>

theorem throttle_acts_once:
  assumes "originAllowed parseURL r" "\<not> authorized (bearer_token r)" "cs (auth_key r) = None"
    "0 < t\<^sub>1" "paced writeAuthFailureWindow t\<^sub>1 [t\<^sub>2, t\<^sub>3, t\<^sub>4, t\<^sub>5]"
    "paced writeAuthFailureWindow t\<^sub>5 (ts @ [later])" "\<forall>t \<in> set (ts @ [later]). t\<^sub>5 + writeAuthThrottleWindow \<le> t"
  shows "\<exists>message. fst (requireWriteAuth parseURL fmt (\<lambda>_. later) True authorized r
      (attempts parseURL fmt authorized r ([t\<^sub>1, t\<^sub>2, t\<^sub>3, t\<^sub>4, t\<^sub>5] @ ts) cs)) = Reject 401 message None"
proof -
  let ?until = "t\<^sub>5 + writeAuthThrottleWindow"
  let ?c5 = "attempts parseURL fmt authorized r [t\<^sub>1, t\<^sub>2, t\<^sub>3, t\<^sub>4, t\<^sub>5] cs"
  let ?c = "attempts parseURL fmt authorized r ([t\<^sub>1, t\<^sub>2, t\<^sub>3, t\<^sub>4, t\<^sub>5] @ ts) cs"
  have c5: "?c5 (auth_key r) = Some (throttled 5 t\<^sub>5 ?until)"
    using five_attempts [where authorized = authorized and cs = cs, OF assms(1-5)] .
  have pos: "0 < t\<^sub>5" using assms(5) by simp
  have pace: "paced writeAuthFailureWindow t\<^sub>5 ts" "later - last (t\<^sub>5 # ts) \<le> writeAuthFailureWindow" "0 < last (t\<^sub>5 # ts)"
    using assms(6) pos by (induction ts arbitrary: t\<^sub>5) auto
  have "?c = auth_failures r ts ?c5"
    using attempts_throttled [where authorized = authorized and cs = ?c5, OF assms(1,2) pace(1) c5 pos] assms(7) by simp
  then have c: "?c (auth_key r) = Some (throttled (5 + length ts) (last (t\<^sub>5 # ts)) ?until)"
    using failures_throttled [where cs = ?c5, OF pace(1) c5 pos] by simp
  have nb: "guard_blocked ''write_auth'' r later ?c = None"
    using c assms(7) by (simp add: not_blocked_simps del: attempts.simps)
  have later: "?until \<le> later" using assms(7) by simp
  have "fst (auth_failure fmt later r reason message ?c) = Reject 401 message None" for reason message
    by (rule auth_failure_expired [where cs = ?c, OF c pace(3,2) later])
  then show ?thesis using assms(1,2) nb
    by (auto simp: requireWriteAuth_def requireSameOriginWrite_def bearer_token_def Let_def numeral_eq_Suc simp del: attempts.simps)
qed

theorem throttle_acts_once_witness:
  "\<exists>message. fst (requireWriteAuth (\<lambda>_. None) Itoa (\<lambda>_. 93 * 10 ^ 9) True (\<lambda>_. False) demo_request
      (attempts (\<lambda>_. None) Itoa (\<lambda>_. False) demo_request ([1, 2, 3, 4, 5] @ [91 * 10 ^ 9, 92 * 10 ^ 9]) (\<lambda>_. None))) =
    Reject 401 message None"
  by (rule throttle_acts_once) (simp_all add: demo_origin guard_consts)

text \<open>Throttling is per caller: a request never changes whether, or for how long, another caller (another
  actor, or the same from another host) is blocked.\<close>

theorem throttle_isolates_callers:
  assumes "auth_key r \<noteq> auth_key r'" "ts 0 \<le> later" "ts 1 \<le> later"
  shows "guard_blocked ''write_auth'' r' later (snd (snd (requireWriteAuth parseURL fmt ts enabled authorized r cs))) =
    guard_blocked ''write_auth'' r' later cs"
proof -
  have "TrimSpace ''cross_origin_write'' = ''cross_origin_write''" "TrimSpace ''write_auth'' = ''write_auth''" by code_simp+
  then have "counterKey ''cross_origin_write'' r \<noteq> auth_key r'" by (simp add: counterKey_def)
  then have "guard_blocked ''write_auth'' r' later (snd (recordCrossOriginWrite fmt r (ts 0) cs)) =
      guard_blocked ''write_auth'' r' later cs"
    using observe_other [of "''cross_origin_write''" r "''write_auth''" r' "ts 0" later writeProbeWindow writeProbeThreshold 0 cs] assms(2)
    by (auto simp: recordCrossOriginWrite_def Let_def split: prod.splits)
  moreover have "guard_blocked ''write_auth'' r' later (guard_clear ''write_auth'' r (ts 1) cs) =
      guard_blocked ''write_auth'' r' later cs"
    using prune_blocked [OF assms(3)] assms(1) by (simp add: guard_clear_def) (simp add: guard_blocked_def)
  ultimately show ?thesis using observe_other [OF assms(1,3)]
    by (auto simp: requireWriteAuth_def requireSameOriginWrite_def auth_failure_counts Let_def
        split: prod.splits option.splits)
qed

theorem throttle_isolates_callers_witness:
  "guard_blocked ''write_auth'' (demo_request\<lparr>rq_RemoteAddr := ''10.0.0.9:80''\<rparr>) 9
     (snd (snd (requireWriteAuth (\<lambda>_. None) Itoa (\<lambda>_. 7) True (\<lambda>_. False) demo_request (\<lambda>_. None)))) = None"
proof -
  have "auth_key demo_request \<noteq> auth_key (demo_request\<lparr>rq_RemoteAddr := ''10.0.0.9:80''\<rparr>)" by code_simp
  from throttle_isolates_callers [OF this, of "\<lambda>_. 7" 9 "\<lambda>_. None" Itoa True "\<lambda>_. False" "\<lambda>_. None"]
  show ?thesis by (simp add: guard_blocked_def)
qed

end
