(* ===== verification/Guarantees_Persist.thy ===== *)
theory Guarantees_Persist
  imports Demo
begin

text \<open>
  What is on disk: after a successful save the files are the state in memory and the archive has
  grown by the events that left the window, unchanged domains are not written, the writer lease
  keeps other processes out. Two defects are stated as well: a save that fails half-way leaves
  data of a rejected request in the files, and an interrupted first lease locks the directory.
\<close>

section \<open>Successful saves\<close>

definition saved_service :: Service where
  "saved_service = demo_service\<lparr>sv_persisted := (\<lambda>_. Itoa 0)\<rparr>"

lemma disk_works_saved: "disk_works demo_env saved_service"
  by (rule disk_works_frame [OF disk_works_demo]) (simp_all add: saved_service_def)






text \<open>A domain whose encoding is the one last saved is not written, whether or not the save succeeds.\<close>

theorem clean_domain_not_written:
  assumes "persistLocked e s = (r, t)" "signatureFor e (currentPersistSnapshot e (synced e s)) d = sv_persisted s d" "d \<noteq> D_event"
  shows "dk_file (sv_disk t) d = dk_file (sv_disk s) d"
  using assms by (rule persistLocked_clean_file)

lemma snapshot_sig:
  assumes "d \<noteq> D_continuity"
  shows "signatureFor e (currentPersistSnapshot e s) d = signatureFor e s d"
  using assms by (simp add: signatureFor_def snapshotValue_snapshot)

lemma demo_synced: "signatureFor demo_env (synced demo_env s) d = signatureFor demo_env s d"
  by (rule fun_cong [OF signatureFor_frame]) (simp_all add: synced_room_off demo_env_def)

theorem clean_domain_not_written_witness:
  "dk_file (sv_disk (snd (persistLocked demo_env saved_service))) D_work = V_work []"
proof -
  have "signatureFor demo_env saved_service D_work = sv_persisted saved_service D_work"
    by (simp add: signatureFor_def saved_service_def demo_service_def demo_env_def)
  then have "dk_file (sv_disk (snd (persistLocked demo_env saved_service))) D_work = dk_file (sv_disk saved_service) D_work"
    using clean_domain_not_written [of demo_env saved_service "fst (persistLocked demo_env saved_service)"]
    by (simp add: snapshot_sig demo_synced)
  then show ?thesis by (simp add: saved_service_def demo_service_def)
qed

section \<open>The writer lease\<close>

text \<open>C25. Mutual exclusion of writers: while the lease names another owner whose process is alive, a save is
  refused and changes neither memory nor disk; and an owner that saves holds the lease afterwards.\<close>

theorem lease_excludes_other_writers:
  assumes "dk_lease (sv_disk s) = Lease l" "wl_Owner l \<noteq> lease_owner e" "processAlive e (wl_PID l)"
  shows "\<exists>err. persistLocked e s = (Some err, s)"
  using assms by (auto simp: persistLocked_def ensureWriterLease_def Let_def split: option.splits)

definition other_lease :: WriteLease where
  "other_lease = \<lparr>wl_Owner = ''cli'', wl_PID = 7, wl_AcquiredAt = None, wl_UpdatedAt = None, wl_Status = ''active''\<rparr>"

theorem lease_excludes_other_writers_witness:
  "\<exists>err. persistLocked demo_env (demo_service\<lparr>sv_disk := (sv_disk demo_service)\<lparr>dk_lease := Lease other_lease\<rparr>\<rparr>) =
     (Some err, demo_service\<lparr>sv_disk := (sv_disk demo_service)\<lparr>dk_lease := Lease other_lease\<rparr>\<rparr>)"
proof (rule lease_excludes_other_writers)
  show "dk_lease (sv_disk (demo_service\<lparr>sv_disk := (sv_disk demo_service)\<lparr>dk_lease := Lease other_lease\<rparr>\<rparr>)) = Lease other_lease"
    by simp
  show "wl_Owner other_lease \<noteq> lease_owner demo_env" by code_simp
  show "processAlive demo_env (wl_PID other_lease)" by code_simp
qed

text \<open>C33. A defect: when the very first write of the lease fails, the empty file it leaves makes every later save
  fail, in whatever environment, and is never repaired.\<close>

theorem torn_lease_blocks_saving:
  assumes "dk_lease (sv_disk s) = NoLease" "en_leaseOpen e = None" "en_leaseWrite e = Some err"
  shows "\<exists>t. persistLocked e s = (Some err, t) \<and> dk_lease (sv_disk t) = TornLease \<and>
    (\<forall>e' u. dk_lease (sv_disk u) = TornLease \<longrightarrow>
       (\<exists>err' v. persistLocked e' u = (Some err', v) \<and> dk_lease (sv_disk v) = TornLease))"
  using assms by (auto simp: persistLocked_def ensureWriterLease_def Let_def split: option.splits)

theorem torn_lease_blocks_saving_witness:
  "\<exists>t. persistLocked (demo_env\<lparr>en_leaseWrite := Some ''no space left''\<rparr>) demo_service = (Some ''no space left'', t) \<and>
     (\<exists>err v. persistLocked demo_env t = (Some err, v))"
proof -
  have l: "dk_lease (sv_disk demo_service) = NoLease" by (simp add: demo_service_def)
  from torn_lease_blocks_saving [OF l, of "demo_env\<lparr>en_leaseWrite := Some ''no space left''\<rparr>" "''no space left''"]
  show ?thesis by (simp add: demo_env_def) blast
qed

section \<open>Saves that fail half-way\<close>

lemma save_domains_append:
  "save_domains e snap dirty (xs @ ys) s =
     (case save_domains e snap dirty xs s of (Some err, t) \<Rightarrow> (Some err, t) | (None, t) \<Rightarrow> save_domains e snap dirty ys t)"
  by (induction xs arbitrary: s) (auto split: prod.splits option.splits)

lemma save_domains_written:
  assumes "\<forall>d \<in> set ds. en_write e d = None" "disk_works (e\<lparr>en_write := (\<lambda>_. None)\<rparr>) s" "sv_continuity y = sv_continuity s"
  shows "\<exists>t'. save_domains e (currentPersistSnapshot e y) dirty ds t = (None, t')"
  using assms(1)
proof (induction ds arbitrary: t)
  case (Cons d ds)
  let ?e = "e\<lparr>en_write := (\<lambda>_. None)\<rparr>"
  have now: "now_list ?e = now_list e" "now_save ?e = now_save e" "now_checkpoint ?e = now_checkpoint e" "now_seal ?e = now_seal e"
    by (simp_all add: now_list_def now_save_def now_checkpoint_def now_seal_def fun_eq_iff)
  have parts: "currentPersistSnapshot ?e y = currentPersistSnapshot e y"
    "appendEventArchive ?e xs u = appendEventArchive e xs u" "save_checkpoint ?e r u = save_checkpoint e r u" for xs r u
    by (simp_all add: currentPersistSnapshot_def appendEventArchive_def save_checkpoint_def now Let_def split: option.split)
  have w: "en_write ?e d = en_write e d" using Cons.prems by simp
  have "save_domain ?e (currentPersistSnapshot ?e y) d t = save_domain e (currentPersistSnapshot e y) d t"
    unfolding save_domain_def parts now w
    by (cases d) (use w in \<open>simp_all add: parts now cong: option.case_cong prod.case_cong\<close>)
  with save_domain_works [OF assms(2,3)] have "\<exists>t'. save_domain e (currentPersistSnapshot e y) d t = (None, t')" by metis
  with Cons show ?case by auto
qed simp

definition before_state :: "domain list" where
  "before_state = butlast persistDomains"

lemma persistDomains_split: "persistDomains = before_state @ [D_state]" "distinct before_state"
  "D_work \<in> set before_state" "D_state \<notin> set before_state"
  by (simp_all add: before_state_def persistDomains_def)

text \<open>The save of a service whose work list and state changed, when only the last file cannot be written.\<close>

lemma persist_state_fails:
  assumes "disk_works (e\<lparr>en_write := (\<lambda>_. None)\<rparr>) s" "en_write e = (\<lambda>_. None)(D_state := Some err)"
    "en_marshal e (V_work (sv_work s)) \<noteq> Inr (sv_persisted s D_work)"
    "en_marshal e (V_state (sv_state s)) \<noteq> Inr (sv_persisted s D_state)"
  shows "\<exists>t. persistLocked e s = (Some err, t) \<and> dk_file (sv_disk t) D_work = V_work (sv_work s) \<and>
    sv_persisted t = sv_persisted s \<and> sv_work t = sv_work s"
proof -
  let ?y = "currentPersistSnapshot e (synced e s)" let ?s3 = "syncDirtyLocked e ?y (synced e s)"
  have en: "en_leaseOpen e = None" "en_leaseRead e = None" "en_leaseWrite e = None" "\<forall>v. \<exists>sig. en_marshal e v = Inr sig"
    using assms(1) by (auto simp: disk_works_def)
  have owner: "lease_owner (e\<lparr>en_write := (\<lambda>_. None)\<rparr>) = lease_owner e" by (simp add: lease_owner_def)
  have le: "fst (ensureWriterLease e (dk_lease (sv_disk s))) = None"
    using assms(1) en owner by (auto simp: disk_works_def ensureWriterLease_def Let_def split: lease_file.splits)
  have me: "marshal_error e ?y ds = None" for ds
    by (induction ds) (use en(4) in \<open>auto split: sum.splits\<close>, metis sum.distinct(1))
  have vals: "snapshotValue ?y D_work = V_work (sv_work s)" "snapshotValue ?y D_state = V_state (sv_state s)"
    using core_eqD(2,8) [of "synced e s" s] by (simp_all add: currentPersistSnapshot_def)
  have dirty: "domain_dirty e ?y D_work" "domain_dirty e ?y D_state"
    using assms(3,4) en(4) [rule_format, of "V_work (sv_work s)"] en(4) [rule_format, of "V_state (sv_state s)"]
    unfolding domain_dirty_def signatureFor_def vals by auto
  have c: "sv_continuity (synced e s) = sv_continuity s" using core_eqD(7) [of "synced e s" s] by simp
  have w: "\<forall>d \<in> set before_state. en_write e d = None" using assms(2) persistDomains_split(4) by auto
  obtain t where t: "save_domains e ?y (domain_dirty e ?y) before_state ?s3 = (None, t)"
    using save_domains_written [OF w assms(1) c] by blast
  have "dk_file (sv_disk t) D_work = V_work (sv_work s)"
    using save_domains_ok [OF t persistDomains_split(2)] dirty persistDomains_split(3) vals(1) by (simp add: saved_value_def)
  moreover have "save_domains e ?y (domain_dirty e ?y) persistDomains ?s3 = (Some err, t)"
    using assms(2) dirty(2) by (simp add: persistDomains_split(1) save_domains_append t save_domain_def)
  moreover have "dirty_any (domain_dirty e ?y)"
    using dirty(2) persistDomains_all [of D_state] by (auto simp: dirty_any_def list_ex_iff)
  moreover have "sv_persisted t = sv_persisted s" "sv_work t = sv_work s"
    using save_domains_frame [OF t] core_eqD(8) [of t s] by simp_all
  ultimately show ?thesis
    unfolding persistLocked_unfold Let_def syncDirty_simps by (simp add: le me)
qed

text \<open>C28. A defect: the files of the domains are replaced one after the other, and memory alone is rolled back
  when one of them fails. A work item whose request was rejected is then in the file a restart reads, and no
  later save removes it as long as the work list in memory stays as it was.\<close>

theorem rejected_work_item_on_disk:
  assumes "clock_ok e" "WorkItem_Validate item = None" "ensureActiveBranchLocked s (wi_BranchID item) = None"
    "disk_works (e\<lparr>en_write := (\<lambda>_. None)\<rparr>) s" "en_write e = (\<lambda>_. None)(D_state := Some err)"
    "en_marshal e (V_work (sv_work s)) = Inr (sv_persisted s D_work)"
    "en_marshal e (V_work (sv_work s @ [item])) \<noteq> Inr (sv_persisted s D_work)"
    "en_marshal e (V_state (updateWorkItemsActive (sv_state s) (int (length (sv_work s @ [item]))))) \<noteq> Inr (sv_persisted s D_state)"
  shows "\<exists>t. CreateWorkItem e item s = (Inl err, t) \<and> sv_work t = sv_work s \<and>
    dk_file (sv_disk t) D_work = V_work (sv_work s @ [item]) \<and>
    (\<forall>e' r u. en_marshal e' = en_marshal e \<longrightarrow> persistLocked e' t = (r, u) \<longrightarrow>
       dk_file (sv_disk u) D_work = V_work (sv_work s @ [item]))"
proof -
  let ?s2 = "s\<lparr>sv_work := sv_work s @ [item], sv_state := updateWorkItemsActive (sv_state s) (int (length (sv_work s @ [item])))\<rparr>"
  let ?ev = "service_event e 0 ?s2 ''work_item.created'' (wi_Surface item) (wi_ID item) (wi_Stage item) [(''title'', JString (wi_Title item))]"
  obtain es where es: "eventStore_append (sv_event s) ?ev = Inr es"
    using eventStore_append_Inr_iff [of "sv_event s" ?ev] CreateWorkItem_event_valid [OF assms(1,2), of 0 ?s2] by blast
  let ?s3 = "?s2\<lparr>sv_event := es\<rparr>"
  have d: "disk_works (e\<lparr>en_write := (\<lambda>_. None)\<rparr>) ?s3" by (rule disk_works_frame [OF assms(4)]) simp_all
  obtain t where t: "persistLocked e ?s3 = (Some err, t)" "dk_file (sv_disk t) D_work = V_work (sv_work s @ [item])"
    "sv_persisted t = sv_persisted s"
    using persist_state_fails [OF d assms(5)] assms(7,8) by auto
  let ?t = "restore_event e (sv_event s) (t\<lparr>sv_work := sv_work s, sv_state := sv_state s\<rparr>)"
  have out: "CreateWorkItem e item s = (Inl err, ?t)"
    using assms(2,3) es t(1) by (simp add: CreateWorkItem_def workStore_create_def append_valid_def event_or_def persist_or_def Let_def)
  have f: "sv_work ?t = sv_work s" "dk_file (sv_disk ?t) D_work = V_work (sv_work s @ [item])" "sv_persisted ?t = sv_persisted s"
    using t(2,3) by (simp_all add: restore_event_def)
  have "dk_file (sv_disk u) D_work = V_work (sv_work s @ [item])"
    if "en_marshal e' = en_marshal e" "persistLocked e' ?t = (r, u)" for e' r u
  proof -
    have "sv_work (synced e' ?t) = sv_work s" using f(1) core_eqD(8) [of "synced e' ?t" ?t] by simp
    then have "signatureFor e' (currentPersistSnapshot e' (synced e' ?t)) D_work = sv_persisted ?t D_work"
      using that(1) assms(6) f(3) by (simp add: snapshot_sig) (simp add: signatureFor_def)
    from persistLocked_clean_file [OF that(2) this] f(2) show ?thesis by simp
  qed
  with out f show ?thesis by blast
qed

definition failing_env :: env where
  "failing_env = demo_env\<lparr>en_write := (\<lambda>_. None)(D_state := Some ''no space left'')\<rparr>"

theorem rejected_work_item_on_disk_witness:
  "\<exists>t. CreateWorkItem failing_env demo_work saved_service = (Inl ''no space left'', t) \<and> sv_work t = [] \<and>
     dk_file (sv_disk t) D_work = V_work [demo_work]"
proof -
  have e: "failing_env\<lparr>en_write := (\<lambda>_. None)\<rparr> = demo_env" by (simp add: failing_env_def demo_env_def)
  have "clock_ok failing_env" using clock_ok_demo by (simp add: clock_ok_def failing_env_def)
  moreover have "disk_works (failing_env\<lparr>en_write := (\<lambda>_. None)\<rparr>) saved_service" using disk_works_saved by (simp add: e)
  moreover have "WorkItem_Validate demo_work = None" by code_simp
  moreover have "ensureActiveBranchLocked saved_service (wi_BranchID demo_work) = None"
    by (simp add: ensureActiveBranchLocked_def demo_work_def)
  moreover have "sv_work saved_service = []" by (simp add: saved_service_def demo_service_def)
  moreover have "sv_persisted saved_service d = Itoa 0" for d by (simp add: saved_service_def)
  moreover have "Itoa 0 = ''0''" "Itoa 1 = ''1''" by code_simp+
  ultimately show ?thesis
    using rejected_work_item_on_disk [of failing_env demo_work saved_service "''no space left''"]
    by (simp add: failing_env_def demo_env_def updateWorkItemsActive_def) blast
qed

end
