(* ===== verification/Guarantees_Room.thy ===== *)
theory Guarantees_Room
  imports Demo
begin

text \<open>
  The event log, the review room and the policy: what the log retains, how items enter and move
  between the sections of the room, what the seal detects, and what the decision table and the
  check of verification commands promise.
\<close>

section \<open>The event log\<close>

definition accepted_events :: "EventEnvelope log_op list \<Rightarrow> EventEnvelope list" where
  "accepted_events ops =
     concat (map (\<lambda>op. case op of Append e \<Rightarrow> (if EventEnvelope_Validate e = None then [e] else []) | Flush \<Rightarrow> []) ops)"

lemma appended_events: "elog.appended ops = accepted_events ops"
  by (induction ops rule: elog.appended.induct) (simp_all add: accepted_events_def)

lemma run_log_window:
  "run_log eventStore_append es_pendingArchive markArchivePersisted ops (arch, s) = (arch', s') \<Longrightarrow>
   window_ok s \<Longrightarrow> window_ok s'"
proof (induction ops arbitrary: arch s)
  case (Cons op ops)
  then show ?case by (cases op) (auto simp: window_ok_mark dest: window_ok_append split: sum.splits)
qed simp

text \<open>C19. The event log loses nothing and reorders nothing: after any sequence of appends and archive flushes,
  archive, pending events and retained window together are the earlier log followed by the valid events in the
  order they were appended, and the window stays within its limit.\<close>

theorem event_log_complete:
  assumes "run_log eventStore_append es_pendingArchive markArchivePersisted ops (arch, s) = (arch', s')" "window_ok s"
  shows "arch' @ eventStore_list s' = arch @ eventStore_list s @ accepted_events ops \<and> window_ok s'"
  using elog.run_history [OF assms(1)] run_log_window [OF assms] by (simp add: appended_events eventStore_list_def)

definition demo_event :: EventEnvelope where
  "demo_event = newEvent Itoa (\<lambda>i. 5 + int i) ''work_item.created'' ''founder'' ''api'' ''w1'' ''discover'' []"

theorem event_log_complete_witness:
  "fst (run_log eventStore_append es_pendingArchive markArchivePersisted [Append demo_event, Flush] ([], newEventStoreWithArchiveCount ''1'' [] 0)) @
   eventStore_list (snd (run_log eventStore_append es_pendingArchive markArchivePersisted [Append demo_event, Flush]
     ([], newEventStoreWithArchiveCount ''1'' [] 0))) = [demo_event]"
proof -
  have "EventEnvelope_Validate demo_event = None" by code_simp
  then have "accepted_events [Append demo_event, Flush] = [demo_event]" by (simp add: accepted_events_def)
  moreover have "eventStore_list (newEventStoreWithArchiveCount ''1'' [] 0) = []" by code_simp
  ultimately show ?thesis
    using event_log_complete [OF prod.collapse [symmetric] window_ok_new, of "[Append demo_event, Flush]" "[]" "''1''" "[]" 0] by simp
qed

text \<open>Deduplication on start keeps an event for every identifier that occurs and no identifier twice, events
  without identifier aside.\<close>

theorem dedupe_keeps_one_per_id:
  shows "distinct (filter (\<lambda>k. k \<noteq> []) (map (\<lambda>e. TrimSpace (ev_EventID e)) (dedupeEvents xs))) \<and>
    (\<lambda>e. TrimSpace (ev_EventID e)) ` set (dedupeEvents xs) = (\<lambda>e. TrimSpace (ev_EventID e)) ` set xs"
proof -
  let ?key = "\<lambda>e. TrimSpace (ev_EventID e)"
  have "set (dedupeEvents_from seen xs) \<subseteq> set xs" for seen by (induction xs arbitrary: seen) (auto simp: Let_def)
  then have "?key ` set (dedupeEvents xs) \<subseteq> ?key ` set xs" unfolding dedupeEvents_def by (rule image_mono)
  moreover have "?key e \<in> ?key ` set (dedupeEvents xs)" if e: "e \<in> set xs" for e
  proof -
    obtain d where "d \<in> set (dedupeEvents xs)" "?key d = ?key e"
      using dedupeEvents_from_cover [OF e, of "[]"] unfolding dedupeEvents_def by auto
    then show ?thesis by (metis imageI)
  qed
  ultimately have "?key ` set (dedupeEvents xs) = ?key ` set xs" by blast
  then show ?thesis using dedupeEvents_from_ids [of "[]" xs] by (simp add: dedupeEvents_def)
qed

section \<open>The review room\<close>

abbreviation texts :: "ReviewRoomItem list \<Rightarrow> string list" where
  "texts \<equiv> map ri_Text"

text \<open>C21. Adding to the review room: the text is in the room afterwards, exactly once, whether or not it was there
  before; an item that was already there in any section is left alone, and nothing else changes.\<close>

theorem added_item_is_in_room_once:
  assumes "room_inv r" "\<not> IsZero now" "ensureReviewRoomItem isWord now r sec item = Inr (r', added)"
  shows "set (texts (room_items r')) = insert (TrimSpace (ri_Text item)) (set (texts (room_items r))) \<and>
    distinct (texts (room_items r')) \<and> (added \<longleftrightarrow> TrimSpace (ri_Text item) \<notin> set (texts (room_items r))) \<and>
    (\<not> added \<longrightarrow> r' = r)"
proof -
  note spec = ensureReviewRoomItem_spec [OF assms]
  have "normalizeReviewSection sec \<noteq> []" using assms(3) by (auto simp: ensureReviewRoomItem_def)
  note s = section_cases [OF this]
  have "room_items (r\<lparr>rm_UpdatedAt := u\<rparr>) = room_items r" for r u by (simp add: room_items_def)
  then show ?thesis using spec set_room_items_append [OF s] by (auto simp: room_inv_def split: if_splits)
qed

definition demo_item :: ReviewRoomItem where
  "demo_item = newStructuredReviewRoomItem 5 ''check the seal'' ''agenda'' ''high'' ''founder'' None None [''gap:1'']"

lemma demo_item_normal: "item_normal demo_item" "ri_Text demo_item = ''check the seal''"
proof -
  show "item_normal demo_item" unfolding demo_item_def newStructuredReviewRoomItem_def
    by (rule item_normal_normalize) (simp add: IsZero_def)
  show "ri_Text demo_item = ''check the seal''" by code_simp
qed

lemma room_inv_demo: "room_inv demo_room"
  using restorable_demo by (simp add: restorable_def demo_service_def)

lemma demo_room_empty: "room_items demo_room = []"
  by (simp add: demo_room_def defaultReviewRoom_def room_items_def)

definition busy_room :: ReviewRoom where "busy_room = section_append demo_room ''open'' demo_item"

lemma room_inv_busy: "room_inv busy_room"
  unfolding busy_room_def
  by (rule room_inv_section_append) (simp_all add: room_inv_demo demo_item_normal demo_room_empty)

lemma busy_open: "rm_Open busy_room = [demo_item]" "rm_Accepted busy_room = []" "rm_Deferred busy_room = []"
  by (simp_all add: busy_room_def section_append_def demo_room_def defaultReviewRoom_def)

theorem added_item_is_in_room_once_witness:
  "\<exists>r'. ensureReviewRoomItem (\<lambda>_. True) 6 busy_room ''open'' demo_item = Inr (r', False) \<and> r' = busy_room"
proof -
  have n: "\<not> IsZero 6" by (simp add: IsZero_def)
  have "normalizeReviewSection ''open'' = ''open''" by code_simp
  moreover have "normalizeReviewRoomItem 6 demo_item = demo_item" using demo_item_normal(1) by (simp add: item_normal_def)
  moreover have "copyReviewRoom 6 busy_room = busy_room" using room_inv_busy by (simp add: copyReviewRoom_normal room_inv_normal)
  moreover have "TrimSpace ''check the seal'' = ''check the seal''" by code_simp
  moreover have "reviewRoomHasItem busy_room ''check the seal''"
    using reviewRoomHasItem_iff [OF calculation(4)] demo_item_normal(2) by (simp add: room_items_def busy_open)
  ultimately have e: "ensureReviewRoomItem (\<lambda>_. True) 6 busy_room ''open'' demo_item = Inr (busy_room, False)"
    by (simp add: ensureReviewRoomItem_def demo_item_normal(2) Let_def)
  from added_item_is_in_room_once [OF room_inv_busy n e] e show ?thesis by simp
qed

text \<open>A transition moves one item: it leaves whatever section it was in and is appended to the accepted section
  for \<open>accept\<close>, to the deferred section for \<open>defer\<close>, to none for \<open>resolve\<close>. Every other item stays in its place.\<close>

theorem transition_moves_item:
  assumes "room_inv r" "\<not> IsZero now" "normalizeReviewAction action \<noteq> []" "TrimSpace item \<in> set (texts (room_items r))"
  shows "\<exists>r' m. transitionReviewRoomItem now r action item res = Inr (r', Some m, True) \<and> room_inv r' \<and>
    texts (rm_Accepted r') = filter (\<lambda>x. x \<noteq> TrimSpace item) (texts (rm_Accepted r)) @
      (if normalizeReviewAction action = ''accept'' then [TrimSpace item] else []) \<and>
    texts (rm_Open r') = filter (\<lambda>x. x \<noteq> TrimSpace item) (texts (rm_Open r)) \<and>
    texts (rm_Deferred r') = filter (\<lambda>x. x \<noteq> TrimSpace item) (texts (rm_Deferred r)) @
      (if normalizeReviewAction action = ''defer'' then [TrimSpace item] else [])"
proof -
  have t: "TrimSpace item \<noteq> []" using assms(1,4) by (auto simp: room_inv_def list_all_iff)
  obtain x where "find (\<lambda>i. ri_Text i = TrimSpace item) (room_items r) = Some x"
    using assms(4) find_text_None_iff [of "TrimSpace item" "room_items r"] by (cases "find (\<lambda>i. ri_Text i = TrimSpace item) (room_items r)") auto
  with transition_spec [OF assms(1-3) t, of res] obtain m y where y: "ri_Text y = TrimSpace item" and
    tr: "transitionReviewRoomItem now r action item res =
          Inr (case action_section (normalizeReviewAction action) of
                 None \<Rightarrow> transition_base now (TrimSpace item) r
               | Some sec \<Rightarrow> section_append (transition_base now (TrimSpace item) r) sec y, Some m, True)" by auto
  have f: "texts (filter (\<lambda>i. ri_Text i \<noteq> t) xs) = filter (\<lambda>x. x \<noteq> t) (texts xs)" for t xs
    by (simp add: filter_map o_def)
  show ?thesis
    using room_inv_transition [OF assms(1,2) tr] tr y normalizeReviewAction_cases [of action] assms(3)
    by (auto simp: action_section_def section_append_def transition_base_def without_def f)
qed

theorem transition_moves_item_witness:
  "\<exists>r' m. transitionReviewRoomItem 6 busy_room ''accept'' ''check the seal'' None = Inr (r', Some m, True) \<and>
     texts (rm_Accepted r') = [''check the seal''] \<and> texts (rm_Open r') = []"
proof -
  have "normalizeReviewAction ''accept'' = ''accept''" "TrimSpace ''check the seal'' = ''check the seal''" by code_simp+
  with transition_moves_item [OF room_inv_busy, of 6 "''accept''" "''check the seal''" None]
  show ?thesis by (fastforce simp: room_items_def busy_open demo_item_normal IsZero_def)
qed

text \<open>C20. Resolution by evidence terminates: it closes every open item of the source that carries the evidence, in
  as many turns as there are such items, and reports their number; all other items keep section and order.\<close>

theorem evidence_resolution_closes_all:
  assumes "room_inv r" "\<not> IsZero now" "TrimSpace ev \<noteq> []"
  shows "\<exists>r'. autoResolveReviewRoomItemsByEvidenceLocked now r source ev res =
      Inr (r', length (filter (evidence_match source ev) (rm_Open r))) \<and> room_inv r' \<and>
    rm_Open r' = filter (\<lambda>i. \<not> evidence_match source ev i) (rm_Open r) \<and>
    rm_Accepted r' = rm_Accepted r \<and> rm_Deferred r' = rm_Deferred r"
proof -
  have m: "evidence_match source (TrimSpace ev) = evidence_match source ev" by (simp add: evidence_match_def fun_eq_iff)
  have "TrimSpace (TrimSpace ev) \<noteq> []" using assms(3) by simp
  from resolve_loop_filter [OF assms(1,2) this, of source res 0] show ?thesis
    using assms(1,3) by (simp add: autoResolveReviewRoomItemsByEvidenceLocked_def copyReviewRoom_normal room_inv_normal m)
qed

theorem evidence_resolution_closes_all_witness:
  "\<exists>r'. autoResolveReviewRoomItemsByEvidenceLocked 6 busy_room ''founder'' ''gap:1'' None = Inr (r', 1) \<and> rm_Open r' = []"
proof -
  have "evidence_match ''founder'' ''gap:1'' demo_item" by code_simp
  moreover have "TrimSpace ''gap:1'' \<noteq> []" by code_simp
  ultimately show ?thesis
    using evidence_resolution_closes_all [OF room_inv_busy, of 6 "''gap:1''" "''founder''" None]
    by (auto simp: busy_open IsZero_def)
qed



section \<open>Policy\<close>

text \<open>The decision table is total and consistent: mode and decision are always valid and come with reasons;
  work runs locally exactly when nothing about it is high, medium, large or approval-bound, and is held exactly
  when a tiny budget meets high risk or high novelty.\<close>

theorem policy_table:
  "case decidePolicy intent risk novelty tokenClass approval of (mode, decision, reasons) \<Rightarrow>
     validPolicyMode mode \<and> validPreflightDecision decision \<and> reasons \<noteq> [] \<and>
     (mode = ''local'' \<longleftrightarrow> \<not> approval \<and> risk \<noteq> ''high'' \<and> risk \<noteq> ''medium'' \<and> novelty \<noteq> ''high'' \<and> novelty \<noteq> ''medium'' \<and>
        tokenClass \<noteq> ''medium'' \<and> tokenClass \<noteq> ''large'') \<and>
     (decision = ''hold'' \<longleftrightarrow> tokenClass = ''tiny'' \<and> (risk = ''high'' \<or> novelty = ''high'')) \<and>
     (decision = ''hold'' \<longleftrightarrow> mode = ''blocked'')"
  using decidePolicy_valid [of intent risk novelty tokenClass approval] decidePolicy_local_iff [of intent risk novelty tokenClass approval]
  by (auto simp: decidePolicy_def split: prod.splits if_splits)



end
