(* ===== verification/Source_Intake.thy ===== *)
theory Source_Intake
  imports Observations Event_Store
begin

text \<open>
  Source intake (\<open>source_intake.go\<close>, the pure parts of \<open>source_intake_ingest.go\<close> and
  \<open>source_intake_route.go\<close>,
      and the suggestion of \<open>review_room_auto.go\<close> for an observation). An intake record
  and a draft seed are stored as the text of an observation: one \<open>key=value\<close> line per field and the body
  after a marker line; readers parse that text back. \<open>net/url\<close> is the argument \<open>parseURL\<close>: scheme, host and
  the rendered form of a URL, or nothing when it does not parse.
\<close>

section \<open>Text helpers\<close>

text \<open>\<open>unicode.IsSpace\<close> on code points, and \<open>strings.Fields\<close>.\<close>

definition space_rune :: "nat \<Rightarrow> bool" where
  "space_rune r \<longleftrightarrow> (9 \<le> r \<and> r \<le> 13) \<or> r \<in> {0x20, 0x85, 0xA0, 0x1680, 0x2028,
      0x2029, 0x202F, 0x205F, 0x3000} \<or>
     (0x2000 \<le> r \<and> r \<le> 0x200A)"

definition Fields :: "string \<Rightarrow> string list" where
  "Fields s = fields_of (\<lambda>r. \<not> space_rune r) (split_runes s) []"

text \<open>\<open>strings.ReplaceAll(raw, "\r\n", "\n")\<close>.\<close>

fun unix_lines :: "string \<Rightarrow> string" where
  "unix_lines [] = []"
| "unix_lines (c # s) =
     (if c = CHR 0x0D \<and> s \<noteq> [] \<and> hd s = CHR 0x0A then unix_lines s else c # unix_lines s)"

definition raw_lines :: "string \<Rightarrow> string list" where
  "raw_lines raw = split_on (CHR 0x0A) (unix_lines raw)"

definition TrimPrefix :: "string \<Rightarrow> string \<Rightarrow> string" where
  "TrimPrefix s p = (if starts_with s p then drop (length p) s else s)"

definition nl :: string where "nl = [CHR 0x0A]"

definition sourceIntakeLimitText :: "string \<Rightarrow> nat \<Rightarrow> string" where
  "sourceIntakeLimitText value mx =
     (let text = TrimSpace value; ts = split_runes text
      in if mx = 0 \<or> length ts \<le> mx then text
         else TrimSpace (concat (map rune_encoding (take (mx - 1) ts))) @ runes [0x2026])"

type_synonym url_renderer = "string \<Rightarrow> (string \<times> string \<times> string) option"

definition normalizeSourceIntakeURL :: "url_renderer \<Rightarrow> string \<Rightarrow> string" where
  "normalizeSourceIntakeURL parseURL raw0 =
     (let raw = TrimSpace raw0 in
      if raw = '''' then ''''
      else case parseURL raw of
             None \<Rightarrow> ''''
           | Some (scheme, host, rendered) \<Rightarrow> if scheme = '''' \<or> host = '''' then '''' else rendered)"

definition ExtractFirstSourceURL :: "url_renderer \<Rightarrow> string \<Rightarrow> string" where
  "ExtractFirstSourceURL parseURL text =
     (case find (\<lambda>v. v \<noteq> '''') (map (normalizeSourceIntakeURL parseURL) (Fields (TrimSpace text))) of
        None \<Rightarrow> '''' | Some v \<Rightarrow> v)"

section \<open>Records\<close>

record SourceIntakeRecord =
  si_IntakeClass :: string
  si_PolicyColor :: string
  si_Title :: string
  si_URL :: string
  si_Excerpt :: string
  si_FounderNote :: string
  si_DomainTags :: "string list"
  si_WorldviewTags :: "string list"
  si_SuggestedRoutes :: "string list"
  si_PriorityScore :: int
  si_Disposition :: string
  si_DispositionNote :: string

record SourceDraftSeedRecord =
  sd_TargetAccount :: string
  sd_TargetToneLevel :: string
  sd_Title :: string
  sd_SourceObservationID :: string
  sd_RouteDecisionObservationID :: string
  sd_ParentDraftObservationID :: string
  sd_RevisionNote :: string
  sd_SourceTitle :: string
  sd_SourceURL :: string
  sd_FounderNote :: string
  sd_DomainTags :: "string list"
  sd_WorldviewTags :: "string list"
  sd_Draft :: string

record SourceIntakeObservationInput =
  io_SourceChannel :: string
  io_Actor :: string
  io_Confidence :: string
  io_Refs :: "string list"
  io_CapturedAt :: time
  io_Record :: SourceIntakeRecord

section \<open>Normalisation of the fields\<close>

definition normalizeSourceIntakeClass :: "string \<Rightarrow> string" where
  "normalizeSourceIntakeClass value =
     (if TrimSpace value \<in> {''manual_drop'', ''authorized_connector'', ''public_collector''} then TrimSpace value
      else ''manual_drop'')"

definition normalizeSourceIntakePolicyColor :: "string \<Rightarrow> string" where
  "normalizeSourceIntakePolicyColor value =
     (if TrimSpace (ToLower value) \<in> {''green'', ''yellow'',
         ''red''} then TrimSpace (ToLower value) else ''green'')"

definition normalizeSourceIntakePriorityScore :: "int \<Rightarrow> int" where
  "normalizeSourceIntakePriorityScore value = (if value < 0 then 0 else if value > 100 then 100 else value)"

definition parseSourceIntakePriorityScore :: "string \<Rightarrow> int" where
  "parseSourceIntakePriorityScore value0 =
     (let value = TrimSpace value0 in
      if value = '''' then 0
      else case Atoi value of None \<Rightarrow> 0 | Some parsed \<Rightarrow> normalizeSourceIntakePriorityScore parsed)"

definition normalizeSourceIntakeDisposition :: "string \<Rightarrow> string" where
  "normalizeSourceIntakeDisposition value =
     (if TrimSpace (ToLower value) \<in> {''observe'', ''review'',
         ''prep''} then TrimSpace (ToLower value) else '''')"

definition minSourceIntakeScoreBonus :: "int \<Rightarrow> int \<Rightarrow> int" where
  "minSourceIntakeScoreBonus value mx = (if value < 0 then 0 else if value > mx then mx else value)"

definition normalizeSourceIntakeTags :: "string list \<Rightarrow> string list" where
  "normalizeSourceIntakeTags items =
     foldl (\<lambda>out item. let value = TrimSpace item in
              if value = '''' \<or> value = ''none'' then out else appendUniqueString out value) [] items"

definition route_of :: "string \<Rightarrow> string option" where
  "route_of item =
     (let v = ToLower (TrimSpace item)
      in if v = ''97layer'' then Some ''97layer''
         else if v \<in> {''woosunhokr'', ''woosunho'', runes [0xC6B0, 0xC21C, 0xD638]} then Some ''woosunhokr''
         else if v \<in> {''woohwahae'', runes [0xC6B0, 0xD654, 0xD574]} then Some ''woohwahae''
         else None)"

definition normalizeSourceIntakeRoutes :: "string list \<Rightarrow> string list" where
  "normalizeSourceIntakeRoutes items =
     (let out = foldl (\<lambda>out item. case route_of item of None \<Rightarrow> out | Some r \<Rightarrow> appendUniqueString out r) [] items
      in if out = [] then [''97layer''] else out)"

definition normalizeSourceDraftToneLevel :: "string \<Rightarrow> string" where
  "normalizeSourceDraftToneLevel value =
     (if TrimSpace (ToLower value) \<in> {''raw'', ''refined'',
         ''polished''} then TrimSpace (ToLower value) else '''')"

definition normalizeSourceDraftTarget :: "string \<Rightarrow> string" where
  "normalizeSourceDraftTarget value =
     (let v = TrimSpace (ToLower value) in if v \<in> {''97layer'', ''woosunhokr'', ''woohwahae''} then v else '''')"

definition sourceDraftSeedToneLevel :: "string \<Rightarrow> string" where
  "sourceDraftSeedToneLevel targetAccount =
     (let t = normalizeSourceDraftTarget targetAccount
      in if t = ''97layer'' then ''raw'' else if t = ''woosunhokr'' then ''refined''
         else if t = ''woohwahae'' then ''polished'' else '''')"

definition joinSourceIntakeTags :: "string list \<Rightarrow> string" where
  "joinSourceIntakeTags items = (if items = [] then ''none'' else join_with '','' items)"

definition joinSourceIntakeRoutes :: "string list \<Rightarrow> string" where
  "joinSourceIntakeRoutes items =
     (let routes = normalizeSourceIntakeRoutes items in if routes = [] then ''97layer'' else join_with '','' routes)"

definition route_label :: "string \<Rightarrow> string list" where
  "route_label route =
     (if route = ''97layer'' then [''97layer''] else if route = ''woosunhokr'' then [runes [0xC6B0, 0xC21C, 0xD638]]
      else if route = ''woohwahae'' then [runes [0xC6B0, 0xD654, 0xD574]] else [])"

definition sourceIntakeRouteLabels :: "string list \<Rightarrow> string" where
  "sourceIntakeRouteLabels routes = join_with '', '' (concat (map route_label (normalizeSourceIntakeRoutes routes)))"

definition NormalizeSourceIntakeRecord :: "url_renderer \<Rightarrow> SourceIntakeRecord \<Rightarrow> SourceIntakeRecord" where
  "NormalizeSourceIntakeRecord parseURL i =
     (let title = TrimSpace (si_Title i); excerpt = TrimSpace (si_Excerpt i)
      in \<lparr>si_IntakeClass = normalizeSourceIntakeClass (si_IntakeClass i),
          si_PolicyColor = normalizeSourceIntakePolicyColor (si_PolicyColor i),
          si_Title = title,
          si_URL = normalizeSourceIntakeURL parseURL (si_URL i),
          si_Excerpt = (if excerpt = '''' then title else excerpt),
          si_FounderNote = TrimSpace (si_FounderNote i),
          si_DomainTags = normalizeSourceIntakeTags (si_DomainTags i),
          si_WorldviewTags = normalizeSourceIntakeTags (si_WorldviewTags i),
          si_SuggestedRoutes = normalizeSourceIntakeRoutes (si_SuggestedRoutes i),
          si_PriorityScore = normalizeSourceIntakePriorityScore (si_PriorityScore i),
          si_Disposition = normalizeSourceIntakeDisposition (si_Disposition i),
          si_DispositionNote = TrimSpace (si_DispositionNote i)\<rparr>)"

definition NormalizeSourceDraftSeedRecord :: "url_renderer \<Rightarrow> SourceDraftSeedRecord \<Rightarrow> SourceDraftSeedRecord" where
  "NormalizeSourceDraftSeedRecord parseURL i =
     (let account = normalizeSourceDraftTarget (sd_TargetAccount i);
          tone = normalizeSourceDraftToneLevel (sd_TargetToneLevel i)
      in \<lparr>sd_TargetAccount = account,
          sd_TargetToneLevel = (if tone = '''' then sourceDraftSeedToneLevel account else tone),
          sd_Title = TrimSpace (sd_Title i),
          sd_SourceObservationID = TrimSpace (sd_SourceObservationID i),
          sd_RouteDecisionObservationID = TrimSpace (sd_RouteDecisionObservationID i),
          sd_ParentDraftObservationID = TrimSpace (sd_ParentDraftObservationID i),
          sd_RevisionNote = TrimSpace (sd_RevisionNote i),
          sd_SourceTitle = TrimSpace (sd_SourceTitle i),
          sd_SourceURL = normalizeSourceIntakeURL parseURL (sd_SourceURL i),
          sd_FounderNote = TrimSpace (sd_FounderNote i),
          sd_DomainTags = normalizeSourceIntakeTags (sd_DomainTags i),
          sd_WorldviewTags = normalizeSourceIntakeTags (sd_WorldviewTags i),
          sd_Draft = TrimSpace (sd_Draft i)\<rparr>)"

section \<open>The text of a record\<close>

definition intake_header :: "SourceIntakeRecord \<Rightarrow> string list" where
  "intake_header r =
     [''intake_class='' @ si_IntakeClass r, ''policy_color='' @ si_PolicyColor r, ''title='' @ si_Title r,
      ''url='' @ si_URL r, ''founder_note='' @ si_FounderNote r, ''priority_score='' @ Itoa (si_PriorityScore r),
      ''disposition='' @ si_Disposition r, ''disposition_note='' @ si_DispositionNote r,
      ''domain_tags='' @ joinSourceIntakeTags (si_DomainTags r),
      ''worldview_tags='' @ joinSourceIntakeTags (si_WorldviewTags r),
      ''suggested_routes='' @ joinSourceIntakeRoutes (si_SuggestedRoutes r)]"

definition BuildSourceIntakeRawExcerpt :: "url_renderer \<Rightarrow> SourceIntakeRecord \<Rightarrow> string" where
  "BuildSourceIntakeRawExcerpt parseURL i =
     (let r = NormalizeSourceIntakeRecord parseURL i
      in join_with nl (intake_header r @ [''excerpt:'', si_Excerpt r]))"

text \<open>One line of the loop of \<open>ParseSourceIntakeRawExcerpt\<close>; the second component is \<open>excerptStart\<close>.\<close>

definition intake_line ::
  "url_renderer \<Rightarrow> SourceIntakeRecord \<times> nat option \<Rightarrow> nat \<times> string \<Rightarrow> SourceIntakeRecord \<times> nat option" where
  "intake_line parseURL st il =
     (let (r, start) = st; (index, rawLine) = il; line = TrimSpace rawLine;
          has = (\<lambda>p. starts_with line p); val = (\<lambda>p. TrimSpace (TrimPrefix line p)) in
      if line = '''' then st
      else if line = ''excerpt:'' then (r, Some (index + 1))
      else if has ''intake_class='' then (r\<lparr>si_IntakeClass := normalizeSourceIntakeClass (val ''intake_class='')\<rparr>, start)
      else if has ''policy_color='' then (r\<lparr>si_PolicyColor := normalizeSourceIntakePolicyColor (val ''policy_color='')\<rparr>, start)
      else if has ''title='' then (r\<lparr>si_Title := val ''title=''\<rparr>, start)
      else if has ''url='' then (r\<lparr>si_URL := normalizeSourceIntakeURL parseURL (val ''url='')\<rparr>, start)
      else if has ''founder_note='' then (r\<lparr>si_FounderNote := val ''founder_note=''\<rparr>, start)
      else if has ''priority_score='' then (r\<lparr>si_PriorityScore := parseSourceIntakePriorityScore (val ''priority_score='')\<rparr>, start)
      else if has ''disposition='' then (r\<lparr>si_Disposition := normalizeSourceIntakeDisposition (val ''disposition='')\<rparr>, start)
      else if has ''disposition_note='' then (r\<lparr>si_DispositionNote := val ''disposition_note=''\<rparr>, start)
      else if has ''domain_tags=''
      then (r\<lparr>si_DomainTags := normalizeSourceIntakeTags (split_on (CHR '','') (TrimPrefix line ''domain_tags=''))\<rparr>, start)
      else if has ''worldview_tags=''
      then (r\<lparr>si_WorldviewTags := normalizeSourceIntakeTags (split_on (CHR '','') (TrimPrefix line ''worldview_tags=''))\<rparr>, start)
      else if has ''suggested_routes=''
      then (r\<lparr>si_SuggestedRoutes := normalizeSourceIntakeRoutes (split_on (CHR '','') (TrimPrefix line ''suggested_routes=''))\<rparr>, start)
      else st)"

definition blank_intake :: SourceIntakeRecord where
  "blank_intake =
     \<lparr>si_IntakeClass = ''manual_drop'', si_PolicyColor = ''green'', si_Title = '''', si_URL = '''',
         si_Excerpt = '''',
      si_FounderNote = '''', si_DomainTags = [], si_WorldviewTags = [], si_SuggestedRoutes = [''97layer''],
      si_PriorityScore = 0, si_Disposition = '''', si_DispositionNote = ''''\<rparr>"

definition ParseSourceIntakeRawExcerpt :: "url_renderer \<Rightarrow> string \<Rightarrow> SourceIntakeRecord" where
  "ParseSourceIntakeRawExcerpt parseURL raw =
     (let ls = raw_lines raw; (r, start) = foldl (intake_line parseURL) (blank_intake, None) (enumerate 0 ls)
      in NormalizeSourceIntakeRecord parseURL
           (case start of None \<Rightarrow> r | Some k \<Rightarrow> r\<lparr>si_Excerpt := TrimSpace (join_with nl (drop k ls))\<rparr>))"

definition seed_header :: "SourceDraftSeedRecord \<Rightarrow> string list" where
  "seed_header r =
     [''target_account='' @ sd_TargetAccount r, ''target_tone='' @ sd_TargetToneLevel r, ''title='' @ sd_Title r,
      ''source_observation_id='' @ sd_SourceObservationID r, ''route_decision_id='' @ sd_RouteDecisionObservationID r,
      ''parent_draft_observation_id='' @ sd_ParentDraftObservationID r, ''revision_note='' @ sd_RevisionNote r,
      ''source_title='' @ sd_SourceTitle r, ''source_url='' @ sd_SourceURL r, ''founder_note='' @ sd_FounderNote r,
      ''domain_tags='' @ joinSourceIntakeTags (sd_DomainTags r),
      ''worldview_tags='' @ joinSourceIntakeTags (sd_WorldviewTags r)]"

definition BuildSourceDraftSeedRawExcerpt :: "url_renderer \<Rightarrow> SourceDraftSeedRecord \<Rightarrow> string" where
  "BuildSourceDraftSeedRawExcerpt parseURL i =
     (let r = NormalizeSourceDraftSeedRecord parseURL i
      in join_with nl (seed_header r @ [''draft:'', sd_Draft r]))"

definition seed_line ::
  "url_renderer \<Rightarrow> SourceDraftSeedRecord \<times> nat option \<Rightarrow> nat \<times> string \<Rightarrow> SourceDraftSeedRecord \<times> nat option" where
  "seed_line parseURL st il =
     (let (r, start) = st; (index, rawLine) = il; line = TrimSpace rawLine;
          has = (\<lambda>p. starts_with line p); val = (\<lambda>p. TrimSpace (TrimPrefix line p)) in
      if line = '''' then st
      else if line = ''draft:'' then (r, Some (index + 1))
      else if has ''target_account='' then (r\<lparr>sd_TargetAccount := normalizeSourceDraftTarget (val ''target_account='')\<rparr>, start)
      else if has ''target_tone='' then (r\<lparr>sd_TargetToneLevel := normalizeSourceDraftToneLevel (val ''target_tone='')\<rparr>, start)
      else if has ''title='' then (r\<lparr>sd_Title := val ''title=''\<rparr>, start)
      else if has ''source_observation_id='' then (r\<lparr>sd_SourceObservationID := val ''source_observation_id=''\<rparr>, start)
      else if has ''route_decision_id='' then (r\<lparr>sd_RouteDecisionObservationID := val ''route_decision_id=''\<rparr>, start)
      else if has ''parent_draft_observation_id=''
      then (r\<lparr>sd_ParentDraftObservationID := val ''parent_draft_observation_id=''\<rparr>, start)
      else if has ''revision_note='' then (r\<lparr>sd_RevisionNote := val ''revision_note=''\<rparr>, start)
      else if has ''source_title='' then (r\<lparr>sd_SourceTitle := val ''source_title=''\<rparr>, start)
      else if has ''source_url='' then (r\<lparr>sd_SourceURL := normalizeSourceIntakeURL parseURL (val ''source_url='')\<rparr>, start)
      else if has ''founder_note='' then (r\<lparr>sd_FounderNote := val ''founder_note=''\<rparr>, start)
      else if has ''domain_tags=''
      then (r\<lparr>sd_DomainTags := normalizeSourceIntakeTags (split_on (CHR '','') (TrimPrefix line ''domain_tags=''))\<rparr>, start)
      else if has ''worldview_tags=''
      then (r\<lparr>sd_WorldviewTags := normalizeSourceIntakeTags (split_on (CHR '','') (TrimPrefix line ''worldview_tags=''))\<rparr>, start)
      else st)"

definition blank_seed :: SourceDraftSeedRecord where
  "blank_seed =
     \<lparr>sd_TargetAccount = '''', sd_TargetToneLevel = '''', sd_Title = '''', sd_SourceObservationID = '''',
      sd_RouteDecisionObservationID = '''', sd_ParentDraftObservationID = '''', sd_RevisionNote = '''',
      sd_SourceTitle = '''', sd_SourceURL = '''', sd_FounderNote = '''', sd_DomainTags = [], sd_WorldviewTags = [],
      sd_Draft = ''''\<rparr>"

definition ParseSourceDraftSeedRawExcerpt :: "url_renderer \<Rightarrow> string \<Rightarrow> SourceDraftSeedRecord" where
  "ParseSourceDraftSeedRawExcerpt parseURL raw =
     (let ls = raw_lines raw; (r, start) = foldl (seed_line parseURL) (blank_seed, None) (enumerate 0 ls)
      in NormalizeSourceDraftSeedRecord parseURL
           (case start of None \<Rightarrow> r | Some k \<Rightarrow> r\<lparr>sd_Draft := TrimSpace (join_with nl (drop k ls))\<rparr>))"

section \<open>Summary, priority and references\<close>

definition SourceIntakeSummary :: "url_renderer \<Rightarrow> SourceIntakeRecord \<Rightarrow> string" where
  "SourceIntakeSummary parseURL i =
     (let r = NormalizeSourceIntakeRecord parseURL i;
          subject = (if si_Title r \<noteq> '''' then si_Title r else if si_URL r \<noteq> '''' then si_URL r
                     else sourceIntakeLimitText (join_with '' '' (Fields (si_Excerpt r))) 72);
          labels = sourceIntakeRouteLabels (si_SuggestedRoutes r);
          routes = (if labels = '''' then ''97layer'' else labels)
      in sourceIntakeLimitText (''Source intake '' @ runes [0xB7] @ '' '' @ subject @ '' -> '' @ routes) 180)"

definition intake_score :: "SourceIntakeRecord \<Rightarrow> int" where
  "intake_score r =
     (let len = length (split_runes (si_Excerpt r)); hints = length (si_SuggestedRoutes r)
      in normalizeSourceIntakePriorityScore
           (28 + (if si_Title r \<noteq> '''' then 8 else 0) + (if si_URL r \<noteq> '''' then 5 else 0) +
            (if len \<ge> 120 then 12 else if len \<ge> 48 then 7 else 0) +
            minSourceIntakeScoreBonus (int (length (si_DomainTags r)) * 4) 12 +
            minSourceIntakeScoreBonus (int (length (si_WorldviewTags r)) * 5) 15 +
            (if si_PolicyColor r = ''red'' then 50 else if si_PolicyColor r = ''yellow'' then 22
             else if si_PolicyColor r = ''green'' then 12 else 0) +
            (if hints = 0 then 8 else if hints = 1 then 18 else 12)))"

definition intake_disposition :: "SourceIntakeRecord \<Rightarrow> int \<Rightarrow> string \<times> string" where
  "intake_disposition r score =
     (let hints = length (si_SuggestedRoutes r);
          cue_missing = ''route cue'' @ runes [0xAC00] @ '' '' @ runes [0xBE44, 0xC5B4] @ '' '' @ runes [0xC788,
              0xC5B4] @ '' founder route '' @ runes [0xBD84, 0xB958, 0xAC00] @ '' '' @ runes [0xD544, 0xC694, 0xD569,
              0xB2C8, 0xB2E4] @ ''.'';
          cue_many = ''route cue'' @ runes [0xAC00] @ '' '' @ runes [0xC5EC, 0xB7EC] @ '' '' @ runes [0xAC1C,
              0xB77C] @ '' founder route '' @ runes [0xACB0, 0xC815, 0xC744] @ '' '' @ runes [0xBA3C, 0xC800] @
              '' '' @ runes [0xBC1B, 0xC544, 0xC57C] @ '' '' @ runes [0xD569, 0xB2C8, 0xB2E4] @ ''.''
      in if si_PolicyColor r = ''red''
         then (''review'', ''red policy source'' @ runes [0xB77C] @ '' founder '' @ runes [0xAC80, 0xD1A0, 0xAC00] @
             '' '' @ runes [0xBA3C, 0xC800] @ '' '' @ runes [0xD544, 0xC694, 0xD569, 0xB2C8, 0xB2E4] @ ''.'')
         else if si_PolicyColor r = ''yellow''
         then (''review'',
               if contains_sub (si_FounderNote r) (''route cue'' @ runes [0xAC00] @ '' '' @ runes [0xBE44,
                   0xC5B4]) then cue_missing
               else if contains_sub (si_FounderNote r) (runes [0xC5EC, 0xB7EC] @ '' route cue'') then cue_many
               else if hints = 0 then cue_missing
               else if hints > 1 then cue_many
               else ''yellow policy source'' @ runes [0xB77C] @ '' founder'' @ runes [0xAC00] @ '' '' @
                   runes [0xBA3C, 0xC800] @ '' '' @ runes [0xC758, 0xBBF8, 0xC640] @ '' '' @ runes [0xC4F0, 0xC784,
                   0xC744] @ '' '' @ runes [0xD655, 0xC778, 0xD574, 0xC57C] @ '' '' @ runes [0xD569, 0xB2C8, 0xB2E4] @
                   ''.'')
         else if hints = 1 \<and> score \<ge> 60
         then (''prep'', ''single route cue'' @ runes [0xC640] @ '' '' @ runes [0xCDA9, 0xBD84, 0xD55C] @
             '' signal'' @ runes [0xC774] @ '' '' @ runes [0xC788, 0xC5B4] @ '' draft/prep '' @ runes [0xD6C4,
             0xBCF4, 0xB85C] @ '' '' @ runes [0xBC14, 0xB85C] @ '' '' @ runes [0xC62C, 0xB9B4] @ '' '' @
             runes [0xC218] @ '' '' @ runes [0xC788, 0xC2B5, 0xB2C8, 0xB2E4] @ ''.'')
         else if score \<ge> 48
         then (''review'', ''signal'' @ runes [0xC740] @ '' '' @ runes [0xCDA9, 0xBD84, 0xD558, 0xC9C0, 0xB9CC] @
             '' founder'' @ runes [0xAC00] @ '' route'' @ runes [0xC640] @ '' '' @ runes [0xC4F0, 0xC784, 0xC744] @
             '' '' @ runes [0xD55C] @ '' '' @ runes [0xBC88] @ '' '' @ runes [0xD655, 0xC778, 0xD558, 0xB294] @
             '' '' @ runes [0xD3B8, 0xC774] @ '' '' @ runes [0xC548, 0xC804, 0xD569, 0xB2C8, 0xB2E4] @ ''.'')
         else (''observe'', ''source'' @ runes [0xB97C] @ '' corpus '' @ runes [0xD6C4, 0xBCF4, 0xB85C, 0xB9CC] @
             '' '' @ runes [0xC720, 0xC9C0, 0xD558, 0xACE0] @ '' founder'' @ runes [0xAC00] @ '' '' @ runes [0xB2F9,
             0xACA8, 0xC62C] @ '' '' @ runes [0xB54C, 0xAE4C, 0xC9C0] @ '' '' @ runes [0xC870, 0xC6A9, 0xD788] @
             '' '' @ runes [0xB461, 0xB2C8, 0xB2E4] @ ''.''))"

definition SourceIntakePriority :: "url_renderer \<Rightarrow> SourceIntakeRecord \<Rightarrow> int \<times> string \<times> string" where
  "SourceIntakePriority parseURL i =
     (let r = NormalizeSourceIntakeRecord parseURL i in
      if si_PriorityScore r > 0 \<and> si_Disposition r \<noteq> ''''
      then (si_PriorityScore r, si_Disposition r, TrimSpace (si_DispositionNote r))
      else (intake_score r, intake_disposition r (intake_score r)))"

definition FinalizeSourceIntakeRecord :: "url_renderer \<Rightarrow> SourceIntakeRecord \<Rightarrow> SourceIntakeRecord" where
  "FinalizeSourceIntakeRecord parseURL i =
     (let r = NormalizeSourceIntakeRecord parseURL i; (score, disposition, note) = SourceIntakePriority parseURL r
      in NormalizeSourceIntakeRecord parseURL
           (r\<lparr>si_PriorityScore := (if si_PriorityScore r = 0 then score else si_PriorityScore r),
              si_Disposition := (if si_Disposition r = '''' then disposition else si_Disposition r),
              si_DispositionNote := (if si_DispositionNote r = '''' then note else si_DispositionNote r)\<rparr>))"

definition SourceIntakeRefs :: "url_renderer \<Rightarrow> SourceIntakeRecord \<Rightarrow> string list" where
  "SourceIntakeRefs parseURL i =
     (let r = NormalizeSourceIntakeRecord parseURL i
      in foldl appendUniqueString []
           (map ((@) ''route:'') (si_SuggestedRoutes r) @ map ((@) ''domain:'') (si_DomainTags r) @
            map ((@) ''worldview:'') (si_WorldviewTags r)))"

definition BuildSourceIntakeObservation ::
  "url_renderer \<Rightarrow> SourceIntakeObservationInput \<Rightarrow> error + ObservationRecord \<times> SourceIntakeRecord" where
  "BuildSourceIntakeObservation parseURL i =
     (let r = FinalizeSourceIntakeRecord parseURL (io_Record i);
          or_default = (\<lambda>v d. if TrimSpace v = '''' then d else TrimSpace v) in
      if blank (si_Title r) \<and> blank (si_Excerpt r) then Inl ''source intake title or excerpt is required''
      else Inr
        (\<lparr>ob_ObservationID = '''', ob_SourceChannel = or_default (io_SourceChannel i) ''cockpit'',
          ob_CapturedAt = io_CapturedAt i, ob_Actor = or_default (io_Actor i) ''founder'',
          ob_Topic = ''source_intake'',
          ob_Refs = Some (foldl appendUniqueString [] (SourceIntakeRefs parseURL r @ map TrimSpace (io_Refs i))),
          ob_Confidence = or_default (io_Confidence i) ''high'',
          ob_RawExcerpt = BuildSourceIntakeRawExcerpt parseURL r,
          ob_NormalizedSummary = SourceIntakeSummary parseURL r\<rparr>, r))"

section \<open>Routes\<close>

definition normalizeSourceIntakeRouteChoice :: "string \<Rightarrow> string" where
  "normalizeSourceIntakeRouteChoice value =
     (let v = ToLower (TrimSpace value)
      in if v = ''97layer'' then ''97layer''
         else if v \<in> {''woosunhokr'', ''woosunho'', runes [0xC6B0, 0xC21C, 0xD638]} then ''woosunhokr''
         else if v \<in> {''woohwahae'', runes [0xC6B0, 0xD654, 0xD574]} then ''woohwahae''
         else if v \<in> {''hold'', runes [0xBCF4, 0xB958]} then ''hold''
         else '''')"

definition SourceIntakeRouteChoiceLabel :: "string \<Rightarrow> string" where
  "SourceIntakeRouteChoiceLabel value =
     (let v = normalizeSourceIntakeRouteChoice value
      in if v = ''97layer'' then ''97layer'' else if v = ''woosunhokr'' then runes [0xC6B0, 0xC21C, 0xD638]
         else if v = ''woohwahae'' then runes [0xC6B0, 0xD654,
             0xD574] else if v = ''hold'' then ''hold'' else TrimSpace value)"

definition sourceIntakeRefValue :: "string \<Rightarrow> string \<Rightarrow> string option" where
  "sourceIntakeRefValue ref0 prefix0 =
     (let ref = TrimSpace ref0; prefix = TrimSpace prefix0 in
      if ref = '''' \<or> prefix = '''' \<or> \<not> starts_with ref prefix then None
      else let value = TrimSpace (TrimPrefix ref prefix) in if value = '''' then None else Some value)"

definition explicitSourceIntakeRouteHints :: "string list \<Rightarrow> string list" where
  "explicitSourceIntakeRouteHints refs =
     (let out = foldl (\<lambda>out ref. case sourceIntakeRefValue ref ''route:'' of
                         None \<Rightarrow> out
                       | Some v \<Rightarrow> appendUniqueString out (normalizeSourceIntakeRouteChoice v)) [] refs
      in foldl (\<lambda>out item. if item = '''' \<or> item = ''hold'' then out else appendUniqueString out item) [] out)"

definition SourceIntakeAutoRouteTarget :: "url_renderer \<Rightarrow> SourceIntakeRecord \<Rightarrow> string list \<Rightarrow> string option" where
  "SourceIntakeAutoRouteTarget parseURL i refs =
     (let r = NormalizeSourceIntakeRecord parseURL i; hints = explicitSourceIntakeRouteHints refs in
      if si_PolicyColor r \<noteq> ''green'' then None
      else if si_Disposition r \<noteq> '''' \<and> si_Disposition r \<noteq> ''prep'' then None
      else if length hints \<noteq> 1 then None
      else let target = normalizeSourceIntakeRouteChoice (hd hints)
           in if target = '''' \<or> target = ''hold'' then None else Some target)"

section \<open>Records from collected content\<close>

definition sourceIntakeClassForObservation :: "ObservationRecord \<Rightarrow> string" where
  "sourceIntakeClassForObservation item =
     (if normalizeObservationChannel (ob_SourceChannel item) \<in> {''crawler'', ''web'', ''feed''}
      then ''public_collector'' else ''authorized_connector'')"

definition ref_values :: "string \<Rightarrow> string list \<Rightarrow> string list \<Rightarrow> string list" where
  "ref_values prefix refs items =
     foldl (\<lambda>out ref. case sourceIntakeRefValue ref prefix of None \<Rightarrow> out | Some v \<Rightarrow> appendUniqueString out v) items refs"

definition sourceIntakeMergedTags :: "string list \<Rightarrow> string list \<Rightarrow> string \<Rightarrow> bool \<Rightarrow> string list" where
  "sourceIntakeMergedTags explicit refs prefix includeTagFallback =
     (let items = ref_values prefix refs (normalizeSourceIntakeTags explicit)
      in normalizeSourceIntakeTags
           (if includeTagFallback \<and> items = [] then ref_values ''tag:'' refs items else items))"

definition sourceIntakeMergedRoutes :: "string list \<Rightarrow> string list \<Rightarrow> string list" where
  "sourceIntakeMergedRoutes explicit refs =
     (let items = foldl (\<lambda>out item. let value = ToLower (TrimSpace item) in
                           if value = '''' then out else appendUniqueString out value) [] explicit
      in normalizeSourceIntakeRoutes (ref_values ''route:'' refs items))"

definition defaultSourceIntakePolicyForContent :: "ObservationRecord \<Rightarrow> string" where
  "defaultSourceIntakePolicyForContent o' =
     (if sourceIntakeClassForObservation o' \<noteq> ''public_collector'' then ''green''
      else if length (explicitSourceIntakeRouteHints (elems (ob_Refs o'))) = 1 then ''green'' else ''yellow'')"

definition defaultSourceIntakeFounderNoteForContent :: "ObservationRecord \<Rightarrow> string" where
  "defaultSourceIntakeFounderNoteForContent o' =
     (let hints = length (explicitSourceIntakeRouteHints (elems (ob_Refs o'))) in
      if sourceIntakeClassForObservation o' \<noteq> ''public_collector'' then ''''
      else if hints = 0
      then ''sensor'' @ runes [0xAC00] @ '' source'' @ runes [0xB97C] @ '' '' @ runes [0xC8FC, 0xC6E0, 0xC9C0,
          0xB9CC] @ '' route cue'' @ runes [0xAC00] @ '' '' @ runes [0xBE44, 0xC5B4] @ '' '' @ runes [0xC788,
          0xC5B4] @ '' founder '' @ runes [0xBD84, 0xB958, 0xAC00] @ '' '' @ runes [0xD544, 0xC694, 0xD569, 0xB2C8,
          0xB2E4] @ ''.''
      else if hints = 1 then ''''
      else ''sensor'' @ runes [0xAC00] @ '' '' @ runes [0xC5EC, 0xB7EC] @ '' route cue'' @ runes [0xB97C] @ '' '' @
          runes [0xD568, 0xAED8] @ '' '' @ runes [0xAC00, 0xC838, 0xC640] @ '' founder route '' @ runes [0xACB0,
          0xC815, 0xC774] @ '' '' @ runes [0xD544, 0xC694, 0xD569, 0xB2C8, 0xB2E4] @ ''.'')"

text \<open>\<open>SourceIntakeContentInput\<close> is an observation with the fields of an intake record.\<close>

definition BuildSourceIntakeRecordFromContent ::
  "url_renderer \<Rightarrow> time \<Rightarrow> ObservationRecord \<Rightarrow> SourceIntakeRecord \<Rightarrow> SourceIntakeRecord" where
  "BuildSourceIntakeRecordFromContent parseURL now source i =
     (let o' = normalizeObservationRecord now source (ob_Actor source); refs = elems (ob_Refs o');
          or_default = (\<lambda>v d. if TrimSpace v = '''' then d else TrimSpace v)
      in FinalizeSourceIntakeRecord parseURL
           \<lparr>si_IntakeClass = or_default (si_IntakeClass i) (sourceIntakeClassForObservation o'),
            si_PolicyColor = or_default (si_PolicyColor i) (defaultSourceIntakePolicyForContent o'),
            si_Title = or_default (si_Title i) (ob_NormalizedSummary o'),
            si_URL = TrimSpace (si_URL i),
            si_Excerpt = or_default (si_Excerpt i) (ob_RawExcerpt o'),
            si_FounderNote = or_default (si_FounderNote i) (defaultSourceIntakeFounderNoteForContent o'),
            si_DomainTags = sourceIntakeMergedTags (si_DomainTags i) refs ''domain:'' True,
            si_WorldviewTags = sourceIntakeMergedTags (si_WorldviewTags i) refs ''worldview:'' False,
            si_SuggestedRoutes = sourceIntakeMergedRoutes (si_SuggestedRoutes i) refs,
            si_PriorityScore = si_PriorityScore i,
            si_Disposition = TrimSpace (si_Disposition i),
            si_DispositionNote = TrimSpace (si_DispositionNote i)\<rparr>)"

definition sourceIntakeLookupRefs :: "string \<Rightarrow> string list \<Rightarrow> string list" where
  "sourceIntakeLookupRefs sourceObservationID sourceRefs =
     (let t = TrimSpace sourceObservationID;
          out = (if t \<noteq> '''' then appendUniqueString (appendUniqueString [] (''source_observation:'' @
              t)) t else [])
      in foldl (\<lambda>out ref. let v = TrimSpace ref in if starts_with v ''content_doc:'' then appendUniqueString out v else out)
           out sourceRefs)"

section \<open>The review item of an intake observation\<close>

definition sourceIntakeNeedsRouteReview :: "SourceIntakeRecord \<Rightarrow> ObservationRecord \<Rightarrow> bool" where
  "sourceIntakeNeedsRouteReview r item \<longleftrightarrow>
     TrimSpace (si_IntakeClass r) = ''public_collector'' \<and>
     normalizeObservationChannel (ob_SourceChannel item) \<in> {''crawler'', ''web'', ''feed''} \<and>
     length (explicitSourceIntakeRouteHints (elems (ob_Refs item))) \<noteq> 1"

definition sourceIntakeReviewSubject :: "SourceIntakeRecord \<Rightarrow> ObservationRecord \<Rightarrow> string" where
  "sourceIntakeReviewSubject r item =
     (if TrimSpace (si_Title r) \<noteq> '''' then sourceIntakeLimitText (TrimSpace (si_Title r)) 96
      else if TrimSpace (si_URL r) \<noteq> '''' then sourceIntakeLimitText (TrimSpace (si_URL r)) 96
      else if TrimSpace (ob_NormalizedSummary item) \<noteq> ''''
      then sourceIntakeLimitText (TrimSpace (ob_NormalizedSummary item)) 96
      else sourceIntakeLimitText (join_with '' '' (Fields (TrimSpace (si_Excerpt r)))) 96)"

definition intake_evidence :: "SourceIntakeRecord \<Rightarrow> ObservationRecord \<Rightarrow> string list" where
  "intake_evidence r item =
     elems (ob_Refs item) @
     (let channel = TrimSpace (ob_SourceChannel item) in if channel \<noteq> '''' then [''channel:'' @
         channel] else []) @
     (let note = TrimSpace (si_FounderNote r) in
      if note \<noteq> '''' then [''founder_note:'' @ sourceIntakeLimitText note 80] else [])"

definition red_policy_item :: "time \<Rightarrow> SourceIntakeRecord \<Rightarrow> ObservationRecord \<Rightarrow> ReviewRoomItem" where
  "red_policy_item now r item =
     (let labels = sourceIntakeRouteLabels (si_SuggestedRoutes r);
          routes = (if TrimSpace labels = '''' then ''97layer'' else labels)
      in newSignalReviewRoomItem now
           (runes [0xC18C, 0xC2A4] @ '' '' @ runes [0xC778, 0xC785] @ '' `'' @ sourceIntakeReviewSubject r item @
               ''`'' @ runes [0xC774] @ '' `'' @ routes @
            ''` '' @ runes [0xACBD, 0xB85C, 0xC5D0, 0xC11C] @ '' red '' @ runes [0xC815, 0xCC45, 0xC5D0] @ '' '' @
                runes [0xAC78, 0xB838, 0xC5B4] @ ''. '' @ runes [0xCD08, 0xC548, 0xC774, 0xB098] @ '' '' @
                runes [0xBC1C, 0xD589] @ '' '' @ runes [0xC900, 0xBE44, 0xB85C] @ '' '' @ runes [0xB118, 0xAE30,
                0xAE30] @ '' '' @ runes [0xC804, 0xC5D0] @ '' founder '' @ runes [0xAC80, 0xD1A0, 0xAC00] @ '' '' @
                runes [0xD544, 0xC694, 0xD574] @ ''.'')
           ''source_intake.red_policy'' (Some (ob_ObservationID item))
           ''red-policy source intake requires founder review before draft seed or publish prep proceeds''
           ''review_room.auto.source_intake_red_policy''
           ([''observation:'' @ ob_ObservationID item, ''policy:red''] @ intake_evidence r item))"

definition sensor_route_item :: "time \<Rightarrow> SourceIntakeRecord \<Rightarrow> ObservationRecord \<Rightarrow> ReviewRoomItem" where
  "sensor_route_item now r item =
     (let subject = sourceIntakeReviewSubject r item; hints = explicitSourceIntakeRouteHints (elems (ob_Refs item));
          evidence = [''observation:'' @ ob_ObservationID item, ''policy:'' @ si_PolicyColor r,
              ''sensor_route_review:true''] @
                     intake_evidence r item @ [''route_hint_count:'' @ Itoa (int (length hints))] @
                     (if hints \<noteq> [] then [''route_hints:'' @ join_with '','' hints] else []);
          text = (if hints = []
                  then runes [0xC13C, 0xC11C, 0xAC00] @ '' '' @ runes [0xC8FC, 0xC6B4] @ '' '' @ runes [0xC18C,
                      0xC2A4] @ '' `'' @ subject @ ''`'' @ runes [0xC740] @ '' route cue'' @ runes [0xAC00] @ '' '' @
                      runes [0xBE44, 0xC5B4] @ '' '' @ runes [0xC788, 0xC5B4] @ '' founder route '' @ runes [0xACB0,
                      0xC815, 0xC774] @ '' '' @ runes [0xD544, 0xC694, 0xD574] @ ''.''
                  else if length hints > 1
                  then runes [0xC13C, 0xC11C, 0xAC00] @ '' '' @ runes [0xC8FC, 0xC6B4] @ '' '' @ runes [0xC18C,
                      0xC2A4] @ '' `'' @ subject @ ''`'' @ runes [0xC740] @ '' route cue'' @ runes [0xAC00] @ '' '' @
                      runes [0xC5EC, 0xB7EC] @ '' '' @ runes [0xAC1C, 0xB77C] @ '' founder route '' @ runes [0xACB0,
                      0xC815, 0xC774] @ '' '' @ runes [0xD544, 0xC694, 0xD574] @ ''.''
                  else runes [0xC13C, 0xC11C, 0xAC00] @ '' '' @ runes [0xC8FC, 0xC6B4] @ '' '' @ runes [0xC18C,
                      0xC2A4] @ '' `'' @ subject @ ''`'' @ runes [0xC758] @ '' route'' @ runes [0xB97C] @
                      '' founder'' @ runes [0xAC00] @ '' '' @ runes [0xBA3C, 0xC800] @ '' '' @ runes [0xC815, 0xD574,
                      0xC57C] @ '' '' @ runes [0xD574] @ ''.'');
          detail = (if hints = []
                    then ''sensor-collected source has no explicit route hint, so founder route review is required before draft seed or publish prep proceeds''
                    else if length hints > 1
                    then ''sensor-collected source has conflicting route hints, so founder route review is required before draft seed or publish prep proceeds''
                    else ''sensor-collected source requires founder route review before draft seed or publish prep proceeds'')
      in newSignalReviewRoomItem now text ''source_intake.sensor_route'' (Some (ob_ObservationID item)) detail
           ''review_room.auto.source_intake_sensor_route'' evidence)"

definition reviewRoomSuggestionForObservation :: "url_renderer \<Rightarrow> time \<Rightarrow> ObservationRecord \<Rightarrow> ReviewRoomItem option" where
  "reviewRoomSuggestionForObservation parseURL now item =
     (if TrimSpace (ToLower (ob_Topic item)) \<noteq> ''source_intake'' then None
      else let r = ParseSourceIntakeRawExcerpt parseURL (ob_RawExcerpt item) in
           if si_PolicyColor r = ''red'' then Some (red_policy_item now r item)
           else if \<not> sourceIntakeNeedsRouteReview r item then None
           else Some (sensor_route_item now r item))"

end
