(* ===== verification/Service_Sessions.thy ===== *)
theory Service_Sessions
  imports Service_Ops Source_Intake
begin

text \<open>
  Events, observations and sessions (\<open>service_session_bus.go\<close>,
      \<open>service_observation.go\<close>): recording an event,
  recording an observation with the review item it asks for, checkpointing a session, adding a note to
  it and finishing it. The operations read the continuity records through \<open>list\<close>, which normalises them
  against the clock, and put back the normalised records when they fail. Readings of the clock are those
  of \<open>tick\<close> for events, 60 to 79 for the other calls,
      and from 200 on for the loop of \<open>upsert\<close>.
\<close>

section \<open>Events\<close>

record EventCreateInput =
  ei_Kind :: string
  ei_Surface :: string
  ei_WorkItemID :: string
  ei_Stage :: string
  ei_Data :: "jobject option"

definition EventCreateInput_Validate :: "EventCreateInput \<Rightarrow> error option" where
  "EventCreateInput_Validate i =
     (case first_error
        [(blank (ei_Kind i), ''event create input kind is required''),
         (\<not> validSurface (ei_Surface i), ''event create input surface is invalid''),
         (blank (ei_WorkItemID i), ''event create input work_item_id is required''),
         (\<not> validStage (ei_Stage i), ''event create input stage is invalid''),
         (ei_Data i = None, ''event create input data is required'')] of
        Some err \<Rightarrow> Some err
      | None \<Rightarrow> (case ei_Data i of None \<Rightarrow> None | Some d \<Rightarrow> validateJSONObject d ''event create input data''))"

definition event_defaults :: "EventCreateInput \<Rightarrow> EventCreateInput" where
  "event_defaults i =
     i\<lparr>ei_WorkItemID := (if blank (ei_WorkItemID i) then ''system'' else ei_WorkItemID i),
       ei_Surface := (if ei_Surface i = '''' then ''api'' else ei_Surface i),
       ei_Stage := (if ei_Stage i = '''' then ''discover'' else ei_Stage i),
       ei_Data := (case ei_Data i of None \<Rightarrow> Some [] | Some d \<Rightarrow> Some d)\<rparr>"

definition CreateEvent :: "env \<Rightarrow> EventCreateInput \<Rightarrow> Service \<Rightarrow> EventEnvelope outcome" where
  "CreateEvent e input0 s =
     (let input = event_defaults input0 in
      case EventCreateInput_Validate input of Some err \<Rightarrow> (Inl err, s) | None \<Rightarrow>
      let item = service_event e 0 s (ei_Kind input) (ei_Surface input) (ei_WorkItemID input) (ei_Stage input)
                   (case ei_Data input of None \<Rightarrow> [] | Some d \<Rightarrow> d)
      in event_or item (\<lambda>t. t) (persist_or e (restore_event e (sv_event s)) item) s)"

section \<open>Observations\<close>

definition observation_event_data :: "ObservationRecord \<Rightarrow> jobject" where
  "observation_event_data item =
     [(''source_channel'', JString (ob_SourceChannel item)), (''topic'', JString (ob_Topic item)),
      (''confidence'', JString (ob_Confidence item)), (''summary'', JString (ob_NormalizedSummary item)),
      (''refs'', string_array (elems (ob_Refs item)))]"

definition recordObservationLocked :: "env \<Rightarrow> nat \<Rightarrow> ObservationRecord \<Rightarrow> bool \<Rightarrow> Service \<Rightarrow> ObservationRecord outcome" where
  "recordObservationLocked e k item0 emitEvent s =
     (let item = normalizeObservationRecord (en_clock e 60) item0 (currentActor e s) in
      case observationStore_create (sv_observation s) item of
        Inl err \<Rightarrow> (Inl err, s)
      | Inr items \<Rightarrow>
          let s1 = s\<lparr>sv_observation := items\<rparr> in
          if \<not> emitEvent then (Inr item, s1)
          else event_or (service_event e k s1 ''observation.created'' (surfaceForObservationChannel (ob_SourceChannel item))
                           (ob_ObservationID item) ''discover'' (observation_event_data item))
                 (\<lambda>t. t) (\<lambda>t. (Inr item, t)) s1)"

definition createObservationLocked :: "url_renderer \<Rightarrow> env \<Rightarrow> nat \<Rightarrow> ObservationRecord \<Rightarrow> Service \<Rightarrow> ObservationRecord outcome" where
  "createObservationLocked parseURL e k item s =
     (case recordObservationLocked e k item True s of
        (Inl err, s1) \<Rightarrow> (Inl err, s1)
      | (Inr recorded, s1) \<Rightarrow>
          suggest_or e (k + 1) (reviewRoomSuggestionForObservation parseURL (en_clock e 61) recorded)
            (\<lambda>t. t) (\<lambda>t. (Inr recorded, t)) s1)"

definition restore_observations :: "env \<Rightarrow> Service \<Rightarrow> Service \<Rightarrow> Service" where
  "restore_observations e s t =
     restore_event e (sv_event s) (restore_room e (sv_reviewRoom s) (t\<lparr>sv_observation := sv_observation s\<rparr>))"

text \<open>When recording fails, only the review room is put back.\<close>

definition CreateObservation :: "url_renderer \<Rightarrow> env \<Rightarrow> ObservationRecord \<Rightarrow> Service \<Rightarrow> ObservationRecord outcome" where
  "CreateObservation parseURL e item0 s =
     (case createObservationLocked parseURL e 0 item0 s of
        (Inl err, s1) \<Rightarrow> (Inl err, restore_room e (sv_reviewRoom s) s1)
      | (Inr item, s1) \<Rightarrow> persist_or e (restore_observations e s) item s1)"

definition ListObservations :: "ObservationQuery \<Rightarrow> Service \<Rightarrow> ObservationRecord list" where
  "ListObservations query s = filterObservations (sv_observation s) query"

definition appendAutoObservationLocked :: "url_renderer \<Rightarrow> env \<Rightarrow> nat \<Rightarrow> ObservationRecord \<Rightarrow> Service \<Rightarrow> error option \<times> Service" where
  "appendAutoObservationLocked parseURL e k item s =
     (case createObservationLocked parseURL e k item s of
        (Inl err, s1) \<Rightarrow> (Some err, restore_observations e s s1)
      | (Inr _, s1) \<Rightarrow>
          (case persistLocked e s1 of
             (Some err, s2) \<Rightarrow> (Some err, restore_observations e s s2)
           | (None, s2) \<Rightarrow> (None, s2)))"

section \<open>Sessions\<close>

definition restore_continuity :: "env \<Rightarrow> ContinuityRecord list \<Rightarrow> Service \<Rightarrow> Service" where
  "restore_continuity e old t = t\<lparr>sv_continuity := newContinuityStore (en_DEFAULT_ACTOR e) (en_clock e 79) old\<rparr>"

definition listed :: "env \<Rightarrow> nat \<Rightarrow> Service \<Rightarrow> ContinuityRecord list" where
  "listed e i s = continuityStore_list (en_DEFAULT_ACTOR e) (en_clock e i) (sv_continuity s)"

definition upserted :: "env \<Rightarrow> ContinuityRecord list \<Rightarrow> ContinuityRecord \<Rightarrow> ContinuityRecord list" where
  "upserted e records record = upsertContinuityRecord (en_DEFAULT_ACTOR e) (\<lambda>i. en_clock e (200 + i)) records record"

definition checkpoint_record :: "env \<Rightarrow> SessionCheckpointInput \<Rightarrow> Service \<Rightarrow> ContinuityRecord" where
  "checkpoint_record e input s =
     (let dflt = en_DEFAULT_ACTOR e; now = en_clock e 64; actor = currentActor e s
      in applySessionCheckpointToContinuityRecord dflt
           (case latestContinuityRecord dflt (en_clock e 66) (listed e 65 s) actor (ci_Source input) [''active''] of
              Some existing \<Rightarrow> existing
            | None \<Rightarrow> continuityRecordFromMemory dflt (sv_memory s) actor (ci_Source input) now)
           input now)"

definition CheckpointSession :: "env \<Rightarrow> SessionCheckpointInput \<Rightarrow> Service \<Rightarrow> SessionCheckpoint outcome" where
  "CheckpointSession e input0 s =
     (let input = normalizeSessionCheckpointInput input0; dflt = en_DEFAULT_ACTOR e in
      case SessionCheckpointInput_Validate input of Some err \<Rightarrow> (Inl err, s) | None \<Rightarrow>
      let old = listed e 63 s; record = checkpoint_record e input s in
      case continuityStore_replace dflt (en_clock e 67) (upserted e (listed e 65 s) record) of
        Inl err \<Rightarrow> (Inl err, s)
      | Inr items \<Rightarrow>
          let s1 = s\<lparr>sv_continuity := items\<rparr>
          in case memoryStore_replace (sv_memory s1)
                    (continuityMemoryProjection dflt (en_clock e 68) (sv_memory s) record (currentActor e s)) of
               Inl err \<Rightarrow> (Inl err, restore_continuity e old s1)
             | Inr m \<Rightarrow>
                 persist_or e (\<lambda>t. (restore_continuity e old t)\<lparr>sv_memory := sv_memory s\<rparr>)
                   (sessionCheckpointFromContinuityRecord dflt (en_clock e 69) record) (s1\<lparr>sv_memory := m\<rparr>))"

record SessionNoteResult =
  nr_Record :: ContinuityRecord
  nr_Note :: ContinuityNote
  nr_Observation :: ObservationRecord
  nr_Event :: EventEnvelope

definition note_record :: "env \<Rightarrow> SessionNoteInput \<Rightarrow> Service \<Rightarrow> ContinuityRecord \<times> ContinuityNote" where
  "note_record e input s =
     (let dflt = en_DEFAULT_ACTOR e; now = en_clock e 64; actor = currentActor e s
      in applySessionNoteToContinuityRecord dflt
           (case latestOpenContinuityRecord dflt (\<lambda>i. en_clock e (70 + i)) (listed e 65 s) actor (ni_Source input) of
              Some existing \<Rightarrow> existing
            | None \<Rightarrow> continuityRecordFromMemory dflt (sv_memory s) actor (ni_Source input) now)
           input now)"

definition SessionNote :: "env \<Rightarrow> SessionNoteInput \<Rightarrow> Service \<Rightarrow> SessionNoteResult outcome" where
  "SessionNote e input0 s =
     (let input = normalizeSessionNoteInput input0; dflt = en_DEFAULT_ACTOR e in
      case SessionNoteInput_Validate input of Some err \<Rightarrow> (Inl err, s) | None \<Rightarrow>
      let old = listed e 63 s; (record, note) = note_record e input s in
      case continuityStore_replace dflt (en_clock e 67) (upserted e (listed e 65 s) record) of
        Inl err \<Rightarrow> (Inl err, s)
      | Inr items \<Rightarrow>
          let s1 = s\<lparr>sv_continuity := items\<rparr>
          in case memoryStore_replace (sv_memory s1)
                    (continuityMemoryProjection dflt (en_clock e 68) (sv_memory s) record (currentActor e s)) of
               Inl err \<Rightarrow> (Inl err, restore_continuity e old s1)
             | Inr m \<Rightarrow>
                 let s2 = s1\<lparr>sv_memory := m\<rparr>;
                     undo = (\<lambda>t. restore_event e (sv_event s)
                               ((restore_continuity e old t)\<lparr>sv_memory := sv_memory s,
                                   sv_observation := sv_observation s\<rparr>))
                 in case recordObservationLocked e 0 (continuityObservationForNote dflt (en_clock e 72) record note) True s2 of
                      (Inl err, s3) \<Rightarrow> (Inl err, undo s3)
                    | (Inr observation, s3) \<Rightarrow>
                        let event = service_event e 1 s3 ''session.noted'' ''api'' ''system'' ''discover''
                                      [(''kind'', JString (cn_Kind note)), (''current_focus'',
                                          JString (co_CurrentFocus record)),
                                       (''note'', JString (cn_Text note))]
                        in event_or event undo
                             (persist_or e undo
                                \<lparr>nr_Record = record, nr_Note = note, nr_Observation = observation,
                                    nr_Event = event\<rparr>) s3)"

section \<open>Finishing a session\<close>

record SessionFinishResult =
  fs_Memory :: SystemMemory
  fs_Event :: EventEnvelope

definition finish_memory :: "env \<Rightarrow> SessionFinishInput \<Rightarrow> Service \<Rightarrow> SystemMemory" where
  "finish_memory e i s =
     \<lparr>sm_CurrentFocus = TrimSpace (fi_CurrentFocus i),
         sm_CurrentGoal = normalizeOptionalString (fi_CurrentGoal i),
      sm_NextSteps = Some (elems (fi_NextSteps i)), sm_OpenRisks = Some (elems (fi_OpenRisks i)),
      sm_HandoffNote = normalizeOptionalString (fi_HandoffNote i), sm_LastOperator = Some (currentActor e s),
      sm_UpdatedAt = en_clock e 64\<rparr>"

definition finish_event_data :: "SessionFinishInput \<Rightarrow> SystemMemory \<Rightarrow> jobject" where
  "finish_event_data i m =
     [(''current_focus'', JString (sm_CurrentFocus m)), (''next_steps'', string_array (elems (sm_NextSteps m))),
      (''open_risks'', string_array (elems (sm_OpenRisks m)))] @
     (case sm_CurrentGoal m of None \<Rightarrow> [] | Some g \<Rightarrow> [(''current_goal'', JString g)]) @
     (case sm_HandoffNote m of None \<Rightarrow> [] | Some h \<Rightarrow> [(''handoff_note'', JString h)]) @
     (case normalizeOptionalString (fi_Note i) of None \<Rightarrow> [] | Some n \<Rightarrow> [(''note'',
         JString n)])"

definition reviewRoomSuggestionForSessionFinish :: "time \<Rightarrow> SessionFinishInput \<Rightarrow> string \<Rightarrow> ReviewRoomItem option" where
  "reviewRoomSuggestionForSessionFinish now i actor =
     (if elems (fi_OpenRisks i) = [] then None
      else let ref = (if TrimSpace actor = '''' then ''system'' else TrimSpace actor);
               focus = TrimSpace (fi_CurrentFocus i);
               risks = filter (\<lambda>r. r \<noteq> '''') (map TrimSpace (elems (fi_OpenRisks i)))
           in Some (newSignalReviewRoomItem now
                (runes [0xC138, 0xC158, 0xC774] @ '' '' @ runes [0xD3EC, 0xCEE4, 0xC2A4] @ '' `'' @ focus @ ''`'' @
                    runes [0xC5D0, 0xC11C] @ '' '' @ runes [0xC5F4, 0xB9B0] @ '' '' @ runes [0xB9AC, 0xC2A4, 0xD06C,
                    0xB97C] @ '' '' @ runes [0xB0A8, 0xAE34] @ '' '' @ runes [0xCC44] @ '' '' @ runes [0xC885,
                    0xB8CC, 0xB410, 0xC5B4] @ ''. '' @ runes [0xB2E4, 0xC74C] @ '' '' @ runes [0xC2E4, 0xD589] @
                    '' '' @ runes [0xB808, 0xC778] @ '' '' @ runes [0xC804, 0xC5D0] @ '' '' @ runes [0xC774, 0xC6D4] @
                    '' '' @ runes [0xAC80, 0xD1A0, 0xAC00] @ '' '' @ runes [0xD544, 0xC694, 0xD574] @ ''.'')
                ''session.finished'' None
                ''session finished with open risks requires carry-over review before the next execution lane''
                ''review_room.auto.session_open_risks''
                ([''actor:'' @ ref, ''focus:'' @ focus] @ map ((@) ''risk:'') risks)))"

definition sessionFinishObservation :: "SessionFinishInput \<Rightarrow> EventEnvelope \<Rightarrow> string \<Rightarrow> ObservationRecord" where
  "sessionFinishObservation i event actor =
     (let focus = TrimSpace (fi_CurrentFocus i); goal = normalizeOptionalString (fi_CurrentGoal i);
          part = (\<lambda>key v. case v of None \<Rightarrow> [] | Some x \<Rightarrow> [key @ x]);
          several = (\<lambda>key xs. if xs \<noteq> [] then [key @ join_with ''; '' xs] else [])
      in \<lparr>ob_ObservationID = '''', ob_SourceChannel = ''session'', ob_CapturedAt = ev_Timestamp event,
          ob_Actor = TrimSpace actor, ob_Topic = ev_Kind event, ob_Refs = Some [''event:'' @ ev_EventID event],
          ob_Confidence = ''high'',
          ob_RawExcerpt = join_with '' | ''
            ([''focus='' @ focus] @ part ''goal='' goal @ several ''steps='' (elems (fi_NextSteps i)) @
             several ''risks='' (elems (fi_OpenRisks i)) @
                 part ''handoff='' (normalizeOptionalString (fi_HandoffNote i)) @
             part ''note='' (normalizeOptionalString (fi_Note i))),
          ob_NormalizedSummary = ''Session finished on '' @ focus @
              (case goal of None \<Rightarrow> '''' | Some g \<Rightarrow> '' toward '' @ g)\<rparr>)"

definition currentReviewRoomLocked :: "env \<Rightarrow> Service \<Rightarrow> ReviewRoom \<times> Service" where
  "currentReviewRoomLocked e s =
     (if \<not> en_auditPromotion e then (sv_reviewRoom s, s)
      else let (room, changed) = syncAuditReviewRoom (en_isWord e) (now_audit e) (en_auditPromotion e)
                                   (en_auditItems e) (sv_reviewRoom s)
           in (room, if changed then s\<lparr>sv_reviewRoom := newReviewRoomStore (now_store e) room\<rparr> else s))"

text \<open>The warning after a step behind the save: when it can be opened it is saved,
    and errors are dropped.\<close>

definition warn_locked :: "env \<Rightarrow> nat \<Rightarrow> ReviewRoomItem \<Rightarrow> Service \<Rightarrow> Service" where
  "warn_locked e k item s =
     (case autoOpenReviewRoomItemLocked e k item s of
        (Some _, s1) \<Rightarrow> s1
      | (None, s1) \<Rightarrow> snd (persistLocked e s1))"

definition finish_capitalize :: "env \<Rightarrow> SessionFinishInput \<Rightarrow> EventEnvelope \<Rightarrow> Service \<Rightarrow> Service" where
  "finish_capitalize e i event s =
     (let (room, s1) = currentReviewRoomLocked e s;
          entry = newCapitalizationEntry i event (SummarizeReviewRoom (en_clock e 73) room) (currentActor e s1)
      in case appendCapitalizationEntry e entry s1 of
           (None, s2) \<Rightarrow> s2
         | (Some err, s2) \<Rightarrow>
             warn_locked e 2
               (newSignalReviewRoomItem (en_clock e 74)
                  (''`session.finish` '' @ runes [0xC774, 0xD6C4] @ '' '' @ runes [0xC138, 0xC158] @ '' '' @
                      runes [0xC790, 0xBCF8, 0xD654] @ '' '' @ runes [0xAE30, 0xB85D] @ '' '' @ runes [0xCD94,
                      0xAC00, 0xAC00] @ '' '' @ runes [0xC2E4, 0xD328, 0xD588, 0xC5B4] @ ''. '' @ runes [0xC774,
                      0xD6C4] @ '' '' @ runes [0xC790, 0xB3D9, 0xD654, 0xB97C] @ '' '' @ runes [0xBBFF, 0xAE30] @
                      '' '' @ runes [0xC804, 0xC5D0] @ '' '' @ runes [0xC9C0, 0xC2DD] @ '' '' @ runes [0xCF54,
                      0xD37C, 0xC2A4] @ '' '' @ runes [0xACBD, 0xB85C, 0xB97C] @ '' '' @ runes [0xD655, 0xC778,
                      0xD574, 0xC57C] @ '' '' @ runes [0xD574] @ ''.'')
                  ''capitalization.failed'' None
                  ''capitalization append failure requires founder review before automation depends on the corpus''
                  ''review_room.auto.capitalization_failed'' [''entry:'' @ ce_EntryID entry, ''error:'' @ err]) s2)"

definition finish_observe :: "url_renderer \<Rightarrow> env \<Rightarrow> SessionFinishInput \<Rightarrow> EventEnvelope \<Rightarrow> Service \<Rightarrow> Service" where
  "finish_observe parseURL e i event s =
     (case appendAutoObservationLocked parseURL e 3 (sessionFinishObservation i event (currentActor e s)) s of
        (None, s1) \<Rightarrow> s1
      | (Some err, s1) \<Rightarrow>
          warn_locked e 5
            (newSignalReviewRoomItem (en_clock e 75)
               (''`session.finish` '' @ runes [0xC774, 0xD6C4] @ '' observation '' @ runes [0xC790, 0xB3D9] @ '' '' @
                   runes [0xC801, 0xC7AC, 0xAC00] @ '' '' @ runes [0xC2E4, 0xD328, 0xD588, 0xC5B4] @ ''. '' @
                   runes [0xD06C, 0xB85C, 0xC2A4, 0xCC44, 0xB110] @ '' '' @ runes [0xD569, 0xC131, 0xC744] @ '' '' @
                   runes [0xBBFF, 0xAE30] @ '' '' @ runes [0xC804, 0xC5D0] @ '' observation '' @ runes [0xB808,
                   0xC9C0, 0xC2A4, 0xD2B8, 0xB9AC, 0xB97C] @ '' '' @ runes [0xD655, 0xC778, 0xD574, 0xC57C] @ '' '' @
                   runes [0xD574] @ ''.'')
               ''observation.failed'' None
               ''observation append failure requires founder review before automation depends on the observation registry''
               ''review_room.auto.session_observation_failed'' [''event:'' @ ev_EventID event, ''error:'' @ err]) s1)"

definition FinishSession :: "url_renderer \<Rightarrow> env \<Rightarrow> SessionFinishInput \<Rightarrow> Service \<Rightarrow> SessionFinishResult outcome" where
  "FinishSession parseURL e input0 s =
     (let i = input0\<lparr>fi_NextSteps := Some (elems (fi_NextSteps input0)),
         fi_OpenRisks := Some (elems (fi_OpenRisks input0))\<rparr>;
          dflt = en_DEFAULT_ACTOR e in
      case SessionFinishInput_Validate i of Some err \<Rightarrow> (Inl err, s) | None \<Rightarrow>
      let old = listed e 63 s; memory = finish_memory e i s in
      case memoryStore_replace (sv_memory s) memory of Inl err \<Rightarrow> (Inl err, s) | Inr m \<Rightarrow>
      let s1 = s\<lparr>sv_memory := m\<rparr>;
          event = newSystemEvent e 0 s1 ''session.finished'' (finish_event_data i memory);
          undo = (\<lambda>t. restore_event e (sv_event s) (restore_room e (sv_reviewRoom s) (t\<lparr>sv_memory := sv_memory s\<rparr>)));
          save = (\<lambda>t. case persistLocked e t of
                        (Some err, u) \<Rightarrow> (Inl err, undo (restore_continuity e old u))
                      | (None, u) \<Rightarrow> (Inr \<lparr>fs_Memory = memory, fs_Event = event\<rparr>,
                                     finish_observe parseURL e i event (finish_capitalize e i event u)));
          resolve = (\<lambda>t. let records = listed e 65 t in
             case latestOpenContinuityRecord dflt (\<lambda>i. en_clock e (70 + i)) records (currentActor e t) ''terminal'' of
               None \<Rightarrow> save t
             | Some existing \<Rightarrow>
                 (case continuityStore_replace dflt (en_clock e 67)
                         (upserted e records (applySessionFinishToContinuityRecord dflt existing i (sm_UpdatedAt memory))) of
                    Inl err \<Rightarrow> (Inl err, undo t)
                  | Inr items \<Rightarrow> save (t\<lparr>sv_continuity := items\<rparr>)))
      in event_or event (\<lambda>t. t\<lparr>sv_memory := sv_memory s\<rparr>)
           (suggest_or e 1 (reviewRoomSuggestionForSessionFinish (en_clock e 62) i (currentActor e s1)) undo resolve) s1)"

end
