(* ===== verification/Draft_Seed.thy ===== *)
theory Draft_Seed
  imports Source_Intake
begin

text \<open>
  The draft seed of an intake record (\<open>source_intake.go\<close>): title, intent, summary and body of the note an
  account gets from a source, the record that is stored with it and the identifier of its proposal.
\<close>

section \<open>Cues\<close>

definition sourceDraftSeedSubject :: "SourceIntakeRecord \<Rightarrow> ObservationRecord option \<Rightarrow> string" where
  "sourceDraftSeedSubject r source =
     (if TrimSpace (si_Title r) \<noteq> '''' then TrimSpace (si_Title r)
      else if TrimSpace (si_URL r) \<noteq> '''' then TrimSpace (si_URL r)
      else let excerpt = TrimSpace (si_Excerpt r);
               text = (if excerpt = '''' then (case source of None \<Rightarrow> '''' | Some o' \<Rightarrow> TrimSpace (ob_NormalizedSummary o')) else excerpt)
           in sourceIntakeLimitText (join_with '' '' (Fields text)) 72)"

definition sourceDraftSeedTargetLabel :: "string \<Rightarrow> string" where
  "sourceDraftSeedTargetLabel value =
     (let t = normalizeSourceDraftTarget value
      in if t = ''97layer'' then ''97layer'' else if t = ''woosunhokr'' then runes [0xC6B0, 0xC21C, 0xD638]
         else if t = ''woohwahae'' then runes [0xC6B0, 0xD654, 0xD574] else TrimSpace value)"

definition sourceDraftSeedPreview :: "string \<Rightarrow> string" where
  "sourceDraftSeedPreview draft = sourceIntakeLimitText (join_with '' '' (Fields (TrimSpace draft))) 96"

definition sourceDraftSeedExcerpt :: "SourceIntakeRecord \<Rightarrow> string" where
  "sourceDraftSeedExcerpt r =
     (let text = join_with '' '' (Fields (TrimSpace (si_Excerpt r)))
      in if text = '''' then '''' else sourceIntakeLimitText text 220)"

definition sourceDraftSeedTagCue :: "SourceIntakeRecord \<Rightarrow> string" where
  "sourceDraftSeedTagCue r =
     (let tags = si_DomainTags r @ si_WorldviewTags r
      in if tags = [] then runes [0xC9C0, 0xAE08] @ '' '' @ runes [0xC0DD, 0xAC01]
         else if length tags = 1 then hd tags
         else join_with '' / '' (take 2 tags))"

definition containsAnySourceDraftCue :: "string \<Rightarrow> string list \<Rightarrow> bool" where
  "containsAnySourceDraftCue value needles = list_ex (\<lambda>n. contains_sub value (ToLower (TrimSpace n))) needles"

definition sourceDraftSeedFocusCue :: "SourceIntakeRecord \<Rightarrow> string" where
  "sourceDraftSeedFocusCue r =
     (let combined = ToLower (join_with '' '' (si_DomainTags r @ si_WorldviewTags r))
      in if containsAnySourceDraftCue combined
              [''beauty'', ''hair'', ''aesthetic'', ''style'', ''practice'', ''craft'', runes [0xBBF8, 0xC6A9]]
         then runes [0xAE30, 0xC900, 0xACFC] @ '' '' @ runes [0xC190, 0xAE30, 0xC220] @ '' '' @ runes [0xC0AC,
             0xC774, 0xC758] @ '' '' @ runes [0xAC10, 0xAC01]
         else if containsAnySourceDraftCue combined
              [''system'', ''dev'', ''development'', ''build'', ''product'', ''automation'', ''operator'',
                  runes [0xAC1C, 0xBC1C], runes [0xC2DC, 0xC2A4, 0xD15C]]
         then runes [0xAE30, 0xB2A5, 0xBCF4, 0xB2E4] @ '' '' @ runes [0xAD6C, 0xC870, 0xC640] @ '' '' @
             runes [0xC21C, 0xC11C]
         else if containsAnySourceDraftCue combined
              [''finance'', ''stock'', ''market'', ''money'', ''investment'', runes [0xC8FC, 0xC2DD], runes [0xAE08,
                  0xC735]]
         then runes [0xC22B, 0xC790, 0xBCF4, 0xB2E4] @ '' '' @ runes [0xAE30, 0xC900, 0xACFC] @ '' '' @
             runes [0xB9AC, 0xB4EC]
         else if containsAnySourceDraftCue combined
              [''brand'', ''identity'', ''subtraction'', ''worldview'', runes [0xBE0C, 0xB79C, 0xB4DC],
                  runes [0xC815, 0xCCB4, 0xC131], runes [0xC18C, 0xAC70]]
         then runes [0xAE30, 0xC900, 0xC744] @ '' '' @ runes [0xB35C, 0xC5B4, 0xB0B4, 0xBA70] @ '' '' @
             runes [0xC120, 0xBA85, 0xD558, 0xAC8C] @ '' '' @ runes [0xB9CC, 0xB4DC, 0xB294] @ '' '' @ runes [0xAC10,
             0xAC01]
         else runes [0xAE30, 0xC900, 0xACFC] @ '' '' @ runes [0xD0DC, 0xB3C4])"

definition sourceDraftSeedSubjectCue :: "string \<Rightarrow> SourceIntakeRecord \<Rightarrow> string" where
  "sourceDraftSeedSubjectCue subject r =
     (if TrimSpace (si_Title r) \<noteq> '''' then TrimSpace (si_Title r)
      else if TrimSpace (si_URL r) \<noteq> '''' then runes [0xC774] @ '' '' @ runes [0xB9C1, 0xD06C]
      else if TrimSpace subject \<noteq> '''' then TrimSpace subject
      else runes [0xC774] @ '' '' @ runes [0xC18C, 0xC7AC])"

definition joinSourceDraftParagraphs :: "string list \<Rightarrow> string" where
  "joinSourceDraftParagraphs parts = join_with (nl @ nl) (filter (\<lambda>p. p \<noteq> '''') (map TrimSpace parts))"

section \<open>Texts\<close>

definition sourceDraftSeedTitle :: "string \<Rightarrow> SourceIntakeRecord \<Rightarrow> ObservationRecord option \<Rightarrow> string" where
  "sourceDraftSeedTitle targetAccount r source =
     (let subject = sourceDraftSeedSubject r source
      in sourceIntakeLimitText
           ((if targetAccount = ''97layer'' then ''97layer raw draft '' @ runes [0xB7] @ '' ''
             else if targetAccount = ''woosunhokr'' then runes [0xC6B0, 0xC21C, 0xD638] @ '' draft '' @ runes [0xB7] @
                 '' ''
             else if targetAccount = ''woohwahae'' then runes [0xC6B0, 0xD654, 0xD574] @ '' draft '' @ runes [0xB7] @
                 '' ''
             else ''draft '' @ runes [0xB7] @ '' '') @ subject) 120)"

definition sourceDraftSeedIntent :: "string \<Rightarrow> SourceIntakeRecord \<Rightarrow> string" where
  "sourceDraftSeedIntent targetAccount r =
     (let subject = sourceDraftSeedSubject r None
      in sourceIntakeLimitText
           ((if targetAccount = ''97layer'' then ''Open a raw 97layer note from source intake: ''
             else if targetAccount = ''woosunhokr'' then ''Translate this source into a refined woosunhokr beauty-practice note: ''
             else if targetAccount = ''woohwahae'' then ''Distill this source into a polished woohwahae public note: ''
             else ''Open a draft from source intake: '') @ subject) 180)"

definition sourceDraftSeedSummaryWithPreview :: "string \<Rightarrow> string \<Rightarrow> string \<Rightarrow> string" where
  "sourceDraftSeedSummaryWithPreview targetAccount subject draft =
     (let preview = sourceDraftSeedPreview draft;
          start = ''Draft seed opened '' @ runes [0xB7] @ '' '' @ subject @ '' -> '' @
              sourceDraftSeedTargetLabel targetAccount
      in if preview = '''' then sourceIntakeLimitText start 180
         else sourceIntakeLimitText (start @ '' '' @ runes [0xB7] @ '' '' @ preview) 180)"

definition sourceDraftSeedSummary :: "string \<Rightarrow> SourceIntakeRecord \<Rightarrow> ObservationRecord \<Rightarrow> string \<Rightarrow> string" where
  "sourceDraftSeedSummary targetAccount r source draft =
     sourceDraftSeedSummaryWithPreview targetAccount (sourceDraftSeedSubject r (Some source)) draft"

definition buildSourceDraftSeedBody :: "string \<Rightarrow> string \<Rightarrow> SourceIntakeRecord \<Rightarrow> string" where
  "buildSourceDraftSeedBody targetAccount subject r =
     (let excerpt = sourceDraftSeedExcerpt r;
          note = sourceIntakeLimitText (join_with '' '' (Fields (TrimSpace (si_FounderNote r)))) 180;
          tagCue = sourceDraftSeedTagCue r; focusCue = sourceDraftSeedFocusCue r;
          subjectCue = sourceDraftSeedSubjectCue subject r; t = normalizeSourceDraftTarget targetAccount
      in if t = ''97layer''
         then joinSourceDraftParagraphs
           [sourceIntakeLimitText
              (runes [0xC694, 0xC998] @ '' '' @ runes [0xBD99, 0xB4E4, 0xACE0] @ '' '' @ runes [0xC788, 0xB294] @
                  '' '' @ runes [0xAC74] @ '' '' @ subjectCue @ runes [0xC5D0, 0xC11C] @ '' '' @ runes [0xB2E4,
                  0xC2DC] @ '' '' @ runes [0xAC78, 0xB824] @ '' '' @ runes [0xB098, 0xC628] @ '' '' @ focusCue @
                  runes [0xC774, 0xB2E4] @ ''.'') 220,
            excerpt, note,
            sourceIntakeLimitText
              (''97layer'' @ runes [0xC5D0, 0xC11C, 0xB294] @ '' '' @ runes [0xC774, 0xAC78] @ '' '' @ runes [0xC544,
                  0xC9C1] @ '' '' @ runes [0xC815, 0xB9AC, 0xBCF4, 0xB2E4] @ '' '' @ runes [0xAE30, 0xB85D, 0xC5D0] @
                  '' '' @ runes [0xAC00, 0xAE4C, 0xC6B4] @ '' '' @ runes [0xBA54, 0xBAA8, 0xB85C] @ '' '' @
                  runes [0xB454, 0xB2E4] @ ''. '' @ tagCue @
               '' '' @ runes [0xAC19, 0xC740] @ '' '' @ runes [0xB113, 0xC740] @ '' '' @ runes [0xC6D0, 0xCC9C,
                   0xC774] @ '' '' @ runes [0xD55C] @ '' '' @ runes [0xC0DD, 0xAC01, 0xC73C, 0xB85C] @ '' '' @
                   runes [0xBB36, 0xC774, 0xB294, 0xC9C0, 0xBD80, 0xD130] @ '' '' @ runes [0xBCF8, 0xB2E4] @
                   ''.'') 240]
         else if t = ''woosunhokr''
         then joinSourceDraftParagraphs
           [sourceIntakeLimitText
              (subjectCue @ runes [0xB97C] @ '' '' @ runes [0xC6B0, 0xC21C, 0xD638] @ '' '' @ runes [0xCABD, 0xC73C,
                  0xB85C] @ '' '' @ runes [0xC62E, 0xAE30, 0xBA74] @ '' '' @ runes [0xACB0, 0xAD6D] @ '' '' @
                  focusCue @ runes [0xAC00] @ '' '' @ runes [0xC0AC, 0xB78C, 0xC5D0, 0xAC8C] @ '' '' @ runes [0xC5B4,
                  0xB5BB, 0xAC8C] @ '' '' @ runes [0xB2FF, 0xB294, 0xC9C0, 0xAC00] @ '' '' @ runes [0xBA3C, 0xC800] @
                  '' '' @ runes [0xBCF4, 0xC778, 0xB2E4] @ ''.'') 220,
            excerpt, note,
            sourceIntakeLimitText
              (runes [0xC6B0, 0xC21C, 0xD638, 0xC5D0, 0xC11C, 0xB294] @ '' '' @ runes [0xC774] @ '' '' @
                  runes [0xC18C, 0xC7AC, 0xB97C] @ '' '' @ runes [0xBBF8, 0xC6A9, 0xC0AC, 0xC758] @ '' '' @
                  runes [0xB2E8, 0xC0C1] @ '', '' @ runes [0xD0DC, 0xB3C4] @ '', '' @ runes [0xC2E4, 0xBB34] @ '' '' @
                  runes [0xAC10, 0xAC01, 0xC774] @ '' '' @ runes [0xAC19, 0xC774] @ '' '' @ runes [0xBCF4, 0xC774,
                  0xB294] @ '' '' @ runes [0xBB38, 0xC7A5, 0xC73C, 0xB85C] @ '' '' @ runes [0xB354] @ '' '' @
                  runes [0xC815, 0xB9AC, 0xD574, 0xBCF8, 0xB2E4] @ ''.'') 220]
         else if t = ''woohwahae''
         then joinSourceDraftParagraphs
           [sourceIntakeLimitText
              (subjectCue @ runes [0xB97C] @ '' '' @ runes [0xC6B0, 0xD654, 0xD574] @ '' '' @ runes [0xCABD, 0xC73C,
                  0xB85C] @ '' '' @ runes [0xC62E, 0xAE30, 0xBA74] @ '' '' @ runes [0xACB0, 0xAD6D] @ '' '' @
                  focusCue @ runes [0xB97C] @ '' '' @ runes [0xB35C, 0xC5B4, 0xB0B8] @ '' '' @ runes [0xB4A4] @
                  '' '' @ runes [0xB0A8, 0xB294] @ '' '' @ runes [0xC0DD, 0xD65C, 0xC758] @ '' '' @ runes [0xB9AC,
                  0xB4EC, 0xC774] @ '' '' @ runes [0xB354] @ '' '' @ runes [0xC911, 0xC694, 0xD574, 0xC9C4, 0xB2E4] @
                  ''.'') 220,
            excerpt, note,
            sourceIntakeLimitText
              (runes [0xC6B0, 0xD654, 0xD574, 0xC5D0, 0xC11C, 0xB294] @ '' '' @ runes [0xC774] @ '' '' @
                  runes [0xC18C, 0xC7AC, 0xB97C] @ '' '' @ runes [0xC2AC, 0xB85C, 0xC6B0] @ '' '' @ runes [0xB77C,
                  0xC774, 0xD504] @ '', '' @ runes [0xD0DC, 0xB3C4] @ '', '' @ runes [0xC870, 0xC6A9, 0xD55C] @
                  '' '' @ runes [0xACF5, 0xC801] @ '' '' @ runes [0xBB38, 0xC7A5] @ '' '' @ runes [0xCABD, 0xC73C,
                  0xB85C] @ '' '' @ runes [0xB354] @ '' '' @ runes [0xB2E4, 0xB4EC, 0xB294, 0xB2E4] @ ''.'') 220]
         else joinSourceDraftParagraphs [subject, excerpt, note])"

definition reviseSourceDraftSeedBody :: "string \<Rightarrow> string \<Rightarrow> string \<Rightarrow> string" where
  "reviseSourceDraftSeedBody currentDraft0 targetAccount instruction0 =
     (let instruction = TrimSpace instruction0; currentDraft = TrimSpace currentDraft0;
          t = normalizeSourceDraftTarget targetAccount in
      if instruction = '''' then currentDraft
      else joinSourceDraftParagraphs
        [currentDraft,
         if t = ''97layer''
         then sourceIntakeLimitText
           (runes [0xC774, 0xBC88, 0xC5D4] @ '' '' @ instruction @ '' '' @ runes [0xCABD, 0xC73C, 0xB85C] @ '' '' @
               runes [0xB2E4, 0xC2DC] @ '' '' @ runes [0xB20C, 0xB7EC, 0xBCF8, 0xB2E4] @ ''. '' @ runes [0xC544,
               0xC9C1] @ '' '' @ runes [0xC644, 0xC131, 0xBCF4, 0xB2E4] @ '' '' @ runes [0xAE30, 0xB85D, 0xC5D0] @
               '' '' @ runes [0xAC00, 0xAE5D, 0xAC8C] @ '' '' @ runes [0xB454, 0xB2E4] @ ''.'') 220
         else if t = ''woosunhokr''
         then sourceIntakeLimitText
           (runes [0xC774] @ '' '' @ runes [0xBC84, 0xC804, 0xC740] @ '' '' @ instruction @ '' '' @ runes [0xCABD,
               0xC73C, 0xB85C] @ '' '' @ runes [0xB354] @ '' '' @ runes [0xC815, 0xB9AC, 0xD574, 0xC11C] @ '', '' @
               runes [0xBBF8, 0xC6A9, 0xC0AC, 0xC758] @ '' '' @ runes [0xB2E8, 0xC0C1, 0xACFC] @ '' '' @
               runes [0xC2E4, 0xBB34] @ '' '' @ runes [0xAC10, 0xAC01, 0xC774] @ '' '' @ runes [0xAC19, 0xC774] @
               '' '' @ runes [0xBCF4, 0xC774, 0xAC8C] @ '' '' @ runes [0xC7A1, 0xB294, 0xB2E4] @ ''.'') 220
         else if t = ''woohwahae''
         then sourceIntakeLimitText
           (runes [0xC774] @ '' '' @ runes [0xBC84, 0xC804, 0xC740] @ '' '' @ instruction @ '' '' @ runes [0xCABD,
               0xC73C, 0xB85C] @ '' '' @ runes [0xB354] @ '' '' @ runes [0xB35C, 0xC5B4, 0xB0B4, 0xC11C] @ '', '' @
               runes [0xC870, 0xC6A9, 0xD55C] @ '' '' @ runes [0xACF5, 0xC801] @ '' '' @ runes [0xBB38, 0xC7A5,
               0xC73C, 0xB85C] @ '' '' @ runes [0xC815, 0xB9AC, 0xD55C, 0xB2E4] @ ''.'') 220
         else sourceIntakeLimitText (runes [0xC774, 0xBC88, 0xC5D4] @ '' '' @ instruction @ '' '' @ runes [0xCABD,
             0xC73C, 0xB85C] @ '' '' @ runes [0xB2E4, 0xC2DC] @ '' '' @ runes [0xC7A1, 0xC544, 0xBCF8, 0xB2E4] @
             ''.'') 180])"

section \<open>Records and identifiers\<close>

definition buildSourceDraftSeedRecord ::
  "url_renderer \<Rightarrow> SourceIntakeRecord \<Rightarrow> ObservationRecord \<Rightarrow> string \<Rightarrow> string \<Rightarrow> SourceDraftSeedRecord" where
  "buildSourceDraftSeedRecord parseURL r source routeDecisionObservationID targetAccount =
     (let subject = sourceDraftSeedSubject r (Some source)
      in NormalizeSourceDraftSeedRecord parseURL
           \<lparr>sd_TargetAccount = targetAccount, sd_TargetToneLevel = sourceDraftSeedToneLevel targetAccount,
            sd_Title = sourceDraftSeedTitle targetAccount r (Some source),
            sd_SourceObservationID = TrimSpace (ob_ObservationID source),
            sd_RouteDecisionObservationID = TrimSpace routeDecisionObservationID,
            sd_ParentDraftObservationID = '''', sd_RevisionNote = '''', sd_SourceTitle = subject,
            sd_SourceURL = si_URL r, sd_FounderNote = si_FounderNote r, sd_DomainTags = si_DomainTags r,
            sd_WorldviewTags = si_WorldviewTags r,
                sd_Draft = buildSourceDraftSeedBody targetAccount subject r\<rparr>)"

text \<open>The pattern \<open>[^a-z0-9]+\<close>, and \<open>strings.Trim(slug, "-")\<close>.\<close>

definition sourceDraftSeedSanitizer :: re where
  "sourceDraftSeedSanitizer = plus_of (\<lambda>r. \<not> (97 \<le> r \<and> r \<le> 122) \<and> \<not> is_digit r)"

definition trim_dashes :: "string \<Rightarrow> string" where
  "trim_dashes s = (let cut = dropWhile (\<lambda>c. c = CHR ''-'') in rev (cut (rev (cut s))))"

definition nextSourceDraftSeedProposalID :: "(time \<Rightarrow> string) \<Rightarrow> time \<Rightarrow> string \<Rightarrow> string \<Rightarrow> string" where
  "nextSourceDraftSeedProposalID stamp now targetAccount sourceObservationID =
     (let slug = ToLower (TrimSpace targetAccount) @ ''-'' @ ToLower (TrimSpace sourceObservationID);
          slug = trim_dashes (ReplaceAllStringFunc sourceDraftSeedSanitizer (\<lambda>_. ''-'') slug);
          slug = (if length slug > 40 then trim_dashes (take 40 slug) else slug);
          slug = (if slug = '''' then ''draft-seed'' else slug)
      in ''proposal_source_draft_'' @ stamp now @ ''_'' @ slug)"

section \<open>Recognising existing drafts\<close>

definition sourceDraftSeedObservationMatches :: "ObservationRecord \<Rightarrow> string \<Rightarrow> string \<Rightarrow> bool" where
  "sourceDraftSeedObservationMatches item sourceObservationID targetAccount \<longleftrightarrow>
     TrimSpace (ToLower (ob_Topic item)) = ''source_draft_seed'' \<and>
     (let refs = join_with '' '' (elems (ob_Refs item))
      in contains_sub refs sourceObservationID \<and> contains_sub refs (''account:'' @ targetAccount))"

definition proposalHasNote :: "string list \<Rightarrow> string \<Rightarrow> bool" where
  "proposalHasNote notes exact = list_ex (\<lambda>n. TrimSpace n = exact) notes"

definition proposalNoteValue :: "string list \<Rightarrow> string \<Rightarrow> string" where
  "proposalNoteValue notes prefix =
     (case find (\<lambda>v. starts_with v prefix) (map TrimSpace notes) of
        None \<Rightarrow> '''' | Some v \<Rightarrow> TrimSpace (TrimPrefix v prefix))"

definition sourceDraftSeedMatches :: "ProposalItem \<Rightarrow> string \<Rightarrow> string \<Rightarrow> bool" where
  "sourceDraftSeedMatches item sourceObservationID targetAccount \<longleftrightarrow>
     proposalHasNote (elems (pi_Notes item)) ''lane:source_draft_seed'' \<and>
     proposalNoteValue (elems (pi_Notes item)) ''source_observation:'' = sourceObservationID \<and>
     proposalNoteValue (elems (pi_Notes item)) ''account:'' = targetAccount"

end
