(* ===== verification/Service_Intake.thy ===== *)
theory Service_Intake
  imports Service_Sessions Service_Jobs Draft_Seed
begin

text \<open>
  The source intake lane (\<open>source_intake.go\<close>, \<open>source_intake_ingest.go\<close>,
      \<open>source_intake_route.go\<close>): an observation of a
  source, the decision which account it goes to, the draft seed and its proposal. Every step first looks
  for a record of an earlier run. The functions call the service several times, each call under its own
  lock; \<open>es k\<close> is the environment of the \<open>k\<close>-th call and the calls follow each other directly.
\<close>

definition observation_query :: "string \<Rightarrow> string \<Rightarrow> int \<Rightarrow> ObservationQuery" where
  "observation_query topic ref limit =
     \<lparr>oq_SourceChannel = '''', oq_Topic = topic, oq_Actor = '''', oq_Ref = ref, oq_Text = '''',
         oq_Limit = limit\<rparr>"

definition findObservationByID :: "string \<Rightarrow> Service \<Rightarrow> ObservationRecord option" where
  "findObservationByID observationID0 s =
     (let observationID = TrimSpace observationID0 in
      if observationID = '''' then None
      else find (\<lambda>item. ob_ObservationID item = observationID) (ListObservations (observation_query '''' '''' 256) s))"

section \<open>Closing the review items of a source\<close>

definition resolve_source_review ::
  "env \<Rightarrow> string \<Rightarrow> string \<Rightarrow> string \<Rightarrow> string \<Rightarrow> string list \<Rightarrow> Service \<Rightarrow> error option \<times> Service" where
  "resolve_source_review e source sourceObservationID0 reason rule evidence s =
     (let sourceObservationID = TrimSpace sourceObservationID0 in
      if sourceObservationID = '''' then (None, s)
      else case findOpenReviewRoomItem (sv_reviewRoom s) source (Some sourceObservationID) of
             None \<Rightarrow> (None, s)
           | Some target \<Rightarrow>
               (case TransitionStructuredReviewRoomItem e ''resolve'' target
                       (Some \<lparr>rs_Action = ''resolve'', rs_Reason = TrimSpace reason, rs_Rule = TrimSpace rule,
                              rs_Evidence = normalizeReviewRoomEvidence ([''observation:'' @ sourceObservationID] @
                                  evidence),
                              rs_ResolvedAt = 0\<rparr>) s of
                  (Inr _, t) \<Rightarrow> (None, t)
                | (Inl err, t) \<Rightarrow> if err = ErrReviewRoomItemNotFound then (None, t) else (Some err, t)))"

definition resolveSourceIntakeRedPolicyReview ::
  "env \<Rightarrow> string \<Rightarrow> string \<Rightarrow> string \<Rightarrow> string list \<Rightarrow> Service \<Rightarrow> error option \<times> Service" where
  "resolveSourceIntakeRedPolicyReview e sid reason rule evidence s =
     resolve_source_review e ''source_intake.red_policy'' sid reason rule evidence s"

definition resolveSourceIntakeRouteReview ::
  "env \<Rightarrow> string \<Rightarrow> string \<Rightarrow> string \<Rightarrow> string list \<Rightarrow> Service \<Rightarrow> error option \<times> Service" where
  "resolveSourceIntakeRouteReview e sid reason rule evidence s =
     resolve_source_review e ''source_intake.sensor_route'' sid reason rule evidence s"

section \<open>The intake observation of a source\<close>

definition findExistingSourceIntakeObservation :: "string \<Rightarrow> string list \<Rightarrow> Service \<Rightarrow> ObservationRecord option" where
  "findExistingSourceIntakeObservation sid refs s =
     find (\<lambda>item. TrimSpace (ToLower (ob_Topic item)) = ''source_intake'')
       (concat (map (\<lambda>ref. ListObservations (observation_query '''' ref 16) s) (sourceIntakeLookupRefs sid refs)))"

definition EnsureSourceIntakeObservation ::
  "url_renderer \<Rightarrow> env \<Rightarrow> ObservationRecord \<Rightarrow> SourceIntakeRecord \<Rightarrow> Service \<Rightarrow> (ObservationRecord \<times> bool) outcome" where
  "EnsureSourceIntakeObservation parseURL e source0 record0 s =
     (let source = normalizeObservationRecord (en_clock e 80) source0 (ob_Actor source0);
          sid = TrimSpace (ob_ObservationID source) in
      if sid = '''' then (Inl ''source observation is required'', s)
      else case findExistingSourceIntakeObservation sid (elems (ob_Refs source)) s of
             Some existing \<Rightarrow> (Inr (existing, False), s)
           | None \<Rightarrow>
               let record = NormalizeSourceIntakeRecord parseURL record0;
                   refs = foldl appendUniqueString [''source_observation:'' @ sid, sid]
                            (elems (ob_Refs source) @ SourceIntakeRefs parseURL record)
               in case CreateObservation parseURL e
                         \<lparr>ob_ObservationID = '''', ob_SourceChannel = ob_SourceChannel source,
                          ob_CapturedAt = ob_CapturedAt source, ob_Actor = ob_Actor source,
                              ob_Topic = ''source_intake'',
                          ob_Refs = Some refs, ob_Confidence = ob_Confidence source,
                          ob_RawExcerpt = BuildSourceIntakeRawExcerpt parseURL record,
                          ob_NormalizedSummary = SourceIntakeSummary parseURL record\<rparr> s of
                    (Inl err, t) \<Rightarrow> (Inl err, t)
                  | (Inr created, t) \<Rightarrow> (Inr (created, True), t))"

section \<open>The route decision\<close>

definition findExistingSourceIntakeRouteDecisionObservation :: "string \<Rightarrow> string \<Rightarrow> Service \<Rightarrow> ObservationRecord option" where
  "findExistingSourceIntakeRouteDecisionObservation sid0 decision0 s =
     (let sid = TrimSpace sid0; route = ''decision_route:'' @ normalizeSourceIntakeRouteChoice decision0
      in find (\<lambda>item. TrimSpace (ToLower (ob_Topic item)) = ''intake_route_decision'' \<and>
                 observationHasRef item sid \<and> observationHasRef item route)
           (concat (map (\<lambda>ref. ListObservations (observation_query '''' ref 32) s) [sid, route])))"

definition EnsureSourceIntakeRouteDecisionObservation ::
  "url_renderer \<Rightarrow> (nat \<Rightarrow> env) \<Rightarrow> ObservationRecord \<Rightarrow> string \<Rightarrow> string \<Rightarrow> string \<Rightarrow> Service \<Rightarrow> (ObservationRecord \<times> bool) outcome" where
  "EnsureSourceIntakeRouteDecisionObservation parseURL es source decision0 actor routeSource s =
     (let decision = normalizeSourceIntakeRouteChoice decision0; sid = TrimSpace (ob_ObservationID source);
          why = ''route decision opened or reused a downstream lane for this source intake'';
          rule = ''review_room.auto.source_intake_sensor_route_cleared_by_route'' in
      if decision = '''' then (Inl ''route decision is required'', s)
      else if sid = '''' then (Inl ''source observation is required'', s)
      else case findExistingSourceIntakeRouteDecisionObservation sid decision s of
             Some existing \<Rightarrow>
               (case resolveSourceIntakeRouteReview (es 1) sid why rule
                       [''route_decision:'' @ ob_ObservationID existing, ''decision:'' @ decision] s of
                  (Some err, t) \<Rightarrow> (Inl err, t)
                | (None, t) \<Rightarrow> (Inr (existing, False), t))
           | None \<Rightarrow>
               let record = ParseSourceIntakeRawExcerpt parseURL (ob_RawExcerpt source);
                   subject = sourceIntakeReviewSubject record source
               in case CreateObservation parseURL (es 0)
                         \<lparr>ob_ObservationID = '''', ob_SourceChannel = ob_SourceChannel source,
                          ob_CapturedAt = en_clock (es 0) 80, ob_Actor = TrimSpace actor,
                              ob_Topic = ''intake_route_decision'',
                          ob_Refs = Some [sid, ''decision_route:'' @ decision, ''route_source:'' @
                              TrimSpace routeSource],
                          ob_Confidence = ''high'',
                          ob_RawExcerpt = join_with nl
                            [''source_observation_id='' @ sid, ''decision='' @ decision, ''title='' @ subject,
                             ''summary='' @ TrimSpace (ob_NormalizedSummary source), ''route_source='' @
                                 TrimSpace routeSource],
                          ob_NormalizedSummary =
                            ''Intake route decided '' @ runes [0xB7] @ '' '' @ subject @ '' -> '' @
                                SourceIntakeRouteChoiceLabel decision\<rparr> s of
                    (Inl err, t) \<Rightarrow> (Inl err, t)
                  | (Inr created, t) \<Rightarrow>
                      (case resolveSourceIntakeRouteReview (es 1) sid why rule
                              [''route_decision:'' @ ob_ObservationID created, ''decision:'' @ decision,
                               ''route_source:'' @ TrimSpace routeSource] t of
                         (Some err, u) \<Rightarrow> (Inl err, u)
                       | (None, u) \<Rightarrow> (Inr (created, True), u)))"

section \<open>The draft seed\<close>

definition clear_red_policy :: "env \<Rightarrow> string \<Rightarrow> ObservationRecord \<Rightarrow> string \<Rightarrow> string \<Rightarrow> Service \<Rightarrow> error option \<times> Service" where
  "clear_red_policy e sid draft routeDecisionID target s =
     resolveSourceIntakeRedPolicyReview e sid
       ''route decision opened or reused a draft seed for this source intake''
       ''review_room.auto.source_intake_red_policy_cleared_by_draft_seed''
       [''draft_seed:'' @ ob_ObservationID draft, ''route_decision:'' @ TrimSpace routeDecisionID, ''account:'' @
           target] s"

definition EnsureSourceDraftSeedObservation ::
  "url_renderer \<Rightarrow> (nat \<Rightarrow> env) \<Rightarrow> ObservationRecord \<Rightarrow> string \<Rightarrow> string \<Rightarrow> Service \<Rightarrow> (ObservationRecord \<times> bool) outcome" where
  "EnsureSourceDraftSeedObservation parseURL es source routeDecisionID target0 s =
     (let target = normalizeSourceDraftTarget target0; sid = TrimSpace (ob_ObservationID source) in
      if target = '''' then (Inl ''target account is required'', s)
      else if sid = '''' then (Inl ''source observation is required'', s)
      else case find (\<lambda>item. sourceDraftSeedObservationMatches item sid target)
                  (ListObservations (observation_query ''source_draft_seed'' '''' 128) s) of
             Some item \<Rightarrow>
               (case clear_red_policy (es 1) sid item routeDecisionID target s of
                  (Some err, t) \<Rightarrow> (Inl err, t)
                | (None, t) \<Rightarrow> (Inr (item, False), t))
           | None \<Rightarrow>
               let record = ParseSourceIntakeRawExcerpt parseURL (ob_RawExcerpt source);
                   draft = buildSourceDraftSeedRecord parseURL record source routeDecisionID target
               in case CreateObservation parseURL (es 0)
                         \<lparr>ob_ObservationID = '''', ob_SourceChannel = ob_SourceChannel source,
                          ob_CapturedAt = en_clock (es 0) 80, ob_Actor = ob_Actor source,
                              ob_Topic = ''source_draft_seed'',
                          ob_Refs = Some (foldl appendUniqueString []
                            [sid, routeDecisionID, ''account:'' @ target, ''source_topic:source_intake'',
                             ''route_decision:'' @ TrimSpace routeDecisionID]),
                          ob_Confidence = ''medium'', ob_RawExcerpt = BuildSourceDraftSeedRawExcerpt parseURL draft,
                          ob_NormalizedSummary = sourceDraftSeedSummary target record source (sd_Draft draft)\<rparr> s of
                    (Inl err, t) \<Rightarrow> (Inl err, t)
                  | (Inr created, t) \<Rightarrow>
                      (case clear_red_policy (es 1) sid created routeDecisionID target t of
                         (Some err, u) \<Rightarrow> (Inl err, u)
                       | (None, u) \<Rightarrow> (Inr (created, True), u)))"

definition draft_proposal ::
  "(time \<Rightarrow> string) \<Rightarrow> time \<Rightarrow> SourceIntakeRecord \<Rightarrow> ObservationRecord \<Rightarrow> string \<Rightarrow> string \<Rightarrow> ObservationRecord \<Rightarrow> string \<Rightarrow> ProposalItem" where
  "draft_proposal stamp now record source routeDecisionID target seed draft =
     (let sid = TrimSpace (ob_ObservationID source)
      in \<lparr>pi_ProposalID = nextSourceDraftSeedProposalID stamp now target sid, pi_BranchID = None,
          pi_Title = sourceDraftSeedTitle target record (Some source),
              pi_Intent = sourceDraftSeedIntent target record,
          pi_Summary = sourceDraftSeedSummary target record source draft, pi_Surface = ''telegram'',
              pi_Priority = ''high'',
          pi_Risk = ''medium'', pi_Status = ''proposed'',
          pi_Notes = Some [''lane:source_draft_seed'', ''account:'' @ target, ''source_observation:'' @ sid,
             ''source_topic:source_intake'', ''source_channel:'' @ TrimSpace (ob_SourceChannel source),
             ''route_decision:'' @ TrimSpace routeDecisionID, ''draft_seed_observation:'' @
                 TrimSpace (ob_ObservationID seed)],
          pi_PromotedWorkItemID = None, pi_CreatedAt = now, pi_UpdatedAt = now\<rparr>)"

definition EnsureSourceDraftSeedProposal ::
  "url_renderer \<Rightarrow> (time \<Rightarrow> string) \<Rightarrow> (nat \<Rightarrow> env) \<Rightarrow> ObservationRecord \<Rightarrow> string \<Rightarrow> string \<Rightarrow> Service \<Rightarrow> (ProposalItem \<times> bool) outcome" where
  "EnsureSourceDraftSeedProposal parseURL stamp es source routeDecisionID target0 s =
     (let target = normalizeSourceDraftTarget target0; sid = TrimSpace (ob_ObservationID source) in
      if target = '''' then (Inl ''target account is required'', s)
      else if sid = '''' then (Inl ''source observation is required'', s)
      else case find (\<lambda>item. sourceDraftSeedMatches item sid target) (sv_proposal s) of
             Some item \<Rightarrow> (Inr (item, False), s)
           | None \<Rightarrow>
               (case EnsureSourceDraftSeedObservation parseURL es source routeDecisionID target s of
                  (Inl err, t) \<Rightarrow> (Inl err, t)
                | (Inr (seed, _), t) \<Rightarrow>
                    let record = ParseSourceIntakeRawExcerpt parseURL (ob_RawExcerpt source);
                        draft = ParseSourceDraftSeedRawExcerpt parseURL (ob_RawExcerpt seed);
                        proposal = draft_proposal stamp (en_clock (es 2) 80) record source routeDecisionID target seed (sd_Draft draft)
                    in case CreateProposal (es 2) proposal t of
                         (Inl err, u) \<Rightarrow> (Inl err, u)
                       | (Inr _, u) \<Rightarrow> (Inr (proposal, True), u)))"

definition ReviseSourceDraftSeedObservation ::
  "url_renderer \<Rightarrow> env \<Rightarrow> ObservationRecord \<Rightarrow> string \<Rightarrow> Service \<Rightarrow> ObservationRecord outcome" where
  "ReviseSourceDraftSeedObservation parseURL e draft instruction0 s =
     (let instruction = TrimSpace instruction0 in
      if TrimSpace (ToLower (ob_Topic draft)) \<noteq> ''source_draft_seed'' then (Inl ''draft observation is required'', s)
      else if instruction = '''' then (Inl ''revision instruction is required'', s)
      else let seed = ParseSourceDraftSeedRawExcerpt parseURL (ob_RawExcerpt draft) in
           if sd_TargetAccount seed = '''' \<or> sd_SourceObservationID seed = ''''
           then (Inl ''draft seed is missing canonical refs'', s)
           else case findObservationByID (sd_SourceObservationID seed) s of
                  None \<Rightarrow> (Inl ''source intake not found'', s)
                | Some source \<Rightarrow>
                    let record = ParseSourceIntakeRawExcerpt parseURL (ob_RawExcerpt source); account = sd_TargetAccount seed;
                        built = buildSourceDraftSeedRecord parseURL record source (sd_RouteDecisionObservationID seed) account;
                        revised = built\<lparr>sd_ParentDraftObservationID := ob_ObservationID draft,
                            sd_RevisionNote := instruction,
                                        sd_Draft := reviseSourceDraftSeedBody (sd_Draft built) account instruction\<rparr>
                    in CreateObservation parseURL e
                         \<lparr>ob_ObservationID = '''', ob_SourceChannel = ob_SourceChannel draft,
                             ob_CapturedAt = en_clock e 80,
                          ob_Actor = ob_Actor draft, ob_Topic = ''source_draft_seed'',
                          ob_Refs = Some (foldl appendUniqueString []
                            (elems (ob_Refs draft) @
                             [sd_SourceObservationID seed, sd_RouteDecisionObservationID seed, ''account:'' @ account,
                              ''draft_seed_parent:'' @ TrimSpace (ob_ObservationID draft)])),
                          ob_Confidence = ''medium'', ob_RawExcerpt = BuildSourceDraftSeedRawExcerpt parseURL revised,
                          ob_NormalizedSummary = sourceDraftSeedSummary account record source (sd_Draft revised)\<rparr> s)"

section \<open>The whole lane\<close>

record SourceIntakeDraftLaneResult =
  dl_RouteDecision :: ObservationRecord
  dl_DraftSeed :: ObservationRecord
  dl_Proposal :: ProposalItem
  dl_Reused :: bool

definition OpenSourceIntakeDraftLane ::
  "url_renderer \<Rightarrow> (time \<Rightarrow> string) \<Rightarrow> (nat \<Rightarrow> env) \<Rightarrow> ObservationRecord \<Rightarrow> string \<Rightarrow> string \<Rightarrow> string \<Rightarrow> Service \<Rightarrow>
   SourceIntakeDraftLaneResult outcome" where
  "OpenSourceIntakeDraftLane parseURL stamp es source decision0 actor routeSource s =
     (let decision = normalizeSourceIntakeRouteChoice decision0 in
      if decision = '''' \<or> decision = ''hold'' then (Inl ''route decision must target a canonical account'', s)
      else case EnsureSourceIntakeRouteDecisionObservation parseURL es source decision actor routeSource s of
             (Inl err, t) \<Rightarrow> (Inl err, t)
           | (Inr (route, routeOpened), t) \<Rightarrow>
      (case EnsureSourceDraftSeedObservation parseURL (\<lambda>k. es (2 + k)) source (ob_ObservationID route) decision t of
             (Inl err, u) \<Rightarrow> (Inl err, u)
           | (Inr (draft, draftOpened), u) \<Rightarrow>
      (case EnsureSourceDraftSeedProposal parseURL stamp (\<lambda>k. es (4 + k)) source (ob_ObservationID route) decision u of
             (Inl err, v) \<Rightarrow> (Inl err, v)
           | (Inr (proposal, proposalOpened), v) \<Rightarrow>
               (Inr \<lparr>dl_RouteDecision = route, dl_DraftSeed = draft, dl_Proposal = proposal,
                     dl_Reused = (\<not> routeOpened \<and> \<not> draftOpened \<and> \<not> proposalOpened)\<rparr>,
                         v))))"

end
