(* ===== verification/Source_Intake_Props.thy ===== *)
theory Source_Intake_Props
  imports Source_Intake
begin

text \<open>
  The text form of an intake record and of a draft seed: which texts parse back to the record they were
  built from, and what a line of the body that looks like a header does.
\<close>

section \<open>Lines\<close>

lemma unix_lines_plain: "CHR 0x0D \<notin> set s \<Longrightarrow> unix_lines s = s"
  by (induction s) auto

lemma split_on_join_last:
  "\<forall>x \<in> set xs. c \<notin> set x \<Longrightarrow> split_on c (join_with [c] (xs @ [y])) = xs @ split_on c y"
proof (induction xs)
  case (Cons x xs)
  then have "join_with [c] ((x # xs) @ [y]) = x @ c # join_with [c] (xs @ [y])" by (cases xs) auto
  then show ?case using Cons by (simp add: split_on_append)
qed simp

lemma set_join_with: "set (join_with sep xs) \<subseteq> set sep \<union> \<Union> (set ` set xs)"
  by (induction sep xs rule: join_with.induct) auto

text \<open>A text of single-line headers, a marker and a body, without carriage returns.\<close>

lemma raw_lines_text:
  assumes "\<forall>x \<in> set hdr. CHR 0x0A \<notin> set x \<and> CHR 0x0D \<notin> set x" "CHR 0x0D \<notin> set body"
    "CHR 0x0A \<notin> set mark \<and> CHR 0x0D \<notin> set mark"
  shows "raw_lines (join_with nl (hdr @ [mark, body])) = hdr @ mark # split_on (CHR 0x0A) body"
proof -
  have "CHR 0x0D \<notin> set (join_with nl (hdr @ [mark, body]))"
    using set_join_with [of nl "hdr @ [mark, body]"] assms by (auto simp: nl_def)
  then show ?thesis
    using split_on_join_last [of "hdr @ [mark]" "CHR 0x0A" body] assms
    by (simp add: raw_lines_def unix_lines_plain nl_def ball_Un)
qed

lemma TrimSpace_ink_prefix:
  assumes "k \<noteq> []" "\<forall>c \<in> set k. ink c" "trimmed_right v"
  shows "TrimSpace (k @ v) = k @ v"
proof -
  obtain p d where k: "k = p @ [d]" using assms(1) by (metis rev_exhaust)
  have "trimmed_right (p @ d # v)" by (rule trimmed_right_ink) (use assms k in auto)
  then have r: "trimmed_right (k @ v)" using k by simp
  obtain c q where "k = c # q" using assms(1) by (cases k) auto
  then show ?thesis using TrimSpace_ink_cons [of c "q @ v"] r assms(2) by simp
qed

definition intake_keys :: "string list" where
  "intake_keys =
     [''intake_class='', ''policy_color='', ''title='', ''url='', ''founder_note='', ''priority_score='',
      ''disposition='', ''disposition_note='', ''domain_tags='', ''worldview_tags='', ''suggested_routes='']"

definition seed_keys :: "string list" where
  "seed_keys =
     [''target_account='', ''target_tone='', ''title='', ''source_observation_id='', ''route_decision_id='',
      ''parent_draft_observation_id='', ''revision_note='', ''source_title='', ''source_url='', ''founder_note='',
      ''domain_tags='', ''worldview_tags='']"

lemma keys_ink: "k \<in> set (intake_keys @ seed_keys) \<Longrightarrow> k \<noteq> [] \<and> (\<forall>c \<in> set k. ink c)"
proof -
  have "list_all (\<lambda>k. k \<noteq> [] \<and> list_all ink k) (intake_keys @ seed_keys)"
    by code_simp
  then show "k \<in> set (intake_keys @ seed_keys) \<Longrightarrow> k \<noteq> [] \<and> (\<forall>c \<in> set k. ink c)"
    by (auto simp: list_all_iff)
qed

lemma TrimSpace_key: "k \<in> set (intake_keys @ seed_keys) \<Longrightarrow> trimmed_right v \<Longrightarrow> TrimSpace (k @ v) = k @ v"
  using keys_ink TrimSpace_ink_prefix by blast

text \<open>A line of the body that no header and no marker can be read from.\<close>

definition inert_line :: "string \<Rightarrow> string list \<Rightarrow> string \<Rightarrow> bool" where
  "inert_line mark keys l \<longleftrightarrow> TrimSpace l \<noteq> mark \<and> (\<forall>k \<in> set keys. \<not> starts_with (TrimSpace l) k)"

lemma intake_line_inert: "inert_line ''excerpt:'' intake_keys l \<Longrightarrow> intake_line U st (i, l) = st"
  by (cases st) (simp add: intake_line_def inert_line_def intake_keys_def Let_def)

lemma seed_line_inert: "inert_line ''draft:'' seed_keys l \<Longrightarrow> seed_line U st (i, l) = st"
  by (cases st) (simp add: seed_line_def inert_line_def seed_keys_def Let_def)

lemma foldl_inert:
  assumes "\<And>st i l. inert_line mark keys l \<Longrightarrow> step st (i, l) = st" "list_all (inert_line mark keys) ls"
  shows "foldl step st (enumerate n ls) = st"
  using assms(2) by (induction ls arbitrary: n) (simp_all add: assms(1))

lemma intake_body_inert:
  "list_all (inert_line ''excerpt:'' intake_keys) ls \<Longrightarrow> foldl (intake_line U) st (enumerate n ls) = st"
  by (rule foldl_inert [where step = "intake_line U"]) (auto intro: intake_line_inert)

lemma seed_body_inert:
  "list_all (inert_line ''draft:'' seed_keys) ls \<Longrightarrow> foldl (seed_line U) st (enumerate n ls) = st"
  by (rule foldl_inert [where step = "seed_line U"]) (auto intro: seed_line_inert)

section \<open>Header lines of an intake record\<close>

lemma TrimPrefix_append [simp]: "TrimPrefix (p @ v) p = v"
  by (simp add: TrimPrefix_def starts_with_def)

lemma TrimSpace_intake_key:
  assumes "trimmed_right v"
  shows "TrimSpace (''intake_class='' @ v) = ''intake_class='' @ v"
    "TrimSpace (''policy_color='' @ v) = ''policy_color='' @ v"
    "TrimSpace (''title='' @ v) = ''title='' @ v"
    "TrimSpace (''url='' @ v) = ''url='' @ v"
    "TrimSpace (''founder_note='' @ v) = ''founder_note='' @ v"
    "TrimSpace (''priority_score='' @ v) = ''priority_score='' @ v"
    "TrimSpace (''disposition='' @ v) = ''disposition='' @ v"
    "TrimSpace (''disposition_note='' @ v) = ''disposition_note='' @ v"
    "TrimSpace (''domain_tags='' @ v) = ''domain_tags='' @ v"
    "TrimSpace (''worldview_tags='' @ v) = ''worldview_tags='' @ v"
    "TrimSpace (''suggested_routes='' @ v) = ''suggested_routes='' @ v"
  by (rule TrimSpace_key [OF _ assms], simp add: intake_keys_def)+

lemma intake_line_header:
  assumes "trimmed_right v"
  shows "intake_line U (r, s) (i, ''intake_class='' @ v) = (r\<lparr>si_IntakeClass := normalizeSourceIntakeClass (TrimSpace v)\<rparr>, s)"
    "intake_line U (r, s) (i, ''policy_color='' @ v) = (r\<lparr>si_PolicyColor := normalizeSourceIntakePolicyColor (TrimSpace v)\<rparr>, s)"
    "intake_line U (r, s) (i, ''title='' @ v) = (r\<lparr>si_Title := TrimSpace v\<rparr>, s)"
    "intake_line U (r, s) (i, ''url='' @ v) = (r\<lparr>si_URL := normalizeSourceIntakeURL U (TrimSpace v)\<rparr>, s)"
    "intake_line U (r, s) (i, ''founder_note='' @ v) = (r\<lparr>si_FounderNote := TrimSpace v\<rparr>, s)"
    "intake_line U (r, s) (i, ''priority_score='' @ v) = (r\<lparr>si_PriorityScore := parseSourceIntakePriorityScore (TrimSpace v)\<rparr>, s)"
    "intake_line U (r, s) (i, ''disposition='' @ v) = (r\<lparr>si_Disposition := normalizeSourceIntakeDisposition (TrimSpace v)\<rparr>, s)"
    "intake_line U (r, s) (i, ''disposition_note='' @ v) = (r\<lparr>si_DispositionNote := TrimSpace v\<rparr>, s)"
    "intake_line U (r, s) (i, ''domain_tags='' @ v) = (r\<lparr>si_DomainTags := normalizeSourceIntakeTags (split_on (CHR '','') v)\<rparr>, s)"
    "intake_line U (r, s) (i, ''worldview_tags='' @ v) = (r\<lparr>si_WorldviewTags := normalizeSourceIntakeTags (split_on (CHR '','') v)\<rparr>, s)"
    "intake_line U (r, s) (i, ''suggested_routes='' @ v) =
       (r\<lparr>si_SuggestedRoutes := normalizeSourceIntakeRoutes (split_on (CHR '','') v)\<rparr>, s)"
  by (simp_all add: intake_line_def TrimSpace_intake_key [OF assms, simplified] starts_with_Cons TrimPrefix_def)

section \<open>Normal fields\<close>

text \<open>What the normalisers leave alone.\<close>

lemma trimmed_right_Nil [simp]: "trimmed_right []"
  by (simp add: trimmed_right_def)

lemma literals_trimmed:
  "TrimSpace ''manual_drop'' = ''manual_drop''" "TrimSpace ''green'' = ''green''" "TrimSpace ''none'' = ''none''"
  "TrimSpace ''97layer'' = ''97layer''" "TrimSpace ''woosunhokr'' = ''woosunhokr''" "TrimSpace ''woohwahae'' = ''woohwahae''"
  by code_simp+

lemma class_normal: "normalizeSourceIntakeClass x = x \<Longrightarrow> TrimSpace x = x"
  unfolding normalizeSourceIntakeClass_def
  by (cases "TrimSpace x \<in> {''manual_drop'', ''authorized_connector'', ''public_collector''}") (simp, metis literals_trimmed(1))

lemma color_normal: "normalizeSourceIntakePolicyColor x = x \<Longrightarrow> TrimSpace x = x"
  unfolding normalizeSourceIntakePolicyColor_def by (metis TrimSpace_idem literals_trimmed(2))

lemma color_idem: "normalizeSourceIntakePolicyColor (normalizeSourceIntakePolicyColor x) = normalizeSourceIntakePolicyColor x"
proof -
  have "normalizeSourceIntakePolicyColor ''green'' = ''green''" "normalizeSourceIntakePolicyColor ''yellow'' = ''yellow''"
    "normalizeSourceIntakePolicyColor ''red'' = ''red''" by code_simp+
  moreover have "normalizeSourceIntakePolicyColor x \<in> {''green'', ''yellow'', ''red''}"
    by (auto simp: normalizeSourceIntakePolicyColor_def)
  ultimately show ?thesis by auto
qed

lemma disposition_normal: "normalizeSourceIntakeDisposition x = x \<Longrightarrow> TrimSpace x = x"
  unfolding normalizeSourceIntakeDisposition_def by (metis TrimSpace_idem TrimSpace_Nil)

lemma set_foldl_unique:
  "set (foldl (\<lambda>out x. case g x of None \<Rightarrow> out | Some v \<Rightarrow> appendUniqueString out v) out xs) =
     set out \<union> {v. \<exists>x \<in> set xs. g x = Some v}"
  by (induction xs arbitrary: out) (auto split: option.splits)

lemma tags_foldl:
  "normalizeSourceIntakeTags items =
     foldl (\<lambda>out x. case (let v = TrimSpace x in if v = '''' \<or> v = ''none'' then None else Some v) of
                      None \<Rightarrow> out | Some v \<Rightarrow> appendUniqueString out v) [] items"
  unfolding normalizeSourceIntakeTags_def
  by (rule arg_cong [where f = "\<lambda>f. foldl f [] items"]) (auto simp: fun_eq_iff Let_def)

lemma tags_normal:
  assumes "normalizeSourceIntakeTags tags = tags" "t \<in> set tags"
  shows "TrimSpace t = t"
proof -
  have "t \<in> {v. \<exists>x \<in> set tags. (let v = TrimSpace x in if v = '''' \<or> v = ''none'' then None else Some v) = Some v}"
    using assms set_foldl_unique [of "\<lambda>x. let v = TrimSpace x in if v = '''' \<or> v = ''none'' then None else Some v" "[]" tags]
    unfolding tags_foldl by simp
  then show ?thesis by (auto simp: Let_def split: if_splits)
qed

lemma routes_names: "set (normalizeSourceIntakeRoutes items) \<subseteq> {''97layer'', ''woosunhokr'', ''woohwahae''}"
proof -
  have "route_of x = Some v \<Longrightarrow> v \<in> {''97layer'', ''woosunhokr'', ''woohwahae''}" for x v
    by (auto simp: route_of_def Let_def split: if_splits)
  then show ?thesis
    unfolding normalizeSourceIntakeRoutes_def Let_def by (auto simp: set_foldl_unique split: if_splits)
qed

lemma routes_nonempty [simp]: "normalizeSourceIntakeRoutes items \<noteq> []"
  by (simp add: normalizeSourceIntakeRoutes_def Let_def)

lemma Itoa_nonneg: "0 \<le> n \<Longrightarrow> Itoa n = itoa_nat (nat n)"
  by (simp add: Itoa_def)

lemma digits_ink: "48 \<le> (of_char c :: nat) \<Longrightarrow> (of_char c :: nat) \<le> 57 \<Longrightarrow> ink c"
  by (auto simp: ink_def space_runes_def)

lemma TrimSpace_itoa: "TrimSpace (itoa_nat n) = itoa_nat n"
  using itoa_nat_digits [of n] digits_ink by (intro TrimSpace_ink) blast

lemma Atoi_itoa:
  assumes "int n < 2 ^ 63"
  shows "Atoi (itoa_nat n) = Some (int n)"
proof -
  obtain c cs where c: "itoa_nat n = c # cs" by (cases "itoa_nat n") auto
  have d: "\<forall>c \<in> set (itoa_nat n). 48 \<le> (of_char c :: int) \<and> (of_char c :: int) \<le> 57"
    using itoa_nat_digits [of n] by (metis of_nat_le_iff of_nat_numeral of_nat_of_char)
  then have "c \<noteq> CHR ''-''" "c \<noteq> CHR ''+''" using c by auto
  then have "\<not> starts_with (itoa_nat n) ''-''" "\<not> starts_with (itoa_nat n) ''+''" by (simp_all add: c starts_with_Cons)
  then show ?thesis
    using d assms itoa_nat_value [of n] c by (simp add: Atoi_def Let_def list_all_iff)
qed

lemma score_text: "0 \<le> n \<Longrightarrow> n \<le> 100 \<Longrightarrow> parseSourceIntakePriorityScore (Itoa n) = n"
  using Atoi_itoa [of "nat n"]
  by (simp add: parseSourceIntakePriorityScore_def Itoa_nonneg TrimSpace_itoa normalizeSourceIntakePriorityScore_def Let_def)

lemma tags_text:
  assumes "normalizeSourceIntakeTags tags = tags" "\<forall>t \<in> set tags. CHR '','' \<notin> set t"
  shows "normalizeSourceIntakeTags (split_on (CHR '','') (joinSourceIntakeTags tags)) = tags"
    and "trimmed_right (joinSourceIntakeTags tags)"
proof -
  have "normalizeSourceIntakeTags [''none''] = []" by (simp add: normalizeSourceIntakeTags_def literals_trimmed)
  then show "normalizeSourceIntakeTags (split_on (CHR '','') (joinSourceIntakeTags tags)) = tags"
    using assms split_on_join [of tags "CHR '',''"] by (simp add: joinSourceIntakeTags_def)
  have "ink (CHR '','')" by (simp add: ink_def space_runes_def)
  then show "trimmed_right (joinSourceIntakeTags tags)"
    using tags_normal [OF assms(1)] trimmed_right_join [of tags "CHR '',''"] trimmed_right_TrimSpace literals_trimmed(3)
    by (auto simp: joinSourceIntakeTags_def)
qed

lemma routes_text:
  assumes "normalizeSourceIntakeRoutes routes = routes"
  shows "normalizeSourceIntakeRoutes (split_on (CHR '','') (joinSourceIntakeRoutes routes)) = routes"
    and "trimmed_right (joinSourceIntakeRoutes routes)"
proof -
  have r: "set routes \<subseteq> {''97layer'', ''woosunhokr'', ''woohwahae''}" "routes \<noteq> []"
    using routes_names [of routes] routes_nonempty [of routes] assms by simp_all
  then have "\<forall>x \<in> set routes. CHR '','' \<notin> set x" by auto
  then show "normalizeSourceIntakeRoutes (split_on (CHR '','') (joinSourceIntakeRoutes routes)) = routes"
    using assms r(2) split_on_join [of routes "CHR '',''"] by (simp add: joinSourceIntakeRoutes_def)
  have "ink (CHR '','')" by (simp add: ink_def space_runes_def)
  moreover have "\<forall>x \<in> set routes. trimmed_right x" using r(1) literals_trimmed(4-6) trimmed_right_TrimSpace by auto
  ultimately show "trimmed_right (joinSourceIntakeRoutes routes)"
    using assms r(2) trimmed_right_join [of routes "CHR '',''"] by (simp add: joinSourceIntakeRoutes_def)
qed

lemma url_trim [simp]: "normalizeSourceIntakeURL U (TrimSpace u) = normalizeSourceIntakeURL U u"
  by (simp add: normalizeSourceIntakeURL_def)

section \<open>Reading a written record\<close>

lemma intake_fields:
  assumes "NormalizeSourceIntakeRecord U r = r"
  shows "normalizeSourceIntakeClass (si_IntakeClass r) = si_IntakeClass r"
    "normalizeSourceIntakePolicyColor (si_PolicyColor r) = si_PolicyColor r"
    "TrimSpace (si_Title r) = si_Title r" "normalizeSourceIntakeURL U (si_URL r) = si_URL r"
    "TrimSpace (si_FounderNote r) = si_FounderNote r"
    "normalizeSourceIntakeTags (si_DomainTags r) = si_DomainTags r"
    "normalizeSourceIntakeTags (si_WorldviewTags r) = si_WorldviewTags r"
    "normalizeSourceIntakeRoutes (si_SuggestedRoutes r) = si_SuggestedRoutes r"
    "0 \<le> si_PriorityScore r \<and> si_PriorityScore r \<le> 100"
    "normalizeSourceIntakeDisposition (si_Disposition r) = si_Disposition r"
    "TrimSpace (si_DispositionNote r) = si_DispositionNote r"
    "TrimSpace (si_Excerpt r) = si_Excerpt r"
proof -
  note N = assms [unfolded NormalizeSourceIntakeRecord_def Let_def]
  show "normalizeSourceIntakeClass (si_IntakeClass r) = si_IntakeClass r" using arg_cong [OF N, of si_IntakeClass] by simp
  show "normalizeSourceIntakePolicyColor (si_PolicyColor r) = si_PolicyColor r" using arg_cong [OF N, of si_PolicyColor] by simp
  show t: "TrimSpace (si_Title r) = si_Title r" using arg_cong [OF N, of si_Title] by simp
  show "normalizeSourceIntakeURL U (si_URL r) = si_URL r" using arg_cong [OF N, of si_URL] by simp
  show "TrimSpace (si_FounderNote r) = si_FounderNote r" using arg_cong [OF N, of si_FounderNote] by simp
  show "normalizeSourceIntakeTags (si_DomainTags r) = si_DomainTags r" using arg_cong [OF N, of si_DomainTags] by simp
  show "normalizeSourceIntakeTags (si_WorldviewTags r) = si_WorldviewTags r" using arg_cong [OF N, of si_WorldviewTags] by simp
  show "normalizeSourceIntakeRoutes (si_SuggestedRoutes r) = si_SuggestedRoutes r"
    using arg_cong [OF N, of si_SuggestedRoutes] by simp
  show "0 \<le> si_PriorityScore r \<and> si_PriorityScore r \<le> 100"
    using arg_cong [OF N, of si_PriorityScore] by (auto simp: normalizeSourceIntakePriorityScore_def split: if_splits)
  show "normalizeSourceIntakeDisposition (si_Disposition r) = si_Disposition r" using arg_cong [OF N, of si_Disposition] by simp
  show "TrimSpace (si_DispositionNote r) = si_DispositionNote r" using arg_cong [OF N, of si_DispositionNote] by simp
  show "TrimSpace (si_Excerpt r) = si_Excerpt r"
    using arg_cong [OF N, of si_Excerpt] t by (auto split: if_splits)
qed

text \<open>Single-line fields without carriage returns, tags without commas, a trimmed URL.\<close>

definition intake_plain :: "SourceIntakeRecord \<Rightarrow> bool" where
  "intake_plain r \<longleftrightarrow>
     (\<forall>x \<in> set (intake_header r). CHR 0x0A \<notin> set x \<and> CHR 0x0D \<notin> set x) \<and> CHR 0x0D \<notin> set (si_Excerpt r) \<and>
     (\<forall>t \<in> set (si_DomainTags r @ si_WorldviewTags r). CHR '','' \<notin> set t) \<and> TrimSpace (si_URL r) = si_URL r"

lemma intake_header_read:
  assumes "NormalizeSourceIntakeRecord U r = r" "intake_plain r"
  shows "foldl (intake_line U) (blank_intake, None) (enumerate 0 (intake_header r)) = (r\<lparr>si_Excerpt := ''''\<rparr>, None)"
proof -
  note f = intake_fields [OF assms(1)]
  note tr = trimmed_right_TrimSpace [OF class_normal [OF f(1)]] trimmed_right_TrimSpace [OF color_normal [OF f(2)]]
    trimmed_right_TrimSpace [OF f(3)] trimmed_right_TrimSpace [OF f(5)] trimmed_right_TrimSpace [OF disposition_normal [OF f(10)]]
    trimmed_right_TrimSpace [OF f(11)] routes_text(2) [OF f(8)]
  have tags: "trimmed_right (joinSourceIntakeTags (si_DomainTags r))" "trimmed_right (joinSourceIntakeTags (si_WorldviewTags r))"
    using tags_text(2) f(6,7) assms(2) by (auto simp: intake_plain_def)
  have url: "trimmed_right (si_URL r)" using assms(2) trimmed_right_TrimSpace by (simp add: intake_plain_def)
  have score: "trimmed_right (Itoa (si_PriorityScore r))" "TrimSpace (Itoa (si_PriorityScore r)) = Itoa (si_PriorityScore r)"
    using f(9) TrimSpace_itoa trimmed_right_TrimSpace by (simp_all add: Itoa_nonneg)
  have t1: "normalizeSourceIntakeTags (split_on (CHR '','') (joinSourceIntakeTags (si_DomainTags r))) = si_DomainTags r"
    "normalizeSourceIntakeTags (split_on (CHR '','') (joinSourceIntakeTags (si_WorldviewTags r))) = si_WorldviewTags r"
    using tags_text(1) f(6,7) assms(2) by (auto simp: intake_plain_def)
  have s1: "parseSourceIntakePriorityScore (Itoa (si_PriorityScore r)) = si_PriorityScore r" using score_text f(9) by simp
  show ?thesis
    unfolding intake_header_def enumerate_simps foldl_Cons foldl_Nil blank_intake_def
      intake_line_header(1) [OF tr(1)] intake_line_header(2) [OF tr(2)] intake_line_header(3) [OF tr(3)]
      intake_line_header(4) [OF url] intake_line_header(5) [OF tr(4)] intake_line_header(6) [OF score(1)]
      intake_line_header(7) [OF tr(5)] intake_line_header(8) [OF tr(6)] intake_line_header(9) [OF tags(1)]
      intake_line_header(10) [OF tags(2)] intake_line_header(11) [OF tr(7)]
      class_normal [OF f(1)] color_normal [OF f(2)] disposition_normal [OF f(10)] f(3,5,11) score(2) url_trim
      f(1,2,4,10) t1 s1 routes_text(1) [OF f(8)]
    by simp
qed

text \<open>The parser after the header: it goes on reading the lines of the excerpt.\<close>

lemma intake_text_read:
  assumes "NormalizeSourceIntakeRecord U r = r" "intake_plain r"
  defines "ls \<equiv> split_on (CHR 0x0A) (si_Excerpt r)"
  shows "ParseSourceIntakeRawExcerpt U (BuildSourceIntakeRawExcerpt U r) =
     (let (q, start) = foldl (intake_line U) (r\<lparr>si_Excerpt := ''''\<rparr>, Some 12) (enumerate 12 ls)
      in NormalizeSourceIntakeRecord U
           (case start of None \<Rightarrow> q
            | Some k \<Rightarrow> q\<lparr>si_Excerpt := TrimSpace (join_with nl (drop k (intake_header r @ ''excerpt:'' # ls)))\<rparr>))"
proof -
  have lines: "raw_lines (BuildSourceIntakeRawExcerpt U r) = intake_header r @ ''excerpt:'' # ls"
    unfolding BuildSourceIntakeRawExcerpt_def Let_def assms(1) ls_def
    by (rule raw_lines_text) (use assms(2) in \<open>auto simp: intake_plain_def\<close>)
  have len: "length (intake_header r) = 11" by (simp add: intake_header_def)
  have mark: "intake_line U (q, s) (11, ''excerpt:'') = (q, Some 12)" for q s
  proof -
    have "TrimSpace ''excerpt:'' = ''excerpt:''" by code_simp
    then show ?thesis by (simp add: intake_line_def)
  qed
  show ?thesis
    unfolding ParseSourceIntakeRawExcerpt_def lines Let_def
    by (simp add: enumerate_append_eq len intake_header_read [OF assms(1,2)] mark)
qed

lemma intake_text_roundtrip:
  assumes "NormalizeSourceIntakeRecord U r = r" "intake_plain r"
    "list_all (inert_line ''excerpt:'' intake_keys) (split_on (CHR 0x0A) (si_Excerpt r))"
  shows "ParseSourceIntakeRawExcerpt U (BuildSourceIntakeRawExcerpt U r) = r"
proof -
  have len: "length (intake_header r) = 11" by (simp add: intake_header_def)
  show ?thesis
    using intake_body_inert [OF assms(3), of U _ 12] assms(1) intake_fields(12) [OF assms(1)] len
      join_split_on [of "CHR 0x0A" "si_Excerpt r"]
    by (simp add: intake_text_read [OF assms(1,2)] nl_def)
qed

text \<open>A body line that reads as a colour decides the colour, whatever the header said.\<close>

lemma intake_text_color:
  assumes "NormalizeSourceIntakeRecord U r = r" "intake_plain r"
    "split_on (CHR 0x0A) (si_Excerpt r) = pre @ (''policy_color='' @ c) # post" "trimmed_right c"
    "list_all (inert_line ''excerpt:'' intake_keys) (pre @ post)"
  shows "si_PolicyColor (ParseSourceIntakeRawExcerpt U (BuildSourceIntakeRawExcerpt U r)) =
      normalizeSourceIntakePolicyColor (TrimSpace c)"
    and "si_IntakeClass (ParseSourceIntakeRawExcerpt U (BuildSourceIntakeRawExcerpt U r)) = si_IntakeClass r"
proof -
  let ?q = "r\<lparr>si_Excerpt := '''', si_PolicyColor := normalizeSourceIntakePolicyColor (TrimSpace c)\<rparr>"
  have q: "foldl (intake_line U) (r\<lparr>si_Excerpt := ''''\<rparr>, Some 12) (enumerate 12 (split_on (CHR 0x0A) (si_Excerpt r))) = (?q, Some 12)"
    using intake_body_inert [of pre U _ 12] intake_body_inert [of post U] intake_line_header(2) [OF assms(4)] assms(5)
    unfolding assms(3) enumerate_append_eq foldl_append enumerate_simps foldl_Cons by simp
  show "si_PolicyColor (ParseSourceIntakeRawExcerpt U (BuildSourceIntakeRawExcerpt U r)) =
      normalizeSourceIntakePolicyColor (TrimSpace c)"
    "si_IntakeClass (ParseSourceIntakeRawExcerpt U (BuildSourceIntakeRawExcerpt U r)) = si_IntakeClass r"
    using intake_fields(1) [OF assms(1)] q color_idem
    by (simp_all add: intake_text_read [OF assms(1,2)] NormalizeSourceIntakeRecord_def Let_def)
qed

section \<open>Reading a written draft seed\<close>

lemma TrimSpace_seed_key:
  assumes "trimmed_right v"
  shows "TrimSpace (''target_account='' @ v) = ''target_account='' @ v"
    "TrimSpace (''target_tone='' @ v) = ''target_tone='' @ v"
    "TrimSpace (''title='' @ v) = ''title='' @ v"
    "TrimSpace (''source_observation_id='' @ v) = ''source_observation_id='' @ v"
    "TrimSpace (''route_decision_id='' @ v) = ''route_decision_id='' @ v"
    "TrimSpace (''parent_draft_observation_id='' @ v) = ''parent_draft_observation_id='' @ v"
    "TrimSpace (''revision_note='' @ v) = ''revision_note='' @ v"
    "TrimSpace (''source_title='' @ v) = ''source_title='' @ v"
    "TrimSpace (''source_url='' @ v) = ''source_url='' @ v"
    "TrimSpace (''founder_note='' @ v) = ''founder_note='' @ v"
    "TrimSpace (''domain_tags='' @ v) = ''domain_tags='' @ v"
    "TrimSpace (''worldview_tags='' @ v) = ''worldview_tags='' @ v"
  by (rule TrimSpace_key [OF _ assms], simp add: seed_keys_def)+

lemma seed_line_header:
  assumes "trimmed_right v"
  shows "seed_line U (r, s) (i, ''target_account='' @ v) = (r\<lparr>sd_TargetAccount := normalizeSourceDraftTarget (TrimSpace v)\<rparr>, s)"
    "seed_line U (r, s) (i, ''target_tone='' @ v) = (r\<lparr>sd_TargetToneLevel := normalizeSourceDraftToneLevel (TrimSpace v)\<rparr>, s)"
    "seed_line U (r, s) (i, ''title='' @ v) = (r\<lparr>sd_Title := TrimSpace v\<rparr>, s)"
    "seed_line U (r, s) (i, ''source_observation_id='' @ v) = (r\<lparr>sd_SourceObservationID := TrimSpace v\<rparr>, s)"
    "seed_line U (r, s) (i, ''route_decision_id='' @ v) = (r\<lparr>sd_RouteDecisionObservationID := TrimSpace v\<rparr>, s)"
    "seed_line U (r, s) (i, ''parent_draft_observation_id='' @ v) = (r\<lparr>sd_ParentDraftObservationID := TrimSpace v\<rparr>, s)"
    "seed_line U (r, s) (i, ''revision_note='' @ v) = (r\<lparr>sd_RevisionNote := TrimSpace v\<rparr>, s)"
    "seed_line U (r, s) (i, ''source_title='' @ v) = (r\<lparr>sd_SourceTitle := TrimSpace v\<rparr>, s)"
    "seed_line U (r, s) (i, ''source_url='' @ v) = (r\<lparr>sd_SourceURL := normalizeSourceIntakeURL U (TrimSpace v)\<rparr>, s)"
    "seed_line U (r, s) (i, ''founder_note='' @ v) = (r\<lparr>sd_FounderNote := TrimSpace v\<rparr>, s)"
    "seed_line U (r, s) (i, ''domain_tags='' @ v) = (r\<lparr>sd_DomainTags := normalizeSourceIntakeTags (split_on (CHR '','') v)\<rparr>, s)"
    "seed_line U (r, s) (i, ''worldview_tags='' @ v) = (r\<lparr>sd_WorldviewTags := normalizeSourceIntakeTags (split_on (CHR '','') v)\<rparr>, s)"
  by (simp_all add: seed_line_def TrimSpace_seed_key [OF assms, simplified] starts_with_Cons TrimPrefix_def)

lemma target_normal: "normalizeSourceDraftTarget x = x \<Longrightarrow> TrimSpace x = x"
  unfolding normalizeSourceDraftTarget_def Let_def by (metis TrimSpace_idem TrimSpace_Nil)

lemma tone_normal: "normalizeSourceDraftToneLevel x = x \<Longrightarrow> TrimSpace x = x"
  unfolding normalizeSourceDraftToneLevel_def by (metis TrimSpace_idem TrimSpace_Nil)

lemma tone_of_account: "normalizeSourceDraftToneLevel (sourceDraftSeedToneLevel a) = sourceDraftSeedToneLevel a"
proof -
  have "normalizeSourceDraftToneLevel ''raw'' = ''raw''" "normalizeSourceDraftToneLevel ''refined'' = ''refined''"
    "normalizeSourceDraftToneLevel ''polished'' = ''polished''" "normalizeSourceDraftToneLevel '''' = ''''" by code_simp+
  then show ?thesis by (simp add: sourceDraftSeedToneLevel_def Let_def)
qed

lemma seed_fields:
  assumes "NormalizeSourceDraftSeedRecord U r = r"
  shows "normalizeSourceDraftTarget (sd_TargetAccount r) = sd_TargetAccount r"
    "normalizeSourceDraftToneLevel (sd_TargetToneLevel r) = sd_TargetToneLevel r"
    "TrimSpace (sd_Title r) = sd_Title r" "TrimSpace (sd_SourceObservationID r) = sd_SourceObservationID r"
    "TrimSpace (sd_RouteDecisionObservationID r) = sd_RouteDecisionObservationID r"
    "TrimSpace (sd_ParentDraftObservationID r) = sd_ParentDraftObservationID r"
    "TrimSpace (sd_RevisionNote r) = sd_RevisionNote r" "TrimSpace (sd_SourceTitle r) = sd_SourceTitle r"
    "normalizeSourceIntakeURL U (sd_SourceURL r) = sd_SourceURL r" "TrimSpace (sd_FounderNote r) = sd_FounderNote r"
    "normalizeSourceIntakeTags (sd_DomainTags r) = sd_DomainTags r"
    "normalizeSourceIntakeTags (sd_WorldviewTags r) = sd_WorldviewTags r" "TrimSpace (sd_Draft r) = sd_Draft r"
proof -
  note N = assms [unfolded NormalizeSourceDraftSeedRecord_def Let_def]
  show a: "normalizeSourceDraftTarget (sd_TargetAccount r) = sd_TargetAccount r" using arg_cong [OF N, of sd_TargetAccount] by simp
  show "normalizeSourceDraftToneLevel (sd_TargetToneLevel r) = sd_TargetToneLevel r"
    using arg_cong [OF N, of sd_TargetToneLevel] tone_of_account [of "sd_TargetAccount r"] a by (auto split: if_splits)
  show "TrimSpace (sd_Title r) = sd_Title r" using arg_cong [OF N, of sd_Title] by simp
  show "TrimSpace (sd_SourceObservationID r) = sd_SourceObservationID r" using arg_cong [OF N, of sd_SourceObservationID] by simp
  show "TrimSpace (sd_RouteDecisionObservationID r) = sd_RouteDecisionObservationID r" using arg_cong [OF N, of sd_RouteDecisionObservationID] by simp
  show "TrimSpace (sd_ParentDraftObservationID r) = sd_ParentDraftObservationID r" using arg_cong [OF N, of sd_ParentDraftObservationID] by simp
  show "TrimSpace (sd_RevisionNote r) = sd_RevisionNote r" using arg_cong [OF N, of sd_RevisionNote] by simp
  show "TrimSpace (sd_SourceTitle r) = sd_SourceTitle r" using arg_cong [OF N, of sd_SourceTitle] by simp
  show "TrimSpace (sd_FounderNote r) = sd_FounderNote r" using arg_cong [OF N, of sd_FounderNote] by simp
  show "TrimSpace (sd_Draft r) = sd_Draft r" using arg_cong [OF N, of sd_Draft] by simp
  show "normalizeSourceIntakeURL U (sd_SourceURL r) = sd_SourceURL r" using arg_cong [OF N, of sd_SourceURL] by simp
  show "normalizeSourceIntakeTags (sd_DomainTags r) = sd_DomainTags r" using arg_cong [OF N, of sd_DomainTags] by simp
  show "normalizeSourceIntakeTags (sd_WorldviewTags r) = sd_WorldviewTags r" using arg_cong [OF N, of sd_WorldviewTags] by simp
qed

definition seed_plain :: "SourceDraftSeedRecord \<Rightarrow> bool" where
  "seed_plain r \<longleftrightarrow>
     (\<forall>x \<in> set (seed_header r). CHR 0x0A \<notin> set x \<and> CHR 0x0D \<notin> set x) \<and> CHR 0x0D \<notin> set (sd_Draft r) \<and>
     (\<forall>t \<in> set (sd_DomainTags r @ sd_WorldviewTags r). CHR '','' \<notin> set t) \<and> TrimSpace (sd_SourceURL r) = sd_SourceURL r"

lemma seed_header_read:
  assumes "NormalizeSourceDraftSeedRecord U r = r" "seed_plain r"
  shows "foldl (seed_line U) (blank_seed, None) (enumerate 0 (seed_header r)) = (r\<lparr>sd_Draft := ''''\<rparr>, None)"
proof -
  note f = seed_fields [OF assms(1)]
  note tr = trimmed_right_TrimSpace [OF target_normal [OF f(1)]] trimmed_right_TrimSpace [OF tone_normal [OF f(2)]]
    f(3-8,10) [THEN trimmed_right_TrimSpace]
  have tags: "trimmed_right (joinSourceIntakeTags (sd_DomainTags r))" "trimmed_right (joinSourceIntakeTags (sd_WorldviewTags r))"
    using tags_text(2) f(11,12) assms(2) by (auto simp: seed_plain_def)
  have url: "trimmed_right (sd_SourceURL r)" using assms(2) trimmed_right_TrimSpace by (simp add: seed_plain_def)
  have t1: "normalizeSourceIntakeTags (split_on (CHR '','') (joinSourceIntakeTags (sd_DomainTags r))) = sd_DomainTags r"
    "normalizeSourceIntakeTags (split_on (CHR '','') (joinSourceIntakeTags (sd_WorldviewTags r))) = sd_WorldviewTags r"
    using tags_text(1) f(11,12) assms(2) by (auto simp: seed_plain_def)
  show ?thesis
    unfolding seed_header_def enumerate_simps foldl_Cons foldl_Nil blank_seed_def
      seed_line_header(1) [OF tr(1)] seed_line_header(2) [OF tr(2)] seed_line_header(3) [OF tr(3)]
      seed_line_header(4) [OF tr(4)] seed_line_header(5) [OF tr(5)] seed_line_header(6) [OF tr(6)]
      seed_line_header(7) [OF tr(7)] seed_line_header(8) [OF tr(8)] seed_line_header(9) [OF url]
      seed_line_header(10) [OF tr(9)] seed_line_header(11) [OF tags(1)] seed_line_header(12) [OF tags(2)]
      target_normal [OF f(1)] tone_normal [OF f(2)] f(3-8,10) url_trim f(1,2,9) t1
    by simp
qed

lemma seed_text_roundtrip:
  assumes "NormalizeSourceDraftSeedRecord U r = r" "seed_plain r"
    "list_all (inert_line ''draft:'' seed_keys) (split_on (CHR 0x0A) (sd_Draft r))"
  shows "ParseSourceDraftSeedRawExcerpt U (BuildSourceDraftSeedRawExcerpt U r) = r"
proof -
  let ?ls = "split_on (CHR 0x0A) (sd_Draft r)"
  have lines: "raw_lines (BuildSourceDraftSeedRawExcerpt U r) = seed_header r @ ''draft:'' # ?ls"
    unfolding BuildSourceDraftSeedRawExcerpt_def Let_def assms(1)
    by (rule raw_lines_text) (use assms(2) in \<open>auto simp: seed_plain_def\<close>)
  have len: "length (seed_header r) = 12" by (simp add: seed_header_def)
  have "TrimSpace ''draft:'' = ''draft:''" by code_simp
  then have mark: "seed_line U (q, s) (12, ''draft:'') = (q, Some 13)" for q s by (simp add: seed_line_def)
  show ?thesis
    unfolding ParseSourceDraftSeedRawExcerpt_def lines Let_def
    using assms(1) seed_fields(13) [OF assms(1)] join_split_on [of "CHR 0x0A" "sd_Draft r"]
    by (simp add: enumerate_append_eq len seed_header_read [OF assms(1,2)] mark seed_body_inert [OF assms(3)] nl_def)
qed

end
