(* ===== verification/Observation_Specs.thy ===== *)
theory Observation_Specs
  imports Service_Intake Service_Live Source_Intake_Props
begin

text \<open>
  What recording an observation does to the service: the record at the end of the registry, the item of
  the review room it asks for, and the frame.
\<close>

lemma recordObservation_Inr:
  assumes "recordObservationLocked e k item True s = (Inr ob, t)"
  shows "ob = normalizeObservationRecord (en_clock e 60) item (currentActor e s)" "ObservationRecord_Validate ob = None"
    "\<exists>es. t = s\<lparr>sv_observation := sv_observation s @ [ob], sv_event := es\<rparr>"
  using assms
  by (auto simp: recordObservationLocked_def Let_def event_or_def observationStore_create_def append_valid_Inr split: sum.splits)

lemma autoOpen_None:
  assumes "autoOpenReviewRoomItemLocked e k i s = (None, t)" "clock_ok e" "room_inv (sv_reviewRoom s)"
  shows "\<exists>r' added. ensureReviewRoomItem (en_isWord e) (now_store e) (sv_reviewRoom s) ''open'' i = Inr (r', added) \<and>
      sv_reviewRoom t = r'" "core t = core s"
proof -
  have now: "\<not> IsZero (now_store e)" using assms(2) by (simp add: now_store_def)
  note spec = ensureReviewRoomItem_spec [OF assms(3) now, of "en_isWord e" "''open''" i]
  from assms(1) obtain r' added where r: "ensureReviewRoomItem (en_isWord e) (now_store e) (sv_reviewRoom s) ''open'' i = Inr (r', added)"
    by (auto simp: autoOpenReviewRoomItemLocked_def split: sum.splits)
  have "sv_reviewRoom t = r'"
    using assms(1) r spec [OF r]
    by (cases added) (auto simp: autoOpenReviewRoomItemLocked_def Let_def newReviewRoomStore_normal room_inv_normal split: sum.splits)
  then show "\<exists>r' added. ensureReviewRoomItem (en_isWord e) (now_store e) (sv_reviewRoom s) ''open'' i = Inr (r', added) \<and>
      sv_reviewRoom t = r'" using r by blast
  show "core t = core s" using autoOpen_touched [OF assms(2,3), of k i] assms(1) by (simp add: touched_def)
qed

text \<open>The room after an observation, with audit promotion off: unchanged without a suggestion, otherwise with the
  suggested item.\<close>

lemma CreateObservation_Inr:
  assumes "CreateObservation U e item s = (Inr ob, s')" "clock_ok e" "room_inv (sv_reviewRoom s)" "\<not> en_auditPromotion e"
  shows "ob = normalizeObservationRecord (en_clock e 60) item (currentActor e s)"
    "core s' = core (s\<lparr>sv_observation := sv_observation s @ [ob]\<rparr>)"
    "case reviewRoomSuggestionForObservation U (en_clock e 61) ob of
       None \<Rightarrow> sv_reviewRoom s' = sv_reviewRoom s
     | Some i \<Rightarrow> \<exists>r' added. ensureReviewRoomItem (en_isWord e) (now_store e) (sv_reviewRoom s) ''open'' i = Inr (r', added) \<and>
                   sv_reviewRoom s' = r'"
proof -
  from assms(1) obtain s2 where c: "createObservationLocked U e 0 item s = (Inr ob, s2)" and p: "persistLocked e s2 = (None, s')"
    by (auto simp: CreateObservation_def persist_or_def split: prod.splits sum.splits option.splits)
  from c obtain s1 where r: "recordObservationLocked e 0 item True s = (Inr ob, s1)"
    and g: "suggest_or e 1 (reviewRoomSuggestionForObservation U (en_clock e 61) ob) (\<lambda>t. t) (\<lambda>t. (Inr ob, t)) s1 = (Inr ob, s2)"
    by (auto simp: createObservationLocked_def suggest_or_def room_or_def split: prod.splits sum.splits option.splits)
  from recordObservation_Inr(3) [OF r] obtain es where s1: "s1 = s\<lparr>sv_observation := sv_observation s @ [ob], sv_event := es\<rparr>" ..
  show "ob = normalizeObservationRecord (en_clock e 60) item (currentActor e s)" using recordObservation_Inr(1) [OF r] .
  have room: "sv_reviewRoom s' = sv_reviewRoom s2" using persistLocked_frame(3) [OF p] synced_room_off [OF assms(4)] by auto
  have core1: "core s1 = core (s\<lparr>sv_observation := sv_observation s @ [ob]\<rparr>)" by (simp add: s1 core_def)
  have i1: "room_inv (sv_reviewRoom s1)" using assms(3) by (simp add: s1)
  have "core s2 = core s1 \<and>
    (case reviewRoomSuggestionForObservation U (en_clock e 61) ob of
       None \<Rightarrow> sv_reviewRoom s2 = sv_reviewRoom s
     | Some i \<Rightarrow> \<exists>r' added. ensureReviewRoomItem (en_isWord e) (now_store e) (sv_reviewRoom s) ''open'' i = Inr (r', added) \<and>
                   sv_reviewRoom s2 = r')"
  proof (cases "reviewRoomSuggestionForObservation U (en_clock e 61) ob")
    case None
    then have "s2 = s1" using g by (simp add: suggest_or_def)
    then show ?thesis using None by (simp add: s1)
  next
    case (Some i)
    then have a: "autoOpenReviewRoomItemLocked e 1 i s1 = (None, s2)"
      using g by (auto simp: suggest_or_def room_or_def split: prod.splits option.splits)
    show ?thesis using autoOpen_None [OF a assms(2) i1] Some by (simp add: s1)
  qed
  then show "core s' = core (s\<lparr>sv_observation := sv_observation s @ [ob]\<rparr>)"
    "case reviewRoomSuggestionForObservation U (en_clock e 61) ob of
       None \<Rightarrow> sv_reviewRoom s' = sv_reviewRoom s
     | Some i \<Rightarrow> \<exists>r' added. ensureReviewRoomItem (en_isWord e) (now_store e) (sv_reviewRoom s) ''open'' i = Inr (r', added) \<and>
                   sv_reviewRoom s' = r'"
    using persistLocked_frame(1) [OF p] core1 room by (simp_all split: option.splits)
qed

text \<open>With a working disk a valid observation is recorded.\<close>

lemma observation_literals:
  "\<not> blank ''observation.created''" "\<not> blank ''source_channel''" "\<not> blank ''topic''" "\<not> blank ''confidence''"
  "\<not> blank ''summary''" "\<not> blank ''refs''" "validSurface ''telegram''" "validSurface ''cockpit''" "validSurface ''api''"
  "validStage ''discover''"
  by code_simp+

lemma item_data_keys:
  "\<not> blank ''section''" "\<not> blank ''item''" "\<not> blank ''kind''" "\<not> blank ''severity''" "\<not> blank ''source''" "\<not> blank ''ref''"
  "\<not> blank ''why''" "\<not> blank ''why_unresolved''" "\<not> blank ''contradiction''" "\<not> blank ''contradictions''"
  "\<not> blank ''pattern_refs''" "\<not> blank ''rationale''" "\<not> blank ''evidence''" "\<not> blank ''review_room.item_auto_added''"
  "\<not> blank ''system''" "\<not> blank ''trigger''" "\<not> blank ''rule''" "\<not> blank ''reason''"
  by code_simp+

lemma json_string_array [simp]: "json_ok (string_array xs)"
  by (induction xs) (simp_all add: string_array_def)

lemma json_rationale [simp]: "json_ok (reviewRoomRationaleData r)"
  by (simp add: reviewRoomRationaleData_def item_data_keys)

lemma item_event_data_ok: "list_all (\<lambda>kv. \<not> blank (fst kv) \<and> json_ok (snd kv)) (item_event_data sec i)"
  by (simp add: item_event_data_def item_detail_data_def opt_trimmed_def opt_array_def item_data_keys Let_def split: option.splits)

lemma autoOpen_works:
  assumes "clock_ok e" "TrimSpace (ri_Text i) \<noteq> ''''"
  shows "\<exists>t. autoOpenReviewRoomItemLocked e k i s = (None, t) \<and> sv_disk t = sv_disk s \<and> sv_continuity t = sv_continuity s"
proof -
  have "normalizeReviewSection ''open'' = ''open''" by code_simp
  then have "\<exists>p. ensureReviewRoomItem (en_isWord e) (now_store e) (sv_reviewRoom s) ''open'' i = Inr p"
    unfolding ensureReviewRoomItem_def Let_def using assms(2)
    by (cases "reviewRoomHasItem (copyReviewRoom (now_store e) (sv_reviewRoom s)) (TrimSpace (ri_Text i))") (simp_all, blast+)
  then obtain r' a where r: "ensureReviewRoomItem (en_isWord e) (now_store e) (sv_reviewRoom s) ''open'' i = Inr (r', a)"
    by auto
  let ?s1 = "s\<lparr>sv_reviewRoom := newReviewRoomStore (now_store e) r'\<rparr>"
  let ?ev = "newSystemEvent e k ?s1 ''review_room.item_auto_added'' (item_event_data ''open'' (reviewRoomItemFromSection e r' ''open'' (ri_Text i)))"
  have "EventEnvelope_Validate ?ev = None"
    unfolding newSystemEvent_def using service_event_valid [OF assms(1)] item_event_data_ok observation_literals item_data_keys by blast
  then obtain es where "eventStore_append (sv_event ?s1) ?ev = Inr es" using eventStore_append_Inr_iff by blast
  then show ?thesis using r by (cases a) (simp_all add: autoOpenReviewRoomItemLocked_def Let_def)
qed

lemma CreateObservation_works:
  fixes item e s
  defines "ob \<equiv> normalizeObservationRecord (en_clock e 60) item (currentActor e s)"
  assumes "clock_ok e" "disk_works e s" "ObservationRecord_Validate ob = None"
    "\<And>i. reviewRoomSuggestionForObservation U (en_clock e 61) ob = Some i \<Longrightarrow> TrimSpace (ri_Text i) \<noteq> ''''"
  shows "\<exists>t. CreateObservation U e item s = (Inr ob, t) \<and> disk_works e t"
proof -
  let ?s1 = "s\<lparr>sv_observation := sv_observation s @ [ob]\<rparr>"
  let ?ev = "service_event e 0 ?s1 ''observation.created'' (surfaceForObservationChannel (ob_SourceChannel ob))
     (ob_ObservationID ob) ''discover'' (observation_event_data ob)"
  have "\<not> blank (ob_ObservationID ob)" using assms(4) by (simp add: ObservationRecord_Validate_def split: if_splits)
  then have "EventEnvelope_Validate ?ev = None"
    by (intro service_event_valid [OF assms(2)])
       (simp_all add: observation_literals observation_event_data_def surfaceForObservationChannel_def Let_def)
  then obtain es where es: "eventStore_append (sv_event ?s1) ?ev = Inr es" using eventStore_append_Inr_iff by blast
  then have r: "recordObservationLocked e 0 item True s = (Inr ob, ?s1\<lparr>sv_event := es\<rparr>)"
    using assms(4) by (simp add: recordObservationLocked_def ob_def observationStore_create_def append_valid_def event_or_def Let_def)
  have "\<exists>t. suggest_or e 1 (reviewRoomSuggestionForObservation U (en_clock e 61) ob) (\<lambda>t. t) (\<lambda>t. (Inr ob, t)) (?s1\<lparr>sv_event := es\<rparr>) =
      (Inr ob, t) \<and> sv_disk t = sv_disk s \<and> sv_continuity t = sv_continuity s"
  proof (cases "reviewRoomSuggestionForObservation U (en_clock e 61) ob")
    case (Some i)
    then show ?thesis
      using autoOpen_works [OF assms(2), of i 1 "?s1\<lparr>sv_event := es\<rparr>"] assms(5) by (auto simp: suggest_or_def room_or_def)
  qed (simp add: suggest_or_def)
  then obtain t where t: "createObservationLocked U e 0 item s = (Inr ob, t)" "disk_works e t"
    using r disk_works_frame [OF assms(3)] by (auto simp: createObservationLocked_def)
  then show ?thesis using persist_or_works [OF t(2)] by (simp add: CreateObservation_def)
qed

section \<open>The intake observation\<close>

lemma intake_text_trimmed:
  assumes "NormalizeSourceIntakeRecord U r = r" "si_Excerpt r \<noteq> ''''"
  shows "TrimSpace (BuildSourceIntakeRawExcerpt U r) = BuildSourceIntakeRawExcerpt U r" "BuildSourceIntakeRawExcerpt U r \<noteq> ''''"
proof -
  have "\<exists>a. join_with nl (hdr @ [mark, x]) = a @ CHR 0x0A # x" for hdr and mark x :: string
  proof (induction hdr)
    case (Cons h hs)
    then obtain a where "join_with nl (hs @ [mark, x]) = a @ CHR 0x0A # x" by blast
    then have "join_with nl ((h # hs) @ [mark, x]) = (h @ nl @ a) @ CHR 0x0A # x" by (cases hs) (auto simp: nl_def)
    then show ?case by blast
  qed (simp add: nl_def)
  then obtain a where a: "BuildSourceIntakeRawExcerpt U r = a @ CHR 0x0A # si_Excerpt r"
    unfolding BuildSourceIntakeRawExcerpt_def Let_def assms(1) by meson
  have t: "trimmed_right (BuildSourceIntakeRawExcerpt U r)"
    unfolding a by (rule trimmed_right_line) (use trimmed_right_TrimSpace [OF intake_fields(12) [OF assms(1)]] assms(2) in auto)
  obtain b where b: "BuildSourceIntakeRawExcerpt U r = CHR ''i'' # b"
    unfolding BuildSourceIntakeRawExcerpt_def Let_def assms(1) intake_header_def by simp
  have "ink (CHR ''i'')" by code_simp
  then show "TrimSpace (BuildSourceIntakeRawExcerpt U r) = BuildSourceIntakeRawExcerpt U r"
    using TrimSpace_ink_cons [of "CHR ''i''" b] t unfolding b by simp
  show "BuildSourceIntakeRawExcerpt U r \<noteq> ''''" unfolding b by simp
qed

text \<open>The observation of a normal record whose source is a stored observation: it is valid, and its text is
  the text of the record.\<close>

definition intake_observation :: "url_renderer \<Rightarrow> ObservationRecord \<Rightarrow> SourceIntakeRecord \<Rightarrow> ObservationRecord" where
  "intake_observation U source r =
     \<lparr>ob_ObservationID = '''', ob_SourceChannel = ob_SourceChannel source, ob_CapturedAt = ob_CapturedAt source,
      ob_Actor = ob_Actor source, ob_Topic = ''source_intake'',
      ob_Refs = Some (foldl appendUniqueString
                  [''source_observation:'' @ TrimSpace (ob_ObservationID source), TrimSpace (ob_ObservationID source)]
                  (elems (ob_Refs source) @ SourceIntakeRefs U r)),
      ob_Confidence = ob_Confidence source, ob_RawExcerpt = BuildSourceIntakeRawExcerpt U r,
      ob_NormalizedSummary = SourceIntakeSummary U r\<rparr>"

definition stored_source :: "time \<Rightarrow> ObservationRecord \<Rightarrow> bool" where
  "stored_source now source \<longleftrightarrow>
     ObservationRecord_Validate source = None \<and> normalizeObservationRecord now source (ob_Actor source) = source"

lemma stored_source_fields:
  assumes "stored_source now source"
  shows "\<not> blank (ob_ObservationID source)" "\<not> blank (ob_SourceChannel source)" "\<not> blank (ob_Actor source)"
    "\<not> IsZero (ob_CapturedAt source)" "normalizeObservationChannel (ob_SourceChannel source) = ob_SourceChannel source"
    "TrimSpace (ob_Actor source) = ob_Actor source"
proof -
  note v = assms [unfolded stored_source_def, THEN conjunct1] and n = assms [unfolded stored_source_def, THEN conjunct2]
  show "\<not> blank (ob_ObservationID source)" "\<not> blank (ob_SourceChannel source)" "\<not> IsZero (ob_CapturedAt source)"
    and a: "\<not> blank (ob_Actor source)"
    using v by (simp_all add: ObservationRecord_Validate_def split: if_splits)
  show "normalizeObservationChannel (ob_SourceChannel source) = ob_SourceChannel source"
    using arg_cong [OF n, of ob_SourceChannel] by (simp add: normalizeObservationRecord_def Let_def)
  show "TrimSpace (ob_Actor source) = ob_Actor source"
    using arg_cong [OF n, of ob_Actor] a by (simp add: normalizeObservationRecord_def Let_def blank_def)
qed

lemma confidence_valid: "validObservationConfidence (normalizeObservationConfidence v)"
proof -
  have "validObservationConfidence ''medium''" by code_simp
  then show ?thesis by (simp add: normalizeObservationConfidence_def Let_def)
qed

lemma observation_id: "\<not> blank (nextObservationID t)" "TrimSpace (nextObservationID t) \<noteq> ''''"
proof -
  have "ink (CHR ''o'')" by code_simp
  then have "CHR ''o'' \<in> set (TrimSpace (nextObservationID t))" by (rule ink_stays) (simp add: nextObservationID_def)
  then show "TrimSpace (nextObservationID t) \<noteq> ''''" by auto
  then show "\<not> blank (nextObservationID t)" by (simp add: blank_def)
qed

lemma intake_observation_recorded:
  fixes U e source r a
  defines "ob \<equiv> normalizeObservationRecord (en_clock e 60) (intake_observation U source r) a"
  assumes "stored_source now source" "NormalizeSourceIntakeRecord U r = r" "si_Excerpt r \<noteq> ''''"
  shows "ObservationRecord_Validate ob = None" "ob_RawExcerpt ob = BuildSourceIntakeRawExcerpt U r"
    "TrimSpace (ToLower (ob_Topic ob)) = ''source_intake''" "\<not> blank (ob_ObservationID ob)"
    "ob_SourceChannel ob = ob_SourceChannel source"
proof -
  note f = stored_source_fields [OF assms(2)] and t = intake_text_trimmed [OF assms(3,4)]
  have topic: "TrimSpace ''source_intake'' = ''source_intake''" "ToLower ''source_intake'' = ''source_intake''" "\<not> blank ''source_intake''"
    by code_simp+
  show "ob_RawExcerpt ob = BuildSourceIntakeRawExcerpt U r"
    using t by (simp add: ob_def normalizeObservationRecord_def intake_observation_def Let_def)
  show "TrimSpace (ToLower (ob_Topic ob)) = ''source_intake''"
    using topic by (simp add: ob_def normalizeObservationRecord_def intake_observation_def Let_def)
  show id: "\<not> blank (ob_ObservationID ob)"
    using observation_id(1) by (simp add: ob_def normalizeObservationRecord_def intake_observation_def Let_def blank_def)
  show ch: "ob_SourceChannel ob = ob_SourceChannel source"
    using f(5) by (simp add: ob_def normalizeObservationRecord_def intake_observation_def Let_def)
  have "\<not> blank (ob_RawExcerpt ob)" "\<not> blank (ob_NormalizedSummary ob)" "\<not> IsZero (ob_CapturedAt ob)" "\<not> blank (ob_Actor ob)"
      "\<not> blank (ob_Topic ob)" "ob_Refs ob \<noteq> None" "validObservationConfidence (ob_Confidence ob)"
    using t f topic(1,3) confidence_valid [of "ob_Confidence source"]
    by (simp_all add: ob_def normalizeObservationRecord_def intake_observation_def Let_def blank_def)
  then show "ObservationRecord_Validate ob = None" using id ch f(2) by (simp add: ObservationRecord_Validate_def)
qed

lemma EnsureSourceIntake_creates:
  assumes "stored_source (en_clock e 80) source" "NormalizeSourceIntakeRecord U r = r"
    "findExistingSourceIntakeObservation (TrimSpace (ob_ObservationID source)) (elems (ob_Refs source)) s = None"
    "CreateObservation U e (intake_observation U source r) s = (Inr ob, t)"
  shows "EnsureSourceIntakeObservation U e source r s = (Inr (ob, True), t)"
proof -
  have n: "normalizeObservationRecord (en_clock e 80) source (ob_Actor source) = source" "TrimSpace (ob_ObservationID source) \<noteq> ''''"
    using assms(1) stored_source_fields(1) [OF assms(1)] by (simp_all add: stored_source_def blank_def)
  show ?thesis
    using assms(3,4) n(2) unfolding EnsureSourceIntakeObservation_def Let_def n(1) assms(2) intake_observation_def by simp
qed

section \<open>The review of a red source\<close>

lemma normalize_source:
  "ri_Source (normalizeReviewRoomItem now i) = (if TrimSpace (ri_Source i) = '''' then ''manual'' else TrimSpace (ri_Source i))"
  "ri_Ref (normalizeReviewRoomItem now i) = normalizeRef (ri_Ref i)"
  by (simp_all add: normalizeReviewRoomItem_def Let_def)

lemma annotate_source [simp]:
  "ri_Source (annotateReviewRoomContradictions wr now room sec i) = ri_Source (normalizeReviewRoomItem now i)"
  "ri_Ref (annotateReviewRoomContradictions wr now room sec i) = ri_Ref (normalizeReviewRoomItem now i)"
proof -
  have "TrimSpace ''manual'' = ''manual''" by code_simp
  then show "ri_Source (annotateReviewRoomContradictions wr now room sec i) = ri_Source (normalizeReviewRoomItem now i)"
    "ri_Ref (annotateReviewRoomContradictions wr now room sec i) = ri_Ref (normalizeReviewRoomItem now i)"
    by (simp_all add: annotateReviewRoomContradictions_def normalize_source Let_def)
qed

text \<open>An item that names its source and its record is found by them once it is open.\<close>

lemma ensure_open_found:
  assumes "room_inv room" "\<not> IsZero now" "ensureReviewRoomItem wr now room ''open'' i = Inr (room', added)"
    "TrimSpace (ri_Text i) \<notin> ri_Text ` set (room_items room)" "ri_Source i = src" "TrimSpace src = src" "src \<noteq> ''''" "ri_Ref i = Some ref"
  shows "\<exists>j. rm_Open room' = rm_Open room @ [j] \<and> ri_Text j = TrimSpace (ri_Text i) \<and> ri_Source j = src \<and> ri_Ref j = normalizeRef (Some ref)"
    "rm_Accepted room' = rm_Accepted room" "rm_Deferred room' = rm_Deferred room"
    "findOpenReviewRoomItem room' src (Some ref) \<noteq> None"
proof -
  let ?i = "normalizeReviewRoomItem now i"
  let ?j = "annotateReviewRoomContradictions wr now room ''open'' ?i"
  have o: "normalizeReviewSection ''open'' = ''open''" by code_simp
  have c: "copyReviewRoom now room = room" using assms(1) by (simp add: copyReviewRoom_normal room_inv_normal)
  have t: "TrimSpace (ri_Text i) \<noteq> []" using assms(3) o by (auto simp: ensureReviewRoomItem_def Let_def split: if_splits)
  have "\<not> reviewRoomHasItem room (TrimSpace (ri_Text i))" using assms(4) t by (subst reviewRoomHasItem_iff) auto
  then have r: "room' = normalizeReviewRoom now ((section_append room ''open'' ?j)\<lparr>rm_UpdatedAt := Some now\<rparr>)"
    using assms(3) o c t by (simp add: ensureReviewRoomItem_def Let_def)
  have "room_inv ((section_append room ''open'' ?j)\<lparr>rm_UpdatedAt := Some now\<rparr>)"
    using room_inv_section_append [OF assms(1) _ annotate_normal [OF assms(2)], of "''open''"] t assms(4) by simp
  then have r: "room' = (section_append room ''open'' ?j)\<lparr>rm_UpdatedAt := Some now\<rparr>"
    using r normalizeReviewRoom_normal room_inv_normal by metis
  have j: "ri_Text ?j = TrimSpace (ri_Text i)" "ri_Source ?j = src" "ri_Ref ?j = normalizeRef (Some ref)"
    using assms(5-8) by (simp_all add: normalize_source)
  show "\<exists>j. rm_Open room' = rm_Open room @ [j] \<and> ri_Text j = TrimSpace (ri_Text i) \<and> ri_Source j = src \<and> ri_Ref j = normalizeRef (Some ref)"
    "rm_Accepted room' = rm_Accepted room" "rm_Deferred room' = rm_Deferred room"
    using j by (simp_all add: r section_append_def)
  have "TrimSpace (refString (ri_Ref ?j)) = TrimSpace (refString (Some ref))"
    unfolding j by (simp add: refString_def normalizeRef_def blank_def)
  moreover have "?j \<in> set (rm_Open room')" by (simp add: r section_append_def)
  ultimately show "findOpenReviewRoomItem room' src (Some ref) \<noteq> None"
    unfolding findOpenReviewRoomItem_def Let_def option.map_disc_iff find_None_iff using j(2) by blast
qed

text \<open>The text of the item starts with letters, so it is never blank.\<close>

lemma red_policy_item_fields:
  "ri_Source (red_policy_item now r ob) = ''source_intake.red_policy''"
  "\<not> blank (ob_ObservationID ob) \<Longrightarrow> ri_Ref (red_policy_item now r ob) = Some (TrimSpace (ob_ObservationID ob))"
  "TrimSpace (ri_Text (red_policy_item now r ob)) \<noteq> ''''"
proof -
  have "TrimSpace ''source_intake.red_policy'' = ''source_intake.red_policy''" by code_simp
  then show "ri_Source (red_policy_item now r ob) = ''source_intake.red_policy''"
    by (simp add: red_policy_item_def newSignalReviewRoomItem_def newStructuredReviewRoomItem_def normalizeReviewRoomItem_def Let_def)
  show "\<not> blank (ob_ObservationID ob) \<Longrightarrow> ri_Ref (red_policy_item now r ob) = Some (TrimSpace (ob_ObservationID ob))"
    by (simp add: red_policy_item_def newSignalReviewRoomItem_def newStructuredReviewRoomItem_def normalizeReviewRoomItem_def
        normalizeRef_def blank_def Let_def)
  let ?t = "ri_Text (red_policy_item now r ob)"
  have i: "ink (CHR ''.'')" by code_simp
  have "CHR ''.'' \<in> set ?t"
    unfolding red_policy_item_def newSignalReviewRoomItem_def newStructuredReviewRoomItem_def normalizeReviewRoomItem_def Let_def
      ReviewRoomItem.select_convs
    by (rule ink_stays [OF i]) simp
  then have "CHR ''.'' \<in> set (TrimSpace ?t)" by (rule ink_stays [OF i])
  then show "TrimSpace ?t \<noteq> ''''" by auto
qed

end
