(* ===== verification/Guarantees_Intake.thy ===== *)
theory Guarantees_Intake
  imports Observation_Specs Demo
begin

text \<open>
  Guarantees of the source intake and of the observation registry: the text form of a record, the
  review that a red source opens and how an excerpt can avoid it, and what a query returns.
\<close>

section \<open>The text form of a source\<close>

text \<open>C34. A source record survives its text form: a normal record whose fields are single lines and whose excerpt
  has no line that reads as a header or as the marker is what the parser returns for the text built from it.\<close>

theorem intake_roundtrip:
  assumes "NormalizeSourceIntakeRecord U r = r" "intake_plain r"
    "list_all (inert_line ''excerpt:'' intake_keys) (split_on (CHR 0x0A) (si_Excerpt r))"
  shows "ParseSourceIntakeRawExcerpt U (BuildSourceIntakeRawExcerpt U r) = r"
  by (rule intake_text_roundtrip [OF assms])

definition demo_intake :: "string \<Rightarrow> SourceIntakeRecord" where
  "demo_intake excerpt =
     \<lparr>si_IntakeClass = ''manual_drop'', si_PolicyColor = ''red'', si_Title = ''leak'', si_URL = '''', si_Excerpt = excerpt,
      si_FounderNote = '''', si_DomainTags = [''law''], si_WorldviewTags = [], si_SuggestedRoutes = [''97layer''],
      si_PriorityScore = 70, si_Disposition = ''observe'', si_DispositionNote = ''''\<rparr>"

lemma demo_intake_normal:
  "NormalizeSourceIntakeRecord (\<lambda>_. None) (demo_intake ''two lines'') = demo_intake ''two lines''"
  "intake_plain (demo_intake ''two lines'')"
  "list_all (inert_line ''excerpt:'' intake_keys) (split_on (CHR 0x0A) (si_Excerpt (demo_intake ''two lines'')))"
  by code_simp+

theorem intake_roundtrip_witness:
  "ParseSourceIntakeRawExcerpt (\<lambda>_. None) (BuildSourceIntakeRawExcerpt (\<lambda>_. None) (demo_intake ''two lines'')) = demo_intake ''two lines''"
  by (rule intake_roundtrip [OF demo_intake_normal])

section \<open>The review of a red source\<close>


definition demo_source :: ObservationRecord where
  "demo_source =
     \<lparr>ob_ObservationID = ''observation_7'', ob_SourceChannel = ''telegram'', ob_CapturedAt = 7, ob_Actor = ''founder'',
      ob_Topic = ''inbox'', ob_Refs = Some [''msg:1''], ob_Confidence = ''high'', ob_RawExcerpt = ''raw'', ob_NormalizedSummary = ''raw''\<rparr>"

lemma demo_source_stored: "stored_source (en_clock demo_env 80) demo_source"
proof -
  have "stored_source 1080 demo_source" by code_simp
  then show ?thesis by (simp add: demo_env_def)
qed

lemma demo_source_new: "findExistingSourceIntakeObservation sid refs demo_service = None"
  by (simp add: findExistingSourceIntakeObservation_def ListObservations_def filterObservations_def demo_service_def find_None_iff)

lemma demo_room_inv: "room_inv (sv_reviewRoom demo_service)"
  using restorable_demo by (simp add: restorable_def)

lemma demo_no_audit: "\<not> en_auditPromotion demo_env"
  by (simp add: demo_env_def)


text \<open>C36. The excerpt of a source can take its red policy away: the parser goes on reading headers in the excerpt, so a
  red record whose excerpt has the line \<open>policy_color=green\<close> is recorded, is green for every later reader, and opens
  no review unless its class asks for a routing review.\<close>

theorem excerpt_overrides_policy:
  assumes "clock_ok e" "disk_works e s" "room_inv (sv_reviewRoom s)" "\<not> en_auditPromotion e"
    "stored_source (en_clock e 80) source"
    "findExistingSourceIntakeObservation (TrimSpace (ob_ObservationID source)) (elems (ob_Refs source)) s = None"
    "NormalizeSourceIntakeRecord U r = r" "intake_plain r" "si_PolicyColor r = ''red''" "si_IntakeClass r \<noteq> ''public_collector''"
    "split_on (CHR 0x0A) (si_Excerpt r) = pre @ ''policy_color=green'' # post"
    "list_all (inert_line ''excerpt:'' intake_keys) (pre @ post)"
  shows "\<exists>ob t. EnsureSourceIntakeObservation U e source r s = (Inr (ob, True), t) \<and>
     sv_observation t = sv_observation s @ [ob] \<and> si_PolicyColor (ParseSourceIntakeRawExcerpt U (ob_RawExcerpt ob)) = ''green'' \<and>
     sv_reviewRoom t = sv_reviewRoom s"
proof -
  let ?item = "intake_observation U source r" let ?ob = "normalizeObservationRecord (en_clock e 60) ?item (currentActor e s)"
  have x: "si_Excerpt r \<noteq> ''''" using assms(11) by (cases pre) auto
  note rec = intake_observation_recorded [OF assms(5,7) x, of e "currentActor e s"]
  have g: "trimmed_right ''green''" "normalizeSourceIntakePolicyColor (TrimSpace ''green'') = ''green''" by code_simp+
  have green: "split_on (CHR 0x0A) (si_Excerpt r) = pre @ (''policy_color='' @ ''green'') # post" using assms(11) by simp
  note c = intake_text_color [OF assms(7,8) green g(1) assms(12)]
  have cls: "TrimSpace (si_IntakeClass r) = si_IntakeClass r" using class_normal intake_fields(1) [OF assms(7)] .
  have sug: "reviewRoomSuggestionForObservation U (en_clock e 61) ?ob = None"
    using rec(2) c g(2) cls assms(10) by (simp add: reviewRoomSuggestionForObservation_def sourceIntakeNeedsRouteReview_def Let_def)
  obtain t where t: "CreateObservation U e ?item s = (Inr ?ob, t)"
    using CreateObservation_works [OF assms(1,2) rec(1), of U] sug by auto
  note cr = CreateObservation_Inr [OF t assms(1,3,4)]
  have "sv_observation t = sv_observation s @ [?ob]" using core_eqD(6) [OF cr(2)] by simp
  then show ?thesis
    using EnsureSourceIntake_creates [OF assms(5,7,6) t] cr(3) sug c(1) g(2) rec(2) by auto
qed

abbreviation hidden :: string where
  "hidden \<equiv> ''text'' @ CHR 0x0A # ''policy_color=green''"

theorem excerpt_overrides_policy_witness:
  "\<exists>ob t. EnsureSourceIntakeObservation (\<lambda>_. None) demo_env demo_source (demo_intake hidden) demo_service = (Inr (ob, True), t) \<and>
     sv_reviewRoom t = sv_reviewRoom demo_service"
proof -
  have h: "NormalizeSourceIntakeRecord (\<lambda>_. None) (demo_intake hidden) = demo_intake hidden" "intake_plain (demo_intake hidden)"
    "si_PolicyColor (demo_intake hidden) = ''red''" "si_IntakeClass (demo_intake hidden) \<noteq> ''public_collector''"
    "split_on (CHR 0x0A) (si_Excerpt (demo_intake hidden)) = [''text''] @ ''policy_color=green'' # []"
    "list_all (inert_line ''excerpt:'' intake_keys) ([''text''] @ [])"
    by code_simp+
  show ?thesis
    using excerpt_overrides_policy [OF clock_ok_demo disk_works_demo demo_room_inv demo_no_audit demo_source_stored demo_source_new h]
    by blast
qed

section \<open>Queries\<close>


end
