(* ===== verification/Text_Limits.thy ===== *)
theory Text_Limits
  imports Text_Mask
begin

text \<open>
  Runes of concatenated texts: decoding never looks past a byte that is not a continuation byte, so a text
  that is cut at such a byte decodes piece by piece. Hence trimming never adds runes and \<open>limitText\<close> keeps its
  limit, also for texts that are not valid UTF-8.
\<close>

definition continuation :: "char \<Rightarrow> bool" where
  "continuation c \<longleftrightarrow> 0x80 \<le> (of_char c :: nat) \<and> (of_char c :: nat) \<le> 0xBF"

definition cut_ok :: "string \<Rightarrow> bool" where
  "cut_ok b \<longleftrightarrow> b = [] \<or> \<not> continuation (hd b)"

lemma decode_rune_append:
  assumes "a \<noteq> []" "cut_ok b"
  shows "decode_rune (a @ b) = decode_rune a"
proof (cases b)
  case (Cons c b')
  then have c: "(of_char c :: nat) < 128 \<or> 191 < (of_char c :: nat)"
    using assms(2) by (auto simp: cut_ok_def continuation_def)
  obtain x a1 where x: "a = x # a1" using assms(1) by (cases a) auto
  show ?thesis
  proof (cases a1)
    case Nil
    then show ?thesis using c x Cons by (elim disjE) (simp_all add: decode_rune_def Let_def)
  next
    case y: (Cons y a2)
    show ?thesis
    proof (cases a2)
      case Nil
      then show ?thesis using c x y Cons by (elim disjE) (simp_all add: decode_rune_def Let_def)
    next
      case z: (Cons z a3)
      show ?thesis using c x y z Cons by (cases a3; elim disjE) (simp_all add: decode_rune_def Let_def)
    qed
  qed
qed simp

lemma decode_rune_bound: "s \<noteq> [] \<Longrightarrow> snd (decode_rune s) \<le> length s"
  by (cases s) (auto simp: decode_rune_def Let_def)

lemma split_runes_Nil [simp]: "split_runes [] = []"
  by (subst split_runes.simps) simp

lemma split_runes_append: "cut_ok b \<Longrightarrow> split_runes (a @ b) = split_runes a @ split_runes b"
proof (induction a rule: split_runes.induct)
  case (1 a)
  show ?case
  proof (cases "a = []")
    case False
    obtain r w where d: "decode_rune a = (r, w)" by fastforce
    have w: "w \<le> length a" using decode_rune_bound [OF False] d by simp
    have "decode_rune (a @ b) = (r, w)" using decode_rune_append [OF False 1(2)] d by simp
    then have "split_runes (a @ b) = (r, take w a) # split_runes (drop w a @ b)"
      using False w by (subst split_runes.simps) simp
    moreover have "split_runes a = (r, take w a) # split_runes (drop w a)"
      using False d by (subst split_runes.simps) simp
    ultimately show ?thesis using 1(1) [OF False d [symmetric]] 1(2) by simp
  qed simp
qed

section \<open>Trimming\<close>

lemma space_rune_decode: "w \<in> set space_runes \<Longrightarrow> snd (decode_rune (w @ s)) = length w \<and> w \<noteq> [] \<and> cut_ok w"
proof -
  have "list_all (\<lambda>w. snd (decode_rune (w @ s)) = length w \<and> w \<noteq> [] \<and> cut_ok w) space_runes"
    by (simp add: space_runes_def decode_rune_def cut_ok_def continuation_def Let_def)
  then show "w \<in> set space_runes \<Longrightarrow> snd (decode_rune (w @ s)) = length w \<and> w \<noteq> [] \<and> cut_ok w"
    by (auto simp: list_all_iff)
qed

lemma find_prefix:
  "find (\<lambda>w. w \<noteq> [] \<and> starts_with s w) ws = Some w \<Longrightarrow> w \<in> set ws \<and> s = w @ drop (length w) s"
  unfolding find_Some_iff starts_with_def by (metis append_take_drop_id nth_mem)

lemma trim_left_runes:
  "set ws \<subseteq> set space_runes \<Longrightarrow> length (split_runes (trim_by ws s)) \<le> length (split_runes s)"
proof (induction ws s rule: trim_by.induct)
  case (1 ws s)
  show ?case
  proof (cases "find (\<lambda>w. w \<noteq> [] \<and> starts_with s w) ws")
    case None
    then show ?thesis by (subst trim_by_unfold) simp
  next
    case (Some w)
    then have w: "w \<in> set space_runes" "s = w @ drop (length w) s" using find_prefix 1(2) by blast+
    obtain r where r: "decode_rune s = (r, length w)"
      using space_rune_decode [OF w(1), of "drop (length w) s"] w(2) by (metis prod.collapse)
    have "s \<noteq> []" using space_rune_decode [OF w(1)] w(2) by auto
    then have "length (split_runes s) = Suc (length (split_runes (drop (length w) s)))"
      using r by (subst split_runes.simps) simp
    moreover have "trim_by ws s = trim_by ws (drop (length w) s)" using Some by (subst trim_by_unfold) simp
    ultimately show ?thesis using 1(1) [OF Some 1(2)] by simp
  qed
qed

lemma trim_right_runes:
  "set ws \<subseteq> set (map rev space_runes) \<Longrightarrow> length (split_runes (rev (trim_by ws s))) \<le> length (split_runes (rev s))"
proof (induction ws s rule: trim_by.induct)
  case (1 ws s)
  show ?case
  proof (cases "find (\<lambda>w. w \<noteq> [] \<and> starts_with s w) ws")
    case None
    then show ?thesis by (subst trim_by_unfold) simp
  next
    case (Some w)
    have w: "rev w \<in> set space_runes" "s = w @ drop (length w) s" using find_prefix [OF Some] 1(2) by auto
    have "rev s = rev (drop (length w) s) @ rev w" using w(2) by (metis rev_append)
    then have "split_runes (rev s) = split_runes (rev (drop (length w) s)) @ split_runes (rev w)"
      using split_runes_append space_rune_decode [OF w(1)] by simp
    moreover have "trim_by ws s = trim_by ws (drop (length w) s)" using Some by (subst trim_by_unfold) simp
    ultimately show ?thesis using 1(1) [OF Some 1(2)] by simp
  qed
qed

lemma TrimSpace_runes: "utf8Len (TrimSpace s) \<le> utf8Len s"
  using trim_right_runes [of "map rev space_runes" "rev (trim_by space_runes s)"] trim_left_runes [of space_runes s]
  by (simp add: utf8Len_def TrimSpace_def)

section \<open>Limits\<close>

lemma decode_rune_take:
  assumes "s \<noteq> []" "decode_rune s = (r, w)" "r \<noteq> 0xFFFD"
  shows "decode_rune (take w s) = (r, w) \<and> cut_ok (take w s)"
proof -
  obtain x s1 where x: "s = x # s1" using assms(1) by (cases s) auto
  show ?thesis
  proof (cases s1)
    case Nil
    then show ?thesis using assms x by (auto simp: decode_rune_def cut_ok_def continuation_def Let_def split: if_splits)
  next
    case y: (Cons y s2)
    show ?thesis
    proof (cases s2)
      case Nil
      then show ?thesis using assms x y by (auto simp: decode_rune_def cut_ok_def continuation_def Let_def split: if_splits)
    next
      case z: (Cons z s3)
      show ?thesis
        using assms x y z by (cases s3) (auto simp: decode_rune_def cut_ok_def continuation_def Let_def split: if_splits)
    qed
  qed
qed

lemma token_encoding:
  "t \<in> set (split_runes s) \<Longrightarrow> length (split_runes (rune_encoding t)) = 1 \<and> cut_ok (rune_encoding t)"
proof (induction s rule: split_runes.induct)
  case (1 s)
  have s: "s \<noteq> []" using 1(2) by auto
  obtain r w where d: "decode_rune s = (r, w)" by fastforce
  have sp: "split_runes s = (r, take w s) # split_runes (drop w s)" using s d by (subst split_runes.simps) simp
  show ?case
  proof (cases "t \<in> set (split_runes (drop w s))")
    case True
    then show ?thesis using 1(1) [OF s d [symmetric]] by simp
  next
    case False
    then have t: "t = (r, take w s)" using 1(2) sp by simp
    show ?thesis
    proof (cases "r = 0xFFFD")
      case True
      have "split_runes [CHR 0xEF, CHR 0xBF, CHR 0xBD] = [(0xFFFD, [CHR 0xEF, CHR 0xBF, CHR 0xBD])]"
        by (subst split_runes.simps) (simp add: decode_rune_def Let_def)
      then show ?thesis using t True by (simp add: rune_encoding_def cut_ok_def continuation_def)
    next
      case False
      have dt: "decode_rune (take w s) = (r, w)" "cut_ok (take w s)" using decode_rune_take [OF s d False] by simp_all
      have w: "0 < w" "w \<le> length s" using decode_rune_width [of s] decode_rune_bound [OF s] d by simp_all
      then have "split_runes (take w s) = [(r, take w s)]" using dt s by (subst split_runes.simps) simp
      then show ?thesis using t False dt(2) by (simp add: rune_encoding_def)
    qed
  qed
qed

lemma encodings_runes:
  "set ts \<subseteq> set (split_runes s) \<Longrightarrow>
     length (split_runes (concat (map rune_encoding ts))) = length ts \<and> cut_ok (concat (map rune_encoding ts))"
proof (induction ts)
  case (Cons t ts)
  then have t: "length (split_runes (rune_encoding t)) = 1" "cut_ok (rune_encoding t)" using token_encoding [of t s] by auto
  then have "rune_encoding t \<noteq> []" by auto
  then have "cut_ok (rune_encoding t @ concat (map rune_encoding ts))" using t(2) by (auto simp: cut_ok_def)
  then show ?case using Cons t split_runes_append by simp
qed (simp add: cut_ok_def)

lemma limitText_bound:
  assumes "0 < mx"
  shows "utf8Len (limitText text mx) \<le> mx"
proof -
  let ?ts = "split_runes (TrimSpace text)" let ?b = "concat (map rune_encoding (take (mx - 1) ?ts))"
  have dots: "length (split_runes (runes [0x2026])) = 1" "cut_ok (runes [0x2026])"
    by (simp_all add: runes_def utf8_rune_def cut_ok_def continuation_def, subst split_runes.simps)
       (simp add: decode_rune_def Let_def)
  have "length (split_runes ?b) \<le> mx - 1"
    using encodings_runes [of "take (mx - 1) ?ts" "TrimSpace text"] set_take_subset [of "mx - 1" ?ts] by simp
  then have "length (split_runes (TrimSpace ?b @ runes [0x2026])) \<le> mx"
    using TrimSpace_runes [of ?b] dots assms split_runes_append [OF dots(2), of "TrimSpace ?b"] by (simp add: utf8Len_def)
  then show ?thesis using assms by (auto simp: limitText_def utf8Len_def Let_def)
qed

end
