(* ===== verification/Session_Specs.thy ===== *)
theory Session_Specs
  imports Observation_Specs Text_Limits
begin

text \<open>
  Sessions: what normalisation gives a continuity record, which fields it leaves alone when it is
  repeated, and what the session operations do to the continuity store.
\<close>

section \<open>Well-formed records\<close>

definition continuity_wf :: "ContinuityRecord \<Rightarrow> bool" where
  "continuity_wf r \<longleftrightarrow>
     \<not> blank (co_RecordID r) \<and> \<not> blank (co_Source r) \<and> \<not> blank (co_Actor r) \<and>
     co_Status r \<in> {''active'', ''stale'', ''resolved''} \<and> (co_ResolvedAt r \<noteq> None \<longleftrightarrow> co_Status r = ''resolved'') \<and>
     \<not> IsZero (co_CreatedAt r) \<and> \<not> IsZero (co_UpdatedAt r) \<and> length (co_Notes r) \<le> 50 \<and>
     list_all (\<lambda>n. cn_Text n \<noteq> '''' \<and> utf8Len (cn_Text n) \<le> 500) (co_Notes r)"

lemma normalize_notes_texts:
  "list_all (\<lambda>n. cn_Text n \<noteq> '''' \<and> utf8Len (cn_Text n) \<le> 500) (fst (normalize_notes at ns refs))"
proof (induction ns arbitrary: refs)
  case (Cons n ns)
  have "utf8Len (cn_Text (normalizeContinuityNoteAt at n)) \<le> 500"
    using limitText_bound [of 500] by (simp add: normalizeContinuityNoteAt_def Let_def)
  then show ?case using Cons by (auto simp: Let_def split: prod.splits) (metis fst_conv)
qed simp

lemma trim_notes: "length (trimContinuityNotes ns) \<le> 50" "set (trimContinuityNotes ns) \<subseteq> set ns"
  by (auto simp: trimContinuityNotes_def continuityNoteHistoryLimit_def dest: in_set_dropD)

lemma continuity_ids: "\<not> blank (nextContinuityRecordID t)" "\<not> blank ''terminal''"
proof -
  show "\<not> blank ''terminal''" by code_simp
  have "ink (CHR ''c'')" by code_simp
  then have "CHR ''c'' \<in> set (TrimSpace (nextContinuityRecordID t))"
    by (rule ink_stays) (simp add: nextContinuityRecordID_def)
  then show "\<not> blank (nextContinuityRecordID t)" by (auto simp: blank_def)
qed

lemma source_not_blank: "\<not> blank (normalizeContinuitySource v)"
  using continuity_ids(2) by (simp add: normalizeContinuitySource_def Let_def blank_def)

lemma status_values: "\<not> IsZero (co_UpdatedAt r) \<Longrightarrow> continuityStatusAt now r \<in> {''active'', ''stale'', ''resolved''}"
  by (simp add: continuityStatusAt_def Let_def)

lemma normalize_wf:
  assumes "\<not> IsZero now"
  shows "continuity_wf (normalizeContinuityRecordAt dflt now r)"
proof -
  let ?created = "if IsZero (co_CreatedAt r) then now else co_CreatedAt r"
  let ?updated = "if IsZero (co_UpdatedAt r) then ?created else co_UpdatedAt r"
  obtain ns refs where n: "normalize_notes ?updated (co_Notes r) (normalizeObservationRefs (Some (co_Refs r))) = (ns, refs)"
    by fastforce
  have u: "\<not> IsZero ?updated" using assms by simp
  have "list_all (\<lambda>n. cn_Text n \<noteq> '''' \<and> utf8Len (cn_Text n) \<le> 500) (trimContinuityNotes ns)"
    using normalize_notes_texts [of ?updated "co_Notes r" "normalizeObservationRefs (Some (co_Refs r))"] trim_notes(2) [of ns]
    by (auto simp: n list_all_iff)
  then show ?thesis
    using status_values [of "r\<lparr>co_UpdatedAt := ?updated\<rparr>" now] u assms trim_notes(1) [of ns] continuity_ids(1) source_not_blank
      ResolveActor_not_blank [of dflt "[co_Actor r]"]
    unfolding continuity_wf_def normalizeContinuityRecordAt_def Let_def n
    by (auto simp: blank_def simp del: ResolveActor.simps split: option.splits)
qed

definition store_wf :: "ContinuityRecord list \<Rightarrow> bool" where
  "store_wf rs \<longleftrightarrow> list_all continuity_wf rs \<and> sorted_wrt (\<lambda>a b. \<not> continuity_less b a) rs"

lemma store_wf_normal: "\<not> IsZero now \<Longrightarrow> store_wf (normalizeContinuityRecordsAt dflt now rs)"
  using continuity_order.sorted_stable_sort normalize_wf
  by (auto simp: store_wf_def normalizeContinuityRecordsAt_def sortContinuityRecords_def list_all_iff)

lemma replace_wf: "continuityStore_replace dflt now rs = Inr items \<Longrightarrow> \<not> IsZero now \<Longrightarrow> store_wf items"
  by (auto simp: continuityStore_replace_def Let_def store_wf_normal split: option.splits)

section \<open>Frames\<close>

text \<open>The continuity store is touched by the session operations alone.\<close>

lemma autoOpen_continuity: "sv_continuity (snd (autoOpenReviewRoomItemLocked e k i s)) = sv_continuity s"
  by (simp add: autoOpenReviewRoomItemLocked_def Let_def split: sum.splits prod.splits)

lemma persist_continuity: "sv_continuity (snd (persistLocked e s)) = sv_continuity s"
proof (rule core_eqD(7))
  show "core (snd (persistLocked e s)) = core s" by (rule persistLocked_frame(1) [OF surjective_pairing])
qed

lemma warn_continuity [simp]: "sv_continuity (warn_locked e k i s) = sv_continuity s"
  using autoOpen_continuity [of e k i s] persist_continuity
  by (auto simp: warn_locked_def split: prod.splits option.splits)

lemma restore_continuity_other [simp]:
  "sv_continuity (restore_event e ev s) = sv_continuity s" "sv_continuity (restore_room e r s) = sv_continuity s"
  by (simp_all add: restore_event_def restore_room_def)

lemma record_continuity: "sv_continuity (snd (recordObservationLocked e k item b s)) = sv_continuity s"
  by (simp add: recordObservationLocked_def event_or_def Let_def split: sum.splits)

lemma create_continuity: "sv_continuity (snd (createObservationLocked U e k item s)) = sv_continuity s"
proof -
  obtain r s1 where r: "recordObservationLocked e k item True s = (r, s1)" by fastforce
  have "sv_continuity s1 = sv_continuity s" using record_continuity [of e k item True s] r by simp
  moreover have "sv_continuity t = sv_continuity s1" if "autoOpenReviewRoomItemLocked e (Suc k) i s1 = (x, t)" for i x t
    using autoOpen_continuity [of e "Suc k" i s1] that by simp
  ultimately show ?thesis
    by (cases r) (auto simp: createObservationLocked_def r suggest_or_def room_or_def split: option.splits prod.splits)
qed

lemma appendAuto_continuity: "sv_continuity (snd (appendAutoObservationLocked U e k item s)) = sv_continuity s"
proof -
  obtain r s1 where r: "createObservationLocked U e k item s = (r, s1)" by fastforce
  obtain p s2 where p: "persistLocked e s1 = (p, s2)" by fastforce
  have "sv_continuity s1 = sv_continuity s" "sv_continuity s2 = sv_continuity s1"
    using create_continuity [of U e k item s] persist_continuity [of e s1] r p by simp_all
  then show ?thesis
    by (cases r; cases p) (simp_all add: appendAutoObservationLocked_def r p restore_observations_def)
qed

lemma capitalize_continuity [simp]: "sv_continuity (finish_capitalize e i ev s) = sv_continuity s"
  by (simp add: finish_capitalize_def currentReviewRoomLocked_def appendCapitalizationEntry_def Let_def split: prod.splits option.splits if_splits)

lemma observe_continuity [simp]: "sv_continuity (finish_observe U e i ev s) = sv_continuity s"
proof -
  have "sv_continuity t = sv_continuity s" if "appendAutoObservationLocked U e k item s = (x, t)" for k item x t
    using appendAuto_continuity [of U e k item s] that by simp
  then show ?thesis by (auto simp: finish_observe_def split: prod.splits option.splits)
qed

section \<open>Operations\<close>

text \<open>After every session operation, successful or not, the store is as it was or freshly normalised.\<close>

lemma persist_or_continuity:
  assumes "\<And>t. store_wf (sv_continuity (undo t))" "store_wf (sv_continuity s)"
  shows "store_wf (sv_continuity (snd (persist_or e undo x s)))"
  using assms persist_continuity [of e s] by (cases "persistLocked e s") (auto simp: persist_or_def split: option.splits)

lemma event_or_continuity:
  assumes "store_wf (sv_continuity (undo s))" "\<And>es. store_wf (sv_continuity (snd (k (s\<lparr>sv_event := es\<rparr>))))"
  shows "store_wf (sv_continuity (snd (event_or ev undo k s)))"
  using assms by (simp add: event_or_def split: sum.splits)

lemma restored_wf: "clock_ok e \<Longrightarrow> store_wf (sv_continuity (restore_continuity e old t))"
  by (simp add: restore_continuity_def newContinuityStore_def store_wf_normal)

lemma CheckpointSession_wf:
  assumes "clock_ok e" "store_wf (sv_continuity s)"
  shows "store_wf (sv_continuity (snd (CheckpointSession e i s)))"
proof -
  have "store_wf items" if "continuityStore_replace dflt (en_clock e 67) rs = Inr items" for dflt rs items
    using replace_wf [OF that] assms(1) by simp
  then show ?thesis
    using assms(2) unfolding CheckpointSession_def Let_def
    by (auto split: option.splits sum.splits intro!: persist_or_continuity simp: restored_wf [OF assms(1)])
qed

lemma SessionNote_wf:
  assumes "clock_ok e" "store_wf (sv_continuity s)"
  shows "store_wf (sv_continuity (snd (SessionNote e i s)))"
proof -
  have "store_wf items" if "continuityStore_replace dflt (en_clock e 67) rs = Inr items" for dflt rs items
    using replace_wf [OF that] assms(1) by simp
  moreover have "sv_continuity t = sv_continuity u" if "recordObservationLocked e 0 ob True u = (r, t)" for ob u r t
    using record_continuity [of e 0 ob True u] that by simp
  ultimately show ?thesis
    using assms(2) unfolding SessionNote_def Let_def
    by (auto split: option.splits sum.splits prod.splits intro!: persist_or_continuity event_or_continuity simp: restored_wf [OF assms(1)])
qed

lemma suggest_or_continuity:
  assumes "\<And>t. sv_continuity t = sv_continuity s \<Longrightarrow> store_wf (sv_continuity (undo t))"
    "\<And>t. sv_continuity t = sv_continuity s \<Longrightarrow> store_wf (sv_continuity (snd (k t)))"
  shows "store_wf (sv_continuity (snd (suggest_or e n sug undo k s)))"
proof (cases sug)
  case (Some i)
  obtain x t where t: "autoOpenReviewRoomItemLocked e n i s = (x, t)" by fastforce
  then have "sv_continuity t = sv_continuity s" using autoOpen_continuity [of e n i s] by simp
  then show ?thesis using assms Some t by (cases x) (simp_all add: suggest_or_def room_or_def)
qed (simp add: suggest_or_def assms)

lemma FinishSession_wf:
  assumes "clock_ok e" "store_wf (sv_continuity s)"
  shows "store_wf (sv_continuity (snd (FinishSession U e i s)))"
proof -
  have items: "store_wf items" if "continuityStore_replace dflt (en_clock e 67) rs = Inr items" for dflt rs items
    using replace_wf [OF that] assms(1) by simp
  have saved: "store_wf (sv_continuity (snd (case persistLocked e t of
        (Some err, u) \<Rightarrow> (Inl err, restore_event e ev (restore_room e room ((restore_continuity e old u)\<lparr>sv_memory := m\<rparr>)))
      | (None, u) \<Rightarrow> (Inr x, finish_observe U e j event (finish_capitalize e j event u)))))"
    if "store_wf (sv_continuity t)" for t ev room old m x j event
    using that persist_continuity [of e t] restored_wf [OF assms(1)] by (cases "persistLocked e t") (auto split: option.splits)
  show ?thesis
    using assms(2) unfolding FinishSession_def Let_def
    by (auto split: option.splits sum.splits intro!: event_or_continuity suggest_or_continuity saved) (erule items)
qed

section \<open>What a checkpoint records\<close>

text \<open>The fields that repeated normalisation leaves alone.\<close>

definition session_fields ::
  "ContinuityRecord \<Rightarrow> (string \<times> string \<times> string \<times> bool) \<times> (string \<times> string option \<times> string list \<times> string list \<times> string option) \<times> time \<times> time" where
  "session_fields r =
     ((co_RecordID r, co_Source r, co_Actor r, co_Status r = ''resolved''),
      (co_CurrentFocus r, co_CurrentGoal r, co_NextSteps r, co_OpenRisks r, co_HandoffNote r), co_CreatedAt r, co_UpdatedAt r)"

lemma normalizers_idem [simp]:
  "normalizeContinuitySource (normalizeContinuitySource v) = normalizeContinuitySource v"
  "normalizeOptionalString (normalizeOptionalString o') = normalizeOptionalString o'"
  "normalizeSessionCheckpointList (Some (normalizeSessionCheckpointList xs)) = normalizeSessionCheckpointList xs"
  "normalizeObservationRefs (Some (normalizeObservationRefs xs)) = normalizeObservationRefs xs"
proof -
  have "TrimSpace (ToLower ''terminal'') = ''terminal''" by code_simp
  then show "normalizeContinuitySource (normalizeContinuitySource v) = normalizeContinuitySource v"
    by (simp add: normalizeContinuitySource_def Let_def)
  show "normalizeOptionalString (normalizeOptionalString o') = normalizeOptionalString o'"
    by (simp add: normalizeOptionalString_def Let_def split: option.splits)
  show "normalizeSessionCheckpointList (Some (normalizeSessionCheckpointList xs)) = normalizeSessionCheckpointList xs"
    "normalizeObservationRefs (Some (normalizeObservationRefs xs)) = normalizeObservationRefs xs"
    using normalizeReviewRoomEvidence_idem
    by (simp_all add: normalizeSessionCheckpointList_def normalizeObservationRefs_def normalizeReviewRoomEvidence_def elems_def)
qed

lemma normalize_fields:
  assumes "\<not> IsZero now"
  shows "session_fields (normalizeContinuityRecordAt dflt now r) =
     ((if blank (co_RecordID r) then nextContinuityRecordID now else TrimSpace (co_RecordID r),
       normalizeContinuitySource (co_Source r), ResolveActor dflt [co_Actor r], TrimSpace (ToLower (co_Status r)) = ''resolved''),
      (TrimSpace (co_CurrentFocus r), normalizeOptionalString (co_CurrentGoal r),
       normalizeSessionCheckpointList (Some (co_NextSteps r)), normalizeSessionCheckpointList (Some (co_OpenRisks r)),
       normalizeOptionalString (co_HandoffNote r)),
      if IsZero (co_CreatedAt r) then now else co_CreatedAt r,
      if IsZero (co_UpdatedAt r) then if IsZero (co_CreatedAt r) then now else co_CreatedAt r else co_UpdatedAt r)"
proof -
  have "continuityStatusAt now x = ''resolved'' \<longleftrightarrow> TrimSpace (ToLower (co_Status x)) = ''resolved''" if "\<not> IsZero (co_UpdatedAt x)" for x
    using that by (simp add: continuityStatusAt_def Let_def)
  then show ?thesis
    using assms by (simp add: session_fields_def normalizeContinuityRecordAt_def Let_def blank_def split: prod.splits del: ResolveActor.simps)
qed

lemma normalize_fields_again:
  assumes "\<not> IsZero now" "\<not> IsZero now'"
  shows "session_fields (normalizeContinuityRecordAt dflt now' (normalizeContinuityRecordAt dflt now r)) =
     session_fields (normalizeContinuityRecordAt dflt now r)"
proof -
  let ?n = "normalizeContinuityRecordAt dflt now r"
  have "continuity_wf ?n" by (rule normalize_wf [OF assms(1)])
  then have w: "\<not> blank (co_RecordID ?n)" "\<not> IsZero (co_CreatedAt ?n)" "\<not> IsZero (co_UpdatedAt ?n)"
    and st: "co_Status ?n \<in> {''active'', ''stale'', ''resolved''}" by (simp_all add: continuity_wf_def)
  have "TrimSpace (ToLower ''active'') = ''active''" "TrimSpace (ToLower ''stale'') = ''stale''" "TrimSpace (ToLower ''resolved'') = ''resolved''"
    by code_simp+
  then have st: "TrimSpace (ToLower (co_Status ?n)) = co_Status ?n" using st by auto
  have t: "TrimSpace (nextContinuityRecordID now) = nextContinuityRecordID now"
  proof -
    have ink: "list_all ink ''continuity_record_''" "ink (CHR ''-'')" by code_simp+
    have "trimmed_right (itoa_nat n)" for n by (rule trimmed_right_TrimSpace) (rule TrimSpace_itoa)
    then have "trimmed_right (Itoa now)" using trimmed_right_ink [OF _ ink(2), of _ "[]"] by (simp add: Itoa_def)
    then show ?thesis
      unfolding nextContinuityRecordID_def using ink(1) by (intro TrimSpace_ink_prefix) (auto simp: list_all_iff)
  qed
  show ?thesis
    using w normalize_fields [OF assms(1), of dflt r] unfolding normalize_fields [OF assms(2), of dflt ?n]
    by (simp add: session_fields_def t st del: ResolveActor.simps)
qed

lemma normalized_records_fields:
  assumes "\<not> IsZero now" "x \<in> set (normalizeContinuityRecordsAt dflt now rs)"
  shows "\<exists>y \<in> set rs. x = normalizeContinuityRecordAt dflt now y"
  using assms(2) by (auto simp: normalizeContinuityRecordsAt_def sortContinuityRecords_def)

lemma normalized_records_hold:
  assumes "\<not> IsZero now" "y \<in> set rs"
  shows "normalizeContinuityRecordAt dflt now y \<in> set (normalizeContinuityRecordsAt dflt now rs)"
  using assms normalize_wf [OF assms(1), of dflt y]
  by (auto simp: normalizeContinuityRecordsAt_def sortContinuityRecords_def continuity_wf_def blank_def)

lemma upserted_hold:
  assumes "clock_ok e"
  shows "\<exists>x \<in> set (upserted e rs r). \<exists>t t'. \<not> IsZero t \<and> \<not> IsZero t' \<and>
     x = normalizeContinuityRecordAt (en_DEFAULT_ACTOR e) t' (normalizeContinuityRecordAt (en_DEFAULT_ACTOR e) t r)"
proof -
  let ?d = "en_DEFAULT_ACTOR e" let ?next = "normalizeContinuityRecordAt ?d (en_clock e (200 + 0)) r"
  let ?f = "\<lambda>(k, item). if co_RecordID item \<noteq> co_RecordID ?next then normalizeContinuityRecordAt ?d (en_clock e (200 + (2 + k))) item else ?next"
  let ?out = "map ?f (enumerate 0 rs)"
  let ?all = "if list_ex (\<lambda>item. co_RecordID item = co_RecordID ?next) rs then ?out else ?out @ [?next]"
  have n: "?next \<in> set ?all"
  proof (cases "list_ex (\<lambda>item. co_RecordID item = co_RecordID ?next) rs")
    case True
    then obtain k where k: "k < length rs" "co_RecordID (rs ! k) = co_RecordID ?next" by (auto simp: list_ex_iff in_set_conv_nth)
    have "k < length ?out" using k(1) by simp
    then have "?out ! k \<in> set ?out" by (rule nth_mem)
    moreover have "?out ! k = ?next" using k by (simp add: nth_enumerate_eq)
    ultimately show ?thesis using True by simp
  qed simp
  have "normalizeContinuityRecordAt ?d (en_clock e (200 + 1)) ?next \<in> set (upserted e rs r)"
    unfolding upserted_def upsertContinuityRecord_def Let_def by (rule normalized_records_hold [OF clock_okD [OF assms] n])
  then show ?thesis using clock_okD [OF assms] by blast
qed

lemma replaced_record:
  assumes "clock_ok e" "continuityStore_replace (en_DEFAULT_ACTOR e) (en_clock e 67) (upserted e rs r) = Inr items"
    "r = normalizeContinuityRecordAt (en_DEFAULT_ACTOR e) t0 q" "\<not> IsZero t0"
  shows "\<exists>x \<in> set items. session_fields x = session_fields r"
proof -
  let ?d = "en_DEFAULT_ACTOR e"
  obtain t t' where t: "\<not> IsZero t" "\<not> IsZero t'" "normalizeContinuityRecordAt ?d t' (normalizeContinuityRecordAt ?d t r) \<in> set (upserted e rs r)"
    using upserted_hold [OF assms(1), of rs r] by blast
  have i: "items = normalizeContinuityRecordsAt ?d (en_clock e 67) (upserted e rs r)"
    using assms(2) by (auto simp: continuityStore_replace_def Let_def split: option.splits)
  have "normalizeContinuityRecordAt ?d (en_clock e 67) (normalizeContinuityRecordAt ?d t' (normalizeContinuityRecordAt ?d t r)) \<in> set items"
    unfolding i by (rule normalized_records_hold) (use assms(1) t(3) in simp_all)
  moreover have "session_fields (normalizeContinuityRecordAt ?d (en_clock e 67) (normalizeContinuityRecordAt ?d t' (normalizeContinuityRecordAt ?d t r))) =
      session_fields r"
    using normalize_fields_again [OF t(2) clock_okD [OF assms(1)]] normalize_fields_again [OF t(1,2)] normalize_fields_again [OF assms(4) t(1)]
    unfolding assms(3) by metis
  ultimately show ?thesis by blast
qed

lemma currentActor_resolved [simp]: "ResolveActor dflt [currentActor e s] = currentActor e s"
proof (cases "currentActorOverride s = ''''")
  case True
  then have "currentActor e s = ResolveActor (en_DEFAULT_ACTOR e) [en_ACTOR e, en_WRITER_ID e]" by (simp add: currentActor_def Let_def)
  then show ?thesis by (simp del: ResolveActor.simps)
next
  case False
  then show ?thesis by (simp add: currentActor_def currentActorOverride_def Let_def)
qed

lemma normalize_actor: "co_Actor (normalizeContinuityRecordAt dflt now r) = ResolveActor dflt [co_Actor r]"
  by (simp add: normalizeContinuityRecordAt_def Let_def split: prod.splits del: ResolveActor.simps)

lemma latest_actor:
  assumes "latestContinuityRecord dflt now rs actor source statuses = Some x" "ResolveActor dflt [actor] \<noteq> ''*''"
  shows "co_Actor x = ResolveActor dflt [actor]"
  using assms by (auto simp: latestContinuityRecord_def Let_def find_Some_iff simp del: ResolveActor.simps)

lemma checkpoint_record_fields:
  assumes "clock_ok e" "currentActor e s \<noteq> ''*''" "input = normalizeSessionCheckpointInput i"
  shows "\<exists>q. checkpoint_record e input s = normalizeContinuityRecordAt (en_DEFAULT_ACTOR e) (en_clock e 64) q"
    "fst (snd (session_fields (checkpoint_record e input s))) =
       (ci_CurrentFocus input, ci_CurrentGoal input, elems (ci_NextSteps input), elems (ci_OpenRisks input), ci_HandoffNote input)"
    "snd (fst (session_fields (checkpoint_record e input s))) = (ci_Source input, currentActor e s, False)"
    "snd (snd (snd (session_fields (checkpoint_record e input s)))) = en_clock e 64"
proof -
  let ?d = "en_DEFAULT_ACTOR e" and ?now = "en_clock e 64"
  obtain base where b: "checkpoint_record e input s = applySessionCheckpointToContinuityRecord ?d base input ?now"
    "ResolveActor ?d [co_Actor base] = currentActor e s"
  proof (cases "latestContinuityRecord ?d (en_clock e 66) (listed e 65 s) (currentActor e s) (ci_Source input) [''active'']")
    case None
    show ?thesis
      by (rule that [of "continuityRecordFromMemory ?d (sv_memory s) (currentActor e s) (ci_Source input) ?now"])
         (simp_all add: checkpoint_record_def None Let_def continuityRecordFromMemory_def normalize_actor del: ResolveActor.simps)
  next
    case (Some x)
    show ?thesis
      by (rule that [of x]) (use latest_actor [OF Some] assms(2) in \<open>simp_all add: checkpoint_record_def Some Let_def del: ResolveActor.simps\<close>)
  qed
  let ?item = "normalizeContinuityRecordAt ?d ?now base"
  obtain q where q: "checkpoint_record e input s = normalizeContinuityRecordAt ?d ?now q" "co_Source q = ci_Source input"
    "co_Actor q = co_Actor ?item" "co_Status q = ''active''" "co_CurrentFocus q = ci_CurrentFocus input" "co_CurrentGoal q = ci_CurrentGoal input"
    "co_NextSteps q = elems (ci_NextSteps input)" "co_OpenRisks q = elems (ci_OpenRisks input)" "co_HandoffNote q = ci_HandoffNote input"
    "co_UpdatedAt q = ?now"
    by (rule that [OF b(1) [unfolded applySessionCheckpointToContinuityRecord_def Let_def]]) simp_all
  show "\<exists>q. checkpoint_record e input s = normalizeContinuityRecordAt ?d ?now q" using q(1) by blast
  have actor: "co_Actor ?item = currentActor e s"
    using b(2) by (simp add: normalize_actor del: ResolveActor.simps)
  have act: "TrimSpace (ToLower ''active'') = ''active''" by code_simp
  note f = normalize_fields [OF clock_okD [OF assms(1), of 64], of ?d q]
  show "fst (snd (session_fields (checkpoint_record e input s))) =
       (ci_CurrentFocus input, ci_CurrentGoal input, elems (ci_NextSteps input), elems (ci_OpenRisks input), ci_HandoffNote input)"
    unfolding q(1) f by (simp add: q(2-) assms(3) normalizeSessionCheckpointInput_def)
  show "snd (fst (session_fields (checkpoint_record e input s))) = (ci_Source input, currentActor e s, False)"
    unfolding q(1) f
    by (simp add: q(2-) assms(3) normalizeSessionCheckpointInput_def normalizeSessionCheckpointSource_def actor act del: ResolveActor.simps ToLower.simps)
  show "snd (snd (snd (session_fields (checkpoint_record e input s)))) = en_clock e 64"
    unfolding q(1) f using assms(1) by (simp add: q(2-))
qed

lemma CheckpointSession_Inr:
  assumes "CheckpointSession e i s = (Inr cp, t)"
  defines "r \<equiv> checkpoint_record e (normalizeSessionCheckpointInput i) s"
  shows "sv_memory t = continuityMemoryProjection (en_DEFAULT_ACTOR e) (en_clock e 68) (sv_memory s) r (currentActor e s)"
    "continuityStore_replace (en_DEFAULT_ACTOR e) (en_clock e 67) (upserted e (listed e 65 s) r) = Inr (sv_continuity t)"
    "cp = sessionCheckpointFromContinuityRecord (en_DEFAULT_ACTOR e) (en_clock e 69) r"
proof -
  obtain items m u where u: "continuityStore_replace (en_DEFAULT_ACTOR e) (en_clock e 67) (upserted e (listed e 65 s) r) = Inr items"
    "memoryStore_replace (sv_memory s) (continuityMemoryProjection (en_DEFAULT_ACTOR e) (en_clock e 68) (sv_memory s) r (currentActor e s)) = Inr m"
    "persistLocked e (s\<lparr>sv_continuity := items, sv_memory := m\<rparr>) = (None, t)"
    "cp = sessionCheckpointFromContinuityRecord (en_DEFAULT_ACTOR e) (en_clock e 69) r"
    using assms(1) unfolding CheckpointSession_def Let_def r_def [symmetric]
    by (auto simp: persist_or_def split: option.splits sum.splits prod.splits)
  note c = core_eqD [OF persistLocked_frame(1) [OF u(3)]]
  show "sv_memory t = continuityMemoryProjection (en_DEFAULT_ACTOR e) (en_clock e 68) (sv_memory s) r (currentActor e s)"
    using c(20) u(2) by (auto simp: memoryStore_replace_def split: option.splits)
  show "continuityStore_replace (en_DEFAULT_ACTOR e) (en_clock e 67) (upserted e (listed e 65 s) r) = Inr (sv_continuity t)"
    using c(7) u(1) by simp
  show "cp = sessionCheckpointFromContinuityRecord (en_DEFAULT_ACTOR e) (en_clock e 69) r" using u(4) .
qed

end
