(* ===== verification/Guarantees_Sessions.thy ===== *)
theory Guarantees_Sessions
  imports Session_Specs Demo
begin

text \<open>
  Guarantees of sessions: the continuity store stays well formed whatever the session operations do, and
  what a checkpoint leaves behind.
\<close>

section \<open>The continuity store\<close>

text \<open>A session request with the environment it meets.\<close>

datatype session_request =
    Checkpoint env SessionCheckpointInput
  | Note env SessionNoteInput
  | Finish url_renderer env SessionFinishInput

fun session_step :: "Service \<Rightarrow> session_request \<Rightarrow> Service" where
  "session_step s (Checkpoint e i) = snd (CheckpointSession e i s)"
| "session_step s (Note e i) = snd (SessionNote e i s)"
| "session_step s (Finish U e i) = snd (FinishSession U e i s)"

fun request_clock_ok :: "session_request \<Rightarrow> bool" where
  "request_clock_ok (Checkpoint e i) = clock_ok e"
| "request_clock_ok (Note e i) = clock_ok e"
| "request_clock_ok (Finish U e i) = clock_ok e"

text \<open>C38. The continuity store is well formed after any sequence of session requests, accepted or refused: every
  record is active, stale or resolved, has a time of resolution exactly when it is resolved, at most fifty notes, none
  of them empty or longer than five hundred characters, and identifiers and times that are set; and the records
  are in the order of status and time.\<close>

theorem sessions_stay_well_formed:
  assumes "store_wf (sv_continuity s)" "list_all request_clock_ok requests"
  shows "store_wf (sv_continuity (foldl session_step s requests))"
  using assms
proof (induction requests arbitrary: s)
  case (Cons r requests)
  then have "store_wf (sv_continuity (session_step s r))"
    by (cases r) (simp_all add: CheckpointSession_wf SessionNote_wf FinishSession_wf)
  then show ?case using Cons by simp
qed simp

definition demo_checkpoint :: SessionCheckpointInput where
  "demo_checkpoint =
     \<lparr>ci_Source = '''', ci_CurrentFocus = '' proofs '', ci_CurrentGoal = Some ''goal'', ci_NextSteps = Some [''a'', ''b'', ''a''],
      ci_OpenRisks = None, ci_HandoffNote = None, ci_Note = None, ci_Refs = None\<rparr>"

definition demo_note :: SessionNoteInput where
  "demo_note = \<lparr>ni_Source = '''', ni_Kind = ''todo'', ni_Text = ''check'', ni_Refs = None\<rparr>"

definition demo_finish :: SessionFinishInput where
  "demo_finish = \<lparr>fi_CurrentFocus = ''done'', fi_CurrentGoal = None, fi_NextSteps = None, fi_OpenRisks = None,
     fi_HandoffNote = None, fi_Note = Some ''kept''\<rparr>"

theorem sessions_stay_well_formed_witness:
  "store_wf (sv_continuity (foldl session_step demo_service
     [Checkpoint demo_env demo_checkpoint, Note demo_env demo_note, Finish (\<lambda>_. None) demo_env demo_finish]))"
proof (rule sessions_stay_well_formed)
  show "store_wf (sv_continuity demo_service)" by (simp add: demo_service_def store_wf_def)
qed (simp add: clock_ok_demo)

section \<open>Checkpoints\<close>

text \<open>C39. A checkpoint that was accepted is what the next session starts from: the system memory and the checkpoint that is
  returned carry the trimmed focus, goal, steps, risks and note of the input, and the store holds an open record of
  them for the caller and the source.\<close>

theorem checkpoint_is_recorded:
  assumes "clock_ok e" "CheckpointSession e i s = (Inr cp, t)" "currentActor e s \<noteq> ''*''"
  shows "let input = normalizeSessionCheckpointInput i; m = sv_memory t in
     sm_CurrentFocus m = ci_CurrentFocus input \<and> sm_CurrentGoal m = ci_CurrentGoal input \<and>
     sm_NextSteps m = ci_NextSteps input \<and> sm_OpenRisks m = ci_OpenRisks input \<and> sm_HandoffNote m = ci_HandoffNote input \<and>
     sm_LastOperator m = Some (currentActor e s) \<and> sm_UpdatedAt m = en_clock e 64 \<and>
     sc_CurrentFocus cp = ci_CurrentFocus input \<and> Some (sc_NextSteps cp) = ci_NextSteps input \<and>
     Some (sc_OpenRisks cp) = ci_OpenRisks input \<and> sc_Actor cp = currentActor e s \<and>
     (\<exists>x \<in> set (sv_continuity t). co_Actor x = currentActor e s \<and> co_Source x = ci_Source input \<and> co_Status x \<noteq> ''resolved'' \<and>
        co_CurrentFocus x = ci_CurrentFocus input \<and> Some (co_NextSteps x) = ci_NextSteps input \<and>
        Some (co_OpenRisks x) = ci_OpenRisks input \<and> co_UpdatedAt x = en_clock e 64)"
proof -
  let ?d = "en_DEFAULT_ACTOR e"
  define input where "input = normalizeSessionCheckpointInput i"
  define r where "r = checkpoint_record e input s"
  note c = CheckpointSession_Inr [OF assms(2), folded input_def, folded r_def]
  note f = checkpoint_record_fields [OF assms(1,3) input_def, folded r_def]
  obtain q where q: "r = normalizeContinuityRecordAt ?d (en_clock e 64) q" using f(1) by blast
  have again: "session_fields (normalizeContinuityRecordAt ?d (en_clock e k) r) = session_fields r" for k
    unfolding q by (rule normalize_fields_again) (simp_all add: assms(1))
  have some: "ci_NextSteps input = Some (elems (ci_NextSteps input))" "ci_OpenRisks input = Some (elems (ci_OpenRisks input))"
    by (simp_all add: input_def normalizeSessionCheckpointInput_def)
  obtain x where x: "x \<in> set (sv_continuity t)" "session_fields x = session_fields r"
    using replaced_record [OF assms(1) c(2) q clock_okD [OF assms(1)]] by blast
  have mem: "sm_CurrentFocus (sv_memory t) = ci_CurrentFocus input" "sm_CurrentGoal (sv_memory t) = ci_CurrentGoal input"
    "sm_NextSteps (sv_memory t) = ci_NextSteps input" "sm_OpenRisks (sv_memory t) = ci_OpenRisks input"
    "sm_HandoffNote (sv_memory t) = ci_HandoffNote input" "sm_LastOperator (sv_memory t) = Some (currentActor e s)"
    "sm_UpdatedAt (sv_memory t) = en_clock e 64"
    using again [of 68] f(2,4) some ResolveActor_nonempty [of ?d "[currentActor e s]"] unfolding c(1) continuityMemoryProjection_def Let_def
    by (simp_all add: session_fields_def del: ResolveActor.simps)
  have cp: "sc_CurrentFocus cp = ci_CurrentFocus input" "sc_NextSteps cp = elems (ci_NextSteps input)"
    "sc_OpenRisks cp = elems (ci_OpenRisks input)" "sc_Actor cp = currentActor e s"
    using again [of 69] f(2,3) unfolding c(3) sessionCheckpointFromContinuityRecord_def Let_def
    by (simp_all add: session_fields_def normalizeSessionCheckpoint_def input_def normalizeSessionCheckpointInput_def
        del: ResolveActor.simps)
  have rec: "co_Actor x = currentActor e s \<and> co_Source x = ci_Source input \<and> co_Status x \<noteq> ''resolved'' \<and>
      co_CurrentFocus x = ci_CurrentFocus input \<and> co_NextSteps x = elems (ci_NextSteps input) \<and>
      co_OpenRisks x = elems (ci_OpenRisks input) \<and> co_UpdatedAt x = en_clock e 64"
    using x(2) f(2-4) by (simp add: session_fields_def)
  show ?thesis
    unfolding Let_def input_def [symmetric] using mem cp x(1) rec some by auto
qed

lemma demo_readings: "en_DEFAULT_ACTOR demo_env = ''founder''" "en_clock demo_env k = 1000 + int k" "sv_continuity demo_service = []"
  "sv_memory demo_service = defaultSystemMemory 5"
  by (simp_all add: demo_env_def demo_service_def)

lemma demo_actor: "currentActor demo_env demo_service = ''founder''"
proof -
  have "normalizeActor '''' = ''''" "normalizeActor ''founder'' = ''founder''" by code_simp+
  then show ?thesis by (simp add: currentActor_def currentActorOverride_def demo_env_def demo_service_def Let_def)
qed

definition demo_record :: ContinuityRecord where
  "demo_record = applySessionCheckpointToContinuityRecord ''founder''
     (continuityRecordFromMemory ''founder'' (defaultSystemMemory 5) ''founder'' ''terminal'' 1064)
     (normalizeSessionCheckpointInput demo_checkpoint) 1064"

lemma demo_record_value:
  "demo_record = \<lparr>co_RecordID = ''continuity_record_1064'', co_Source = ''terminal'', co_Actor = ''founder'', co_Status = ''active'',
     co_CurrentFocus = ''proofs'', co_CurrentGoal = Some ''goal'', co_NextSteps = [''a'', ''b''], co_OpenRisks = [],
     co_HandoffNote = None, co_Refs = [], co_Notes = [], co_CreatedAt = 1064, co_UpdatedAt = 1064, co_ResolvedAt = None\<rparr>"
  by code_simp

lemma demo_checkpoint_record:
  "checkpoint_record demo_env (normalizeSessionCheckpointInput demo_checkpoint) demo_service = demo_record"
proof -
  have "ci_Source (normalizeSessionCheckpointInput demo_checkpoint) = ''terminal''" by code_simp
  then show ?thesis by (simp add: checkpoint_record_def demo_readings demo_actor listed_def demo_record_def Let_def)
qed

lemma demo_record_steps:
  "normalizeContinuityRecordAt ''founder'' 1200 demo_record = demo_record"
  "normalizeContinuityRecordsAt ''founder'' 1201 [demo_record] = [demo_record]"
  "normalizeContinuityRecordsAt ''founder'' 1067 [demo_record] = [demo_record]"
  "records_error [demo_record] = None"
  unfolding demo_record_value by code_simp+

lemma demo_checkpoint_store:
  "continuityStore_replace (en_DEFAULT_ACTOR demo_env) (en_clock demo_env 67)
     (upserted demo_env (listed demo_env 65 demo_service) demo_record) = Inr [demo_record]"
  using demo_record_steps
  by (simp add: demo_readings listed_def upserted_def upsertContinuityRecord_def continuityStore_replace_def Let_def)

lemma demo_checkpoint_ok: "checkpoint_ok demo_env [demo_record]"
proof -
  let ?c = "sessionCheckpointFromContinuityRecord ''founder'' 1108 demo_record"
  have n: "normalizeContinuityRecordsAt ''founder'' 1104 [demo_record] = [demo_record]"
    "normalizeContinuityRecordsAt ''founder'' 1106 [demo_record] = [demo_record]"
    unfolding demo_record_value by code_simp+
  have a: "normalizeContinuitySource ''*'' = ''*''" "ResolveActor ''founder'' [''*''] = ''*''"
    "TrimSpace (ToLower ''active'') = ''active''" by code_simp+
  have st: "co_Status demo_record = ''active''" unfolding demo_record_value by simp
  have "latestContinuityRecord ''founder'' 1106 [demo_record] ''*'' ''*'' [''active''] = Some demo_record"
    by (simp add: latestContinuityRecord_def n a st Let_def del: ResolveActor.simps ToLower.simps)
  then have l: "continuityStore_list ''founder'' 1104 [demo_record] = [demo_record]"
    "latestContinuityRecord ''founder'' 1106 [demo_record] ''*'' ''*'' [''active''] = Some demo_record"
    using n(1) by (simp_all add: continuityStore_list_def)
  have "SessionCheckpoint_Validate (normalizeSessionCheckpoint ''founder'' ?c) = None"
    unfolding demo_record_value by code_simp
  then show ?thesis
    using l by (simp add: checkpoint_ok_def continuityRecordForCompatibility_def latestOpenContinuityRecord_def now_checkpoint_def
        now_list_def demo_readings)
qed

lemma demo_checkpoint_valid:
  "SessionCheckpointInput_Validate (normalizeSessionCheckpointInput demo_checkpoint) = None"
  "SystemMemory_Validate (continuityMemoryProjection ''founder'' 1068 (defaultSystemMemory 5) demo_record ''founder'') = None"
  unfolding demo_record_value by code_simp+

theorem checkpoint_is_recorded_witness:
  "\<exists>cp t. CheckpointSession demo_env demo_checkpoint demo_service = (Inr cp, t) \<and> sm_CurrentFocus (sv_memory t) = ''proofs'' \<and>
     sc_NextSteps cp = [''a'', ''b'']"
proof -
  let ?s = "demo_service\<lparr>sv_continuity := [demo_record],
      sv_memory := continuityMemoryProjection ''founder'' 1068 (defaultSystemMemory 5) demo_record ''founder''\<rparr>"
  have "disk_works demo_env ?s" using disk_works_demo demo_checkpoint_ok by (simp add: disk_works_def)
  note w = persist_or_works [OF this, of "\<lambda>t. (restore_continuity demo_env (listed demo_env 63 demo_service) t)\<lparr>sv_memory := defaultSystemMemory 5\<rparr>"
      "sessionCheckpointFromContinuityRecord ''founder'' 1069 demo_record"]
  have "\<exists>cp t. CheckpointSession demo_env demo_checkpoint demo_service = (Inr cp, t)"
    unfolding CheckpointSession_def Let_def memoryStore_replace_def demo_checkpoint_record demo_checkpoint_store
    using demo_checkpoint_valid w by (auto simp: demo_readings demo_actor)
  then obtain cp t where c: "CheckpointSession demo_env demo_checkpoint demo_service = (Inr cp, t)" by blast
  have "currentActor demo_env demo_service \<noteq> ''*''" by (simp add: demo_actor)
  moreover have "ci_CurrentFocus (normalizeSessionCheckpointInput demo_checkpoint) = ''proofs''"
    "ci_NextSteps (normalizeSessionCheckpointInput demo_checkpoint) = Some [''a'', ''b'']" by code_simp+
  ultimately show ?thesis using checkpoint_is_recorded [OF clock_ok_demo c] c by (auto simp: Let_def)
qed

end
