(* ===== verification/Startup.thy ===== *)
theory Startup
  imports Service_Jobs
begin

text \<open>
  Starting the service over a data directory (\<open>NewService\<close>, \<open>persistedSnapshotFromDisk\<close> and the loaders of
  \<open>disk_knowledge.go\<close>, \<open>disk_review_room.go\<close>): every file is read in order, the review room is checked against
  its seal, the counters of the company state are derived from the records, and the jobs that were
  running are failed. A file holds the encoding of a value; what reading and decoding it gives is the
  parameter \<open>rd_decode\<close>, likewise for the event archive, the seal and the session checkpoint. A file that is
  missing is one that holds the fallback of its loader. The directory is read twice, and the second reading,
  which only yields the signatures, may fail where the first did not. The formats of older versions
  are part of decoding.
\<close>

record disk_reader =
  rd_decode :: "domain \<Rightarrow> string \<Rightarrow> error + dval"
  rd_count :: "EventEnvelope list \<Rightarrow> error + int"
  rd_seal :: "reviewRoomSeal option \<Rightarrow> error + reviewRoomSeal"
  rd_checkpoint :: "SessionCheckpoint option \<Rightarrow> error + SessionCheckpoint option"

section \<open>Values of the files\<close>

fun items_branch :: "dval \<Rightarrow> Branch list" where "items_branch (V_branch xs) = xs" | "items_branch _ = []"
fun items_proposal :: "dval \<Rightarrow> ProposalItem list" where "items_proposal (V_proposal xs) = xs" | "items_proposal _ = []"
fun items_agentJob :: "dval \<Rightarrow> AgentJob list" where "items_agentJob (V_agentJob xs) = xs" | "items_agentJob _ = []"
fun items_observation :: "dval \<Rightarrow> ObservationRecord list" where "items_observation (V_observation xs) = xs" | "items_observation _ = []"
fun items_continuity :: "dval \<Rightarrow> ContinuityRecord list" where "items_continuity (V_continuity xs) = xs" | "items_continuity _ = []"
fun items_work :: "dval \<Rightarrow> WorkItem list" where "items_work (V_work xs) = xs" | "items_work _ = []"
fun items_flow :: "dval \<Rightarrow> FlowRun list" where "items_flow (V_flow xs) = xs" | "items_flow _ = []"
fun items_approval :: "dval \<Rightarrow> ApprovalItem list" where "items_approval (V_approval xs) = xs" | "items_approval _ = []"
fun items_event :: "dval \<Rightarrow> EventEnvelope list" where "items_event (V_event xs) = xs" | "items_event _ = []"
fun items_release :: "dval \<Rightarrow> ReleasePacket list" where "items_release (V_release xs) = xs" | "items_release _ = []"
fun items_deploy :: "dval \<Rightarrow> DeployRun list" where "items_deploy (V_deploy xs) = xs" | "items_deploy _ = []"
fun items_rollback :: "dval \<Rightarrow> RollbackRun list" where "items_rollback (V_rollback xs) = xs" | "items_rollback _ = []"
fun items_target :: "dval \<Rightarrow> DeployTarget list" where "items_target (V_target xs) = xs" | "items_target _ = []"
fun items_preflight :: "dval \<Rightarrow> PreflightRecord list" where "items_preflight (V_preflight xs) = xs" | "items_preflight _ = []"
fun items_policy :: "dval \<Rightarrow> PolicyDecision list" where "items_policy (V_policy xs) = xs" | "items_policy _ = []"
fun items_gateway :: "dval \<Rightarrow> GatewayCall list" where "items_gateway (V_gateway xs) = xs" | "items_gateway _ = []"
fun items_execute :: "dval \<Rightarrow> ExecuteRun list" where "items_execute (V_execute xs) = xs" | "items_execute _ = []"
fun items_verify :: "dval \<Rightarrow> VerificationRecord list" where "items_verify (V_verify xs) = xs" | "items_verify _ = []"
fun value_room :: "dval \<Rightarrow> ReviewRoom" where "value_room (V_reviewRoom r) = r" | "value_room _ = defaultReviewRoom ''''"
fun value_memory :: "dval \<Rightarrow> SystemMemory" where "value_memory (V_memory m) = m" | "value_memory _ = defaultSystemMemory 0"
fun value_state :: "dval \<Rightarrow> CompanyState" where "value_state (V_state st) = st" | "value_state _ = defaultCompanyState"

text \<open>The decoded configuration points to a map of its own.\<close>

fun value_auth :: "dval \<Rightarrow> authStore" where
  "value_auth (V_auth h (Some m) t) =
     newAuthStore [m] \<lparr>ac_WriteTokenHash = h, ac_ScopedTokenHashes = Some 0, ac_UpdatedAt = t\<rparr>"
| "value_auth (V_auth h None t) = newAuthStore [] \<lparr>ac_WriteTokenHash = h, ac_ScopedTokenHashes = None, ac_UpdatedAt = t\<rparr>"
| "value_auth _ = newAuthStore [] defaultAuthConfig"

section \<open>Reading\<close>

definition load_domain :: "env \<Rightarrow> disk_reader \<Rightarrow> diskStore \<Rightarrow> domain \<Rightarrow> error + dval" where
  "load_domain e rd disk d =
     (case en_marshal e (dk_file disk d) of
        Inl err \<Rightarrow> Inl err
      | Inr raw \<Rightarrow>
          (case rd_decode rd d raw of
             Inl err \<Rightarrow> Inl err
           | Inr v \<Rightarrow> Inr (if d = D_reviewRoom then V_reviewRoom (normalizeReviewRoom (now_seal e) (value_room v)) else v)))"

fun load_error :: "env \<Rightarrow> disk_reader \<Rightarrow> diskStore \<Rightarrow> domain list \<Rightarrow> error option" where
  "load_error e rd disk [] = None"
| "load_error e rd disk (d # ds) =
     (case load_domain e rd disk d of Inl err \<Rightarrow> Some err | Inr _ \<Rightarrow> load_error e rd disk ds)"

definition loaded :: "env \<Rightarrow> disk_reader \<Rightarrow> diskStore \<Rightarrow> domain \<Rightarrow> dval" where
  "loaded e rd disk d = (case load_domain e rd disk d of Inr v \<Rightarrow> v | Inl _ \<Rightarrow> dk_file disk d)"

definition loadSessionCheckpoint :: "env \<Rightarrow> disk_reader \<Rightarrow> diskStore \<Rightarrow> error + SessionCheckpoint option" where
  "loadSessionCheckpoint e rd disk =
     (case rd_checkpoint rd (dk_checkpoint disk) of
        Inl err \<Rightarrow> Inl err
      | Inr None \<Rightarrow> Inr None
      | Inr (Some c) \<Rightarrow>
          let item = normalizeSessionCheckpoint (en_DEFAULT_ACTOR e) c
          in case SessionCheckpoint_Validate item of Some err \<Rightarrow> Inl err | None \<Rightarrow> Inr (Some item))"

text \<open>The signatures of a second reading, in the order of \<open>persistDomains\<close> after all files were read.\<close>

definition snapshot_order :: "domain list" where
  "snapshot_order =
     [D_state, D_branch, D_proposal, D_agentJob, D_observation, D_continuity, D_work, D_flow, D_approval, D_event,
      D_release, D_deploy, D_rollback, D_target, D_preflight, D_policy, D_gateway, D_execute, D_verify, D_reviewRoom,
      D_memory, D_auth]"

fun value_errors :: "env \<Rightarrow> (domain \<Rightarrow> dval) \<Rightarrow> domain list \<Rightarrow> error option" where
  "value_errors e f [] = None"
| "value_errors e f (d # ds) = (case en_marshal e (f d) of Inl err \<Rightarrow> Some err | Inr _ \<Rightarrow> value_errors e f ds)"

definition persistedSnapshotFromDisk :: "env \<Rightarrow> disk_reader \<Rightarrow> diskStore \<Rightarrow> error + (domain \<Rightarrow> string)" where
  "persistedSnapshotFromDisk e rd disk =
     (case load_error e rd disk snapshot_order of
        Some err \<Rightarrow> Inl err
      | None \<Rightarrow>
          (case value_errors e (loaded e rd disk) persistDomains of
             Some err \<Rightarrow> Inl err
           | None \<Rightarrow> Inr (\<lambda>d. case en_marshal e (loaded e rd disk d) of Inl _ \<Rightarrow> '''' | Inr sig \<Rightarrow> sig)))"

section \<open>The review room of the last run\<close>

text \<open>\<open>filepath.Base\<close>: the last element of the path without trailing slashes.\<close>

definition path_base :: "string \<Rightarrow> string" where
  "path_base p =
     (if p = '''' then ''.''
      else let q = rev (dropWhile (\<lambda>c. c = CHR ''/'') (rev p))
           in if q = '''' then ''/'' else rev (takeWhile (\<lambda>c. c \<noteq> CHR ''/'') (rev q)))"

definition normalizeRuntimeReviewRoomSource :: "time \<Rightarrow> ReviewRoom \<Rightarrow> string \<Rightarrow> ReviewRoom \<times> bool" where
  "normalizeRuntimeReviewRoomSource now room0 canonical =
     (let room = normalizeReviewRoom now room0; s = TrimSpace (rm_Source room);
          current = (if s = '''' then reviewRoomRuntimeFile else s) in
      if current = canonical then (room, False)
      else if current = reviewRoomRuntimeFile \<or> path_base current = reviewRoomRuntimeFile
      then (room\<lparr>rm_Source := canonical\<rparr>, True)
      else (room, False))"

definition saveReviewRoomSeal :: "env \<Rightarrow> ReviewRoom \<Rightarrow> diskStore \<Rightarrow> error option \<times> diskStore" where
  "saveReviewRoomSeal e room disk =
     (case en_seal e of
        Some err \<Rightarrow> (Some err, disk)
      | None \<Rightarrow> (None, disk\<lparr>dk_seal := Some (computeReviewRoomSeal (en_roomHash e) (now_seal e) room)\<rparr>))"

definition saveReviewRoom :: "env \<Rightarrow> ReviewRoom \<Rightarrow> diskStore \<Rightarrow> error option \<times> diskStore" where
  "saveReviewRoom e room disk =
     (case en_write e D_reviewRoom of
        Some err \<Rightarrow> (Some err, disk)
      | None \<Rightarrow> (None, disk\<lparr>dk_file := (dk_file disk)(D_reviewRoom := V_reviewRoom (normalizeReviewRoom (now_seal e) room))\<rparr>))"

text \<open>The room is renamed to its canonical source, checked against the seal, and sealed or marked.\<close>

definition startup_room ::
  "env \<Rightarrow> disk_reader \<Rightarrow> string \<Rightarrow> ReviewRoom \<Rightarrow> diskStore \<Rightarrow> (error + ReviewRoom) \<times> diskStore" where
  "startup_room e rd canonical room0 disk0 =
     (let (room, changed) = normalizeRuntimeReviewRoomSource (now_store e) room0 canonical;
          (err1, disk1) = (if changed then saveReviewRoom e room disk0 else (None, disk0)) in
      case err1 of Some err \<Rightarrow> (Inl err, disk1) | None \<Rightarrow>
      let (err2, disk2) = (if changed then saveReviewRoomSeal e room disk1 else (None, disk1)) in
      case err2 of Some err \<Rightarrow> (Inl err, disk2) | None \<Rightarrow>
      case rd_seal rd (dk_seal disk2) of Inl err \<Rightarrow> (Inl err, disk2) | Inr seal \<Rightarrow>
      let used = (if changed then room else room0);
          audit = verifyReviewRoomSeal (en_roomHash e) (now_seal e) used seal in
      if \<not> ia_Sealed audit then
        (case saveReviewRoomSeal e used disk2 of
           (Some err, disk3) \<Rightarrow> (Inl err, disk3)
         | (None, disk3) \<Rightarrow> (Inr used, disk3))
      else (Inr (if ia_Issues audit \<noteq> [] then applyReviewRoomIntegrityGuardrail (en_isWord e) (now_store e) used audit else used),
            disk2))"

section \<open>The service\<close>

definition startup_state :: "CompanyState \<Rightarrow> WorkItem list \<Rightarrow> ApprovalItem list \<Rightarrow> ReleasePacket list \<Rightarrow> DeployRun list \<Rightarrow> CompanyState" where
  "startup_state st works approvals releases deploys =
     (let st = st\<lparr>cs_WorkItemsActive := int (length works), cs_ApprovalsPending := int (length approvals)\<rparr>;
          st = (if releases \<noteq> [] then st\<lparr>cs_LastReleaseAt := rp_ReleasedAt (last releases)\<rparr> else st)
      in if deploys \<noteq> []
         then st\<lparr>cs_DeployHealth := (if dr_Status (last deploys) = ''failed'' then ''degraded'' else ''ready'')\<rparr>
         else st)"

definition service_of :: "env \<Rightarrow> (domain \<Rightarrow> dval) \<Rightarrow> int \<Rightarrow> ReviewRoom \<Rightarrow> ContinuityRecord list \<Rightarrow> (domain \<Rightarrow> string) \<Rightarrow> diskStore \<Rightarrow> Service" where
  "service_of e f archived room continuity sigs disk =
     \<lparr>sv_dirty = (\<lambda>_. False), sv_persisted = sigs, sv_actorOverride = '''',
      sv_state = startup_state (value_state (f D_state)) (items_work (f D_work)) (items_approval (f D_approval))
                   (items_release (f D_release)) (items_deploy (f D_deploy)),
      sv_branch = newBranchStore (now_store e) (items_branch (f D_branch)), sv_proposal = items_proposal (f D_proposal),
      sv_agentJob = items_agentJob (f D_agentJob), sv_observation = items_observation (f D_observation),
      sv_continuity = newContinuityStore (en_DEFAULT_ACTOR e) (now_store e) continuity, sv_work = items_work (f D_work),
      sv_flow = items_flow (f D_flow), sv_approval = items_approval (f D_approval),
      sv_event = newEventStoreWithArchiveCount (en_EVENT_RETENTION e) (items_event (f D_event)) archived,
      sv_release = items_release (f D_release), sv_deploy = items_deploy (f D_deploy), sv_rollback = items_rollback (f D_rollback),
      sv_target = items_target (f D_target), sv_preflight = items_preflight (f D_preflight),
      sv_policy = newPolicyStore (items_policy (f D_policy)), sv_gateway = items_gateway (f D_gateway),
      sv_execute = newExecuteStore (items_execute (f D_execute)), sv_verify = items_verify (f D_verify),
      sv_reviewRoom = newReviewRoomStore (now_store e) room, sv_memory = value_memory (f D_memory),
      sv_auth = value_auth (f D_auth), sv_disk = disk\<rparr>"

text \<open>
  \<open>NewService\<close>: \<open>rd\<close> and \<open>rd'\<close> are the two readings, \<open>canonical\<close> the path of the review-room file, \<open>es\<close> the environments of
  the saves that fail the running jobs. On an error the directory is what the start left of it.
\<close>

definition NewService ::
  "env \<Rightarrow> disk_reader \<Rightarrow> disk_reader \<Rightarrow> string \<Rightarrow> (nat \<Rightarrow> env) \<Rightarrow> diskStore \<Rightarrow> (error \<times> diskStore) + Service" where
  "NewService e rd rd' canonical es disk0 =
     (case load_error e rd disk0
             [D_state, D_branch, D_proposal, D_agentJob, D_observation, D_continuity, D_work, D_flow, D_approval, D_event] of
        Some err \<Rightarrow> Inl (err, disk0) | None \<Rightarrow>
      case rd_count rd (dk_archive disk0) of Inl err \<Rightarrow> Inl (err, disk0) | Inr archived \<Rightarrow>
      case load_error e rd disk0
             [D_release, D_deploy, D_rollback, D_target, D_preflight, D_policy, D_gateway, D_execute, D_verify, D_reviewRoom] of
        Some err \<Rightarrow> Inl (err, disk0) | None \<Rightarrow>
      case startup_room e rd canonical (value_room (loaded e rd disk0 D_reviewRoom)) disk0 of
        (Inl err, disk1) \<Rightarrow> Inl (err, disk1)
      | (Inr room, disk1) \<Rightarrow>
      case load_error e rd disk1 [D_memory] of Some err \<Rightarrow> Inl (err, disk1) | None \<Rightarrow>
      let records = items_continuity (loaded e rd disk0 D_continuity) in
      case (if records = [] then loadSessionCheckpoint e rd disk1 else Inr None) of Inl err \<Rightarrow> Inl (err, disk1) | Inr checkpoint \<Rightarrow>
      let continuity = (case checkpoint of None \<Rightarrow> records
                        | Some c \<Rightarrow> [continuityRecordFromSessionCheckpoint (en_DEFAULT_ACTOR e) (tick e 8) c]) in
      case load_error e rd disk1 [D_auth] of Some err \<Rightarrow> Inl (err, disk1) | None \<Rightarrow>
      case persistedSnapshotFromDisk e rd' disk1 of Inl err \<Rightarrow> Inl (err, disk1) | Inr sigs \<Rightarrow>
      Inr (reclaimStaleJobsOnStartup es (service_of e (loaded e rd disk0) archived room continuity sigs disk1)))"

end
