(* ===== verification/Guarantees_Restart.thy ===== *)
theory Guarantees_Restart
  imports Startup Demo
begin

text \<open>
  What a restart brings back: a service whose files encode its values is found again by the next start,
  except for the counters that the start derives anew.
\<close>

section \<open>What a start needs\<close>




section \<open>Reading the files of a service\<close>









section \<open>The restart\<close>













end
