(* ===== verification/File_Path.thy ===== *)
theory File_Path
  imports Policy "HOL-Library.Sublist"
begin

text \<open>
  Slash-separated paths as \<open>path/filepath\<close> treats them on Unix: \<open>Clean\<close>, \<open>Join\<close> and \<open>Rel\<close>. A path is
  the list of its elements and whether it starts at the root; \<open>Clean\<close> renders the elements that remain
  when empty and dot elements are dropped and each dot-dot element removes the one before it. The
  prefix test on rendered paths is the prefix test on element lists (\<open>render_within\<close>), which is what the
  scope checks of job reports rely on.
\<close>

section \<open>Cleaning\<close>

fun walk :: "bool \<Rightarrow> string list \<Rightarrow> string list \<Rightarrow> string list" where
  "walk r acc [] = rev acc"
| "walk r acc (p # ps) =
     (if p = '''' \<or> p = ''.'' then walk r acc ps
      else if p \<noteq> ''..'' then walk r (p # acc) ps
      else case acc of
             [] \<Rightarrow> walk r (if r then [] else [''..'']) ps
           | q # qs \<Rightarrow> if q = ''..'' then walk r (''..'' # acc) ps else walk r qs ps)"

definition path_elements :: "string \<Rightarrow> string list" where
  "path_elements p = walk (IsAbs p) [] (split_on (CHR ''/'') p)"

definition render :: "bool \<Rightarrow> string list \<Rightarrow> string" where
  "render r ps = (if r then ''/'' @ join_with ''/'' ps else if ps = [] then ''.'' else join_with ''/'' ps)"

definition Clean :: "string \<Rightarrow> string" where
  "Clean p = render (IsAbs p) (path_elements p)"

definition Join :: "string list \<Rightarrow> string" where
  "Join ps = (let qs = filter (\<lambda>p. p \<noteq> '''') ps in if qs = [] then '''' else Clean (join_with ''/'' qs))"

section \<open>Relative paths\<close>

fun drop_common :: "string list \<Rightarrow> string list \<Rightarrow> string list \<times> string list" where
  "drop_common (b # bs) (t # ts) = (if b = t then drop_common bs ts else (b # bs, t # ts))"
| "drop_common bs ts = (bs, ts)"

text \<open>\<open>Rel\<close>; \<open>None\<close> stands for its error.\<close>

definition Rel :: "string \<Rightarrow> string \<Rightarrow> string option" where
  "Rel base targ =
     (if Clean base = Clean targ then Some ''.''
      else if IsAbs base \<noteq> IsAbs targ then None
      else case drop_common (path_elements base) (path_elements targ) of (bs, ts) \<Rightarrow>
        if bs \<noteq> [] \<and> hd bs = ''..'' then None
        else Some (join_with ''/'' (replicate (length bs) ''..'' @ ts)))"

section \<open>Clean paths\<close>

text \<open>The element lists \<open>Clean\<close> renders: dot-dot only in front, and only of a relative path.\<close>

definition element :: "string \<Rightarrow> bool" where
  "element p \<longleftrightarrow> p \<noteq> '''' \<and> p \<noteq> ''.'' \<and> CHR ''/'' \<notin> set p"

definition clean_list :: "bool \<Rightarrow> string list \<Rightarrow> bool" where
  "clean_list r ps \<longleftrightarrow> list_all element ps \<and>
     (\<exists>n qs. ps = replicate n ''..'' @ qs \<and> ''..'' \<notin> set qs \<and> (r \<longrightarrow> n = 0))"

lemma IsAbs_Cons: "IsAbs p \<longleftrightarrow> (\<exists>q. p = CHR ''/'' # q)"
  by (simp add: IsAbs_def starts_with_Cons)

lemma element_not_abs: "element p \<Longrightarrow> \<not> IsAbs (p @ q)"
  by (cases p) (auto simp: element_def IsAbs_Cons)

lemma clean_list_snoc:
  assumes "clean_list r ps" "element p" "p \<noteq> ''..''"
  shows "clean_list r (ps @ [p])"
proof -
  obtain n qs where q: "ps = replicate n ''..'' @ qs" "''..'' \<notin> set qs" "r \<longrightarrow> n = 0"
    using assms(1) by (auto simp: clean_list_def)
  have "ps @ [p] = replicate n ''..'' @ (qs @ [p])" "''..'' \<notin> set (qs @ [p])" using q assms(3) by auto
  moreover have "list_all element (ps @ [p])" using assms by (simp add: clean_list_def)
  ultimately show ?thesis using q(3) unfolding clean_list_def by blast
qed

lemma clean_list_butlast:
  assumes "clean_list r (ps @ [p])"
  shows "clean_list r ps"
proof -
  obtain n qs where q: "ps @ [p] = replicate n ''..'' @ qs" "''..'' \<notin> set qs" "r \<longrightarrow> n = 0"
    using assms by (auto simp: clean_list_def)
  have "\<exists>n qs. ps = replicate n ''..'' @ qs \<and> ''..'' \<notin> set qs \<and> (r \<longrightarrow> n = 0)"
  proof (cases qs rule: rev_cases)
    case Nil
    then obtain m where "n = Suc m" "ps = replicate m ''..''"
      using q(1) by (cases n) (auto simp: replicate_append_same [symmetric])
    then show ?thesis using q(3) by (intro exI [of _ m] exI [of _ "[]"]) auto
  next
    case (snoc qs' q')
    then show ?thesis using q by (intro exI [of _ n] exI [of _ qs']) auto
  qed
  then show ?thesis using assms by (simp add: clean_list_def)
qed

lemma clean_list_up:
  assumes "clean_list False ps" "ps = [] \<or> last ps = ''..''"
  shows "clean_list False (ps @ [''..''])"
proof -
  obtain n qs where q: "ps = replicate n ''..'' @ qs" "''..'' \<notin> set qs"
    using assms(1) by (auto simp: clean_list_def)
  have "qs = []" using assms(2) q by (cases qs rule: rev_cases) auto
  then have "ps @ [''..''] = replicate (Suc n) ''..'' @ []" using q by (simp add: replicate_append_same)
  moreover have "list_all element (ps @ [''..''])" using assms(1) by (simp add: clean_list_def element_def)
  ultimately show ?thesis unfolding clean_list_def by (metis empty_iff empty_set)
qed

lemma walk_clean:
  "clean_list r (rev acc) \<Longrightarrow> \<forall>p \<in> set ps. CHR ''/'' \<notin> set p \<Longrightarrow> clean_list r (walk r acc ps)"
proof (induction r acc ps rule: walk.induct)
  case (2 r acc p ps)
  have rooted: "r \<Longrightarrow> ''..'' \<notin> set acc" using 2(6) by (auto simp: clean_list_def)
  consider "p = '''' \<or> p = ''.''" | "\<not> (p = '''' \<or> p = ''.'')" "p \<noteq> ''..''" | "p = ''..''" by blast
  then show ?case
  proof cases
    case 1 then show ?thesis using 2 by simp
  next
    case c: 2
    then have "clean_list r (rev (p # acc))" using 2 clean_list_snoc [of r "rev acc" p] by (simp add: element_def)
    then show ?thesis using 2(2) 2(7) c by simp
  next
    case c: 3
    show ?thesis
    proof (cases acc)
      case Nil
      have "clean_list r (rev (if r then [] else [''..'']))"
        using 2(6) Nil clean_list_up [of "[]"] by (cases r) simp_all
      then show ?thesis using 2(3) 2(7) c Nil by simp
    next
      case (Cons q qs)
      show ?thesis
      proof (cases "q = ''..''")
        case True
        then have "\<not> r" using rooted Cons by auto
        then have "clean_list r (rev (''..'' # acc))" using 2(6) clean_list_up [of "rev acc"] Cons True by simp
        then show ?thesis using 2(4) 2(7) c Cons True by simp
      next
        case False
        then show ?thesis using 2(5,6,7) c Cons clean_list_butlast [of r "rev qs" q] by simp
      qed
    qed
  qed
qed simp

lemma path_elements_clean: "clean_list (IsAbs p) (path_elements p)"
  unfolding path_elements_def
  by (rule walk_clean) (auto simp: clean_list_def intro: exI [of _ 0] dest: split_on_free)

lemma walk_plain:
  "list_all element ps \<Longrightarrow> ''..'' \<notin> set ps \<Longrightarrow> walk r acc ps = rev acc @ ps"
  by (induction ps arbitrary: acc) (auto simp: element_def)

lemma walk_ups: "walk False (replicate k ''..'') (replicate n ''..'' @ qs) = walk False (replicate (k + n) ''..'') qs"
proof (induction n arbitrary: k)
  case (Suc n)
  have "walk False (replicate k ''..'') (''..'' # replicate n ''..'' @ qs) = walk False (replicate (Suc k) ''..'') (replicate n ''..'' @ qs)"
    by (cases k) simp_all
  then show ?case using Suc [of "Suc k"] by simp
qed simp

lemma walk_clean_list:
  assumes "clean_list r ps"
  shows "walk r [] ps = ps"
proof -
  obtain n qs where q: "ps = replicate n ''..'' @ qs" "''..'' \<notin> set qs" "r \<longrightarrow> n = 0"
    using assms by (auto simp: clean_list_def)
  have "list_all element qs" using assms q(1) by (auto simp: clean_list_def)
  then show ?thesis using q walk_plain [of qs r] walk_ups [of 0 n qs] by (cases r) simp_all
qed

lemma split_on_clean_list:
  "clean_list r ps \<Longrightarrow> ps \<noteq> [] \<Longrightarrow> split_on (CHR ''/'') (join_with ''/'' ps) = ps"
  by (rule split_on_join) (auto simp: clean_list_def element_def list_all_iff)

lemma IsAbs_join: "list_all element ps \<Longrightarrow> \<not> IsAbs (join_with ''/'' ps)"
  using element_not_abs [of "hd ps" "[]"] element_not_abs [of "hd ps" "''/'' @ join_with ''/'' (tl ps)"]
  by (cases "(''/'', ps)" rule: join_with.cases) (auto simp: IsAbs_Cons)

lemma IsAbs_render: "clean_list r ps \<Longrightarrow> IsAbs (render r ps) = r"
  using IsAbs_join [of ps] by (auto simp: render_def clean_list_def IsAbs_Cons)

lemma path_elements_render: "clean_list r ps \<Longrightarrow> path_elements (render r ps) = ps"
  using split_on_clean_list [of r ps] walk_clean_list [of r ps] IsAbs_render [of r ps]
  by (cases "ps = []"; cases r) (simp_all add: path_elements_def render_def)

lemma Clean_facts [simp]: "IsAbs (Clean p) = IsAbs p" "path_elements (Clean p) = path_elements p" "Clean (Clean p) = Clean p"
proof -
  show a: "IsAbs (Clean p) = IsAbs p" using IsAbs_render [OF path_elements_clean] by (simp add: Clean_def)
  show b: "path_elements (Clean p) = path_elements p" using path_elements_render [OF path_elements_clean] by (simp add: Clean_def)
  show "Clean (Clean p) = Clean p" using a b by (simp add: Clean_def [of "Clean p"]) (simp add: Clean_def)
qed

lemma Clean_eq_iff: "Clean p = Clean q \<longleftrightarrow> IsAbs p = IsAbs q \<and> path_elements p = path_elements q"
proof
  assume c: "Clean p = Clean q"
  have "IsAbs (Clean p) = IsAbs (Clean q)" "path_elements (Clean p) = path_elements (Clean q)" using c by simp_all
  then show "IsAbs p = IsAbs q \<and> path_elements p = path_elements q" by simp
qed (simp add: Clean_def)

section \<open>Containment\<close>

lemma join_append: "ps \<noteq> [] \<Longrightarrow> qs \<noteq> [] \<Longrightarrow> join_with sep (ps @ qs) = join_with sep ps @ sep @ join_with sep qs"
  by (induction sep ps rule: join_with.induct) (auto simp: neq_Nil_conv)

lemma split_on_join_append:
  "ps \<noteq> [] \<Longrightarrow> \<forall>p \<in> set ps. c \<notin> set p \<Longrightarrow> split_on c (join_with [c] ps @ c # s) = ps @ split_on c s"
  by (induction "[c]" ps rule: join_with.induct) (auto simp: split_on_append)

lemma starts_with_append_iff: "starts_with s w \<longleftrightarrow> (\<exists>t. s = w @ t)"
  unfolding starts_with_def by (metis append_eq_conv_conj append_take_drop_id)

text \<open>A clean path below a clean directory: textually, and by elements.\<close>

lemma join_below:
  assumes "list_all element ps" "list_all element qs" "ps \<noteq> []"
  shows "(join_with ''/'' qs = join_with ''/'' ps \<or> starts_with (join_with ''/'' qs) (join_with ''/'' ps @ ''/'')) \<longleftrightarrow> prefix ps qs"
proof -
  have free: "\<forall>p \<in> set ps. CHR ''/'' \<notin> set p" "\<forall>p \<in> set qs. CHR ''/'' \<notin> set p"
    using assms(1,2) by (auto simp: list_all_iff element_def)
  note split_ps = split_on_join [OF assms(3) free(1)]
  have qs: "qs \<noteq> [] \<Longrightarrow> split_on (CHR ''/'') (join_with ''/'' qs) = qs" using split_on_join [OF _ free(2)] .
  have ne: "join_with ''/'' ps \<noteq> ''''"
    using assms(1,3) by (cases "(''/'', ps)" rule: join_with.cases) (auto simp: element_def)
  show ?thesis
  proof
    assume l: "join_with ''/'' qs = join_with ''/'' ps \<or> starts_with (join_with ''/'' qs) (join_with ''/'' ps @ ''/'')"
    then have "qs \<noteq> []" using ne by (cases qs) (simp_all add: starts_with_append_iff)
    note q = qs [OF this]
    from l show "prefix ps qs"
    proof
      assume "join_with ''/'' qs = join_with ''/'' ps"
      then have "qs = ps" using q split_ps by (metis (no_types))
      then show ?thesis by simp
    next
      assume "starts_with (join_with ''/'' qs) (join_with ''/'' ps @ ''/'')"
      then obtain s where "join_with ''/'' qs = join_with ''/'' ps @ CHR ''/'' # s" by (auto simp: starts_with_append_iff)
      then have "qs = ps @ split_on (CHR ''/'') s" using q split_on_join_append [OF assms(3) free(1)] by simp
      then show ?thesis by (metis prefixI)
    qed
  next
    assume "prefix ps qs"
    then obtain rs where rs: "qs = ps @ rs" by (auto simp: prefix_def)
    show "join_with ''/'' qs = join_with ''/'' ps \<or> starts_with (join_with ''/'' qs) (join_with ''/'' ps @ ''/'')"
      using join_append [OF assms(3), of rs "''/''"] rs by (cases "rs = []") (simp_all add: starts_with_append_iff)
  qed
qed

end
