(* ===== verification/Job_Report.thy ===== *)
theory Job_Report
  imports File_Path Service_Sessions Service_Jobs
begin

text \<open>
  The report of an agent job (\<open>service_job_report.go\<close>): the result it stores, the evidence a succeeded
  job has to give, the scope its paths have to stay in, the follow-up it announces; the entry and the
  observation a report leaves (\<open>capitalization.go\<close>,
      \<open>service_observation.go\<close>). What the code asks of the
  machine it runs on is a record: the repository root of the environment, whether \<open>os.Stat\<close> finds a path,
  the printable runes of \<open>strconv.Quote\<close>, the text \<open>fmt\<close> gives a number or a map,
      and the text of a JSON error.
\<close>

record report_world =
  rw_REPO_ROOT :: string
  rw_exists :: "string \<Rightarrow> bool"
  rw_isPrint :: "nat \<Rightarrow> bool"
  rw_format :: "json \<Rightarrow> string"
  rw_jsonError :: "json \<Rightarrow> error"

definition repoRootFromEnv :: "report_world \<Rightarrow> string" where
  "repoRootFromEnv w = (let root = TrimSpace (rw_REPO_ROOT w) in if root = '''' then ''.'' else root)"

section \<open>Quoted text\<close>

text \<open>The \<open>%q\<close> of a string,
    rune by rune; an invalid byte has the rune \<open>0xFFFD\<close> and one byte.\<close>

definition hex_digits :: "nat \<Rightarrow> nat \<Rightarrow> string" where
  "hex_digits n r = map (\<lambda>i. hex_digit (r div 16 ^ i)) (rev [0..<n])"

definition escaped_rune :: "(nat \<Rightarrow> bool) \<Rightarrow> nat \<times> string \<Rightarrow> string" where
  "escaped_rune isPrint t =
     (case t of (r, bytes) \<Rightarrow>
        if r = 0xFFFD \<and> length bytes = 1 then [CHR 0x5C] @ ''x'' @ hex_digits 2 (of_char (hd bytes))
        else if r = 0x22 \<or> r = 0x5C then CHR 0x5C # bytes
        else if isPrint r then bytes
        else if r = 7 then CHR 0x5C # ''a'' else if r = 8 then CHR 0x5C # ''b'' else if r = 12 then CHR 0x5C # ''f''
        else if r = 10 then CHR 0x5C # ''n'' else if r = 13 then CHR 0x5C # ''r'' else if r = 9 then CHR 0x5C # ''t''
        else if r = 11 then CHR 0x5C # ''v''
        else if r < 0x20 \<or> r = 0x7F then [CHR 0x5C] @ ''x'' @ hex_digits 2 r
        else if r < 0x10000 then [CHR 0x5C] @ ''u'' @ hex_digits 4 r
        else [CHR 0x5C] @ ''U'' @ hex_digits 8 r)"

definition Quote :: "(nat \<Rightarrow> bool) \<Rightarrow> string \<Rightarrow> string" where
  "Quote isPrint s = [CHR 0x22] @ concat (map (escaped_rune isPrint) (split_runes s)) @ [CHR 0x22]"

section \<open>Values of a result\<close>

definition resultStringList :: "json option \<Rightarrow> string list" where
  "resultStringList value =
     (case value of
        Some (JArray items) \<Rightarrow>
          filter (\<lambda>t. t \<noteq> '''') (map (\<lambda>item. TrimSpace (agentJobResultString (Some item))) items)
      | _ \<Rightarrow> [])"

definition payloadStringList :: "jobject option \<Rightarrow> string \<Rightarrow> string list" where
  "payloadStringList payload key = (case payload of None \<Rightarrow> [] | Some p \<Rightarrow> resultStringList (map_of p key))"

definition agentJobResultArrayLen :: "json option \<Rightarrow> nat" where
  "agentJobResultArrayLen value =
     (case value of
        Some (JArray items) \<Rightarrow> length (filter (\<lambda>item. TrimSpace (agentJobResultString (Some item)) \<noteq> '''') items)
      | _ \<Rightarrow> 0)"

definition agentJobResultHasArtifacts :: "jobject \<Rightarrow> bool" where
  "agentJobResultHasArtifacts result \<longleftrightarrow>
     list_ex (\<lambda>key. agentJobResultArrayLen (map_of result key) > 0)
       [''artifacts'', ''changed_paths'', ''touched_paths'', ''artifact_relative_paths''] \<or>
     list_ex (\<lambda>key. TrimSpace (agentJobResultString (map_of result key)) \<noteq> '''')
       [''artifact_relative_path'', ''artifact_path'', ''verification_record_id'']"

definition agentJobRoleNeedsArtifacts :: "string \<Rightarrow> bool" where
  "agentJobRoleNeedsArtifacts role \<longleftrightarrow> TrimSpace role \<in> {''implementer'', ''verifier''}"

section \<open>Paths in scope\<close>

definition ends_slash :: "string \<Rightarrow> bool" where
  "ends_slash s \<longleftrightarrow> s \<noteq> '''' \<and> last s = CHR ''/''"

definition normalizePathPrefix :: "string \<Rightarrow> string" where
  "normalizePathPrefix value =
     (let v = TrimSpace value in
      if v = '''' then ''''
      else let clean = Clean v
           in if clean = ''.'' then '''' else if ends_slash clean then clean else clean @ ''/'')"

definition pathWithinAnyPrefix :: "string \<Rightarrow> string list \<Rightarrow> bool" where
  "pathWithinAnyPrefix path dirs =
     list_ex (\<lambda>p. let q = normalizePathPrefix p in
        q \<noteq> '''' \<and> (Clean path = (if ends_slash q then butlast q else q) \<or> starts_with (Clean path) q)) dirs"

definition absolutePathWithinAllowed :: "string \<Rightarrow> string \<Rightarrow> string list \<Rightarrow> bool" where
  "absolutePathWithinAllowed path repoRoot allowed =
     (case Rel repoRoot path of None \<Rightarrow> False
      | Some rel \<Rightarrow> if starts_with rel ''..'' then False else pathWithinAnyPrefix rel allowed)"

definition absolutePathMatchesBlocked :: "string \<Rightarrow> string \<Rightarrow> string list \<Rightarrow> bool" where
  "absolutePathMatchesBlocked path repoRoot blocked =
     (case Rel repoRoot path of None \<Rightarrow> False
      | Some rel \<Rightarrow> if starts_with rel ''..'' then False else pathWithinAnyPrefix rel blocked)"

section \<open>Path evidence\<close>

record agentJobPathEvidence =
  pe_Raw :: string
  pe_Path :: string
  pe_Kind :: string

definition record_reference :: "string \<Rightarrow> bool" where
  "record_reference raw \<longleftrightarrow>
     starts_with raw ''gateway_call:'' \<or> starts_with raw ''verification:'' \<or> starts_with raw ''event:'' \<or> starts_with raw ''job:''"

definition classifyAgentJobPathEvidence :: "string \<Rightarrow> bool \<Rightarrow> agentJobPathEvidence option" where
  "classifyAgentJobPathEvidence raw0 repoScoped =
     (let raw = TrimSpace raw0 in
      if raw = '''' then None
      else if record_reference raw then None
      else if IsAbs raw then Some \<lparr>pe_Raw = raw, pe_Path = Clean raw, pe_Kind = ''abs''\<rparr>
      else if repoScoped then
        (let clean = Clean raw in
         if clean = ''.'' \<or> starts_with clean ''../'' then None
         else Some \<lparr>pe_Raw = raw, pe_Path = clean, pe_Kind = ''repo''\<rparr>)
      else
        (let clean0 = Clean raw; clean = (if starts_with clean0 ''./'' then drop 2 clean0 else clean0) in
         if clean = ''.'' \<or> starts_with clean ''../'' then None
         else if CHR ''/'' \<in> set clean then Some \<lparr>pe_Raw = raw, pe_Path = clean, pe_Kind = ''repo''\<rparr>
         else None))"

definition evidence_key :: "agentJobPathEvidence \<Rightarrow> string" where
  "evidence_key ref = pe_Kind ref @ ''::'' @ pe_Path ref"

text \<open>The loop over the named paths: each is classified and kept when its key is new.\<close>

fun add_evidence :: "(string \<times> bool) list \<Rightarrow> string list \<Rightarrow> agentJobPathEvidence list" where
  "add_evidence [] seen = []"
| "add_evidence ((raw, repoScoped) # ps) seen =
     (case classifyAgentJobPathEvidence raw repoScoped of
        None \<Rightarrow> add_evidence ps seen
      | Some ref \<Rightarrow>
          if evidence_key ref \<in> set seen then add_evidence ps seen
          else ref # add_evidence ps (evidence_key ref # seen))"

definition named_paths :: "jobject \<Rightarrow> (string \<times> bool) list" where
  "named_paths result =
     map (\<lambda>raw. (raw, True))
       (concat (map (\<lambda>key. resultStringList (map_of result key)) [''changed_paths'', ''touched_paths'',
           ''artifact_relative_paths''])) @
     [(agentJobResultString (map_of result ''artifact_relative_path''), True),
      (agentJobResultString (map_of result ''artifact_path''), False)]"

definition collectAgentJobPathEvidence :: "jobject \<Rightarrow> agentJobPathEvidence list" where
  "collectAgentJobPathEvidence result = add_evidence (named_paths result) []"

definition evidence_error :: "report_world \<Rightarrow> string list \<Rightarrow> string list \<Rightarrow> agentJobPathEvidence \<Rightarrow> error option" where
  "evidence_error w allowed blocked ref =
     (let root = repoRootFromEnv w; q = Quote (rw_isPrint w) (pe_Raw ref) in
      if pe_Kind ref = ''repo'' then first_error
        [(allowed \<noteq> [] \<and> \<not> pathWithinAnyPrefix (pe_Path ref) allowed,
          ''job report succeeded path '' @ q @ '' is outside allowed_paths''),
         (pathWithinAnyPrefix (pe_Path ref) blocked, ''job report succeeded path '' @ q @
             '' is inside blocked_paths''),
         (\<not> rw_exists w (Join [root, pe_Path ref]),
          ''job report succeeded path '' @ q @ '' does not exist under repo root'')]
      else if pe_Kind ref = ''abs'' then first_error
        [(allowed \<noteq> [] \<and> \<not> absolutePathWithinAllowed (pe_Path ref) root allowed,
          ''job report succeeded absolute path '' @ q @ '' is outside allowed_paths''),
         (absolutePathMatchesBlocked (pe_Path ref) root blocked,
          ''job report succeeded absolute path '' @ q @ '' is inside blocked_paths''),
         (\<not> rw_exists w (pe_Path ref), ''job report succeeded absolute path '' @ q @ '' does not exist'')]
      else None)"

fun first_evidence_error :: "report_world \<Rightarrow> string list \<Rightarrow> string list \<Rightarrow> agentJobPathEvidence list \<Rightarrow> error option" where
  "first_evidence_error w allowed blocked [] = None"
| "first_evidence_error w allowed blocked (ref # refs) =
     (case evidence_error w allowed blocked ref of
        Some err \<Rightarrow> Some err | None \<Rightarrow> first_evidence_error w allowed blocked refs)"

definition validateAgentJobPathEvidence :: "report_world \<Rightarrow> AgentJob \<Rightarrow> jobject \<Rightarrow> error option" where
  "validateAgentJobPathEvidence w job result =
     first_evidence_error w (payloadStringList (aj_Payload job) ''allowed_paths'')
       (payloadStringList (aj_Payload job) ''blocked_paths'') (collectAgentJobPathEvidence result)"

section \<open>The stored result\<close>

definition validateAgentJobSucceededEvidence :: "report_world \<Rightarrow> AgentJob \<Rightarrow> jobject \<Rightarrow> error option" where
  "validateAgentJobSucceededEvidence w job result =
     (if TrimSpace (agentJobResultString (map_of result ''summary'')) = ''''
      then Some ''job report succeeded requires result.summary''
      else if agentJobRoleNeedsArtifacts (aj_Role job) \<and> \<not> agentJobResultHasArtifacts result
      then Some (''job report succeeded for role '' @ TrimSpace (aj_Role job) @
                 '' requires non-empty result.artifacts or changed path evidence'')
      else validateAgentJobPathEvidence w job result)"

definition defaultAgentJobReportSummary :: "AgentJob \<Rightarrow> string \<Rightarrow> string" where
  "defaultAgentJobReportSummary job status =
     (if status \<in> {''succeeded'', ''failed'', ''canceled''}
      then ''Agent job '' @ aj_JobID job @ '' '' @ status @ '': '' @ TrimSpace (aj_Summary job)
      else TrimSpace (aj_Summary job))"

definition put_default :: "string \<Rightarrow> json \<Rightarrow> jobject \<Rightarrow> jobject" where
  "put_default key v m = (case map_of m key of None \<Rightarrow> AList.update key v m | Some _ \<Rightarrow> m)"

definition report_result :: "AgentJob \<Rightarrow> string \<Rightarrow> jobject option \<Rightarrow> string \<Rightarrow> jobject" where
  "report_result job status result actor =
     (let base = (case cloneJSONObject (aj_Result job) of None \<Rightarrow> [] | Some r \<Rightarrow> r);
          merged = merge_patch base (case cloneJSONObject result of None \<Rightarrow> [] | Some r \<Rightarrow> r);
          given = TrimSpace (agentJobResultString (map_of merged ''summary''));
          summary = (if given = '''' then defaultAgentJobReportSummary job status else given);
          m = AList.update ''summary'' (JString summary) merged;
          m = put_default ''artifacts'' (JArray []) m;
          m = AList.update ''report_status'' (JString status) m;
          m = AList.update ''reported_by_actor'' (JString (normalizeActor actor)) m;
          m = AList.update ''report_transport'' (JString ''job_report'') m
      in put_default ''completion_mode'' (JString ''explicit_job_report'') m)"

definition normalizeAgentJobReportResult ::
  "report_world \<Rightarrow> AgentJob \<Rightarrow> string \<Rightarrow> jobject option \<Rightarrow> string \<Rightarrow> error + jobject" where
  "normalizeAgentJobReportResult w job status result actor =
     (let merged = report_result job status result actor in
      if status = ''succeeded''
      then (case validateAgentJobSucceededEvidence w job merged of Some err \<Rightarrow> Inl err | None \<Rightarrow> Inr merged)
      else Inr merged)"

section \<open>The follow-up\<close>

record AgentJobChainResult =
  cc_ParentJobID :: string
  cc_Considered :: nat
  cc_Created :: nat
  cc_Existing :: nat
  cc_Dispatched :: nat
  cc_TelegramRequested :: nat
  cc_CreatedJobIDs :: "string list"
  cc_ExistingJobIDs :: "string list"

record AgentJobFollowUp =
  fu_Mode :: string
  fu_Summary :: string
  fu_JobIDs :: "string list"

fun first_seen :: "string list \<Rightarrow> string list \<Rightarrow> string list" where
  "first_seen [] seen = []"
| "first_seen (j # js) seen =
     (let j' = TrimSpace j in
      if j' = '''' \<or> j' \<in> set seen then first_seen js seen else j' # first_seen js (j' # seen))"

definition collectAgentJobFollowUpIDs :: "AgentJobChainResult option \<Rightarrow> string list" where
  "collectAgentJobFollowUpIDs chain =
     (case chain of None \<Rightarrow> [] | Some c \<Rightarrow> first_seen (cc_CreatedJobIDs c @
         cc_ExistingJobIDs c) [])"

definition buildAgentJobReportFollowUp :: "AgentJob \<Rightarrow> string list \<Rightarrow> AgentJobChainResult option \<Rightarrow> AgentJobFollowUp" where
  "buildAgentJobReportFollowUp job warnings chain =
     (let jobIDs = collectAgentJobFollowUpIDs chain;
          dispatched = (case chain of None \<Rightarrow> 0 | Some c \<Rightarrow> cc_Dispatched c);
          prepared = (case chain of None \<Rightarrow> False | Some c \<Rightarrow> cc_Created c > 0 \<or> cc_Existing c > 0 \<or> jobIDs \<noteq> []) in
      if warnings \<noteq> [] then
        \<lparr>fu_Mode = ''review_warnings'', fu_Summary = ''job.report '' @ runes [0xACBD, 0xACE0, 0xBD80, 0xD130] @
            '' '' @ runes [0xD655, 0xC778, 0xD55C] @ '' '' @ runes [0xB4A4] @ '' '' @ runes [0xB2E4, 0xC74C] @ '' '' @
            runes [0xC790, 0xB3D9, 0xD654, 0xB97C] @ '' '' @ runes [0xBBFF, 0xC5B4, 0xC57C] @ '' '' @ runes [0xD574] @
            ''.'', fu_JobIDs = jobIDs\<rparr>
      else if dispatched > 0 then
        \<lparr>fu_Mode = ''monitor_dispatched_jobs'',
         fu_Summary = runes [0xD6C4, 0xC18D] @ '' '' @ runes [0xC791, 0xC5C5] @ '' '' @ itoa_nat dispatched @
             runes [0xAC74, 0xC774] @ '' '' @ runes [0xC790, 0xB3D9] @ '' '' @ runes [0xD22C, 0xC785, 0xB410,
             0xC5B4] @ ''. '' @ runes [0xC0C8] @ '' '' @ runes [0xC218, 0xB3D9] @ '' '' @ runes [0xC791, 0xC5C5,
             0xC744] @ '' '' @ runes [0xB9CC, 0xB4E4, 0xAE30] @ '' '' @ runes [0xC804, 0xC5D0] @ '' '' @
             runes [0xADF8] @ '' '' @ runes [0xB808, 0xC778, 0xBD80, 0xD130] @ '' '' @ runes [0xD655, 0xC778, 0xD574,
             0xC57C] @ '' '' @ runes [0xD574] @ ''.'',
         fu_JobIDs = jobIDs\<rparr>
      else if prepared then
        \<lparr>fu_Mode = ''review_follow_up_jobs'',
         fu_Summary = runes [0xD6C4, 0xC18D] @ '' '' @ runes [0xC791, 0xC5C5, 0xC740] @ '' '' @ runes [0xC900,
             0xBE44, 0xB410, 0xC9C0, 0xB9CC] @ '' '' @ runes [0xC544, 0xC9C1] @ '' '' @ runes [0xC790, 0xB3D9] @
             '' '' @ runes [0xD22C, 0xC785, 0xB418, 0xC9C4] @ '' '' @ runes [0xC54A, 0xC558, 0xC5B4] @ ''. '' @
             runes [0xB2E4, 0xC74C, 0xC73C, 0xB85C] @ '' '' @ runes [0xADF8] @ '' '' @ runes [0xB808, 0xC778,
             0xC744] @ '' '' @ runes [0xAC80, 0xD1A0, 0xD558, 0xAC70, 0xB098] @ '' '' @ runes [0xD22C, 0xC785,
             0xD574, 0xC57C] @ '' '' @ runes [0xD574] @ ''.'',
         fu_JobIDs = jobIDs\<rparr>
      else if TrimSpace (aj_Status job) = ''failed'' then
        \<lparr>fu_Mode = ''inspect_failure'',
         fu_Summary = runes [0xC7AC, 0xC2DC, 0xB3C4, 0xD558, 0xAC70, 0xB098] @ '' '' @ runes [0xB300, 0xCCB4] @
             '' '' @ runes [0xC791, 0xC5C5, 0xC744] @ '' '' @ runes [0xC62C, 0xB9AC, 0xAE30] @ '' '' @ runes [0xC804,
             0xC5D0] @ '' '' @ runes [0xC2E4, 0xD328] @ '' '' @ runes [0xB808, 0xC778] @ '' '' @ runes [0xC99D,
             0xAC70, 0xBD80, 0xD130] @ '' '' @ runes [0xD655, 0xC778, 0xD574, 0xC57C] @ '' '' @ runes [0xD574] @
             ''.'', fu_JobIDs = []\<rparr>
      else if TrimSpace (aj_Status job) = ''canceled'' then
        \<lparr>fu_Mode = ''decide_replacement'',
         fu_Summary = runes [0xCDE8, 0xC18C, 0xB41C] @ '' '' @ runes [0xB808, 0xC778, 0xC744] @ '' '' @
             runes [0xB2E4, 0xC2DC] @ '' '' @ runes [0xC5F4, 0xC9C0] @ '', '' @ runes [0xC0C8] @ '' bounded '' @
             runes [0xC791, 0xC5C5, 0xC73C, 0xB85C] @ '' '' @ runes [0xBC14, 0xAFC0, 0xC9C0] @ '' '' @ runes [0xBA3C,
             0xC800] @ '' '' @ runes [0xACB0, 0xC815, 0xD574, 0xC57C] @ '' '' @ runes [0xD574] @ ''.'',
             fu_JobIDs = []\<rparr>
      else
        \<lparr>fu_Mode = ''continue_loop'',
         fu_Summary = runes [0xC790, 0xB3D9] @ '' '' @ runes [0xD6C4, 0xC18D] @ '' '' @ runes [0xC791, 0xC5C5,
             0xC740] @ '' '' @ runes [0xC548] @ '' '' @ runes [0xC5F4, 0xB838, 0xC5B4] @ ''. founder '' @
             runes [0xAC80, 0xD1A0, 0xB098] @ '' `layer-osctl next`'' @ runes [0xB85C] @ '' '' @ runes [0xB2E4,
             0xC74C] @ '' '' @ runes [0xB808, 0xC778, 0xC744] @ '' '' @ runes [0xC7A1, 0xC544, 0xC57C] @ '' '' @
             runes [0xD574] @ ''.'', fu_JobIDs = []\<rparr>)"

definition agentJobFollowUpPayload :: "AgentJobFollowUp \<Rightarrow> jobject" where
  "agentJobFollowUpPayload item =
     [(''mode'', JString (TrimSpace (fu_Mode item))), (''summary'', JString (TrimSpace (fu_Summary item)))] @
     (if fu_JobIDs item \<noteq> [] then [(''job_ids'', string_array (fu_JobIDs item))] else [])"

section \<open>The corpus entry and the observation of a report\<close>

text \<open>Numbers and maps have the text \<open>fmt\<close> gives them, which is a parameter.\<close>

function stringifyCapitalizationValue :: "(json \<Rightarrow> string) \<Rightarrow> json \<Rightarrow> string" where
  "stringifyCapitalizationValue fmt (JString s) = s"
| "stringifyCapitalizationValue fmt (JBool b) = (if b then ''true'' else ''false'')"
| "stringifyCapitalizationValue fmt (JArray vs) = join_with ''|'' (map (stringifyCapitalizationValue fmt) (take 3 vs))"
| "stringifyCapitalizationValue fmt JNull = fmt JNull"
| "stringifyCapitalizationValue fmt (JInt i) = fmt (JInt i)"
| "stringifyCapitalizationValue fmt (JFloat m x) = fmt (JFloat m x)"
| "stringifyCapitalizationValue fmt JNonFinite = fmt JNonFinite"
| "stringifyCapitalizationValue fmt (JObject kvs) = fmt (JObject kvs)"
| "stringifyCapitalizationValue fmt (JUnsupported ty) = fmt (JUnsupported ty)"
  by pat_completeness auto

termination
proof (relation "measure (\<lambda>(fmt, v). size v)")
  fix fmt :: "json \<Rightarrow> string" and vs :: "json list" and v assume "v \<in> set (take 3 vs)"
  then have "v \<in> set vs" by (rule in_set_takeD)
  then have "size v < size (JArray vs)" by (induction vs) auto
  then show "((fmt, v), fmt, JArray vs) \<in> measure (\<lambda>(fmt, v). size v)" by simp
qed simp

definition summarizeJSONObject :: "(json \<Rightarrow> string) \<Rightarrow> jobject option \<Rightarrow> nat \<Rightarrow> string list" where
  "summarizeJSONObject fmt items mx =
     (case items of
        None \<Rightarrow> []
      | Some m \<Rightarrow>
          map (\<lambda>key. key @ '':'' @
              (case map_of m key of None \<Rightarrow> '''' | Some v \<Rightarrow> stringifyCapitalizationValue fmt v))
            (take mx (sort (map fst m))))"

definition result_items :: "(json \<Rightarrow> string) \<Rightarrow> jobject option \<Rightarrow> string list \<Rightarrow> string list" where
  "result_items fmt result keys =
     (case result of
        None \<Rightarrow> []
      | Some m \<Rightarrow> List.map_filter (\<lambda>key. map_option (\<lambda>v. key @ '':'' @
          stringifyCapitalizationValue fmt v) (map_of m key)) keys)"

definition agent_response :: "AgentJob \<Rightarrow> string" where
  "agent_response item =
     (case aj_Result item of
        None \<Rightarrow> ''''
      | Some m \<Rightarrow> (case map_of m ''response'' of Some (JString raw) \<Rightarrow> limitText (TrimSpace raw) 300 | _ \<Rightarrow> ''''))"

definition trimmed_ref :: "string option \<Rightarrow> string list" where
  "trimmed_ref ref = (case ref of None \<Rightarrow> [] | Some r \<Rightarrow> if TrimSpace r \<noteq> '''' then [''ref:'' @ TrimSpace r] else [])"

definition newAgentJobCapitalizationEntry ::
  "(json \<Rightarrow> string) \<Rightarrow> AgentJob \<Rightarrow> EventEnvelope \<Rightarrow> ReviewRoomSummary \<Rightarrow> string \<Rightarrow> CapitalizationEntry" where
  "newAgentJobCapitalizationEntry fmt item event review actor =
     (let response = agent_response item;
          limited = (\<lambda>xs. limitStrings (Some xs) 5) in
      \<lparr>ce_EntryID = ''cap_'' @ ev_EventID event, ce_CreatedAt = ev_Timestamp event, ce_Actor = actor,
       ce_SourceEventID = ev_EventID event, ce_SourceKind = ev_Kind event,
       ce_Situation = \<lparr>cf_Summary = aj_Summary item,
         cf_Items = limited ([''role:'' @ aj_Role item, ''kind:'' @ aj_Kind item, ''stage:'' @ aj_Stage item,
                              ''source:'' @ aj_Source item] @ trimmed_ref (aj_Ref item))\<rparr>,
       ce_Decision = \<lparr>cf_Summary = (if response \<noteq> '''' then response
                                   else ''Agent job terminal result recorded through official daemon path''),
         cf_Items = limited (limitStrings (aj_Notes item) 3 @
           (if response = '''' then summarizeJSONObject fmt (aj_Result item) 3 else []))\<rparr>,
       ce_Cost = \<lparr>cf_Summary = ''Dispatch/runtime cost markers'',
         cf_Items = limited (result_items fmt (aj_Result item) [''attempt_count'', ''last_http_status'',
             ''last_error''] @
           (if rv_OpenCount review > 0 then [''review_open:'' @ Itoa (rv_OpenCount review)] else []))\<rparr>,
       ce_Result = \<lparr>cf_Summary = ''Agent result persisted into runtime evidence and corpus'',
         cf_Items = limitStrings (Some ([''status:'' @ aj_Status item, ''event:'' @ ev_EventID event, ''actor:'' @
             actor] @
           result_items fmt (aj_Result item)
             [''gateway_call_id'', ''provider'', ''model'', ''dispatch_state'', ''report_source'', ''source_channel'',
              ''source_family'', ''source_run_id'', ''antigravity_sync_key'', ''gemini_sync_key'', ''artifact_topic'',
              ''artifact_type'', ''artifact_stem'', ''artifact_relative_path'', ''severity''])) 12\<rparr>\<rparr>)"

definition observationResultString :: "jobject option \<Rightarrow> string \<Rightarrow> string" where
  "observationResultString data key =
     (case data of
        None \<Rightarrow> ''''
      | Some m \<Rightarrow> (case map_of m key of Some (JString text) \<Rightarrow> TrimSpace text | _ \<Rightarrow> ''''))"

definition labelled :: "string \<Rightarrow> string \<Rightarrow> string list" where
  "labelled label v = (if v \<noteq> '''' then [label @ v] else [])"

definition agentJobReportObservation :: "AgentJob \<Rightarrow> EventEnvelope \<Rightarrow> string \<Rightarrow> ObservationRecord" where
  "agentJobReportObservation job event actor =
     \<lparr>ob_ObservationID = '''', ob_SourceChannel = ''agent_job'', ob_CapturedAt = ev_Timestamp event,
      ob_Actor = TrimSpace actor, ob_Topic = ev_Kind event,
      ob_Refs = Some ([''job:'' @ aj_JobID job, ''event:'' @ ev_EventID event] @ trimmed_ref (aj_Ref job) @
        labelled ''gateway:'' (observationResultString (aj_Result job) ''gateway_call_id'')),
      ob_Confidence = ''high'',
      ob_RawExcerpt = join_with '' | ''
        ([''job='' @ aj_JobID job, ''status='' @ aj_Status job, ''summary='' @ TrimSpace (aj_Summary job)] @
         labelled ''provider='' (observationResultString (aj_Result job) ''provider'') @
         labelled ''model='' (observationResultString (aj_Result job) ''model'') @
         (if elems (aj_Notes job) \<noteq> [] then [''notes='' @ join_with ''; '' (elems (aj_Notes job))] else [])),
      ob_NormalizedSummary = ''Agent job '' @ aj_JobID job @ '' '' @ aj_Status job @ '': '' @
          TrimSpace (aj_Summary job)\<rparr>"

end
