(* ===== verification/Json_Decode.thy ===== *)
theory Json_Decode
  imports Json_Value
begin

text \<open>
  \<open>json.Unmarshal\<close> into a struct: a field takes the value of the key that is its tag up to letter case, a
  missing key or a null leaves the zero value, and a value of another type is an error (\<open>None\<close>). An object
  with two keys that differ only in case is read as if it had the first.
\<close>

fun fold_key :: "string \<Rightarrow> string" where
  "fold_key [] = []"
| "fold_key (c # s) =
     (if starts_with (c # s) [CHR 0xC5, CHR 0xBF] then CHR ''s'' # fold_key (drop 1 s) else c # fold_key s)"

definition json_field :: "string \<Rightarrow> jobject \<Rightarrow> json" where
  "json_field name kvs =
     (case find (\<lambda>kv. ToLower (fold_key (fst kv)) = name) kvs of None \<Rightarrow> JNull | Some kv \<Rightarrow> snd kv)"

definition string_value :: "json \<Rightarrow> string option" where
  "string_value v = (case v of JNull \<Rightarrow> Some '''' | JString s \<Rightarrow> Some s | _ \<Rightarrow> None)"

definition bool_value :: "json \<Rightarrow> bool option" where
  "bool_value v = (case v of JNull \<Rightarrow> Some False | JBool b \<Rightarrow> Some b | _ \<Rightarrow> None)"

definition map_value :: "json \<Rightarrow> jobject option option" where
  "map_value v = (case v of JNull \<Rightarrow> Some None | JObject kvs \<Rightarrow> Some (Some kvs) | _ \<Rightarrow> None)"

definition struct_value :: "(jobject \<Rightarrow> 'a option) \<Rightarrow> json \<Rightarrow> 'a option" where
  "struct_value decode v = (case v of JNull \<Rightarrow> decode [] | JObject kvs \<Rightarrow> decode kvs | _ \<Rightarrow> None)"

definition array_value :: "(json \<Rightarrow> 'a option) \<Rightarrow> json \<Rightarrow> 'a list option" where
  "array_value decode v = (case v of JNull \<Rightarrow> Some [] | JArray vs \<Rightarrow> those (map decode vs) | _ \<Rightarrow> None)"

end
