(* ===== verification/Service_Report.thy ===== *)
theory Service_Report
  imports Job_Report Json_Decode
begin

text \<open>
  Reporting an agent job and starting the jobs its chain rules ask for (\<open>service_job_report.go\<close>,
  \<open>service_job_chain.go\<close>). A report holds the lock for the update, its corpus entry and its observation,
  releases it for the chain, and takes it again for the follow-up; each locked section has an environment of
  its own: 0 the update, 1 the entry, 2 the observation, 3 the warning of a failed chain, 4 the follow-up,
  and from 5 on one per chain rule. Dispatching a chained job is a parameter here (\<open>dispatcher\<close>, with the
  number of the rule) and is the operation of theory \<open>Job_Dispatch\<close>,
      which calls reports in turn. No other
  request runs between the sections. The notice to the founder at the end only goes out and is left out.
\<close>

type_synonym dispatcher = "nat \<Rightarrow> string \<Rightarrow> Service \<Rightarrow> error option \<times> Service"

section \<open>Chain rules of a payload\<close>

definition rule_value :: "jobject \<Rightarrow> ChainRule option" where
  "rule_value kvs =
     (let str = (\<lambda>name. string_value (json_field name kvs)) in
      case (str ''rule_id'', str ''on_status'', str ''next_kind'', str ''next_role'', str ''next_stage'',
          str ''surface'',
            str ''summary'', bool_value (json_field ''auto_dispatch'' kvs),
                bool_value (json_field ''notify_telegram'' kvs),
            map_value (json_field ''payload'' kvs), array_value string_value (json_field ''notes'' kvs)) of
        (Some rid, Some on, Some kind, Some role, Some stage, Some surface, Some summary, Some dispatch, Some notify,
         Some payload, Some notes) \<Rightarrow>
          Some \<lparr>cr_RuleID = rid, cr_OnStatus = on, cr_NextKind = kind, cr_NextRole = role,
              cr_NextStage = stage,
                cr_Surface = surface, cr_Summary = summary, cr_AutoDispatch = dispatch, cr_NotifyTelegram = notify,
                cr_Payload = payload, cr_Notes = notes\<rparr>
      | _ \<Rightarrow> None)"

definition rules_value :: "json \<Rightarrow> ChainRule list option" where
  "rules_value v = struct_value (\<lambda>kvs. array_value (struct_value rule_value) (json_field ''rules'' kvs)) v"

definition chainRulesFromPayload :: "report_world \<Rightarrow> jobject option \<Rightarrow> error + ChainRule list option" where
  "chainRulesFromPayload w payload =
     (case payload of
        None \<Rightarrow> Inr None
      | Some p \<Rightarrow>
          (case map_of p ''chain_rules'' of
             None \<Rightarrow> Inr None
           | Some JNull \<Rightarrow> Inr None
           | Some raw \<Rightarrow>
               if \<not> json_marshals raw then Inl (rw_jsonError w raw)
               else (case rules_value raw of
                       None \<Rightarrow> Inl (rw_jsonError w raw)
                     | Some rules \<Rightarrow>
                         (case ChainRules_Validate rules of Some err \<Rightarrow> Inl err | None \<Rightarrow> Inr (Some rules)))))"

section \<open>Chained jobs\<close>

definition findAgentJobByID :: "AgentJob list \<Rightarrow> string \<Rightarrow> AgentJob option" where
  "findAgentJobByID items jobID = find (\<lambda>item. TrimSpace (aj_JobID item) = TrimSpace jobID) items"

definition start_result :: "string \<Rightarrow> AgentJobChainResult" where
  "start_result parentID =
     \<lparr>cc_ParentJobID = parentID, cc_Considered = 0, cc_Created = 0, cc_Existing = 0, cc_Dispatched = 0,
      cc_TelegramRequested = 0, cc_CreatedJobIDs = [], cc_ExistingJobIDs = []\<rparr>"

definition chain_dispatch ::
  "dispatcher \<Rightarrow> nat \<Rightarrow> ChainRule \<Rightarrow> string \<Rightarrow> string \<Rightarrow> AgentJobChainResult \<Rightarrow> Service \<Rightarrow>
   (error option \<times> AgentJobChainResult) \<times> Service" where
  "chain_dispatch dispatch i rule what childID result s =
     (case dispatch i childID s of
        (Some err, t) \<Rightarrow> ((Some (''chain rule '' @ cr_RuleID rule @ '' dispatch '' @ what @ '' job: '' @
            err), result), t)
      | (None, t) \<Rightarrow> ((None, result\<lparr>cc_Dispatched := Suc (cc_Dispatched result)\<rparr>), t))"

text \<open>One rule of the loop whose status matches: the child is created, or was there before.\<close>

definition chain_rule ::
  "env \<Rightarrow> dispatcher \<Rightarrow> nat \<Rightarrow> AgentJob \<Rightarrow> ChainRule \<Rightarrow> AgentJobChainResult \<Rightarrow> Service \<Rightarrow>
   (error option \<times> AgentJobChainResult) \<times> Service" where
  "chain_rule e dispatch i parent rule result0 s =
     (let result = result0\<lparr>cc_Considered := Suc (cc_Considered result0)\<rparr>;
          child = chainedAgentJob (en_clock e 49) parent rule; childID = aj_JobID child in
      case CreateAgentJob e child s of
        (Inl err, s1) \<Rightarrow>
          if \<not> contains_sub (ToLower err) ''job_id already exists''
          then ((Some (''chain rule '' @ cr_RuleID rule @ '' create job: '' @ err), result), s1)
          else
            (let result = result\<lparr>cc_Existing := Suc (cc_Existing result),
                                 cc_ExistingJobIDs := cc_ExistingJobIDs result @ [childID]\<rparr> in
             if \<not> cr_AutoDispatch rule then ((None, result), s1)
             else case findAgentJobByID (sv_agentJob s1) childID of
                    None \<Rightarrow> ((None, result), s1)
                  | Some existing \<Rightarrow>
                      if aj_Status existing = ''queued'' \<or> aj_Status existing = ''failed''
                      then chain_dispatch dispatch i rule ''existing'' childID result s1
                      else ((None, result), s1))
      | (Inr _, s1) \<Rightarrow>
          (let result = result\<lparr>cc_Created := Suc (cc_Created result),
                               cc_CreatedJobIDs := cc_CreatedJobIDs result @ [childID],
                               cc_TelegramRequested :=
                                 (if cr_NotifyTelegram rule then Suc (cc_TelegramRequested result)
                                  else cc_TelegramRequested result)\<rparr> in
           if cr_AutoDispatch rule then chain_dispatch dispatch i rule ''child'' childID result s1
           else ((None, result), s1)))"

fun apply_rules ::
  "(nat \<Rightarrow> env) \<Rightarrow> dispatcher \<Rightarrow> nat \<Rightarrow> AgentJob \<Rightarrow> ChainRule list \<Rightarrow> AgentJobChainResult \<Rightarrow> Service \<Rightarrow>
   (error option \<times> AgentJobChainResult) \<times> Service" where
  "apply_rules es dispatch i parent [] result s = ((None, result), s)"
| "apply_rules es dispatch i parent (rule # rules) result s =
     (if TrimSpace (cr_OnStatus rule) \<noteq> TrimSpace (aj_Status parent)
      then apply_rules es dispatch (Suc i) parent rules result s
      else case chain_rule (es i) dispatch i parent rule result s of
             ((Some err, result'), s') \<Rightarrow> ((Some err, result'), s')
           | ((None, result'), s') \<Rightarrow> apply_rules es dispatch (Suc i) parent rules result' s')"

definition ApplyAgentJobChain ::
  "report_world \<Rightarrow> (nat \<Rightarrow> env) \<Rightarrow> dispatcher \<Rightarrow> AgentJob \<Rightarrow> Service \<Rightarrow> (error option \<times> AgentJobChainResult) \<times> Service" where
  "ApplyAgentJobChain w es dispatch parent s =
     (case chainRulesFromPayload w (aj_Payload parent) of
        Inl err \<Rightarrow> ((Some err, start_result (aj_JobID parent)), s)
      | Inr None \<Rightarrow> ((None, start_result (aj_JobID parent)), s)
      | Inr (Some rules) \<Rightarrow> apply_rules es dispatch 0 parent rules (start_result (aj_JobID parent)) s)"

definition recordAutomationWarning :: "env \<Rightarrow> ReviewRoomItem \<Rightarrow> Service \<Rightarrow> Service" where
  "recordAutomationWarning e item s = warn_locked e 0 item s"

definition agentJobChainFailureReviewItem :: "time \<Rightarrow> AgentJob \<Rightarrow> error \<Rightarrow> ReviewRoomItem" where
  "agentJobChainFailureReviewItem now job err =
     newSignalReviewRoomItem now
       (''`job.report` '' @ runes [0xC774, 0xD6C4] @ '' '' @ runes [0xC5D0, 0xC774, 0xC804, 0xD2B8] @ '' '' @
           runes [0xC791, 0xC5C5] @ '' '' @ runes [0xCCB4, 0xC778, 0xC774] @ '' `'' @ aj_JobID job @ ''`'' @
           runes [0xC5D0, 0xC11C] @ '' '' @ runes [0xC2E4, 0xD328, 0xD588, 0xC5B4] @ ''. '' @ runes [0xC774, 0xD6C4] @
           '' '' @ runes [0xC790, 0xB3D9, 0xD654, 0xB97C] @ '' '' @ runes [0xBBFF, 0xAE30] @ '' '' @ runes [0xC804,
           0xC5D0] @ '' '' @ runes [0xCCB4, 0xC778] @ '' '' @ runes [0xADDC, 0xCE59, 0xC744] @ '' '' @ runes [0xD655,
           0xC778, 0xD574, 0xC57C] @ '' '' @ runes [0xD574] @ ''.'')
       ''agent_job.chain_failed'' (Some (aj_JobID job))
       ''post-report chain failure requires founder review before automated follow-up can be trusted''
       ''review_room.auto.agent_job_chain_failed''
       [''job:'' @ aj_JobID job, ''status:'' @ aj_Status job, ''error:'' @ TrimSpace err]"

section \<open>Reports\<close>

record AgentJobReportResult =
  jr_Job :: AgentJob
  jr_Event :: EventEnvelope
  jr_FollowUp :: AgentJobFollowUp
  jr_Capitalization :: "CapitalizationEntry option"
  jr_Chain :: "AgentJobChainResult option"
  jr_Warnings :: "string list"

text \<open>The corpus entry of a report; when it cannot be written, a warning and a review item.\<close>

definition report_capitalize ::
  "report_world \<Rightarrow> env \<Rightarrow> AgentJob \<Rightarrow> EventEnvelope \<Rightarrow> Service \<Rightarrow> (CapitalizationEntry option \<times> string list) \<times> Service" where
  "report_capitalize w e job event s =
     (let (room, s1) = currentReviewRoomLocked e s;
          entry = newAgentJobCapitalizationEntry (rw_format w) job event (SummarizeReviewRoom (en_clock e 73) room) (currentActor e s1)
      in case appendCapitalizationEntry e entry s1 of
           (None, s2) \<Rightarrow> ((Some entry, []), s2)
         | (Some err, s2) \<Rightarrow>
             ((None, [''capitalization append failed: '' @ err]),
              warn_locked e 0
                (newSignalReviewRoomItem (en_clock e 74)
                   (''`job.report` '' @ runes [0xC774, 0xD6C4] @ '' '' @ runes [0xC5D0, 0xC774, 0xC804, 0xD2B8] @
                       '' '' @ runes [0xC791, 0xC5C5] @ '' '' @ runes [0xC790, 0xBCF8, 0xD654] @ '' '' @
                       runes [0xAE30, 0xB85D] @ '' '' @ runes [0xCD94, 0xAC00, 0xAC00] @ '' '' @ runes [0xC2E4,
                       0xD328, 0xD588, 0xC5B4] @ ''. '' @ runes [0xC774, 0xD6C4] @ '' '' @ runes [0xC790, 0xB3D9,
                       0xD654, 0xB97C] @ '' '' @ runes [0xBBFF, 0xAE30] @ '' '' @ runes [0xC804, 0xC5D0] @ '' '' @
                       runes [0xC9C0, 0xC2DD] @ '' '' @ runes [0xCF54, 0xD37C, 0xC2A4] @ '' '' @ runes [0xACBD,
                       0xB85C, 0xB97C] @ '' '' @ runes [0xD655, 0xC778, 0xD574, 0xC57C] @ '' '' @ runes [0xD574] @
                       ''.'')
                   ''capitalization.failed'' None
                   ''agent job capitalization append failure requires founder review before automation depends on the corpus''
                   ''review_room.auto.agent_job_capitalization_failed''
                   [''entry:'' @ ce_EntryID entry, ''job:'' @ aj_JobID job, ''error:'' @ err]) s2))"

definition report_observe :: "url_renderer \<Rightarrow> env \<Rightarrow> AgentJob \<Rightarrow> EventEnvelope \<Rightarrow> Service \<Rightarrow> string list \<times> Service" where
  "report_observe parseURL e job event s =
     (case appendAutoObservationLocked parseURL e 0 (agentJobReportObservation job event (currentActor e s)) s of
        (None, s1) \<Rightarrow> ([], s1)
      | (Some err, s1) \<Rightarrow>
          ([''observation auto-ingest failed: '' @ err],
           warn_locked e 2
             (newSignalReviewRoomItem (en_clock e 75)
                (''`job.report` '' @ runes [0xC774, 0xD6C4] @ '' observation '' @ runes [0xC790, 0xB3D9] @ '' '' @
                    runes [0xC801, 0xC7AC, 0xAC00] @ '' '' @ runes [0xC2E4, 0xD328, 0xD588, 0xC5B4] @ ''. '' @
                    runes [0xD06C, 0xB85C, 0xC2A4, 0xCC44, 0xB110] @ '' '' @ runes [0xD569, 0xC131, 0xC744] @ '' '' @
                    runes [0xBBFF, 0xAE30] @ '' '' @ runes [0xC804, 0xC5D0] @ '' observation '' @ runes [0xB808,
                    0xC9C0, 0xC2A4, 0xD2B8, 0xB9AC, 0xB97C] @ '' '' @ runes [0xD655, 0xC778, 0xD574, 0xC57C] @ '' '' @
                    runes [0xD574] @ ''.'')
                ''observation.failed'' None
                ''observation append failure requires founder review before automation depends on the observation registry''
                ''review_room.auto.agent_job_observation_failed''
                [''event:'' @ ev_EventID event, ''job:'' @ aj_JobID job, ''error:'' @ err]) s1))"

definition chain_worth_reporting :: "AgentJobChainResult \<Rightarrow> bool" where
  "chain_worth_reporting c \<longleftrightarrow>
     cc_Considered c > 0 \<or> cc_Created c > 0 \<or> cc_Existing c > 0 \<or> cc_Dispatched c > 0 \<or> cc_TelegramRequested c > 0 \<or>
     cc_CreatedJobIDs c \<noteq> [] \<or> cc_ExistingJobIDs c \<noteq> []"

definition report_chain ::
  "report_world \<Rightarrow> (nat \<Rightarrow> env) \<Rightarrow> dispatcher \<Rightarrow> AgentJob \<Rightarrow> Service \<Rightarrow> (AgentJobChainResult option \<times> string list) \<times> Service" where
  "report_chain w es dispatch job s =
     (case ApplyAgentJobChain w (\<lambda>i. es (5 + i)) dispatch job s of
        ((Some err, _), s1) \<Rightarrow>
          ((None, [''agent job chain failed: '' @ err]),
           recordAutomationWarning (es 3) (agentJobChainFailureReviewItem (en_clock (es 3) 74) job err) s1)
      | ((None, chain), s1) \<Rightarrow> ((if chain_worth_reporting chain then Some chain else None, []), s1))"

definition report_follow_up ::
  "env \<Rightarrow> AgentJobReportResult \<Rightarrow> Service \<Rightarrow> AgentJobReportResult \<times> Service" where
  "report_follow_up e report s =
     (case applyAgentJobResultPatchLocked e (aj_JobID (jr_Job report))
             (Some [(''follow_up'', JObject (agentJobFollowUpPayload (jr_FollowUp report)))]) s of
        (Inl err, t) \<Rightarrow> (report\<lparr>jr_Warnings := jr_Warnings report @
            [''follow-up persist failed: '' @ err]\<rparr>, t)
      | (Inr persisted, t) \<Rightarrow> (report\<lparr>jr_Job := persisted\<rparr>, t))"

definition ReportAgentJob ::
  "report_world \<Rightarrow> url_renderer \<Rightarrow> (nat \<Rightarrow> env) \<Rightarrow> dispatcher \<Rightarrow> string \<Rightarrow> string \<Rightarrow> string slice \<Rightarrow> jobject option \<Rightarrow>
   Service \<Rightarrow> AgentJobReportResult outcome" where
  "ReportAgentJob w parseURL es dispatch jobID status notes result s =
     (if \<not> validAgentJobTerminalStatus status then (Inl ''job report status must be terminal'', s) else
      case agentJobStore_get (sv_agentJob s) jobID of None \<Rightarrow> (Inl ''job_id not found'',
          s) | Some current \<Rightarrow>
      case normalizeAgentJobReportResult w current status result (currentActor (es 0) s) of
        Inl err \<Rightarrow> (Inl err, s)
      | Inr normalized \<Rightarrow>
      case updateAgentJobLocked (es 0) jobID status notes (Some normalized) (''agent_job.'' @ status) s of
        (Inl err, s1) \<Rightarrow> (Inl err, s1)
      | (Inr (updated, event), s1) \<Rightarrow>
          let ((entry, w1), s2) = report_capitalize w (es 1) updated event s1;
              (w2, s3) = report_observe parseURL (es 2) updated event s2;
              ((chain, w3), s4) = report_chain w es dispatch updated s3;
              warnings = w1 @ w2 @ w3;
              report = \<lparr>jr_Job = updated, jr_Event = event,
                        jr_FollowUp = buildAgentJobReportFollowUp updated warnings chain, jr_Capitalization = entry,
                        jr_Chain = chain, jr_Warnings = warnings\<rparr>;
              (report', s5) = report_follow_up (es 4) report s4
          in (Inr report', s5))"

end
