(* ===== verification/Provider_Roster.thy ===== *)
theory Provider_Roster
  imports Service_Ops
begin

text \<open>
  The model providers and how a role is bound to one (\<open>capability_registry.go\<close>, \<open>provider_auth.go\<close>,
  \<open>network_policy.go\<close>, \<open>authority.go\<close>, the tables of \<open>service_job_dispatch.go\<close> and \<open>agent_dispatch_profile.go\<close>).
  Environment variables are read through \<open>getenv\<close>. A Go map is an association list with distinct keys;
  where the code ranges over one it sorts the result, so the order of the list does not matter. The
  parsers of URLs and addresses of the Go library are parameters.
\<close>

type_synonym getenv = "string \<Rightarrow> string"

section \<open>Lists in environment variables\<close>

definition splitRoleCSV :: "string \<Rightarrow> string list" where
  "splitRoleCSV raw = filter (\<lambda>v. v \<noteq> '''') (map TrimSpace (split_on (CHR '','') raw))"

text \<open>\<open>strings.SplitN(part, "=", 2)\<close> with two pieces.\<close>

definition split_binding :: "string \<Rightarrow> (string \<times> string) option" where
  "split_binding part =
     (if CHR ''='' \<in> set part
      then Some (takeWhile (\<lambda>c. c \<noteq> CHR ''='') part, drop 1 (dropWhile (\<lambda>c. c \<noteq> CHR ''='') part))
      else None)"

definition add_binding :: "(string \<times> string) list \<Rightarrow> string \<Rightarrow> (string \<times> string) list" where
  "add_binding items part =
     (case split_binding part of
        None \<Rightarrow> items
      | Some (k, v) \<Rightarrow>
          if TrimSpace k = '''' \<or> TrimSpace v = '''' then items else AList.update (TrimSpace k) (TrimSpace v) items)"

definition splitRoleBindingEnv :: "string \<Rightarrow> (string \<times> string) list" where
  "splitRoleBindingEnv raw = foldl add_binding [] (splitRoleCSV raw)"

fun distinct_actors :: "string list \<Rightarrow> string list \<Rightarrow> string list" where
  "distinct_actors seen [] = []"
| "distinct_actors seen (p # ps) =
     (let v = normalizeActor p in
      if v = '''' \<or> v \<in> set seen then distinct_actors seen ps else v # distinct_actors (v # seen) ps)"

definition splitCapabilityEnv :: "string \<Rightarrow> string list" where
  "splitCapabilityEnv raw = distinct_actors [] (split_on (CHR '','') (TrimSpace raw))"

section \<open>Credentials\<close>

definition providerCredentialEnvKeys :: "string \<Rightarrow> string list" where
  "providerCredentialEnvKeys provider =
     (let p = normalizeActor provider in
      if p = ''claude'' \<or> p = ''anthropic'' then [''ANTHROPIC_API_KEY'']
      else if p = ''openai'' then [''OPENAI_API_KEY'']
      else if p = ''gemini'' \<or> p = ''google'' then [''GEMINI_API_KEY'', ''GOOGLE_API_KEY'']
      else [])"

definition ProviderCredentialSource :: "getenv \<Rightarrow> string \<Rightarrow> string option" where
  "ProviderCredentialSource getenv provider =
     find (\<lambda>key. TrimSpace (getenv key) \<noteq> '''') (providerCredentialEnvKeys provider)"

definition ProviderCredentialValue :: "getenv \<Rightarrow> string \<Rightarrow> string option" where
  "ProviderCredentialValue getenv provider =
     map_option (\<lambda>source. TrimSpace (getenv source)) (ProviderCredentialSource getenv provider)"

definition ProviderCredentialReady :: "getenv \<Rightarrow> string \<Rightarrow> bool" where
  "ProviderCredentialReady getenv provider \<longleftrightarrow> ProviderCredentialSource getenv provider \<noteq> None"

section \<open>Endpoints\<close>

record parsed_url =
  pu_Scheme :: string
  pu_HasUser :: bool
  pu_RawQuery :: string
  pu_Fragment :: string
  pu_Hostname :: string

text \<open>An address of the network library: four or sixteen bytes.\<close>

datatype ip_addr = V4 "8 word list" | V6 "8 word list"

definition unmap :: "ip_addr \<Rightarrow> ip_addr" where
  "unmap a = (case a of V6 bs \<Rightarrow> if take 12 bs = replicate 10 0 @ [0xFF, 0xFF] then V4 (drop 12 bs) else a | V4 _ \<Rightarrow> a)"

text \<open>
  Loopback, private, link-local unicast and multicast, multicast and unspecified addresses. A mapped
  address counts as the address it maps, except that it is never unspecified.
\<close>

definition internal_v4 :: "8 word list \<Rightarrow> bool" where
  "internal_v4 bs \<longleftrightarrow>
     hd bs = 127 \<or> hd bs = 10 \<or> (hd bs = 172 \<and> bs ! 1 AND 0xF0 = 16) \<or> (hd bs = 192 \<and> bs ! 1 = 168) \<or>
     (hd bs = 169 \<and> bs ! 1 = 254) \<or> hd bs AND 0xF0 = 0xE0"

definition internal_v6 :: "8 word list \<Rightarrow> bool" where
  "internal_v6 bs \<longleftrightarrow>
     bs = replicate 15 0 @ [1] \<or> hd bs AND 0xFE = 0xFC \<or> (hd bs = 0xFE \<and> bs ! 1 AND 0xC0 = 0x80) \<or> hd bs = 0xFF \<or>
     bs = replicate 16 0"

definition internal_addr :: "ip_addr \<Rightarrow> bool" where
  "internal_addr a \<longleftrightarrow> a = V4 (replicate 4 0) \<or> (case unmap a of V4 bs \<Rightarrow> internal_v4 bs | V6 bs \<Rightarrow> internal_v6 bs)"

record url_world =
  uw_parse :: "string \<Rightarrow> parsed_url option"
  uw_addr :: "string \<Rightarrow> ip_addr option"

definition ends_with :: "string \<Rightarrow> string \<Rightarrow> bool" where
  "ends_with s w \<longleftrightarrow> starts_with (rev s) (rev w)"

definition internal_name :: "string \<Rightarrow> bool" where
  "internal_name host \<longleftrightarrow>
     host = ''localhost'' \<or> ends_with host ''.localhost'' \<or> ends_with host ''.local'' \<or> ends_with host ''.internal''"

definition endpointRejected :: error where
  "endpointRejected = ''provider endpoint rejected by egress policy''"

definition validateProviderEndpoint :: "url_world \<Rightarrow> string \<Rightarrow> error option" where
  "validateProviderEndpoint u raw =
     (let value = TrimSpace raw in
      if value = '''' then Some ''provider endpoint is required''
      else case uw_parse u value of
             None \<Rightarrow> Some endpointRejected
           | Some p \<Rightarrow>
               let host = TrimSpace (pu_Hostname p); lowerHost = ToLower host in
               if pu_Scheme p \<noteq> ''http'' \<and> pu_Scheme p \<noteq> ''https'' then Some endpointRejected
               else if pu_HasUser p \<or> pu_RawQuery p \<noteq> '''' \<or> pu_Fragment p \<noteq> '''' then Some endpointRejected
               else if host = '''' then Some endpointRejected
               else if internal_name lowerHost then Some endpointRejected
               else case uw_addr u lowerHost of
                      None \<Rightarrow> None
                    | Some a \<Rightarrow> if internal_addr a then Some endpointRejected else None)"

definition add_endpoint :: "url_world \<Rightarrow> (string \<times> string) list \<Rightarrow> string \<Rightarrow> (string \<times> string) list" where
  "add_endpoint u items part =
     (case split_binding (TrimSpace part) of
        None \<Rightarrow> items
      | Some (k, v) \<Rightarrow>
          let provider = normalizeActor (TrimSpace k); endpoint = TrimSpace v in
          if provider = '''' \<or> endpoint = '''' then items
          else if validateProviderEndpoint u endpoint \<noteq> None then items
          else AList.update provider endpoint items)"

definition providerEndpointMapFromEnv :: "getenv \<Rightarrow> url_world \<Rightarrow> (string \<times> string) list" where
  "providerEndpointMapFromEnv getenv u =
     foldl (add_endpoint u) [] (split_on (CHR '','') (TrimSpace (getenv ''LAYER_OS_PROVIDER_ENDPOINTS'')))"

section \<open>The roster\<close>

record providerEnvFlags =
  pf_explicit :: bool
  pf_roleBound :: bool

definition roleBoundProvidersFromEnv :: "string \<Rightarrow> string list" where
  "roleBoundProvidersFromEnv raw = sort (distinct_actors [] (map snd (splitRoleBindingEnv raw)))"

definition flags_of :: "(string \<times> providerEnvFlags) list \<Rightarrow> string \<Rightarrow> providerEnvFlags" where
  "flags_of roster p = (case map_of roster p of None \<Rightarrow> \<lparr>pf_explicit = False, pf_roleBound = False\<rparr> | Some f \<Rightarrow> f)"

definition providerEnvRoster :: "getenv \<Rightarrow> (string \<times> providerEnvFlags) list" where
  "providerEnvRoster getenv =
     (let declared = foldl (\<lambda>r p. AList.update p ((flags_of r p)\<lparr>pf_explicit := True\<rparr>) r) []
                       (splitCapabilityEnv (getenv ''LAYER_OS_PROVIDERS''))
      in foldl (\<lambda>r p. AList.update p ((flags_of r p)\<lparr>pf_roleBound := True\<rparr>) r) declared
           (roleBoundProvidersFromEnv (getenv ''LAYER_OS_AGENT_ROLE_PROVIDERS'')))"

definition sortedProviderEnvRoster :: "getenv \<Rightarrow> string list" where
  "sortedProviderEnvRoster getenv = sort (map fst (providerEnvRoster getenv))"

definition councilProviderAllowed :: "string \<Rightarrow> bool" where
  "councilProviderAllowed provider \<longleftrightarrow> TrimSpace provider \<in> {''gemini'', ''openai'', ''claude''}"

record AdapterSummary =
  as_Gateway :: string
  as_GatewaySemantics :: string
  as_GatewayDispatchEnabled :: bool
  as_GatewayRequiredMode :: string
  as_Verify :: string
  as_Deploy :: string
  as_Rollback :: string

record ProviderSummary =
  ps_Provider :: string
  ps_Endpoint :: "string option"
  ps_Declared :: bool
  ps_DispatchEnabled :: bool
  ps_AuthReady :: bool
  ps_AuthSource :: "string option"
  ps_AuthEnvKeys :: "string list"
  ps_GatewayAdapter :: string
  ps_Semantics :: string
  ps_Notes :: "string list"

text \<open>The provider an adapter that talks to one model service stands for.\<close>

definition implicit_provider :: "AdapterSummary \<Rightarrow> string list" where
  "implicit_provider ad =
     (let p = normalizeActor (as_Gateway ad)
      in if as_GatewaySemantics ad = ''direct_llm'' \<and> councilProviderAllowed p then [p] else [])"

definition provider_endpoint :: "(string \<times> string) list \<Rightarrow> string \<Rightarrow> string option" where
  "provider_endpoint endpoints provider =
     (case map_of endpoints provider of None \<Rightarrow> None | Some raw \<Rightarrow> if TrimSpace raw \<noteq> '''' then Some raw else None)"

definition credential_notes :: "getenv \<Rightarrow> string \<Rightarrow> string list" where
  "credential_notes getenv provider =
     (let keys = providerCredentialEnvKeys provider in
      if keys = [] then []
      else case ProviderCredentialSource getenv provider of
             Some source \<Rightarrow> [''provider credentials ready via '' @ source]
           | None \<Rightarrow> [''provider credentials missing; accepted envs: '' @ join_with '', '' keys])"

definition provider_summary ::
  "getenv \<Rightarrow> (string \<times> providerEnvFlags) list \<Rightarrow> (string \<times> string) list \<Rightarrow> AdapterSummary \<Rightarrow> string \<Rightarrow> ProviderSummary" where
  "provider_summary getenv roster endpoints ad provider =
     (let flags = flags_of roster provider; endpoint = provider_endpoint endpoints provider in
      \<lparr>ps_Provider = provider, ps_Endpoint = endpoint, ps_Declared = (pf_explicit flags \<or> pf_roleBound flags),
       ps_DispatchEnabled = as_GatewayDispatchEnabled ad, ps_AuthReady = ProviderCredentialReady getenv provider,
       ps_AuthSource = ProviderCredentialSource getenv provider, ps_AuthEnvKeys = providerCredentialEnvKeys provider,
       ps_GatewayAdapter = as_Gateway ad, ps_Semantics = as_GatewaySemantics ad,
       ps_Notes =
         (if pf_explicit flags then [''declared provider roster''] else []) @
         (if pf_roleBound flags then [''bound through role provider routing''] else []) @
         (if provider \<in> set (implicit_provider ad) then [''inferred from active gateway adapter''] else []) @
         (if endpoint \<noteq> None then [''api endpoint configured''] else []) @
         credential_notes getenv provider @
         (if \<not> as_GatewayDispatchEnabled ad then [''gateway adapter is not dispatching''] else [])\<rparr>)"

definition providerSummaries :: "getenv \<Rightarrow> url_world \<Rightarrow> AdapterSummary \<Rightarrow> ProviderSummary list" where
  "providerSummaries getenv u ad =
     (let roster = providerEnvRoster getenv; endpoints = providerEndpointMapFromEnv getenv u
      in map (provider_summary getenv roster endpoints ad)
           (sort (remdups (map fst roster @ map fst endpoints @ implicit_provider ad))))"

section \<open>Roles\<close>

definition bound :: "(string \<times> string) list \<Rightarrow> string \<Rightarrow> string" where
  "bound m role = (case map_of m (TrimSpace role) of None \<Rightarrow> '''' | Some v \<Rightarrow> v)"

definition providerForAgentRole :: "getenv \<Rightarrow> string \<Rightarrow> ProviderSummary list \<Rightarrow> string" where
  "providerForAgentRole getenv role providers =
     (let value = TrimSpace (bound (splitRoleBindingEnv (getenv ''LAYER_OS_AGENT_ROLE_PROVIDERS'')) role) in
      if value \<noteq> '''' then value
      else case find ps_DispatchEnabled providers of
             Some p \<Rightarrow> ps_Provider p
           | None \<Rightarrow> (case find ps_Declared providers of Some p \<Rightarrow> ps_Provider p | None \<Rightarrow> ''''))"

definition providerSummaryForName :: "string \<Rightarrow> ProviderSummary list \<Rightarrow> ProviderSummary option" where
  "providerSummaryForName provider providers = find (\<lambda>p. TrimSpace (ps_Provider p) = TrimSpace provider) providers"

definition defaultModelForProvider :: "string \<Rightarrow> string \<Rightarrow> string" where
  "defaultModelForProvider provider requestKind =
     (let p = TrimSpace provider; verify = (TrimSpace requestKind = ''verify'') in
      if p = ''gemini'' then (if verify then ''gemini-2.5-pro-preview-03-25'' else ''gemini-2.0-flash'')
      else if p = ''claude'' then (if verify then ''claude-haiku-4-5-20251001'' else ''claude-opus-4-6'')
      else if p = ''openai'' then (if verify then ''gpt-4o'' else ''gpt-4o-mini'')
      else '''')"

definition modelForAgentDispatch :: "getenv \<Rightarrow> env \<Rightarrow> string \<Rightarrow> string \<Rightarrow> string \<Rightarrow> string" where
  "modelForAgentDispatch getenv e role requestKind provider =
     (let value = TrimSpace (bound (splitRoleBindingEnv (getenv ''LAYER_OS_AGENT_ROLE_MODELS'')) role) in
      if value \<noteq> '''' then value
      else case runtimeModelsFromEnv e of m # _ \<Rightarrow> m | [] \<Rightarrow> defaultModelForProvider provider requestKind)"

definition riskForAgentRole :: "string \<Rightarrow> string" where
  "riskForAgentRole role = (if TrimSpace role \<in> {''implementer'', ''verifier'', ''designer''} then ''medium'' else ''low'')"

definition noveltyForAgentRole :: "string \<Rightarrow> string" where
  "noveltyForAgentRole role = (if TrimSpace role \<in> {''planner'', ''implementer'', ''designer''} then ''medium'' else ''low'')"

definition tokenClassForAgentRole :: "string \<Rightarrow> string" where
  "tokenClassForAgentRole role = (if TrimSpace role = ''planner'' then ''large'' else ''medium'')"

definition tokenBudgetForAgentRole :: "string \<Rightarrow> int" where
  "tokenBudgetForAgentRole role =
     (let r = TrimSpace role in
      if r = ''planner'' then 32000 else if r = ''implementer'' then 16000
      else if r = ''verifier'' \<or> r = ''designer'' then 12000 else 16000)"

definition defaultAgentRequestKind :: "string \<Rightarrow> string" where
  "defaultAgentRequestKind role =
     (if role = ''planner'' then ''plan'' else if role = ''verifier'' then ''verify''
      else if role = ''designer'' then ''design'' else ''implement'')"

section \<open>The capability registry\<close>

record AuthorityBoundary =
  ab_AuthorityRoots :: "string list"
  ab_LegacyReferenceRoots :: "string list"
  ab_LegacyReferenceMode :: string
  ab_RuntimeStateRoot :: string
  ab_ReviewRoomStatePath :: string
  ab_ReviewRoomWriteSurface :: string
  ab_ExternalJobReportSurface :: string
  ab_KnowledgeWriteMode :: string

record CapabilityBinding =
  cb_ID :: string
  cb_Kind :: string
  cb_Source :: string
  cb_Active :: bool
  cb_Removable :: bool
  cb_Default :: bool
  cb_Semantics :: string
  cb_RequiredMode :: string
  cb_Notes :: "string list"

definition actor_binding :: "string \<Rightarrow> string \<Rightarrow> bool \<Rightarrow> CapabilityBinding" where
  "actor_binding actor source isDefault =
     \<lparr>cb_ID = actor, cb_Kind = ''actor'', cb_Source = source, cb_Active = True, cb_Removable = (actor \<noteq> neutralDefaultActor),
      cb_Default = isDefault, cb_Semantics = '''', cb_RequiredMode = '''', cb_Notes = []\<rparr>"

fun add_actors :: "(string \<times> string \<times> bool) list \<Rightarrow> string list \<Rightarrow> CapabilityBinding list" where
  "add_actors [] seen = []"
| "add_actors ((i, source, isDefault) # rest) seen =
     (let actor = normalizeActor i in
      if actor = '''' \<or> actor \<in> set seen then add_actors rest seen
      else actor_binding actor source isDefault # add_actors rest (actor # seen))"

definition capabilityActorBindings :: "getenv \<Rightarrow> CapabilityBinding list" where
  "capabilityActorBindings getenv =
     (let dflt = DefaultActor (getenv ''LAYER_OS_DEFAULT_ACTOR'') in
      add_actors
        (map (\<lambda>a. (a, ''env.actors'', a = dflt)) (splitCapabilityEnv (getenv ''LAYER_OS_ACTORS'')) @
         [(getenv ''LAYER_OS_ACTOR'', ''env.actor'', normalizeActor (getenv ''LAYER_OS_ACTOR'') = dflt),
          (getenv ''LAYER_OS_WRITER_ID'', ''env.writer'', normalizeActor (getenv ''LAYER_OS_WRITER_ID'') = dflt),
          (dflt, if normalizeActor (getenv ''LAYER_OS_DEFAULT_ACTOR'') \<noteq> '''' then ''env.default_actor'' else ''runtime.default_actor'',
           True)]) [])"

definition provider_binding :: "providerEnvFlags \<Rightarrow> string \<Rightarrow> CapabilityBinding" where
  "provider_binding flags provider =
     \<lparr>cb_ID = provider, cb_Kind = ''provider'',
      cb_Source = (if pf_explicit flags \<and> pf_roleBound flags then ''env.providers+role_providers''
                   else if pf_roleBound flags then ''env.role_providers'' else ''env.providers''),
      cb_Active = True, cb_Removable = True, cb_Default = False, cb_Semantics = ''declared_only'', cb_RequiredMode = '''',
      cb_Notes =
        [''declared provider roster only'', ''live provider dispatch remains disabled until a dispatch adapter is enabled''] @
        (if pf_explicit flags \<and> pf_roleBound flags then [''provider also implied by role provider routing'']
         else if pf_roleBound flags then [''provider implied by role provider routing''] else [])\<rparr>"

definition capabilityProviderBindings :: "getenv \<Rightarrow> CapabilityBinding list" where
  "capabilityProviderBindings getenv =
     map (\<lambda>p. provider_binding (flags_of (providerEnvRoster getenv) p) p) (sortedProviderEnvRoster getenv)"

definition adapter_binding :: "string \<Rightarrow> string \<Rightarrow> string \<Rightarrow> string \<Rightarrow> string list \<Rightarrow> CapabilityBinding" where
  "adapter_binding i kind semantics mode notes =
     \<lparr>cb_ID = i, cb_Kind = kind, cb_Source = ''runtime.adapter'', cb_Active = True, cb_Removable = True, cb_Default = True,
      cb_Semantics = semantics, cb_RequiredMode = mode, cb_Notes = notes\<rparr>"

definition capabilityAdapterBindings :: "AdapterSummary \<Rightarrow> CapabilityBinding list" where
  "capabilityAdapterBindings ad =
     [adapter_binding (as_Gateway ad) ''gateway_adapter'' (as_GatewaySemantics ad) (as_GatewayRequiredMode ad)
        [''dispatch_enabled='' @ (if as_GatewayDispatchEnabled ad then ''true'' else ''false'')],
      adapter_binding (as_Verify ad) ''verify_adapter'' ''command'' '''' [],
      adapter_binding (as_Deploy ad) ''deploy_adapter'' ''command'' '''' [],
      adapter_binding (as_Rollback ad) ''rollback_adapter'' ''command'' '''' []]"

definition CapabilityBinding_Validate :: "CapabilityBinding \<Rightarrow> error option" where
  "CapabilityBinding_Validate b = first_error
     [(blank (cb_ID b), ''capability binding id is required''), (blank (cb_Kind b), ''capability binding kind is required''),
      (blank (cb_Source b), ''capability binding source is required'')]"

definition CanonicalAuthorityBoundary :: AuthorityBoundary where
  "CanonicalAuthorityBoundary =
     \<lparr>ab_AuthorityRoots = [''AGENTS.md'', ''constitution/'', ''docs/'', ''contracts/''],
      ab_LegacyReferenceRoots = [''docs/legacy_inventory.md''], ab_LegacyReferenceMode = ''reference_only'',
      ab_RuntimeStateRoot = ''.layer-os'', ab_ReviewRoomStatePath = ''.layer-os/review_room.json'',
      ab_ReviewRoomWriteSurface = ''/api/layer-os/review-room'', ab_ExternalJobReportSurface = ''/api/layer-os/jobs/report'',
      ab_KnowledgeWriteMode = ''derived_read_only''\<rparr>"

definition AuthorityBoundary_Validate :: "AuthorityBoundary \<Rightarrow> error option" where
  "AuthorityBoundary_Validate a = first_error
     [(ab_AuthorityRoots a = [], ''authority boundary authority_roots is required''),
      (list_ex blank (ab_AuthorityRoots a), ''authority boundary authority_roots must not contain empty items''),
      (ab_LegacyReferenceRoots a = [], ''authority boundary legacy_reference_roots is required''),
      (list_ex blank (ab_LegacyReferenceRoots a), ''authority boundary legacy_reference_roots must not contain empty items''),
      (TrimSpace (ab_LegacyReferenceMode a) \<noteq> ''reference_only'', ''authority boundary legacy_reference_mode is invalid''),
      (blank (ab_RuntimeStateRoot a), ''authority boundary runtime_state_root is required''),
      (blank (ab_ReviewRoomStatePath a), ''authority boundary review_room_state_path is required''),
      (blank (ab_ReviewRoomWriteSurface a), ''authority boundary review_room_write_surface is required''),
      (blank (ab_ExternalJobReportSurface a), ''authority boundary external_job_report_surface is required''),
      (TrimSpace (ab_KnowledgeWriteMode a) \<noteq> ''derived_read_only'', ''authority boundary knowledge_write_mode is invalid'')]"

record CapabilityRegistry =
  ca_Authority :: AuthorityBoundary
  ca_DefaultActor :: string
  ca_Bindings :: "CapabilityBinding list"

definition capabilityRegistryFromAdapters :: "getenv \<Rightarrow> AdapterSummary \<Rightarrow> CapabilityRegistry" where
  "capabilityRegistryFromAdapters getenv ad =
     \<lparr>ca_Authority = CanonicalAuthorityBoundary, ca_DefaultActor = DefaultActor (getenv ''LAYER_OS_DEFAULT_ACTOR''),
      ca_Bindings = capabilityActorBindings getenv @ capabilityProviderBindings getenv @ capabilityAdapterBindings ad\<rparr>"

fun bindings_error :: "CapabilityBinding list \<Rightarrow> error option" where
  "bindings_error [] = None"
| "bindings_error (b # bs) = (case CapabilityBinding_Validate b of Some err \<Rightarrow> Some err | None \<Rightarrow> bindings_error bs)"

definition CapabilityRegistry_Validate :: "CapabilityRegistry \<Rightarrow> error option" where
  "CapabilityRegistry_Validate r =
     (case AuthorityBoundary_Validate (ca_Authority r) of
        Some err \<Rightarrow> Some err
      | None \<Rightarrow>
          if blank (ca_DefaultActor r) then Some ''capability registry default_actor is required''
          else bindings_error (ca_Bindings r))"

end
