(* ===== verification/Gateway_Adapters.thy ===== *)
theory Gateway_Adapters
  imports Provider_Roster Service_Runs Json_Decode
begin

text \<open>
  The gateway adapters that talk to model services (\<open>adapter.go\<close>, \<open>adapter_claude.go\<close>, \<open>adapter_openai.go\<close>,
  \<open>adapter_gemini.go\<close>, \<open>adapter_router.go\<close>, \<open>service.go\<close>). A request is its address, its headers and the
  JSON of its body; the reply of the network to each attempt, the errors of building a request, the parser
  of a reply and the prompt text of \<open>adapter_prompt.go\<close> are parameters. The fields by which tests replace the
  client and the address are unset, as in the adapters a service builds.
\<close>

record http_request =
  hr_URL :: string
  hr_Headers :: "(string \<times> string) list"
  hr_Body :: json

record http_world =
  hw_marshal :: "json \<Rightarrow> error option"
  hw_request :: "http_request \<Rightarrow> error option"
  hw_send :: "http_request \<Rightarrow> nat \<Rightarrow> error + int \<times> string"
  hw_parse :: "string \<Rightarrow> json option"
  hw_prompt :: "jobject option \<Rightarrow> GatewayCall \<Rightarrow> string"
  hw_now :: "nat \<Rightarrow> time"

record gateway_world =
  gw_getenv :: getenv
  gw_url :: url_world
  gw_http :: http_world

section \<open>The provider API\<close>

definition providerDispatchRetries :: "getenv \<Rightarrow> nat" where
  "providerDispatchRetries getenv =
     (let raw = TrimSpace (getenv ''LAYER_OS_PROVIDER_RETRIES'') in
      if raw = '''' then 1 else case Atoi raw of None \<Rightarrow> 1 | Some v \<Rightarrow> if v < 0 then 1 else nat v)"

definition shouldRetryProviderStatus :: "int \<Rightarrow> bool" where
  "shouldRetryProviderStatus status \<longleftrightarrow> status = 429 \<or> status \<ge> 500"

definition api_request_body :: "GatewayCall \<Rightarrow> PolicyDecision \<Rightarrow> jobject option \<Rightarrow> json" where
  "api_request_body call decision payload =
     (case payload of
        Some p \<Rightarrow> JObject p
      | None \<Rightarrow> JObject
          [(''call_id'', JString (gc_CallID call)), (''decision_id'', JString (gc_DecisionID call)),
           (''provider'', JString (gc_Provider call)), (''model'', JString (gc_Model call)),
           (''request_kind'', JString (gc_RequestKind call)), (''token_budget'', JInt (gc_TokenBudget call)),
           (''notes'', string_array (elems (gc_Notes call))),
           (''policy'', JObject
              [(''mode'', JString (pd_Mode decision)), (''decision'', JString (pd_Decision decision)),
               (''scope'', JString (pd_Scope decision)), (''risk'', JString (pd_Risk decision)),
               (''novelty'', JString (pd_Novelty decision)), (''token_class'', JString (pd_TokenClass decision))])])"

definition api_failed :: "string \<Rightarrow> GatewayCall \<Rightarrow> GatewayCall" where
  "api_failed why call =
     add_note (''dispatch:error='' @ why) (call\<lparr>gc_Status := ''failed'', gc_AttemptCount := 0, gc_LastError := Some why\<rparr>)"

definition set_preview :: "string \<Rightarrow> GatewayCall \<Rightarrow> GatewayCall" where
  "set_preview preview call = (if preview \<noteq> '''' then call\<lparr>gc_ResponsePreview := Some (take 280 preview)\<rparr> else call)"

text \<open>
  The retry loop: \<open>attempt\<close> of the \<open>left\<close> attempts that remain, the last one included. A request that fails
  on the way or with a status worth a retry is sent again while attempts remain.
\<close>

fun api_attempts ::
  "http_world \<Rightarrow> http_request \<Rightarrow> nat \<Rightarrow> nat \<Rightarrow> GatewayCall \<Rightarrow> error + GatewayCall" where
  "api_attempts h req attempt 0 call = Inr (call\<lparr>gc_Status := ''failed''\<rparr>)"
| "api_attempts h req attempt (Suc left) call0 =
     (case hw_request h req of
        Some err \<Rightarrow> Inl err
      | None \<Rightarrow>
          let call = add_note (''dispatch:attempt='' @ itoa_nat attempt) (add_note (''dispatch:endpoint='' @ hr_URL req)
                       (call0\<lparr>gc_AttemptCount := int attempt, gc_DispatchedAt := Some (hw_now h attempt)\<rparr>)) in
          case hw_send h req attempt of
            Inl err \<Rightarrow>
              (let errText = (if TrimSpace err = '''' then ''http_request_failed'' else TrimSpace err);
                   call = add_note ''dispatch:error=http_request_failed'' (call\<lparr>gc_LastError := Some errText\<rparr>) in
               if left > 0 then api_attempts h req (Suc attempt) left (add_note ''dispatch:retry=scheduled'' call)
               else Inr (call\<lparr>gc_Status := ''failed''\<rparr>))
          | Inr (status, body) \<Rightarrow>
              (let call = add_note (''dispatch:http_status='' @ Itoa status)
                            (set_preview (TrimSpace (take 2048 body)) (call\<lparr>gc_LastHTTPStatus := Some status\<rparr>)) in
               if status \<ge> 200 \<and> status < 300 then Inr (call\<lparr>gc_Status := ''sent'', gc_LastError := None\<rparr>)
               else
                 (let call = call\<lparr>gc_LastError := Some (''http_status_'' @ Itoa status)\<rparr> in
                  if \<not> shouldRetryProviderStatus status \<or> left = 0 then Inr (call\<lparr>gc_Status := ''failed''\<rparr>)
                  else api_attempts h req (Suc attempt) left (add_note ''dispatch:retry=scheduled'' call))))"

definition api_dispatch :: "gateway_world \<Rightarrow> GatewayCall \<Rightarrow> PolicyDecision \<Rightarrow> jobject option \<Rightarrow> error + GatewayCall" where
  "api_dispatch g call decision payload =
     (case map_of (providerEndpointMapFromEnv (gw_getenv g) (gw_url g)) (TrimSpace (gc_Provider call)) of
        None \<Rightarrow> Inr (api_failed ''no_provider_endpoint'' call)
      | Some endpoint \<Rightarrow>
          if TrimSpace endpoint = '''' then Inr (api_failed ''no_provider_endpoint'' call)
          else if validateProviderEndpoint (gw_url g) endpoint \<noteq> None then Inr (api_failed ''provider_endpoint_rejected'' call)
          else let body = api_request_body call decision payload in
               case hw_marshal (gw_http g) body of
                 Some err \<Rightarrow> Inl err
               | None \<Rightarrow>
                   api_attempts (gw_http g)
                     \<lparr>hr_URL = endpoint,
                      hr_Headers = [(''Content-Type'', ''application/json''), (''X-Layer-Call-ID'', gc_CallID call)],
                      hr_Body = body\<rparr>
                     1 (Suc (providerDispatchRetries (gw_getenv g))) call)"

definition apiGatewayAdapter :: "gateway_world \<Rightarrow> gateway_adapter" where
  "apiGatewayAdapter g =
     \<lparr>ga_DispatchEnabled = True, ga_RequiredMode = ''single'',
      ga_Prepare = (\<lambda>call decision.
        case ga_Prepare recordGatewayAdapter call decision of
          Inl err \<Rightarrow> Inl err
        | Inr c \<Rightarrow> Inr (add_note ''dispatch:provider-api'' (add_note ''adapter:api'' c))),
      ga_Dispatch = api_dispatch g\<rparr>"

section \<open>Direct model adapters\<close>

datatype direct = Gemini | Openai | Claude

definition direct_name :: "direct \<Rightarrow> string" where
  "direct_name d = (case d of Gemini \<Rightarrow> ''gemini'' | Openai \<Rightarrow> ''openai'' | Claude \<Rightarrow> ''claude'')"

definition claudeModelForCall :: "GatewayCall \<Rightarrow> string" where
  "claudeModelForCall call =
     (let model = TrimSpace (gc_Model call) in
      if starts_with model ''claude'' then model
      else if gc_RequestKind call = ''verify'' then ''claude-haiku-4-5-20251001'' else ''claude-opus-4-6'')"

definition openaiModelForCall :: "GatewayCall \<Rightarrow> string" where
  "openaiModelForCall call =
     (let model = TrimSpace (gc_Model call) in
      if model = '''' \<or> starts_with model ''gemini'' \<or> starts_with model ''claude''
      then (if gc_RequestKind call = ''verify'' then ''gpt-4o'' else ''o3-mini'')
      else model)"

definition geminiModelForCall :: "GatewayCall \<Rightarrow> string" where
  "geminiModelForCall call =
     (let model = TrimSpace (gc_Model call) in
      if model = '''' \<or> \<not> starts_with model ''gemini'' then ''gemini-2.0-flash'' else model)"

definition direct_key :: "getenv \<Rightarrow> direct \<Rightarrow> string" where
  "direct_key getenv d =
     (case d of
        Claude \<Rightarrow> TrimSpace (getenv ''ANTHROPIC_API_KEY'')
      | Openai \<Rightarrow> TrimSpace (getenv ''OPENAI_API_KEY'')
      | Gemini \<Rightarrow> (case ProviderCredentialValue getenv ''gemini'' of None \<Rightarrow> '''' | Some v \<Rightarrow> v))"

definition missing_key :: "direct \<Rightarrow> string" where
  "missing_key d = (case d of Claude \<Rightarrow> ''no_anthropic_api_key'' | Openai \<Rightarrow> ''no_openai_api_key'' | Gemini \<Rightarrow> ''no_google_api_key'')"

definition user_message :: "string \<Rightarrow> string \<Rightarrow> int \<Rightarrow> json" where
  "user_message model prompt budget = JObject
     [(''model'', JString model), (''max_tokens'', JInt budget),
      (''messages'', JArray [JObject [(''role'', JString ''user''), (''content'', JString prompt)]])]"

definition direct_request :: "gateway_world \<Rightarrow> direct \<Rightarrow> GatewayCall \<Rightarrow> jobject option \<Rightarrow> http_request" where
  "direct_request g d call payload =
     (let key = direct_key (gw_getenv g) d; prompt = hw_prompt (gw_http g) payload call;
          json_type = (''Content-Type'', ''application/json''); callID = (''X-Layer-Call-ID'', gc_CallID call) in
      case d of
        Claude \<Rightarrow>
          \<lparr>hr_URL = ''https://api.anthropic.com/v1/messages'',
           hr_Headers = [json_type, (''x-api-key'', key), (''anthropic-version'', ''2023-06-01''), callID],
           hr_Body = user_message (claudeModelForCall call) prompt (gc_TokenBudget call)\<rparr>
      | Openai \<Rightarrow>
          \<lparr>hr_URL = ''https://api.openai.com/v1/chat/completions'',
           hr_Headers = [json_type, (''Authorization'', ''Bearer '' @ key), callID],
           hr_Body = user_message (openaiModelForCall call) prompt (gc_TokenBudget call)\<rparr>
      | Gemini \<Rightarrow>
          \<lparr>hr_URL = ''https://generativelanguage.googleapis.com/v1beta/models/'' @ geminiModelForCall call @
                    '':generateContent?key='' @ key,
           hr_Headers = [json_type, callID],
           hr_Body = JObject
             [(''contents'', JArray [JObject [(''parts'', JArray [JObject [(''text'', JString prompt)]])]]),
              (''generationConfig'', JObject [(''maxOutputTokens'', JInt (gc_TokenBudget call))])]\<rparr>)"

text \<open>The text of a reply; a body that is not the JSON the struct asks for has none.\<close>

definition claude_block :: "jobject \<Rightarrow> (string \<times> string) option" where
  "claude_block kvs =
     (case (string_value (json_field ''type'' kvs), string_value (json_field ''text'' kvs)) of
        (Some ty, Some text) \<Rightarrow> Some (ty, text) | _ \<Rightarrow> None)"

definition claudeExtractText :: "json \<Rightarrow> string" where
  "claudeExtractText body =
     (case struct_value (\<lambda>kvs. array_value (struct_value claude_block) (json_field ''content'' kvs)) body of
        None \<Rightarrow> ''''
      | Some blocks \<Rightarrow>
          (case find (\<lambda>b. fst b = ''text'' \<and> TrimSpace (snd b) \<noteq> '''') blocks of
             None \<Rightarrow> '''' | Some b \<Rightarrow> TrimSpace (snd b)))"

definition openai_choice :: "jobject \<Rightarrow> string option" where
  "openai_choice kvs = struct_value (\<lambda>m. string_value (json_field ''content'' m)) (json_field ''message'' kvs)"

definition openaiExtractText :: "json \<Rightarrow> string" where
  "openaiExtractText body =
     (case struct_value (\<lambda>kvs. array_value (struct_value openai_choice) (json_field ''choices'' kvs)) body of
        Some (c # _) \<Rightarrow> TrimSpace c | _ \<Rightarrow> '''')"

definition gemini_candidate :: "jobject \<Rightarrow> string list option" where
  "gemini_candidate kvs =
     struct_value (\<lambda>c. array_value (struct_value (\<lambda>p. string_value (json_field ''text'' p))) (json_field ''parts'' c))
       (json_field ''content'' kvs)"

definition geminiExtractText :: "json \<Rightarrow> string" where
  "geminiExtractText body =
     (case struct_value (\<lambda>kvs. array_value (struct_value gemini_candidate) (json_field ''candidates'' kvs)) body of
        Some ((text # _) # _) \<Rightarrow> TrimSpace text | _ \<Rightarrow> '''')"

definition direct_text :: "http_world \<Rightarrow> direct \<Rightarrow> string \<Rightarrow> string" where
  "direct_text h d body =
     (case hw_parse h (take 65536 body) of
        None \<Rightarrow> ''''
      | Some v \<Rightarrow> (case d of Claude \<Rightarrow> claudeExtractText v | Openai \<Rightarrow> openaiExtractText v | Gemini \<Rightarrow> geminiExtractText v))"

definition direct_dispatch ::
  "gateway_world \<Rightarrow> direct \<Rightarrow> GatewayCall \<Rightarrow> PolicyDecision \<Rightarrow> jobject option \<Rightarrow> error + GatewayCall" where
  "direct_dispatch g d call0 decision payload =
     (if direct_key (gw_getenv g) d = '''' then
        Inr (add_note (''dispatch:error='' @ missing_key d)
               (call0\<lparr>gc_Status := ''failed'', gc_LastError := Some (missing_key d)\<rparr>))
      else
        let req = direct_request g d call0 payload in
        case hw_marshal (gw_http g) (hr_Body req) of Some err \<Rightarrow> Inl err | None \<Rightarrow>
        case hw_request (gw_http g) req of Some err \<Rightarrow> Inl err | None \<Rightarrow>
        let call = call0\<lparr>gc_DispatchedAt := Some (hw_now (gw_http g) 1), gc_AttemptCount := 1\<rparr> in
        case hw_send (gw_http g) req 1 of
          Inl err \<Rightarrow>
            Inr (add_note ''dispatch:error=http_request_failed''
                   (call\<lparr>gc_LastError := Some (if TrimSpace err = '''' then ''http_request_failed'' else TrimSpace err),
                         gc_Status := ''failed''\<rparr>))
        | Inr (status, body) \<Rightarrow>
            let call = add_note (''dispatch:http_status='' @ Itoa status) (call\<lparr>gc_LastHTTPStatus := Some status\<rparr>) in
            if status < 200 \<or> status \<ge> 300
            then Inr (call\<lparr>gc_LastError := Some (''http_status_'' @ Itoa status), gc_Status := ''failed''\<rparr>)
            else
              let text = direct_text (gw_http g) d body in
              Inr (call\<lparr>gc_ResponsePreview := (if text \<noteq> '''' then Some (take 8000 text) else gc_ResponsePreview call),
                        gc_Status := ''sent'', gc_LastError := None\<rparr>))"

definition direct_prepare :: "direct \<Rightarrow> GatewayCall \<Rightarrow> PolicyDecision \<Rightarrow> error + GatewayCall" where
  "direct_prepare d call decision =
     Inr (add_note ''dispatch:direct_llm'' (add_note (''adapter:'' @ direct_name d) (prepareRecordedGatewayCall call decision)))"

definition directAdapter :: "gateway_world \<Rightarrow> direct \<Rightarrow> gateway_adapter" where
  "directAdapter g d =
     \<lparr>ga_DispatchEnabled = True, ga_RequiredMode = ''single'', ga_Prepare = direct_prepare d, ga_Dispatch = direct_dispatch g d\<rparr>"

section \<open>The configured gateway\<close>

text \<open>
  The adapters a service can have: a single one, or the router over the three direct adapters with a
  single one for every other provider.
\<close>

datatype single = S_record | S_api | S_direct direct

datatype gateway = Single single | Multi single

definition singleAdapter :: "gateway_world \<Rightarrow> single \<Rightarrow> gateway_adapter" where
  "singleAdapter g k = (case k of S_record \<Rightarrow> recordGatewayAdapter | S_api \<Rightarrow> apiGatewayAdapter g | S_direct d \<Rightarrow> directAdapter g d)"

definition adapterFor :: "gateway_world \<Rightarrow> single \<Rightarrow> GatewayCall \<Rightarrow> gateway_adapter" where
  "adapterFor g fallback call =
     (let provider = ToLower (TrimSpace (gc_Provider call)) in
      if provider = ''gemini'' then directAdapter g Gemini
      else if provider = ''openai'' then directAdapter g Openai
      else if provider = ''claude'' then directAdapter g Claude
      else singleAdapter g fallback)"

definition multiProviderAdapter :: "gateway_world \<Rightarrow> single \<Rightarrow> gateway_adapter" where
  "multiProviderAdapter g fallback =
     \<lparr>ga_DispatchEnabled = True, ga_RequiredMode = ''single'',
      ga_Prepare = (\<lambda>call. ga_Prepare (adapterFor g fallback call) call),
      ga_Dispatch = (\<lambda>call. ga_Dispatch (adapterFor g fallback call) call)\<rparr>"

definition newMultiProviderAdapter :: "gateway \<Rightarrow> gateway" where
  "newMultiProviderAdapter k = (case k of Single s \<Rightarrow> Multi s | Multi s \<Rightarrow> Multi s)"

definition gateway_adapter_of :: "gateway_world \<Rightarrow> gateway \<Rightarrow> gateway_adapter" where
  "gateway_adapter_of g k = (case k of Single s \<Rightarrow> singleAdapter g s | Multi s \<Rightarrow> multiProviderAdapter g s)"

definition gateway_name :: "gateway \<Rightarrow> string" where
  "gateway_name k =
     (case k of
        Multi _ \<Rightarrow> ''multi'' | Single S_record \<Rightarrow> ''record'' | Single S_api \<Rightarrow> ''api'' | Single (S_direct d) \<Rightarrow> direct_name d)"

definition gateway_semantics :: "gateway \<Rightarrow> string" where
  "gateway_semantics k =
     (case k of
        Multi _ \<Rightarrow> ''direct_llm'' | Single S_record \<Rightarrow> ''record_only'' | Single S_api \<Rightarrow> ''dispatch''
      | Single (S_direct _) \<Rightarrow> ''direct_llm'')"

definition singleGatewayAdapterFromEnv :: "getenv \<Rightarrow> single" where
  "singleGatewayAdapterFromEnv getenv =
     (let v = ToLower (TrimSpace (getenv ''LAYER_OS_GATEWAY_ADAPTER'')) in
      if v = ''api'' then S_api else if v = ''gemini'' then S_direct Gemini else if v = ''openai'' then S_direct Openai
      else if v = ''claude'' then S_direct Claude else S_record)"

definition gatewayAdapterFromEnv :: "getenv \<Rightarrow> gateway" where
  "gatewayAdapterFromEnv getenv =
     (let base = singleGatewayAdapterFromEnv getenv in
      if splitRoleBindingEnv (getenv ''LAYER_OS_AGENT_ROLE_PROVIDERS'') \<noteq> [] then newMultiProviderAdapter (Single base)
      else Single base)"

end
