(* ===== verification/Job_Dispatch.thy ===== *)
theory Job_Dispatch
  imports Service_Report Gateway_Adapters
begin

text \<open>
  Dispatching an agent job to a model provider (\<open>service_job_dispatch.go\<close>,
      \<open>service_job_council.go\<close>,
  \<open>agent_dispatch_profile.go\<close>, \<open>telegram_notice.go\<close>). A dispatch starts the job,
      records a policy decision and
  one gateway call, or one per council member, stores what the gateway answered, and reports the job itself
  when a text-native lane got its answer from a model. That report may dispatch chained jobs, so the
  operation is recursive; \<open>fuel\<close> bounds the depth of that recursion and stands for nothing in the code.
  The operations of one dispatch run in environments addressed by a list: 0 the start, 1 the policy, 2 the
  gateway call, 3 and the index the council members, 4 the outcome, 5 the telegram warning, 6 and the
  section those of the report, and 7 and the rule those of a chained dispatch. The run packet of a job, a view
  of the knowledge the service keeps, is a parameter, as is the telegram transport. Building the packet and the
  notice to the founder at the end read the review room, which brings in the items of the audits when these are
  promoted; here those items come in with the save of the next step, which reads the room in the same way.
  The notice itself only goes out.
\<close>

record dispatch_world =
  dw_report :: report_world
  dw_gateway :: gateway_world
  dw_adapter :: gateway
  dw_parseURL :: url_renderer
  dw_packet :: "string \<Rightarrow> Service \<Rightarrow> error + jobject"
  dw_telegram :: bool
  dw_sendTelegram :: "AgentJob \<Rightarrow> GatewayCall \<Rightarrow> error option"

definition dispatch_enabled :: "dispatch_world \<Rightarrow> bool" where
  "dispatch_enabled w = ga_DispatchEnabled (gateway_adapter_of (dw_gateway w) (dw_adapter w))"

definition Adapters :: "dispatch_world \<Rightarrow> AdapterSummary" where
  "Adapters w =
     \<lparr>as_Gateway = gateway_name (dw_adapter w), as_GatewaySemantics = gateway_semantics (dw_adapter w),
      as_GatewayDispatchEnabled = dispatch_enabled w,
      as_GatewayRequiredMode = canonicalPolicyMode (ga_RequiredMode (gateway_adapter_of (dw_gateway w) (dw_adapter w))),
      as_Verify = ''command'', as_Deploy = ''command'', as_Rollback = ''command''\<rparr>"

definition Providers :: "dispatch_world \<Rightarrow> ProviderSummary list" where
  "Providers w = providerSummaries (gw_getenv (dw_gateway w)) (gw_url (dw_gateway w)) (Adapters w)"

section \<open>Routing\<close>

definition providerDispatchFallbackReason :: "dispatch_world \<Rightarrow> string \<Rightarrow> ProviderSummary list \<Rightarrow> string" where
  "providerDispatchFallbackReason w provider providers =
     (let trimmed = TrimSpace provider in
      if trimmed = '''' then ''no_provider_bound''
      else case providerSummaryForName trimmed providers of
             Some summary \<Rightarrow>
               if \<not> ps_DispatchEnabled summary then ''gateway_dispatch_disabled''
               else if TrimSpace (ps_Semantics summary) = ''dispatch'' \<and> ps_Endpoint summary = None then ''no_provider_endpoint''
               else ''''
           | None \<Rightarrow>
               if dispatch_enabled w then
                 (if gateway_semantics (dw_adapter w) = ''direct_llm'' then ''''
                  else case map_of (providerEndpointMapFromEnv (gw_getenv (dw_gateway w)) (gw_url (dw_gateway w))) trimmed of
                         Some endpoint \<Rightarrow> if TrimSpace endpoint \<noteq> '''' then '''' else ''no_provider_endpoint''
                       | None \<Rightarrow> ''no_provider_endpoint'')
               else ''gateway_dispatch_disabled'')"

definition providerDispatchReady :: "dispatch_world \<Rightarrow> string \<Rightarrow> ProviderSummary list \<Rightarrow> bool" where
  "providerDispatchReady w provider providers \<longleftrightarrow> providerDispatchFallbackReason w provider providers = ''''"

definition providerDispatchFallbackNote :: "string \<Rightarrow> string" where
  "providerDispatchFallbackNote reason =
     (let r = TrimSpace reason in
      if r = ''gateway_dispatch_disabled'' then ''gateway adapter is record-only; dispatch falls back to job packet''
      else if r = ''no_provider_endpoint'' then ''provider endpoint missing; dispatch falls back to job packet''
      else if r = ''provider_unresolved'' then ''provider dispatch is unresolved; inspect provider roster before automation''
      else ''dispatch routing requires review'')"

definition dispatchExecutionOrigin :: "dispatch_world \<Rightarrow> string \<Rightarrow> string" where
  "dispatchExecutionOrigin w fallbackReason =
     (if TrimSpace fallbackReason = ''no_provider_endpoint'' then ''job_packet''
      else let sem = TrimSpace (gateway_semantics (dw_adapter w)) in
           if sem = ''direct_llm'' then ''direct_llm'' else if sem = ''dispatch'' then ''provider_api'' else ''dispatch_unknown'')"

record AgentDispatchProfile =
  dp_Role :: string
  dp_Provider :: string
  dp_Model :: string
  dp_Risk :: string
  dp_Novelty :: string
  dp_TokenClass :: string
  dp_TokenBudget :: int
  dp_DispatchReady :: bool
  dp_Notes :: "string list"

definition dispatch_profile :: "dispatch_world \<Rightarrow> env \<Rightarrow> string \<Rightarrow> AgentDispatchProfile" where
  "dispatch_profile w e role =
     (let providers = Providers w; getenv = gw_getenv (dw_gateway w);
          provider = providerForAgentRole getenv role providers;
          model = modelForAgentDispatch getenv e role (defaultAgentRequestKind role) provider;
          reason = providerDispatchFallbackReason w provider providers in
      \<lparr>dp_Role = role, dp_Provider = provider, dp_Model = model, dp_Risk = riskForAgentRole role,
       dp_Novelty = noveltyForAgentRole role, dp_TokenClass = tokenClassForAgentRole role,
       dp_TokenBudget = tokenBudgetForAgentRole role, dp_DispatchReady = providerDispatchReady w provider providers,
       dp_Notes =
         (if provider = '''' then [''no provider bound'']
          else (''provider:'' @
              provider) # (if reason \<noteq> '''' then [providerDispatchFallbackNote reason] else [])) @
         [if model = '''' then ''model unresolved; adapter or provider default will be used at dispatch time'' else ''model:'' @ model]\<rparr>)"

definition AgentDispatchProfiles :: "dispatch_world \<Rightarrow> env \<Rightarrow> AgentDispatchProfile list" where
  "AgentDispatchProfiles w e = map (dispatch_profile w e) [''planner'', ''implementer'', ''verifier'', ''designer'']"

section \<open>Councils\<close>

record agentJobCouncil =
  ac_Providers :: "string list"
  ac_PrimaryProvider :: string

definition containsStringFold :: "string list \<Rightarrow> string \<Rightarrow> bool" where
  "containsStringFold items want = list_ex (\<lambda>item. normalizeActor (TrimSpace item) = normalizeActor (TrimSpace want)) items"

definition add_provider :: "string list \<Rightarrow> string \<Rightarrow> string list" where
  "add_provider items raw =
     (let provider = normalizeActor (TrimSpace raw)
      in if \<not> councilProviderAllowed provider \<or> provider \<in> set items then items else items @ [provider])"

definition normalizeCouncilProviders :: "json option \<Rightarrow> string list" where
  "normalizeCouncilProviders value =
     (case value of
        Some (JString s) \<Rightarrow> foldl add_provider [] (splitRoleCSV s)
      | Some (JArray vs) \<Rightarrow> foldl add_provider [] (map (\<lambda>v. agentJobResultString (Some v)) vs)
      | _ \<Rightarrow> [])"

definition agentJobCouncilFromPayload :: "jobject option \<Rightarrow> string \<Rightarrow> agentJobCouncil option" where
  "agentJobCouncilFromPayload payload fallbackPrimary =
     (case payload of
        Some p \<Rightarrow>
          (case map_of p ''council'' of
             Some (JObject raw) \<Rightarrow>
               (let members = normalizeCouncilProviders (map_of raw ''providers'');
                    primary = normalizeActor (TrimSpace (agentJobResultString (map_of raw ''primary_provider'')));
                    providers = (if primary \<noteq> '''' \<and> \<not> containsStringFold members primary then primary # members else members);
                    fallback = normalizeActor (TrimSpace fallbackPrimary) in
                if providers = [] then None
                else Some \<lparr>ac_Providers = providers,
                           ac_PrimaryProvider =
                             (if primary \<noteq> '''' then primary
                              else if fallback \<noteq> '''' \<and> containsStringFold providers fallback then fallback
                              else hd providers)\<rparr>)
           | _ \<Rightarrow> None)
      | None \<Rightarrow> None)"

definition agentJobAutoCouncilEligible :: "AgentJob \<Rightarrow> bool" where
  "agentJobAutoCouncilEligible job \<longleftrightarrow>
     TrimSpace (aj_Source job) \<noteq> ''founder.manual'' \<and> TrimSpace (aj_Role job) \<in> {''planner'',
         ''designer''}"

definition providerEligibleForAutoCouncil :: "getenv \<Rightarrow> ProviderSummary \<Rightarrow> bool" where
  "providerEligibleForAutoCouncil getenv summary \<longleftrightarrow>
     ps_DispatchEnabled summary \<and> TrimSpace (ps_Semantics summary) = ''direct_llm'' \<and>
     (let provider = normalizeActor (ps_Provider summary); gateway = normalizeActor (ps_GatewayAdapter summary) in
      if gateway = ''multi'' then councilProviderAllowed provider \<and> ProviderCredentialReady getenv provider
      else gateway = provider \<and> ProviderCredentialReady getenv provider)"

definition councilPreferenceForAgentRole :: "getenv \<Rightarrow> string \<Rightarrow> string list" where
  "councilPreferenceForAgentRole getenv role =
     (let preferred = normalizeActor (bound (splitRoleBindingEnv (getenv ''LAYER_OS_AGENT_ROLE_PROVIDERS'')) role)
      in foldl appendUniqueString (if councilProviderAllowed preferred then [preferred] else []) [''claude'',
          ''openai'', ''gemini''])"

definition orderAgentJobCouncilProviders :: "string list \<Rightarrow> string list \<Rightarrow> string list" where
  "orderAgentJobCouncilProviders available preferred =
     foldl appendUniqueString
       (foldl appendUniqueString [] (map normalizeActor (filter (containsStringFold available) preferred)))
       (map normalizeActor available)"

definition autoCouncilProvidersForDispatch :: "getenv \<Rightarrow> AdapterSummary \<Rightarrow> ProviderSummary list \<Rightarrow> string \<Rightarrow> string list" where
  "autoCouncilProvidersForDispatch getenv ad providers role =
     (if TrimSpace (as_GatewaySemantics ad) \<noteq> ''direct_llm'' then []
      else let gateway = normalizeActor (as_Gateway ad);
               available =
                 (if gateway = ''multi''
                  then foldl appendUniqueString [] (map (\<lambda>s. normalizeActor (ps_Provider s))
                         (filter (providerEligibleForAutoCouncil getenv) providers))
                  else if councilProviderAllowed gateway \<and> ProviderCredentialReady getenv gateway then [gateway] else [])
           in take 2 (orderAgentJobCouncilProviders available (councilPreferenceForAgentRole getenv role)))"

definition deriveAgentJobAutoCouncil ::
  "getenv \<Rightarrow> AgentJob \<Rightarrow> AdapterSummary \<Rightarrow> ProviderSummary list \<Rightarrow> string \<Rightarrow> agentJobCouncil option" where
  "deriveAgentJobAutoCouncil getenv job ad providers fallbackPrimary =
     (if \<not> agentJobAutoCouncilEligible job then None
      else let available = autoCouncilProvidersForDispatch getenv ad providers (aj_Role job);
               preferred = normalizeActor (TrimSpace fallbackPrimary) in
           if length available < 2 then None
           else Some \<lparr>ac_Providers = available,
                      ac_PrimaryProvider =
                        (if preferred \<noteq> '''' \<and> containsStringFold available preferred then preferred else hd available)\<rparr>)"

definition selectCouncilPrimaryGateway :: "GatewayCall list \<Rightarrow> string \<Rightarrow> error + GatewayCall" where
  "selectCouncilPrimaryGateway calls primaryProvider =
     (let primary = (\<lambda>c. normalizeActor (gc_Provider c) = normalizeActor primaryProvider);
          sent = (\<lambda>c. TrimSpace (gc_Status c) = ''sent'') in
      if calls = [] then Inl ''council produced no gateway calls''
      else case find (\<lambda>c. primary c \<and> sent c) calls of Some c \<Rightarrow> Inr c | None \<Rightarrow>
           case find sent calls of Some c \<Rightarrow> Inr c | None \<Rightarrow>
           case find primary calls of Some c \<Rightarrow> Inr c | None \<Rightarrow> Inr (hd calls))"

definition opt_string :: "string \<Rightarrow> string option \<Rightarrow> jobject" where
  "opt_string key v = (case v of None \<Rightarrow> [] | Some x \<Rightarrow> [(key, JString x)])"

definition opt_int :: "string \<Rightarrow> int option \<Rightarrow> jobject" where
  "opt_int key v = (case v of None \<Rightarrow> [] | Some x \<Rightarrow> [(key, JInt x)])"

definition councilResultPayload :: "GatewayCall list \<Rightarrow> GatewayCall \<Rightarrow> json" where
  "councilResultPayload calls primary =
     (let counted = (\<lambda>status. JInt (int (length (filter (\<lambda>c. TrimSpace (gc_Status c) = status) calls)))) in
      JObject
        [(''mode'', JString ''sequential''), (''providers'', string_array (map gc_Provider calls)),
         (''gateway_call_ids'', string_array (map gc_CallID calls)), (''primary_provider'',
             JString (gc_Provider primary)),
         (''primary_call_id'', JString (gc_CallID primary)), (''primary_model'', JString (gc_Model primary)),
         (''primary_status'', JString (gc_Status primary)), (''requested_count'', JInt (int (length calls))),
         (''succeeded_count'', counted ''sent''), (''failed_count'', counted ''failed''),
         (''calls'', JArray (map (\<lambda>c. JObject
            ([(''call_id'', JString (gc_CallID c)), (''provider'', JString (gc_Provider c)), (''model'',
                JString (gc_Model c)),
              (''status'', JString (gc_Status c)), (''request_kind'', JString (gc_RequestKind c))] @
             opt_string ''response_preview'' (gc_ResponsePreview c) @ opt_string ''last_error'' (gc_LastError c) @
             opt_int ''last_http_status'' (gc_LastHTTPStatus c))) calls))])"

section \<open>Gateway calls of a job\<close>

definition dispatchGatewayCall ::
  "env \<Rightarrow> GatewayCall \<Rightarrow> gateway_adapter \<Rightarrow> jobject option \<Rightarrow> Service \<Rightarrow> GatewayCall outcome" where
  "dispatchGatewayCall e call adapter payload s =
     (case createGatewayCallWithPayload e call adapter payload s of
        (Inl err, t) \<Rightarrow> (Inl err, t)
      | (Inr _, t) \<Rightarrow>
          (case gatewayStore_get (sv_gateway t) (gc_CallID call) of
             None \<Rightarrow> (Inl ''gateway call not found after dispatch'', t)
           | Some gateway \<Rightarrow> (Inr gateway, t)))"

definition job_call :: "env \<Rightarrow> string \<Rightarrow> string \<Rightarrow> string \<Rightarrow> string \<Rightarrow> string list \<Rightarrow> AgentJob \<Rightarrow> GatewayCall" where
  "job_call e callID decisionID provider model extra job =
     \<lparr>gc_CallID = callID, gc_DecisionID = decisionID, gc_Provider = provider, gc_Model = model,
      gc_RequestKind = aj_Kind job, gc_Status = ''recorded'', gc_AttemptCount = 0, gc_LastHTTPStatus = None,
      gc_LastError = None, gc_ResponsePreview = None, gc_DispatchedAt = None,
      gc_TokenBudget = tokenBudgetForAgentRole (aj_Role job),
      gc_Notes = Some ([''agent_job:'' @ aj_JobID job, ''role:'' @ aj_Role job, ''source:'' @ aj_Source job] @ extra),
      gc_CreatedAt = en_clock e 49\<rparr>"

definition dispatch_model :: "dispatch_world \<Rightarrow> env \<Rightarrow> AgentJob \<Rightarrow> string \<Rightarrow> string" where
  "dispatch_model w e job provider =
     (let model = modelForAgentDispatch (gw_getenv (dw_gateway w)) e (aj_Role job) (aj_Kind job) provider
      in if model = '''' then provider else model)"

definition two_digits :: "nat \<Rightarrow> string" where
  "two_digits n = (if n < 10 then ''0'' @ itoa_nat n else itoa_nat n)"

definition council_call :: "dispatch_world \<Rightarrow> env \<Rightarrow> AgentJob \<Rightarrow> PolicyDecision \<Rightarrow> string \<Rightarrow> nat \<Rightarrow> string \<Rightarrow> GatewayCall" where
  "council_call w e job decision primary idx provider =
     (let call = job_call e (''gateway_job_'' @ aj_JobID job @ ''_'' @ provider @ ''_'' @ two_digits (idx + 1))
                   (pd_DecisionID decision) provider (dispatch_model w e job provider) [''dispatch:council'',
                       ''council:member''] job
      in if provider = primary then add_note ''council:primary'' call else call)"

fun council_calls ::
  "dispatch_world \<Rightarrow> (nat list \<Rightarrow> env) \<Rightarrow> AgentJob \<Rightarrow> PolicyDecision \<Rightarrow> string \<Rightarrow> jobject option \<Rightarrow> nat \<Rightarrow> string list \<Rightarrow>
   Service \<Rightarrow> GatewayCall list outcome" where
  "council_calls w es job decision primary payload idx [] s = (Inr [], s)"
| "council_calls w es job decision primary payload idx (provider # providers) s =
     (case dispatchGatewayCall (es [3, idx]) (council_call w (es [3, idx]) job decision primary idx provider)
             (gateway_adapter_of (dw_gateway w) (newMultiProviderAdapter (dw_adapter w))) payload s of
        (Inl err, t) \<Rightarrow> (Inl err, t)
      | (Inr gateway, t) \<Rightarrow>
          (case council_calls w es job decision primary payload (Suc idx) providers t of
             (Inl err, u) \<Rightarrow> (Inl err, u)
           | (Inr calls, u) \<Rightarrow> (Inr (gateway # calls), u)))"

definition dispatchAgentJobCouncil ::
  "dispatch_world \<Rightarrow> (nat list \<Rightarrow> env) \<Rightarrow> AgentJob \<Rightarrow> PolicyDecision \<Rightarrow> agentJobCouncil \<Rightarrow> jobject option \<Rightarrow> Service \<Rightarrow>
   (GatewayCall list \<times> GatewayCall) outcome" where
  "dispatchAgentJobCouncil w es job decision council payload s =
     (case council_calls w es job decision (ac_PrimaryProvider council) payload 0 (ac_Providers council) s of
        (Inl err, t) \<Rightarrow> (Inl err, t)
      | (Inr calls, t) \<Rightarrow>
          (case selectCouncilPrimaryGateway calls (ac_PrimaryProvider council) of
             Inl err \<Rightarrow> (Inl err, t)
           | Inr primary \<Rightarrow> (Inr (calls, primary), t)))"

section \<open>The plan of a dispatch\<close>

text \<open>What a dispatch decides from the job and the configuration before it changes anything.\<close>

record dispatch_plan =
  pl_council :: "agentJobCouncil option"
  pl_auto :: bool
  pl_provider :: string
  pl_model :: string
  pl_fallback :: string
  pl_origin :: string

definition plan_dispatch :: "dispatch_world \<Rightarrow> env \<Rightarrow> AgentJob \<Rightarrow> dispatch_plan" where
  "plan_dispatch w e job =
     (let getenv = gw_getenv (dw_gateway w); providers = Providers w;
          defaultProvider = providerForAgentRole getenv (aj_Role job) providers;
          asked = agentJobCouncilFromPayload (aj_Payload job) defaultProvider;
          derived = deriveAgentJobAutoCouncil getenv job (Adapters w) providers defaultProvider;
          council = (case asked of None \<Rightarrow> derived | Some c \<Rightarrow> Some c);
          provider = (case council of
                        None \<Rightarrow> defaultProvider
                      | Some c \<Rightarrow> if TrimSpace (ac_PrimaryProvider c) \<noteq> '''' then ac_PrimaryProvider c else defaultProvider);
          fallback = providerDispatchFallbackReason w provider providers in
      \<lparr>pl_council = council, pl_auto = (asked = None \<and> derived \<noteq> None), pl_provider = provider,
       pl_model = dispatch_model w e job provider, pl_fallback = fallback,
           pl_origin = dispatchExecutionOrigin w fallback\<rparr>)"

definition start_result_data :: "dispatch_plan \<Rightarrow> string \<Rightarrow> jobject" where
  "start_result_data p actor =
     [(''dispatch_state'', JString ''starting''), (''provider'', JString (pl_provider p)), (''model'',
         JString (pl_model p)),
      (''provider_dispatch_ready'', JBool (pl_fallback p = '''')), (''dispatch_actor'', JString actor),
      (''execution_origin'', JString (pl_origin p))]"

definition packetAdapter :: "dispatch_world \<Rightarrow> dispatch_plan \<Rightarrow> gateway_adapter" where
  "packetAdapter w p =
     (let base = gateway_adapter_of (dw_gateway w) (dw_adapter w) in
      if pl_fallback p = ''no_provider_endpoint'' \<and> dispatch_enabled w
      then packetGatewayAdapter (Some (base, gateway_name (dw_adapter w))) (pl_fallback p)
      else base)"

definition transport_payload :: "dispatch_world \<Rightarrow> dispatch_plan \<Rightarrow> string \<Rightarrow> Service \<Rightarrow> error + jobject option" where
  "transport_payload w p jobID s =
     (if pl_council p \<noteq> None \<or> pl_fallback p = ''''
      then (case dw_packet w jobID s of Inl err \<Rightarrow> Inl err | Inr payload \<Rightarrow> Inr (Some payload))
      else Inr None)"

definition puts :: "jobject \<Rightarrow> jobject \<Rightarrow> jobject" where
  "puts m kvs = foldl (\<lambda>m kv. AList.update (fst kv) (snd kv) m) m kvs"

definition base_result :: "dispatch_plan \<Rightarrow> string \<Rightarrow> jobject" where
  "base_result p actor =
     [(''provider'', JString (pl_provider p)), (''model'', JString (pl_model p)), (''dispatch_actor'', JString actor),
      (''execution_origin'', JString (pl_origin p))]"

definition council_result :: "dispatch_plan \<Rightarrow> string \<Rightarrow> GatewayCall list \<Rightarrow> GatewayCall \<Rightarrow> jobject" where
  "council_result p actor calls primary =
     puts (base_result p actor)
       ([(''execution_origin'', JString ''direct_llm_council''), (''provider'', JString (gc_Provider primary)),
         (''model'', JString (gc_Model primary)), (''gateway_call_id'', JString (gc_CallID primary)),
         (''gateway_state'', JString (gc_Status primary)), (''attempt_count'', JInt (gc_AttemptCount primary)),
         (''provider_dispatch_ready'', JBool (gc_Status primary = ''sent'')),
         (''council'', councilResultPayload calls primary)] @
        (if pl_auto p then [(''council_auto'', JBool True)] else []))"

definition single_result :: "dispatch_plan \<Rightarrow> string \<Rightarrow> GatewayCall \<Rightarrow> jobject" where
  "single_result p actor gateway =
     puts (base_result p actor)
       [(''gateway_call_id'', JString (gc_CallID gateway)), (''gateway_state'', JString (gc_Status gateway)),
        (''attempt_count'', JInt (gc_AttemptCount gateway)),
        (''provider_dispatch_ready'', JBool (pl_fallback p = '''' \<and> gc_Status gateway = ''sent''))]"

definition single_call :: "env \<Rightarrow> dispatch_plan \<Rightarrow> PolicyDecision \<Rightarrow> jobject option \<Rightarrow> AgentJob \<Rightarrow> GatewayCall" where
  "single_call e p policy payload job =
     (let call = job_call e (''gateway_job_'' @
         aj_JobID job) (pd_DecisionID policy) (pl_provider p) (pl_model p) [] job
      in if payload \<noteq> None then add_note ''dispatch:transport=http_push'' call else call)"

text \<open>The gateway call of the plan, with the result it starts the outcome with.\<close>

definition run_gateway ::
  "dispatch_world \<Rightarrow> (nat list \<Rightarrow> env) \<Rightarrow> dispatch_plan \<Rightarrow> string \<Rightarrow> AgentJob \<Rightarrow> PolicyDecision \<Rightarrow> jobject option \<Rightarrow> Service \<Rightarrow>
   (GatewayCall \<times> jobject) outcome" where
  "run_gateway w es p actor job policy payload s =
     (case pl_council p of
        Some council \<Rightarrow>
          (case dispatchAgentJobCouncil w es job policy council payload s of
             (Inl err, t) \<Rightarrow> (Inl err, t)
           | (Inr (calls, primary), t) \<Rightarrow> (Inr (primary, council_result p actor calls primary), t))
      | None \<Rightarrow>
          (case dispatchGatewayCall (es [2]) (single_call (es [2]) p policy payload job) (packetAdapter w p) payload s of
             (Inl err, t) \<Rightarrow> (Inl err, t)
           | (Inr gateway, t) \<Rightarrow> (Inr (gateway, single_result p actor gateway), t)))"

section \<open>The outcome of a dispatch\<close>

definition gateway_details :: "GatewayCall \<Rightarrow> jobject" where
  "gateway_details gateway =
     opt_int ''last_http_status'' (gc_LastHTTPStatus gateway) @ opt_string ''last_error'' (gc_LastError gateway) @
     opt_string ''response_preview'' (gc_ResponsePreview gateway)"

definition dispatch_outcome :: "dispatch_plan \<Rightarrow> AgentJob \<Rightarrow> GatewayCall \<Rightarrow> jobject \<Rightarrow> string \<times> string list \<times> jobject" where
  "dispatch_outcome p job gateway result0 =
     (let result = puts result0 (gateway_details gateway); notes = elems (aj_Notes job) in
      if gc_Status gateway = ''failed'' then
        (''failed'', appendUniqueString notes ''dispatch_failed'', puts result [(''dispatch_state'',
            JString ''failed'')])
      else if gc_Status gateway = ''recorded'' then
        (''running'', appendUniqueString notes ''dispatch_packet_ready'',
         puts result
           ([(''dispatch_state'', JString ''packet_ready''), (''dispatch_transport'', JString ''job_packet''),
             (''packet_ready'', JBool True),
             (''job_packet_path'', JString (''/api/layer-os/jobs/packet?job_id='' @ aj_JobID job)),
             (''job_packet_command'', JString (''layer-osctl job packet --id '' @ aj_JobID job))] @
            (if pl_fallback p \<noteq> '''' \<and> pl_council p = None then [(''dispatch_reason'',
                JString (pl_fallback p))] else [])))
      else
        (''running'',
         appendUniqueString notes
           (if pl_council p = None then ''dispatch_sent'' else if pl_auto p then ''dispatch_council_auto'' else ''dispatch_council''),
         puts result [(''dispatch_state'', JString (gc_Status gateway)), (''dispatch_transport'',
             JString ''http_push'')]))"

definition gatewayUsesDirectLLM :: "GatewayCall \<Rightarrow> bool" where
  "gatewayUsesDirectLLM gateway = list_ex (\<lambda>note. TrimSpace note = ''dispatch:direct_llm'') (elems (gc_Notes gateway))"

definition jobAllowsDirectLLMAutoClose :: "AgentJob \<Rightarrow> GatewayCall \<Rightarrow> bool" where
  "jobAllowsDirectLLMAutoClose job gateway \<longleftrightarrow>
     gc_Status gateway = ''sent'' \<and> gc_ResponsePreview gateway \<noteq> None \<and> gatewayUsesDirectLLM gateway \<and>
     TrimSpace (aj_Role job) \<in> {''planner'', ''designer''}"

definition auto_close_result :: "AgentJob \<Rightarrow> GatewayCall \<Rightarrow> jobject \<Rightarrow> jobject" where
  "auto_close_result job gateway result =
     (let summary = (if TrimSpace (aj_Summary job) = ''''
                     then ''Direct LLM response captured for '' @ TrimSpace (aj_Role job) @
                         '' lane.'' else TrimSpace (aj_Summary job));
          copied = (\<lambda>key. case map_of result key of None \<Rightarrow> [] | Some v \<Rightarrow> [(key,
              v)]) in
      [(''summary'', JString summary), (''artifacts'', string_array [''gateway_call:'' @ gc_CallID gateway]),
       (''response'', JString (case gc_ResponsePreview gateway of None \<Rightarrow> '''' | Some t \<Rightarrow> t)),
       (''gateway_call_id'', JString (gc_CallID gateway)), (''provider'', JString (gc_Provider gateway)),
       (''model'', JString (gc_Model gateway)), (''completion_mode'', JString ''direct_llm_auto_close'')] @
      copied ''council'' @ copied ''council_auto'')"

definition jobRequestsDispatchTelegram :: "AgentJob \<Rightarrow> bool" where
  "jobRequestsDispatchTelegram job \<longleftrightarrow>
     (case aj_Payload job of
        None \<Rightarrow> False
      | Some p \<Rightarrow>
          (case map_of p ''notify_telegram'' of
             Some (JBool b) \<Rightarrow> b
           | Some (JString t) \<Rightarrow> TrimSpace (ToLower t) \<in> {''1'', ''true'', ''yes'', ''on''}
           | _ \<Rightarrow> False))"

definition dispatchTelegramFailureReviewItem :: "time \<Rightarrow> AgentJob \<Rightarrow> GatewayCall \<Rightarrow> error \<Rightarrow> ReviewRoomItem" where
  "dispatchTelegramFailureReviewItem now job gateway err =
     newSignalReviewRoomItem now
       (runes [0xC5D0, 0xC774, 0xC804, 0xD2B8] @ '' '' @ runes [0xC791, 0xC5C5] @ '' `'' @ aj_JobID job @ ''`'' @
           runes [0xC758] @ '' '' @ runes [0xD154, 0xB808, 0xADF8, 0xB7A8] @ '' '' @ runes [0xC54C, 0xB9BC] @ '' '' @
           runes [0xC804, 0xC1A1, 0xC774] @ '' '' @ runes [0xC2E4, 0xD328, 0xD588, 0xC5B4] @ ''. '' @ runes [0xC774] @
           '' '' @ runes [0xC54C, 0xB9BC] @ '' '' @ runes [0xB808, 0xC778, 0xC744] @ '' '' @ runes [0xBBFF, 0xAE30] @
           '' '' @ runes [0xC804, 0xC5D0] @ '' '' @ runes [0xC804, 0xC1A1] @ '' '' @ runes [0xC0C1, 0xD0DC, 0xB97C] @
           '' '' @ runes [0xD655, 0xC778, 0xD574, 0xC57C] @ '' '' @ runes [0xD574] @ ''.'')
       ''telegram.dispatch_failed'' (Some (aj_JobID job))
       ''failed telegram dispatch notice requires review before the alert lane can be trusted''
       ''review_room.auto.telegram_dispatch_failed''
       [''job:'' @ aj_JobID job, ''provider:'' @ gc_Provider gateway, ''gateway:'' @ gc_CallID gateway, ''error:'' @
           TrimSpace err]"

definition notify_dispatch :: "dispatch_world \<Rightarrow> env \<Rightarrow> AgentJob \<Rightarrow> GatewayCall \<Rightarrow> Service \<Rightarrow> Service" where
  "notify_dispatch w e job gateway s =
     (if jobRequestsDispatchTelegram job \<and> dw_telegram w
      then (case dw_sendTelegram w job gateway of
              None \<Rightarrow> s
            | Some err \<Rightarrow> recordAutomationWarning e (dispatchTelegramFailureReviewItem (en_clock e 74) job gateway err) s)
      else s)"

section \<open>Dispatch\<close>

record AgentDispatchResult =
  ad_Job :: AgentJob
  ad_Policy :: PolicyDecision
  ad_Gateway :: GatewayCall

definition job_policy :: "env \<Rightarrow> AgentJob \<Rightarrow> Service \<Rightarrow> PolicyDecision outcome" where
  "job_policy e job s =
     EvaluatePolicy e (''policy_job_'' @ aj_JobID job) (aj_Summary job) ''agent_job'' (riskForAgentRole (aj_Role job))
       (noveltyForAgentRole (aj_Role job)) (tokenClassForAgentRole (aj_Role job)) False s"

text \<open>The steps from the start of the job to the stored outcome.\<close>

definition dispatch_steps ::
  "dispatch_world \<Rightarrow> (nat list \<Rightarrow> env) \<Rightarrow> string \<Rightarrow> Service \<Rightarrow> (AgentJob \<times> PolicyDecision \<times> GatewayCall \<times> jobject) outcome" where
  "dispatch_steps w es jobID s =
     (case agentJobStore_get (sv_agentJob s) jobID of None \<Rightarrow> (Inl ''job_id not found'',
         s) | Some job \<Rightarrow>
      if aj_Status job \<noteq> ''queued'' \<and> aj_Status job \<noteq> ''failed''
      then (Inl ''job must be queued or failed before dispatch'', s) else
      let p = plan_dispatch w (es [0]) job; actor = currentActor (es [0]) s in
      if pl_provider p = '''' then (Inl ''no provider available for agent role'', s) else
      case UpdateAgentJob (es [0]) jobID ''running'' (Some (appendUniqueString (elems (aj_Notes job)) ''dispatching''))
             (Some (start_result_data p actor)) s of (Inl err, s1) \<Rightarrow> (Inl err, s1) | (Inr updated,
                 s1) \<Rightarrow>
      case job_policy (es [1]) updated s1 of (Inl err, s2) \<Rightarrow> (Inl err, s2) | (Inr policy,
          s2) \<Rightarrow>
      case transport_payload w p (aj_JobID updated) s2 of Inl err \<Rightarrow> (Inl err,
          s2) | Inr payload \<Rightarrow>
      case run_gateway w es p actor updated policy payload s2 of (Inl err, s3) \<Rightarrow> (Inl err,
          s3) | (Inr (gateway, result0), s3) \<Rightarrow>
      case dispatch_outcome p updated gateway result0 of (status, notes, result) \<Rightarrow>
      case UpdateAgentJob (es [4]) jobID status (Some notes) (Some result) s3 of
        (Inl err, s4) \<Rightarrow> (Inl err, s4)
      | (Inr final, s4) \<Rightarrow> (Inr (final, policy, gateway, result), s4))"

fun DispatchAgentJob ::
  "nat \<Rightarrow> dispatch_world \<Rightarrow> (nat list \<Rightarrow> env) \<Rightarrow> string \<Rightarrow> Service \<Rightarrow> AgentDispatchResult outcome" where
  "DispatchAgentJob 0 w es jobID s = (Inl ''dispatch depth exhausted'', s)"
| "DispatchAgentJob (Suc fuel) w es jobID s =
     (case dispatch_steps w es jobID s of
        (Inl err, t) \<Rightarrow> (Inl err, t)
      | (Inr (final, policy, gateway, result), t) \<Rightarrow>
          let t1 = notify_dispatch w (es [5]) final gateway t;
              done = (\<lambda>job. Inr \<lparr>ad_Job = job, ad_Policy = policy, ad_Gateway = gateway\<rparr>);
              chained = (\<lambda>i childID u.
                case DispatchAgentJob fuel w (\<lambda>path. es (7 # i # path)) childID u of
                  (Inl err, v) \<Rightarrow> (Some err, v) | (Inr _, v) \<Rightarrow> (None, v)) in
          if jobAllowsDirectLLMAutoClose final gateway
          then (case ReportAgentJob (dw_report w) (dw_parseURL w) (\<lambda>k. es [6, k]) chained jobID ''succeeded''
                       (Some (appendUniqueString (elems (aj_Notes final)) ''auto_closed''))
                       (Some (auto_close_result final gateway result)) t1 of
                  (Inl _, u) \<Rightarrow> (done final, u)
                | (Inr report, u) \<Rightarrow> (done (jr_Job report), u))
          else (done final, t1))"

end
