(* ===== verification/Service_Report_Props.thy ===== *)
theory Service_Report_Props
  imports Service_Report Session_Specs
begin

text \<open>
  What a report changes. The locale states what the chain of a report relies on: a dispatcher never changes
  a job that is neither queued nor failed. Under it, a report changes no other such job, and a job reported as
  succeeded or canceled stays so through everything its chain rules start. \<open>Job_Dispatch_Props\<close> interprets the
  locale by the dispatch operation.
\<close>

section \<open>Steps that keep a property of the service\<close>

lemma event_or_keeps:
  assumes "P (undo s)" "\<And>es. P (snd (k (s\<lparr>sv_event := es\<rparr>)))"
  shows "P (snd (event_or ev undo k s))"
  using assms by (simp add: event_or_def split: sum.splits)

lemma persist_or_keeps:
  assumes "\<And>t. core t = core s \<Longrightarrow> P (undo t)" "\<And>t. core t = core s \<Longrightarrow> P t"
  shows "P (snd (persist_or e undo x s))"
proof (cases "persistLocked e s")
  case (Pair r t)
  have "core t = core s" using persistLocked_frame(1) [OF Pair] .
  then show ?thesis using assms Pair by (simp add: persist_or_def split: option.splits)
qed

lemma room_or_keeps:
  assumes "\<And>t. core t = core s \<Longrightarrow> P (undo t)" "\<And>t. core t = core s \<Longrightarrow> P (snd (k t))" "core (snd (act s)) = core s"
  shows "P (snd (room_or act undo k s))"
  using assms by (cases "act s") (auto simp: room_or_def split: option.splits)

lemma autoOpen_core [simp]: "core (snd (autoOpenReviewRoomItemLocked e k item s)) = core s"
  by (simp add: autoOpenReviewRoomItemLocked_def Let_def core_def split: sum.splits prod.splits)

lemma review_job_core [simp]: "core (snd (review_job e job s)) = core s"
  by (simp add: review_job_def core_def split: option.splits sum.splits prod.splits)

lemma suggest_or_keeps:
  assumes "\<And>t. core t = core s \<Longrightarrow> P (undo t)" "\<And>t. core t = core s \<Longrightarrow> P (snd (k t))"
  shows "P (snd (suggest_or e n sug undo k s))"
  using assms by (cases sug) (simp_all add: suggest_or_def room_or_keeps)

lemma persist_core: "core (snd (persistLocked e s)) = core s"
  by (rule persistLocked_frame(1) [OF surjective_pairing])

lemma warn_core [simp]: "core (warn_locked e k item s) = core s"
proof (cases "autoOpenReviewRoomItemLocked e k item s")
  case (Pair r t)
  then have "core t = core s" using autoOpen_core [of e k item s] by simp
  then show ?thesis using Pair persist_core [of e t] by (simp add: warn_locked_def split: option.splits)
qed

section \<open>Jobs\<close>

abbreviation job_of :: "Service \<Rightarrow> string \<Rightarrow> AgentJob option" where
  "job_of s j \<equiv> lookup aj_JobID j (sv_agentJob s)"

definition waiting :: "AgentJob \<Rightarrow> bool" where
  "waiting job \<longleftrightarrow> aj_Status job = ''queued'' \<or> aj_Status job = ''failed''"

text \<open>Every job outside \<open>X\<close> that is not waiting is the same in both.\<close>

definition kept :: "string set \<Rightarrow> Service \<Rightarrow> Service \<Rightarrow> bool" where
  "kept X s t \<longleftrightarrow> (\<forall>j job. j \<notin> X \<longrightarrow> job_of s j = Some job \<longrightarrow> \<not> waiting job \<longrightarrow> job_of t j = Some job)"

lemma kept_refl [simp]: "kept X s s"
  by (simp add: kept_def)

lemma kept_trans [trans]: "kept X s t \<Longrightarrow> kept X t u \<Longrightarrow> kept X s u"
  by (simp add: kept_def)

lemma kept_mono: "kept X s t \<Longrightarrow> X \<subseteq> Y \<Longrightarrow> kept Y s t"
  by (auto simp: kept_def)

lemma kept_same: "sv_agentJob t = sv_agentJob s \<Longrightarrow> kept X s t"
  by (simp add: kept_def)

lemma kept_core: "core t = core s \<Longrightarrow> kept X s t"
  by (rule kept_same) (rule core_eqD(5))

lemma kept_append: "sv_agentJob t = sv_agentJob s @ js \<Longrightarrow> kept X s t"
  by (auto simp: kept_def lookup_append)

lemma kept_waiting: "kept {j} s t \<Longrightarrow> job_of s j = Some job \<Longrightarrow> waiting job \<Longrightarrow> kept {} s t"
  unfolding kept_def by (metis empty_iff option.inject singletonD)

lemma kept_replaced:
  assumes "sv_agentJob t = sv_agentJob s \<or> (\<exists>item. aj_JobID item = j \<and> sv_agentJob t = replace_first (\<lambda>x. aj_JobID x = j) item (sv_agentJob s))"
  shows "kept {j} s t"
  using assms by (auto simp: kept_def lookup_replace_first)

section \<open>Operations on jobs\<close>

lemma jobs_core: "core t = core s \<Longrightarrow> sv_agentJob t = sv_agentJob s"
  by (rule core_eqD(5))

lemma CreateAgentJob_jobs:
  "sv_agentJob (snd (CreateAgentJob e item s)) = sv_agentJob s \<or> (\<exists>js. sv_agentJob (snd (CreateAgentJob e item s)) = sv_agentJob s @ js)"
proof -
  let ?P = "\<lambda>t. \<exists>js. sv_agentJob t = sv_agentJob s @ js"
  have p: "?P (snd (persist_or e (\<lambda>t. restore_event e (sv_event s) (t\<lparr>sv_agentJob := sv_agentJob s\<rparr>)) () u))"
    if "?P u" for u
  proof (rule persist_or_keeps)
    show "?P (restore_event e (sv_event s) (t\<lparr>sv_agentJob := sv_agentJob s\<rparr>))" for t by (simp add: restore_event_def)
    show "?P t" if "core t = core u" for t using jobs_core [OF that] \<open>?P u\<close> by simp
  qed
  have "?P (snd (createAgentJobLocked e item s))"
    by (auto simp: createAgentJobLocked_def agentJobStore_create_def event_or_def Let_def split: sum.splits option.splits if_splits)
  then show ?thesis using p by (auto simp: CreateAgentJob_def split: option.splits prod.splits sum.splits)
qed

lemma CreateAgentJob_kept: "kept X s (snd (CreateAgentJob e item s))"
  using CreateAgentJob_jobs [of e item s] kept_append kept_same by blast

lemma agentJobStore_update_Inr:
  assumes "agentJobStore_update items jobID status nts result now = Inr (updated, items')"
  shows "aj_JobID updated = jobID" "aj_Status updated = status" "items' = replace_first (\<lambda>x. aj_JobID x = jobID) updated items"
    "\<exists>old. lookup aj_JobID jobID items = Some old \<and>
       updated = old\<lparr>aj_Status := status, aj_Notes := Some (elems nts),
         aj_Result := (if result = None then aj_Result old else cloneJSONObject result), aj_UpdatedAt := now\<rparr>"
    "AgentJob_Validate updated = None" "lookup aj_JobID jobID items' = Some updated"
proof -
  obtain old where o: "lookup aj_JobID jobID items = Some old"
    and u: "updated = old\<lparr>aj_Status := status, aj_Notes := Some (elems nts),
         aj_Result := (if result = None then aj_Result old else cloneJSONObject result), aj_UpdatedAt := now\<rparr>"
    and v: "AgentJob_Validate updated = None" and i: "items' = replace_first (\<lambda>x. aj_JobID x = jobID) updated items"
    using assms by (auto simp: agentJobStore_update_def Let_def split: option.splits)
  have j: "aj_JobID updated = jobID" using lookup_SomeD [OF o] u by simp
  show "aj_JobID updated = jobID" "aj_Status updated = status" "items' = replace_first (\<lambda>x. aj_JobID x = jobID) updated items"
    "AgentJob_Validate updated = None" using j u v i by simp_all
  show "\<exists>old. lookup aj_JobID jobID items = Some old \<and>
       updated = old\<lparr>aj_Status := status, aj_Notes := Some (elems nts),
         aj_Result := (if result = None then aj_Result old else cloneJSONObject result), aj_UpdatedAt := now\<rparr>"
    using o u by blast
  show "lookup aj_JobID jobID items' = Some updated" using i j o by (simp add: lookup_replace_first)
qed

text \<open>An update either stores the updated job or leaves the jobs as they were.\<close>

lemma log_review_save_cases:
  fixes e s items updated ev
  defines "all \<equiv> (\<lambda>t. restore_event e (sv_event s) (restore_room e (sv_reviewRoom s) (t\<lparr>sv_agentJob := sv_agentJob s\<rparr>)))"
  assumes "event_or ev (\<lambda>t. t\<lparr>sv_agentJob := sv_agentJob s\<rparr>) (room_or (review_job e updated) all (persist_or e all x))
      (s\<lparr>sv_agentJob := items\<rparr>) = (r, t)"
  shows "(\<exists>err. r = Inl err \<and> sv_agentJob t = sv_agentJob s) \<or> (r = Inr x \<and> core t = core (s\<lparr>sv_agentJob := items\<rparr>))"
proof (cases "eventStore_append (sv_event s) ev")
  case (Inl err)
  then show ?thesis using assms(2) by (auto simp: event_or_def)
next
  case (Inr es)
  let ?u = "s\<lparr>sv_agentJob := items, sv_event := es\<rparr>"
  obtain ra a where a: "review_job e updated ?u = (ra, a)" by fastforce
  have ca: "core a = core ?u" using review_job_core [of e updated ?u] a by simp
  have all: "sv_agentJob (all v) = sv_agentJob s" for v by (simp add: all_def restore_event_def restore_room_def)
  have run: "room_or (review_job e updated) all (persist_or e all x) ?u = (r, t)" using assms(2) Inr by (simp add: event_or_def)
  show ?thesis
  proof (cases ra)
    case (Some err)
    then show ?thesis using run a all by (auto simp: room_or_def)
  next
    case None
    obtain rp p where p: "persistLocked e a = (rp, p)" by fastforce
    have "core p = core ?u" using persistLocked_frame(1) [OF p] ca by simp
    moreover have "core ?u = core (s\<lparr>sv_agentJob := items\<rparr>)" by (simp add: core_def)
    ultimately show ?thesis using run a None p all by (cases rp) (auto simp: room_or_def persist_or_def)
  qed
qed

lemma updateAgentJobLocked_cases:
  assumes "updateAgentJobLocked e jobID status nts result kind s = (r, t)"
  shows "(\<exists>err. r = Inl err \<and> sv_agentJob t = sv_agentJob s) \<or>
    (\<exists>updated ev items. r = Inr (updated, ev) \<and>
       agentJobStore_update (sv_agentJob s) jobID status nts result (en_clock e 50) = Inr (updated, items) \<and>
       core t = core (s\<lparr>sv_agentJob := items\<rparr>))"
proof (cases "agentJobStore_get (sv_agentJob s) jobID")
  case None
  then show ?thesis using assms by (auto simp: updateAgentJobLocked_def)
next
  case (Some old)
  show ?thesis
  proof (cases "agentJobStore_update (sv_agentJob s) jobID status nts result (en_clock e 50)")
    case (Inl err)
    then show ?thesis using assms Some by (auto simp: updateAgentJobLocked_def)
  next
    case (Inr p)
    obtain updated items where u: "p = (updated, items)" by fastforce
    show ?thesis using log_review_save_cases [of _ s e updated _ items r t] assms Some Inr u
      unfolding updateAgentJobLocked_def Let_def by simp blast
  qed
qed

lemma updateAgentJobLocked_kept: "kept {jobID} s (snd (updateAgentJobLocked e jobID status nts result kind s))"
proof -
  obtain r t where t: "updateAgentJobLocked e jobID status nts result kind s = (r, t)" by fastforce
  from updateAgentJobLocked_cases [OF t] have "kept {jobID} s t"
  proof (elim disjE exE conjE)
    fix updated ev items
    assume u: "agentJobStore_update (sv_agentJob s) jobID status nts result (en_clock e 50) = Inr (updated, items)"
      and c: "core t = core (s\<lparr>sv_agentJob := items\<rparr>)"
    show ?thesis using agentJobStore_update_Inr(1,3) [OF u] jobs_core [OF c] by (intro kept_replaced) auto
  qed (rule kept_same)
  then show ?thesis using t by simp
qed

lemma applyPatch_cases:
  assumes "applyAgentJobResultPatchLocked e jobID patch s = (r, t)"
  shows "(\<exists>err. r = Inl err \<and> sv_agentJob t = sv_agentJob s) \<or>
    (\<exists>cur updated items. r = Inr updated \<and> job_of s jobID = Some cur \<and>
       agentJobStore_update (sv_agentJob s) jobID (aj_Status cur) (aj_Notes cur)
         (Some (merge_patch (case cloneJSONObject (aj_Result cur) of None \<Rightarrow> [] | Some r \<Rightarrow> r)
            (case cloneJSONObject patch of None \<Rightarrow> [] | Some p \<Rightarrow> p))) (en_clock e 50) = Inr (updated, items) \<and>
       sv_agentJob t = items)"
proof (cases "job_of s jobID")
  case None
  then show ?thesis using assms by (auto simp: applyAgentJobResultPatchLocked_def agentJobStore_get_def)
next
  case (Some cur)
  let ?m = "merge_patch (case cloneJSONObject (aj_Result cur) of None \<Rightarrow> [] | Some r \<Rightarrow> r)
            (case cloneJSONObject patch of None \<Rightarrow> [] | Some p \<Rightarrow> p)"
  show ?thesis
  proof (cases "agentJobStore_update (sv_agentJob s) jobID (aj_Status cur) (aj_Notes cur) (Some ?m) (en_clock e 50)")
    case (Inl err)
    then show ?thesis using assms Some by (auto simp: applyAgentJobResultPatchLocked_def agentJobStore_get_def)
  next
    case (Inr p)
    obtain updated items where u: "p = (updated, items)" by fastforce
    obtain rp q where q: "persistLocked e (s\<lparr>sv_agentJob := items\<rparr>) = (rp, q)" by fastforce
    have "sv_agentJob q = items" using persistLocked_frame(1) [OF q] jobs_core [of q "s\<lparr>sv_agentJob := items\<rparr>"] by simp
    then show ?thesis using assms Some Inr u q
      by (cases rp) (auto simp: applyAgentJobResultPatchLocked_def agentJobStore_get_def persist_or_def Let_def)
  qed
qed

lemma applyPatch_kept: "kept {jobID} s (snd (applyAgentJobResultPatchLocked e jobID patch s))"
proof -
  obtain r t where t: "applyAgentJobResultPatchLocked e jobID patch s = (r, t)" by fastforce
  from applyPatch_cases [OF t] have "kept {jobID} s t"
  proof (elim disjE exE conjE)
    fix cur updated items
    assume u: "agentJobStore_update (sv_agentJob s) jobID (aj_Status cur) (aj_Notes cur)
         (Some (merge_patch (case cloneJSONObject (aj_Result cur) of None \<Rightarrow> [] | Some r \<Rightarrow> r)
            (case cloneJSONObject patch of None \<Rightarrow> [] | Some p \<Rightarrow> p))) (en_clock e 50) = Inr (updated, items)"
      and "sv_agentJob t = items"
    then show ?thesis using agentJobStore_update_Inr(1,3) [OF u] by (intro kept_replaced) auto
  qed (rule kept_same)
  then show ?thesis using t by simp
qed

section \<open>The other steps of a report\<close>

lemma append_entry_jobs: "sv_agentJob (snd (appendCapitalizationEntry e item s)) = sv_agentJob s"
  by (simp add: appendCapitalizationEntry_def Let_def split: option.splits)

lemma current_room_jobs: "sv_agentJob (snd (currentReviewRoomLocked e s)) = sv_agentJob s"
  by (simp add: currentReviewRoomLocked_def split: prod.splits)

lemma warn_jobs [simp]: "sv_agentJob (warn_locked e k item s) = sv_agentJob s"
  by (rule jobs_core) simp

lemma report_capitalize_jobs: "sv_agentJob (snd (report_capitalize w e job ev s)) = sv_agentJob s"
proof -
  obtain room s1 where r: "currentReviewRoomLocked e s = (room, s1)" by fastforce
  have s1: "sv_agentJob s1 = sv_agentJob s" using current_room_jobs [of e s] r by simp
  have "sv_agentJob t = sv_agentJob s1" if "appendCapitalizationEntry e item s1 = (x, t)" for item x t
    using append_entry_jobs [of e item s1] that by simp
  then show ?thesis using s1 r by (auto simp: report_capitalize_def Let_def split: prod.splits option.splits)
qed

lemma observation_jobs:
  "sv_agentJob (snd (recordObservationLocked e k item b s)) = sv_agentJob s"
  "sv_agentJob (snd (createObservationLocked U e k item s)) = sv_agentJob s"
  "sv_agentJob (snd (appendAutoObservationLocked U e k item s)) = sv_agentJob s"
proof -
  show r: "sv_agentJob (snd (recordObservationLocked e k item b s)) = sv_agentJob s" for b
    by (simp add: recordObservationLocked_def event_or_def Let_def split: sum.splits)
  obtain x s1 where x: "recordObservationLocked e k item True s = (x, s1)" by fastforce
  have s1: "sv_agentJob s1 = sv_agentJob s" using r [of True] x by simp
  have "sv_agentJob (snd (suggest_or e (k + 1) sug (\<lambda>t. t) (\<lambda>t. (Inr ob, t)) s1)) = sv_agentJob s"
    for sug and ob :: ObservationRecord
  proof (rule suggest_or_keeps)
    fix t assume "core t = core s1"
    from jobs_core [OF this] s1 show "sv_agentJob t = sv_agentJob s" "sv_agentJob (snd (Inr ob, t)) = sv_agentJob s" by simp_all
  qed
  then show c: "sv_agentJob (snd (createObservationLocked U e k item s)) = sv_agentJob s"
    using x s1 by (simp add: createObservationLocked_def split: sum.splits)
  obtain y s2 where y: "createObservationLocked U e k item s = (y, s2)" by fastforce
  obtain z s3 where z: "persistLocked e s2 = (z, s3)" by fastforce
  have "sv_agentJob s2 = sv_agentJob s" "sv_agentJob s3 = sv_agentJob s2"
    using c y jobs_core [OF persistLocked_frame(1) [OF z]] by simp_all
  then show "sv_agentJob (snd (appendAutoObservationLocked U e k item s)) = sv_agentJob s"
    using y z by (simp add: appendAutoObservationLocked_def restore_observations_def restore_event_def restore_room_def
        split: sum.splits option.splits)
qed

lemma report_observe_jobs: "sv_agentJob (snd (report_observe U e job ev s)) = sv_agentJob s"
proof -
  have "sv_agentJob t = sv_agentJob s" if "appendAutoObservationLocked U e k item s = (x, t)" for k item x t
    using observation_jobs(3) [of U e k item s] that by simp
  then show ?thesis by (auto simp: report_observe_def split: prod.splits option.splits)
qed

section \<open>The stages of a report\<close>

text \<open>What an accepted report went through: the normalised result, the update, and the service after each stage.\<close>

lemma ReportAgentJob_Inr:
  assumes "ReportAgentJob w U es dispatch jobID status nts result s = (Inr rep, t)"
  obtains current r updated ev s1 s2 s3 s4 entry w1 w2 chain w3 rep0 where
    "validAgentJobTerminalStatus status" "job_of s jobID = Some current"
    "normalizeAgentJobReportResult w current status result (currentActor (es 0) s) = Inr r"
    "updateAgentJobLocked (es 0) jobID status nts (Some r) (''agent_job.'' @ status) s = (Inr (updated, ev), s1)"
    "report_capitalize w (es 1) updated ev s1 = ((entry, w1), s2)" "report_observe U (es 2) updated ev s2 = (w2, s3)"
    "report_chain w es dispatch updated s3 = ((chain, w3), s4)"
    "rep0 = \<lparr>jr_Job = updated, jr_Event = ev, jr_FollowUp = buildAgentJobReportFollowUp updated (w1 @ w2 @ w3) chain,
       jr_Capitalization = entry, jr_Chain = chain, jr_Warnings = w1 @ w2 @ w3\<rparr>"
    "report_follow_up (es 4) rep0 s4 = (rep, t)"
proof -
  obtain current where c: "validAgentJobTerminalStatus status" "job_of s jobID = Some current"
    using assms by (auto simp: ReportAgentJob_def agentJobStore_get_def split: if_splits option.splits)
  obtain r where r: "normalizeAgentJobReportResult w current status result (currentActor (es 0) s) = Inr r"
    using assms c by (auto simp: ReportAgentJob_def agentJobStore_get_def split: sum.splits)
  obtain x s1 where u: "updateAgentJobLocked (es 0) jobID status nts (Some r) (''agent_job.'' @ status) s = (x, s1)" by fastforce
  obtain updated ev where x: "x = Inr (updated, ev)"
    using assms c r u by (cases x) (auto simp: ReportAgentJob_def agentJobStore_get_def)
  obtain entry w1 s2 where c1: "report_capitalize w (es 1) updated ev s1 = ((entry, w1), s2)" by (metis surj_pair)
  obtain w2 s3 where c2: "report_observe U (es 2) updated ev s2 = (w2, s3)" by fastforce
  obtain chain w3 s4 where c3: "report_chain w es dispatch updated s3 = ((chain, w3), s4)" by (metis surj_pair)
  let ?rep0 = "\<lparr>jr_Job = updated, jr_Event = ev, jr_FollowUp = buildAgentJobReportFollowUp updated (w1 @ w2 @ w3) chain,
       jr_Capitalization = entry, jr_Chain = chain, jr_Warnings = w1 @ w2 @ w3\<rparr>"
  obtain rep' t' where f: "report_follow_up (es 4) ?rep0 s4 = (rep', t')" by fastforce
  have "(Inr rep', t') = (Inr rep, t)"
    using assms c r u c1 c2 c3 f unfolding x by (simp add: ReportAgentJob_def agentJobStore_get_def)
  then show thesis using that [OF c r _ c1 c2 c3 refl] u x f by simp
qed

lemma ReportAgentJob_Inl:
  assumes "ReportAgentJob w U es dispatch jobID status nts result s = (Inl err, t)"
  shows "t = s \<or> (\<exists>r. updateAgentJobLocked (es 0) jobID status nts (Some r) (''agent_job.'' @ status) s = (Inl err, t))"
  using assms
  by (simp add: ReportAgentJob_def Let_def split: if_splits option.splits sum.splits prod.splits) blast+

section \<open>The stored result of a report\<close>

abbreviation marshals :: "jobject \<Rightarrow> bool" where
  "marshals m \<equiv> json_marshals (JObject m)"

lemma clone_Some: "marshals m \<Longrightarrow> cloneJSONObject (Some m) = Some m"
  by (simp add: cloneJSONObject_def)

lemma cloned_marshals: "cloneJSONObject v = Some m \<Longrightarrow> marshals m"
  by (auto simp: cloneJSONObject_def split: option.splits if_splits)

lemma marshals_update: "marshals m \<Longrightarrow> json_marshals v \<Longrightarrow> marshals (AList.update k v m)"
  by (induction m) auto

lemma marshals_default: "marshals m \<Longrightarrow> json_marshals v \<Longrightarrow> marshals (put_default k v m)"
  using marshals_update [of m v k] by (simp add: put_default_def split: option.splits del: json_marshals.simps)

lemma marshals_merge: "marshals base \<Longrightarrow> marshals p \<Longrightarrow> marshals (merge_patch base p)"
proof (induction p arbitrary: base)
  case (Cons kv p)
  have "marshals (AList.update (fst kv) (snd kv) base)" using Cons.prems by (intro marshals_update) simp_all
  then show ?case using Cons by (simp add: merge_patch_def)
qed (simp add: merge_patch_def)

lemma map_of_update: "map_of (AList.update k v m) x = (if x = k then Some v else map_of m x)"
  by (simp add: update_conv')

lemma map_of_default: "x \<noteq> k \<Longrightarrow> map_of (put_default k v m) x = map_of m x"
  by (simp add: put_default_def map_of_update split: option.splits)

lemma report_result_facts:
  "marshals (report_result job status result actor)"
  "map_of (report_result job status result actor) ''report_status'' = Some (JString status)"
  "map_of (report_result job status result actor) ''reported_by_actor'' = Some (JString (normalizeActor actor))"
proof -
  have c: "marshals (case cloneJSONObject v of None \<Rightarrow> [] | Some r \<Rightarrow> r)" for v
    using cloned_marshals [of v] by (cases "cloneJSONObject v") simp_all
  show "marshals (report_result job status result actor)"
    unfolding report_result_def Let_def by (intro marshals_default marshals_update marshals_merge c) simp_all
  show "map_of (report_result job status result actor) ''report_status'' = Some (JString status)"
    "map_of (report_result job status result actor) ''reported_by_actor'' = Some (JString (normalizeActor actor))"
    by (simp_all add: report_result_def Let_def map_of_default map_of_update)
qed

lemma normalize_Inr: "normalizeAgentJobReportResult w job status result actor = Inr r \<Longrightarrow> r = report_result job status result actor"
  by (auto simp: normalizeAgentJobReportResult_def Let_def split: if_splits option.splits)

lemma follow_up_marshals: "marshals (agentJobFollowUpPayload f)"
  by (induction "fu_JobIDs f") (auto simp: agentJobFollowUpPayload_def string_array_def list_all_iff)

lemma follow_up_settled:
  assumes "report_follow_up e rep0 s = (rep, t)" "job_of s (aj_JobID (jr_Job rep0)) = Some job" "aj_Result job = Some r" "marshals r"
  shows "\<exists>job' r'. job_of t (aj_JobID (jr_Job rep0)) = Some job' \<and> aj_Status job' = aj_Status job \<and> aj_Payload job' = aj_Payload job \<and>
     aj_Result job' = Some r' \<and> (\<forall>k. k \<noteq> ''follow_up'' \<longrightarrow> map_of r' k = map_of r k)"
proof -
  let ?j = "aj_JobID (jr_Job rep0)" and ?p = "[(''follow_up'', JObject (agentJobFollowUpPayload (jr_FollowUp rep0)))]"
  obtain x u where x: "applyAgentJobResultPatchLocked e ?j (Some ?p) s = (x, u)" by fastforce
  have t: "t = u" using assms(1) x by (cases x) (simp_all add: report_follow_up_def)
  have pm: "marshals ?p" using follow_up_marshals [of "jr_FollowUp rep0"] by simp
  from applyPatch_cases [OF x] show ?thesis
  proof (elim disjE exE conjE)
    fix cur updated items
    assume cur: "job_of s ?j = Some cur" and items: "sv_agentJob u = items"
      and up: "agentJobStore_update (sv_agentJob s) ?j (aj_Status cur) (aj_Notes cur)
         (Some (merge_patch (case cloneJSONObject (aj_Result cur) of None \<Rightarrow> [] | Some r \<Rightarrow> r)
            (case cloneJSONObject (Some ?p) of None \<Rightarrow> [] | Some p \<Rightarrow> p))) (en_clock e 50) = Inr (updated, items)"
    have c: "cur = job" using cur assms(2) by simp
    let ?m = "merge_patch r ?p"
    have m: "marshals ?m" using assms(4) pm by (rule marshals_merge)
    have up': "agentJobStore_update (sv_agentJob s) ?j (aj_Status job) (aj_Notes job) (Some ?m) (en_clock e 50) = Inr (updated, items)"
      using up clone_Some [OF assms(4)] clone_Some [OF pm] assms(3) by (simp add: c)
    note f = agentJobStore_update_Inr [OF up']
    have "aj_Result updated = Some ?m" using f(4) clone_Some [OF m] by auto
    moreover have "aj_Payload updated = aj_Payload job" using f(4) assms(2) by auto
    moreover have "\<forall>k. k \<noteq> ''follow_up'' \<longrightarrow> map_of ?m k = map_of r k" by (simp add: merge_patch_def map_of_update)
    ultimately show ?thesis using f(2,6) items t by auto
  qed (use assms(2,3) t in auto)
qed

section \<open>Chains under a dispatcher that leaves jobs alone\<close>

locale job_dispatcher =
  fixes dispatch :: dispatcher
  assumes dispatch_kept: "kept {} s (snd (dispatch i j s))"
begin

lemma chain_dispatch_kept: "kept X s (snd (chain_dispatch dispatch i rule what child result s))"
proof -
  have "kept {} s t" if "dispatch i child s = (x, t)" for x t using dispatch_kept [of s i child] that by simp
  then have "kept {} s (snd (chain_dispatch dispatch i rule what child result s))"
    by (auto simp: chain_dispatch_def split: prod.splits option.splits)
  then show ?thesis by (rule kept_mono) simp
qed

lemma chain_rule_kept: "kept X s (snd (chain_rule e dispatch i parent rule result s))"
proof -
  let ?child = "chainedAgentJob (en_clock e 49) parent rule"
  obtain r s1 where c: "CreateAgentJob e ?child s = (r, s1)" by fastforce
  have k1: "kept X s s1" using CreateAgentJob_kept [of X s e ?child] c by simp
  have "kept X s (snd (chain_dispatch dispatch i rule what child res s1))" for what child res
    using k1 chain_dispatch_kept by (rule kept_trans)
  then show ?thesis using c k1 by (cases r) (simp_all add: chain_rule_def Let_def split: option.splits)
qed

lemma apply_rules_kept: "kept X s (snd (apply_rules es dispatch i parent rules result s))"
proof (induction rules arbitrary: i result s)
  case (Cons rule rules)
  obtain x res t where c: "chain_rule (es i) dispatch i parent rule result s = ((x, res), t)" by (metis surj_pair)
  have "kept X s t" using chain_rule_kept [of X s "es i" i parent rule result] c by simp
  moreover have "kept X t (snd (apply_rules es dispatch (Suc i) parent rules res t))" by (rule Cons)
  ultimately have "kept X s (snd (apply_rules es dispatch (Suc i) parent rules res t))" by (rule kept_trans)
  then show ?case using Cons [of s "Suc i" result] c \<open>kept X s t\<close> by (cases x) simp_all
qed simp

lemma chain_kept: "kept X s (snd (ApplyAgentJobChain w es dispatch parent s))"
  using apply_rules_kept by (simp add: ApplyAgentJobChain_def split: sum.splits option.splits)

lemma report_chain_kept: "kept X s (snd (report_chain w es dispatch job s))"
proof -
  obtain x c t where c: "ApplyAgentJobChain w (\<lambda>i. es (5 + i)) dispatch job s = ((x, c), t)" by (metis surj_pair)
  have "kept X s t" using chain_kept [of X s w "\<lambda>i. es (5 + i)" job] c by simp
  then have "kept X s (recordAutomationWarning e item t)" for e item
    using kept_trans [OF _ kept_core [of "warn_locked e 0 item t" t]] by (simp add: recordAutomationWarning_def)
  then show ?thesis using \<open>kept X s t\<close> c by (cases x) (simp_all add: report_chain_def)
qed

lemma report_follow_up_kept: "kept {aj_JobID (jr_Job rep)} s (snd (report_follow_up e rep s))"
proof -
  have "kept {aj_JobID (jr_Job rep)} s t" if "applyAgentJobResultPatchLocked e (aj_JobID (jr_Job rep)) p s = (x, t)" for p x t
    using applyPatch_kept [of "aj_JobID (jr_Job rep)" s e p] that by simp
  then show ?thesis by (auto simp: report_follow_up_def split: prod.splits sum.splits)
qed

lemma report_stages_kept:
  assumes "report_capitalize w e1 updated ev s1 = ((entry, w1), s2)" "report_observe U e2 updated ev s2 = (w2, s3)"
    "report_chain w es dispatch updated s3 = ((chain, w3), s4)"
  shows "kept X s1 s4"
proof -
  have "kept X s1 s2" "kept X s2 s3"
    using report_capitalize_jobs [of w e1 updated ev s1] report_observe_jobs [of U e2 updated ev s2] assms(1,2)
    by (simp_all add: kept_same)
  moreover have "kept X s3 s4" using report_chain_kept [of X s3 w es updated] assms(3) by simp
  ultimately show ?thesis using kept_trans by blast
qed

lemma report_kept: "kept {jobID} s (snd (ReportAgentJob w U es dispatch jobID status nts result s))"
proof (cases "ReportAgentJob w U es dispatch jobID status nts result s")
  case (Pair x t)
  show ?thesis
  proof (cases x)
    case (Inl err)
    from ReportAgentJob_Inl [OF Pair [unfolded Inl]] have "kept {jobID} s t"
    proof (elim disjE exE)
      fix r assume "updateAgentJobLocked (es 0) jobID status nts (Some r) (''agent_job.'' @ status) s = (Inl err, t)"
      then show ?thesis using updateAgentJobLocked_kept [of jobID s "es 0" status nts "Some r" "''agent_job.'' @ status"] by simp
    qed simp
    then show ?thesis using Pair by simp
  next
    case (Inr rep)
    from Pair [unfolded Inr] obtain current r updated ev s1 s2 s3 s4 entry w1 w2 chain w3 rep0 where
      u: "updateAgentJobLocked (es 0) jobID status nts (Some r) (''agent_job.'' @ status) s = (Inr (updated, ev), s1)"
      and c: "report_capitalize w (es 1) updated ev s1 = ((entry, w1), s2)" "report_observe U (es 2) updated ev s2 = (w2, s3)"
        "report_chain w es dispatch updated s3 = ((chain, w3), s4)"
      and rep0: "rep0 = \<lparr>jr_Job = updated, jr_Event = ev, jr_FollowUp = buildAgentJobReportFollowUp updated (w1 @ w2 @ w3) chain,
         jr_Capitalization = entry, jr_Chain = chain, jr_Warnings = w1 @ w2 @ w3\<rparr>"
      and f: "report_follow_up (es 4) rep0 s4 = (rep, t)" by (rule ReportAgentJob_Inr)
    have "kept {jobID} s s1"
      using updateAgentJobLocked_kept [of jobID s "es 0" status nts "Some r" "''agent_job.'' @ status"] u by simp
    moreover have "kept {jobID} s1 s4" by (rule report_stages_kept [OF c])
    moreover have "aj_JobID (jr_Job rep0) = jobID"
      using updateAgentJobLocked_cases [OF u] agentJobStore_update_Inr(1) rep0 by fastforce
    then have "kept {jobID} s4 t" using report_follow_up_kept [of rep0 s4 "es 4"] f by simp
    ultimately show ?thesis using Pair kept_trans by (metis snd_conv)
  qed
qed

text \<open>A report of success or cancellation stands, with the result it was checked with, when the report is done.\<close>

lemma report_stored:
  assumes "ReportAgentJob w U es dispatch jobID status nts result s = (Inr rep, t)" "status \<noteq> ''failed''"
  shows "\<exists>current r job r'. job_of s jobID = Some current \<and>
    normalizeAgentJobReportResult w current status result (currentActor (es 0) s) = Inr r \<and>
    job_of t jobID = Some job \<and> aj_Status job = status \<and> aj_Payload job = aj_Payload current \<and>
    aj_Result job = Some r' \<and> (\<forall>k. k \<noteq> ''follow_up'' \<longrightarrow> map_of r' k = map_of r k)"
proof -
  from assms(1) obtain current r updated ev s1 s2 s3 s4 entry w1 w2 chain w3 rep0 where
    v: "validAgentJobTerminalStatus status" and cur: "job_of s jobID = Some current" and n: "normalizeAgentJobReportResult w current status result (currentActor (es 0) s) = Inr r"
    and u: "updateAgentJobLocked (es 0) jobID status nts (Some r) (''agent_job.'' @ status) s = (Inr (updated, ev), s1)"
    and c: "report_capitalize w (es 1) updated ev s1 = ((entry, w1), s2)" "report_observe U (es 2) updated ev s2 = (w2, s3)"
      "report_chain w es dispatch updated s3 = ((chain, w3), s4)"
    and rep0: "rep0 = \<lparr>jr_Job = updated, jr_Event = ev, jr_FollowUp = buildAgentJobReportFollowUp updated (w1 @ w2 @ w3) chain,
       jr_Capitalization = entry, jr_Chain = chain, jr_Warnings = w1 @ w2 @ w3\<rparr>"
    and f: "report_follow_up (es 4) rep0 s4 = (rep, t)" by (rule ReportAgentJob_Inr)
  note r = normalize_Inr [OF n]
  have m: "marshals r" using report_result_facts(1) r by simp
  from updateAgentJobLocked_cases [OF u] obtain items where
    i: "agentJobStore_update (sv_agentJob s) jobID status nts (Some r) (en_clock (es 0) 50) = Inr (updated, items)"
       "core s1 = core (s\<lparr>sv_agentJob := items\<rparr>)" by auto
  note up = agentJobStore_update_Inr [OF i(1)]
  have res: "aj_Result updated = Some r" using up(4) clone_Some [OF m] by auto
  have "job_of s1 jobID = Some updated" using up(6) jobs_core [OF i(2)] by simp
  moreover have "\<not> waiting updated" using v assms(2) up(2) by (auto simp: waiting_def validAgentJobTerminalStatus_def)
  ultimately have s4: "job_of s4 jobID = Some updated" using report_stages_kept [OF c, of "{}"] by (auto simp: kept_def)
  have j: "aj_JobID (jr_Job rep0) = jobID" using up(1) rep0 by simp
  have "aj_Payload updated = aj_Payload current" using up(4) cur by auto
  with follow_up_settled [OF f _ res m] s4 j up(2) n cur show ?thesis by fastforce
qed

lemma report_settles:
  assumes "ReportAgentJob w U es dispatch jobID status nts result s = (Inr rep, t)" "status \<noteq> ''failed''"
  shows "\<exists>job r. job_of t jobID = Some job \<and> aj_Status job = status \<and> aj_Result job = Some r \<and>
    map_of r ''report_status'' = Some (JString status) \<and>
    map_of r ''reported_by_actor'' = Some (JString (normalizeActor (currentActor (es 0) s)))"
  using report_stored [OF assms] report_result_facts(2,3) normalize_Inr by fastforce

end

end
