(* ===== verification/Job_Dispatch_Props.thy ===== *)
theory Job_Dispatch_Props
  imports Job_Dispatch Service_Report_Props
begin

text \<open>
  What a dispatch changes. The chained dispatch of any depth is a dispatcher in the sense of the locale
  \<open>job_dispatcher\<close>, so a report keeps its verdict through the automation it starts; a dispatch answers with
  the first stored gateway call of the job; a job that is not text-native is never closed by a dispatch.
\<close>

section \<open>Outcomes of the shared steps\<close>

lemma event_or_out:
  assumes "\<And>err. R (Inl err, undo s)" "\<And>es. R (k (s\<lparr>sv_event := es\<rparr>))"
  shows "R (event_or ev undo k s)"
  using assms by (simp add: event_or_def split: sum.splits)

lemma persist_or_out:
  assumes "\<And>err t. core t = core s \<Longrightarrow> R (Inl err, undo t)" "\<And>t. core t = core s \<Longrightarrow> R (Inr x, t)"
  shows "R (persist_or e undo x s)"
proof (cases "persistLocked e s")
  case (Pair r t)
  have "core t = core s" using persistLocked_frame(1) [OF Pair] .
  then show ?thesis using assms Pair by (simp add: persist_or_def split: option.splits)
qed

lemma suggest_or_out:
  assumes "\<And>err t. core t = core s \<Longrightarrow> R (Inl err, undo t)" "\<And>t. core t = core s \<Longrightarrow> R (k t)"
  shows "R (suggest_or e n sug undo k s)"
proof (cases sug)
  case (Some i)
  obtain r t where t: "autoOpenReviewRoomItemLocked e n i s = (r, t)" by fastforce
  have "core t = core s" using autoOpen_core [of e n i s] t by simp
  then show ?thesis using assms t Some by (cases r) (simp_all add: suggest_or_def room_or_def)
qed (use assms(2) [of s] in \<open>simp add: suggest_or_def\<close>)

section \<open>Jobs and calls\<close>

text \<open>Jobs are the same, and a value was returned only with one more gateway call.\<close>

definition one_call :: "Service \<Rightarrow> 'a outcome \<Rightarrow> bool" where
  "one_call s out \<longleftrightarrow> sv_agentJob (snd out) = sv_agentJob s \<and>
     (case fst out of Inl _ \<Rightarrow> sv_gateway (snd out) = sv_gateway s | Inr _ \<Rightarrow> \<exists>c. sv_gateway (snd out) = sv_gateway s @ [c])"

lemma one_call_error: "sv_agentJob t = sv_agentJob s \<Longrightarrow> sv_gateway t = sv_gateway s \<Longrightarrow> one_call s (Inl err, t)"
  by (simp add: one_call_def)

lemma core_job_call:
  assumes "core t = core u"
  shows "sv_agentJob t = sv_agentJob u" "sv_gateway t = sv_gateway u"
  using core_eqD(5,17) [OF assms] .

lemma createGatewayCall_one:
  "one_call s (createGatewayCallWithPayload e item ad payload s)"
proof -
  have run: "one_call s (event_or ev0 undo
        (\<lambda>t. if sent then event_or (evs t) undo_event
               (\<lambda>t. if failed then event_or (evf t) undo_event (suggest_or e 3 sug undo_all (persist_or e undo_all ())) t
                    else persist_or e undo_all () t) t
             else (if failed then event_or (evf t) undo_event (suggest_or e 3 sug undo_all (persist_or e undo_all ())) t
                   else persist_or e undo_all () t)) (s\<lparr>sv_gateway := sv_gateway s @ [c]\<rparr>))"
    if "undo = (\<lambda>t. t\<lparr>sv_gateway := sv_gateway s\<rparr>)" "undo_event = (\<lambda>t. restore_event e (sv_event s) (undo t))"
      "undo_all = (\<lambda>t. restore_room e (sv_reviewRoom s) (undo_event t))"
    for ev0 evs evf undo undo_event undo_all sent failed sug c
  proof -
    let ?new = "\<lambda>t. sv_agentJob t = sv_agentJob s \<and> sv_gateway t = sv_gateway s @ [c]"
    have u: "one_call s ((Inl err, undo t) :: unit outcome)" "one_call s ((Inl err, undo_event t) :: unit outcome)"
      "one_call s ((Inl err, undo_all t) :: unit outcome)"
      if "?new t" for err t
      using that \<open>undo = _\<close> \<open>undo_event = _\<close> \<open>undo_all = _\<close>
      by (simp_all add: one_call_def restore_event_def restore_room_def)
    have p: "one_call s (persist_or e undo_all () t)" if n: "?new t" for t
    proof (rule persist_or_out)
      fix err and u :: Service assume "core u = core t"
      then have "?new u" using core_job_call [of u t] n by simp
      then show "one_call s ((Inl err, undo_all u) :: unit outcome)" by (rule u(3))
    next
      fix u :: Service assume "core u = core t"
      then show "one_call s (Inr (), u)" using core_job_call [of u t] n by (simp add: one_call_def)
    qed
    have g: "one_call s (suggest_or e 3 sug undo_all (persist_or e undo_all ()) t)" if n: "?new t" for t
    proof (rule suggest_or_out)
      fix err and v :: Service assume "core v = core t"
      then have "?new v" using core_job_call [of v t] n by simp
      then show "one_call s ((Inl err, undo_all v) :: unit outcome)" by (rule u(3))
    next
      fix v :: Service assume "core v = core t"
      then have "?new v" using core_job_call [of v t] n by simp
      then show "one_call s (persist_or e undo_all () v)" by (rule p)
    qed
    have f: "one_call s (event_or (evf t) undo_event (suggest_or e 3 sug undo_all (persist_or e undo_all ())) t)" if n: "?new t" for t
      by (rule event_or_out) (use u(2) [OF n] g n in simp_all)
    have h: "one_call s (event_or (evs t) undo_event
               (\<lambda>t. if failed then event_or (evf t) undo_event (suggest_or e 3 sug undo_all (persist_or e undo_all ())) t
                    else persist_or e undo_all () t) t)" if n: "?new t" for t
      by (rule event_or_out) (use u(2) [OF n] f p n in simp_all)
    show ?thesis by (rule event_or_out) (use u(1) f p h in simp_all)
  qed
  show ?thesis
  proof (cases "policyStore_get (sv_policy s) (gc_DecisionID item)")
    case None
    then show ?thesis by (simp add: createGatewayCallWithPayload_def one_call_def)
  next
    case (Some d)
    show ?thesis
      unfolding createGatewayCallWithPayload_def Some option.case Let_def gatewayStore_create_def append_valid_def
      using run [OF refl refl refl] by (auto split: sum.splits option.splits intro!: one_call_error)
  qed
qed

lemma dispatchGatewayCall_jobs: "sv_agentJob (snd (dispatchGatewayCall e call ad payload s)) = sv_agentJob s"
  using createGatewayCall_one [of s e call ad payload]
  by (auto simp: dispatchGatewayCall_def one_call_def split: prod.splits sum.splits option.splits)

lemma dispatchGatewayCall_Inr:
  assumes "dispatchGatewayCall e call ad payload s = (Inr gateway, t)"
  shows "gatewayStore_get (sv_gateway t) (gc_CallID call) = Some gateway" "\<exists>c. sv_gateway t = sv_gateway s @ [c]"
  using assms createGatewayCall_one [of s e call ad payload]
  by (auto simp: dispatchGatewayCall_def one_call_def split: prod.splits sum.splits option.splits)

lemma council_calls_jobs: "sv_agentJob (snd (council_calls w es job d primary payload idx ps s)) = sv_agentJob s"
proof (induction ps arbitrary: idx s)
  case (Cons p ps)
  obtain x t where x: "dispatchGatewayCall (es [3, idx]) (council_call w (es [3, idx]) job d primary idx p)
      (gateway_adapter_of (dw_gateway w) (newMultiProviderAdapter (dw_adapter w))) payload s = (x, t)" by fastforce
  have t: "sv_agentJob t = sv_agentJob s" using dispatchGatewayCall_jobs x by (metis snd_conv)
  obtain y u where y: "council_calls w es job d primary payload (Suc idx) ps t = (y, u)" by fastforce
  have "sv_agentJob u = sv_agentJob t" using Cons [of "Suc idx" t] y by simp
  then show ?case using x y t by (cases x; cases y) simp_all
qed simp

lemma run_gateway_jobs: "sv_agentJob (snd (run_gateway w es p actor job policy payload s)) = sv_agentJob s"
proof (cases "pl_council p")
  case None
  obtain x t where x: "dispatchGatewayCall (es [2]) (single_call (es [2]) p policy payload job) (packetAdapter w p) payload s = (x, t)"
    by fastforce
  have "sv_agentJob t = sv_agentJob s" using dispatchGatewayCall_jobs x by (metis snd_conv)
  then show ?thesis using None x by (cases x) (simp_all add: run_gateway_def)
next
  case (Some council)
  obtain x t where x: "council_calls w es job policy (ac_PrimaryProvider council) payload 0 (ac_Providers council) s = (x, t)" by fastforce
  have "sv_agentJob t = sv_agentJob s" using council_calls_jobs x by (metis snd_conv)
  then show ?thesis using Some x
    by (cases x) (auto simp: run_gateway_def dispatchAgentJobCouncil_def split: sum.splits)
qed

lemma job_policy_frame:
  "sv_agentJob (snd (job_policy e job s)) = sv_agentJob s" "sv_gateway (snd (job_policy e job s)) = sv_gateway s"
proof -
  let ?P = "\<lambda>t. sv_agentJob t = sv_agentJob s \<and> sv_gateway t = sv_gateway s"
  have run: "?P (snd (event_or ev undo (persist_or e (\<lambda>t. restore_event e (sv_event s) (undo t)) ()) (s\<lparr>sv_policy := items\<rparr>)))"
    if "undo = (\<lambda>t. t\<lparr>sv_policy := newPolicyStore (sv_policy s)\<rparr>)" for ev undo items
  proof (rule event_or_keeps)
    show "?P (undo (s\<lparr>sv_policy := items\<rparr>))" using that by simp
    fix es
    show "?P (snd (persist_or e (\<lambda>t. restore_event e (sv_event s) (undo t)) () (s\<lparr>sv_policy := items, sv_event := es\<rparr>)))"
    proof (rule persist_or_keeps)
      fix t assume "core t = core (s\<lparr>sv_policy := items, sv_event := es\<rparr>)"
      from core_job_call [OF this] show "?P t" "?P (restore_event e (sv_event s) (undo t))"
        using that by (simp_all add: restore_event_def)
    qed
  qed
  have "?P (snd (CreatePolicy e item s))" for item
    using run [OF refl] by (simp add: CreatePolicy_def Let_def split: sum.splits)
  then have c: "?P t" if "CreatePolicy e item s = (x, t)" for item x t using that by (metis snd_conv)
  have "?P (snd (job_policy e job s))"
    unfolding job_policy_def EvaluatePolicy_def Let_def using c by (simp split: prod.splits sum.splits)
  then show "sv_agentJob (snd (job_policy e job s)) = sv_agentJob s" "sv_gateway (snd (job_policy e job s)) = sv_gateway s"
    by simp_all
qed

lemma UpdateAgentJob_kept: "kept {jobID} s (snd (UpdateAgentJob e jobID status nts result s))"
  using updateAgentJobLocked_kept [of jobID s e status nts result "''agent_job.updated''"]
  by (auto simp: UpdateAgentJob_def split: prod.splits sum.splits)

lemma UpdateAgentJob_Inr:
  assumes "UpdateAgentJob e jobID status nts result s = (Inr updated, t)"
  shows "\<exists>items. agentJobStore_update (sv_agentJob s) jobID status nts result (en_clock e 50) = Inr (updated, items) \<and>
     core t = core (s\<lparr>sv_agentJob := items\<rparr>)"
proof -
  obtain ev where "updateAgentJobLocked e jobID status nts result ''agent_job.updated'' s = (Inr (updated, ev), t)"
    using assms by (auto simp: UpdateAgentJob_def split: prod.splits sum.splits)
  from updateAgentJobLocked_cases [OF this] show ?thesis by auto
qed

section \<open>The steps of a dispatch\<close>

lemma dispatch_steps_kept: "kept {} s (snd (dispatch_steps w es jobID s))"
proof (cases "job_of s jobID")
  case None
  then show ?thesis by (simp add: dispatch_steps_def agentJobStore_get_def)
next
  case (Some job)
  show ?thesis
  proof (cases "waiting job")
    case False
    then show ?thesis using Some by (simp add: dispatch_steps_def agentJobStore_get_def waiting_def)
  next
    case True
    let ?p = "plan_dispatch w (es [0]) job" and ?actor = "currentActor (es [0]) s"
    obtain x1 s1 where u1: "UpdateAgentJob (es [0]) jobID ''running'' (Some (appendUniqueString (elems (aj_Notes job)) ''dispatching''))
        (Some (start_result_data ?p ?actor)) s = (x1, s1)" by fastforce
    have k1: "kept {jobID} s s1" using UpdateAgentJob_kept u1 by (metis snd_conv)
    have rest: "kept {jobID} s (snd (case job_policy (es [1]) updated s1 of (Inl err, s2) \<Rightarrow> (Inl err, s2) | (Inr policy, s2) \<Rightarrow>
      case transport_payload w ?p (aj_JobID updated) s2 of Inl err \<Rightarrow> (Inl err, s2) | Inr payload \<Rightarrow>
      case run_gateway w es ?p ?actor updated policy payload s2 of (Inl err, s3) \<Rightarrow> (Inl err, s3) | (Inr (gateway, result0), s3) \<Rightarrow>
      case dispatch_outcome ?p updated gateway result0 of (status, notes, result) \<Rightarrow>
      case UpdateAgentJob (es [4]) jobID status (Some notes) (Some result) s3 of
        (Inl err, s4) \<Rightarrow> (Inl err, s4)
      | (Inr final, s4) \<Rightarrow> (Inr (final, policy, gateway, result), s4)))" for updated
    proof -
      obtain x2 s2 where p2: "job_policy (es [1]) updated s1 = (x2, s2)" by fastforce
      have k2: "kept {jobID} s s2" using k1 kept_same [of s2 s1] job_policy_frame(1) [of "es [1]" updated s1] p2 by (auto intro: kept_trans)
      show ?thesis
      proof (cases x2)
        case (Inl err)
        then show ?thesis using p2 k2 by simp
      next
        case x2: (Inr policy)
        show ?thesis
        proof (cases "transport_payload w ?p (aj_JobID updated) s2")
          case (Inl err)
          then show ?thesis using p2 k2 x2 by simp
        next
          case tp: (Inr payload)
          obtain x3 s3 where r3: "run_gateway w es ?p ?actor updated policy payload s2 = (x3, s3)" by fastforce
          have k3: "kept {jobID} s s3"
            using k2 kept_same [of s3 s2] run_gateway_jobs [of w es ?p ?actor updated policy payload s2] r3 by (auto intro: kept_trans)
          show ?thesis
          proof (cases x3)
            case (Inl err)
            then show ?thesis using p2 k3 x2 tp r3 by simp
          next
            case x3: (Inr g)
            obtain gateway result0 where g: "g = (gateway, result0)" by fastforce
            obtain status nts result where o: "dispatch_outcome ?p updated gateway result0 = (status, nts, result)" by (metis surj_pair)
            obtain x4 s4 where u4: "UpdateAgentJob (es [4]) jobID status (Some nts) (Some result) s3 = (x4, s4)" by fastforce
            have "kept {jobID} s3 s4" using UpdateAgentJob_kept u4 by (metis snd_conv)
            then have "kept {jobID} s s4" using k3 kept_trans by blast
            then show ?thesis using p2 x2 tp r3 x3 g o u4 by (cases x4) simp_all
          qed
        qed
      qed
    qed
    have "kept {jobID} s (snd (dispatch_steps w es jobID s))"
      using Some True u1 k1 rest by (cases x1) (simp_all add: dispatch_steps_def agentJobStore_get_def waiting_def Let_def)
    then show ?thesis using Some True by (rule kept_waiting)
  qed
qed

lemma notify_core [simp]: "core (notify_dispatch w e job gateway s) = core s"
  by (simp add: notify_dispatch_def recordAutomationWarning_def split: option.splits)

section \<open>Every dispatch leaves settled jobs alone\<close>

definition chained_dispatch :: "nat \<Rightarrow> dispatch_world \<Rightarrow> (nat list \<Rightarrow> env) \<Rightarrow> dispatcher" where
  "chained_dispatch fuel w es i childID s =
     (case DispatchAgentJob fuel w (\<lambda>path. es (7 # i # path)) childID s of (Inl err, t) \<Rightarrow> (Some err, t) | (Inr _, t) \<Rightarrow> (None, t))"

lemma snd_chained: "snd (chained_dispatch fuel w es i j s) = snd (DispatchAgentJob fuel w (\<lambda>path. es (7 # i # path)) j s)"
  by (simp add: chained_dispatch_def split: prod.splits sum.splits)

lemma DispatchAgentJob_Suc:
  "DispatchAgentJob (Suc fuel) w es jobID s =
     (case dispatch_steps w es jobID s of
        (Inl err, t) \<Rightarrow> (Inl err, t)
      | (Inr (final, policy, gateway, result), t) \<Rightarrow>
          let t1 = notify_dispatch w (es [5]) final gateway t;
              done = (\<lambda>job. Inr \<lparr>ad_Job = job, ad_Policy = policy, ad_Gateway = gateway\<rparr>) in
          if jobAllowsDirectLLMAutoClose final gateway
          then (case ReportAgentJob (dw_report w) (dw_parseURL w) (\<lambda>k. es [6, k]) (chained_dispatch fuel w es) jobID ''succeeded''
                       (Some (appendUniqueString (elems (aj_Notes final)) ''auto_closed''))
                       (Some (auto_close_result final gateway result)) t1 of
                  (Inl _, u) \<Rightarrow> (done final, u)
                | (Inr report, u) \<Rightarrow> (done (jr_Job report), u))
          else (done final, t1))"
proof -
  have "(\<lambda>i childID u. case DispatchAgentJob fuel w (\<lambda>path. es (7 # i # path)) childID u of
           (Inl err, v) \<Rightarrow> (Some err, v) | (Inr _, v) \<Rightarrow> (None, v)) = chained_dispatch fuel w es"
    by (intro ext) (simp add: chained_dispatch_def)
  note chained = this
  show ?thesis unfolding DispatchAgentJob.simps(2) Let_def chained ..
qed

lemma DispatchAgentJob_kept: "kept {} s (snd (DispatchAgentJob fuel w es jobID s))"
proof (induction fuel arbitrary: es jobID s)
  case (Suc fuel)
  have d: "job_dispatcher (chained_dispatch fuel w es)"
    by unfold_locales (simp add: snd_chained Suc)
  obtain x t where x: "dispatch_steps w es jobID s = (x, t)" by fastforce
  have t: "kept {} s t" using dispatch_steps_kept [of s w es jobID] x by simp
  show ?case
  proof (cases x)
    case (Inl err)
    then show ?thesis using x t by (simp add: DispatchAgentJob_Suc del: DispatchAgentJob.simps)
  next
    case (Inr r)
    obtain final policy gateway result where r: "r = (final, policy, gateway, result)" by (metis surj_pair)
    let ?t1 = "notify_dispatch w (es [5]) final gateway t"
    have t1: "kept {} s ?t1" using t kept_core [of ?t1 t] by (auto intro: kept_trans)
    let ?rep = "ReportAgentJob (dw_report w) (dw_parseURL w) (\<lambda>k. es [6, k]) (chained_dispatch fuel w es) jobID ''succeeded''
        (Some (appendUniqueString (elems (aj_Notes final)) ''auto_closed'')) (Some (auto_close_result final gateway result)) ?t1"
    obtain y u where y: "?rep = (y, u)" by fastforce
    have "kept {jobID} ?t1 u" using job_dispatcher.report_kept [OF d] y by (metis snd_conv)
    moreover obtain job where job: "job_of s jobID = Some job" "waiting job"
      using x Inr by (auto simp: dispatch_steps_def agentJobStore_get_def waiting_def split: option.splits if_splits)
    ultimately have u: "kept {} s u" using kept_mono [OF t1, of "{jobID}"] kept_waiting [OF kept_trans] by blast
    show ?thesis using x Inr r t1 u y
      by (cases y) (simp_all add: DispatchAgentJob_Suc Let_def del: DispatchAgentJob.simps)
  qed
qed simp

interpretation chained: job_dispatcher "chained_dispatch fuel w es" for fuel w es
  by unfold_locales (simp add: snd_chained DispatchAgentJob_kept)

section \<open>What a dispatch answers\<close>

lemma dispatch_steps_Inr:
  assumes "dispatch_steps w es jobID s = (Inr (final, policy, gateway, result), t)"
  obtains job p updated s1 s2 s3 payload result0 status nts where
    "job_of s jobID = Some job" "waiting job" "p = plan_dispatch w (es [0]) job"
    "UpdateAgentJob (es [0]) jobID ''running'' (Some (appendUniqueString (elems (aj_Notes job)) ''dispatching''))
       (Some (start_result_data p (currentActor (es [0]) s))) s = (Inr updated, s1)"
    "job_policy (es [1]) updated s1 = (Inr policy, s2)" "transport_payload w p (aj_JobID updated) s2 = Inr payload"
    "run_gateway w es p (currentActor (es [0]) s) updated policy payload s2 = (Inr (gateway, result0), s3)"
    "dispatch_outcome p updated gateway result0 = (status, nts, result)"
    "UpdateAgentJob (es [4]) jobID status (Some nts) (Some result) s3 = (Inr final, t)"
proof -
  obtain job where job: "job_of s jobID = Some job" "waiting job"
    using assms by (auto simp: dispatch_steps_def agentJobStore_get_def waiting_def split: option.splits if_splits)
  let ?p = "plan_dispatch w (es [0]) job" and ?actor = "currentActor (es [0]) s"
  obtain x1 s1 where u1: "UpdateAgentJob (es [0]) jobID ''running'' (Some (appendUniqueString (elems (aj_Notes job)) ''dispatching''))
        (Some (start_result_data ?p ?actor)) s = (x1, s1)" by fastforce
  have run: "(case x1 of Inl err \<Rightarrow> (Inl err, s1) | Inr updated \<Rightarrow>
      case job_policy (es [1]) updated s1 of (Inl err, s2) \<Rightarrow> (Inl err, s2) | (Inr policy, s2) \<Rightarrow>
      case transport_payload w ?p (aj_JobID updated) s2 of Inl err \<Rightarrow> (Inl err, s2) | Inr payload \<Rightarrow>
      case run_gateway w es ?p ?actor updated policy payload s2 of (Inl err, s3) \<Rightarrow> (Inl err, s3) | (Inr (gateway, result0), s3) \<Rightarrow>
      case dispatch_outcome ?p updated gateway result0 of (status, notes, result) \<Rightarrow>
      case UpdateAgentJob (es [4]) jobID status (Some notes) (Some result) s3 of
        (Inl err, s4) \<Rightarrow> (Inl err, s4)
      | (Inr final, s4) \<Rightarrow> (Inr (final, policy, gateway, result), s4)) = (Inr (final, policy, gateway, result), t)"
    using assms job u1 by (cases x1) (auto simp: dispatch_steps_def agentJobStore_get_def waiting_def Let_def split: if_splits)
  obtain updated where x1: "x1 = Inr updated" using run by (cases x1) auto
  obtain x2 s2 where p2: "job_policy (es [1]) updated s1 = (x2, s2)" by fastforce
  obtain policy' where x2: "x2 = Inr policy'" using run x1 p2 by (cases x2) auto
  obtain payload where tp: "transport_payload w ?p (aj_JobID updated) s2 = Inr payload" using run x1 p2 x2
    by (cases "transport_payload w ?p (aj_JobID updated) s2") auto
  obtain x3 s3 where r3: "run_gateway w es ?p ?actor updated policy' payload s2 = (x3, s3)" by fastforce
  obtain gateway' result0 where x3: "x3 = Inr (gateway', result0)" using run x1 p2 x2 tp r3 by (cases x3) auto
  obtain status nts result' where o: "dispatch_outcome ?p updated gateway' result0 = (status, nts, result')" by (metis surj_pair)
  obtain x4 s4 where u4: "UpdateAgentJob (es [4]) jobID status (Some nts) (Some result') s3 = (x4, s4)" by fastforce
  have f: "x4 = Inr final" "policy' = policy" "gateway' = gateway" "result' = result" "s4 = t"
    using run x1 p2 x2 tp r3 x3 o u4 by (cases x4; simp)+
  show thesis using that [OF job refl, of updated s1 s2 payload result0 s3 status nts] u1 x1 p2 x2 tp r3 x3 o u4 f by simp
qed

text \<open>The outcome is stored as it is computed from the gateway call that was read back.\<close>

lemma dispatch_status:
  assumes "dispatch_steps w es jobID s = (Inr (final, policy, gateway, result), t)"
  shows "aj_Status final = (if gc_Status gateway = ''failed'' then ''failed'' else ''running'')"
    "\<exists>job. job_of s jobID = Some job \<and> aj_Role final = aj_Role job" "job_of t jobID = Some final"
proof -
  from assms obtain job p updated s1 s2 s3 payload result0 status nts where
    j: "job_of s jobID = Some job" and
    u1: "UpdateAgentJob (es [0]) jobID ''running'' (Some (appendUniqueString (elems (aj_Notes job)) ''dispatching''))
       (Some (start_result_data p (currentActor (es [0]) s))) s = (Inr updated, s1)"
    and p2: "job_policy (es [1]) updated s1 = (Inr policy, s2)"
    and r3: "run_gateway w es p (currentActor (es [0]) s) updated policy payload s2 = (Inr (gateway, result0), s3)"
    and o: "dispatch_outcome p updated gateway result0 = (status, nts, result)"
    and u4: "UpdateAgentJob (es [4]) jobID status (Some nts) (Some result) s3 = (Inr final, t)"
    by (rule dispatch_steps_Inr)
  from UpdateAgentJob_Inr [OF u1] obtain i1 where i1: "agentJobStore_update (sv_agentJob s) jobID ''running''
       (Some (appendUniqueString (elems (aj_Notes job)) ''dispatching'')) (Some (start_result_data p (currentActor (es [0]) s)))
       (en_clock (es [0]) 50) = Inr (updated, i1)" "core s1 = core (s\<lparr>sv_agentJob := i1\<rparr>)" by blast
  from UpdateAgentJob_Inr [OF u4] obtain i4 where i4: "agentJobStore_update (sv_agentJob s3) jobID status (Some nts) (Some result)
       (en_clock (es [4]) 50) = Inr (final, i4)" "core t = core (s3\<lparr>sv_agentJob := i4\<rparr>)" by blast
  note a1 = agentJobStore_update_Inr [OF i1(1)] and a4 = agentJobStore_update_Inr [OF i4(1)]
  have "sv_agentJob s3 = i1"
    using run_gateway_jobs [of w es p "currentActor (es [0]) s" updated policy payload s2] r3 job_policy_frame(1) [of "es [1]" updated s1] p2
      jobs_core [OF i1(2)] by simp
  then have "lookup aj_JobID jobID (sv_agentJob s3) = Some updated" using a1(6) by simp
  then have "aj_Role final = aj_Role updated" using a4(4) by auto
  moreover have "aj_Role updated = aj_Role job" using a1(4) j by auto
  ultimately show "\<exists>job. job_of s jobID = Some job \<and> aj_Role final = aj_Role job" using j by auto
  have "status = (if gc_Status gateway = ''failed'' then ''failed'' else ''running'')"
    using o by (auto simp: dispatch_outcome_def Let_def split: if_splits)
  then show "aj_Status final = (if gc_Status gateway = ''failed'' then ''failed'' else ''running'')" using a4(2) by simp
  show "job_of t jobID = Some final" using a4(6) jobs_core [OF i4(2)] by simp
qed

text \<open>A dispatch without a council reads back the first call with the identifier of the job.\<close>

lemma dispatch_reads_first_call:
  assumes "dispatch_steps w es jobID s = (Inr (final, policy, gateway, result), t)" "job_of s jobID = Some job"
    "pl_council (plan_dispatch w (es [0]) job) = None" "gatewayStore_get (sv_gateway s) (''gateway_job_'' @ jobID) = Some old"
  shows "gateway = old" "length (sv_gateway t) = Suc (length (sv_gateway s))"
proof -
  from assms(1) obtain job' p updated s1 s2 s3 payload result0 status nts where
    j: "job_of s jobID = Some job'" and p: "p = plan_dispatch w (es [0]) job'" and
    u1: "UpdateAgentJob (es [0]) jobID ''running'' (Some (appendUniqueString (elems (aj_Notes job')) ''dispatching''))
       (Some (start_result_data p (currentActor (es [0]) s))) s = (Inr updated, s1)"
    and p2: "job_policy (es [1]) updated s1 = (Inr policy, s2)"
    and r3: "run_gateway w es p (currentActor (es [0]) s) updated policy payload s2 = (Inr (gateway, result0), s3)"
    and u4: "UpdateAgentJob (es [4]) jobID status (Some nts) (Some result) s3 = (Inr final, t)"
    by (rule dispatch_steps_Inr)
  from UpdateAgentJob_Inr [OF u1] obtain i1 where i1: "agentJobStore_update (sv_agentJob s) jobID ''running''
       (Some (appendUniqueString (elems (aj_Notes job')) ''dispatching'')) (Some (start_result_data p (currentActor (es [0]) s)))
       (en_clock (es [0]) 50) = Inr (updated, i1)" "core s1 = core (s\<lparr>sv_agentJob := i1\<rparr>)" by blast
  from UpdateAgentJob_Inr [OF u4] obtain i4 where i4: "core t = core (s3\<lparr>sv_agentJob := i4\<rparr>)" by blast
  have id: "aj_JobID updated = jobID" using agentJobStore_update_Inr(1) [OF i1(1)] .
  have g2: "sv_gateway s2 = sv_gateway s"
    using job_policy_frame(2) [of "es [1]" updated s1] p2 core_job_call(2) [OF i1(2)] by simp
  have "pl_council p = None" using assms(2,3) j p by simp
  then have d: "dispatchGatewayCall (es [2]) (single_call (es [2]) p policy payload updated) (packetAdapter w p) payload s2 = (Inr gateway, s3)"
    using r3 by (auto simp: run_gateway_def split: prod.splits sum.splits)
  have c: "gc_CallID (single_call (es [2]) p policy payload updated) = ''gateway_job_'' @ jobID"
    by (simp add: single_call_def job_call_def add_note_def id Let_def)
  obtain new where "sv_gateway s3 = sv_gateway s @ [new]" using dispatchGatewayCall_Inr(2) [OF d] g2 by auto
  then show "gateway = old" "length (sv_gateway t) = Suc (length (sv_gateway s))"
    using dispatchGatewayCall_Inr(1) [OF d] c assms(4) core_job_call(2) [OF i4] by (simp_all add: gatewayStore_get_def lookup_append)
qed

end
