(* ===== verification/Gateway_Adapter_Props.thy ===== *)
theory Gateway_Adapter_Props
  imports Gateway_Adapters
begin

text \<open>
  The retry loop of the provider API against what the network answers: which attempts were made, which one
  the call reports, and that nothing is sent to an address the egress policy refuses.
\<close>

definition transient :: "http_world \<Rightarrow> http_request \<Rightarrow> nat \<Rightarrow> bool" where
  "transient h req i \<longleftrightarrow>
     (case hw_send h req i of Inl _ \<Rightarrow> True | Inr (status, _) \<Rightarrow> shouldRetryProviderStatus status)"

definition delivered :: "http_world \<Rightarrow> http_request \<Rightarrow> nat \<Rightarrow> bool" where
  "delivered h req i \<longleftrightarrow> (case hw_send h req i of Inl _ \<Rightarrow> False | Inr (status, _) \<Rightarrow> 200 \<le> status \<and> status < 300)"

definition last_attempt :: "http_world \<Rightarrow> http_request \<Rightarrow> nat \<Rightarrow> nat \<Rightarrow> GatewayCall \<Rightarrow> nat \<Rightarrow> bool" where
  "last_attempt h req a left c k \<longleftrightarrow>
     a \<le> k \<and> k < a + left \<and> gc_AttemptCount c = int k \<and> list_all (transient h req) [a..<k] \<and>
     (Suc k < a + left \<longrightarrow> \<not> transient h req k) \<and>
     gc_Status c = (if delivered h req k then ''sent'' else ''failed'')"

lemma add_note_simps [simp]:
  "gc_AttemptCount (add_note n c) = gc_AttemptCount c" "gc_Status (add_note n c) = gc_Status c"
  by (simp_all add: add_note_def)

lemma set_preview_simps [simp]:
  "gc_AttemptCount (set_preview n c) = gc_AttemptCount c" "gc_Status (set_preview n c) = gc_Status c"
  by (simp_all add: set_preview_def)

lemma last_attempt_here:
  assumes "gc_AttemptCount c = int a" "left = 0 \<or> \<not> transient h req a"
    "gc_Status c = (if delivered h req a then ''sent'' else ''failed'')"
  shows "last_attempt h req a (Suc left) c a"
  using assms by (auto simp: last_attempt_def)

lemma last_attempt_later:
  assumes "last_attempt h req (Suc a) left c k" "transient h req a"
  shows "last_attempt h req a (Suc left) c k"
proof -
  have "[a..<k] = a # [Suc a..<k]"
    using assms(1) by (auto simp: last_attempt_def upt_rec[of a])
  then show ?thesis
    using assms by (auto simp: last_attempt_def)
qed

lemma api_attempts_last:
  assumes "api_attempts h req a (Suc left) call = Inr c"
  shows "\<exists>k. last_attempt h req a (Suc left) c k"
  using assms
proof (induction left arbitrary: a call)
  case 0
  then have "last_attempt h req a (Suc 0) c a"
    by (intro last_attempt_here)
       (auto simp: Let_def delivered_def split: option.splits sum.splits prod.splits if_splits)
  then show ?case ..
next
  case (Suc left)
  from Suc.prems consider
      (again) call' where "api_attempts h req (Suc a) (Suc left) call' = Inr c" "transient h req a"
    | (stop) "gc_AttemptCount c = int a" "\<not> transient h req a" "gc_Status c = (if delivered h req a then ''sent'' else ''failed'')"
    by (subst (asm) api_attempts.simps(2))
       (auto simp: Let_def delivered_def transient_def shouldRetryProviderStatus_def
             simp del: api_attempts.simps split: option.splits sum.splits prod.splits if_splits)
  then show ?case
    using Suc.IH last_attempt_later last_attempt_here by (cases) blast+
qed

lemma api_attempts_Inl:
  assumes "api_attempts h req a left call = Inl err" shows "hw_request h req = Some err"
  using assms
proof (induction left arbitrary: a call)
  case (Suc left)
  show ?case
  proof (cases "hw_request h req")
    case None
    then obtain call' where "api_attempts h req (Suc a) left call' = Inl err"
      using Suc.prems by (auto simp: Let_def split: sum.splits prod.splits if_splits)
    then show ?thesis by (rule Suc.IH)
  qed (use Suc.prems in simp)
qed simp

lemma api_attempts_total:
  assumes "hw_request h req = None" shows "\<exists>c. api_attempts h req a left call = Inr c"
  using assms api_attempts_Inl by (cases "api_attempts h req a left call") fastforce+

definition api_request :: "gateway_world \<Rightarrow> GatewayCall \<Rightarrow> PolicyDecision \<Rightarrow> jobject option \<Rightarrow> string \<Rightarrow> http_request" where
  "api_request g call decision payload endpoint =
     \<lparr>hr_URL = endpoint,
      hr_Headers = [(''Content-Type'', ''application/json''), (''X-Layer-Call-ID'', gc_CallID call)],
      hr_Body = api_request_body call decision payload\<rparr>"

lemma api_dispatch_cases:
  assumes "api_dispatch g call decision payload = Inr c"
  obtains "gc_Status c = ''failed''" "gc_AttemptCount c = 0"
  | endpoint where "validateProviderEndpoint (gw_url g) endpoint = None"
      "map_of (providerEndpointMapFromEnv (gw_getenv g) (gw_url g)) (TrimSpace (gc_Provider call)) = Some endpoint"
      "api_attempts (gw_http g) (api_request g call decision payload endpoint) 1
         (Suc (providerDispatchRetries (gw_getenv g))) call = Inr c"
  using assms
  by (auto simp: api_dispatch_def api_failed_def api_request_def Let_def simp del: api_attempts.simps
           split: option.splits if_splits)

end
