(* ===== verification/Job_Report_Props.thy ===== *)
theory Job_Report_Props
  imports Job_Report
begin

text \<open>
  Job reports: the textual scope test on cleaned paths is containment of element lists, the evidence that
  is collected covers every path a report names, and the paths of an accepted report are in scope.
\<close>

section \<open>Containment\<close>

definition inside :: "string \<Rightarrow> string \<Rightarrow> bool" where
  "inside d p \<longleftrightarrow> (let v = TrimSpace d in
     v \<noteq> '''' \<and> (IsAbs v \<or> path_elements v \<noteq> []) \<and> IsAbs v = IsAbs p \<and> prefix (path_elements v) (path_elements p))"

lemma elements_ok: "list_all element (path_elements p)"
  using path_elements_clean [of p] by (simp add: clean_list_def)

lemma join_not_dot: "list_all element ps \<Longrightarrow> join_with ''/'' ps \<noteq> ''.''"
proof (cases "(''/'', ps)" rule: join_with.cases)
  case (3 sep x y xs)
  assume "list_all element ps"
  then show ?thesis using 3 by (cases x) (auto simp: element_def)
qed (auto simp: element_def)

lemma Clean_dot_iff: "Clean p = ''.'' \<longleftrightarrow> \<not> IsAbs p \<and> path_elements p = []"
  using join_not_dot [OF elements_ok [of p]] by (auto simp: Clean_def render_def)

lemma Clean_rel: "\<not> IsAbs p \<Longrightarrow> path_elements p \<noteq> [] \<Longrightarrow> Clean p = join_with ''/'' (path_elements p)"
  by (simp add: Clean_def render_def)

lemma Clean_abs: "IsAbs p \<Longrightarrow> Clean p = CHR ''/'' # join_with ''/'' (path_elements p)"
  by (simp add: Clean_def render_def)

lemma last_join: "list_all element ps \<Longrightarrow> ps \<noteq> [] \<Longrightarrow> join_with ''/'' ps \<noteq> '''' \<and> last (join_with ''/'' ps) \<noteq> CHR ''/''"
proof (induction "''/''" ps rule: join_with.induct)
  case (2 x)
  then have x: "x \<noteq> []" "CHR ''/'' \<notin> set x" by (auto simp: element_def)
  then have "last x \<noteq> CHR ''/''" using last_in_set [OF x(1)] by metis
  then show ?case using x by simp
qed auto

lemma IsAbs_append: "w \<noteq> [] \<Longrightarrow> IsAbs (w @ t) = IsAbs w"
  by (cases w) (auto simp: IsAbs_Cons)

lemma starts_with_abs: "starts_with p w \<Longrightarrow> w \<noteq> [] \<Longrightarrow> IsAbs p = IsAbs w"
  by (cases w) (auto simp: starts_with_append_iff IsAbs_Cons)

lemma within_inside:
  fixes p d :: string
  defines "q \<equiv> normalizePathPrefix d"
  shows "(q \<noteq> '''' \<and> (Clean p = (if ends_slash q then butlast q else q) \<or> starts_with (Clean p) q)) \<longleftrightarrow> inside d p"
proof -
  let ?v = "TrimSpace d"
  note ev = elements_ok [of ?v] and ep = elements_ok [of p]
  consider "?v = '''' \<or> (\<not> IsAbs ?v \<and> path_elements ?v = [])"
    | "?v \<noteq> ''''" "IsAbs ?v" "path_elements ?v = []" | "?v \<noteq> ''''" "path_elements ?v \<noteq> []" by blast
  then show ?thesis
  proof cases
    case 1
    then have "q = ''''" using Clean_dot_iff [of ?v] by (auto simp: q_def normalizePathPrefix_def Let_def)
    then show ?thesis using 1 by (auto simp: inside_def Let_def)
  next
    case 2
    then have q: "q = ''/''" by (simp add: q_def normalizePathPrefix_def Clean_abs ends_slash_def)
    have "starts_with (Clean p) ''/'' = IsAbs p" by (simp add: IsAbs_def [symmetric])
    moreover have "Clean p \<noteq> ''''" using last_join [OF ep] by (auto simp: Clean_def render_def)
    ultimately show ?thesis using 2 q by (simp add: inside_def ends_slash_def)
  next
    case 3
    note l = last_join [OF ev 3(2)]
    have dot: "Clean ?v \<noteq> ''.''" using 3 by (simp add: Clean_dot_iff)
    have ne: "Clean ?v \<noteq> ''''" and no: "\<not> ends_slash (Clean ?v)"
      using l 3(2) by (auto simp: Clean_def render_def ends_slash_def)
    have q: "q = Clean ?v @ ''/''" using 3(1) dot no by (simp add: q_def normalizePathPrefix_def)
    have lhs: "(q \<noteq> '''' \<and> (Clean p = (if ends_slash q then butlast q else q) \<or> starts_with (Clean p) q)) \<longleftrightarrow>
        Clean p = Clean ?v \<or> starts_with (Clean p) (Clean ?v @ ''/'')"
      by (simp add: q ends_slash_def)
    show ?thesis
    proof (cases "IsAbs p = IsAbs ?v")
      case abs: True
      note below = join_below [OF ev ep 3(2)]
      have "Clean p = Clean ?v \<or> starts_with (Clean p) (Clean ?v @ ''/'') \<longleftrightarrow> prefix (path_elements ?v) (path_elements p)"
      proof (cases "IsAbs ?v")
        case True
        then show ?thesis using abs below by (simp add: Clean_abs starts_with_Cons)
      next
        case False
        have "starts_with (Clean p) (Clean ?v @ ''/'') \<Longrightarrow> Clean p \<noteq> ''.''"
          using ne by (cases "Clean ?v") (auto simp: starts_with_append_iff)
        moreover have "path_elements p = [] \<Longrightarrow> Clean p = ''.''" using False abs by (simp add: Clean_dot_iff)
        ultimately show ?thesis
          using abs False below 3(2) dot by (cases "path_elements p = []") (auto simp: Clean_rel)
      qed
      then show ?thesis using lhs abs 3 by (simp add: inside_def)
    next
      case False
      have "\<not> starts_with (Clean p) (Clean ?v @ ''/'')"
        using starts_with_abs [of "Clean p" "Clean ?v @ ''/''"] IsAbs_append [OF ne, of "''/''"] False by auto
      moreover have "Clean p \<noteq> Clean ?v" using False by (simp add: Clean_eq_iff)
      ultimately show ?thesis using lhs False by (auto simp: inside_def)
    qed
  qed
qed

lemma pathWithinAnyPrefix_iff: "pathWithinAnyPrefix p dirs \<longleftrightarrow> (\<exists>d \<in> set dirs. inside d p)"
  by (simp add: pathWithinAnyPrefix_def Let_def list_ex_iff within_inside)

lemma inside_Clean [simp]: "inside d (Clean p) = inside d p"
  by (simp add: inside_def)

section \<open>The collected evidence\<close>

lemma classify_kind: "classifyAgentJobPathEvidence raw b = Some ref \<Longrightarrow> pe_Kind ref \<in> {''repo'', ''abs''}"
  by (auto simp: classifyAgentJobPathEvidence_def Let_def split: if_splits)

lemma evidence_key_inj:
  "pe_Kind a \<in> {''repo'', ''abs''} \<Longrightarrow> pe_Kind b \<in> {''repo'', ''abs''} \<Longrightarrow> evidence_key a = evidence_key b \<Longrightarrow>
   pe_Kind a = pe_Kind b \<and> pe_Path a = pe_Path b"
  by (auto simp: evidence_key_def)

lemma add_evidence_covers:
  "(raw, b) \<in> set ps \<Longrightarrow> classifyAgentJobPathEvidence raw b = Some ref \<Longrightarrow> evidence_key ref \<notin> set seen \<Longrightarrow>
   \<exists>r \<in> set (add_evidence ps seen). pe_Kind r = pe_Kind ref \<and> pe_Path r = pe_Path ref"
proof (induction ps seen rule: add_evidence.induct)
  case (2 raw' b' ps seen)
  show ?case
  proof (cases "classifyAgentJobPathEvidence raw' b'")
    case None
    then show ?thesis using 2 by auto
  next
    case (Some r')
    have same: "evidence_key r' = evidence_key ref \<Longrightarrow> pe_Kind r' = pe_Kind ref \<and> pe_Path r' = pe_Path ref"
      using evidence_key_inj classify_kind [OF Some] classify_kind [OF 2(5)] by blast
    show ?thesis
    proof (cases "evidence_key r' \<in> set seen")
      case True
      then have "(raw, b) \<in> set ps" using 2(4,5,6) Some by auto
      then show ?thesis using 2(2) 2(5,6) Some True by simp
    next
      case new: False
      show ?thesis
      proof (cases "evidence_key r' = evidence_key ref")
        case True
        then show ?thesis using same Some new by simp
      next
        case False
        then have "(raw, b) \<in> set ps" using 2(4,5) Some by auto
        then show ?thesis using 2(3) [OF Some new] 2(5,6) False Some new by simp
      qed
    qed
  qed
qed simp

lemma add_evidence_none: "(\<And>raw b. (raw, b) \<in> set ps \<Longrightarrow> classifyAgentJobPathEvidence raw b = None) \<Longrightarrow> add_evidence ps seen = []"
  by (induction ps seen rule: add_evidence.induct) auto

lemma first_evidence_error_None:
  "first_evidence_error w al bl refs = None \<longleftrightarrow> (\<forall>ref \<in> set refs. evidence_error w al bl ref = None)"
  by (induction refs) (auto split: option.splits)

lemma evidence_checked:
  assumes "validateAgentJobPathEvidence w job result = None" "(raw, b) \<in> set (named_paths result)"
    "classifyAgentJobPathEvidence raw b = Some ref"
  shows "evidence_error w (payloadStringList (aj_Payload job) ''allowed_paths'')
           (payloadStringList (aj_Payload job) ''blocked_paths'') ref = None"
proof -
  obtain r where r: "r \<in> set (collectAgentJobPathEvidence result)" "pe_Kind r = pe_Kind ref" "pe_Path r = pe_Path ref"
    using add_evidence_covers [OF assms(2,3), of "[]"] by (auto simp: collectAgentJobPathEvidence_def)
  then have "evidence_error w (payloadStringList (aj_Payload job) ''allowed_paths'')
      (payloadStringList (aj_Payload job) ''blocked_paths'') r = None"
    using assms(1) by (simp add: validateAgentJobPathEvidence_def first_evidence_error_None)
  then show ?thesis using r(2,3) by (auto simp: evidence_error_def Let_def split: if_splits)
qed

section \<open>Relative paths of a report\<close>

lemma starts_up:
  assumes "\<not> IsAbs p"
  shows "starts_with (Clean p) ''../'' \<longleftrightarrow> (\<exists>x xs. path_elements p = ''..'' # x # xs)"
proof
  assume s: "starts_with (Clean p) ''../''"
  then have ne: "path_elements p \<noteq> []" using assms Clean_dot_iff [of p] by (auto simp: starts_with_append_iff)
  have free: "\<forall>x \<in> set (path_elements p). CHR ''/'' \<notin> set x" using elements_ok [of p] by (auto simp: list_all_iff element_def)
  obtain t where t: "join_with ''/'' (path_elements p) = ''..'' @ CHR ''/'' # t"
    using s assms ne by (auto simp: Clean_rel starts_with_append_iff)
  have "path_elements p = split_on (CHR ''/'') (''..'' @ CHR ''/'' # t)" using split_on_join [OF ne free] t by simp
  also have "\<dots> = ''..'' # split_on (CHR ''/'') t" by (rule split_on_append) simp
  finally have e: "path_elements p = ''..'' # split_on (CHR ''/'') t" .
  then show "\<exists>x xs. path_elements p = ''..'' # x # xs" by (cases "split_on (CHR ''/'') t") auto
next
  assume "\<exists>x xs. path_elements p = ''..'' # x # xs"
  then show "starts_with (Clean p) ''../''" using assms by (auto simp: Clean_rel starts_with_append_iff)
qed

lemma classify_repo:
  assumes "TrimSpace raw = raw" "raw \<noteq> ''''" "\<not> IsAbs raw" "\<not> record_reference raw" "path_elements raw \<noteq> []"
    "hd (path_elements raw) \<noteq> ''..''"
  shows "classifyAgentJobPathEvidence raw True = Some \<lparr>pe_Raw = raw, pe_Path = Clean raw, pe_Kind = ''repo''\<rparr>"
  using assms starts_up [of raw] by (auto simp: classifyAgentJobPathEvidence_def Clean_dot_iff)

lemma classify_escaping:
  assumes "\<not> IsAbs (TrimSpace raw)" "path_elements (TrimSpace raw) = ''..'' # x # xs"
  shows "classifyAgentJobPathEvidence raw True = None"
  using assms starts_up [of "TrimSpace raw"] by (simp add: classifyAgentJobPathEvidence_def Let_def)

lemma resultStringList_trimmed: "raw \<in> set (resultStringList v) \<Longrightarrow> TrimSpace raw = raw \<and> raw \<noteq> ''''"
  by (auto simp: resultStringList_def split: option.splits json.splits)

lemma named_path:
  "raw \<in> set (resultStringList (map_of r key)) \<Longrightarrow> key \<in> {''changed_paths'', ''touched_paths'', ''artifact_relative_paths''} \<Longrightarrow>
   (raw, True) \<in> set (named_paths r)"
  by (auto simp: named_paths_def)

lemma normalize_succeeded:
  assumes "normalizeAgentJobReportResult w job ''succeeded'' result actor = Inr r"
  shows "r = report_result job ''succeeded'' result actor" "validateAgentJobPathEvidence w job r = None"
    "agentJobRoleNeedsArtifacts (aj_Role job) \<Longrightarrow> agentJobResultHasArtifacts r"
    "TrimSpace (agentJobResultString (map_of r ''summary'')) \<noteq> ''''"
  using assms
  by (auto simp: normalizeAgentJobReportResult_def validateAgentJobSucceededEvidence_def Let_def split: option.splits if_splits)

end
