(* ===== verification/Job_Live.thy ===== *)
theory Job_Live
  imports Job_Dispatch_Props Gateway_Adapter_Props Job_Report_Props Observation_Specs Demo
begin

text \<open>
  Availability of job updates, policies and sent gateway calls on a working clock and disk, and the concrete
  jobs of the witnesses: one that reports success with a chain rule, and one whose dispatch is tried again.
\<close>

section \<open>Updates\<close>

lemma ensureReviewRoomItem_works:
  assumes "TrimSpace (ri_Text i) \<noteq> ''''"
  shows "\<exists>p. ensureReviewRoomItem W now room ''open'' i = Inr p"
proof -
  have "normalizeReviewSection ''open'' = ''open''" by code_simp
  then show ?thesis unfolding ensureReviewRoomItem_def Let_def using assms
    by (cases "reviewRoomHasItem (copyReviewRoom now room) (TrimSpace (ri_Text i))") (simp_all, blast+)
qed

lemma failed_job_text: "reviewRoomSuggestionForAgentJob now job = Some i \<Longrightarrow> TrimSpace (ri_Text i) \<noteq> ''''"
proof -
  have tick: "ink (CHR ''`'')" by code_simp
  have t: "TrimSpace (ri_Text (newSignalReviewRoomItem now body trigger ref reason rule evidence)) = TrimSpace body"
    for body trigger ref reason rule evidence
    by (simp add: newSignalReviewRoomItem_def newStructuredReviewRoomItem_def)
  have "TrimSpace (a @ '' `'' @ b) \<noteq> ''''" for a b :: string
    using not_blank_ink [OF _ tick, of "a @ '' `'' @ b"] by (simp add: blank_def)
  from this [of "runes [0xC5D0, 0xC774, 0xC804, 0xD2B8] @ '' '' @ runes [0xC791, 0xC5C5]"]
  show "reviewRoomSuggestionForAgentJob now job = Some i \<Longrightarrow> TrimSpace (ri_Text i) \<noteq> ''''"
    unfolding reviewRoomSuggestionForAgentJob_def by (auto simp only: t append_assoc option.inject option.distinct split: if_splits)
qed

lemma review_job_works:
  assumes "aj_Status job \<noteq> ''failed'' \<Longrightarrow>
      findOpenReviewRoomItem (copyReviewRoom (now_store e) (sv_reviewRoom s)) ''agent_job.failed'' (Some (aj_JobID job)) = None"
  shows "\<exists>room. review_job e job s = (None, s\<lparr>sv_reviewRoom := room\<rparr>)"
proof -
  have same: "\<exists>room. (None :: error option, s) = (None, s\<lparr>sv_reviewRoom := room\<rparr>)" by (rule exI [of _ "sv_reviewRoom s"]) simp
  show ?thesis
  proof (cases "aj_Status job = ''failed''")
    case True
    then obtain i where i: "reviewRoomSuggestionForAgentJob (en_clock e 52) job = Some i"
      by (simp add: reviewRoomSuggestionForAgentJob_def)
    obtain room changed where "ensureReviewRoomItem (en_isWord e) (now_store e) (sv_reviewRoom s) ''open'' i = Inr (room, changed)"
      using ensureReviewRoomItem_works [OF failed_job_text [OF i], of "en_isWord e" "now_store e" "sv_reviewRoom s"] by auto
    then show ?thesis using i same by (cases changed) (auto simp: review_job_def)
  next
    case False
    then show ?thesis using assms same
      by (simp add: review_job_def reviewRoomSuggestionForAgentJob_def autoResolveReviewRoomItemLocked_def Let_def)
  qed
qed

definition update_ready :: "env \<Rightarrow> AgentJob \<Rightarrow> Service \<Rightarrow> bool" where
  "update_ready e job s \<longleftrightarrow>
     (aj_Status job \<noteq> ''failed'' \<longrightarrow>
        findOpenReviewRoomItem (copyReviewRoom (now_store e) (sv_reviewRoom s)) ''agent_job.failed'' (Some (aj_JobID job)) = None) \<and>
     list_all (\<lambda>kv. \<not> blank (fst kv) \<and> json_ok (snd kv)) (job_event_data job)"

lemma updateAgentJobLocked_works:
  assumes "clock_ok e" "disk_works e s" "\<not> blank kind" "update_ready e job s"
    "agentJobStore_update (sv_agentJob s) jobID status nts result (en_clock e 50) = Inr (job, items)"
  shows "\<exists>ev t. updateAgentJobLocked e jobID status nts result kind s = (Inr (job, ev), t) \<and> disk_works e t"
proof -
  let ?s1 = "s\<lparr>sv_agentJob := items\<rparr>"
  let ?ev = "service_event e 0 ?s1 kind (aj_Surface job) (aj_JobID job) (aj_Stage job) (job_event_data job)"
  obtain old where old: "agentJobStore_get (sv_agentJob s) jobID = Some old"
    using agentJobStore_update_Inr(4) [OF assms(5)] by (auto simp: agentJobStore_get_def)
  have v: "EventEnvelope_Validate ?ev = None"
    using assms(1,3,4) agentJobStore_update_Inr(5) [OF assms(5)]
    by (intro service_event_valid) (simp_all add: update_ready_def AgentJob_Validate_def then_json_def split: if_splits option.splits)
  then obtain es where es: "eventStore_append (sv_event ?s1) ?ev = Inr es" using eventStore_append_Inr_iff by blast
  let ?s2 = "?s1\<lparr>sv_event := es\<rparr>"
  obtain room where r: "review_job e job ?s2 = (None, ?s2\<lparr>sv_reviewRoom := room\<rparr>)"
    using review_job_works [of job e ?s2] assms(4) by (auto simp: update_ready_def)
  have d: "disk_works e (?s2\<lparr>sv_reviewRoom := room\<rparr>)" by (rule disk_works_frame [OF assms(2)]) simp_all
  have run: "updateAgentJobLocked e jobID status nts result kind s =
      persist_or e (\<lambda>t. restore_event e (sv_event s) (restore_room e (sv_reviewRoom s) (t\<lparr>sv_agentJob := sv_agentJob s\<rparr>))) (job, ?ev)
        (?s2\<lparr>sv_reviewRoom := room\<rparr>)"
    using old assms(5) es r by (simp add: updateAgentJobLocked_def event_or_def room_or_def Let_def)
  show ?thesis unfolding run by (intro exI [of _ ?ev] persist_or_works [OF d])
qed

lemma UpdateAgentJob_works:
  assumes "clock_ok e" "disk_works e s" "update_ready e job s"
    "agentJobStore_update (sv_agentJob s) jobID status nts result (en_clock e 50) = Inr (job, items)"
  shows "\<exists>t. UpdateAgentJob e jobID status nts result s = (Inr job, t) \<and> disk_works e t \<and> core t = core (s\<lparr>sv_agentJob := items\<rparr>)"
proof -
  have "\<not> blank ''agent_job.updated''" by code_simp
  from updateAgentJobLocked_works [OF assms(1,2) this assms(3,4)] obtain t where
    t: "UpdateAgentJob e jobID status nts result s = (Inr job, t)" "disk_works e t" by (auto simp: UpdateAgentJob_def)
  from UpdateAgentJob_Inr [OF t(1)] assms(4) t show ?thesis by auto
qed

section \<open>Reports\<close>

text \<open>After the update nothing refuses a report.\<close>

lemma ReportAgentJob_works:
  assumes "clock_ok (es 0)" "disk_works (es 0) s" "validAgentJobTerminalStatus status" "job_of s jobID = Some current"
    "normalizeAgentJobReportResult w current status result (currentActor (es 0) s) = Inr r"
    "agentJobStore_update (sv_agentJob s) jobID status nts (Some r) (en_clock (es 0) 50) = Inr (job, items)"
    "update_ready (es 0) job s"
  shows "\<exists>rep t. ReportAgentJob w U es dispatch jobID status nts result s = (Inr rep, t)"
proof -
  have "\<not> blank (''agent_job.'' @ status)"
    using assms(3) by (auto simp: validAgentJobTerminalStatus_def) code_simp+
  from updateAgentJobLocked_works [OF assms(1,2) this assms(7,6)] show ?thesis
    using assms(3-5) by (auto simp: ReportAgentJob_def agentJobStore_get_def Let_def split: prod.splits)
qed

section \<open>Policies and sent calls\<close>

lemma CreatePolicy_works:
  assumes "clock_ok e" "disk_works e s" "PolicyDecision_Validate (normalizePolicyDecision item) = None"
  shows "\<exists>t. CreatePolicy e item s = (Inr (), t) \<and> disk_works e t \<and>
    core t = core (s\<lparr>sv_policy := sv_policy s @ [normalizePolicyDecision item]\<rparr>)"
proof -
  let ?s1 = "s\<lparr>sv_policy := sv_policy s @ [normalizePolicyDecision item]\<rparr>"
  have v: "EventEnvelope_Validate (newSystemEvent e 0 ?s1 ''policy.created''
      [(''decision_id'', JString (pd_DecisionID item)), (''decision'', JString (pd_Decision item)), (''mode'', JString (pd_Mode item))]) = None"
  proof -
    have "\<not> blank ''policy.created''" "\<not> blank ''decision''" by code_simp+
    then show ?thesis using assms(1) by (intro newSystemEvent_valid) (simp_all add: live_literals)
  qed
  then obtain es where es: "eventStore_append (sv_event ?s1) (newSystemEvent e 0 ?s1 ''policy.created''
      [(''decision_id'', JString (pd_DecisionID item)), (''decision'', JString (pd_Decision item)), (''mode'', JString (pd_Mode item))]) = Inr es"
    using eventStore_append_Inr_iff by blast
  have d: "disk_works e (?s1\<lparr>sv_event := es\<rparr>)" by (rule disk_works_frame [OF assms(2)]) simp_all
  have c: "core (?s1\<lparr>sv_event := es\<rparr>) = core ?s1" by (simp add: core_def)
  obtain t where t: "persistLocked e (?s1\<lparr>sv_event := es\<rparr>) = (None, t)" "disk_works e t"
    using persistLocked_works [OF d] by auto
  show ?thesis using es t persistLocked_frame(1) [OF t(1)] c assms(3)
    by (simp add: CreatePolicy_def policyStore_create_def append_valid_def event_or_def persist_or_def Let_def)
qed

lemma sent_call_works:
  assumes "clock_ok e" "disk_works e s" "policyStore_get (sv_policy s) (gc_DecisionID item) = Some decision"
    "pd_Decision decision = ''go''" "canonicalPolicyMode (pd_Mode decision) = canonicalPolicyMode (ga_RequiredMode ad)"
    "ga_Prepare ad item decision = Inr prepared" "ga_DispatchEnabled ad" "ga_Dispatch ad prepared decision payload = Inr call"
    "GatewayCall_Validate call = None" "gc_Status call = ''sent''"
  shows "\<exists>t. createGatewayCallWithPayload e item ad payload s = (Inr (), t) \<and> disk_works e t \<and>
    sv_gateway t = sv_gateway s @ [call] \<and> sv_agentJob t = sv_agentJob s"
proof -
  let ?s1 = "s\<lparr>sv_gateway := sv_gateway s @ [call]\<rparr>"
  have lit: "\<not> blank ''gateway.sent''" "\<not> blank ''last_http_status''" "\<not> blank ''last_error''" "\<not> blank ''response_preview''"
    by code_simp+
  have v: "EventEnvelope_Validate (newSystemEvent e k t kind (gatewayEventData call)) = None" if "\<not> blank kind" for k t kind
    using assms(1) that
    by (intro newSystemEvent_valid) (simp_all add: gatewayEventData_def live_literals event_literals lit split: option.splits)
  obtain es where es: "eventStore_append (sv_event s) (newSystemEvent e 0 ?s1 ''gateway.created'' (gatewayEventData call)) = Inr es"
    using v live_literals eventStore_append_Inr_iff by blast
  let ?s2 = "?s1\<lparr>sv_event := es\<rparr>"
  obtain es' where es': "eventStore_append es (newSystemEvent e 1 ?s2 ''gateway.sent'' (gatewayEventData call)) = Inr es'"
    using v lit eventStore_append_Inr_iff by blast
  let ?s3 = "?s2\<lparr>sv_event := es'\<rparr>"
  have d: "disk_works e ?s3" by (rule disk_works_frame [OF assms(2)]) simp_all
  obtain t where t: "persistLocked e ?s3 = (None, t)" "disk_works e t" using persistLocked_works [OF d] by auto
  have "sv_gateway t = sv_gateway s @ [call]" "sv_agentJob t = sv_agentJob s"
    using core_job_call [OF persistLocked_frame(1) [OF t(1)]] by simp_all
  then show ?thesis using assms(3-10) es es' t
    by (simp add: createGatewayCallWithPayload_def gatewayStore_create_def append_valid_def event_or_def persist_or_def Let_def)
qed

end
