(* ===== verification/Job_Demo.thy ===== *)
theory Job_Demo
  imports Job_Live
begin

text \<open>
  The concrete jobs of the witnesses: one that reports success under a path scope with a chain rule, and one
  whose dispatch failed and is tried again on a provider that answers.
\<close>

section \<open>A report\<close>

definition report_world_demo :: report_world where
  "report_world_demo =
     \<lparr>rw_REPO_ROOT = ''/repo'', rw_exists = (\<lambda>_. True), rw_isPrint = (\<lambda>n. 31 < n \<and> n < 127),
      rw_format = (\<lambda>_. ''''), rw_jsonError = (\<lambda>_. ''json'')\<rparr>"

definition scoped_job :: AgentJob where
  "scoped_job = \<lparr>aj_JobID = ''j2'', aj_BranchID = None, aj_Kind = ''implement'', aj_Role = ''implementer'', aj_Summary = ''build'',
     aj_Status = ''running'', aj_Source = ''founder'', aj_Surface = ''api'', aj_Stage = ''discover'', aj_Ref = None,
     aj_Payload = Some
       [(''allowed_paths'', string_array [''src'']), (''blocked_paths'', string_array [''src/vendor'']),
        (''chain_rules'', JObject [(''rules'', JArray
           [JObject [(''rule_id'', JString ''r''), (''on_status'', JString ''succeeded''), (''next_kind'', JString ''verify''),
              (''next_role'', JString ''verifier''), (''summary'', JString ''check''), (''auto_dispatch'', JBool True)]])])],
     aj_Result = None, aj_Notes = Some [], aj_CreatedAt = 5, aj_UpdatedAt = 5\<rparr>"

definition report_service :: Service where
  "report_service = demo_service\<lparr>sv_agentJob := [scoped_job]\<rparr>"

definition scoped_result :: "string list \<Rightarrow> jobject" where
  "scoped_result paths = [(''artifacts'', string_array [''a'']), (''changed_paths'', string_array paths)]"

definition scoped_report :: "string list \<Rightarrow> jobject" where
  "scoped_report paths =
     [(''artifacts'', string_array [''a'']), (''changed_paths'', string_array paths),
      (''summary'', JString ''Agent job j2 succeeded: build''), (''report_status'', JString ''succeeded''),
      (''reported_by_actor'', JString ''founder''), (''report_transport'', JString ''job_report''),
      (''completion_mode'', JString ''explicit_job_report'')]"

lemma scoped_report_ok:
  "report_result scoped_job ''succeeded'' (Some (scoped_result [''src/a.go''])) ''founder'' = scoped_report [''src/a.go'']"
  "report_result scoped_job ''succeeded'' (Some (scoped_result [''../x''])) ''founder'' = scoped_report [''../x'']"
  by code_simp+

lemma scoped_lists:
  "payloadStringList (aj_Payload scoped_job) ''allowed_paths'' = [''src'']"
  "payloadStringList (aj_Payload scoped_job) ''blocked_paths'' = [''src/vendor'']"
  "named_paths (scoped_report [''src/a.go'']) = [(''src/a.go'', True), ('''', True), ('''', False)]"
  "named_paths (scoped_report [''../x'']) = [(''../x'', True), ('''', True), ('''', False)]"
  by code_simp+

lemma scoped_collected:
  "collectAgentJobPathEvidence (scoped_report [''src/a.go'']) = [\<lparr>pe_Raw = ''src/a.go'', pe_Path = ''src/a.go'', pe_Kind = ''repo''\<rparr>]"
  "collectAgentJobPathEvidence (scoped_report [''../x'']) = []"
  unfolding collectAgentJobPathEvidence_def scoped_lists by code_simp+

lemma scoped_evidence:
  "validateAgentJobPathEvidence report_world_demo scoped_job (scoped_report [''src/a.go'']) = None"
  "validateAgentJobPathEvidence report_world_demo scoped_job (scoped_report [''../x'']) = None"
proof -
  have "pathWithinAnyPrefix ''src/a.go'' [''src'']" "\<not> pathWithinAnyPrefix ''src/a.go'' [''src/vendor'']" by code_simp+
  moreover have "rw_exists report_world_demo p" for p by (simp add: report_world_demo_def)
  ultimately show "validateAgentJobPathEvidence report_world_demo scoped_job (scoped_report [''src/a.go'']) = None"
    "validateAgentJobPathEvidence report_world_demo scoped_job (scoped_report [''../x'']) = None"
    unfolding validateAgentJobPathEvidence_def scoped_collected scoped_lists
    by (simp_all add: evidence_error_def)
qed

lemma scoped_rest:
  "TrimSpace (agentJobResultString (map_of (scoped_report ps) ''summary'')) \<noteq> ''''"
  "agentJobResultHasArtifacts (scoped_report ps)"
  by (simp_all add: scoped_report_def) code_simp+

lemma scoped_normalize:
  "normalizeAgentJobReportResult report_world_demo scoped_job ''succeeded'' (Some (scoped_result [''src/a.go''])) ''founder'' = Inr (scoped_report [''src/a.go''])"
  "normalizeAgentJobReportResult report_world_demo scoped_job ''succeeded'' (Some (scoped_result [''../x''])) ''founder'' = Inr (scoped_report [''../x''])"
  by (simp_all add: normalizeAgentJobReportResult_def validateAgentJobSucceededEvidence_def scoped_report_ok scoped_evidence scoped_rest)

definition settled_job :: "string list \<Rightarrow> AgentJob" where
  "settled_job ps = scoped_job\<lparr>aj_Status := ''succeeded'', aj_Result := Some (scoped_report ps), aj_UpdatedAt := 1050\<rparr>"

lemma scoped_update:
  "agentJobStore_update [scoped_job] ''j2'' ''succeeded'' (Some []) (Some (scoped_report [''src/a.go''])) 1050 =
     Inr (settled_job [''src/a.go''], [settled_job [''src/a.go'']])"
  "agentJobStore_update [scoped_job] ''j2'' ''succeeded'' (Some []) (Some (scoped_report [''../x''])) 1050 =
     Inr (settled_job [''../x''], [settled_job [''../x'']])"
  by code_simp+

lemma demo_room_quiet:
  "findOpenReviewRoomItem (copyReviewRoom (now_store demo_env) demo_room) ''agent_job.failed'' (Some j) = None"
proof -
  have "rm_Open (copyReviewRoom (now_store demo_env) demo_room) = []" by code_simp
  then show ?thesis by (simp add: findOpenReviewRoomItem_def Let_def)
qed

lemma scoped_ready:
  "update_ready demo_env (settled_job [''src/a.go'']) report_service" "update_ready demo_env (settled_job [''../x'']) report_service"
proof -
  have "list_all (\<lambda>kv. \<not> blank (fst kv) \<and> json_ok (snd kv)) (job_event_data (settled_job [''src/a.go'']))"
    "list_all (\<lambda>kv. \<not> blank (fst kv) \<and> json_ok (snd kv)) (job_event_data (settled_job [''../x'']))"
    by code_simp+
  then show "update_ready demo_env (settled_job [''src/a.go'']) report_service" "update_ready demo_env (settled_job [''../x'']) report_service"
    using demo_room_quiet
    by (simp_all add: update_ready_def settled_job_def report_service_def demo_service_def reviewRoomSuggestionForAgentJob_def)
qed

lemma report_runs:
  "\<exists>rep t. ReportAgentJob report_world_demo U (\<lambda>_. demo_env) dispatch ''j2'' ''succeeded'' (Some []) (Some (scoped_result [''src/a.go''])) report_service = (Inr rep, t)"
  "\<exists>rep t. ReportAgentJob report_world_demo U (\<lambda>_. demo_env) dispatch ''j2'' ''succeeded'' (Some []) (Some (scoped_result [''../x''])) report_service = (Inr rep, t)"
proof -
  have f: "job_of report_service ''j2'' = Some scoped_job" "currentActor demo_env report_service = ''founder''"
     "validAgentJobTerminalStatus ''succeeded''" by code_simp+
  have d: "disk_works demo_env report_service" by (rule disk_works_frame [OF disk_works_demo]) (simp_all add: report_service_def)
  have u: "sv_agentJob report_service = [scoped_job]" "en_clock demo_env 50 = 1050" by (simp_all add: report_service_def demo_env_def)
  show "\<exists>rep t. ReportAgentJob report_world_demo U (\<lambda>_. demo_env) dispatch ''j2'' ''succeeded'' (Some []) (Some (scoped_result [''src/a.go''])) report_service = (Inr rep, t)"
    by (rule ReportAgentJob_works [OF _ _ f(3,1) _ scoped_update(1) [folded u] scoped_ready(1)])
       (simp_all add: clock_ok_demo d f scoped_normalize)
  show "\<exists>rep t. ReportAgentJob report_world_demo U (\<lambda>_. demo_env) dispatch ''j2'' ''succeeded'' (Some []) (Some (scoped_result [''../x''])) report_service = (Inr rep, t)"
    by (rule ReportAgentJob_works [OF _ _ f(3,1) _ scoped_update(2) [folded u] scoped_ready(2)])
       (simp_all add: clock_ok_demo d f scoped_normalize)
qed

end
