(* ===== verification/Dispatch_Demo.thy ===== *)
theory Dispatch_Demo
  imports Job_Live
begin

text \<open>
  A job whose dispatch failed, dispatched again on a provider that now answers: every step of the run.
\<close>

definition job_getenv :: getenv where
  "job_getenv key =
     (if key = ''LAYER_OS_PROVIDERS'' then ''acme'' else if key = ''LAYER_OS_GATEWAY_ADAPTER'' then ''api''
      else if key = ''LAYER_OS_PROVIDER_ENDPOINTS'' then ''acme=https://acme.example/v1'' else '''')"

definition job_http :: http_world where
  "job_http = \<lparr>hw_marshal = (\<lambda>_. None), hw_request = (\<lambda>_. None), hw_send = (\<lambda>_ _. Inr (200, ''ok'')), hw_parse = (\<lambda>_. None),
     hw_prompt = (\<lambda>_ _. ''''), hw_now = (\<lambda>i. 2000 + int i)\<rparr>"

definition job_world :: dispatch_world where
  "job_world =
     \<lparr>dw_report = \<lparr>rw_REPO_ROOT = ''/repo'', rw_exists = (\<lambda>_. True), rw_isPrint = (\<lambda>n. 31 < n \<and> n < 127),
        rw_format = (\<lambda>_. ''''), rw_jsonError = (\<lambda>_. ''json'')\<rparr>,
      dw_gateway = \<lparr>gw_getenv = job_getenv,
        gw_url = \<lparr>uw_parse = (\<lambda>_. Some \<lparr>pu_Scheme = ''https'', pu_HasUser = False, pu_RawQuery = '''', pu_Fragment = '''',
                      pu_Hostname = ''acme.example''\<rparr>), uw_addr = (\<lambda>_. None)\<rparr>,
        gw_http = job_http\<rparr>,
      dw_adapter = gatewayAdapterFromEnv job_getenv, dw_parseURL = (\<lambda>_. None), dw_packet = (\<lambda>_ _. Inr []),
      dw_telegram = False, dw_sendTelegram = (\<lambda>_ _. None)\<rparr>"

definition failed_job :: AgentJob where
  "failed_job = \<lparr>aj_JobID = ''j1'', aj_BranchID = None, aj_Kind = ''implement'', aj_Role = ''implementer'', aj_Summary = ''build'',
     aj_Status = ''failed'', aj_Source = ''founder'', aj_Surface = ''api'', aj_Stage = ''discover'', aj_Ref = None, aj_Payload = None,
     aj_Result = None, aj_Notes = Some [], aj_CreatedAt = 5, aj_UpdatedAt = 5\<rparr>"

definition old_call :: GatewayCall where
  "old_call = \<lparr>gc_CallID = ''gateway_job_j1'', gc_DecisionID = ''policy_job_j1'', gc_Provider = ''acme'', gc_Model = ''acme'',
     gc_RequestKind = ''implement'', gc_Status = ''failed'', gc_AttemptCount = 2, gc_LastHTTPStatus = Some 503, gc_LastError = Some ''http_status_503'',
     gc_ResponsePreview = None, gc_DispatchedAt = Some 6, gc_TokenBudget = 16000, gc_Notes = Some [], gc_CreatedAt = 6\<rparr>"

definition retry_service :: Service where
  "retry_service = demo_service\<lparr>sv_agentJob := [failed_job], sv_gateway := [old_call]\<rparr>"

section \<open>The start of the job\<close>

definition retry_plan :: dispatch_plan where
  "retry_plan = \<lparr>pl_council = None, pl_auto = False, pl_provider = ''acme'', pl_model = ''acme'', pl_fallback = '''', pl_origin = ''provider_api''\<rparr>"

definition running_job :: AgentJob where
  "running_job = failed_job\<lparr>aj_Status := ''running'', aj_Notes := Some [''dispatching''],
     aj_Result := Some (start_result_data retry_plan ''founder''), aj_UpdatedAt := 1050\<rparr>"

lemma retry_start:
  "plan_dispatch job_world demo_env failed_job = retry_plan" "currentActor demo_env retry_service = ''founder''"
  "agentJobStore_update [failed_job] ''j1'' ''running'' (Some (appendUniqueString (elems (aj_Notes failed_job)) ''dispatching''))
     (Some (start_result_data retry_plan ''founder'')) 1050 = Inr (running_job, [running_job])"
  "list_all (\<lambda>kv. \<not> blank (fst kv) \<and> json_ok (snd kv)) (job_event_data running_job)"
  by code_simp+

section \<open>Policy and call\<close>

definition retry_policy :: PolicyDecision where
  "retry_policy = \<lparr>pd_DecisionID = ''policy_job_j1'', pd_Intent = ''build'', pd_Scope = ''agent_job'', pd_Risk = ''medium'',
     pd_Novelty = ''medium'', pd_TokenClass = ''medium'', pd_RequiresApproval = False, pd_Mode = ''single'', pd_Decision = ''go'',
     pd_Reasons = Some [''moderate ambiguity or approval sensitivity routes to single mode''], pd_CreatedAt = 1050\<rparr>"

lemma retry_policy_ok:
  "PolicyDecision_Validate (normalizePolicyDecision retry_policy) = None" "normalizePolicyDecision retry_policy = retry_policy"
  "job_policy demo_env running_job s =
     (case CreatePolicy demo_env retry_policy s of (Inl err, s') \<Rightarrow> (Inl err, s') | (Inr _, s') \<Rightarrow> (Inr retry_policy, s'))"
  subgoal by code_simp
  subgoal by code_simp
  subgoal
  proof -
    have "decidePolicy (aj_Summary running_job) (riskForAgentRole (aj_Role running_job)) (noveltyForAgentRole (aj_Role running_job))
        (tokenClassForAgentRole (aj_Role running_job)) False = (''single'', ''go'', [''moderate ambiguity or approval sensitivity routes to single mode''])"
      "riskForAgentRole (aj_Role running_job) = ''medium''" "noveltyForAgentRole (aj_Role running_job) = ''medium''"
      "tokenClassForAgentRole (aj_Role running_job) = ''medium''" by code_simp+
    moreover have "en_clock demo_env 50 = 1050" by (simp add: demo_env_def)
    moreover obtain x t where "CreatePolicy demo_env retry_policy s = (x, t)" by fastforce
    ultimately show ?thesis
      by (cases x) (simp_all add: job_policy_def EvaluatePolicy_def running_job_def failed_job_def Let_def retry_policy_def [symmetric])
  qed
  done

definition retry_call :: GatewayCall where
  "retry_call = single_call demo_env retry_plan retry_policy (Some []) running_job"

definition prepared_call :: GatewayCall where
  "prepared_call = retry_call\<lparr>gc_Notes := Some (elems (gc_Notes retry_call) @
     [''adapter:record'', ''dispatch:recorded-intent'', ''adapter:api'', ''dispatch:provider-api''])\<rparr>"

definition sent_call :: GatewayCall where
  "sent_call = prepared_call\<lparr>gc_Status := ''sent'', gc_AttemptCount := 1, gc_LastHTTPStatus := Some 200, gc_ResponsePreview := Some ''ok'',
     gc_DispatchedAt := Some 2001, gc_Notes := Some (elems (gc_Notes prepared_call) @
       [''dispatch:endpoint=https://acme.example/v1'', ''dispatch:attempt=1'', ''dispatch:http_status=200''])\<rparr>"

lemma retry_call_ok:
  "gc_DecisionID retry_call = ''policy_job_j1''" "gc_CallID retry_call = ''gateway_job_j1''"
  "ga_Prepare (packetAdapter job_world retry_plan) retry_call retry_policy = Inr prepared_call"
  "ga_DispatchEnabled (packetAdapter job_world retry_plan)" "ga_RequiredMode (packetAdapter job_world retry_plan) = ''single''"
  "GatewayCall_Validate sent_call = None" "gc_Status sent_call = ''sent''"
  by code_simp+

lemma retry_api: "api_dispatch (dw_gateway job_world) prepared_call retry_policy (Some []) = Inr sent_call"
proof -
  let ?g = "dw_gateway job_world"
  have e: "map_of (providerEndpointMapFromEnv (gw_getenv ?g) (gw_url ?g)) (TrimSpace (gc_Provider prepared_call)) = Some ''https://acme.example/v1''"
    "validateProviderEndpoint (gw_url ?g) ''https://acme.example/v1'' = None" "TrimSpace ''https://acme.example/v1'' \<noteq> ''''"
    "providerDispatchRetries (gw_getenv ?g) = 1" by code_simp+
  have h: "gw_http ?g = job_http" by (simp add: job_world_def)
  have t: "TrimSpace ''ok'' = ''ok''" "itoa_nat (Suc 0) = ''1''" "Itoa 200 = ''200''" "gc_LastError prepared_call = None"
    "appendUniqueString (appendUniqueString (appendUniqueString (elems (gc_Notes prepared_call))
       ''dispatch:endpoint=https://acme.example/v1'') ''dispatch:attempt=1'') ''dispatch:http_status=200'' =
     elems (gc_Notes prepared_call) @ [''dispatch:endpoint=https://acme.example/v1'', ''dispatch:attempt=1'', ''dispatch:http_status=200'']"
    by code_simp+
  show ?thesis unfolding api_dispatch_def e option.case h Let_def
    by (simp add: e job_http_def t add_note_def set_preview_def sent_call_def)
qed

lemma retry_sent: "ga_Dispatch (packetAdapter job_world retry_plan) prepared_call retry_policy (Some []) = Inr sent_call"
proof -
  have "pl_fallback retry_plan = ''''" "dw_adapter job_world = Single S_api" by code_simp+
  then show ?thesis using retry_api
    by (simp add: packetAdapter_def gateway_adapter_of_def singleAdapter_def apiGatewayAdapter_def Let_def)
qed

section \<open>The outcome\<close>

definition outcome_data :: jobject where
  "outcome_data =
     [(''provider'', JString ''acme''), (''model'', JString ''acme''), (''dispatch_actor'', JString ''founder''),
      (''execution_origin'', JString ''provider_api''), (''gateway_call_id'', JString ''gateway_job_j1''),
      (''gateway_state'', JString ''failed''), (''attempt_count'', JInt 2), (''provider_dispatch_ready'', JBool False),
      (''last_http_status'', JInt 503), (''last_error'', JString ''http_status_503''), (''dispatch_state'', JString ''failed'')]"

definition refailed_job :: AgentJob where
  "refailed_job = running_job\<lparr>aj_Status := ''failed'', aj_Notes := Some [''dispatching'', ''dispatch_failed''],
     aj_Result := Some outcome_data, aj_UpdatedAt := 1050\<rparr>"

lemma retry_outcome:
  "dispatch_outcome retry_plan running_job old_call (single_result retry_plan ''founder'' old_call) =
     (''failed'', [''dispatching'', ''dispatch_failed''], outcome_data)"
  "agentJobStore_update [running_job] ''j1'' ''failed'' (Some [''dispatching'', ''dispatch_failed'']) (Some outcome_data) 1050 =
     Inr (refailed_job, [refailed_job])"
  "list_all (\<lambda>kv. \<not> blank (fst kv) \<and> json_ok (snd kv)) (job_event_data refailed_job)"
  by code_simp+

section \<open>The run\<close>

lemma retry_room: "rm_Open (copyReviewRoom (now_store demo_env) demo_room) = []" by code_simp

lemma retry_runs:
  "\<exists>t. dispatch_steps job_world (\<lambda>_. demo_env) ''j1'' retry_service = (Inr (refailed_job, retry_policy, old_call, outcome_data), t)"
proof -
  let ?e = demo_env and ?s = retry_service
  have s: "sv_agentJob ?s = [failed_job]" "sv_gateway ?s = [old_call]" "sv_policy ?s = []" "sv_reviewRoom ?s = demo_room"
    and clock: "en_clock ?e 50 = 1050"
    by (simp_all add: retry_service_def demo_service_def demo_env_def)
  have d0: "disk_works ?e ?s" by (rule disk_works_frame [OF disk_works_demo]) (simp_all add: retry_service_def)
  have "update_ready ?e running_job ?s"
    using retry_start(4) s(4) retry_room by (simp add: update_ready_def findOpenReviewRoomItem_def Let_def)
  from UpdateAgentJob_works [OF clock_ok_demo d0 this] retry_start(3) s(1) clock obtain s1 where
    u1: "UpdateAgentJob ?e ''j1'' ''running'' (Some (appendUniqueString (elems (aj_Notes failed_job)) ''dispatching''))
        (Some (start_result_data retry_plan ''founder'')) ?s = (Inr running_job, s1)"
      "disk_works ?e s1" "core s1 = core (?s\<lparr>sv_agentJob := [running_job]\<rparr>)" by metis
  from CreatePolicy_works [OF clock_ok_demo u1(2) retry_policy_ok(1)] obtain s2 where
    p: "CreatePolicy ?e retry_policy s1 = (Inr (), s2)" "disk_works ?e s2" "core s2 = core (s1\<lparr>sv_policy := sv_policy s1 @ [retry_policy]\<rparr>)"
    by (auto simp: retry_policy_ok(2))
  have s2: "sv_agentJob s2 = [running_job]" "sv_gateway s2 = [old_call]" "sv_policy s2 = [retry_policy]"
    using core_job_call [OF p(3)] core_job_call [OF u1(3)] core_eqD(16) [OF p(3)] core_eqD(16) [OF u1(3)] s by simp_all
  have pol: "policyStore_get (sv_policy s2) (gc_DecisionID retry_call) = Some retry_policy"
    by (simp add: s2 retry_call_ok policyStore_get_def retry_policy_def)
  have mode: "pd_Decision retry_policy = ''go''"
    "canonicalPolicyMode (pd_Mode retry_policy) = canonicalPolicyMode (ga_RequiredMode (packetAdapter job_world retry_plan))"
    by (simp_all add: retry_policy_def retry_call_ok(5))
  from sent_call_works [OF clock_ok_demo p(2) pol mode retry_call_ok(3,4) retry_sent retry_call_ok(6,7)] obtain s3 where
    g: "createGatewayCallWithPayload ?e retry_call (packetAdapter job_world retry_plan) (Some []) s2 = (Inr (), s3)" "disk_works ?e s3"
      "sv_gateway s3 = [old_call, sent_call]" "sv_agentJob s3 = [running_job]" using s2 by auto
  have "gatewayStore_get (sv_gateway s3) (gc_CallID retry_call) = Some old_call"
    by (simp add: g retry_call_ok gatewayStore_get_def old_call_def)
  with g(1) have r: "run_gateway job_world (\<lambda>_. ?e) retry_plan ''founder'' running_job retry_policy (Some []) s2 =
      (Inr (old_call, single_result retry_plan ''founder'' old_call), s3)"
    by (simp add: run_gateway_def retry_plan_def [THEN arg_cong [of _ _ pl_council], simplified] dispatchGatewayCall_def retry_call_def)
  have "update_ready ?e refailed_job s3" using retry_outcome(3) by (simp add: update_ready_def refailed_job_def)
  from UpdateAgentJob_works [OF clock_ok_demo g(2) this] retry_outcome(2) g(4) clock obtain s4 where
    u4: "UpdateAgentJob ?e ''j1'' ''failed'' (Some [''dispatching'', ''dispatch_failed'']) (Some outcome_data) s3 = (Inr refailed_job, s4)"
    by metis
  have j: "agentJobStore_get [failed_job] ''j1'' = Some failed_job" "aj_Status failed_job = ''failed''" "aj_JobID running_job = ''j1''"
    "pl_provider retry_plan \<noteq> ''''" "transport_payload job_world retry_plan ''j1'' s2 = Inr (Some [])"
    by (simp_all add: agentJobStore_get_def failed_job_def running_job_def retry_plan_def transport_payload_def job_world_def)
  have "dispatch_steps job_world (\<lambda>_. ?e) ''j1'' ?s = (Inr (refailed_job, retry_policy, old_call, outcome_data), s4)"
    using u1(1) p(1) r u4 by (simp add: dispatch_steps_def Let_def s j retry_start(1,2) retry_policy_ok(3) retry_outcome(1))
  then show ?thesis by blast
qed

lemma retry_dispatch:
  "\<exists>r t. DispatchAgentJob 1 job_world (\<lambda>_. demo_env) ''j1'' retry_service = (Inr r, t)"
  using retry_runs by (auto simp: Let_def split: prod.splits sum.splits)

end
