(* ===== verification/Chain_Bound.thy ===== *)
theory Chain_Bound
  imports Job_Dispatch_Props
begin

text \<open>
  Why chained dispatch ends. A waiting job carries a load: one, and one for every node of the JSON of its
  chain rules. The rules of a job weigh at least as much as the loads of the jobs they create, and a dispatch
  that goes on to the rules of a job has taken the job off the waiting ones first. So no dispatch
  raises the total load, a nested one starts below it, and the load bounds the depth of nesting, whatever
  identifiers the chained jobs get.
\<close>

section \<open>Loads\<close>

fun nodes :: "json \<Rightarrow> nat" where
  "nodes (JArray vs) = Suc (sum_list (map nodes vs))"
| "nodes (JObject kvs) = Suc (sum_list (map (\<lambda>kv. nodes (snd kv)) kvs))"
| "nodes _ = 1"

definition rules_weight :: "jobject option \<Rightarrow> nat" where
  "rules_weight payload =
     (case payload of None \<Rightarrow> 0 | Some p \<Rightarrow> (case map_of p ''chain_rules'' of None \<Rightarrow> 0 | Some v \<Rightarrow> nodes v))"

definition load :: "AgentJob \<Rightarrow> nat" where
  "load job = (if waiting job then Suc (rules_weight (aj_Payload job)) else 0)"

definition pending :: "Service \<Rightarrow> nat" where
  "pending s = sum_list (map load (sv_agentJob s))"

lemma nodes_pos [simp]: "0 < nodes v" "Suc 0 \<le> nodes v" "nodes v \<noteq> 0"
  by (cases v; simp)+

lemma map_of_nodes: "map_of kvs k = Some v \<Longrightarrow> nodes v < nodes (JObject kvs)"
  by (induction kvs) (auto split: if_splits)

lemma find_nodes: "find P kvs = Some kv \<Longrightarrow> nodes (snd kv) < nodes (JObject kvs)"
  by (induction kvs) (auto split: if_splits)

lemma weight_nodes: "rules_weight (Some p) < nodes (JObject p)"
  using map_of_nodes [of p "''chain_rules''"] by (auto simp: rules_weight_def split: option.splits)

lemma field_nodes: "json_field name kvs = v \<Longrightarrow> v \<noteq> JNull \<Longrightarrow> nodes v < nodes (JObject kvs)"
  using find_nodes [of _ kvs] by (auto simp: json_field_def split: option.splits)

lemma map_value_cases: "map_value v = Some p \<Longrightarrow> p = None \<or> (\<exists>q. p = Some q \<and> v = JObject q)"
  by (cases v) (auto simp: map_value_def)

lemma rule_payload: "rule_value kvs = Some rule \<Longrightarrow> map_value (json_field ''payload'' kvs) = Some (cr_Payload rule)"
  by (auto simp: rule_value_def Let_def split: option.splits)

lemma rule_weight:
  assumes "rule_value kvs = Some rule" shows "Suc (rules_weight (cr_Payload rule)) \<le> nodes (JObject kvs)"
proof -
  let ?v = "json_field ''payload'' kvs"
  from map_value_cases [OF rule_payload [OF assms]] consider "cr_Payload rule = None" | p where "cr_Payload rule = Some p" "?v = JObject p"
    by (elim disjE exE conjE)
  then show ?thesis
  proof cases
    case (2 p)
    have "nodes (JObject p) < nodes (JObject kvs)" using field_nodes [OF 2(2)] by simp
    then show ?thesis using weight_nodes [of p] 2(1) by simp
  qed (simp add: rules_weight_def)
qed

lemma struct_rule_weight:
  assumes "struct_value rule_value v = Some rule" shows "Suc (rules_weight (cr_Payload rule)) \<le> nodes v"
proof (cases v)
  case JNull
  then show ?thesis using rule_weight [of "[]" rule] assms by (simp add: struct_value_def)
qed (use assms rule_weight in \<open>auto simp: struct_value_def\<close>)

definition rules_load :: "ChainRule list \<Rightarrow> nat" where
  "rules_load rules = sum_list (map (\<lambda>r. Suc (rules_weight (cr_Payload r))) rules)"

lemma those_load: "those (map (struct_value rule_value) vs) = Some rules \<Longrightarrow> rules_load rules \<le> sum_list (map nodes vs)"
proof (induction vs arbitrary: rules)
  case (Cons v vs)
  then obtain r rs where r: "struct_value rule_value v = Some r" "those (map (struct_value rule_value) vs) = Some rs" "rules = r # rs"
    by (auto split: option.splits)
  then show ?case using Cons.IH [OF r(2)] struct_rule_weight [OF r(1)] by (simp add: rules_load_def)
qed (simp add: rules_load_def)

lemma rules_value_load: "rules_value v = Some rules \<Longrightarrow> rules_load rules \<le> nodes v"
proof -
  have a: "rules_load rules \<le> nodes (json_field ''rules'' kvs)"
    if "array_value (struct_value rule_value) (json_field ''rules'' kvs) = Some rules" for kvs
    using that those_load by (cases "json_field ''rules'' kvs") (auto simp: array_value_def rules_load_def le_Suc_eq)
  have f: "nodes (json_field ''rules'' kvs) \<le> nodes (JObject kvs)" for kvs
    using field_nodes [of "''rules''" kvs] by (cases "json_field ''rules'' kvs = JNull") auto
  have o: "rules_load rules \<le> nodes (JObject kvs)"
    if "array_value (struct_value rule_value) (json_field ''rules'' kvs) = Some rules" for kvs
    using a [OF that] f by (rule order_trans)
  show "rules_value v = Some rules \<Longrightarrow> rules_load rules \<le> nodes v"
  proof (cases v)
    case JNull
    assume "rules_value v = Some rules"
    then show ?thesis using a [of "[]"] JNull by (simp add: rules_value_def struct_value_def json_field_def)
  next
    case (JObject kvs)
    assume "rules_value v = Some rules"
    then show ?thesis using o [of kvs] JObject by (simp add: rules_value_def struct_value_def)
  qed (simp_all add: rules_value_def struct_value_def)
qed

lemma payload_load:
  assumes "chainRulesFromPayload w payload = Inr (Some rules)" shows "rules_load rules \<le> rules_weight payload"
proof -
  from assms obtain p v where p: "payload = Some p" "map_of p ''chain_rules'' = Some v"
    by (auto simp: chainRulesFromPayload_def split: option.splits)
  have "rules_value v = Some rules"
    using assms p by (cases v) (auto simp: chainRulesFromPayload_def split: if_splits option.splits)
  then show ?thesis using rules_value_load p by (simp add: rules_weight_def)
qed

lemma child_load: "load (normalizeAgentJobItem now (chainedAgentJob now' parent rule)) \<le> Suc (rules_weight (cr_Payload rule))"
proof -
  have "map_of (chain_payload parent rule) ''chain_rules'' =
      map_of (case cloneJSONObject (cr_Payload rule) of None \<Rightarrow> [] | Some d \<Rightarrow> d) ''chain_rules''"
    by (simp add: chain_payload_def map_of_update Let_def split: option.splits)
  then have "rules_weight (Some (chain_payload parent rule)) \<le> rules_weight (cr_Payload rule)"
    by (auto simp: rules_weight_def cloneJSONObject_def split: option.splits if_splits)
  then show ?thesis by (simp add: load_def normalizeAgentJobItem_def chainedAgentJob_def Let_def)
qed

section \<open>Loads and the store of jobs\<close>

lemma pending_same: "sv_agentJob t = sv_agentJob s \<Longrightarrow> pending t = pending s"
  by (simp add: pending_def)

lemma pending_core: "core t = core s \<Longrightarrow> pending t = pending s"
  by (rule pending_same) (rule core_eqD(5))

lemma replace_first_load:
  "lookup aj_JobID j js = Some old \<Longrightarrow>
   sum_list (map load (replace_first (\<lambda>x. aj_JobID x = j) new js)) + load old = sum_list (map load js) + load new"
  by (induction js) (auto simp: lookup_def split: if_splits)

text \<open>An update moves the load of its job only.\<close>

lemma update_pending:
  assumes "agentJobStore_update (sv_agentJob s) jobID status nts result now = Inr (updated, items)" "sv_agentJob t = items"
  shows "\<exists>old. job_of s jobID = Some old \<and> aj_Payload updated = aj_Payload old \<and> pending t + load old = pending s + load updated"
proof -
  note u = agentJobStore_update_Inr [OF assms(1)]
  from u(4) obtain old where old: "job_of s jobID = Some old" "aj_Payload updated = aj_Payload old" by auto
  have "pending t + load old = pending s + load updated"
    using replace_first_load [OF old(1), of updated] u(3) assms(2) by (simp add: pending_def)
  then show ?thesis using old by blast
qed

lemma UpdateAgentJob_pending:
  assumes "UpdateAgentJob e jobID status nts result s = (Inr updated, t)"
  shows "\<exists>old. job_of s jobID = Some old \<and> aj_Payload updated = aj_Payload old \<and> pending t + load old = pending s + load updated"
proof -
  from UpdateAgentJob_Inr [OF assms] obtain items where
    i: "agentJobStore_update (sv_agentJob s) jobID status nts result (en_clock e 50) = Inr (updated, items)"
      "core t = core (s\<lparr>sv_agentJob := items\<rparr>)" by blast
  show ?thesis using update_pending [OF i(1)] jobs_core [OF i(2)] by simp
qed

lemma UpdateAgentJob_Inl:
  assumes "UpdateAgentJob e jobID status nts result s = (Inl err, t)" shows "sv_agentJob t = sv_agentJob s"
proof -
  have "updateAgentJobLocked e jobID status nts result ''agent_job.updated'' s = (Inl err, t)"
    using assms by (auto simp: UpdateAgentJob_def split: prod.splits sum.splits)
  from updateAgentJobLocked_cases [OF this] show ?thesis by auto
qed

lemma CreateAgentJob_adds:
  "sv_agentJob (snd (CreateAgentJob e item s)) \<in>
     {sv_agentJob s, sv_agentJob s @ [normalizeAgentJobItem (en_clock e 50) item]}"
proof -
  let ?P = "\<lambda>t. sv_agentJob t \<in> {sv_agentJob s, sv_agentJob s @ [normalizeAgentJobItem (en_clock e 50) item]}"
  have p: "?P (snd (persist_or e (\<lambda>t. restore_event e (sv_event s) (t\<lparr>sv_agentJob := sv_agentJob s\<rparr>)) () u))"
    if "?P u" for u
  proof (rule persist_or_keeps)
    show "?P (restore_event e (sv_event s) (t\<lparr>sv_agentJob := sv_agentJob s\<rparr>))" for t by (simp add: restore_event_def)
    show "?P t" if "core t = core u" for t using jobs_core [OF that] \<open>?P u\<close> by simp
  qed
  have "?P (snd (createAgentJobLocked e item s))"
    by (auto simp: createAgentJobLocked_def agentJobStore_create_def event_or_def Let_def split: sum.splits option.splits if_splits)
  moreover obtain x s1 where "createAgentJobLocked e item s = (x, s1)" by fastforce
  ultimately show ?thesis using p [of s1] by (cases x) (simp_all add: CreateAgentJob_def split: option.splits)
qed

lemma create_child_pending:
  "pending (snd (CreateAgentJob e (chainedAgentJob now parent rule) s)) \<le> pending s + Suc (rules_weight (cr_Payload rule))"
  using CreateAgentJob_adds [of e "chainedAgentJob now parent rule" s] child_load [of "en_clock e 50" now parent rule]
  by (auto simp: pending_def)

section \<open>The chain of a report\<close>

locale bounded_dispatcher =
  fixes dispatch :: dispatcher
  assumes dispatch_pending: "pending (snd (dispatch i j s)) \<le> pending s"
begin

lemma chain_dispatch_pending: "pending (snd (chain_dispatch dispatch i rule what child result s)) \<le> pending s"
  using dispatch_pending [of i child s] by (auto simp: chain_dispatch_def split: prod.splits option.splits)

lemma chain_rule_pending:
  "pending (snd (chain_rule e dispatch i parent rule result s)) \<le> pending s + Suc (rules_weight (cr_Payload rule))"
proof -
  let ?child = "chainedAgentJob (en_clock e 49) parent rule"
  obtain r s1 where c: "CreateAgentJob e ?child s = (r, s1)" by fastforce
  have k1: "pending s1 \<le> pending s + Suc (rules_weight (cr_Payload rule))"
    using create_child_pending [of e "en_clock e 49" parent rule s] c by simp
  have "pending (snd (chain_dispatch dispatch i rule what child res s1)) \<le> pending s + Suc (rules_weight (cr_Payload rule))"
    for what child res using chain_dispatch_pending k1 by (rule order_trans)
  then show ?thesis using c k1 by (cases r) (simp_all add: chain_rule_def Let_def split: option.splits)
qed

lemma apply_rules_pending:
  "pending (snd (apply_rules es dispatch i parent rules result s)) \<le> pending s + rules_load rules"
proof (induction rules arbitrary: i result s)
  case (Cons rule rules)
  obtain x res t where c: "chain_rule (es i) dispatch i parent rule result s = ((x, res), t)" by (metis surj_pair)
  have "pending t \<le> pending s + Suc (rules_weight (cr_Payload rule))" using chain_rule_pending [of "es i" i parent rule result s] c by simp
  then show ?case using Cons [of "Suc i" result s] Cons [of "Suc i" res t] c
    by (cases x) (simp_all add: rules_load_def)
qed (simp add: rules_load_def)

lemma chain_pending:
  "pending (snd (ApplyAgentJobChain w es dispatch parent s)) \<le> pending s + rules_weight (aj_Payload parent)"
proof (cases "chainRulesFromPayload w (aj_Payload parent)")
  case (Inr r)
  show ?thesis
  proof (cases r)
    case (Some rules)
    then show ?thesis
      using apply_rules_pending [of es 0 parent rules "start_result (aj_JobID parent)" s] payload_load [of w "aj_Payload parent" rules] Inr
      by (simp add: ApplyAgentJobChain_def)
  qed (simp add: ApplyAgentJobChain_def Inr)
qed (simp add: ApplyAgentJobChain_def)

lemma report_chain_pending: "pending (snd (report_chain w es dispatch job s)) \<le> pending s + rules_weight (aj_Payload job)"
proof -
  obtain x c t where c: "ApplyAgentJobChain w (\<lambda>i. es (5 + i)) dispatch job s = ((x, c), t)" by (metis surj_pair)
  have "pending t \<le> pending s + rules_weight (aj_Payload job)" using chain_pending [of w "\<lambda>i. es (5 + i)" job s] c by simp
  moreover have "pending (recordAutomationWarning e item t) = pending t" for e item
    by (rule pending_core) (simp add: recordAutomationWarning_def)
  ultimately show ?thesis using c by (cases x) (simp_all add: report_chain_def)
qed

end

lemma load_cong: "aj_Status a = aj_Status b \<Longrightarrow> aj_Payload a = aj_Payload b \<Longrightarrow> load a = load b"
  by (simp add: load_def waiting_def)

lemma follow_up_pending: "pending (snd (report_follow_up e rep s)) = pending s"
proof -
  let ?j = "aj_JobID (jr_Job rep)" and ?p = "Some [(''follow_up'', JObject (agentJobFollowUpPayload (jr_FollowUp rep)))]"
  obtain x t where x: "applyAgentJobResultPatchLocked e ?j ?p s = (x, t)" by fastforce
  from applyPatch_cases [OF x] have "pending t = pending s"
  proof (elim disjE exE conjE)
    fix cur updated items
    assume c: "job_of s ?j = Some cur" and i: "sv_agentJob t = items"
      and u: "agentJobStore_update (sv_agentJob s) ?j (aj_Status cur) (aj_Notes cur)
         (Some (merge_patch (case cloneJSONObject (aj_Result cur) of None \<Rightarrow> [] | Some r \<Rightarrow> r)
            (case cloneJSONObject ?p of None \<Rightarrow> [] | Some p \<Rightarrow> p))) (en_clock e 50) = Inr (updated, items)"
    from update_pending [OF u i] c have "aj_Payload updated = aj_Payload cur" "pending t + load cur = pending s + load updated" by auto
    moreover have "aj_Status updated = aj_Status cur" using agentJobStore_update_Inr(2) [OF u] .
    ultimately show ?thesis using load_cong [of updated cur] by simp
  qed (rule pending_same)
  then show ?thesis using x by (cases x) (simp_all add: report_follow_up_def)
qed

text \<open>The update of a verdict takes the load of the job away; the chain may use the weight of its rules.\<close>

lemma verdict_pending:
  assumes "updateAgentJobLocked e jobID status nts result kind s = (Inr (updated, ev), t)" "status \<notin> {''queued'', ''failed''}"
    "job_of s jobID = Some current"
  shows "pending t + load current = pending s" "aj_Payload updated = aj_Payload current"
proof -
  from updateAgentJobLocked_cases [OF assms(1)] obtain items where
    i: "agentJobStore_update (sv_agentJob s) jobID status nts result (en_clock e 50) = Inr (updated, items)"
      "core t = core (s\<lparr>sv_agentJob := items\<rparr>)" by auto
  have "load updated = 0" using agentJobStore_update_Inr(2) [OF i(1)] assms(2) by (simp add: load_def waiting_def)
  then show "pending t + load current = pending s" "aj_Payload updated = aj_Payload current"
    using update_pending [OF i(1), of t] jobs_core [OF i(2)] assms(3) by auto
qed

lemma report_stages_pending:
  assumes "report_capitalize w e1 updated ev s1 = ((entry, w1), s2)" "report_observe U e2 updated ev s2 = (w2, s3)"
  shows "pending s3 = pending s1"
  using report_capitalize_jobs [of w e1 updated ev s1] report_observe_jobs [of U e2 updated ev s2] assms
  by (simp add: pending_def)

context bounded_dispatcher
begin

lemma report_pending:
  assumes "status \<notin> {''queued'', ''failed''}" "job_of s jobID = Some current"
  shows "pending (snd (ReportAgentJob w U es dispatch jobID status nts result s)) \<le> pending s + rules_weight (aj_Payload current)"
proof (cases "ReportAgentJob w U es dispatch jobID status nts result s")
  case (Pair x t)
  show ?thesis
  proof (cases x)
    case (Inl err)
    from ReportAgentJob_Inl [OF Pair [unfolded Inl]] have "sv_agentJob t = sv_agentJob s"
    proof (elim disjE exE)
      fix r assume "updateAgentJobLocked (es 0) jobID status nts (Some r) (''agent_job.'' @ status) s = (Inl err, t)"
      from updateAgentJobLocked_cases [OF this] show ?thesis by auto
    qed simp
    then show ?thesis using Pair pending_same [of t s] by simp
  next
    case (Inr rep)
    from Pair [unfolded Inr] obtain current' r updated ev s1 s2 s3 s4 entry w1 w2 chain w3 rep0 where
      u: "updateAgentJobLocked (es 0) jobID status nts (Some r) (''agent_job.'' @ status) s = (Inr (updated, ev), s1)"
      and c: "report_capitalize w (es 1) updated ev s1 = ((entry, w1), s2)" "report_observe U (es 2) updated ev s2 = (w2, s3)"
        "report_chain w es dispatch updated s3 = ((chain, w3), s4)"
      and f: "report_follow_up (es 4) rep0 s4 = (rep, t)" by (rule ReportAgentJob_Inr)
    note v = verdict_pending [OF u assms]
    have "pending s4 \<le> pending s3 + rules_weight (aj_Payload updated)" using report_chain_pending [of w es updated s3] c(3) by simp
    moreover have "pending t = pending s4" using follow_up_pending [of "es 4" rep0 s4] f by simp
    ultimately show ?thesis using v report_stages_pending [OF c(1,2)] Pair by simp
  qed
qed

end

section \<open>Dispatch\<close>

text \<open>A dispatch that stops early has changed no job, or has only started its own.\<close>

lemma dispatch_steps_Inl:
  assumes "dispatch_steps w es jobID s = (Inl err, t)"
  shows "sv_agentJob t = sv_agentJob s \<or>
    (\<exists>e nts r updated s1. UpdateAgentJob e jobID ''running'' nts r s = (Inr updated, s1) \<and> sv_agentJob t = sv_agentJob s1)"
proof (cases "job_of s jobID")
  case None
  then show ?thesis using assms by (simp add: dispatch_steps_def agentJobStore_get_def)
next
  case (Some job)
  let ?p = "plan_dispatch w (es [0]) job" and ?actor = "currentActor (es [0]) s"
  obtain x1 s1 where u1: "UpdateAgentJob (es [0]) jobID ''running'' (Some (appendUniqueString (elems (aj_Notes job)) ''dispatching''))
      (Some (start_result_data ?p ?actor)) s = (x1, s1)" by fastforce
  show ?thesis
  proof (cases "waiting job \<and> pl_provider ?p \<noteq> ''''")
    case False
    then show ?thesis using assms Some by (auto simp: dispatch_steps_def agentJobStore_get_def waiting_def Let_def split: if_splits)
  next
    case True
    then have run: "(case x1 of Inl err \<Rightarrow> (Inl err, s1) | Inr updated \<Rightarrow>
        case job_policy (es [1]) updated s1 of (Inl err, s2) \<Rightarrow> (Inl err, s2) | (Inr policy, s2) \<Rightarrow>
        case transport_payload w ?p (aj_JobID updated) s2 of Inl err \<Rightarrow> (Inl err, s2) | Inr payload \<Rightarrow>
        case run_gateway w es ?p ?actor updated policy payload s2 of (Inl err, s3) \<Rightarrow> (Inl err, s3) | (Inr (gateway, result0), s3) \<Rightarrow>
        case dispatch_outcome ?p updated gateway result0 of (status, notes, result) \<Rightarrow>
        case UpdateAgentJob (es [4]) jobID status (Some notes) (Some result) s3 of
          (Inl err, s4) \<Rightarrow> (Inl err, s4)
        | (Inr final, s4) \<Rightarrow> (Inr (final, policy, gateway, result), s4)) = (Inl err, t)"
      using assms Some u1 by (cases x1) (auto simp: dispatch_steps_def agentJobStore_get_def waiting_def Let_def)
    show ?thesis
    proof (cases x1)
      case (Inl e1)
      then show ?thesis using run UpdateAgentJob_Inl [of "es [0]" jobID "''running''"] u1 by auto
    next
      case x1: (Inr updated)
      obtain x2 s2 where p2: "job_policy (es [1]) updated s1 = (x2, s2)" by fastforce
      have j2: "sv_agentJob s2 = sv_agentJob s1" using job_policy_frame(1) [of "es [1]" updated s1] p2 by simp
      have "sv_agentJob t = sv_agentJob s1"
      proof (cases "\<exists>policy payload. x2 = Inr policy \<and> transport_payload w ?p (aj_JobID updated) s2 = Inr payload")
        case False
        then show ?thesis using run x1 p2 j2 by (cases x2) (auto split: sum.splits)
      next
        case True
        then obtain policy payload where x2: "x2 = Inr policy" "transport_payload w ?p (aj_JobID updated) s2 = Inr payload" by blast
        obtain x3 s3 where r3: "run_gateway w es ?p ?actor updated policy payload s2 = (x3, s3)" by fastforce
        have j3: "sv_agentJob s3 = sv_agentJob s1"
          using run_gateway_jobs [of w es ?p ?actor updated policy payload s2] r3 j2 by simp
        show ?thesis
        proof (cases x3)
          case (Inl e3)
          then show ?thesis using run x1 p2 x2 r3 j3 by simp
        next
          case (Inr g)
          obtain gateway result0 where g: "g = (gateway, result0)" by fastforce
          obtain status nts result where o: "dispatch_outcome ?p updated gateway result0 = (status, nts, result)" by (metis surj_pair)
          obtain x4 s4 where u4: "UpdateAgentJob (es [4]) jobID status (Some nts) (Some result) s3 = (x4, s4)" by fastforce
          have "x4 = Inl err" "s4 = t" using run x1 p2 x2 r3 Inr g o u4 by (cases x4; simp)+
          then show ?thesis using UpdateAgentJob_Inl [of "es [4]" jobID status "Some nts" "Some result" s3 err t] u4 j3 by simp
        qed
      qed
      then show ?thesis using u1 x1 by blast
    qed
  qed
qed

lemma running_load: "aj_Status job = ''running'' \<Longrightarrow> load job = 0"
  by (simp add: load_def waiting_def)

lemma dispatch_steps_pending:
  assumes "dispatch_steps w es jobID s = (Inl err, t)" shows "pending t \<le> pending s"
  using dispatch_steps_Inl [OF assms]
proof (elim disjE exE conjE)
  assume "sv_agentJob t = sv_agentJob s"
  then show ?thesis using pending_same [of t s] by simp
next
  fix e nts r updated s1
  assume u: "UpdateAgentJob e jobID ''running'' nts r s = (Inr updated, s1)" and t: "sv_agentJob t = sv_agentJob s1"
  have "aj_Status updated = ''running''" using UpdateAgentJob_Inr [OF u] agentJobStore_update_Inr(2) by blast
  then have "load updated = 0" by (rule running_load)
  moreover obtain old where "pending s1 + load old = pending s + load updated" using UpdateAgentJob_pending [OF u] by blast
  ultimately show ?thesis using pending_same [OF t] by simp
qed

lemma dispatch_steps_load:
  assumes "dispatch_steps w es jobID s = (Inr (final, policy, gateway, result), t)"
  shows "\<exists>job. job_of s jobID = Some job \<and> aj_Payload final = aj_Payload job \<and> waiting job \<and> pending t + load job = pending s + load final"
proof -
  from assms obtain job p updated s1 s2 s3 payload result0 status nts where
    j: "job_of s jobID = Some job" "waiting job" and
    u1: "UpdateAgentJob (es [0]) jobID ''running'' (Some (appendUniqueString (elems (aj_Notes job)) ''dispatching''))
       (Some (start_result_data p (currentActor (es [0]) s))) s = (Inr updated, s1)"
    and p2: "job_policy (es [1]) updated s1 = (Inr policy, s2)"
    and r3: "run_gateway w es p (currentActor (es [0]) s) updated policy payload s2 = (Inr (gateway, result0), s3)"
    and u4: "UpdateAgentJob (es [4]) jobID status (Some nts) (Some result) s3 = (Inr final, t)"
    by (rule dispatch_steps_Inr)
  from UpdateAgentJob_Inr [OF u1] obtain i1 where i1: "agentJobStore_update (sv_agentJob s) jobID ''running''
       (Some (appendUniqueString (elems (aj_Notes job)) ''dispatching'')) (Some (start_result_data p (currentActor (es [0]) s)))
       (en_clock (es [0]) 50) = Inr (updated, i1)" "core s1 = core (s\<lparr>sv_agentJob := i1\<rparr>)" by blast
  note a1 = agentJobStore_update_Inr [OF i1(1)]
  have s3: "sv_agentJob s3 = sv_agentJob s1"
    using run_gateway_jobs [of w es p "currentActor (es [0]) s" updated policy payload s2] r3 job_policy_frame(1) [of "es [1]" updated s1] p2 by simp
  then have "job_of s3 jobID = Some updated" using a1(6) jobs_core [OF i1(2)] by simp
  with UpdateAgentJob_pending [OF u4] have f: "aj_Payload final = aj_Payload updated" "pending t + load updated = pending s3 + load final"
    by auto
  from UpdateAgentJob_pending [OF u1] j(1) have "aj_Payload updated = aj_Payload job" "pending s1 + load job = pending s + load updated"
    by auto
  then show ?thesis using f j pending_same [OF s3] by auto
qed

lemma notify_pending [simp]: "pending (notify_dispatch w e job gateway s) = pending s"
  by (rule pending_core) simp

text \<open>A dispatch that goes on to its chain leaves room for the rules of the job below the load it started with.\<close>

lemma auto_close_room:
  assumes "dispatch_steps w es jobID s = (Inr (final, policy, gateway, result), t)" "jobAllowsDirectLLMAutoClose final gateway"
  shows "pending (notify_dispatch w e final gateway t) + rules_weight (aj_Payload final) < pending s"
    "job_of (notify_dispatch w e final gateway t) jobID = Some final"
proof -
  from dispatch_steps_load [OF assms(1)] obtain job where
    j: "aj_Payload final = aj_Payload job" "waiting job" "pending t + load job = pending s + load final" by blast
  have "aj_Status final = ''running''"
    using dispatch_status(1) [OF assms(1)] assms(2) by (simp add: jobAllowsDirectLLMAutoClose_def)
  then have "load final = 0" by (rule running_load)
  then show "pending (notify_dispatch w e final gateway t) + rules_weight (aj_Payload final) < pending s"
    using j by (simp add: load_def)
  show "job_of (notify_dispatch w e final gateway t) jobID = Some final"
    using dispatch_status(3) [OF assms(1)] jobs_core [OF notify_core [of w e final gateway t]] by simp
qed

lemma DispatchAgentJob_pending: "pending (snd (DispatchAgentJob fuel w es jobID s)) \<le> pending s"
proof (induction fuel arbitrary: es jobID s)
  case (Suc fuel)
  have d: "bounded_dispatcher (chained_dispatch fuel w es)" by unfold_locales (simp add: snd_chained Suc)
  obtain x t where x: "dispatch_steps w es jobID s = (x, t)" by fastforce
  show ?case
  proof (cases x)
    case (Inl err)
    then show ?thesis using x dispatch_steps_pending [of w es jobID s err t] by (simp add: DispatchAgentJob_Suc del: DispatchAgentJob.simps)
  next
    case (Inr r)
    obtain final policy gateway result where r: "r = (final, policy, gateway, result)" by (metis surj_pair)
    note steps = x [unfolded Inr r]
    let ?t1 = "notify_dispatch w (es [5]) final gateway t"
    from dispatch_steps_load [OF steps] obtain job where
      j: "aj_Payload final = aj_Payload job" "waiting job" "pending t + load job = pending s + load final" by blast
    have t1: "pending ?t1 \<le> pending s" using j by (simp add: load_def split: if_splits)
    obtain y u where y: "ReportAgentJob (dw_report w) (dw_parseURL w) (\<lambda>k. es [6, k]) (chained_dispatch fuel w es) jobID ''succeeded''
        (Some (appendUniqueString (elems (aj_Notes final)) ''auto_closed'')) (Some (auto_close_result final gateway result)) ?t1 = (y, u)"
      by fastforce
    have "pending u \<le> pending s" if a: "jobAllowsDirectLLMAutoClose final gateway"
    proof -
      have "''succeeded'' \<notin> {''queued'', ''failed''}" by simp
      from bounded_dispatcher.report_pending [OF d this auto_close_room(2) [OF steps a, of "es [5]"], of "dw_report w" "dw_parseURL w"
          "\<lambda>k. es [6, k]" "Some (appendUniqueString (elems (aj_Notes final)) ''auto_closed'')" "Some (auto_close_result final gateway result)"]
      have "pending u \<le> pending ?t1 + rules_weight (aj_Payload final)" unfolding y by simp
      then show ?thesis using auto_close_room(1) [OF steps a, of "es [5]"] by linarith
    qed
    then show ?thesis using steps t1 y by (cases y) (simp_all add: DispatchAgentJob_Suc Let_def del: DispatchAgentJob.simps)
  qed
qed simp

interpretation chain: bounded_dispatcher "chained_dispatch fuel w es" for fuel w es
  by unfold_locales (simp add: snd_chained DispatchAgentJob_pending)

section \<open>The fuel does not matter\<close>

text \<open>Two dispatchers that agree on services with a load of at most \<open>B\<close>.\<close>

locale agreeing_dispatchers = bounded_dispatcher dispatch for dispatch +
  fixes dispatch' :: dispatcher and B :: nat
  assumes agree: "pending s \<le> B \<Longrightarrow> dispatch' i j s = dispatch i j s"
begin

lemma chain_rule_agrees:
  assumes "pending s + Suc (rules_weight (cr_Payload rule)) \<le> B"
  shows "chain_rule e dispatch' i parent rule result s = chain_rule e dispatch i parent rule result s"
proof -
  obtain r s1 where c: "CreateAgentJob e (chainedAgentJob (en_clock e 49) parent rule) s = (r, s1)" by fastforce
  have "pending s1 \<le> B" using create_child_pending [of e "en_clock e 49" parent rule s] c assms by simp
  then have "chain_dispatch dispatch' i rule what child res s1 = chain_dispatch dispatch i rule what child res s1" for what child res
    by (simp add: chain_dispatch_def agree)
  then show ?thesis using c by (cases r) (simp_all add: chain_rule_def Let_def split: option.splits)
qed

lemma apply_rules_agrees:
  "pending s + rules_load rules \<le> B \<Longrightarrow>
   apply_rules es dispatch' i parent rules result s = apply_rules es dispatch i parent rules result s"
proof (induction rules arbitrary: i result s)
  case (Cons rule rules)
  obtain x res t where c: "chain_rule (es i) dispatch i parent rule result s = ((x, res), t)" by (metis surj_pair)
  have "pending t \<le> pending s + Suc (rules_weight (cr_Payload rule))" using chain_rule_pending [of "es i" i parent rule result s] c by simp
  moreover have "chain_rule (es i) dispatch' i parent rule result s = ((x, res), t)"
    using chain_rule_agrees [of s rule] Cons.prems c by (simp add: rules_load_def)
  ultimately show ?case using Cons.IH [of s "Suc i" result] Cons.IH [of t "Suc i" res] Cons.prems c
    by (cases x) (simp_all add: rules_load_def)
qed simp

lemma report_chain_agrees:
  assumes "pending s + rules_weight (aj_Payload parent) \<le> B"
  shows "report_chain w es dispatch' parent s = report_chain w es dispatch parent s"
proof -
  have "apply_rules (\<lambda>i. es (5 + i)) dispatch' 0 parent rules r s = apply_rules (\<lambda>i. es (5 + i)) dispatch 0 parent rules r s"
    if "chainRulesFromPayload w (aj_Payload parent) = Inr (Some rules)" for rules r
    using payload_load [OF that] assms by (intro apply_rules_agrees) simp
  then have "ApplyAgentJobChain w (\<lambda>i. es (5 + i)) dispatch' parent s = ApplyAgentJobChain w (\<lambda>i. es (5 + i)) dispatch parent s"
    by (simp add: ApplyAgentJobChain_def split: sum.splits option.splits)
  then show ?thesis by (simp add: report_chain_def)
qed

lemma report_agrees:
  assumes "status \<notin> {''queued'', ''failed''}" "job_of s jobID = Some current" "pending s + rules_weight (aj_Payload current) \<le> B"
  shows "ReportAgentJob w U es dispatch' jobID status nts result s = ReportAgentJob w U es dispatch jobID status nts result s"
proof -
  have agrees: "report_chain w es dispatch' updated s3 = report_chain w es dispatch updated s3"
    if u: "updateAgentJobLocked (es 0) jobID status nts (Some r) (''agent_job.'' @ status) s = (Inr (updated, ev), s1)"
      and c: "report_capitalize w (es 1) updated ev s1 = ((entry, w1), s2)" "report_observe U (es 2) updated ev s2 = (w2, s3)"
    for r updated ev s1 s2 s3 entry w1 w2
    using verdict_pending [OF u assms(1,2)] report_stages_pending [OF c] assms(3) by (intro report_chain_agrees) simp
  show ?thesis
  proof (cases "normalizeAgentJobReportResult w current status result (currentActor (es 0) s)")
    case (Inr r)
    obtain x s1 where u: "updateAgentJobLocked (es 0) jobID status nts (Some r) (''agent_job.'' @ status) s = (x, s1)" by fastforce
    show ?thesis
    proof (cases x)
      case x: (Inr p)
      obtain updated ev where p: "p = (updated, ev)" by fastforce
      obtain entry w1 s2 where c1: "report_capitalize w (es 1) updated ev s1 = ((entry, w1), s2)" by (metis surj_pair)
      obtain w2 s3 where c2: "report_observe U (es 2) updated ev s2 = (w2, s3)" by fastforce
      show ?thesis using agrees [OF u [unfolded x p] c1 c2] assms(2) Inr u x p c1 c2
        by (simp add: ReportAgentJob_def agentJobStore_get_def Let_def)
    qed (use assms(2) Inr u in \<open>simp add: ReportAgentJob_def agentJobStore_get_def\<close>)
  qed (use assms(2) in \<open>simp add: ReportAgentJob_def agentJobStore_get_def\<close>)
qed

end

lemma DispatchAgentJob_fuel:
  assumes "pending s < fuel" "pending s < fuel'"
  shows "DispatchAgentJob fuel' w es jobID s = DispatchAgentJob fuel w es jobID s"
  using assms
proof (induction fuel arbitrary: fuel' es jobID s)
  case (Suc f)
  then obtain f' where f': "fuel' = Suc f'" by (cases fuel') auto
  obtain x t where x: "dispatch_steps w es jobID s = (x, t)" by fastforce
  show ?case
  proof (cases x)
    case (Inl err)
    then show ?thesis using x f' by (simp add: DispatchAgentJob_Suc del: DispatchAgentJob.simps)
  next
    case (Inr r)
    obtain final policy gateway result where r: "r = (final, policy, gateway, result)" by (metis surj_pair)
    note steps = x [unfolded Inr r]
    show ?thesis
    proof (cases "jobAllowsDirectLLMAutoClose final gateway")
      case False
      then show ?thesis using steps f' by (simp add: DispatchAgentJob_Suc Let_def del: DispatchAgentJob.simps)
    next
      case a: True
      note room = auto_close_room [OF steps a, of "es [5]"]
      have "chained_dispatch f' w es i j u = chained_dispatch f w es i j u" if "pending u \<le> pending s - 1" for i j u
      proof -
        have "pending u < f" "pending u < f'" using that Suc.prems f' room(1) by linarith+
        then show ?thesis using Suc.IH [of u f' "\<lambda>path. es (7 # i # path)" j] by (simp add: chained_dispatch_def)
      qed
      then have ag: "agreeing_dispatchers (chained_dispatch f w es) (chained_dispatch f' w es) (pending s - 1)"
        by unfold_locales
      have "''succeeded'' \<notin> {''queued'', ''failed''}" by simp
      note same = agreeing_dispatchers.report_agrees [OF ag this room(2)]
      show ?thesis using steps f' a room(1) same
        by (simp add: DispatchAgentJob_Suc Let_def del: DispatchAgentJob.simps)
    qed
  qed
qed simp

interpretation enough: agreeing_dispatchers "chained_dispatch (Suc B) w es" "chained_dispatch (Suc (B + k)) w es" B for B k w es
proof unfold_locales
  fix s i j assume "pending s \<le> B"
  then have "DispatchAgentJob (Suc (B + k)) w p j s = DispatchAgentJob (Suc B) w p j s" for p
    by (intro DispatchAgentJob_fuel) simp_all
  then show "chained_dispatch (Suc (B + k)) w es i j s = chained_dispatch (Suc B) w es i j s"
    by (simp only: chained_dispatch_def)
qed

end
