(* ===== verification/Guarantees_Jobs.thy ===== *)
theory Guarantees_Jobs
  imports Job_Demo Dispatch_Demo Chain_Bound
begin

text \<open>
  Guarantees of agent jobs: what a report is checked against and what it leaves, what a dispatch may do to
  a job, and how often a provider is asked.
\<close>

section \<open>Reports\<close>



text \<open>C12. A verdict stands. When a report of success or cancellation is done, including the jobs its chain rules create and
  dispatch and the reports those dispatches make in turn, the job has the reported status and a result that names the verdict
  and the reporting actor, and every other job that was neither queued nor failed is as it was.\<close>

theorem report_verdict_stands:
  assumes "ReportAgentJob w U es (chained_dispatch fuel dw des) jobID status nts result s = (Inr rep, t)" "status \<noteq> ''failed''"
  shows "(\<exists>job r. job_of t jobID = Some job \<and> aj_Status job = status \<and> aj_Result job = Some r \<and>
      map_of r ''report_status'' = Some (JString status) \<and>
      map_of r ''reported_by_actor'' = Some (JString (normalizeActor (currentActor (es 0) s)))) \<and>
    (\<forall>j job. j \<noteq> jobID \<longrightarrow> job_of s j = Some job \<longrightarrow> aj_Status job \<notin> {''queued'', ''failed''} \<longrightarrow> job_of t j = Some job)"
  using chained.report_settles [OF assms] chained.report_kept [of jobID s w U es fuel dw des status nts result] assms(1)
  by (simp add: kept_def waiting_def)

theorem report_verdict_stands_witness:
  "\<exists>rep t job. ReportAgentJob report_world_demo (\<lambda>_. None) (\<lambda>_. demo_env) (chained_dispatch 1 job_world (\<lambda>_. demo_env)) ''j2''
      ''succeeded'' (Some []) (Some (scoped_result [''src/a.go''])) report_service = (Inr rep, t) \<and>
    job_of t ''j2'' = Some job \<and> aj_Status job = ''succeeded''"
proof -
  from report_runs(1) [of "\<lambda>_. None" "chained_dispatch 1 job_world (\<lambda>_. demo_env)"] obtain rep t where
    r: "ReportAgentJob report_world_demo (\<lambda>_. None) (\<lambda>_. demo_env) (chained_dispatch 1 job_world (\<lambda>_. demo_env)) ''j2''
      ''succeeded'' (Some []) (Some (scoped_result [''src/a.go''])) report_service = (Inr rep, t)" by blast
  from report_verdict_stands [OF r] r show ?thesis by auto
qed

text \<open>A refused report leaves no trace: every store, the company state, the event log and the tokens are as they were,
  and so is the review room unless audits are promoted on save.\<close>

theorem refused_report_leaves_no_trace:
  assumes "clock_ok (es 0)" "restorable s" "ReportAgentJob w U es dispatch jobID status nts result s = (Inl err, t)"
  shows "core t = core s \<and> sv_event t = sv_event s \<and> room_inv (sv_reviewRoom t) \<and>
    (\<not> en_auditPromotion (es 0) \<longrightarrow> sv_reviewRoom t = sv_reviewRoom s)"
  using ReportAgentJob_Inl [OF assms(3)]
proof (elim disjE exE)
  assume "t = s"
  then show ?thesis using assms(2) by (simp add: restorable_def)
next
  fix r assume "updateAgentJobLocked (es 0) jobID status nts (Some r) (''agent_job.'' @ status) s = (Inl err, t)"
  then show ?thesis
    using updateAgentJobLocked_spec [OF assms(1,2), of jobID status nts "Some r" "''agent_job.'' @ status"]
    by (simp add: sat_def unchanged_def)
qed

theorem refused_report_leaves_no_trace_witness:
  "\<exists>err t. ReportAgentJob report_world_demo (\<lambda>_. None) (\<lambda>_. demo_env) (\<lambda>_ _ s. (None, s)) ''j9'' ''canceled'' None None demo_service =
      (Inl err, t) \<and> core t = core demo_service \<and> sv_event t = sv_event demo_service \<and> sv_reviewRoom t = sv_reviewRoom demo_service"
proof -
  obtain err t where r: "ReportAgentJob report_world_demo (\<lambda>_. None) (\<lambda>_. demo_env) (\<lambda>_ _ s. (None, s)) ''j9'' ''canceled'' None None demo_service =
      (Inl err, t)" by (simp add: ReportAgentJob_def validAgentJobTerminalStatus_def agentJobStore_get_def demo_service_def)
  have "\<not> en_auditPromotion demo_env" by (simp add: demo_env_def)
  with refused_report_leaves_no_trace [OF _ restorable_demo r] clock_ok_demo r show ?thesis by blast
qed

text \<open>C30. Paths that leave the repository are not evidence. A result whose only paths are relative and climb out of the
  repository passes the path check of every job, whatever its allowed and blocked directories and whether or not anything
  exists there; a path in the repository is checked against all three.\<close>

theorem escaping_paths_unchecked:
  assumes "\<And>key raw. key \<in> {''changed_paths'', ''touched_paths'', ''artifact_relative_paths''} \<Longrightarrow>
      raw \<in> set (resultStringList (map_of r key)) \<Longrightarrow> \<not> IsAbs raw \<and> (\<exists>x xs. path_elements raw = ''..'' # x # xs)"
    "map_of r ''artifact_relative_path'' = None" "map_of r ''artifact_path'' = None"
  shows "validateAgentJobPathEvidence w job r = None"
proof -
  have "classifyAgentJobPathEvidence raw b = None" if m: "(raw, b) \<in> set (named_paths r)" for raw b
  proof -
    consider "raw = ''''" | key where "b" "key \<in> {''changed_paths'', ''touched_paths'', ''artifact_relative_paths''}"
        "raw \<in> set (resultStringList (map_of r key))"
      using m assms(2,3) by (auto simp: named_paths_def agentJobResultString_def)
    then show ?thesis
    proof cases
      case 2
      with assms(1) [OF 2(2,3)] resultStringList_trimmed [OF 2(3)] show ?thesis by (auto intro: classify_escaping)
    qed (simp add: classifyAgentJobPathEvidence_def)
  qed
  then have "collectAgentJobPathEvidence r = []" by (simp add: collectAgentJobPathEvidence_def add_evidence_none)
  then show ?thesis by (simp add: validateAgentJobPathEvidence_def)
qed

theorem escaping_paths_unchecked_witness:
  "payloadStringList (aj_Payload scoped_job) ''allowed_paths'' = [''src''] \<and>
   resultStringList (map_of (scoped_report [''../x'']) ''changed_paths'') = [''../x''] \<and>
   validateAgentJobPathEvidence (report_world_demo\<lparr>rw_exists := \<lambda>_. False\<rparr>) scoped_job (scoped_report [''../x'']) = None"
proof -
  have l: "resultStringList (map_of (scoped_report [''../x'']) ''changed_paths'') = [''../x'']"
    "resultStringList (map_of (scoped_report [''../x'']) ''touched_paths'') = []"
    "resultStringList (map_of (scoped_report [''../x'']) ''artifact_relative_paths'') = []"
    "map_of (scoped_report [''../x'']) ''artifact_relative_path'' = None" "map_of (scoped_report [''../x'']) ''artifact_path'' = None"
    "path_elements ''../x'' = [''..'', ''x'']" "\<not> IsAbs ''../x''" by code_simp+
  have "validateAgentJobPathEvidence (report_world_demo\<lparr>rw_exists := \<lambda>_. False\<rparr>) scoped_job (scoped_report [''../x'']) = None"
    by (rule escaping_paths_unchecked) (use l in auto)
  then show ?thesis using l(1) scoped_lists(1) by blast
qed

section \<open>Dispatch\<close>

text \<open>C14. Only text-native lanes are closed by a dispatch. A dispatch of a job whose role is neither planner nor designer
  returns the stored job, running, or failed when the gateway call it reads back failed; it never reports success.\<close>

theorem dispatch_leaves_job_open:
  assumes "DispatchAgentJob fuel w es jobID s = (Inr r, t)" "job_of s jobID = Some job"
    "TrimSpace (aj_Role job) \<notin> {''planner'', ''designer''}"
  shows "job_of t jobID = Some (ad_Job r) \<and>
    aj_Status (ad_Job r) = (if gc_Status (ad_Gateway r) = ''failed'' then ''failed'' else ''running'')"
proof -
  from assms(1) obtain f where f: "fuel = Suc f" by (cases fuel) auto
  from assms(1) obtain final policy gateway result t0 where
    d: "dispatch_steps w es jobID s = (Inr (final, policy, gateway, result), t0)"
    by (auto simp: f DispatchAgentJob_Suc simp del: DispatchAgentJob.simps split: prod.splits sum.splits)
  note st = dispatch_status [OF d]
  have "\<not> jobAllowsDirectLLMAutoClose final gateway"
    using st(2) assms(2,3) by (auto simp: jobAllowsDirectLLMAutoClose_def)
  then have r: "r = \<lparr>ad_Job = final, ad_Policy = policy, ad_Gateway = gateway\<rparr>" "t = notify_dispatch w (es [5]) final gateway t0"
    using assms(1) d by (simp_all add: f DispatchAgentJob_Suc del: DispatchAgentJob.simps)
  have "sv_agentJob t = sv_agentJob t0" using r(2) jobs_core [OF notify_core] by simp
  then show ?thesis using st(1,3) r(1) by simp
qed

theorem dispatch_leaves_job_open_witness:
  "\<exists>r t. DispatchAgentJob 1 job_world (\<lambda>_. demo_env) ''j1'' retry_service = (Inr r, t) \<and> job_of t ''j1'' = Some (ad_Job r) \<and>
     aj_Status (ad_Job r) \<in> {''failed'', ''running''}"
proof -
  obtain r t where d: "DispatchAgentJob 1 job_world (\<lambda>_. demo_env) ''j1'' retry_service = (Inr r, t)" using retry_dispatch by blast
  have "job_of retry_service ''j1'' = Some failed_job" "TrimSpace (aj_Role failed_job) \<notin> {''planner'', ''designer''}" by code_simp+
  from dispatch_leaves_job_open [OF d this] d show ?thesis by auto
qed

text \<open>C29. A retry does not read its own answer. When a job without a council is dispatched again while a failed call
  of an earlier dispatch is stored under the job, one more call is stored, but the dispatch answers with the old
  call and stores the job as failed, whatever the provider answered this time.\<close>

theorem retry_reads_first_call:
  assumes "DispatchAgentJob fuel w es jobID s = (Inr r, t)" "job_of s jobID = Some job"
    "pl_council (plan_dispatch w (es [0]) job) = None"
    "gatewayStore_get (sv_gateway s) (''gateway_job_'' @ jobID) = Some old" "gc_Status old = ''failed''"
  shows "ad_Gateway r = old \<and> aj_Status (ad_Job r) = ''failed'' \<and> job_of t jobID = Some (ad_Job r) \<and>
    length (sv_gateway t) = Suc (length (sv_gateway s))"
proof -
  from assms(1) obtain f where f: "fuel = Suc f" by (cases fuel) auto
  from assms(1) obtain final policy gateway result t0 where
    d: "dispatch_steps w es jobID s = (Inr (final, policy, gateway, result), t0)"
    by (auto simp: f DispatchAgentJob_Suc simp del: DispatchAgentJob.simps split: prod.splits sum.splits)
  note st = dispatch_status [OF d] and g = dispatch_reads_first_call [OF d assms(2-4)]
  have "\<not> jobAllowsDirectLLMAutoClose final gateway" using g(1) assms(5) by (simp add: jobAllowsDirectLLMAutoClose_def)
  then have r: "r = \<lparr>ad_Job = final, ad_Policy = policy, ad_Gateway = gateway\<rparr>" "t = notify_dispatch w (es [5]) final gateway t0"
    using assms(1) d by (simp_all add: f DispatchAgentJob_Suc del: DispatchAgentJob.simps)
  have "sv_agentJob t = sv_agentJob t0" "sv_gateway t = sv_gateway t0" using r(2) core_job_call [OF notify_core] by simp_all
  then show ?thesis using st(1,3) g assms(5) r(1) by simp
qed

theorem retry_reads_first_call_witness:
  "\<exists>r t. DispatchAgentJob 1 job_world (\<lambda>_. demo_env) ''j1'' retry_service = (Inr r, t) \<and> ad_Gateway r = old_call \<and>
     aj_Status (ad_Job r) = ''failed'' \<and> length (sv_gateway t) = 2"
proof -
  obtain r t where d: "DispatchAgentJob 1 job_world (\<lambda>_. demo_env) ''j1'' retry_service = (Inr r, t)" using retry_dispatch by blast
  have f: "job_of retry_service ''j1'' = Some failed_job" "gc_Status old_call = ''failed''"
    "gatewayStore_get (sv_gateway retry_service) (''gateway_job_'' @ ''j1'') = Some old_call" "length (sv_gateway retry_service) = 1"
    by code_simp+
  have "pl_council (plan_dispatch job_world demo_env failed_job) = None" by (simp add: retry_start(1) retry_plan_def)
  from retry_reads_first_call [OF d f(1) this f(3,2)] d f(4) show ?thesis by auto
qed

text \<open>C15. Chained dispatch ends. The load of the waiting jobs (one for each, and one for each node of the JSON of its chain rules)
  bounds how deep dispatches nest: with any fuel above it a dispatch gives the same outcome and the same service,
  so the fuel never runs out, and the load is not higher afterwards.\<close>

theorem dispatch_ends:
  assumes "pending s < fuel"
  shows "DispatchAgentJob fuel w es jobID s = DispatchAgentJob (Suc (pending s)) w es jobID s \<and>
    pending (snd (DispatchAgentJob fuel w es jobID s)) \<le> pending s"
  using DispatchAgentJob_fuel [OF lessI assms] DispatchAgentJob_pending by blast

theorem dispatch_ends_witness:
  "pending retry_service = 1 \<and>
   DispatchAgentJob 9 job_world (\<lambda>_. demo_env) ''j1'' retry_service = DispatchAgentJob 2 job_world (\<lambda>_. demo_env) ''j1'' retry_service"
proof -
  have p: "pending retry_service = 1" by code_simp
  have "pending retry_service < 9" unfolding p by simp
  from dispatch_ends [OF this, of job_world "\<lambda>_. demo_env" "''j1''"]
  show ?thesis by (simp only: p Suc_1 simp_thms)
qed

section \<open>Providers\<close>



end
