(* ===== verification/Spec2Isabelle.thy ===== *)
theory Spec2Isabelle
  imports Guarantees Guarantees_Ops Guarantees_Access Guarantees_Persist Guarantees_Room
    Guarantees_Intake Guarantees_Sessions Guarantees_Restart Guarantees_Jobs Draft_Seed
begin

text \<open>
  A model of the runtime of layeros (\<open>src/internal/runtime\<close> and the write guard of \<open>src/internal/api\<close>), with its
  guarantees.

  \<^bold>\<open>The program.\<close> One service object (\<open>service.go\<close>) holds the state of a company: work items, flows, approvals,
  releases, deploys, policies, executions, verifications, gateway calls, branches, proposals, agent jobs,
  observations, continuity records, the system memory, the review room, the tokens that may write, and an
  event log. A request takes the service lock, validates, changes stores, records an event, may open or resolve items of
  the review room, and saves. A failing step puts the old values back. Saving writes the
  files of the domains whose encoding changed, under a lease that keeps other processes out. The HTTP layer
  lets a write pass by origin, token and failure counters. Sessions leave checkpoints and notes for the next
  session, sources come in as observations and go on to draft seeds and proposals. Agent jobs are dispatched to
  model providers through gateway adapters, reported with evidence, and start further jobs by chain rules.

  \<^bold>\<open>How it is modelled.\<close> Stores are lists or records, the service is the record \<open>Service\<close>, and an operation is a
  function from an environment, its arguments and the service to an outcome: an error or a value, with the service it
  leaves. The environment \<open>env\<close> holds what the operating system decides during the call: clock readings by
  index, environment variables, which writes fail. Go strings are byte lists and the functions of \<open>strings\<close> are
  defined on them, with UTF-8 where the program counts or cuts runes. Pointers that are shared (the map of scoped
  tokens) have an explicit store. Where the source reads the clock several times each reading has its own
  index, so no result assumes two readings to be equal; \<open>clock_ok\<close> only says that no reading is the zero time.

  \<^bold>\<open>Theories and sources.\<close>
  \<^item> \<open>Prelude\<close>: strings, trimming, lower case, numbers, slices, lookups. \<open>Json_Value\<close>: \<open>json_value.go\<close>. \<open>Sha256\<close>: the digest.
    \<open>Stable_Sort\<close>: stable sorting for a strict weak order (locale \<open>weak_order\<close>).
  \<^item> \<open>Workflow_Types\<close>, \<open>Job_Types\<close>: the records of \<open>types_workflow.go\<close> and \<open>types_jobs.go\<close> with their validation. \<open>Stores\<close>: one
    store per file \<open>work.go\<close> to \<open>memory.go\<close>, with the contracts \<open>append_store\<close>, \<open>keyed_store\<close>, \<open>unique_store\<close>. \<open>Event_Store\<close>: \<open>event.go\<close>.
  \<^item> \<open>Review_Room\<close>, \<open>Review_Room_Props\<close>: \<open>review_room*.go\<close>. \<open>Auth\<close>: \<open>auth.go\<close>, \<open>operator_identity.go\<close>. \<open>Policy\<close>: \<open>authority.go\<close>, \<open>adapter*.go\<close>,
    \<open>verify_command.go\<close>. \<open>Write_Guard\<close>: \<open>security_guard.go\<close> and the gates of \<open>router.go\<close>.
  \<^item> \<open>Text_Mask\<close>: masking of conversation text with a matcher for its regular expressions. \<open>Text_Limits\<close>: that cutting
    a text to a number of runes keeps to it. \<open>Continuity\<close>: \<open>continuity.go\<close>. \<open>Observations\<close>: \<open>observation*.go\<close>.
    \<open>Capitalization\<close>: the entry of a finished session.
  \<^item> \<open>Persist\<close>, \<open>Persist_Props\<close>: \<open>persistLocked\<close>, the lease, the archive. \<open>Startup\<close>: \<open>NewService\<close> and the loaders.
  \<^item> \<open>Service_Core\<close>, \<open>Service_Ops\<close>, \<open>Service_Runs\<close>, \<open>Service_Jobs\<close>: the operations of \<open>service*.go\<close>. \<open>Service_Sessions\<close>: events,
    observations and sessions. \<open>Source_Intake\<close>, \<open>Source_Intake_Props\<close>, \<open>Draft_Seed\<close>, \<open>Service_Intake\<close>: \<open>source_intake*.go\<close> up to the draft lane.
  \<^item> \<open>File_Path\<close>: the functions of \<open>path/filepath\<close> that reports use. \<open>Json_Decode\<close>: reading JSON into structs. \<open>Job_Report\<close>,
    \<open>Service_Report\<close>: \<open>service_job_report.go\<close> and \<open>service_job_chain.go\<close>. \<open>Provider_Roster\<close>: \<open>capability_registry.go\<close>,
    \<open>provider_auth.go\<close>, \<open>network_policy.go\<close> and the role tables of \<open>service_job_dispatch.go\<close>. \<open>Gateway_Adapters\<close>: \<open>adapter.go\<close>,
    \<open>adapter_router.go\<close> and the adapters of the model services. \<open>Job_Dispatch\<close>: \<open>service_job_dispatch.go\<close>, \<open>service_job_council.go\<close>.
    \<open>Job_Report_Props\<close>, \<open>Service_Report_Props\<close>, \<open>Gateway_Adapter_Props\<close>, \<open>Job_Dispatch_Props\<close>, \<open>Chain_Bound\<close>: their lemmas, with the contracts
    \<open>job_dispatcher\<close> (a dispatch leaves settled jobs alone) and \<open>bounded_dispatcher\<close>, \<open>agreeing_dispatchers\<close> (it does not add
    load), which the report relies on and the dispatch provides. \<open>Job_Live\<close>, \<open>Job_Demo\<close>, \<open>Dispatch_Demo\<close>: availability and runs.
  \<^item> \<open>Service_Logic\<close> and \<open>Service_Specs\<close> to \<open>Service_Specs4\<close>: a small program logic (\<open>sat\<close>) for outcomes and the
    specification of every operation; \<open>Observation_Specs\<close> and \<open>Session_Specs\<close> do this for observations and sessions.
    \<open>Transactions\<close>: the abstract machine of atomic requests. \<open>Service_Machine\<close>: the service as an instance of it.
    \<open>Service_Invariants\<close>, \<open>Service_Histories\<close>, \<open>Service_Live\<close>: invariants, histories, availability. \<open>Demo\<close>: data for the witnesses.

  \<^bold>\<open>What is shown.\<close>
  \<^item> \<open>Guarantees\<close> (C1 to C7): requests are atomic and a history is the sequence of its accepted requests; stored
    records are valid, identifiers unique, counters exact, references resolved; valid requests are accepted.
  \<^item> \<open>Guarantees_Ops\<close>: releases need approvals, gateway calls and executions a policy decision, promotions and
    merges happen once, a synchronised flow has its derived status.
  \<^item> \<open>Guarantees_Access\<close>: what the write gate lets pass, the throttle, tokens and their roundtrip, and two defects.
  \<^item> \<open>Guarantees_Persist\<close>: durability, the lease, clean files, and two defects of a failing save.
    \<open>Guarantees_Restart\<close>: the next start finds what was saved.
  \<^item> \<open>Guarantees_Room\<close>: the event log is complete; items of the room are unique, move as a whole, are resolved by
    evidence in a loop that ends, and the seal shows drift; the policy table is total.
  \<^item> \<open>Guarantees_Intake\<close>: the text of a source reads back, a red source is reviewed, how an excerpt avoids the review,
    what a query returns. \<open>Guarantees_Sessions\<close>: the continuity store stays well formed, a checkpoint is recorded.
  \<^item> \<open>Guarantees_Jobs\<close>: a verdict stands through the automation it starts and its paths are in scope; a dispatch closes only
    text-native jobs, ends, and asks a provider a bounded number of times; two defects of evidence and retries.

  \<^bold>\<open>Termination, bounds, clock.\<close> All definitions are total. Loops of the source are structural recursion or have a measure:
  trimming and rune decoding by the length of the text, the resolution by evidence by the number of open items. Only
  \<open>DispatchAgentJob\<close> has fuel, for the dispatches that the chain of its own report starts; \<open>dispatch_ends\<close> shows that any fuel above
  the load of the waiting jobs and their chain rules gives the same result, so it never runs out. The width of integers matters for SHA-256
  and CRC-32, which use 32-bit words; counters and times are integers, as no computation of the source
  comes near the 64-bit bounds. Event windows, note histories and texts have the limits of the source.

  \<^bold>\<open>Parameters.\<close> JSON encoding (\<open>en_marshal\<close>) is any function, and decoding (\<open>disk_reader\<close>) any function that
  reads back what was encoded where a theorem says so; URL and address parsing, deploy adapters, the network behind
  the gateway adapters, the prompt text, the run packet of a job, the Telegram transport, which paths exist, the audits
  that promote items, the formatting of times and floats and the hash of a room are arguments. \<open>ToLower\<close> folds ASCII letters and the two runes whose
  lower case is ASCII.

  \<^bold>\<open>Not modelled.\<close> Knowledge packets, the promotion of jobs from them, founder views, dashboards and audits, which are
  projections or compose operations of the model; publish preparation and the ingestion of feeds; conversation
  automation and observation links; the Telegram front end, HTTP decoding, daemon loops and the command-line
  client, which are input and output around the service.
  Requests are the units of interleaving, as every operation holds the service lock for its whole duration; reports,
  dispatches and the lanes of the source intake call the service several times and are modelled as calls that follow each
  other directly.
\<close>

end
